(* ===== verification/CES_Prelude.thy ===== *)
theory CES_Prelude
  imports Main "HOL-Library.AList" "HOL-Library.Word" "HOL-Library.Multiset"
    "HOL-Library.List_Lexorder" "HOL-Library.Char_ord" "HOL-Library.Signed_Division"
begin

text \<open>
  Shared vocabulary of the development.

  \<^item> The C++ integer types: \<open>uid_t\<close>, \<open>AccessTokenID\<close> and \<open>uint16_t\<close> are words of
    their width; \<open>int32_t\<close> values that are only compared are \<open>int\<close>, and the casts the
    source writes are \<open>to_int32\<close> and \<open>to_uid\<close>.
  \<^item> The containers: \<open>std::unordered_map\<close> is an association list with distinct keys whose
    order stands for one iteration order; \<open>std::map\<close> is an association list sorted by
    its keys.  Both are instances of the locale \<open>dict\<close>, whose client lemmas are proved
    once.
  \<^item> \<open>std::set_difference\<close>, \<open>std::remove_if\<close> and \<open>vector::erase\<close> as list functions.
\<close>

unbundle bit_operations_syntax

named_theorems ces_spec \<open>functional characterisations of operations\<close>
named_theorems ces_inv \<open>invariant preservation, one fact per operation\<close>
named_theorems ces_frame \<open>parts of the state an operation leaves alone\<close>

type_synonym uid_t = "32 word"
type_synonym token_id = "32 word"
type_synonym uint16 = "16 word"
type_synonym uint64 = "64 word"
type_synonym pid_t = int
type_synonym int32 = int
type_synonym int64 = int
type_synonym remote = nat \<comment> \<open>the address of an \<open>IRemoteObject\<close>\<close>

definition to_int32 :: "uid_t \<Rightarrow> int32" where
  "to_int32 u = sint u"

definition to_uid :: "int32 \<Rightarrow> uid_t" where
  "to_uid i = word_of_int i"

lemma to_uid_to_int32 [simp]: "to_uid (to_int32 u) = u"
  by (simp add: to_uid_def to_int32_def)

section \<open>Dictionaries\<close>

text \<open>
  The contract of the two standard maps, as the services use it: a lookup after an
  insertion or an erasure, and the representation invariant both keep.
\<close>

locale dict =
  fixes emp :: "'m"
    and get :: "'m \<Rightarrow> 'k \<Rightarrow> 'v option"
    and put :: "'k \<Rightarrow> 'v \<Rightarrow> 'm \<Rightarrow> 'm"
    and del :: "'k \<Rightarrow> 'm \<Rightarrow> 'm"
    and ok :: "'m \<Rightarrow> bool"
  assumes get_emp: "get emp k = None"
    and ok_emp: "ok emp"
    and get_put: "ok m \<Longrightarrow> get (put k v m) k' = (if k' = k then Some v else get m k')"
    and get_del: "ok m \<Longrightarrow> get (del k m) k' = (if k' = k then None else get m k')"
    and ok_put: "ok m \<Longrightarrow> ok (put k v m)"
    and ok_del: "ok m \<Longrightarrow> ok (del k m)"
begin

lemma get_put_same: "ok m \<Longrightarrow> get (put k v m) k = Some v"
  by (simp add: get_put)

lemma get_put_other: "ok m \<Longrightarrow> k' \<noteq> k \<Longrightarrow> get (put k v m) k' = get m k'"
  by (simp add: get_put)

lemma get_del_same: "ok m \<Longrightarrow> get (del k m) k = None"
  by (simp add: get_del)

lemma get_fold_del:
  "ok m \<Longrightarrow> ok (fold del ks m) \<and>
     get (fold del ks m) k = (if k \<in> set ks then None else get m k)"
  by (induction ks arbitrary: m) (auto simp: get_del ok_del)

lemma get_fold_put:
  "ok m \<Longrightarrow> ok (fold (\<lambda>(k, v). put k v) kvs m) \<and>
     get (fold (\<lambda>(k, v). put k v) kvs m) k =
       (case map_of (rev kvs) k of None \<Rightarrow> get m k | Some v \<Rightarrow> Some v)"
  by (induction kvs arbitrary: m)
    (auto simp: get_put ok_put map_add_def split: option.splits)

end

subsection \<open>\<open>std::unordered_map\<close>\<close>

type_synonym ('k, 'v) umap = "('k \<times> 'v) list"

abbreviation umap_ok :: "('k, 'v) umap \<Rightarrow> bool" where
  "umap_ok m \<equiv> distinct (map fst m)"

interpretation umap: dict "[]" map_of AList.update AList.delete umap_ok
  by unfold_locales (auto simp: update_conv' delete_conv' distinct_update distinct_delete)

subsection \<open>\<open>std::map\<close>\<close>

type_synonym ('k, 'v) omap = "('k \<times> 'v) list"

abbreviation omap_ok :: "('k::linorder, 'v) omap \<Rightarrow> bool" where
  "omap_ok m \<equiv> sorted_wrt (<) (map fst m)"

fun omap_put :: "'k::linorder \<Rightarrow> 'v \<Rightarrow> ('k, 'v) omap \<Rightarrow> ('k, 'v) omap" where
  "omap_put k v [] = [(k, v)]"
| "omap_put k v ((k', v') # m) =
     (if k < k' then (k, v) # (k', v') # m
      else if k = k' then (k, v) # m
      else (k', v') # omap_put k v m)"

lemma map_of_omap_put: "map_of (omap_put k v m) = (map_of m)(k \<mapsto> v)"
  by (induction m) (auto simp: fun_eq_iff)

lemma keys_omap_put: "fst ` set (omap_put k v m) = insert k (fst ` set m)"
  by (simp add: dom_map_of_conv_image_fst [symmetric] map_of_omap_put)

lemma omap_ok_put: "omap_ok m \<Longrightarrow> omap_ok (omap_put k v m)"
  by (induction k v m rule: omap_put.induct) (auto simp: keys_omap_put)

lemma omap_ok_delete: "omap_ok m \<Longrightarrow> omap_ok (AList.delete k m)"
  by (induction m) (auto simp: AList.delete_eq)

lemma omap_ok_distinct: "omap_ok m \<Longrightarrow> umap_ok m"
  by (induction m) auto

interpretation omap: dict "[]" map_of omap_put AList.delete omap_ok
  by unfold_locales (auto simp: map_of_omap_put delete_conv' omap_ok_put omap_ok_delete)

section \<open>Standard library functions\<close>

text \<open>\<open>operator[]\<close> of a map of vectors and of a map of counters: the entry is created when
  it is missing.\<close>

definition at_vec :: "('k, 'v list) umap \<Rightarrow> 'k \<Rightarrow> 'v list" where
  "at_vec m k = (case map_of m k of None \<Rightarrow> [] | Some v \<Rightarrow> v)"

definition at_num :: "('k, nat) umap \<Rightarrow> 'k \<Rightarrow> nat" where
  "at_num m k = (case map_of m k of None \<Rightarrow> 0 | Some n \<Rightarrow> n)"

text \<open>\<open>std::set_difference\<close> on two sorted ranges.\<close>

fun set_difference :: "'a::linorder list \<Rightarrow> 'a list \<Rightarrow> 'a list" where
  "set_difference [] ys = []"
| "set_difference (x # xs) [] = x # xs"
| "set_difference (x # xs) (y # ys) =
     (if x < y then x # set_difference xs (y # ys)
      else if y < x then set_difference (x # xs) ys
      else set_difference xs ys)"

lemma mset_set_difference:
  "sorted xs \<Longrightarrow> sorted ys \<Longrightarrow> mset (set_difference xs ys) = mset xs - mset ys"
proof (induction xs ys rule: set_difference.induct)
  case (3 x xs y ys)
  then have notin: "x < y \<Longrightarrow> x \<notin># mset (y # ys)" "y < x \<Longrightarrow> y \<notin># mset (x # xs)"
    by auto
  show ?case
  proof (cases x y rule: linorder_cases)
    case less
    then have "mset (x # xs) - mset (y # ys) = add_mset x (mset xs - mset (y # ys))"
      using notin(1) by (metis add_mset_diff_bothsides diff_add_mset_swap mset.simps(2))
    then show ?thesis using less 3 by simp
  next
    case equal
    then show ?thesis using 3 by simp
  next
    case greater
    then have "mset (x # xs) - mset (y # ys) = mset (x # xs) - mset ys"
      using notin(2) by (metis diff_single_trivial diff_diff_add_mset mset.simps(2)
        diff_union_swap2 add_mset_add_single union_commute)
    then show ?thesis using greater 3 by auto
  qed
qed simp_all

lemma set_set_difference:
  "sorted xs \<Longrightarrow> sorted ys \<Longrightarrow> distinct xs \<Longrightarrow>
     set (set_difference xs ys) = set xs - set ys"
  by (induction xs ys rule: set_difference.induct) force+

text \<open>\<open>std::to_string\<close> on the integer types.\<close>

definition digit :: "nat \<Rightarrow> char" where
  "digit d = char_of (48 + d)"

fun nat_digits :: "nat \<Rightarrow> string" where
  "nat_digits n = (if n < 10 then [digit n] else nat_digits (n div 10) @ [digit (n mod 10)])"

declare nat_digits.simps [simp del]

definition to_string :: "int \<Rightarrow> string" where
  "to_string i = (if i < 0 then CHR ''-'' # nat_digits (nat (- i)) else nat_digits (nat i))"

end
