(* ===== verification/Event_Types.thy ===== *)
theory Event_Types
  imports CES_Prelude
begin

text \<open>
  The data the service passes around: the constants of \<open>common_event_constant.h\<close> and
  \<open>ces_inner_error_code.h\<close>, \<open>MatchingSkills\<close>, \<open>CommonEventSubscribeInfo\<close>,
  \<open>CommonEventPublishInfo\<close> and \<open>CommonEventData\<close> of the native framework, and the
  records of the service (\<open>common_event_record.h\<close>, \<open>common_event_subscriber_manager.h\<close>,
  \<open>ordered_event_record.h\<close>).

  \<open>Want\<close> is a class of another repository; the record below holds what its accessors
  return to this code.  \<open>struct tm\<close> is kept as the \<open>time_t\<close> that \<open>mktime\<close> makes of it.
  Pointers: \<open>CommonEventData\<close> and \<open>CommonEventPublishInfo\<close> of one publication are
  allocated together and always copied together, so a \<open>CommonEventRecord\<close> holds one
  \<open>payload_ptr\<close> for the pair; the cell it points to is shared by every copy of the record.
\<close>

section \<open>Constants\<close>

definition ALL_USER :: int32 where "ALL_USER = -1"
definition CURRENT_USER :: int32 where "CURRENT_USER = -2"
definition UNDEFINED_USER :: int32 where "UNDEFINED_USER = -3"
definition SUBSCRIBE_USER_SYSTEM_BEGIN :: int32 where "SUBSCRIBE_USER_SYSTEM_BEGIN = 0"
definition SUBSCRIBE_USER_SYSTEM_END :: int32 where "SUBSCRIBE_USER_SYSTEM_END = 99"
definition UNDEFINED_PID :: pid_t where "UNDEFINED_PID = -1"
definition MAX_SUBSCRIBER_NUM_PER_EVENT :: nat where "MAX_SUBSCRIBER_NUM_PER_EVENT = 255"
definition DEFAULT_VERSION :: int32 where "DEFAULT_VERSION = -1"
definition FOUNDATION_UID :: uid_t where "FOUNDATION_UID = 5523"
definition SAMGR_UID :: uid_t where "SAMGR_UID = 5555"
definition UNINITIALIZATED_SUBSCRIBER_TYPE :: int32 where "UNINITIALIZATED_SUBSCRIBER_TYPE = -1"
definition ALL_SUBSCRIBER_TYPE :: int32 where "ALL_SUBSCRIBER_TYPE = 0"
definition SYSTEM_SUBSCRIBER_TYPE :: int32 where "SYSTEM_SUBSCRIBER_TYPE = 1"
definition SUBSCRIBER_FILTER_BUNDLE_INDEX :: uint16 where "SUBSCRIBER_FILTER_BUNDLE_INDEX = 1"
definition SUBSCRIBER_FILTER_PERMISSION_INDEX :: uint16 where "SUBSCRIBER_FILTER_PERMISSION_INDEX = 2"
definition SUBSCRIBER_FILTER_SUBSCRIBER_TYPE_INDEX :: uint16 where
  "SUBSCRIBER_FILTER_SUBSCRIBER_TYPE_INDEX = 4"
definition SUBSCRIBER_FILTER_SUBSCRIBER_UID_INDEX :: uint16 where
  "SUBSCRIBER_FILTER_SUBSCRIBER_UID_INDEX = 8"
definition SUBSCRIBER_FILTER_VERSION :: uint16 where "SUBSCRIBER_FILTER_VERSION = 16"

lemmas user_consts = ALL_USER_def CURRENT_USER_def UNDEFINED_USER_def
  SUBSCRIBE_USER_SYSTEM_BEGIN_def SUBSCRIBE_USER_SYSTEM_END_def UNDEFINED_PID_def

lemmas filter_consts = SUBSCRIBER_FILTER_BUNDLE_INDEX_def SUBSCRIBER_FILTER_PERMISSION_INDEX_def
  SUBSCRIBER_FILTER_SUBSCRIBER_TYPE_INDEX_def SUBSCRIBER_FILTER_SUBSCRIBER_UID_INDEX_def
  SUBSCRIBER_FILTER_VERSION_def

text \<open>
  Return codes.  The codes of \<open>ces_inner_error_code.h\<close> carry their numbers; the codes of
  the base library (\<open>errors.h\<close>, another repository) are constructors, distinct and, but for
  \<open>ERR_OK\<close>, not zero.  \<open>code_to_bool\<close> is the implicit conversion to \<open>bool\<close>.
\<close>

datatype err_code = ERR_OK | ERR_INVALID_VALUE | ERR_INVALID_OPERATION | ERR_NO_INIT
  | IPC_INVOKER_ERR | ERR_UNSET | ERR_CODE nat | ERR_REMOTE int

definition code_to_bool :: "err_code \<Rightarrow> bool" where
  "code_to_bool c \<longleftrightarrow> c \<noteq> ERR_OK"

definition ERR_NOTIFICATION_CES_COMMON_PERMISSION_DENIED :: err_code where
  "ERR_NOTIFICATION_CES_COMMON_PERMISSION_DENIED = ERR_CODE 201"
definition ERR_NOTIFICATION_CES_COMMON_NOT_SYSTEM_APP :: err_code where
  "ERR_NOTIFICATION_CES_COMMON_NOT_SYSTEM_APP = ERR_CODE 202"
definition ERR_NOTIFICATION_CES_COMMON_PARAM_INVALID :: err_code where
  "ERR_NOTIFICATION_CES_COMMON_PARAM_INVALID = ERR_CODE 401"
definition ERR_NOTIFICATION_CES_COMMON_SYSTEMCAP_NOT_SUPPORT :: err_code where
  "ERR_NOTIFICATION_CES_COMMON_SYSTEMCAP_NOT_SUPPORT = ERR_CODE 801"
definition ERR_NOTIFICATION_CES_EVENT_FREQ_TOO_HIGH :: err_code where
  "ERR_NOTIFICATION_CES_EVENT_FREQ_TOO_HIGH = ERR_CODE 1500003"
definition ERR_NOTIFICATION_CES_NOT_SA_SYSTEM_APP :: err_code where
  "ERR_NOTIFICATION_CES_NOT_SA_SYSTEM_APP = ERR_CODE 1500004"
definition ERR_NOTIFICATION_CES_USERID_INVALID :: err_code where
  "ERR_NOTIFICATION_CES_USERID_INVALID = ERR_CODE 1500006"
definition ERR_NOTIFICATION_SEND_ERROR :: err_code where
  "ERR_NOTIFICATION_SEND_ERROR = ERR_CODE 1500007"
definition ERR_NOTIFICATION_CESM_ERROR :: err_code where
  "ERR_NOTIFICATION_CESM_ERROR = ERR_CODE 1500008"
definition ERR_NOTIFICATION_SYS_ERROR :: err_code where
  "ERR_NOTIFICATION_SYS_ERROR = ERR_CODE 1500009"
definition ERR_NOTIFICATION_CES_SUBSCRIBE_EXCEED_LIMIT :: err_code where
  "ERR_NOTIFICATION_CES_SUBSCRIBE_EXCEED_LIMIT = ERR_CODE 1500010"

lemmas err_consts = ERR_NOTIFICATION_CES_COMMON_PERMISSION_DENIED_def
  ERR_NOTIFICATION_CES_COMMON_NOT_SYSTEM_APP_def
  ERR_NOTIFICATION_CES_COMMON_PARAM_INVALID_def
  ERR_NOTIFICATION_CES_COMMON_SYSTEMCAP_NOT_SUPPORT_def
  ERR_NOTIFICATION_CES_EVENT_FREQ_TOO_HIGH_def
  ERR_NOTIFICATION_CES_NOT_SA_SYSTEM_APP_def
  ERR_NOTIFICATION_CES_USERID_INVALID_def
  ERR_NOTIFICATION_SEND_ERROR_def
  ERR_NOTIFICATION_CESM_ERROR_def
  ERR_NOTIFICATION_SYS_ERROR_def
  ERR_NOTIFICATION_CES_SUBSCRIBE_EXCEED_LIMIT_def

section \<open>Values of the native framework\<close>

datatype want_value = WBool bool | WInt int32 | WDouble int | WString string | WOther

record Want =
  w_action :: string
  w_entities :: "string list"
  w_scheme :: string
  w_bundle :: string \<comment> \<open>\<open>GetElement().GetBundleName()\<close>\<close>
  w_ability :: string
  w_params :: "(string, want_value) umap"
  w_uri :: string
  w_flags :: "32 word"
  w_type :: string

record MatchingSkills =
  ms_entities :: "string list"
  ms_events :: "string list"
  ms_schemes :: "string list"

datatype ThreadMode = HANDLER | POST | ASYNC | BACKGROUND | COMMON

record CommonEventSubscribeInfo =
  si_matchingSkills :: MatchingSkills
  si_priority :: int32
  si_userId :: int32
  si_permission :: string
  si_deviceId :: string
  si_threadMode :: ThreadMode
  si_publisherBundleName :: string
  si_publisherUid :: int32

datatype ValidationRule = RuleAND | RuleOR

record CommonEventPublishInfo =
  pi_sticky :: bool
  pi_ordered :: bool
  pi_bundleName :: string
  pi_subscriberPermissions :: "string list"
  pi_subscriberUids :: "int32 list"
  pi_subscriberType :: int32
  pi_rule :: ValidationRule
  pi_maximumVersion :: int32

record CommonEventData =
  cd_want :: Want
  cd_code :: int32
  cd_data :: string

section \<open>Records of the service\<close>

type_synonym payload_ptr = nat
type_synonym sub_ptr = nat
type_synonym ord_ptr = nat

record EventRecordInfo =
  isSubsystem :: bool
  isSystemApp :: bool
  isProxy :: bool
  pid :: pid_t
  uid :: uid_t
  callerToken :: token_id
  bundleName :: string
  subId :: string

record payload =
  commonEventData :: CommonEventData
  publishInfo :: CommonEventPublishInfo

record CommonEventRecord =
  isSystemEvent :: bool
  userId :: int32
  payloadPtr :: payload_ptr
  recordTime :: int64
  eventRecordInfo :: EventRecordInfo

record EventSubscriberRecord =
  isFreeze :: bool
  subRecordTime :: int64
  freezeTime :: int64
  eventSubscribeInfo :: CommonEventSubscribeInfo
  commonEventListener :: remote
  subRecordInfo :: EventRecordInfo

datatype EventState = IDLE | RECEIVING | RECEIVED

datatype DeliveryState = PENDING | DELIVERED | SKIPPED | TIMEOUT

text \<open>
  \<open>state\<close> is an \<open>int8_t\<close> into which the code stores values of both enumerations, so it
  is kept as the number.
\<close>

fun event_code :: "EventState \<Rightarrow> int" where
  "event_code IDLE = 0"
| "event_code RECEIVING = 1"
| "event_code RECEIVED = 2"

fun delivery_code :: "DeliveryState \<Rightarrow> int" where
  "delivery_code PENDING = 0"
| "delivery_code DELIVERED = 1"
| "delivery_code SKIPPED = 2"
| "delivery_code TIMEOUT = 3"

record OrderedEventRecord = CommonEventRecord +
  resultAbort :: bool
  state :: int
  nextReceiver :: nat
  dispatchTime :: int64
  receiverTime :: int64
  resultTo :: "remote option"
  curReceiver :: "remote option"
  deliveryState :: "DeliveryState list"
  receivers :: "sub_ptr list"

text \<open>\<open>OrderedEventRecord()\<close> followed by \<open>FillCommonEventRecord\<close>: the copied members
  do not include \<open>isSystemEvent\<close>, which keeps the constructor's \<open>false\<close>.\<close>

definition FillCommonEventRecord :: "CommonEventRecord \<Rightarrow> OrderedEventRecord" where
  "FillCommonEventRecord r =
     \<lparr>isSystemEvent = False, userId = userId r, payloadPtr = payloadPtr r,
      recordTime = recordTime r, eventRecordInfo = eventRecordInfo r,
      resultAbort = False, state = event_code IDLE, nextReceiver = 0, dispatchTime = 0,
      receiverTime = 0, resultTo = None, curReceiver = None, deliveryState = [],
      receivers = []\<rparr>"

text \<open>\<open>std::make_shared<CommonEventRecord>(*eventRecord)\<close>: the slice of an ordered record
  that the frozen-event store copies.\<close>

definition slice :: "OrderedEventRecord \<Rightarrow> CommonEventRecord" where
  "slice r = \<lparr>isSystemEvent = isSystemEvent r, userId = userId r, payloadPtr = payloadPtr r,
     recordTime = recordTime r, eventRecordInfo = eventRecordInfo r\<rparr>"

lemma FillCommonEventRecord_simps [simp]:
  "isSystemEvent (FillCommonEventRecord r) = False"
  "userId (FillCommonEventRecord r) = userId r"
  "payloadPtr (FillCommonEventRecord r) = payloadPtr r"
  "recordTime (FillCommonEventRecord r) = recordTime r"
  "eventRecordInfo (FillCommonEventRecord r) = eventRecordInfo r"
  "state (FillCommonEventRecord r) = 0"
  "nextReceiver (FillCommonEventRecord r) = 0"
  "deliveryState (FillCommonEventRecord r) = []"
  "receivers (FillCommonEventRecord r) = []"
  "resultAbort (FillCommonEventRecord r) = False"
  "dispatchTime (FillCommonEventRecord r) = 0"
  "receiverTime (FillCommonEventRecord r) = 0"
  "resultTo (FillCommonEventRecord r) = None"
  "curReceiver (FillCommonEventRecord r) = None"
  by (simp_all add: FillCommonEventRecord_def)

end
