(* ===== verification/Matching_Skills.thy ===== *)
theory Matching_Skills
  imports Event_Types
begin

text \<open>
  \<open>MatchingSkills\<close> (\<open>matching_skills.cpp\<close>): the lists of events, entities and schemes a
  subscriber names, their add/remove/has/get operations, and the match against a \<open>Want\<close>.
  The three lists share their operations, written here once over a list of strings
  (\<open>add_unique\<close>, \<open>remove1\<close>, \<open>get_at\<close>).
\<close>

section \<open>List operations\<close>

definition add_unique :: "string \<Rightarrow> string list \<Rightarrow> string list" where
  "add_unique s xs = (if s \<in> set xs then xs else xs @ [s])"

definition get_at :: "string list \<Rightarrow> nat \<Rightarrow> string" where
  "get_at xs i = (if i < length xs then xs ! i else [])"

lemma set_add_unique [simp]: "set (add_unique s xs) = insert s (set xs)"
  by (auto simp: add_unique_def)

lemma distinct_add_unique: "distinct xs \<Longrightarrow> distinct (add_unique s xs)"
  by (auto simp: add_unique_def)

section \<open>Operations\<close>

definition GetEntity :: "MatchingSkills \<Rightarrow> nat \<Rightarrow> string" where
  "GetEntity m i = get_at (ms_entities m) i"

definition AddEntity :: "string \<Rightarrow> MatchingSkills \<Rightarrow> MatchingSkills" where
  "AddEntity e m = m\<lparr>ms_entities := add_unique e (ms_entities m)\<rparr>"

definition HasEntity :: "MatchingSkills \<Rightarrow> string \<Rightarrow> bool" where
  "HasEntity m e = (e \<in> set (ms_entities m))"

definition RemoveEntity :: "string \<Rightarrow> MatchingSkills \<Rightarrow> MatchingSkills" where
  "RemoveEntity e m = m\<lparr>ms_entities := remove1 e (ms_entities m)\<rparr>"

definition CountEntities :: "MatchingSkills \<Rightarrow> nat" where
  "CountEntities m = length (ms_entities m)"

definition AddEvent :: "string \<Rightarrow> MatchingSkills \<Rightarrow> MatchingSkills" where
  "AddEvent e m = m\<lparr>ms_events := add_unique e (ms_events m)\<rparr>"

definition CountEvent :: "MatchingSkills \<Rightarrow> nat" where
  "CountEvent m = length (ms_events m)"

definition GetEvent :: "MatchingSkills \<Rightarrow> nat \<Rightarrow> string" where
  "GetEvent m i = get_at (ms_events m) i"

definition GetEvents :: "MatchingSkills \<Rightarrow> string list" where
  "GetEvents m = ms_events m"

definition RemoveEvent :: "string \<Rightarrow> MatchingSkills \<Rightarrow> MatchingSkills" where
  "RemoveEvent e m = m\<lparr>ms_events := remove1 e (ms_events m)\<rparr>"

definition HasEvent :: "MatchingSkills \<Rightarrow> string \<Rightarrow> bool" where
  "HasEvent m e = (e \<in> set (ms_events m))"

definition GetScheme :: "MatchingSkills \<Rightarrow> nat \<Rightarrow> string" where
  "GetScheme m i = get_at (ms_schemes m) i"

definition AddScheme :: "string \<Rightarrow> MatchingSkills \<Rightarrow> MatchingSkills" where
  "AddScheme s m = m\<lparr>ms_schemes := add_unique s (ms_schemes m)\<rparr>"

definition HasScheme :: "MatchingSkills \<Rightarrow> string \<Rightarrow> bool" where
  "HasScheme m s = (s \<in> set (ms_schemes m))"

definition RemoveScheme :: "string \<Rightarrow> MatchingSkills \<Rightarrow> MatchingSkills" where
  "RemoveScheme s m = m\<lparr>ms_schemes := remove1 s (ms_schemes m)\<rparr>"

definition CountSchemes :: "MatchingSkills \<Rightarrow> nat" where
  "CountSchemes m = length (ms_schemes m)"

lemmas skills_defs = GetEntity_def AddEntity_def HasEntity_def RemoveEntity_def CountEntities_def
  AddEvent_def CountEvent_def GetEvent_def GetEvents_def RemoveEvent_def HasEvent_def
  GetScheme_def AddScheme_def HasScheme_def RemoveScheme_def CountSchemes_def

subsection \<open>Match\<close>

definition MatchEvent :: "MatchingSkills \<Rightarrow> string \<Rightarrow> bool" where
  "MatchEvent m event = (if event = [] then False else HasEvent m event)"

fun all_in :: "string list \<Rightarrow> string list \<Rightarrow> bool" where
  "all_in ys [] = True"
| "all_in ys (x # xs) = (if x \<notin> set ys then False else all_in ys xs)"

definition MatchEntity :: "MatchingSkills \<Rightarrow> string list \<Rightarrow> bool" where
  "MatchEntity m es = (if es = [] then True else all_in (ms_entities m) es)"

definition MatchScheme :: "MatchingSkills \<Rightarrow> string \<Rightarrow> bool" where
  "MatchScheme m scheme =
     (if length (ms_schemes m) \<noteq> 0 then HasScheme m scheme
      else if scheme = [] then True
      else False)"

definition Match :: "MatchingSkills \<Rightarrow> Want \<Rightarrow> bool" where
  "Match m w =
     (MatchEvent m (w_action w) \<and> MatchEntity m (w_entities w) \<and> MatchScheme m (w_scheme w))"

definition skills_group :: "string \<Rightarrow> string list \<Rightarrow> string" where
  "skills_group label xs =
     (if length xs > 0 then label @ hd xs @ concat (map (\<lambda>x. '','' @ x) (tl xs)) else [])"

definition MatchingSkills_ToString :: "MatchingSkills \<Rightarrow> string" where
  "MatchingSkills_ToString m =
     skills_group '' Events: '' (ms_events m) @
     skills_group '' Schemes: '' (ms_schemes m) @
     skills_group '' Entrities: '' (ms_entities m)"

section \<open>Properties\<close>

definition skills_ok :: "MatchingSkills \<Rightarrow> bool" where
  "skills_ok m \<longleftrightarrow> distinct (ms_entities m) \<and> distinct (ms_events m) \<and> distinct (ms_schemes m)"

lemma all_in_iff: "all_in ys xs \<longleftrightarrow> set xs \<subseteq> set ys"
  by (induction xs) auto

lemma Match_iff:
  "Match m w \<longleftrightarrow>
     w_action w \<noteq> [] \<and> w_action w \<in> set (ms_events m) \<and>
     set (w_entities w) \<subseteq> set (ms_entities m) \<and>
     (if ms_schemes m = [] then w_scheme w = [] else w_scheme w \<in> set (ms_schemes m))"
  by (auto simp: Match_def MatchEvent_def MatchEntity_def MatchScheme_def all_in_iff skills_defs)

lemma skills_ok_ops [ces_inv]:
  assumes "skills_ok m"
  shows "skills_ok (AddEvent s m)" "skills_ok (RemoveEvent s m)"
    "skills_ok (AddEntity s m)" "skills_ok (RemoveEntity s m)"
    "skills_ok (AddScheme s m)" "skills_ok (RemoveScheme s m)"
  using assms by (simp_all add: skills_ok_def skills_defs distinct_add_unique)

lemma HasEvent_AddEvent: "HasEvent (AddEvent s m) t \<longleftrightarrow> t = s \<or> HasEvent m t"
  by (auto simp: skills_defs)

lemma HasEvent_RemoveEvent:
  "skills_ok m \<Longrightarrow> HasEvent (RemoveEvent s m) t \<longleftrightarrow> t \<noteq> s \<and> HasEvent m t"
  by (auto simp: skills_defs skills_ok_def)

text \<open>A wider set of skills matches no fewer events: adding an event or an entity never
  loses a match, while adding the first scheme does (it turns the scheme test on).\<close>

lemma Match_mono_AddEvent: "Match m w \<Longrightarrow> Match (AddEvent s m) w"
  by (auto simp: Match_iff skills_defs)

lemma Match_mono_AddEntity: "Match m w \<Longrightarrow> Match (AddEntity s m) w"
  by (auto simp: Match_iff skills_defs)

end
