(* ===== verification/Publish_Info.thy ===== *)
theory Publish_Info
  imports Event_Types
begin

text \<open>
  \<open>CommonEventPublishInfo\<close> (\<open>common_event_publish_info.cpp\<close>): the setters that clamp
  their argument and the bit set \<open>GetFilterSettings\<close> that says which restrictions on
  the subscriber a publisher has named.  The locale \<open>subscriber_filter\<close> is the contract
  of the two routines that compare such a bit set with the bits a subscriber satisfies
  (\<open>CheckSubscriberWhetherMatched\<close> of the dynamic and of the static manager).
\<close>

definition isSubscriberType :: "int32 \<Rightarrow> bool" where
  "isSubscriberType t \<longleftrightarrow> t = ALL_SUBSCRIBER_TYPE \<or> t = SYSTEM_SUBSCRIBER_TYPE"

definition CommonEventPublishInfo_init :: CommonEventPublishInfo where
  "CommonEventPublishInfo_init =
     \<lparr>pi_sticky = False, pi_ordered = False, pi_bundleName = [], pi_subscriberPermissions = [],
      pi_subscriberUids = [], pi_subscriberType = UNINITIALIZATED_SUBSCRIBER_TYPE,
      pi_rule = RuleAND, pi_maximumVersion = -1\<rparr>"

definition SUBSCRIBER_UIDS_MAX_NUM :: nat where "SUBSCRIBER_UIDS_MAX_NUM = 3"

definition SetSubscriberUid :: "int32 list \<Rightarrow> CommonEventPublishInfo \<Rightarrow> CommonEventPublishInfo" where
  "SetSubscriberUid uids p =
     (if length uids > SUBSCRIBER_UIDS_MAX_NUM
      then p\<lparr>pi_subscriberUids := take SUBSCRIBER_UIDS_MAX_NUM uids\<rparr>
      else p\<lparr>pi_subscriberUids := uids\<rparr>)"

definition SetSubscriberType :: "int32 \<Rightarrow> CommonEventPublishInfo \<Rightarrow> CommonEventPublishInfo" where
  "SetSubscriberType t p =
     (if \<not> isSubscriberType t then p\<lparr>pi_subscriberType := ALL_SUBSCRIBER_TYPE\<rparr>
      else p\<lparr>pi_subscriberType := t\<rparr>)"

definition GetFilterSettings :: "CommonEventPublishInfo \<Rightarrow> uint16" where
  "GetFilterSettings p =
     (let f0 = 0;
          f1 = (if pi_subscriberType p \<noteq> UNINITIALIZATED_SUBSCRIBER_TYPE
                then f0 OR SUBSCRIBER_FILTER_SUBSCRIBER_TYPE_INDEX else f0);
          f2 = (if pi_bundleName p \<noteq> [] then f1 OR SUBSCRIBER_FILTER_BUNDLE_INDEX else f1);
          f3 = (if pi_subscriberPermissions p \<noteq> []
                then f2 OR SUBSCRIBER_FILTER_PERMISSION_INDEX else f2);
          f4 = (if pi_subscriberUids p \<noteq> []
                then f3 OR SUBSCRIBER_FILTER_SUBSCRIBER_UID_INDEX else f3)
      in if pi_maximumVersion p \<noteq> DEFAULT_VERSION then f4 OR SUBSCRIBER_FILTER_VERSION else f4)"

section \<open>Bits\<close>

definition bits_of :: "bool \<Rightarrow> bool \<Rightarrow> bool \<Rightarrow> bool \<Rightarrow> bool \<Rightarrow> uint16" where
  "bits_of bundle perm ty uids ver =
     (if bundle then SUBSCRIBER_FILTER_BUNDLE_INDEX else 0) OR
     (if perm then SUBSCRIBER_FILTER_PERMISSION_INDEX else 0) OR
     (if ty then SUBSCRIBER_FILTER_SUBSCRIBER_TYPE_INDEX else 0) OR
     (if uids then SUBSCRIBER_FILTER_SUBSCRIBER_UID_INDEX else 0) OR
     (if ver then SUBSCRIBER_FILTER_VERSION else 0)"

lemma GetFilterSettings_bits:
  "GetFilterSettings p =
     bits_of (pi_bundleName p \<noteq> []) (pi_subscriberPermissions p \<noteq> [])
       (pi_subscriberType p \<noteq> UNINITIALIZATED_SUBSCRIBER_TYPE) (pi_subscriberUids p \<noteq> [])
       (pi_maximumVersion p \<noteq> DEFAULT_VERSION)"
  by (simp add: GetFilterSettings_def bits_of_def Let_def filter_consts)

lemma bits_of_eq_iff:
  "bits_of a b c d e = bits_of a' b' c' d' e' \<longleftrightarrow>
     a = a' \<and> b = b' \<and> c = c' \<and> d = d' \<and> e = e'"
  by (cases a; cases b; cases c; cases d; cases e; cases a'; cases b'; cases c'; cases d'; cases e')
    (simp_all add: bits_of_def filter_consts)

lemma bits_of_and:
  "bits_of a b c d e AND bits_of a' b' c' d' e' =
     bits_of (a \<and> a') (b \<and> b') (c \<and> c') (d \<and> d') (e \<and> e')"
  by (cases a; cases b; cases c; cases d; cases e; cases a'; cases b'; cases c'; cases d'; cases e')
    (simp_all add: bits_of_def filter_consts)

lemma bits_of_zero_iff: "bits_of a b c d e = 0 \<longleftrightarrow> \<not> a \<and> \<not> b \<and> \<not> c \<and> \<not> d \<and> \<not> e"
  by (cases a; cases b; cases c; cases d; cases e) (simp_all add: bits_of_def filter_consts)

section \<open>The contract of the two filters\<close>

definition rule_holds :: "ValidationRule \<Rightarrow> uint16 \<Rightarrow> uint16 \<Rightarrow> bool" where
  "rule_holds rule checkResult filterSettings =
     (if rule = RuleAND then checkResult = filterSettings
      else checkResult AND filterSettings \<noteq> 0)"

text \<open>
  \<open>matched p x\<close> is the routine, \<open>sat_* p x\<close> say which restriction the subscriber \<open>x\<close>
  satisfies; a satisfied restriction is always a named one.
\<close>

locale subscriber_filter =
  fixes matched :: "CommonEventPublishInfo \<Rightarrow> 'x \<Rightarrow> bool"
    and sat_bundle :: "CommonEventPublishInfo \<Rightarrow> 'x \<Rightarrow> bool"
    and sat_perm :: "CommonEventPublishInfo \<Rightarrow> 'x \<Rightarrow> bool"
    and sat_type :: "CommonEventPublishInfo \<Rightarrow> 'x \<Rightarrow> bool"
    and sat_uids :: "CommonEventPublishInfo \<Rightarrow> 'x \<Rightarrow> bool"
    and sat_ver :: "CommonEventPublishInfo \<Rightarrow> 'x \<Rightarrow> bool"
  assumes matched_rule:
    "matched p x \<longleftrightarrow> GetFilterSettings p = 0 \<or>
       rule_holds (pi_rule p)
         (bits_of (sat_bundle p x) (sat_perm p x) (sat_type p x) (sat_uids p x) (sat_ver p x))
         (GetFilterSettings p)"
    and named_bundle: "sat_bundle p x \<Longrightarrow> pi_bundleName p \<noteq> []"
    and named_perm: "sat_perm p x \<Longrightarrow> pi_subscriberPermissions p \<noteq> []"
    and named_type: "sat_type p x \<Longrightarrow> pi_subscriberType p \<noteq> UNINITIALIZATED_SUBSCRIBER_TYPE"
    and named_uids: "sat_uids p x \<Longrightarrow> pi_subscriberUids p \<noteq> []"
    and named_ver: "sat_ver p x \<Longrightarrow> pi_maximumVersion p \<noteq> DEFAULT_VERSION"
begin

lemma no_restriction: "GetFilterSettings p = 0 \<Longrightarrow> matched p x"
  by (simp add: matched_rule)

lemma matched_and:
  "pi_rule p = RuleAND \<Longrightarrow> matched p x \<longleftrightarrow>
     (pi_bundleName p \<noteq> [] \<longrightarrow> sat_bundle p x) \<and>
     (pi_subscriberPermissions p \<noteq> [] \<longrightarrow> sat_perm p x) \<and>
     (pi_subscriberType p \<noteq> UNINITIALIZATED_SUBSCRIBER_TYPE \<longrightarrow> sat_type p x) \<and>
     (pi_subscriberUids p \<noteq> [] \<longrightarrow> sat_uids p x) \<and>
     (pi_maximumVersion p \<noteq> DEFAULT_VERSION \<longrightarrow> sat_ver p x)"
  using named_bundle [of p x] named_perm [of p x] named_type [of p x] named_uids [of p x]
    named_ver [of p x]
  unfolding matched_rule rule_holds_def GetFilterSettings_bits bits_of_eq_iff bits_of_zero_iff
  by auto

lemma matched_or:
  "pi_rule p = RuleOR \<Longrightarrow> matched p x \<longleftrightarrow>
     GetFilterSettings p = 0 \<or>
     sat_bundle p x \<or> sat_perm p x \<or> sat_type p x \<or> sat_uids p x \<or> sat_ver p x"
  using named_bundle [of p x] named_perm [of p x] named_type [of p x] named_uids [of p x]
    named_ver [of p x]
  unfolding matched_rule rule_holds_def GetFilterSettings_bits bits_of_and bits_of_zero_iff
  by auto

text \<open>Under either rule a match of a restricted publication rests on a satisfied
  restriction, and satisfying every named restriction is enough.\<close>

lemma matched_all_named:
  assumes "pi_bundleName p \<noteq> [] \<longrightarrow> sat_bundle p x"
    and "pi_subscriberPermissions p \<noteq> [] \<longrightarrow> sat_perm p x"
    and "pi_subscriberType p \<noteq> UNINITIALIZATED_SUBSCRIBER_TYPE \<longrightarrow> sat_type p x"
    and "pi_subscriberUids p \<noteq> [] \<longrightarrow> sat_uids p x"
    and "pi_maximumVersion p \<noteq> DEFAULT_VERSION \<longrightarrow> sat_ver p x"
  shows "matched p x"
proof (cases "pi_rule p")
  case RuleAND
  then show ?thesis using assms by (simp add: matched_and)
next
  case RuleOR
  then show ?thesis
    using assms by (auto simp: matched_or GetFilterSettings_bits bits_of_zero_iff)
qed

end

section \<open>Clamping\<close>

lemma SetSubscriberUid_bound: "length (pi_subscriberUids (SetSubscriberUid us p)) \<le> 3"
  by (simp add: SetSubscriberUid_def SUBSCRIBER_UIDS_MAX_NUM_def)

lemma SetSubscriberType_range:
  "isSubscriberType (pi_subscriberType (SetSubscriberType t p))"
  by (simp add: SetSubscriberType_def isSubscriberType_def)

end
