(* ===== verification/Event_Support.thy ===== *)
theory Event_Support
  imports Event_Types
begin

text \<open>
  \<open>CommonEventSupport\<close> (\<open>common_event_support.cpp\<close>): the names of the system events, the
  list \<open>Init\<close> fills (in pieces of the order the source has), and \<open>IsSystemEvent\<close>.
\<close>

section \<open>Event names\<close>

definition COMMON_EVENT_BOOT_COMPLETED :: string where
  "COMMON_EVENT_BOOT_COMPLETED = ''usual.event.BOOT_COMPLETED''"
definition COMMON_EVENT_LOCKED_BOOT_COMPLETED :: string where
  "COMMON_EVENT_LOCKED_BOOT_COMPLETED = ''usual.event.LOCKED_BOOT_COMPLETED''"
definition COMMON_EVENT_SHUTDOWN :: string where
  "COMMON_EVENT_SHUTDOWN = ''usual.event.SHUTDOWN''"
definition COMMON_EVENT_BATTERY_CHANGED :: string where
  "COMMON_EVENT_BATTERY_CHANGED = ''usual.event.BATTERY_CHANGED''"
definition COMMON_EVENT_BATTERY_LOW :: string where
  "COMMON_EVENT_BATTERY_LOW = ''usual.event.BATTERY_LOW''"
definition COMMON_EVENT_BATTERY_OKAY :: string where
  "COMMON_EVENT_BATTERY_OKAY = ''usual.event.BATTERY_OKAY''"
definition COMMON_EVENT_POWER_CONNECTED :: string where
  "COMMON_EVENT_POWER_CONNECTED = ''usual.event.POWER_CONNECTED''"
definition COMMON_EVENT_POWER_DISCONNECTED :: string where
  "COMMON_EVENT_POWER_DISCONNECTED = ''usual.event.POWER_DISCONNECTED''"
definition COMMON_EVENT_SCREEN_OFF :: string where
  "COMMON_EVENT_SCREEN_OFF = ''usual.event.SCREEN_OFF''"
definition COMMON_EVENT_SCREEN_ON :: string where
  "COMMON_EVENT_SCREEN_ON = ''usual.event.SCREEN_ON''"
definition COMMON_EVENT_THERMAL_LEVEL_CHANGED :: string where
  "COMMON_EVENT_THERMAL_LEVEL_CHANGED = ''usual.event.THERMAL_LEVEL_CHANGED''"
definition COMMON_EVENT_ENTER_FORCE_SLEEP :: string where
  "COMMON_EVENT_ENTER_FORCE_SLEEP = ''usual.event.ENTER_FORCE_SLEEP''"
definition COMMON_EVENT_EXIT_FORCE_SLEEP :: string where
  "COMMON_EVENT_EXIT_FORCE_SLEEP = ''usual.event.EXIT_FORCE_SLEEP''"
definition COMMON_EVENT_ENTER_HIBERNATE :: string where
  "COMMON_EVENT_ENTER_HIBERNATE = ''usual.event.ENTER_HIBERNATE''"
definition COMMON_EVENT_EXIT_HIBERNATE :: string where
  "COMMON_EVENT_EXIT_HIBERNATE = ''usual.event.EXIT_HIBERNATE''"
definition COMMON_EVENT_CHARGE_IDLE_MODE_CHANGED :: string where
  "COMMON_EVENT_CHARGE_IDLE_MODE_CHANGED = ''usual.event.CHARGE_IDLE_MODE_CHANGED''"
definition COMMON_EVENT_USER_PRESENT :: string where
  "COMMON_EVENT_USER_PRESENT = ''usual.event.USER_PRESENT''"
definition COMMON_EVENT_TIME_TICK :: string where
  "COMMON_EVENT_TIME_TICK = ''usual.event.TIME_TICK''"
definition COMMON_EVENT_TIME_CHANGED :: string where
  "COMMON_EVENT_TIME_CHANGED = ''usual.event.TIME_CHANGED''"
definition COMMON_EVENT_DATE_CHANGED :: string where
  "COMMON_EVENT_DATE_CHANGED = ''usual.event.DATE_CHANGED''"
definition COMMON_EVENT_TIMEZONE_CHANGED :: string where
  "COMMON_EVENT_TIMEZONE_CHANGED = ''usual.event.TIMEZONE_CHANGED''"
definition COMMON_EVENT_CLOSE_SYSTEM_DIALOGS :: string where
  "COMMON_EVENT_CLOSE_SYSTEM_DIALOGS = ''usual.event.CLOSE_SYSTEM_DIALOGS''"
definition COMMON_EVENT_BUNDLE_SCAN_FINISHED :: string where
  "COMMON_EVENT_BUNDLE_SCAN_FINISHED = ''usual.event.BUNDLE_SCAN_FINISHED''"
definition COMMON_EVENT_PACKAGE_ADDED :: string where
  "COMMON_EVENT_PACKAGE_ADDED = ''usual.event.PACKAGE_ADDED''"
definition COMMON_EVENT_SKILL_CHANGED :: string where
  "COMMON_EVENT_SKILL_CHANGED = ''usual.event.SKILL_CHANGED''"
definition COMMON_EVENT_PACKAGE_INSTALLATION_STARTED :: string where
  "COMMON_EVENT_PACKAGE_INSTALLATION_STARTED = ''usual.event.PACKAGE_INSTALLATION_STARTED''"
definition COMMON_EVENT_DYNAMIC_ICON_CHANGED :: string where
  "COMMON_EVENT_DYNAMIC_ICON_CHANGED = ''usual.event.DYNAMIC_ICON_CHANGED''"
definition COMMON_EVENT_PACKAGE_REPLACED :: string where
  "COMMON_EVENT_PACKAGE_REPLACED = ''usual.event.PACKAGE_REPLACED''"
definition COMMON_EVENT_MY_PACKAGE_REPLACED :: string where
  "COMMON_EVENT_MY_PACKAGE_REPLACED = ''usual.event.MY_PACKAGE_REPLACED''"
definition COMMON_EVENT_PACKAGE_REMOVED :: string where
  "COMMON_EVENT_PACKAGE_REMOVED = ''usual.event.PACKAGE_REMOVED''"
definition COMMON_EVENT_BUNDLE_REMOVED :: string where
  "COMMON_EVENT_BUNDLE_REMOVED = ''usual.event.BUNDLE_REMOVED''"
definition COMMON_EVENT_PACKAGE_FULLY_REMOVED :: string where
  "COMMON_EVENT_PACKAGE_FULLY_REMOVED = ''usual.event.PACKAGE_FULLY_REMOVED''"
definition COMMON_EVENT_PACKAGE_CHANGED :: string where
  "COMMON_EVENT_PACKAGE_CHANGED = ''usual.event.PACKAGE_CHANGED''"
definition COMMON_EVENT_PACKAGE_RESTARTED :: string where
  "COMMON_EVENT_PACKAGE_RESTARTED = ''usual.event.PACKAGE_RESTARTED''"
definition COMMON_EVENT_PACKAGE_DATA_CLEARED :: string where
  "COMMON_EVENT_PACKAGE_DATA_CLEARED = ''usual.event.PACKAGE_DATA_CLEARED''"
definition COMMON_EVENT_PACKAGE_UNINSTALLED_DATA_CLEARED :: string where
  "COMMON_EVENT_PACKAGE_UNINSTALLED_DATA_CLEARED = ''usual.event.PACKAGE_UNINSTALLED_DATA_CLEARED''"
definition COMMON_EVENT_PACKAGE_CACHE_CLEARED :: string where
  "COMMON_EVENT_PACKAGE_CACHE_CLEARED = ''usual.event.PACKAGE_CACHE_CLEARED''"
definition COMMON_EVENT_PACKAGES_SUSPENDED :: string where
  "COMMON_EVENT_PACKAGES_SUSPENDED = ''usual.event.PACKAGES_SUSPENDED''"
definition COMMON_EVENT_PACKAGES_UNSUSPENDED :: string where
  "COMMON_EVENT_PACKAGES_UNSUSPENDED = ''usual.event.PACKAGES_UNSUSPENDED''"
definition COMMON_EVENT_MY_PACKAGE_SUSPENDED :: string where
  "COMMON_EVENT_MY_PACKAGE_SUSPENDED = ''usual.event.MY_PACKAGE_SUSPENDED''"
definition COMMON_EVENT_MY_PACKAGE_UNSUSPENDED :: string where
  "COMMON_EVENT_MY_PACKAGE_UNSUSPENDED = ''usual.event.MY_PACKAGE_UNSUSPENDED''"
definition COMMON_EVENT_UID_REMOVED :: string where
  "COMMON_EVENT_UID_REMOVED = ''usual.event.UID_REMOVED''"
definition COMMON_EVENT_PACKAGE_FIRST_LAUNCH :: string where
  "COMMON_EVENT_PACKAGE_FIRST_LAUNCH = ''usual.event.PACKAGE_FIRST_LAUNCH''"
definition COMMON_EVENT_PACKAGE_NEEDS_VERIFICATION :: string where
  "COMMON_EVENT_PACKAGE_NEEDS_VERIFICATION = ''usual.event.PACKAGE_NEEDS_VERIFICATION''"
definition COMMON_EVENT_PACKAGE_VERIFIED :: string where
  "COMMON_EVENT_PACKAGE_VERIFIED = ''usual.event.PACKAGE_VERIFIED''"
definition COMMON_EVENT_EXTERNAL_APPLICATIONS_AVAILABLE :: string where
  "COMMON_EVENT_EXTERNAL_APPLICATIONS_AVAILABLE = ''usual.event.EXTERNAL_APPLICATIONS_AVAILABLE''"
definition COMMON_EVENT_EXTERNAL_APPLICATIONS_UNAVAILABLE :: string where
  "COMMON_EVENT_EXTERNAL_APPLICATIONS_UNAVAILABLE = ''usual.event.EXTERNAL_APPLICATIONS_UNAVAILABLE''"
definition COMMON_EVENT_CONFIGURATION_CHANGED :: string where
  "COMMON_EVENT_CONFIGURATION_CHANGED = ''usual.event.CONFIGURATION_CHANGED''"
definition COMMON_EVENT_LOCALE_CHANGED :: string where
  "COMMON_EVENT_LOCALE_CHANGED = ''usual.event.LOCALE_CHANGED''"
definition COMMON_EVENT_MANAGE_PACKAGE_STORAGE :: string where
  "COMMON_EVENT_MANAGE_PACKAGE_STORAGE = ''usual.event.MANAGE_PACKAGE_STORAGE''"
definition COMMON_EVENT_SANDBOX_PACKAGE_ADDED :: string where
  "COMMON_EVENT_SANDBOX_PACKAGE_ADDED = ''usual.event.SANDBOX_PACKAGE_ADDED''"
definition COMMON_EVENT_SANDBOX_PACKAGE_REMOVED :: string where
  "COMMON_EVENT_SANDBOX_PACKAGE_REMOVED = ''usual.event.SANDBOX_PACKAGE_REMOVED''"
definition COMMON_EVENT_DRIVE_MODE :: string where
  "COMMON_EVENT_DRIVE_MODE = ''common.event.DRIVE_MODE''"
definition COMMON_EVENT_HOME_MODE :: string where
  "COMMON_EVENT_HOME_MODE = ''common.event.HOME_MODE''"
definition COMMON_EVENT_OFFICE_MODE :: string where
  "COMMON_EVENT_OFFICE_MODE = ''common.event.OFFICE_MODE''"
definition COMMON_EVENT_SPLIT_SCREEN :: string where
  "COMMON_EVENT_SPLIT_SCREEN = ''common.event.SPLIT_SCREEN''"
definition COMMON_EVENT_USER_STARTED :: string where
  "COMMON_EVENT_USER_STARTED = ''usual.event.USER_STARTED''"
definition COMMON_EVENT_USER_BACKGROUND :: string where
  "COMMON_EVENT_USER_BACKGROUND = ''usual.event.USER_BACKGROUND''"
definition COMMON_EVENT_USER_FOREGROUND :: string where
  "COMMON_EVENT_USER_FOREGROUND = ''usual.event.USER_FOREGROUND''"
definition COMMON_EVENT_USER_SWITCHED :: string where
  "COMMON_EVENT_USER_SWITCHED = ''usual.event.USER_SWITCHED''"
definition COMMON_EVENT_USER_STARTING :: string where
  "COMMON_EVENT_USER_STARTING = ''usual.event.USER_STARTING''"
definition COMMON_EVENT_USER_UNLOCKED :: string where
  "COMMON_EVENT_USER_UNLOCKED = ''usual.event.USER_UNLOCKED''"
definition COMMON_EVENT_USER_STOPPING :: string where
  "COMMON_EVENT_USER_STOPPING = ''usual.event.USER_STOPPING''"
definition COMMON_EVENT_USER_STOPPED :: string where
  "COMMON_EVENT_USER_STOPPED = ''usual.event.USER_STOPPED''"
definition COMMON_EVENT_HWID_LOGIN :: string where
  "COMMON_EVENT_HWID_LOGIN = ''common.event.HWID_LOGIN''"
definition COMMON_EVENT_HWID_LOGOUT :: string where
  "COMMON_EVENT_HWID_LOGOUT = ''common.event.HWID_LOGOUT''"
definition COMMON_EVENT_HWID_TOKEN_INVALID :: string where
  "COMMON_EVENT_HWID_TOKEN_INVALID = ''common.event.HWID_TOKEN_INVALID''"
definition COMMON_EVENT_HWID_LOGOFF :: string where
  "COMMON_EVENT_HWID_LOGOFF = ''common.event.HWID_LOGOFF''"
definition COMMON_EVENT_WIFI_POWER_STATE :: string where
  "COMMON_EVENT_WIFI_POWER_STATE = ''usual.event.wifi.POWER_STATE''"
definition COMMON_EVENT_WIFI_SCAN_FINISHED :: string where
  "COMMON_EVENT_WIFI_SCAN_FINISHED = ''usual.event.wifi.SCAN_FINISHED''"
definition COMMON_EVENT_WIFI_RSSI_VALUE :: string where
  "COMMON_EVENT_WIFI_RSSI_VALUE = ''usual.event.wifi.RSSI_VALUE''"
definition COMMON_EVENT_WIFI_CONN_STATE :: string where
  "COMMON_EVENT_WIFI_CONN_STATE = ''usual.event.wifi.CONN_STATE''"
definition COMMON_EVENT_WIFI_HOTSPOT_STATE :: string where
  "COMMON_EVENT_WIFI_HOTSPOT_STATE = ''usual.event.wifi.HOTSPOT_STATE''"
definition COMMON_EVENT_WIFI_AP_STA_JOIN :: string where
  "COMMON_EVENT_WIFI_AP_STA_JOIN = ''usual.event.wifi.WIFI_HS_STA_JOIN''"
definition COMMON_EVENT_WIFI_AP_STA_LEAVE :: string where
  "COMMON_EVENT_WIFI_AP_STA_LEAVE = ''usual.event.wifi.WIFI_HS_STA_LEAVE''"
definition COMMON_EVENT_WIFI_MPLINK_STATE_CHANGE :: string where
  "COMMON_EVENT_WIFI_MPLINK_STATE_CHANGE = ''usual.event.wifi.mplink.STATE_CHANGE''"
definition COMMON_EVENT_WIFI_P2P_CONN_STATE :: string where
  "COMMON_EVENT_WIFI_P2P_CONN_STATE = ''usual.event.wifi.p2p.CONN_STATE_CHANGE''"
definition COMMON_EVENT_WIFI_P2P_STATE_CHANGED :: string where
  "COMMON_EVENT_WIFI_P2P_STATE_CHANGED = ''usual.event.wifi.p2p.STATE_CHANGE''"
definition COMMON_EVENT_WIFI_P2P_PEERS_STATE_CHANGED :: string where
  "COMMON_EVENT_WIFI_P2P_PEERS_STATE_CHANGED = ''usual.event.wifi.p2p.DEVICES_CHANGE''"
definition COMMON_EVENT_WIFI_P2P_PEERS_DISCOVERY_STATE_CHANGED :: string where
  "COMMON_EVENT_WIFI_P2P_PEERS_DISCOVERY_STATE_CHANGED = ''usual.event.wifi.p2p.PEER_DISCOVERY_STATE_CHANGE''"
definition COMMON_EVENT_WIFI_P2P_CURRENT_DEVICE_STATE_CHANGED :: string where
  "COMMON_EVENT_WIFI_P2P_CURRENT_DEVICE_STATE_CHANGED = ''usual.event.wifi.p2p.CURRENT_DEVICE_CHANGE''"
definition COMMON_EVENT_WIFI_P2P_GROUP_STATE_CHANGED :: string where
  "COMMON_EVENT_WIFI_P2P_GROUP_STATE_CHANGED = ''usual.event.wifi.p2p.GROUP_STATE_CHANGED''"
definition COMMON_EVENT_NETMANAGER_NETSTATES_UPDATED :: string where
  "COMMON_EVENT_NETMANAGER_NETSTATES_UPDATED = ''usual.event.netmanager.NETSTATES_UPDATED''"
definition COMMON_EVENT_NETMANAGER_NETSTATES_LIMITED :: string where
  "COMMON_EVENT_NETMANAGER_NETSTATES_LIMITED = ''usual.event.netmanager.NETSTATES_LIMITED''"
definition COMMON_EVENT_BLUETOOTH_HANDSFREE_AG_CONNECT_STATE_UPDATE :: string where
  "COMMON_EVENT_BLUETOOTH_HANDSFREE_AG_CONNECT_STATE_UPDATE = ''usual.event.bluetooth.handsfree.ag.CONNECT_STATE_UPDATE''"
definition COMMON_EVENT_BLUETOOTH_HANDSFREE_AG_CONNECT_STATE_CHANGE :: string where
  "COMMON_EVENT_BLUETOOTH_HANDSFREE_AG_CONNECT_STATE_CHANGE = ''usual.event.bluetooth.handsfree.ag.CONNECT_STATE_CHANGE''"
definition COMMON_EVENT_BLUETOOTH_HANDSFREE_AG_CURRENT_DEVICE_UPDATE :: string where
  "COMMON_EVENT_BLUETOOTH_HANDSFREE_AG_CURRENT_DEVICE_UPDATE = ''usual.event.bluetooth.handsfree.ag.CURRENT_DEVICE_UPDATE''"
definition COMMON_EVENT_BLUETOOTH_HANDSFREE_AG_AUDIO_STATE_UPDATE :: string where
  "COMMON_EVENT_BLUETOOTH_HANDSFREE_AG_AUDIO_STATE_UPDATE = ''usual.event.bluetooth.handsfree.ag.AUDIO_STATE_UPDATE''"
definition COMMON_EVENT_BLUETOOTH_A2DPSOURCE_CONNECT_STATE_UPDATE :: string where
  "COMMON_EVENT_BLUETOOTH_A2DPSOURCE_CONNECT_STATE_UPDATE = ''usual.event.bluetooth.a2dpsource.CONNECT_STATE_UPDATE''"
definition COMMON_EVENT_BLUETOOTH_A2DPSOURCE_CONNECT_STATE_CHANGE :: string where
  "COMMON_EVENT_BLUETOOTH_A2DPSOURCE_CONNECT_STATE_CHANGE = ''usual.event.bluetooth.a2dpsource.CONNECT_STATE_CHANGE''"
definition COMMON_EVENT_BLUETOOTH_A2DPSOURCE_CURRENT_DEVICE_UPDATE :: string where
  "COMMON_EVENT_BLUETOOTH_A2DPSOURCE_CURRENT_DEVICE_UPDATE = ''usual.event.bluetooth.a2dpsource.CURRENT_DEVICE_UPDATE''"
definition COMMON_EVENT_BLUETOOTH_A2DPSOURCE_PLAYING_STATE_UPDATE :: string where
  "COMMON_EVENT_BLUETOOTH_A2DPSOURCE_PLAYING_STATE_UPDATE = ''usual.event.bluetooth.a2dpsource.PLAYING_STATE_UPDATE''"
definition COMMON_EVENT_BLUETOOTH_A2DPSOURCE_AVRCP_CONNECT_STATE_UPDATE :: string where
  "COMMON_EVENT_BLUETOOTH_A2DPSOURCE_AVRCP_CONNECT_STATE_UPDATE = ''usual.event.bluetooth.a2dpsource.AVRCP_CONNECT_STATE_UPDATE''"
definition COMMON_EVENT_BLUETOOTH_A2DPSOURCE_AVRCP_CONNECT_STATE_CHANGE :: string where
  "COMMON_EVENT_BLUETOOTH_A2DPSOURCE_AVRCP_CONNECT_STATE_CHANGE = ''usual.event.bluetooth.a2dpsource.AVRCP_CONNECT_STATE_CHANGE''"
definition COMMON_EVENT_BLUETOOTH_A2DPSOURCE_CODEC_VALUE_UPDATE :: string where
  "COMMON_EVENT_BLUETOOTH_A2DPSOURCE_CODEC_VALUE_UPDATE = ''usual.event.bluetooth.a2dpsource.CODEC_VALUE_UPDATE''"
definition COMMON_EVENT_BLUETOOTH_A2DPSOURCE_CODEC_VALUE_CHANGE :: string where
  "COMMON_EVENT_BLUETOOTH_A2DPSOURCE_CODEC_VALUE_CHANGE = ''usual.event.bluetooth.a2dpsource.CODEC_VALUE_CHANGE''"
definition COMMON_EVENT_BLUETOOTH_A2DPSOURCE_PLAY_STATE_CHANGE :: string where
  "COMMON_EVENT_BLUETOOTH_A2DPSOURCE_PLAY_STATE_CHANGE = ''usual.event.bluetooth.a2dpsource.PLAY_STATE_CHANGE''"
definition COMMON_EVENT_BLUETOOTH_SCO_CONNECT_STATE_CHANGE :: string where
  "COMMON_EVENT_BLUETOOTH_SCO_CONNECT_STATE_CHANGE = ''usual.event.bluetooth.SCO_CONNECT_STATE_CHANGE''"
definition COMMON_EVENT_BLUETOOTH_REMOTEDEVICE_DISCOVERED :: string where
  "COMMON_EVENT_BLUETOOTH_REMOTEDEVICE_DISCOVERED = ''usual.event.bluetooth.remotedevice.DISCOVERED''"
definition COMMON_EVENT_BLUETOOTH_REMOTEDEVICE_CLASS_VALUE_UPDATE :: string where
  "COMMON_EVENT_BLUETOOTH_REMOTEDEVICE_CLASS_VALUE_UPDATE = ''usual.event.bluetooth.remotedevice.CLASS_VALUE_UPDATE''"
definition COMMON_EVENT_BLUETOOTH_REMOTEDEVICE_ACL_CONNECTED :: string where
  "COMMON_EVENT_BLUETOOTH_REMOTEDEVICE_ACL_CONNECTED = ''usual.event.bluetooth.remotedevice.ACL_CONNECTED''"
definition COMMON_EVENT_BLUETOOTH_REMOTEDEVICE_ACL_DISCONNECTED :: string where
  "COMMON_EVENT_BLUETOOTH_REMOTEDEVICE_ACL_DISCONNECTED = ''usual.event.bluetooth.remotedevice.ACL_DISCONNECTED''"
definition COMMON_EVENT_BLUETOOTH_REMOTEDEVICE_ACL_STATE_CHANGE :: string where
  "COMMON_EVENT_BLUETOOTH_REMOTEDEVICE_ACL_STATE_CHANGE = ''usual.event.bluetooth.remotedevice.ACL_STATE_CHANGE''"
definition COMMON_EVENT_BLUETOOTH_REMOTEDEVICE_NAME_UPDATE :: string where
  "COMMON_EVENT_BLUETOOTH_REMOTEDEVICE_NAME_UPDATE = ''usual.event.bluetooth.remotedevice.NAME_UPDATE''"
definition COMMON_EVENT_BLUETOOTH_REMOTEDEVICE_PAIR_STATE :: string where
  "COMMON_EVENT_BLUETOOTH_REMOTEDEVICE_PAIR_STATE = ''usual.event.bluetooth.remotedevice.PAIR_STATE''"
definition COMMON_EVENT_BLUETOOTH_REMOTEDEVICE_PAIR_STATE_CHANGE :: string where
  "COMMON_EVENT_BLUETOOTH_REMOTEDEVICE_PAIR_STATE_CHANGE = ''usual.event.bluetooth.remotedevice.PAIR_STATE_CHANGE''"
definition COMMON_EVENT_BLUETOOTH_REMOTEDEVICE_BATTERY_VALUE_UPDATE :: string where
  "COMMON_EVENT_BLUETOOTH_REMOTEDEVICE_BATTERY_VALUE_UPDATE = ''usual.event.bluetooth.remotedevice.BATTERY_VALUE_UPDATE''"
definition COMMON_EVENT_BLUETOOTH_REMOTEDEVICE_SDP_RESULT :: string where
  "COMMON_EVENT_BLUETOOTH_REMOTEDEVICE_SDP_RESULT = ''usual.event.bluetooth.remotedevice.SDP_RESULT''"
definition COMMON_EVENT_BLUETOOTH_REMOTEDEVICE_UUID_VALUE :: string where
  "COMMON_EVENT_BLUETOOTH_REMOTEDEVICE_UUID_VALUE = ''usual.event.bluetooth.remotedevice.UUID_VALUE''"
definition COMMON_EVENT_BLUETOOTH_REMOTEDEVICE_PAIRING_REQ :: string where
  "COMMON_EVENT_BLUETOOTH_REMOTEDEVICE_PAIRING_REQ = ''usual.event.bluetooth.remotedevice.PAIRING_REQ''"
definition COMMON_EVENT_BLUETOOTH_REMOTEDEVICE_PAIRING_CANCEL :: string where
  "COMMON_EVENT_BLUETOOTH_REMOTEDEVICE_PAIRING_CANCEL = ''usual.event.bluetooth.remotedevice.PAIRING_CANCEL''"
definition COMMON_EVENT_BLUETOOTH_REMOTEDEVICE_CONNECT_REQ :: string where
  "COMMON_EVENT_BLUETOOTH_REMOTEDEVICE_CONNECT_REQ = ''usual.event.bluetooth.remotedevice.CONNECT_REQ''"
definition COMMON_EVENT_BLUETOOTH_REMOTEDEVICE_CONNECT_REPLY :: string where
  "COMMON_EVENT_BLUETOOTH_REMOTEDEVICE_CONNECT_REPLY = ''usual.event.bluetooth.remotedevice.CONNECT_REPLY''"
definition COMMON_EVENT_BLUETOOTH_REMOTEDEVICE_CONNECT_CANCEL :: string where
  "COMMON_EVENT_BLUETOOTH_REMOTEDEVICE_CONNECT_CANCEL = ''usual.event.bluetooth.remotedevice.CONNECT_CANCEL''"
definition COMMON_EVENT_BLUETOOTH_HANDSFREEUNIT_CONNECT_STATE_UPDATE :: string where
  "COMMON_EVENT_BLUETOOTH_HANDSFREEUNIT_CONNECT_STATE_UPDATE = ''usual.event.bluetooth.handsfreeunit.CONNECT_STATE_UPDATE''"
definition COMMON_EVENT_BLUETOOTH_HANDSFREEUNIT_AUDIO_STATE_UPDATE :: string where
  "COMMON_EVENT_BLUETOOTH_HANDSFREEUNIT_AUDIO_STATE_UPDATE = ''usual.event.bluetooth.handsfreeunit.AUDIO_STATE_UPDATE''"
definition COMMON_EVENT_BLUETOOTH_HANDSFREEUNIT_AG_COMMON_EVENT :: string where
  "COMMON_EVENT_BLUETOOTH_HANDSFREEUNIT_AG_COMMON_EVENT = ''usual.event.bluetooth.handsfreeunit.AG_COMMON_EVENT''"
definition COMMON_EVENT_BLUETOOTH_HANDSFREEUNIT_AG_CALL_STATE_UPDATE :: string where
  "COMMON_EVENT_BLUETOOTH_HANDSFREEUNIT_AG_CALL_STATE_UPDATE = ''usual.event.bluetooth.handsfreeunit.AG_CALL_STATE_UPDATE''"
definition COMMON_EVENT_BLUETOOTH_HOST_STATE_UPDATE :: string where
  "COMMON_EVENT_BLUETOOTH_HOST_STATE_UPDATE = ''usual.event.bluetooth.host.STATE_UPDATE''"
definition COMMON_EVENT_BLUETOOTH_HOST_REQ_DISCOVERABLE :: string where
  "COMMON_EVENT_BLUETOOTH_HOST_REQ_DISCOVERABLE = ''usual.event.bluetooth.host.REQ_DISCOVERABLE''"
definition COMMON_EVENT_BLUETOOTH_HOST_REQ_ENABLE :: string where
  "COMMON_EVENT_BLUETOOTH_HOST_REQ_ENABLE = ''usual.event.bluetooth.host.REQ_ENABLE''"
definition COMMON_EVENT_BLUETOOTH_HOST_REQ_DISABLE :: string where
  "COMMON_EVENT_BLUETOOTH_HOST_REQ_DISABLE = ''usual.event.bluetooth.host.REQ_DISABLE''"
definition COMMON_EVENT_BLUETOOTH_HOST_SCAN_MODE_UPDATE :: string where
  "COMMON_EVENT_BLUETOOTH_HOST_SCAN_MODE_UPDATE = ''usual.event.bluetooth.host.SCAN_MODE_UPDATE''"
definition COMMON_EVENT_BLUETOOTH_HOST_SCAN_MODE_CHANGE :: string where
  "COMMON_EVENT_BLUETOOTH_HOST_SCAN_MODE_CHANGE = ''usual.event.bluetooth.host.SCAN_MODE_CHANGE''"
definition COMMON_EVENT_BLUETOOTH_HOST_DISCOVERY_STARTED :: string where
  "COMMON_EVENT_BLUETOOTH_HOST_DISCOVERY_STARTED = ''usual.event.bluetooth.host.DISCOVERY_STARTED''"
definition COMMON_EVENT_BLUETOOTH_HOST_DISCOVERY_FINISHED :: string where
  "COMMON_EVENT_BLUETOOTH_HOST_DISCOVERY_FINISHED = ''usual.event.bluetooth.host.DISCOVERY_FINISHED''"
definition COMMON_EVENT_BLUETOOTH_HOST_NAME_UPDATE :: string where
  "COMMON_EVENT_BLUETOOTH_HOST_NAME_UPDATE = ''usual.event.bluetooth.host.NAME_UPDATE''"
definition COMMON_EVENT_BLUETOOTH_A2DPSINK_CONNECT_STATE_UPDATE :: string where
  "COMMON_EVENT_BLUETOOTH_A2DPSINK_CONNECT_STATE_UPDATE = ''usual.event.bluetooth.a2dpsink.CONNECT_STATE_UPDATE''"
definition COMMON_EVENT_BLUETOOTH_A2DPSINK_PLAYING_STATE_UPDATE :: string where
  "COMMON_EVENT_BLUETOOTH_A2DPSINK_PLAYING_STATE_UPDATE = ''usual.event.bluetooth.a2dpsink.PLAYING_STATE_UPDATE''"
definition COMMON_EVENT_BLUETOOTH_A2DPSINK_AUDIO_STATE_UPDATE :: string where
  "COMMON_EVENT_BLUETOOTH_A2DPSINK_AUDIO_STATE_UPDATE = ''usual.event.bluetooth.a2dpsink.AUDIO_STATE_UPDATE''"
definition COMMON_EVENT_BLUETOOTH_REMOTEDEVICE_CONNECT_STATUS_VALUE :: string where
  "COMMON_EVENT_BLUETOOTH_REMOTEDEVICE_CONNECT_STATUS_VALUE = ''usual.event.bluetooth.remotedevice.CONNECT_STATUS_VALUE''"
definition COMMON_EVENT_NFC_ACTION_ADAPTER_STATE_CHANGED :: string where
  "COMMON_EVENT_NFC_ACTION_ADAPTER_STATE_CHANGED = ''usual.event.nfc.action.ADAPTER_STATE_CHANGED''"
definition COMMON_EVENT_NFC_ACTION_RF_FIELD_ON_DETECTED :: string where
  "COMMON_EVENT_NFC_ACTION_RF_FIELD_ON_DETECTED = ''usual.event.nfc.action.RF_FIELD_ON_DETECTED''"
definition COMMON_EVENT_NFC_ACTION_RF_FIELD_OFF_DETECTED :: string where
  "COMMON_EVENT_NFC_ACTION_RF_FIELD_OFF_DETECTED = ''usual.event.nfc.action.RF_FIELD_OFF_DETECTED''"
definition COMMON_EVENT_DISCHARGING :: string where
  "COMMON_EVENT_DISCHARGING = ''usual.event.DISCHARGING''"
definition COMMON_EVENT_CHARGING :: string where
  "COMMON_EVENT_CHARGING = ''usual.event.CHARGING''"
definition COMMON_EVENT_CHARGE_TYPE_CHANGED :: string where
  "COMMON_EVENT_CHARGE_TYPE_CHANGED = ''usual.event.CHARGE_TYPE_CHANGED''"
definition COMMON_EVENT_DEVICE_IDLE_MODE_CHANGED :: string where
  "COMMON_EVENT_DEVICE_IDLE_MODE_CHANGED = ''usual.event.DEVICE_IDLE_MODE_CHANGED''"
definition COMMON_EVENT_DEVICE_IDLE_EXEMPTION_LIST_UPDATED :: string where
  "COMMON_EVENT_DEVICE_IDLE_EXEMPTION_LIST_UPDATED = ''usual.event.DEVICE_IDLE_EXEMPTION_LIST_UPDATED''"
definition COMMON_EVENT_POWER_SAVE_MODE_CHANGED :: string where
  "COMMON_EVENT_POWER_SAVE_MODE_CHANGED = ''usual.event.POWER_SAVE_MODE_CHANGED''"
definition COMMON_EVENT_USER_ADDED :: string where
  "COMMON_EVENT_USER_ADDED = ''usual.event.USER_ADDED''"
definition COMMON_EVENT_USER_REMOVED :: string where
  "COMMON_EVENT_USER_REMOVED = ''usual.event.USER_REMOVED''"
definition COMMON_EVENT_ABILITY_ADDED :: string where
  "COMMON_EVENT_ABILITY_ADDED = ''common.event.ABILITY_ADDED''"
definition COMMON_EVENT_ABILITY_REMOVED :: string where
  "COMMON_EVENT_ABILITY_REMOVED = ''common.event.ABILITY_REMOVED''"
definition COMMON_EVENT_ABILITY_UPDATED :: string where
  "COMMON_EVENT_ABILITY_UPDATED = ''common.event.ABILITY_UPDATED''"
definition COMMON_EVENT_LOCATION_MODE_STATE_CHANGED :: string where
  "COMMON_EVENT_LOCATION_MODE_STATE_CHANGED = ''usual.event.location.MODE_STATE_CHANGED''"
definition COMMON_EVENT_IVI_SLEEP :: string where
  "COMMON_EVENT_IVI_SLEEP = ''common.event.IVI_SLEEP''"
definition COMMON_EVENT_IVI_PAUSE :: string where
  "COMMON_EVENT_IVI_PAUSE = ''common.event.IVI_PAUSE''"
definition COMMON_EVENT_IVI_STANDBY :: string where
  "COMMON_EVENT_IVI_STANDBY = ''common.event.IVI_STANDBY''"
definition COMMON_EVENT_IVI_LASTMODE_SAVE :: string where
  "COMMON_EVENT_IVI_LASTMODE_SAVE = ''common.event.IVI_LASTMODE_SAVE''"
definition COMMON_EVENT_IVI_VOLTAGE_ABNORMAL :: string where
  "COMMON_EVENT_IVI_VOLTAGE_ABNORMAL = ''common.event.IVI_VOLTAGE_ABNORMAL''"
definition COMMON_EVENT_IVI_HIGH_TEMPERATURE :: string where
  "COMMON_EVENT_IVI_HIGH_TEMPERATURE = ''common.event.IVI_HIGH_TEMPERATURE''"
definition COMMON_EVENT_IVI_EXTREME_TEMPERATURE :: string where
  "COMMON_EVENT_IVI_EXTREME_TEMPERATURE = ''common.event.IVI_EXTREME_TEMPERATURE''"
definition COMMON_EVENT_IVI_TEMPERATURE_ABNORMAL :: string where
  "COMMON_EVENT_IVI_TEMPERATURE_ABNORMAL = ''common.event.IVI_TEMPERATURE_ABNORMAL''"
definition COMMON_EVENT_IVI_VOLTAGE_RECOVERY :: string where
  "COMMON_EVENT_IVI_VOLTAGE_RECOVERY = ''common.event.IVI_VOLTAGE_RECOVERY''"
definition COMMON_EVENT_IVI_TEMPERATURE_RECOVERY :: string where
  "COMMON_EVENT_IVI_TEMPERATURE_RECOVERY = ''common.event.IVI_TEMPERATURE_RECOVERY''"
definition COMMON_EVENT_IVI_ACTIVE :: string where
  "COMMON_EVENT_IVI_ACTIVE = ''common.event.IVI_ACTIVE''"
definition COMMON_EVENT_USB_STATE :: string where
  "COMMON_EVENT_USB_STATE = ''usual.event.hardware.usb.action.USB_STATE''"
definition COMMON_EVENT_USB_PORT_CHANGED :: string where
  "COMMON_EVENT_USB_PORT_CHANGED = ''usual.event.hardware.usb.action.USB_PORT_CHANGED''"
definition COMMON_EVENT_USB_DEVICE_ATTACHED :: string where
  "COMMON_EVENT_USB_DEVICE_ATTACHED = ''usual.event.hardware.usb.action.USB_DEVICE_ATTACHED''"
definition COMMON_EVENT_USB_DEVICE_DETACHED :: string where
  "COMMON_EVENT_USB_DEVICE_DETACHED = ''usual.event.hardware.usb.action.USB_DEVICE_DETACHED''"
definition COMMON_EVENT_USB_ACCESSORY_ATTACHED :: string where
  "COMMON_EVENT_USB_ACCESSORY_ATTACHED = ''usual.event.hardware.usb.action.USB_ACCESSORY_ATTACHED''"
definition COMMON_EVENT_USB_ACCESSORY_DETACHED :: string where
  "COMMON_EVENT_USB_ACCESSORY_DETACHED = ''usual.event.hardware.usb.action.USB_ACCESSORY_DETACHED''"
definition COMMON_EVENT_USB_CONTROL_DATA :: string where
  "COMMON_EVENT_USB_CONTROL_DATA = ''usual.event.hardware.usb.action.USB_CONTROL_DATA''"
definition COMMON_EVENT_DEVICE_STORAGE_LOW :: string where
  "COMMON_EVENT_DEVICE_STORAGE_LOW = ''usual.event.DEVICE_STORAGE_LOW''"
definition COMMON_EVENT_DEVICE_STORAGE_OK :: string where
  "COMMON_EVENT_DEVICE_STORAGE_OK = ''usual.event.DEVICE_STORAGE_OK''"
definition COMMON_EVENT_DEVICE_STORAGE_FULL :: string where
  "COMMON_EVENT_DEVICE_STORAGE_FULL = ''usual.event.DEVICE_STORAGE_FULL''"
definition COMMON_EVENT_CONNECTIVITY_CHANGE :: string where
  "COMMON_EVENT_CONNECTIVITY_CHANGE = ''usual.event.CONNECTIVITY_CHANGE''"
definition COMMON_EVENT_HTTP_PROXY_CHANGE :: string where
  "COMMON_EVENT_HTTP_PROXY_CHANGE = ''usual.event.HTTP_PROXY_CHANGE''"
definition COMMON_EVENT_DISK_REMOVED :: string where
  "COMMON_EVENT_DISK_REMOVED = ''usual.event.data.DISK_REMOVED''"
definition COMMON_EVENT_DISK_UNMOUNTED :: string where
  "COMMON_EVENT_DISK_UNMOUNTED = ''usual.event.data.DISK_UNMOUNTED''"
definition COMMON_EVENT_DISK_MOUNTED :: string where
  "COMMON_EVENT_DISK_MOUNTED = ''usual.event.data.DISK_MOUNTED''"
definition COMMON_EVENT_DISK_BAD_REMOVAL :: string where
  "COMMON_EVENT_DISK_BAD_REMOVAL = ''usual.event.data.DISK_BAD_REMOVAL''"
definition COMMON_EVENT_DISK_UNMOUNTABLE :: string where
  "COMMON_EVENT_DISK_UNMOUNTABLE = ''usual.event.data.DISK_UNMOUNTABLE''"
definition COMMON_EVENT_DISK_VOLUME_STATE_CHANGE :: string where
  "COMMON_EVENT_DISK_VOLUME_STATE_CHANGE = ''usual.event.data.DISK_VOLUME_STATE_CHANGE''"
definition COMMON_EVENT_DISK_EJECT :: string where
  "COMMON_EVENT_DISK_EJECT = ''usual.event.data.DISK_EJECT''"
definition COMMON_EVENT_VOLUME_REMOVED :: string where
  "COMMON_EVENT_VOLUME_REMOVED = ''usual.event.data.VOLUME_REMOVED''"
definition COMMON_EVENT_VOLUME_UNMOUNTED :: string where
  "COMMON_EVENT_VOLUME_UNMOUNTED = ''usual.event.data.VOLUME_UNMOUNTED''"
definition COMMON_EVENT_VOLUME_MOUNTED :: string where
  "COMMON_EVENT_VOLUME_MOUNTED = ''usual.event.data.VOLUME_MOUNTED''"
definition COMMON_EVENT_VOLUME_BAD_REMOVAL :: string where
  "COMMON_EVENT_VOLUME_BAD_REMOVAL = ''usual.event.data.VOLUME_BAD_REMOVAL''"
definition COMMON_EVENT_VOLUME_EJECT :: string where
  "COMMON_EVENT_VOLUME_EJECT = ''usual.event.data.VOLUME_EJECT''"
definition COMMON_EVENT_VISIBLE_ACCOUNTS_UPDATED :: string where
  "COMMON_EVENT_VISIBLE_ACCOUNTS_UPDATED = ''usual.event.data.VISIBLE_ACCOUNTS_UPDATED''"
definition COMMON_EVENT_ACCOUNT_DELETED :: string where
  "COMMON_EVENT_ACCOUNT_DELETED = ''usual.event.data.ACCOUNT_DELETED''"
definition COMMON_EVENT_FOUNDATION_READY :: string where
  "COMMON_EVENT_FOUNDATION_READY = ''common.event.FOUNDATION_READY''"
definition COMMON_EVENT_APP_FIRST_LAUNCH :: string where
  "COMMON_EVENT_APP_FIRST_LAUNCH = ''usual.event.APP_FIRST_LAUNCH''"
definition COMMON_EVENT_SIM_CARD_DEFAULT_VOICE_SUBSCRIPTION_CHANGED :: string where
  "COMMON_EVENT_SIM_CARD_DEFAULT_VOICE_SUBSCRIPTION_CHANGED = ''usual.event.SIM.DEFAULT_VOICE_SUBSCRIPTION_CHANGED''"
definition COMMON_EVENT_SIM_STATE_CHANGED :: string where
  "COMMON_EVENT_SIM_STATE_CHANGED = ''usual.event.SIM_STATE_CHANGED''"
definition COMMON_EVENT_AIRPLANE_MODE_CHANGED :: string where
  "COMMON_EVENT_AIRPLANE_MODE_CHANGED = ''usual.event.AIRPLANE_MODE''"
definition COMMON_EVENT_SMS_RECEIVE_COMPLETED :: string where
  "COMMON_EVENT_SMS_RECEIVE_COMPLETED = ''usual.event.SMS_RECEIVE_COMPLETED''"
definition COMMON_EVENT_SMS_EMERGENCY_CB_RECEIVE_COMPLETED :: string where
  "COMMON_EVENT_SMS_EMERGENCY_CB_RECEIVE_COMPLETED = ''usual.event.SMS_EMERGENCY_CB_RECEIVE_COMPLETED''"
definition COMMON_EVENT_SMS_CB_RECEIVE_COMPLETED :: string where
  "COMMON_EVENT_SMS_CB_RECEIVE_COMPLETED = ''usual.event.SMS_CB_RECEIVE_COMPLETED''"
definition COMMON_EVENT_STK_COMMAND :: string where
  "COMMON_EVENT_STK_COMMAND = ''usual.event.STK_COMMAND''"
definition COMMON_EVENT_STK_SESSION_END :: string where
  "COMMON_EVENT_STK_SESSION_END = ''usual.event.STK_SESSION_END''"
definition COMMON_EVENT_STK_CARD_STATE_CHANGED :: string where
  "COMMON_EVENT_STK_CARD_STATE_CHANGED = ''usual.event.STK_CARD_STATE_CHANGED''"
definition COMMON_EVENT_STK_ALPHA_IDENTIFIER :: string where
  "COMMON_EVENT_STK_ALPHA_IDENTIFIER = ''usual.event.STK_ALPHA_IDENTIFIER''"
definition COMMON_EVENT_SPN_INFO_CHANGED :: string where
  "COMMON_EVENT_SPN_INFO_CHANGED = ''usual.event.SPN_INFO_CHANGED''"
definition COMMON_EVENT_NITZ_TIME_CHANGED :: string where
  "COMMON_EVENT_NITZ_TIME_CHANGED = ''usual.event.NITZ_TIME_CHANGED''"
definition COMMON_EVENT_NITZ_TIMEZONE_CHANGED :: string where
  "COMMON_EVENT_NITZ_TIMEZONE_CHANGED = ''usual.event.NITZ_TIMEZONE_CHANGED''"
definition COMMON_EVENT_SMS_WAPPUSH_RECEIVE_COMPLETED :: string where
  "COMMON_EVENT_SMS_WAPPUSH_RECEIVE_COMPLETED = ''usual.event.SMS_WAPPUSH_RECEIVE_COMPLETED''"
definition COMMON_EVENT_OPERATOR_CONFIG_CHANGED :: string where
  "COMMON_EVENT_OPERATOR_CONFIG_CHANGED = ''usual.event.OPERATOR_CONFIG_CHANGED''"
definition COMMON_EVENT_SLOT_CHANGE :: string where
  "COMMON_EVENT_SLOT_CHANGE = ''usual.event.SLOT_CHANGE''"
definition COMMON_EVENT_TEST_ACTION1 :: string where
  "COMMON_EVENT_TEST_ACTION1 = ''usual.event.test1''"
definition COMMON_EVENT_TEST_ACTION2 :: string where
  "COMMON_EVENT_TEST_ACTION2 = ''usual.event.test2''"
definition COMMON_EVENT_SIM_CARD_DEFAULT_SMS_SUBSCRIPTION_CHANGED :: string where
  "COMMON_EVENT_SIM_CARD_DEFAULT_SMS_SUBSCRIPTION_CHANGED = ''usual.event.SIM.DEFAULT_SMS_SUBSCRIPTION_CHANGED''"
definition COMMON_EVENT_SIM_CARD_DEFAULT_DATA_SUBSCRIPTION_CHANGED :: string where
  "COMMON_EVENT_SIM_CARD_DEFAULT_DATA_SUBSCRIPTION_CHANGED = ''usual.event.SIM.DEFAULT_DATA_SUBSCRIPTION_CHANGED''"
definition COMMON_EVENT_SIM_CARD_DEFAULT_MAIN_SUBSCRIPTION_CHANGED :: string where
  "COMMON_EVENT_SIM_CARD_DEFAULT_MAIN_SUBSCRIPTION_CHANGED = ''usual.event.SIM.DEFAULT_MAIN_SUBSCRIPTION_CHANGED''"
definition COMMON_EVENT_SET_PRIMARY_SLOT_STATUS :: string where
  "COMMON_EVENT_SET_PRIMARY_SLOT_STATUS = ''usual.event.SET_PRIMARY_SLOT_STATUS''"
definition COMMON_EVENT_PRIMARY_SLOT_ROAMING :: string where
  "COMMON_EVENT_PRIMARY_SLOT_ROAMING = ''usual.event.PRIMARY_SLOT_ROAMING''"
definition COMMON_EVENT_CALL_STATE_CHANGED :: string where
  "COMMON_EVENT_CALL_STATE_CHANGED = ''usual.event.CALL_STATE_CHANGED''"
definition COMMON_EVENT_CELLULAR_DATA_STATE_CHANGED :: string where
  "COMMON_EVENT_CELLULAR_DATA_STATE_CHANGED = ''usual.event.CELLULAR_DATA_STATE_CHANGED''"
definition COMMON_EVENT_NETWORK_STATE_CHANGED :: string where
  "COMMON_EVENT_NETWORK_STATE_CHANGED = ''usual.event.NETWORK_STATE_CHANGED''"
definition COMMON_EVENT_SIGNAL_INFO_CHANGED :: string where
  "COMMON_EVENT_SIGNAL_INFO_CHANGED = ''usual.event.SIGNAL_INFO_CHANGED''"
definition COMMON_EVENT_INCOMING_CALL_MISSED :: string where
  "COMMON_EVENT_INCOMING_CALL_MISSED = ''usual.event.INCOMING_CALL_MISSED''"
definition COMMON_EVENT_QUICK_FIX_APPLY_RESULT :: string where
  "COMMON_EVENT_QUICK_FIX_APPLY_RESULT = ''usual.event.QUICK_FIX_APPLY_RESULT''"
definition COMMON_EVENT_QUICK_FIX_REVOKE_RESULT :: string where
  "COMMON_EVENT_QUICK_FIX_REVOKE_RESULT = ''usual.event.QUICK_FIX_REVOKE_RESULT''"
definition COMMON_EVENT_RADIO_STATE_CHANGE :: string where
  "COMMON_EVENT_RADIO_STATE_CHANGE = ''usual.event.RADIO_STATE_CHANGE''"
definition COMMON_EVENT_OS_ACCOUNT_SUB_PROFILE_CREATED :: string where
  "COMMON_EVENT_OS_ACCOUNT_SUB_PROFILE_CREATED = ''usual.event.OS_ACCOUNT_SUB_PROFILE_CREATED''"
definition COMMON_EVENT_OS_ACCOUNT_SUB_PROFILE_DELETED :: string where
  "COMMON_EVENT_OS_ACCOUNT_SUB_PROFILE_DELETED = ''usual.event.OS_ACCOUNT_SUB_PROFILE_DELETED''"
definition COMMON_EVENT_OS_ACCOUNT_SUB_PROFILE_SWITCHING :: string where
  "COMMON_EVENT_OS_ACCOUNT_SUB_PROFILE_SWITCHING = ''usual.event.OS_ACCOUNT_SUB_PROFILE_SWITCHING''"
definition COMMON_EVENT_OS_ACCOUNT_SUB_PROFILE_SWITCHED :: string where
  "COMMON_EVENT_OS_ACCOUNT_SUB_PROFILE_SWITCHED = ''usual.event.OS_ACCOUNT_SUB_PROFILE_SWITCHED''"
definition COMMON_EVENT_DISTRIBUTED_ACCOUNT_BOUND :: string where
  "COMMON_EVENT_DISTRIBUTED_ACCOUNT_BOUND = ''usual.event.DISTRIBUTED_ACCOUNT_BOUND''"
definition COMMON_EVENT_DISTRIBUTED_ACCOUNT_UNBOUND :: string where
  "COMMON_EVENT_DISTRIBUTED_ACCOUNT_UNBOUND = ''usual.event.DISTRIBUTED_ACCOUNT_UNBOUND''"
definition COMMON_EVENT_DISTRIBUTED_ACCOUNT_LOGIN :: string where
  "COMMON_EVENT_DISTRIBUTED_ACCOUNT_LOGIN = ''common.event.DISTRIBUTED_ACCOUNT_LOGIN''"
definition COMMON_EVENT_DISTRIBUTED_ACCOUNT_LOGOUT :: string where
  "COMMON_EVENT_DISTRIBUTED_ACCOUNT_LOGOUT = ''common.event.DISTRIBUTED_ACCOUNT_LOGOUT''"
definition COMMON_EVENT_DISTRIBUTED_ACCOUNT_TOKEN_INVALID :: string where
  "COMMON_EVENT_DISTRIBUTED_ACCOUNT_TOKEN_INVALID = ''common.event.DISTRIBUTED_ACCOUNT_TOKEN_INVALID''"
definition COMMON_EVENT_DISTRIBUTED_ACCOUNT_LOGOFF :: string where
  "COMMON_EVENT_DISTRIBUTED_ACCOUNT_LOGOFF = ''common.event.DISTRIBUTED_ACCOUNT_LOGOFF''"
definition COMMON_EVENT_USER_INFO_UPDATED :: string where
  "COMMON_EVENT_USER_INFO_UPDATED = ''usual.event.USER_INFO_UPDATED''"
definition COMMON_EVENT_DOMAIN_ACCOUNT_STATUS_CHANGED :: string where
  "COMMON_EVENT_DOMAIN_ACCOUNT_STATUS_CHANGED = ''usual.event.DOMAIN_ACCOUNT_STATUS_CHANGED''"
definition COMMON_EVENT_USER_LOCKING :: string where
  "COMMON_EVENT_USER_LOCKING = ''usual.event.USER_LOCKING''"
definition COMMON_EVENT_USER_LOCKED :: string where
  "COMMON_EVENT_USER_LOCKED = ''usual.event.USER_LOCKED''"
definition COMMON_EVENT_SCREEN_LOCKED :: string where
  "COMMON_EVENT_SCREEN_LOCKED = ''usual.event.SCREEN_LOCKED''"
definition COMMON_EVENT_SCREEN_UNLOCKED :: string where
  "COMMON_EVENT_SCREEN_UNLOCKED = ''usual.event.SCREEN_UNLOCKED''"
definition COMMON_EVENT_SCREEN_LOCK_EXITING :: string where
  "COMMON_EVENT_SCREEN_LOCK_EXITING = ''usual.event.SCREEN_LOCK_EXITING''"
definition COMMON_EVENT_AUDIO_QUALITY_CHANGE :: string where
  "COMMON_EVENT_AUDIO_QUALITY_CHANGE = ''usual.event.AUDIO_QUALITY_CHANGE''"
definition COMMON_EVENT_SPECIAL_CODE :: string where
  "COMMON_EVENT_SPECIAL_CODE = ''common.event.SPECIAL_CODE''"
definition COMMON_EVENT_REMINDER_STATUS_CHANGE :: string where
  "COMMON_EVENT_REMINDER_STATUS_CHANGE = ''usual.event.REMINDER_STATUS_CHANGE''"
definition COMMON_EVENT_PRIVACY_STATE_CHANGED :: string where
  "COMMON_EVENT_PRIVACY_STATE_CHANGED = ''usual.event.PRIVACY_STATE_CHANGED''"
definition COMMON_EVENT_MINORSMODE_ON :: string where
  "COMMON_EVENT_MINORSMODE_ON = ''usual.event.MINORSMODE_ON''"
definition COMMON_EVENT_MINORSMODE_OFF :: string where
  "COMMON_EVENT_MINORSMODE_OFF = ''usual.event.MINORSMODE_OFF''"
definition COMMON_EVENT_SCREEN_LOCK_FILE_ACCESS_STATE_CHANGED :: string where
  "COMMON_EVENT_SCREEN_LOCK_FILE_ACCESS_STATE_CHANGED = ''usual.event.SCREEN_LOCK_FILE_ACCESS_STATE_CHANGED''"
definition COMMON_EVENT_BUNDLE_RESOURCES_CHANGED :: string where
  "COMMON_EVENT_BUNDLE_RESOURCES_CHANGED = ''usual.event.BUNDLE_RESOURCES_CHANGED''"
definition COMMON_EVENT_DATA_SHARE_READY :: string where
  "COMMON_EVENT_DATA_SHARE_READY = ''usual.event.DATA_SHARE_READY''"
definition COMMON_EVENT_OVERLAY_PACKAGE_ADDED :: string where
  "COMMON_EVENT_OVERLAY_PACKAGE_ADDED = ''usual.event.OVERLAY_PACKAGE_ADDED''"
definition COMMON_EVENT_OVERLAY_PACKAGE_CHANGED :: string where
  "COMMON_EVENT_OVERLAY_PACKAGE_CHANGED = ''usual.event.OVERLAY_PACKAGE_CHANGED''"
definition COMMON_EVENT_DISPOSED_RULE_ADDED :: string where
  "COMMON_EVENT_DISPOSED_RULE_ADDED = ''usual.event.DISPOSED_RULE_ADDED''"
definition COMMON_EVENT_DISPOSED_RULE_DELETED :: string where
  "COMMON_EVENT_DISPOSED_RULE_DELETED = ''usual.event.DISPOSED_RULE_DELETED''"
definition COMMON_EVENT_VPN_CONNECTION_STATUS_CHANGED :: string where
  "COMMON_EVENT_VPN_CONNECTION_STATUS_CHANGED = ''usual.event.VPN_CONNECTION_STATUS_CHANGED''"
definition COMMON_EVENT_SECOND_MOUNTED :: string where
  "COMMON_EVENT_SECOND_MOUNTED = ''usual.event.SECOND_MOUNTED''"
definition COMMON_EVENT_RESTORE_START :: string where
  "COMMON_EVENT_RESTORE_START = ''usual.event.RESTORE_START''"
definition COMMON_EVENT_RESTORE_END :: string where
  "COMMON_EVENT_RESTORE_END = ''usual.event.RESTORE_END''"
definition COMMON_EVENT_MANAGED_BROWSER_POLICY_CHANGED :: string where
  "COMMON_EVENT_MANAGED_BROWSER_POLICY_CHANGED = ''usual.event.MANAGED_BROWSER_POLICY_CHANGED''"
definition COMMON_EVENT_DEFAULT_APPLICATION_CHANGED :: string where
  "COMMON_EVENT_DEFAULT_APPLICATION_CHANGED = ''usual.event.DEFAULT_APPLICATION_CHANGED''"
definition COMMON_EVENT_SHORTCUT_CHANGED :: string where
  "COMMON_EVENT_SHORTCUT_CHANGED = ''usual.event.SHORTCUT_CHANGED''"
definition COMMON_EVENT_TRUSTED_RING_CHECKIN :: string where
  "COMMON_EVENT_TRUSTED_RING_CHECKIN = ''usual.event.TRUSTED_RING_CHECK_IN''"
definition COMMON_EVENT_TRUSTED_RING_CHECKOUT :: string where
  "COMMON_EVENT_TRUSTED_RING_CHECKOUT = ''usual.event.TRUSTED_RING_CHECK_OUT''"
definition COMMON_EVENT_TRUSTED_RING_RESET :: string where
  "COMMON_EVENT_TRUSTED_RING_RESET = ''usual.event.TRUSTED_RING_RESET''"
definition COMMON_EVENT_KIOSK_MODE_ON :: string where
  "COMMON_EVENT_KIOSK_MODE_ON = ''usual.event.KIOSK_MODE_ON''"
definition COMMON_EVENT_KIOSK_MODE_OFF :: string where
  "COMMON_EVENT_KIOSK_MODE_OFF = ''usual.event.KIOSK_MODE_OFF''"
definition COMMON_EVENT_CUSTOM_CONFIG_POLICY_UPDATED :: string where
  "COMMON_EVENT_CUSTOM_CONFIG_POLICY_UPDATED = ''usual.event.CUSTOM_CONFIG_POLICY_UPDATED''"
definition COMMON_EVENT_CUSTOM_ROAMING_REGION_UPDATED :: string where
  "COMMON_EVENT_CUSTOM_ROAMING_REGION_UPDATED = ''usual.event.CUSTOM_ROAMING_REGION_UPDATED''"
definition COMMON_EVENT_SCREEN_SHARE :: string where
  "COMMON_EVENT_SCREEN_SHARE = ''usual.event.SCREEN_SHARE''"
definition COMMON_EVENT_CANCEL_BEFORE_ALERTING :: string where
  "COMMON_EVENT_CANCEL_BEFORE_ALERTING = ''usual.event.CANCEL_BEFORE_ALERTING''"
definition COMMON_EVENT_CLOUD_DISK_STATE_CHANGED :: string where
  "COMMON_EVENT_CLOUD_DISK_STATE_CHANGED = ''usual.event.CLOUD_DISK_STATE_CHANGED''"
definition COMMON_EVENT_TABLET_MODE_CHANGED :: string where
  "COMMON_EVENT_TABLET_MODE_CHANGED = ''usual.event.TABLET_MODE_CHANGED''"
definition COMMON_EVENT_LID_STATE_CHANGED :: string where
  "COMMON_EVENT_LID_STATE_CHANGED = ''usual.event.LID_STATE_CHANGED''"
definition COMMON_EVENT_VOLUME_DECRYPTED :: string where
  "COMMON_EVENT_VOLUME_DECRYPTED = ''usual.event.VOLUME_DECRYPTED''"
definition COMMON_EVENT_VOLUME_ENCRYPTED :: string where
  "COMMON_EVENT_VOLUME_ENCRYPTED = ''usual.event.VOLUME_ENCRYPTED''"
definition COMMON_EVENT_VOLUME_ENCRYPTION_POLICY_SET :: string where
  "COMMON_EVENT_VOLUME_ENCRYPTION_POLICY_SET = ''usual.event.VOLUME_ENCRYPTION_POLICY_SET''"
definition COMMON_EVENT_SANDBOX_BUNDLE_ADDED :: string where
  "COMMON_EVENT_SANDBOX_BUNDLE_ADDED = ''usual.event.SANDBOX_BUNDLE_ADDED''"
definition COMMON_EVENT_SANDBOX_BUNDLE_REMOVED :: string where
  "COMMON_EVENT_SANDBOX_BUNDLE_REMOVED = ''usual.event.SANDBOX_BUNDLE_REMOVED''"

section \<open>The list of system events\<close>

definition Init_part1 :: "string list" where
  "Init_part1 =
     [COMMON_EVENT_BOOT_COMPLETED,
      COMMON_EVENT_LOCKED_BOOT_COMPLETED,
      COMMON_EVENT_SHUTDOWN,
      COMMON_EVENT_BATTERY_CHANGED,
      COMMON_EVENT_BATTERY_LOW,
      COMMON_EVENT_BATTERY_OKAY,
      COMMON_EVENT_POWER_CONNECTED,
      COMMON_EVENT_POWER_DISCONNECTED,
      COMMON_EVENT_SCREEN_OFF,
      COMMON_EVENT_SCREEN_ON,
      COMMON_EVENT_THERMAL_LEVEL_CHANGED,
      COMMON_EVENT_ENTER_FORCE_SLEEP,
      COMMON_EVENT_EXIT_FORCE_SLEEP,
      COMMON_EVENT_ENTER_HIBERNATE,
      COMMON_EVENT_EXIT_HIBERNATE,
      COMMON_EVENT_CHARGE_IDLE_MODE_CHANGED,
      COMMON_EVENT_USER_PRESENT,
      COMMON_EVENT_TIME_TICK,
      COMMON_EVENT_TIME_CHANGED,
      COMMON_EVENT_DATE_CHANGED,
      COMMON_EVENT_TIMEZONE_CHANGED,
      COMMON_EVENT_CLOSE_SYSTEM_DIALOGS,
      COMMON_EVENT_BUNDLE_SCAN_FINISHED,
      COMMON_EVENT_PACKAGE_ADDED,
      COMMON_EVENT_SKILL_CHANGED,
      COMMON_EVENT_PACKAGE_INSTALLATION_STARTED,
      COMMON_EVENT_DYNAMIC_ICON_CHANGED]"

definition Init_part2 :: "string list" where
  "Init_part2 =
     [COMMON_EVENT_PACKAGE_REPLACED,
      COMMON_EVENT_MY_PACKAGE_REPLACED,
      COMMON_EVENT_PACKAGE_REMOVED,
      COMMON_EVENT_BUNDLE_REMOVED,
      COMMON_EVENT_PACKAGE_FULLY_REMOVED,
      COMMON_EVENT_PACKAGE_CHANGED,
      COMMON_EVENT_PACKAGE_RESTARTED,
      COMMON_EVENT_PACKAGE_DATA_CLEARED,
      COMMON_EVENT_PACKAGE_UNINSTALLED_DATA_CLEARED,
      COMMON_EVENT_PACKAGE_CACHE_CLEARED,
      COMMON_EVENT_PACKAGES_SUSPENDED,
      COMMON_EVENT_PACKAGES_UNSUSPENDED,
      COMMON_EVENT_MY_PACKAGE_SUSPENDED,
      COMMON_EVENT_MY_PACKAGE_UNSUSPENDED,
      COMMON_EVENT_UID_REMOVED,
      COMMON_EVENT_PACKAGE_FIRST_LAUNCH,
      COMMON_EVENT_PACKAGE_NEEDS_VERIFICATION,
      COMMON_EVENT_PACKAGE_VERIFIED,
      COMMON_EVENT_EXTERNAL_APPLICATIONS_AVAILABLE,
      COMMON_EVENT_EXTERNAL_APPLICATIONS_UNAVAILABLE,
      COMMON_EVENT_CONFIGURATION_CHANGED,
      COMMON_EVENT_LOCALE_CHANGED,
      COMMON_EVENT_MANAGE_PACKAGE_STORAGE,
      COMMON_EVENT_SANDBOX_PACKAGE_ADDED,
      COMMON_EVENT_SANDBOX_PACKAGE_REMOVED,
      COMMON_EVENT_DRIVE_MODE,
      COMMON_EVENT_HOME_MODE]"

definition Init_part3 :: "string list" where
  "Init_part3 =
     [COMMON_EVENT_OFFICE_MODE,
      COMMON_EVENT_SPLIT_SCREEN,
      COMMON_EVENT_USER_STARTED,
      COMMON_EVENT_USER_BACKGROUND,
      COMMON_EVENT_USER_FOREGROUND,
      COMMON_EVENT_USER_SWITCHED,
      COMMON_EVENT_USER_STARTING,
      COMMON_EVENT_USER_UNLOCKED,
      COMMON_EVENT_USER_STOPPING,
      COMMON_EVENT_USER_STOPPED,
      COMMON_EVENT_HWID_LOGIN,
      COMMON_EVENT_HWID_LOGOUT,
      COMMON_EVENT_HWID_TOKEN_INVALID,
      COMMON_EVENT_HWID_LOGOFF,
      COMMON_EVENT_WIFI_POWER_STATE,
      COMMON_EVENT_WIFI_SCAN_FINISHED,
      COMMON_EVENT_WIFI_RSSI_VALUE,
      COMMON_EVENT_WIFI_CONN_STATE,
      COMMON_EVENT_WIFI_HOTSPOT_STATE,
      COMMON_EVENT_WIFI_AP_STA_JOIN,
      COMMON_EVENT_WIFI_AP_STA_LEAVE,
      COMMON_EVENT_WIFI_MPLINK_STATE_CHANGE,
      COMMON_EVENT_WIFI_P2P_CONN_STATE,
      COMMON_EVENT_WIFI_P2P_STATE_CHANGED,
      COMMON_EVENT_WIFI_P2P_PEERS_STATE_CHANGED,
      COMMON_EVENT_WIFI_P2P_PEERS_DISCOVERY_STATE_CHANGED,
      COMMON_EVENT_WIFI_P2P_CURRENT_DEVICE_STATE_CHANGED]"

definition Init_part4 :: "string list" where
  "Init_part4 =
     [COMMON_EVENT_WIFI_P2P_GROUP_STATE_CHANGED,
      COMMON_EVENT_NETMANAGER_NETSTATES_UPDATED,
      COMMON_EVENT_NETMANAGER_NETSTATES_LIMITED,
      COMMON_EVENT_BLUETOOTH_HANDSFREE_AG_CONNECT_STATE_UPDATE,
      COMMON_EVENT_BLUETOOTH_HANDSFREE_AG_CONNECT_STATE_CHANGE,
      COMMON_EVENT_BLUETOOTH_HANDSFREE_AG_CURRENT_DEVICE_UPDATE,
      COMMON_EVENT_BLUETOOTH_HANDSFREE_AG_AUDIO_STATE_UPDATE,
      COMMON_EVENT_BLUETOOTH_A2DPSOURCE_CONNECT_STATE_UPDATE,
      COMMON_EVENT_BLUETOOTH_A2DPSOURCE_CONNECT_STATE_CHANGE,
      COMMON_EVENT_BLUETOOTH_A2DPSOURCE_CURRENT_DEVICE_UPDATE,
      COMMON_EVENT_BLUETOOTH_A2DPSOURCE_PLAYING_STATE_UPDATE,
      COMMON_EVENT_BLUETOOTH_A2DPSOURCE_AVRCP_CONNECT_STATE_UPDATE,
      COMMON_EVENT_BLUETOOTH_A2DPSOURCE_AVRCP_CONNECT_STATE_CHANGE,
      COMMON_EVENT_BLUETOOTH_A2DPSOURCE_CODEC_VALUE_UPDATE,
      COMMON_EVENT_BLUETOOTH_A2DPSOURCE_CODEC_VALUE_CHANGE,
      COMMON_EVENT_BLUETOOTH_A2DPSOURCE_PLAY_STATE_CHANGE,
      COMMON_EVENT_BLUETOOTH_SCO_CONNECT_STATE_CHANGE,
      COMMON_EVENT_BLUETOOTH_REMOTEDEVICE_DISCOVERED,
      COMMON_EVENT_BLUETOOTH_REMOTEDEVICE_CLASS_VALUE_UPDATE,
      COMMON_EVENT_BLUETOOTH_REMOTEDEVICE_ACL_CONNECTED,
      COMMON_EVENT_BLUETOOTH_REMOTEDEVICE_ACL_DISCONNECTED,
      COMMON_EVENT_BLUETOOTH_REMOTEDEVICE_ACL_STATE_CHANGE,
      COMMON_EVENT_BLUETOOTH_REMOTEDEVICE_NAME_UPDATE,
      COMMON_EVENT_BLUETOOTH_REMOTEDEVICE_PAIR_STATE,
      COMMON_EVENT_BLUETOOTH_REMOTEDEVICE_PAIR_STATE_CHANGE,
      COMMON_EVENT_BLUETOOTH_REMOTEDEVICE_BATTERY_VALUE_UPDATE,
      COMMON_EVENT_BLUETOOTH_REMOTEDEVICE_SDP_RESULT]"

definition Init_part5 :: "string list" where
  "Init_part5 =
     [COMMON_EVENT_BLUETOOTH_REMOTEDEVICE_UUID_VALUE,
      COMMON_EVENT_BLUETOOTH_REMOTEDEVICE_PAIRING_REQ,
      COMMON_EVENT_BLUETOOTH_REMOTEDEVICE_PAIRING_CANCEL,
      COMMON_EVENT_BLUETOOTH_REMOTEDEVICE_CONNECT_REQ,
      COMMON_EVENT_BLUETOOTH_REMOTEDEVICE_CONNECT_REPLY,
      COMMON_EVENT_BLUETOOTH_REMOTEDEVICE_CONNECT_CANCEL,
      COMMON_EVENT_BLUETOOTH_HANDSFREEUNIT_CONNECT_STATE_UPDATE,
      COMMON_EVENT_BLUETOOTH_HANDSFREEUNIT_AUDIO_STATE_UPDATE,
      COMMON_EVENT_BLUETOOTH_HANDSFREEUNIT_AG_COMMON_EVENT,
      COMMON_EVENT_BLUETOOTH_HANDSFREEUNIT_AG_CALL_STATE_UPDATE,
      COMMON_EVENT_BLUETOOTH_HOST_STATE_UPDATE,
      COMMON_EVENT_BLUETOOTH_HOST_REQ_DISCOVERABLE,
      COMMON_EVENT_BLUETOOTH_HOST_REQ_ENABLE,
      COMMON_EVENT_BLUETOOTH_HOST_REQ_DISABLE,
      COMMON_EVENT_BLUETOOTH_HOST_SCAN_MODE_UPDATE,
      COMMON_EVENT_BLUETOOTH_HOST_SCAN_MODE_CHANGE,
      COMMON_EVENT_BLUETOOTH_HOST_DISCOVERY_STARTED,
      COMMON_EVENT_BLUETOOTH_HOST_DISCOVERY_FINISHED,
      COMMON_EVENT_BLUETOOTH_HOST_NAME_UPDATE,
      COMMON_EVENT_BLUETOOTH_A2DPSINK_CONNECT_STATE_UPDATE,
      COMMON_EVENT_BLUETOOTH_A2DPSINK_PLAYING_STATE_UPDATE,
      COMMON_EVENT_BLUETOOTH_A2DPSINK_AUDIO_STATE_UPDATE,
      COMMON_EVENT_BLUETOOTH_REMOTEDEVICE_CONNECT_STATUS_VALUE,
      COMMON_EVENT_NFC_ACTION_ADAPTER_STATE_CHANGED,
      COMMON_EVENT_NFC_ACTION_RF_FIELD_ON_DETECTED,
      COMMON_EVENT_NFC_ACTION_RF_FIELD_OFF_DETECTED,
      COMMON_EVENT_DISCHARGING]"

definition Init_part6 :: "string list" where
  "Init_part6 =
     [COMMON_EVENT_CHARGING,
      COMMON_EVENT_CHARGE_TYPE_CHANGED,
      COMMON_EVENT_DEVICE_IDLE_MODE_CHANGED,
      COMMON_EVENT_DEVICE_IDLE_EXEMPTION_LIST_UPDATED,
      COMMON_EVENT_POWER_SAVE_MODE_CHANGED,
      COMMON_EVENT_USER_ADDED,
      COMMON_EVENT_USER_REMOVED,
      COMMON_EVENT_ABILITY_ADDED,
      COMMON_EVENT_ABILITY_REMOVED,
      COMMON_EVENT_ABILITY_UPDATED,
      COMMON_EVENT_LOCATION_MODE_STATE_CHANGED,
      COMMON_EVENT_IVI_SLEEP,
      COMMON_EVENT_IVI_PAUSE,
      COMMON_EVENT_IVI_STANDBY,
      COMMON_EVENT_IVI_LASTMODE_SAVE,
      COMMON_EVENT_IVI_VOLTAGE_ABNORMAL,
      COMMON_EVENT_IVI_HIGH_TEMPERATURE,
      COMMON_EVENT_IVI_EXTREME_TEMPERATURE,
      COMMON_EVENT_IVI_TEMPERATURE_ABNORMAL,
      COMMON_EVENT_IVI_VOLTAGE_RECOVERY,
      COMMON_EVENT_IVI_TEMPERATURE_RECOVERY,
      COMMON_EVENT_IVI_ACTIVE,
      COMMON_EVENT_USB_STATE]"

definition Init_part7 :: "string list" where
  "Init_part7 =
     [COMMON_EVENT_USB_PORT_CHANGED,
      COMMON_EVENT_USB_DEVICE_ATTACHED,
      COMMON_EVENT_USB_DEVICE_DETACHED,
      COMMON_EVENT_USB_ACCESSORY_ATTACHED,
      COMMON_EVENT_USB_ACCESSORY_DETACHED,
      COMMON_EVENT_USB_CONTROL_DATA,
      COMMON_EVENT_DEVICE_STORAGE_LOW,
      COMMON_EVENT_DEVICE_STORAGE_OK,
      COMMON_EVENT_DEVICE_STORAGE_FULL,
      COMMON_EVENT_CONNECTIVITY_CHANGE,
      COMMON_EVENT_HTTP_PROXY_CHANGE,
      COMMON_EVENT_DISK_REMOVED,
      COMMON_EVENT_DISK_UNMOUNTED,
      COMMON_EVENT_DISK_MOUNTED,
      COMMON_EVENT_DISK_BAD_REMOVAL,
      COMMON_EVENT_DISK_UNMOUNTABLE,
      COMMON_EVENT_DISK_VOLUME_STATE_CHANGE,
      COMMON_EVENT_DISK_EJECT,
      COMMON_EVENT_VOLUME_REMOVED,
      COMMON_EVENT_VOLUME_UNMOUNTED,
      COMMON_EVENT_VOLUME_MOUNTED,
      COMMON_EVENT_VOLUME_BAD_REMOVAL]"

definition Init_part8 :: "string list" where
  "Init_part8 =
     [COMMON_EVENT_VOLUME_EJECT,
      COMMON_EVENT_VISIBLE_ACCOUNTS_UPDATED,
      COMMON_EVENT_ACCOUNT_DELETED,
      COMMON_EVENT_FOUNDATION_READY,
      COMMON_EVENT_APP_FIRST_LAUNCH,
      COMMON_EVENT_SIM_CARD_DEFAULT_VOICE_SUBSCRIPTION_CHANGED,
      COMMON_EVENT_SIM_STATE_CHANGED,
      COMMON_EVENT_AIRPLANE_MODE_CHANGED,
      COMMON_EVENT_SMS_RECEIVE_COMPLETED,
      COMMON_EVENT_SMS_EMERGENCY_CB_RECEIVE_COMPLETED,
      COMMON_EVENT_SMS_CB_RECEIVE_COMPLETED,
      COMMON_EVENT_STK_COMMAND,
      COMMON_EVENT_STK_SESSION_END,
      COMMON_EVENT_STK_CARD_STATE_CHANGED,
      COMMON_EVENT_STK_ALPHA_IDENTIFIER,
      COMMON_EVENT_SPN_INFO_CHANGED,
      COMMON_EVENT_NITZ_TIME_CHANGED,
      COMMON_EVENT_NITZ_TIMEZONE_CHANGED,
      COMMON_EVENT_SMS_WAPPUSH_RECEIVE_COMPLETED,
      COMMON_EVENT_OPERATOR_CONFIG_CHANGED,
      COMMON_EVENT_SLOT_CHANGE,
      COMMON_EVENT_TEST_ACTION1,
      COMMON_EVENT_TEST_ACTION2,
      COMMON_EVENT_SIM_CARD_DEFAULT_SMS_SUBSCRIPTION_CHANGED]"

definition Init_part9 :: "string list" where
  "Init_part9 =
     [COMMON_EVENT_SIM_CARD_DEFAULT_DATA_SUBSCRIPTION_CHANGED,
      COMMON_EVENT_CALL_STATE_CHANGED,
      COMMON_EVENT_SIM_CARD_DEFAULT_MAIN_SUBSCRIPTION_CHANGED,
      COMMON_EVENT_SET_PRIMARY_SLOT_STATUS,
      COMMON_EVENT_PRIMARY_SLOT_ROAMING,
      COMMON_EVENT_CELLULAR_DATA_STATE_CHANGED,
      COMMON_EVENT_SIGNAL_INFO_CHANGED,
      COMMON_EVENT_NETWORK_STATE_CHANGED,
      COMMON_EVENT_INCOMING_CALL_MISSED,
      COMMON_EVENT_QUICK_FIX_APPLY_RESULT,
      COMMON_EVENT_QUICK_FIX_REVOKE_RESULT,
      COMMON_EVENT_RADIO_STATE_CHANGE,
      COMMON_EVENT_OS_ACCOUNT_SUB_PROFILE_CREATED,
      COMMON_EVENT_OS_ACCOUNT_SUB_PROFILE_DELETED,
      COMMON_EVENT_OS_ACCOUNT_SUB_PROFILE_SWITCHING,
      COMMON_EVENT_OS_ACCOUNT_SUB_PROFILE_SWITCHED,
      COMMON_EVENT_DISTRIBUTED_ACCOUNT_BOUND,
      COMMON_EVENT_DISTRIBUTED_ACCOUNT_UNBOUND,
      COMMON_EVENT_DISTRIBUTED_ACCOUNT_LOGIN,
      COMMON_EVENT_DISTRIBUTED_ACCOUNT_LOGOUT,
      COMMON_EVENT_DISTRIBUTED_ACCOUNT_TOKEN_INVALID,
      COMMON_EVENT_DISTRIBUTED_ACCOUNT_LOGOFF,
      COMMON_EVENT_USER_INFO_UPDATED,
      COMMON_EVENT_DOMAIN_ACCOUNT_STATUS_CHANGED]"

definition Init_part10 :: "string list" where
  "Init_part10 =
     [COMMON_EVENT_USER_LOCKING,
      COMMON_EVENT_USER_LOCKED,
      COMMON_EVENT_SCREEN_LOCKED,
      COMMON_EVENT_SCREEN_UNLOCKED,
      COMMON_EVENT_SCREEN_LOCK_EXITING,
      COMMON_EVENT_AUDIO_QUALITY_CHANGE,
      COMMON_EVENT_SPECIAL_CODE,
      COMMON_EVENT_REMINDER_STATUS_CHANGE,
      COMMON_EVENT_PRIVACY_STATE_CHANGED,
      COMMON_EVENT_MINORSMODE_ON,
      COMMON_EVENT_MINORSMODE_OFF,
      COMMON_EVENT_SCREEN_LOCK_FILE_ACCESS_STATE_CHANGED,
      COMMON_EVENT_BUNDLE_RESOURCES_CHANGED,
      COMMON_EVENT_DATA_SHARE_READY,
      COMMON_EVENT_OVERLAY_PACKAGE_ADDED,
      COMMON_EVENT_OVERLAY_PACKAGE_CHANGED,
      COMMON_EVENT_DISPOSED_RULE_ADDED,
      COMMON_EVENT_DISPOSED_RULE_DELETED,
      COMMON_EVENT_VPN_CONNECTION_STATUS_CHANGED,
      COMMON_EVENT_SECOND_MOUNTED,
      COMMON_EVENT_RESTORE_START,
      COMMON_EVENT_RESTORE_END,
      COMMON_EVENT_MANAGED_BROWSER_POLICY_CHANGED,
      COMMON_EVENT_DEFAULT_APPLICATION_CHANGED]"

definition Init_part11 :: "string list" where
  "Init_part11 =
     [COMMON_EVENT_SHORTCUT_CHANGED,
      COMMON_EVENT_TRUSTED_RING_CHECKIN,
      COMMON_EVENT_TRUSTED_RING_CHECKOUT,
      COMMON_EVENT_TRUSTED_RING_RESET,
      COMMON_EVENT_KIOSK_MODE_ON,
      COMMON_EVENT_KIOSK_MODE_OFF,
      COMMON_EVENT_CUSTOM_CONFIG_POLICY_UPDATED,
      COMMON_EVENT_CUSTOM_ROAMING_REGION_UPDATED,
      COMMON_EVENT_SCREEN_SHARE,
      COMMON_EVENT_CANCEL_BEFORE_ALERTING,
      COMMON_EVENT_CLOUD_DISK_STATE_CHANGED,
      COMMON_EVENT_TABLET_MODE_CHANGED,
      COMMON_EVENT_LID_STATE_CHANGED,
      COMMON_EVENT_VOLUME_DECRYPTED,
      COMMON_EVENT_VOLUME_ENCRYPTED,
      COMMON_EVENT_VOLUME_ENCRYPTION_POLICY_SET,
      COMMON_EVENT_SANDBOX_BUNDLE_ADDED,
      COMMON_EVENT_SANDBOX_BUNDLE_REMOVED]"

definition commonEventSupport :: "string list" where
  "commonEventSupport =
     Init_part1 @
     Init_part2 @
     Init_part3 @
     Init_part4 @
     Init_part5 @
     Init_part6 @
     Init_part7 @
     Init_part8 @
     Init_part9 @
     Init_part10 @
     Init_part11"

lemmas support_parts = commonEventSupport_def Init_part1_def Init_part2_def Init_part3_def Init_part4_def Init_part5_def Init_part6_def
  Init_part7_def Init_part8_def Init_part9_def Init_part10_def Init_part11_def

definition IsSystemEvent :: "string \<Rightarrow> bool" where
  "IsSystemEvent str \<longleftrightarrow> str \<in> set commonEventSupport"

end
