(* ===== verification/Environment.thy ===== *)
theory Environment
  imports Event_Types
begin

text \<open>
  What the service calls outside this repository, as a record of functions every model
  definition that needs it takes as an argument: the access-token kit, the bundle manager,
  the OS account service, system parameters and the IPC proxies of subscribers.
  On top of it, \<open>AccessTokenHelper\<close> (\<open>access_token_helper.cpp\<close>), \<open>BundleManagerHelper\<close>
  (\<open>bundle_manager_helper.cpp\<close>) and \<open>OsAccountManagerHelper\<close> (\<open>os_account_manager_helper.cpp\<close>).
\<close>

datatype token_type = TOKEN_INVALID | TOKEN_HAP | TOKEN_NATIVE | TOKEN_SHELL
datatype permission_grant = PERMISSION_DENIED | PERMISSION_GRANTED
datatype dlp_type = DLP_COMMON | DLP_READ | DLP_FULL_CONTROL

record env =
  kit_token_type :: "token_id \<Rightarrow> token_type"
  kit_verify :: "token_id \<Rightarrow> string \<Rightarrow> permission_grant"
  kit_dlp_type :: "token_id \<Rightarrow> dlp_type"
  kit_process_name :: "token_id \<Rightarrow> string"
  kit_hap_token :: "int32 \<Rightarrow> string \<Rightarrow> int \<Rightarrow> token_id"
  kit_full_token_system :: "token_id \<Rightarrow> bool"
  bm_proxy :: "bool \<Rightarrow> bool" \<comment> \<open>\<open>GetBundleMgrProxyInner(isAsync)\<close>\<close>
  bm_name_for_uid :: "uid_t \<Rightarrow> string"
  bm_system_app :: "uid_t \<Rightarrow> bool"
  bm_target_version :: "uid_t \<Rightarrow> int32 option" \<comment> \<open>\<open>None\<close>: an error code\<close>
  bm_uid_of_bundle :: "string \<Rightarrow> int32 \<Rightarrow> int32"
  os_local_id :: "int32 \<Rightarrow> int32 option" \<comment> \<open>\<open>None\<close>: an error code, the out parameter untouched\<close>
  os_account_exists :: "int32 \<Rightarrow> bool"
  os_active_ids :: "int32 list option"
  sys_check_sa_permission :: bool \<comment> \<open>the system parameter equals \<open>"true"\<close>\<close>
  sys_subscriber_limit :: nat \<comment> \<open>\<open>hiviewdfx.ces.subscriber_limit\<close>\<close>
  ipc_is_receiver :: "remote \<Rightarrow> bool" \<comment> \<open>\<open>iface_cast<IEventReceive>\<close> succeeds\<close>
  ipc_notify :: "remote \<Rightarrow> CommonEventData \<Rightarrow> bool \<Rightarrow> bool \<Rightarrow> err_code"

section \<open>AccessTokenHelper\<close>

definition VerifyNativeToken :: "env \<Rightarrow> token_id \<Rightarrow> bool" where
  "VerifyNativeToken E t = (kit_token_type E t = TOKEN_NATIVE)"

definition VerifyAccessToken :: "env \<Rightarrow> token_id \<Rightarrow> string \<Rightarrow> bool" where
  "VerifyAccessToken E t p = (kit_verify E t p = PERMISSION_GRANTED)"

definition VerifyShellToken :: "env \<Rightarrow> token_id \<Rightarrow> bool" where
  "VerifyShellToken E t = (kit_token_type E t = TOKEN_SHELL)"

definition IsDlpHap :: "env \<Rightarrow> token_id \<Rightarrow> bool" where
  "IsDlpHap E t =
     (if kit_token_type E t = TOKEN_HAP
      then kit_dlp_type E t = DLP_READ \<or> kit_dlp_type E t = DLP_FULL_CONTROL
      else False)"

definition GetHapTokenID :: "env \<Rightarrow> int32 \<Rightarrow> string \<Rightarrow> int \<Rightarrow> token_id" where
  "GetHapTokenID E user bundle inst = kit_hap_token E user bundle inst"

text \<open>\<open>IsSystemApp\<close> reads the calling token of the IPC request.\<close>

definition IsSystemApp :: "env \<Rightarrow> token_id \<Rightarrow> bool" where
  "IsSystemApp E callingToken =
     (if kit_token_type E callingToken = TOKEN_HAP
      then (if kit_full_token_system E callingToken then True else False)
      else False)"

definition GetCallingProcessName :: "env \<Rightarrow> token_id \<Rightarrow> string" where
  "GetCallingProcessName E t = kit_process_name E t"

section \<open>BundleManagerHelper\<close>

definition GetBundleName :: "env \<Rightarrow> uid_t \<Rightarrow> string" where
  "GetBundleName E u = (if \<not> bm_proxy E True then [] else bm_name_for_uid E u)"

definition GetApiTargetVersionByUid :: "env \<Rightarrow> uid_t \<Rightarrow> int32 option" where
  "GetApiTargetVersionByUid E u =
     (if \<not> bm_proxy E True then None
      else (case bm_target_version E u of None \<Rightarrow> None | Some v \<Rightarrow> Some v))"

definition CheckIsSystemAppByUid :: "env \<Rightarrow> uid_t \<Rightarrow> bool" where
  "CheckIsSystemAppByUid E u = (if \<not> bm_proxy E False then False else bm_system_app E u)"

definition CheckIsSystemAppByBundleName :: "env \<Rightarrow> string \<Rightarrow> int32 \<Rightarrow> bool" where
  "CheckIsSystemAppByBundleName E bundle user =
     (if \<not> bm_proxy E False then False
      else bm_system_app E (to_uid (bm_uid_of_bundle E bundle user)))"

definition GetDefaultUidByBundleName :: "env \<Rightarrow> string \<Rightarrow> int32 \<Rightarrow> int32" where
  "GetDefaultUidByBundleName E bundle user =
     (if \<not> bm_proxy E False then -1 else bm_uid_of_bundle E bundle user)"

section \<open>OsAccountManagerHelper\<close>

text \<open>The out parameter keeps its value when the account service fails.\<close>

definition GetOsAccountLocalIdFromUid :: "env \<Rightarrow> int32 \<Rightarrow> int32 \<Rightarrow> bool \<times> int32" where
  "GetOsAccountLocalIdFromUid E u old =
     (case os_local_id E u of None \<Rightarrow> (False, old) | Some i \<Rightarrow> (True, i))"

definition CheckUserExists :: "env \<Rightarrow> int32 \<Rightarrow> bool" where
  "CheckUserExists E user = os_account_exists E user"

end
