(* ===== verification/Permission_Manager.thy ===== *)
theory Permission_Manager
  imports Event_Support Environment
begin

text \<open>
  \<open>CommonEventPermissionManager\<close> (\<open>common_event_permission_manager.cpp\<close>): the table of the
  permissions a subscriber needs for a system event, \<open>Init\<close>, which copies it into
  \<open>eventMap_\<close> in the iteration order of an \<open>unordered_map\<close> (the argument \<open>order\<close>), the
  lookups, and the usage record that the sensitive events cause
  (\<open>AccessTokenHelper::RecordSensitivePermissionUsage\<close>).
\<close>

datatype PermissionState = PermDEFAULT | PermAND | PermOR

record Permission =
  isSensitive :: bool
  perm_state :: PermissionState
  names :: "string list"

definition Permission_init :: Permission where
  "Permission_init = \<lparr>isSensitive = False, perm_state = PermDEFAULT, names = []\<rparr>"

type_synonym perm_row = "string \<times> PermissionState \<times> string list"

definition COMMON_EVENT_MAP :: "perm_row list" where
  "COMMON_EVENT_MAP =
     [(COMMON_EVENT_BOOT_COMPLETED, PermDEFAULT, [''ohos.permission.RECEIVER_STARTUP_COMPLETED'']),
      (COMMON_EVENT_LOCKED_BOOT_COMPLETED, PermDEFAULT, [''ohos.permission.RECEIVER_STARTUP_COMPLETED'']),
      (COMMON_EVENT_USER_SWITCHED, PermOR, [''ohos.permission.MANAGE_LOCAL_ACCOUNTS'', ''ohos.permission.INTERACT_ACROSS_LOCAL_ACCOUNTS'']),
      (COMMON_EVENT_USER_STARTING, PermDEFAULT, [''ohos.permission.INTERACT_ACROSS_LOCAL_ACCOUNTS'']),
      (COMMON_EVENT_USER_STOPPING, PermDEFAULT, [''ohos.permission.INTERACT_ACROSS_LOCAL_ACCOUNTS'']),
      (COMMON_EVENT_WIFI_SCAN_FINISHED, PermDEFAULT, [''ohos.permission.LOCATION'']),
      (COMMON_EVENT_WIFI_RSSI_VALUE, PermDEFAULT, [''ohos.permission.GET_WIFI_INFO'']),
      (COMMON_EVENT_WIFI_AP_STA_JOIN, PermDEFAULT, [''ohos.permission.GET_WIFI_INFO'']),
      (COMMON_EVENT_WIFI_AP_STA_LEAVE, PermDEFAULT, [''ohos.permission.GET_WIFI_INFO'']),
      (COMMON_EVENT_WIFI_MPLINK_STATE_CHANGE, PermDEFAULT, [''ohos.permission.MPLINK_CHANGE_STATE'']),
      (COMMON_EVENT_WIFI_P2P_CONN_STATE, PermAND, [''ohos.permission.GET_WIFI_INFO'', ''ohos.permission.LOCATION'']),
      (COMMON_EVENT_WIFI_P2P_STATE_CHANGED, PermDEFAULT, [''ohos.permission.GET_WIFI_INFO'']),
      (COMMON_EVENT_WIFI_P2P_PEERS_STATE_CHANGED, PermDEFAULT, [''ohos.permission.GET_WIFI_INFO'']),
      (COMMON_EVENT_WIFI_P2P_PEERS_DISCOVERY_STATE_CHANGED, PermDEFAULT, [''ohos.permission.GET_WIFI_INFO'']),
      (COMMON_EVENT_WIFI_P2P_CURRENT_DEVICE_STATE_CHANGED, PermDEFAULT, [''ohos.permission.GET_WIFI_INFO'']),
      (COMMON_EVENT_WIFI_P2P_GROUP_STATE_CHANGED, PermDEFAULT, [''ohos.permission.GET_WIFI_INFO'']),
      (COMMON_EVENT_NFC_ACTION_RF_FIELD_ON_DETECTED, PermDEFAULT, [''ohos.permission.MANAGE_SECURE_SETTINGS'']),
      (COMMON_EVENT_NFC_ACTION_RF_FIELD_OFF_DETECTED, PermDEFAULT, [''ohos.permission.MANAGE_SECURE_SETTINGS'']),
      (COMMON_EVENT_USER_ADDED, PermDEFAULT, [''ohos.permission.MANAGE_LOCAL_ACCOUNTS'']),
      (COMMON_EVENT_USER_REMOVED, PermDEFAULT, [''ohos.permission.MANAGE_LOCAL_ACCOUNTS'']),
      (COMMON_EVENT_ABILITY_ADDED, PermDEFAULT, [''ohos.permission.LISTEN_BUNDLE_CHANGE'']),
      (COMMON_EVENT_ABILITY_REMOVED, PermDEFAULT, [''ohos.permission.LISTEN_BUNDLE_CHANGE'']),
      (COMMON_EVENT_ABILITY_UPDATED, PermDEFAULT, [''ohos.permission.LISTEN_BUNDLE_CHANGE'']),
      (COMMON_EVENT_DISK_REMOVED, PermDEFAULT, [''ohos.permission.STORAGE_MANAGER'']),
      (COMMON_EVENT_DISK_UNMOUNTED, PermDEFAULT, [''ohos.permission.STORAGE_MANAGER'']),
      (COMMON_EVENT_DISK_MOUNTED, PermDEFAULT, [''ohos.permission.STORAGE_MANAGER'']),
      (COMMON_EVENT_DISK_BAD_REMOVAL, PermDEFAULT, [''ohos.permission.STORAGE_MANAGER'']),
      (COMMON_EVENT_DISK_UNMOUNTABLE, PermDEFAULT, [''ohos.permission.STORAGE_MANAGER'']),
      (COMMON_EVENT_DISK_VOLUME_STATE_CHANGE, PermDEFAULT, [''ohos.permission.STORAGE_MANAGER'']),
      (COMMON_EVENT_DISK_EJECT, PermDEFAULT, [''ohos.permission.STORAGE_MANAGER'']),
      (COMMON_EVENT_VOLUME_REMOVED, PermDEFAULT, [''ohos.permission.STORAGE_MANAGER'']),
      (COMMON_EVENT_VOLUME_UNMOUNTED, PermDEFAULT, [''ohos.permission.STORAGE_MANAGER'']),
      (COMMON_EVENT_VOLUME_MOUNTED, PermDEFAULT, [''ohos.permission.STORAGE_MANAGER'']),
      (COMMON_EVENT_VOLUME_BAD_REMOVAL, PermDEFAULT, [''ohos.permission.STORAGE_MANAGER'']),
      (COMMON_EVENT_VOLUME_EJECT, PermDEFAULT, [''ohos.permission.STORAGE_MANAGER'']),
      (COMMON_EVENT_VISIBLE_ACCOUNTS_UPDATED, PermDEFAULT, [''ohos.permission.GET_APP_ACCOUNTS'']),
      (COMMON_EVENT_ACCOUNT_DELETED, PermDEFAULT, [''ohos.permission.INTERACT_ACROSS_LOCAL_ACCOUNTS'']),
      (COMMON_EVENT_FOUNDATION_READY, PermDEFAULT, [''ohos.permission.RECEIVER_STARTUP_COMPLETED'']),
      (COMMON_EVENT_SLOT_CHANGE, PermDEFAULT, [''ohos.permission.NOTIFICATION_CONTROLLER'']),
      (COMMON_EVENT_SMS_RECEIVE_COMPLETED, PermDEFAULT, [''ohos.permission.RECEIVE_SMS'']),
      (COMMON_EVENT_BUNDLE_RESOURCES_CHANGED, PermDEFAULT, [''ohos.permission.GET_BUNDLE_RESOURCES'']),
      (COMMON_EVENT_VPN_CONNECTION_STATUS_CHANGED, PermDEFAULT, [''ohos.permission.GET_NETWORK_INFO'']),
      (COMMON_EVENT_RESTORE_START, PermDEFAULT, [''ohos.permission.START_RESTORE_NOTIFICATION'']),
      (COMMON_EVENT_RESTORE_END, PermDEFAULT, [''ohos.permission.RESTORE_END_NOTIFICATION'']),
      (COMMON_EVENT_DEFAULT_APPLICATION_CHANGED, PermDEFAULT, [''ohos.permission.CHANGE_DEFAULT_APPLICATION'']),
      (COMMON_EVENT_SHORTCUT_CHANGED, PermDEFAULT, [''ohos.permission.MANAGE_SHORTCUTS'']),
      (COMMON_EVENT_TRUSTED_RING_CHECKIN, PermDEFAULT, [''ohos.permission.USE_TRUSTED_RING'']),
      (COMMON_EVENT_TRUSTED_RING_CHECKOUT, PermDEFAULT, [''ohos.permission.USE_TRUSTED_RING'']),
      (COMMON_EVENT_TRUSTED_RING_RESET, PermDEFAULT, [''ohos.permission.USE_TRUSTED_RING'']),
      (COMMON_EVENT_CLOUD_DISK_STATE_CHANGED, PermDEFAULT, [''ohos.permission.ACCESS_CLOUD_DISK_INFO'']),
      (COMMON_EVENT_VOLUME_ENCRYPTION_POLICY_SET, PermDEFAULT, [''ohos.permission.QUERY_VOLUME_ENCRYPTION_STATUS'']),
      (COMMON_EVENT_CALL_STATE_CHANGED, PermDEFAULT, [''ohos.permission.GET_TELEPHONY_STATE'']),
      (COMMON_EVENT_INCOMING_CALL_MISSED, PermDEFAULT, [''ohos.permission.GET_TELEPHONY_STATE'']),
      (COMMON_EVENT_BLUETOOTH_HOST_SCAN_MODE_CHANGE, PermDEFAULT, [''ohos.permission.ACCESS_BLUETOOTH'']),
      (COMMON_EVENT_BLUETOOTH_HANDSFREE_AG_CONNECT_STATE_CHANGE, PermDEFAULT, [''ohos.permission.ACCESS_BLUETOOTH'']),
      (COMMON_EVENT_BLUETOOTH_A2DPSOURCE_CONNECT_STATE_CHANGE, PermDEFAULT, [''ohos.permission.ACCESS_BLUETOOTH'']),
      (COMMON_EVENT_BLUETOOTH_A2DPSOURCE_AVRCP_CONNECT_STATE_CHANGE, PermDEFAULT, [''ohos.permission.ACCESS_BLUETOOTH'']),
      (COMMON_EVENT_BLUETOOTH_A2DPSOURCE_CODEC_VALUE_CHANGE, PermDEFAULT, [''ohos.permission.ACCESS_BLUETOOTH'']),
      (COMMON_EVENT_BLUETOOTH_A2DPSOURCE_PLAY_STATE_CHANGE, PermDEFAULT, [''ohos.permission.ACCESS_BLUETOOTH'']),
      (COMMON_EVENT_BLUETOOTH_SCO_CONNECT_STATE_CHANGE, PermDEFAULT, [''ohos.permission.ACCESS_BLUETOOTH'']),
      (COMMON_EVENT_BLUETOOTH_REMOTEDEVICE_ACL_STATE_CHANGE, PermDEFAULT, [''ohos.permission.ACCESS_BLUETOOTH'']),
      (COMMON_EVENT_BLUETOOTH_REMOTEDEVICE_PAIR_STATE_CHANGE, PermDEFAULT, [''ohos.permission.ACCESS_BLUETOOTH''])]"

definition SYSTEM_API_COMMON_EVENTS :: "string list" where
  "SYSTEM_API_COMMON_EVENTS =
     [COMMON_EVENT_DOMAIN_ACCOUNT_STATUS_CHANGED,
      COMMON_EVENT_DEVICE_IDLE_EXEMPTION_LIST_UPDATED,
      COMMON_EVENT_PACKAGE_INSTALLATION_STARTED,
      COMMON_EVENT_CHARGE_TYPE_CHANGED,
      COMMON_EVENT_DYNAMIC_ICON_CHANGED,
      COMMON_EVENT_RESTORE_START,
      COMMON_EVENT_RESTORE_END,
      COMMON_EVENT_DEFAULT_APPLICATION_CHANGED,
      COMMON_EVENT_SHORTCUT_CHANGED,
      COMMON_EVENT_TRUSTED_RING_CHECKIN,
      COMMON_EVENT_TRUSTED_RING_CHECKOUT,
      COMMON_EVENT_TRUSTED_RING_RESET,
      COMMON_EVENT_CUSTOM_CONFIG_POLICY_UPDATED,
      COMMON_EVENT_CUSTOM_ROAMING_REGION_UPDATED,
      COMMON_EVENT_USER_LOCKING,
      COMMON_EVENT_USER_LOCKED,
      COMMON_EVENT_BUNDLE_SCAN_FINISHED,
      COMMON_EVENT_SCREEN_SHARE,
      COMMON_EVENT_CLOUD_DISK_STATE_CHANGED,
      COMMON_EVENT_APP_FIRST_LAUNCH,
      COMMON_EVENT_SCREEN_LOCK_EXITING,
      COMMON_EVENT_USB_CONTROL_DATA,
      COMMON_EVENT_OS_ACCOUNT_SUB_PROFILE_CREATED,
      COMMON_EVENT_OS_ACCOUNT_SUB_PROFILE_DELETED,
      COMMON_EVENT_OS_ACCOUNT_SUB_PROFILE_SWITCHING,
      COMMON_EVENT_OS_ACCOUNT_SUB_PROFILE_SWITCHED,
      COMMON_EVENT_DISTRIBUTED_ACCOUNT_BOUND,
      COMMON_EVENT_DISTRIBUTED_ACCOUNT_UNBOUND,
      COMMON_EVENT_SANDBOX_BUNDLE_ADDED,
      COMMON_EVENT_SANDBOX_BUNDLE_REMOVED,
      COMMON_EVENT_DISK_VOLUME_STATE_CHANGE]"

definition SENSITIVE_COMMON_EVENTS :: "string list" where
  "SENSITIVE_COMMON_EVENTS = [COMMON_EVENT_SMS_RECEIVE_COMPLETED]"

definition IsSensitiveEvent :: "string \<Rightarrow> bool" where
  "IsSensitiveEvent e \<longleftrightarrow> e \<in> set SENSITIVE_COMMON_EVENTS"

definition IsSystemAPIEvent :: "string \<Rightarrow> bool" where
  "IsSystemAPIEvent e \<longleftrightarrow> e \<in> set SYSTEM_API_COMMON_EVENTS"

text \<open>
  One \<open>Permission per\<close> lives across the iterations: its \<open>state\<close> is assigned, its
  \<open>names\<close> are cleared at the end of each, its \<open>isSensitive\<close> is only ever set.
\<close>

fun Init_loop :: "perm_row list \<Rightarrow> Permission \<Rightarrow> (string, Permission) umap \<Rightarrow> (string, Permission) umap"
  where
  "Init_loop [] per m = m"
| "Init_loop ((eventName, st, ps) # rest) per m =
     (let per1 = per\<lparr>perm_state := st, names := names per @ ps\<rparr>;
          per2 = (if IsSensitiveEvent eventName then per1\<lparr>isSensitive := True\<rparr> else per1);
          m' = (if map_of m eventName = None then AList.update eventName per2 m else m)
      in Init_loop rest (per2\<lparr>names := []\<rparr>) m')"

definition PermissionManager_Init :: "perm_row list \<Rightarrow> (string, Permission) umap" where
  "PermissionManager_Init order = Init_loop order Permission_init []"

definition GetEventPermission :: "(string, Permission) umap \<Rightarrow> string \<Rightarrow> Permission" where
  "GetEventPermission m e = (case map_of m e of Some p \<Rightarrow> p | None \<Rightarrow> Permission_init)"

text \<open>The permissions whose use is recorded, none or all of the event's.\<close>

definition RecordSensitivePermissionUsage ::
  "env \<Rightarrow> (string, Permission) umap \<Rightarrow> token_id \<Rightarrow> string \<Rightarrow> (token_id \<times> string) list" where
  "RecordSensitivePermissionUsage E m t e =
     (if kit_token_type E t \<noteq> TOKEN_HAP then []
      else (let p = GetEventPermission m e
            in if \<not> isSensitive p \<or> names p = [] then []
               else map (\<lambda>n. (t, n)) (names p)))"

section \<open>Properties\<close>

lemma Init_loop_names:
  "names per = [] \<Longrightarrow>
     map_option (\<lambda>p. (perm_state p, names p)) (map_of (Init_loop rows per m) e) =
     (case map_of m e of
        Some p \<Rightarrow> Some (perm_state p, names p)
      | None \<Rightarrow> map_of rows e)"
  by (induction rows per m rule: Init_loop.induct)
    (auto simp: Let_def update_conv' split: option.splits)

lemma Init_loop_keeps:
  "map_of m e = Some v \<Longrightarrow> map_of (Init_loop rows per m) e = Some v"
proof (induction rows per m rule: Init_loop.induct)
  case (1 per m)
  then show ?case by simp
next
  case (2 eventName st ps rest per m)
  then show ?case by (cases "e = eventName") (simp_all add: Let_def update_conv')
qed

lemma Init_loop_sensitive:
  "\<lbrakk>names per = []; map_of m e = None; map_of (Init_loop rows per m) e = Some p\<rbrakk> \<Longrightarrow>
     isSensitive p \<longleftrightarrow>
       isSensitive per \<or> IsSensitiveEvent e \<or>
       (\<exists>s \<in> set (takeWhile (\<lambda>x. x \<noteq> e) (map fst rows)). IsSensitiveEvent s)"
proof (induction rows per m rule: Init_loop.induct)
  case (1 per m)
  then show ?case by simp
next
  case (2 eventName st ps rest per m)
  show ?case
  proof (cases "eventName = e")
    case True
    let ?per2 = "if IsSensitiveEvent e then per\<lparr>perm_state := st, names := ps, isSensitive := True\<rparr>
      else per\<lparr>perm_state := st, names := ps\<rparr>"
    have "map_of (Init_loop rest (?per2\<lparr>names := []\<rparr>) (AList.update e ?per2 m)) e = Some ?per2"
      by (rule Init_loop_keeps) (simp add: update_conv')
    with 2 True have "p = ?per2"
      by (simp add: Let_def split: if_splits)
    with True show ?thesis by auto
  next
    case False
    with 2 show ?thesis by (auto simp: Let_def update_conv')
  qed
qed

end
