(* ===== verification/Subscriber_Match.thy ===== *)
theory Subscriber_Match
  imports Matching_Skills Publish_Info Permission_Manager
begin

text \<open>
  The tests a subscriber record has to pass to receive an event: the \<open>Check...\<close> members of
  \<open>CommonEventSubscriberManager\<close> (\<open>common_event_subscriber_manager.cpp\<close>) and
  \<open>CommonEventSubscribeInfo\<close>'s view of them.  They read the subscriber record, the event
  record and the pair of event data and publish info its \<open>payloadPtr\<close> points to, and
  change nothing.
\<close>

abbreviation events_of :: "EventSubscriberRecord \<Rightarrow> string list" where
  "events_of r \<equiv> ms_events (si_matchingSkills (eventSubscribeInfo r))"

abbreviation action_of :: "payload \<Rightarrow> string" where
  "action_of pl \<equiv> w_action (cd_want (commonEventData pl))"

section \<open>Single tests\<close>

definition CheckSubscriberByUserId :: "int32 \<Rightarrow> bool \<Rightarrow> int32 \<Rightarrow> bool" where
  "CheckSubscriberByUserId subscriberUserId isSysApp user =
     (if subscriberUserId = ALL_USER \<or> subscriberUserId = user then True
      else if isSysApp \<and> (user = UNDEFINED_USER \<or> user = ALL_USER \<or>
        (subscriberUserId \<ge> SUBSCRIBE_USER_SYSTEM_BEGIN \<and>
         subscriberUserId \<le> SUBSCRIBE_USER_SYSTEM_END)) then True
      else False)"

fun CheckSubscriberBySpecifiedUids :: "int32 \<Rightarrow> int32 list \<Rightarrow> bool" where
  "CheckSubscriberBySpecifiedUids u [] = False"
| "CheckSubscriberBySpecifiedUids u (x # xs) =
     (if x = u then True else CheckSubscriberBySpecifiedUids u xs)"

definition CheckSubscriberBySpecifiedType :: "int32 \<Rightarrow> bool \<Rightarrow> bool" where
  "CheckSubscriberBySpecifiedType t isSysApp \<longleftrightarrow>
     t = ALL_SUBSCRIBER_TYPE \<or> (t = SYSTEM_SUBSCRIBER_TYPE \<and> isSysApp)"

definition CheckSubscriberByMaximumVersion ::
  "env \<Rightarrow> EventSubscriberRecord \<Rightarrow> CommonEventPublishInfo \<Rightarrow> bool" where
  "CheckSubscriberByMaximumVersion E sub p =
     (let maximumVersion = pi_maximumVersion p
      in if maximumVersion = DEFAULT_VERSION then False
         else (case GetApiTargetVersionByUid E (uid (subRecordInfo sub)) of
                 None \<Rightarrow> True
               | Some v \<Rightarrow> if v smod 1000 > maximumVersion then False else True))"

definition CheckWhetherIsAppIndexSubscribed ::
  "EventSubscriberRecord \<Rightarrow> EventRecordInfo \<Rightarrow> bool" where
  "CheckWhetherIsAppIndexSubscribed sub pub =
     (if bundleName pub \<noteq> [] \<and> bundleName (subRecordInfo sub) \<noteq> [] \<and>
         bundleName (subRecordInfo sub) = bundleName pub \<and> uid (subRecordInfo sub) \<noteq> uid pub
      then False else True)"

definition CheckSubscriberRequiredPermission ::
  "env \<Rightarrow> EventSubscriberRecord \<Rightarrow> EventRecordInfo \<Rightarrow> bool" where
  "CheckSubscriberRequiredPermission E sub pub =
     (if uid (subRecordInfo sub) = uid pub then True
      else (let perm = si_permission (eventSubscribeInfo sub)
            in if perm = [] then True
               else if \<not> VerifyAccessToken E (callerToken pub) perm then False else True))"

definition CheckPublisherWhetherMatched ::
  "env \<Rightarrow> EventSubscriberRecord \<Rightarrow> EventRecordInfo \<Rightarrow> bool" where
  "CheckPublisherWhetherMatched E sub pub =
     (let requiredBundle = si_publisherBundleName (eventSubscribeInfo sub);
          requiredUid = si_publisherUid (eventSubscribeInfo sub)
      in if requiredBundle \<noteq> [] \<and> requiredBundle \<noteq> bundleName pub then False
         else if requiredUid > 0 \<and> uid pub > 0 \<and> to_uid requiredUid \<noteq> uid pub then False
         else if \<not> CheckSubscriberRequiredPermission E sub pub then False
         else True)"

fun verify_each :: "env \<Rightarrow> token_id \<Rightarrow> string list \<Rightarrow> bool" where
  "verify_each E t [] = True"
| "verify_each E t (p # ps) = (if \<not> VerifyAccessToken E t p then False else verify_each E t ps)"

definition CheckPublisherRequiredPermissions ::
  "env \<Rightarrow> EventSubscriberRecord \<Rightarrow> EventRecordInfo \<Rightarrow> CommonEventPublishInfo \<Rightarrow> bool" where
  "CheckPublisherRequiredPermissions E sub pub p =
     (if uid (subRecordInfo sub) = uid pub then True
      else verify_each E (callerToken (subRecordInfo sub)) (pi_subscriberPermissions p))"

text \<open>The two loops over the event's permissions, with the flag \<open>ret\<close> they leave behind.\<close>

fun and_loop :: "env \<Rightarrow> token_id \<Rightarrow> string list \<Rightarrow> bool \<Rightarrow> bool" where
  "and_loop E t [] ret = ret"
| "and_loop E t (p # ps) ret =
     (let r = VerifyAccessToken E t p in if \<not> r then r else and_loop E t ps r)"

fun or_loop :: "env \<Rightarrow> token_id \<Rightarrow> string list \<Rightarrow> bool \<Rightarrow> bool" where
  "or_loop E t [] ret = ret"
| "or_loop E t (p # ps) ret =
     (let r = VerifyAccessToken E t p in if r then r else or_loop E t ps r)"

definition CheckSubscriberPermission ::
  "env \<Rightarrow> (string, Permission) umap \<Rightarrow> EventSubscriberRecord \<Rightarrow> EventRecordInfo \<Rightarrow> string \<Rightarrow> bool"
  where
  "CheckSubscriberPermission E pm sub pub event =
     (let info = subRecordInfo sub; tok = callerToken info
      in if IsSystemAPIEvent event \<and> \<not> (isSubsystem info \<or> isSystemApp info) then False
         else if uid info = uid pub then True
         else (let permission = GetEventPermission pm event
               in if names permission = [] then True
                  else if length (names permission) = 1
                    then VerifyAccessToken E tok (hd (names permission))
                  else if perm_state permission = PermAND
                    then and_loop E tok (names permission) False
                  else if perm_state permission = PermOR
                    then or_loop E tok (names permission) False
                  else False))"

definition CheckSubscriberWhetherMatched ::
  "env \<Rightarrow> EventSubscriberRecord \<Rightarrow> EventRecordInfo \<Rightarrow> CommonEventPublishInfo \<Rightarrow> bool" where
  "CheckSubscriberWhetherMatched E sub pub p =
     (let info = subRecordInfo sub; filterSettings = GetFilterSettings p
      in if filterSettings = 0 then True
         else
           (let c0 = 0;
                c1 = (if pi_bundleName p \<noteq> [] \<and> pi_bundleName p = bundleName info
                      then c0 OR SUBSCRIBER_FILTER_BUNDLE_INDEX else c0);
                isSys = isSystemApp info \<or> isSubsystem info;
                c2 = (if pi_subscriberType p \<noteq> UNINITIALIZATED_SUBSCRIBER_TYPE \<and>
                        CheckSubscriberBySpecifiedType (pi_subscriberType p) isSys
                      then c1 OR SUBSCRIBER_FILTER_SUBSCRIBER_TYPE_INDEX else c1);
                c3 = (if pi_subscriberUids p \<noteq> [] \<and>
                        CheckSubscriberBySpecifiedUids (to_int32 (uid info)) (pi_subscriberUids p)
                      then c2 OR SUBSCRIBER_FILTER_SUBSCRIBER_UID_INDEX else c2);
                c4 = (if pi_subscriberPermissions p \<noteq> [] \<and>
                        CheckPublisherRequiredPermissions E sub pub p
                      then c3 OR SUBSCRIBER_FILTER_PERMISSION_INDEX else c3);
                c5 = (if CheckSubscriberByMaximumVersion E sub p
                      then c4 OR SUBSCRIBER_FILTER_VERSION else c4)
            in if pi_rule p = RuleAND then c5 = filterSettings
               else c5 AND filterSettings \<noteq> 0))"

section \<open>The whole test\<close>

text \<open>The body of the loop of \<open>GetSubscriberRecordsByWantLocked\<close>: whether the record at
  hand is added to the receivers.\<close>

definition accepts ::
  "env \<Rightarrow> (string, Permission) umap \<Rightarrow> CommonEventRecord \<Rightarrow> payload \<Rightarrow> EventSubscriberRecord \<Rightarrow> bool"
  where
  "accepts E pm er pl sub =
     (let pub = eventRecordInfo er;
          isSysApp = (isSystemApp pub \<or> isSubsystem pub) \<and> \<not> isProxy pub
      in if \<not> Match (si_matchingSkills (eventSubscribeInfo sub)) (cd_want (commonEventData pl))
           then False
         else if \<not> CheckSubscriberByUserId (si_userId (eventSubscribeInfo sub)) isSysApp (userId er)
           then False
         else if \<not> CheckSubscriberPermission E pm sub pub (action_of pl) then False
         else if \<not> CheckWhetherIsAppIndexSubscribed sub pub then False
         else if \<not> CheckPublisherWhetherMatched E sub pub then False
         else if \<not> CheckSubscriberWhetherMatched E sub pub (publishInfo pl) then False
         else True)"

section \<open>Properties of the tests\<close>

lemma CheckSubscriberBySpecifiedUids_iff [simp]:
  "CheckSubscriberBySpecifiedUids u us \<longleftrightarrow> u \<in> set us"
  by (induction us) auto

lemma verify_each_iff: "verify_each E t ps \<longleftrightarrow> (\<forall>p \<in> set ps. VerifyAccessToken E t p)"
  by (induction ps) auto

lemma and_loop_iff:
  "and_loop E t ps ret \<longleftrightarrow> (ps = [] \<and> ret \<or> ps \<noteq> [] \<and> (\<forall>p \<in> set ps. VerifyAccessToken E t p))"
proof (induction ps arbitrary: ret)
  case (Cons p ps)
  then show ?case by (cases "VerifyAccessToken E t p"; cases ps) simp_all
qed simp

lemma or_loop_iff:
  "or_loop E t ps ret \<longleftrightarrow> (ps = [] \<and> ret \<or> (\<exists>p \<in> set ps. VerifyAccessToken E t p))"
proof (induction ps arbitrary: ret)
  case (Cons p ps)
  then show ?case by (cases "VerifyAccessToken E t p"; cases ps) simp_all
qed simp

lemma accepts_iff:
  "accepts E pm er pl sub \<longleftrightarrow>
     Match (si_matchingSkills (eventSubscribeInfo sub)) (cd_want (commonEventData pl)) \<and>
     CheckSubscriberByUserId (si_userId (eventSubscribeInfo sub))
       ((isSystemApp (eventRecordInfo er) \<or> isSubsystem (eventRecordInfo er)) \<and>
        \<not> isProxy (eventRecordInfo er)) (userId er) \<and>
     CheckSubscriberPermission E pm sub (eventRecordInfo er) (action_of pl) \<and>
     CheckWhetherIsAppIndexSubscribed sub (eventRecordInfo er) \<and>
     CheckPublisherWhetherMatched E sub (eventRecordInfo er) \<and>
     CheckSubscriberWhetherMatched E sub (eventRecordInfo er) (publishInfo pl)"
  unfolding accepts_def Let_def by auto

lemma accepts_action: "accepts E pm er pl sub \<Longrightarrow> action_of pl \<in> set (events_of sub)"
  by (simp add: accepts_iff Match_iff)

subsection \<open>The filter as an instance of the contract\<close>

definition dyn_bundle :: "CommonEventPublishInfo \<Rightarrow> EventSubscriberRecord \<times> EventRecordInfo \<Rightarrow> bool" where
  "dyn_bundle p x \<longleftrightarrow>
     pi_bundleName p \<noteq> [] \<and> pi_bundleName p = bundleName (subRecordInfo (fst x))"

definition dyn_perm ::
  "env \<Rightarrow> CommonEventPublishInfo \<Rightarrow> EventSubscriberRecord \<times> EventRecordInfo \<Rightarrow> bool" where
  "dyn_perm E p x \<longleftrightarrow> pi_subscriberPermissions p \<noteq> [] \<and>
     (uid (subRecordInfo (fst x)) = uid (snd x) \<or>
      (\<forall>q \<in> set (pi_subscriberPermissions p).
         VerifyAccessToken E (callerToken (subRecordInfo (fst x))) q))"

definition dyn_type :: "CommonEventPublishInfo \<Rightarrow> EventSubscriberRecord \<times> EventRecordInfo \<Rightarrow> bool" where
  "dyn_type p x \<longleftrightarrow> pi_subscriberType p \<noteq> UNINITIALIZATED_SUBSCRIBER_TYPE \<and>
     CheckSubscriberBySpecifiedType (pi_subscriberType p)
       (isSystemApp (subRecordInfo (fst x)) \<or> isSubsystem (subRecordInfo (fst x)))"

definition dyn_uids :: "CommonEventPublishInfo \<Rightarrow> EventSubscriberRecord \<times> EventRecordInfo \<Rightarrow> bool" where
  "dyn_uids p x \<longleftrightarrow> to_int32 (uid (subRecordInfo (fst x))) \<in> set (pi_subscriberUids p)"

definition dyn_ver ::
  "env \<Rightarrow> CommonEventPublishInfo \<Rightarrow> EventSubscriberRecord \<times> EventRecordInfo \<Rightarrow> bool" where
  "dyn_ver E p x \<longleftrightarrow> CheckSubscriberByMaximumVersion E (fst x) p"

interpretation dyn_filter: subscriber_filter
  "\<lambda>p x. CheckSubscriberWhetherMatched E (fst x) (snd x) p"
  dyn_bundle "dyn_perm E" dyn_type dyn_uids "dyn_ver E"
proof
  fix p and x :: "EventSubscriberRecord \<times> EventRecordInfo"
  show "CheckSubscriberWhetherMatched E (fst x) (snd x) p \<longleftrightarrow>
      GetFilterSettings p = 0 \<or>
      rule_holds (pi_rule p)
        (bits_of (dyn_bundle p x) (dyn_perm E p x) (dyn_type p x) (dyn_uids p x) (dyn_ver E p x))
        (GetFilterSettings p)"
  proof -
    have uids: "pi_subscriberUids p \<noteq> [] \<and> to_int32 (uid (subRecordInfo (fst x))) \<in> set (pi_subscriberUids p)
        \<longleftrightarrow> dyn_uids p x"
      by (auto simp: dyn_uids_def)
    have perm: "pi_subscriberPermissions p \<noteq> [] \<and>
        CheckPublisherRequiredPermissions E (fst x) (snd x) p \<longleftrightarrow> dyn_perm E p x"
      by (auto simp: dyn_perm_def CheckPublisherRequiredPermissions_def verify_each_iff)
    show ?thesis
      unfolding CheckSubscriberWhetherMatched_def Let_def rule_holds_def
        CheckSubscriberBySpecifiedUids_iff uids perm dyn_ver_def [symmetric]
        dyn_bundle_def [symmetric] dyn_type_def [symmetric]
      by (cases "dyn_bundle p x"; cases "dyn_perm E p x"; cases "dyn_type p x";
          cases "dyn_uids p x"; cases "dyn_ver E p x")
        (simp_all add: bits_of_def filter_consts)
  qed
qed (auto simp: dyn_bundle_def dyn_perm_def dyn_type_def dyn_uids_def dyn_ver_def
  CheckSubscriberByMaximumVersion_def)

end
