(* ===== verification/Subscriber_Manager.thy ===== *)
theory Subscriber_Manager
  imports Subscriber_Match Event_Support
begin

text \<open>
  \<open>CommonEventSubscriberManager\<close> (\<open>common_event_subscriber_manager.cpp\<close>): the records of the
  subscribers, the index from event names to records, the number of subscribers of each
  process, and the events kept for frozen processes.

  Subscriber records are shared objects, so they live in a heap: \<open>subHeap\<close> maps the pointers
  below \<open>subNext\<close> to the records, and \<open>subscribers\<close> and the vectors of \<open>eventSubscribers\<close>
  hold pointers.  The containers never hold null pointers and every record has a listener and
  a subscribe info, because \<open>InsertSubscriber\<close> is the only function that fills them; the
  arguments that may be null are options.  The death recipients linked to listeners, the
  process that is killed and the event reports are written to \<open>subLog\<close> in the order of the
  calls.  The frozen events are maps from a copy of the subscriber record, ordered by the
  listener's address, to vectors of copies of event records.
\<close>

section \<open>State\<close>

datatype sub_effect =
    AddDeathRecipient remote
  | RemoveDeathRecipient remote
  | SendSubscriberExceedMaximum int32 string nat
  | ReportTopSubscribers pid_t string uid_t string string
  | KillProcess pid_t

type_synonym FrozenRecords = "(remote, EventSubscriberRecord \<times> CommonEventRecord list) omap"

record sub_state =
  subHeap :: "sub_ptr \<Rightarrow> EventSubscriberRecord"
  subNext :: sub_ptr
  subscribers :: "sub_ptr list"
  eventSubscribers :: "(string, sub_ptr list) umap"
  subscriberCounts :: "(pid_t, nat) umap"
  frozenEvents :: "(uid_t, FrozenRecords) umap"
  frozenEventsMap :: "(pid_t, FrozenRecords) umap"
  hasCompacted :: bool
  subLog :: "sub_effect list"

abbreviation listener_at :: "sub_state \<Rightarrow> sub_ptr \<Rightarrow> remote" where
  "listener_at s p \<equiv> commonEventListener (subHeap s p)"

abbreviation events_at :: "sub_state \<Rightarrow> sub_ptr \<Rightarrow> string list" where
  "events_at s p \<equiv> events_of (subHeap s p)"

abbreviation pid_at :: "sub_state \<Rightarrow> sub_ptr \<Rightarrow> pid_t" where
  "pid_at s p \<equiv> pid (subRecordInfo (subHeap s p))"

abbreviation uid_at :: "sub_state \<Rightarrow> sub_ptr \<Rightarrow> uid_t" where
  "uid_at s p \<equiv> uid (subRecordInfo (subHeap s p))"

definition set_record :: "sub_ptr \<Rightarrow> EventSubscriberRecord \<Rightarrow> sub_state \<Rightarrow> sub_state" where
  "set_record p r s = s\<lparr>subHeap := (subHeap s)(p := r)\<rparr>"

definition alloc_record :: "EventSubscriberRecord \<Rightarrow> sub_state \<Rightarrow> sub_ptr \<times> sub_state" where
  "alloc_record r s = (subNext s, (set_record (subNext s) r s)\<lparr>subNext := subNext s + 1\<rparr>)"

definition log_sub :: "sub_effect \<Rightarrow> sub_state \<Rightarrow> sub_state" where
  "log_sub e s = s\<lparr>subLog := subLog s @ [e]\<rparr>"

definition sub_init :: "(sub_ptr \<Rightarrow> EventSubscriberRecord) \<Rightarrow> sub_state" where
  "sub_init h = \<lparr>subHeap = h, subNext = 0, subscribers = [], eventSubscribers = [],
     subscriberCounts = [], frozenEvents = [], frozenEventsMap = [], hasCompacted = False,
     subLog = []\<rparr>"

section \<open>Limits and reports\<close>

definition SUBSCRIBE_EVENT_MAX_NUM :: nat where "SUBSCRIBE_EVENT_MAX_NUM = 512"
definition FREEZE_EVENT_TIMEOUT :: int where "FREEZE_EVENT_TIMEOUT = 30"

text \<open>The alarm threshold is \<open>(uint32_t)(maxSubscriberNum * 0.8)\<close>.\<close>

definition CheckSubscriberCountReachedMaxinum :: "env \<Rightarrow> sub_state \<Rightarrow> bool" where
  "CheckSubscriberCountReachedMaxinum E s =
     (let subscriberCount = length (subscribers s); maxSubscriberNum = sys_subscriber_limit E
      in if subscriberCount = maxSubscriberNum * 8 div 10 then False
         else if subscriberCount = maxSubscriberNum then True
         else False)"

text \<open>\<open>std::partial_sort\<close> leaves the order of equal counts open; the iteration order of
  \<open>subscriberCounts\<close>, which is arbitrary too, decides it here.\<close>

definition GetTopSubscriberCounts :: "sub_state \<Rightarrow> nat \<Rightarrow> (pid_t \<times> nat) list" where
  "GetTopSubscriberCounts s topNum =
     (if subscriberCounts s = [] then []
      else take (min topNum (length (subscriberCounts s)))
             (sort_key (\<lambda>(p, c). - int c) (subscriberCounts s)))"

fun first_of_pid :: "sub_state \<Rightarrow> pid_t \<Rightarrow> sub_ptr list \<Rightarrow> sub_ptr option" where
  "first_of_pid s q [] = None"
| "first_of_pid s q (p # ps) = (if pid_at s p = q then Some p else first_of_pid s q ps)"

definition GetTopSubscriberRecordsMap :: "sub_state \<Rightarrow> (pid_t \<times> nat) list \<Rightarrow> (pid_t, sub_ptr) omap"
  where
  "GetTopSubscriberRecordsMap s counts =
     foldl (\<lambda>m (q, c). case first_of_pid s q (subscribers s) of
                          None \<Rightarrow> m | Some p \<Rightarrow> omap_put q p m) [] counts"

fun join_events :: "string list \<Rightarrow> string" where
  "join_events [] = []"
| "join_events [e] = e"
| "join_events (e # es) = e @ '', '' @ join_events es"

definition FormatEventsString :: "string list \<Rightarrow> string" where
  "FormatEventsString events = ''['' @ join_events events @ '']''"

definition FormatTopSubscribersInfo :: "sub_state \<Rightarrow> (pid_t, sub_ptr) omap \<Rightarrow> string" where
  "FormatTopSubscribersInfo s m =
     concat (map (\<lambda>(q, p). ''pid='' @ to_string (pid_at s p)
        @ '', uid='' @ to_string (uint (uid_at s p))
        @ '', bundle_name='' @ bundleName (subRecordInfo (subHeap s p))
        @ '', events='' @ FormatEventsString (events_at s p)
        @ [CHR 0x0A]) m)"

text \<open>The scan of \<open>GetProcessNameFromProcCmdline\<close>: the start after the last slash before the
  first NUL and the end at that NUL (\<open>cmdline\<close> is the first line of \<open>/proc/<pid>/cmdline\<close>).\<close>

fun scan_cmdline :: "string \<Rightarrow> nat \<Rightarrow> nat \<Rightarrow> nat \<Rightarrow> nat \<times> nat" where
  "scan_cmdline [] i st en = (st, en)"
| "scan_cmdline (c # cs) i st en =
     (if c = CHR ''/'' then scan_cmdline cs (i + 1) (i + 1) en
      else if c = CHR 0x00 then (st, i)
      else scan_cmdline cs (i + 1) st en)"

definition GetProcessNameFromProcCmdline :: "(pid_t \<Rightarrow> string) \<Rightarrow> pid_t \<Rightarrow> string" where
  "GetProcessNameFromProcCmdline cmdline p =
     (if p \<le> 0 then []
      else let content = cmdline p
           in if content = [] then []
              else let (st, en) = scan_cmdline content 0 0 (length content)
                   in take (en - st) (drop st content))"

definition ReportTopSubscribersInfoHiSysEvent ::
  "(pid_t \<Rightarrow> string) \<Rightarrow> (pid_t, sub_ptr) omap \<Rightarrow> pid_t \<Rightarrow> sub_state \<Rightarrow> sub_state" where
  "ReportTopSubscribersInfoHiSysEvent cmdline m killedPid s =
     (case map_of m killedPid of
        None \<Rightarrow> s
      | Some p \<Rightarrow>
          log_sub (ReportTopSubscribers killedPid (GetProcessNameFromProcCmdline cmdline killedPid)
            (uid_at s p) (FormatTopSubscribersInfo s m) (bundleName (subRecordInfo (subHeap s p)))) s)"

section \<open>The index\<close>

fun InsertEventSubscribers :: "string list \<Rightarrow> sub_ptr \<Rightarrow> sub_state \<Rightarrow> sub_state" where
  "InsertEventSubscribers [] p s = s"
| "InsertEventSubscribers (event # es) p s =
     InsertEventSubscribers es p
       (case map_of (eventSubscribers s) event of
          Some vec \<Rightarrow>
            (let vec' = (if p \<in> set vec then vec else vec @ [p]);
                 s' = s\<lparr>eventSubscribers := AList.update event vec' (eventSubscribers s)\<rparr>
             in if length vec' > MAX_SUBSCRIBER_NUM_PER_EVENT
                then log_sub (SendSubscriberExceedMaximum
                       (si_userId (eventSubscribeInfo (subHeap s p))) event (length vec')) s'
                else s')
        | None \<Rightarrow> s\<lparr>eventSubscribers := AList.update event [p] (eventSubscribers s)\<rparr>)"

fun RemoveEventSubscribers :: "string list \<Rightarrow> sub_ptr \<Rightarrow> sub_state \<Rightarrow> sub_state" where
  "RemoveEventSubscribers [] p s = s"
| "RemoveEventSubscribers (event # es) p s =
     RemoveEventSubscribers es p
       (case map_of (eventSubscribers s) event of
          None \<Rightarrow> s
        | Some vec \<Rightarrow>
            (let vec' = remove1 p vec
             in if vec' = [] then s\<lparr>eventSubscribers := AList.delete event (eventSubscribers s)\<rparr>
                else s\<lparr>eventSubscribers := AList.update event vec' (eventSubscribers s)\<rparr>))"

section \<open>Frozen events\<close>

text \<open>The part of \<open>InsertFrozenEvents\<close> and \<open>InsertFrozenEventsMap\<close> below the outer map: append,
  then drop the oldest event when it is more than thirty seconds older than the new one.\<close>

definition append_frozen ::
  "EventSubscriberRecord \<Rightarrow> CommonEventRecord \<Rightarrow> FrozenRecords \<Rightarrow> FrozenRecords" where
  "append_frozen sub er records =
     (case map_of records (commonEventListener sub) of
        Some (key, es) \<Rightarrow>
          (let es' = es @ [er]; timeDiff = recordTime (last es') - recordTime (hd es');
               es'' = (if timeDiff > FREEZE_EVENT_TIMEOUT then tl es' else es')
           in omap_put (commonEventListener sub) (key, es'') records)
      | None \<Rightarrow> omap_put (commonEventListener sub) (sub, [er]) records)"

definition InsertFrozenEvents ::
  "sub_ptr option \<Rightarrow> CommonEventRecord \<Rightarrow> sub_state \<Rightarrow> sub_state" where
  "InsertFrozenEvents subscriberRecord er s =
     (case subscriberRecord of
        None \<Rightarrow> s
      | Some p \<Rightarrow>
          (let sub = subHeap s p; u = uid (subRecordInfo sub)
           in case map_of (frozenEvents s) u of
                Some records \<Rightarrow>
                  s\<lparr>frozenEvents := AList.update u (append_frozen sub er records) (frozenEvents s)\<rparr>
              | None \<Rightarrow> s\<lparr>frozenEvents :=
                  AList.update u (omap_put (commonEventListener sub) (sub, [er]) []) (frozenEvents s)\<rparr>))"

definition RemoveFrozenEvents :: "uid_t \<Rightarrow> sub_state \<Rightarrow> sub_state" where
  "RemoveFrozenEvents u s =
     (case map_of (frozenEvents s) u of
        None \<Rightarrow> s
      | Some records \<Rightarrow> s\<lparr>frozenEvents := AList.delete u (frozenEvents s)\<rparr>)"

definition GetFrozenEvents :: "uid_t \<Rightarrow> sub_state \<Rightarrow> FrozenRecords \<times> sub_state" where
  "GetFrozenEvents u s =
     (let events = (case map_of (frozenEvents s) u of None \<Rightarrow> [] | Some records \<Rightarrow> records)
      in (events, RemoveFrozenEvents u s))"

definition GetAllFrozenEvents :: "sub_state \<Rightarrow> (uid_t, FrozenRecords) umap" where
  "GetAllFrozenEvents s = frozenEvents s"

definition RemoveFrozenEventsBySubscriber :: "sub_ptr \<Rightarrow> sub_state \<Rightarrow> sub_state" where
  "RemoveFrozenEventsBySubscriber p s =
     (let sub = subHeap s p; u = uid (subRecordInfo sub)
      in case map_of (frozenEvents s) u of
           None \<Rightarrow> s
         | Some records \<Rightarrow>
             (case map_of records (commonEventListener sub) of
                None \<Rightarrow> s
              | Some es \<Rightarrow> s\<lparr>frozenEvents :=
                  AList.update u (AList.delete (commonEventListener sub) records) (frozenEvents s)\<rparr>))"

definition InsertFrozenEventsMap ::
  "sub_ptr option \<Rightarrow> CommonEventRecord \<Rightarrow> sub_state \<Rightarrow> sub_state" where
  "InsertFrozenEventsMap subscriberRecord er s =
     (case subscriberRecord of
        None \<Rightarrow> s
      | Some p \<Rightarrow>
          (let sub = subHeap s p; q = pid (subRecordInfo sub)
           in case map_of (frozenEventsMap s) q of
                Some records \<Rightarrow>
                  s\<lparr>frozenEventsMap :=
                    AList.update q (append_frozen sub er records) (frozenEventsMap s)\<rparr>
              | None \<Rightarrow> s\<lparr>frozenEventsMap :=
                  AList.update q (omap_put (commonEventListener sub) (sub, [er]) [])
                    (frozenEventsMap s)\<rparr>))"

definition RemoveFrozenEventsMapByPid :: "pid_t \<Rightarrow> sub_state \<Rightarrow> sub_state" where
  "RemoveFrozenEventsMapByPid q s =
     (case map_of (frozenEventsMap s) q of
        None \<Rightarrow> s
      | Some records \<Rightarrow> s\<lparr>frozenEventsMap := AList.delete q (frozenEventsMap s)\<rparr>)"

definition GetFrozenEventsMapByPid :: "pid_t \<Rightarrow> sub_state \<Rightarrow> FrozenRecords \<times> sub_state" where
  "GetFrozenEventsMapByPid q s =
     (let events = (case map_of (frozenEventsMap s) q of None \<Rightarrow> [] | Some records \<Rightarrow> records)
      in (events, RemoveFrozenEventsMapByPid q s))"

definition GetAllFrozenEventsMap :: "sub_state \<Rightarrow> (pid_t, FrozenRecords) umap" where
  "GetAllFrozenEventsMap s = frozenEventsMap s"

definition RemoveFrozenEventsMapBySubscriber :: "sub_ptr \<Rightarrow> sub_state \<Rightarrow> sub_state" where
  "RemoveFrozenEventsMapBySubscriber p s =
     (let sub = subHeap s p; q = pid (subRecordInfo sub)
      in case map_of (frozenEventsMap s) q of
           None \<Rightarrow> s
         | Some records \<Rightarrow>
             (case map_of records (commonEventListener sub) of
                None \<Rightarrow> s
              | Some es \<Rightarrow> s\<lparr>frozenEventsMap :=
                  AList.update q (AList.delete (commonEventListener sub) records)
                    (frozenEventsMap s)\<rparr>))"

section \<open>Inserting and updating subscribers\<close>

fun find_listener :: "sub_state \<Rightarrow> remote \<Rightarrow> sub_ptr list \<Rightarrow> sub_ptr option" where
  "find_listener s l [] = None"
| "find_listener s l (p # ps) = (if l = listener_at s p then Some p else find_listener s l ps)"

definition GetSubscriberRecord :: "sub_state \<Rightarrow> remote \<Rightarrow> sub_ptr option" where
  "GetSubscriberRecord s l = find_listener s l (subscribers s)"

definition InsertSubscriberRecordLocked ::
  "env \<Rightarrow> (pid_t \<Rightarrow> string) \<Rightarrow> string list \<Rightarrow> sub_ptr option \<Rightarrow> sub_state \<Rightarrow> bool \<times> sub_state" where
  "InsertSubscriberRecordLocked E cmdline events record s =
     (if length events = 0 then (False, s)
      else case record of
        None \<Rightarrow> (False, s)
      | Some p \<Rightarrow>
          (let q = pid_at s p;
               reached = CheckSubscriberCountReachedMaxinum E s;
               top = GetTopSubscriberCounts s 1;
               killedPid = fst (hd top)
           in if reached \<and> q = killedPid then (False, s)
              else
                (let s1 = (if reached
                           then log_sub (KillProcess killedPid)
                                  (ReportTopSubscribersInfoHiSysEvent cmdline
                                    (GetTopSubscriberRecordsMap s top) killedPid s)
                           else s);
                     s2 = InsertEventSubscribers events p s1;
                     s3 = s2\<lparr>subscribers := subscribers s2 @ [p]\<rparr>
                 in (True, s3\<lparr>subscriberCounts :=
                       AList.update q (at_num (subscriberCounts s3) q + 1) (subscriberCounts s3)\<rparr>))))"

definition UpdateSubscriberRecordLocked ::
  "CommonEventSubscribeInfo \<Rightarrow> int64 \<Rightarrow> EventRecordInfo \<Rightarrow> sub_ptr option \<Rightarrow> sub_state \<Rightarrow>
     bool \<times> sub_state" where
  "UpdateSubscriberRecordLocked info time rinfo record s =
     (case record of
        None \<Rightarrow> (False, s)
      | Some p \<Rightarrow>
          (let oldEvents = sort (events_at s p);
               newEvents = sort (ms_events (si_matchingSkills info));
               removeEvents = set_difference oldEvents newEvents;
               s1 = RemoveEventSubscribers removeEvents p s;
               addEvents = set_difference newEvents oldEvents;
               s2 = set_record p ((subHeap s1 p)\<lparr>eventSubscribeInfo := info,
                      subRecordInfo := rinfo, subRecordTime := time\<rparr>) s1
           in (True, InsertEventSubscribers addEvents p s2)))"

definition InsertSubscriber ::
  "env \<Rightarrow> (pid_t \<Rightarrow> string) \<Rightarrow> CommonEventSubscribeInfo option \<Rightarrow> remote option \<Rightarrow> int64 \<Rightarrow>
     EventRecordInfo \<Rightarrow> sub_state \<Rightarrow> sub_ptr option \<times> sub_state" where
  "InsertSubscriber E cmdline eventSubscribeInfo_opt listener time rinfo s =
     (case eventSubscribeInfo_opt of
        None \<Rightarrow> (None, s)
      | Some info \<Rightarrow>
          (case listener of
             None \<Rightarrow> (None, s)
           | Some l \<Rightarrow>
               (let events = ms_events (si_matchingSkills info)
                in if length events = 0 \<or> length events > SUBSCRIBE_EVENT_MAX_NUM then (None, s)
                   else
                     (case GetSubscriberRecord s l of
                        Some p \<Rightarrow>
                          (let (b, s') = UpdateSubscriberRecordLocked info time rinfo (Some p) s
                           in (Some p, s'))
                      | None \<Rightarrow>
                          (let (p, s1) = alloc_record \<lparr>isFreeze = False, subRecordTime = time,
                                 freezeTime = 0, eventSubscribeInfo = info,
                                 commonEventListener = l, subRecordInfo = rinfo\<rparr> s;
                               s2 = log_sub (AddDeathRecipient l) s1;
                               (ok, s3) = InsertSubscriberRecordLocked E cmdline events (Some p) s2
                           in if \<not> ok then (None, s3) else (Some p, s3))))))"

section \<open>Removing subscribers\<close>

text \<open>The second loop of \<open>RemoveSubscriberRecordLocked\<close>: \<open>eventSubscribers_[event]\<close> makes an
  empty vector for an absent event, which is erased again at once.\<close>

fun drop_listener :: "remote \<Rightarrow> string list \<Rightarrow> sub_state \<Rightarrow> sub_state" where
  "drop_listener l [] s = s"
| "drop_listener l (event # es) s =
     drop_listener l es
       (let vec = filter (\<lambda>p. l \<noteq> listener_at s p) (at_vec (eventSubscribers s) event)
        in if vec = [] then s\<lparr>eventSubscribers := AList.delete event (eventSubscribers s)\<rparr>
           else s\<lparr>eventSubscribers := AList.update event vec (eventSubscribers s)\<rparr>)"

definition RemoveSubscriberRecordLocked :: "remote option \<Rightarrow> sub_state \<Rightarrow> err_code \<times> sub_state"
  where
  "RemoveSubscriberRecordLocked listener s =
     (case listener of
        None \<Rightarrow> (ERR_INVALID_VALUE, s)
      | Some l \<Rightarrow>
          (let s0 = log_sub (RemoveDeathRecipient l) s
           in case find_listener s0 l (subscribers s0) of
                None \<Rightarrow> (ERR_OK, s0)
              | Some p \<Rightarrow>
                  (let s1 = RemoveFrozenEventsBySubscriber p s0;
                       s2 = RemoveFrozenEventsMapBySubscriber p s1;
                       events = events_at s2 p;
                       q = pid_at s2 p;
                       n = at_num (subscriberCounts s2) q;
                       s3 = s2\<lparr>subscriberCounts :=
                              (if n > 1 then AList.update q (n - 1) (subscriberCounts s2)
                               else AList.delete q (subscriberCounts s2))\<rparr>;
                       s4 = s3\<lparr>subscribers := remove1 p (subscribers s3)\<rparr>
                   in (ERR_OK, drop_listener l events s4))))"

definition RemoveSubscriber :: "remote option \<Rightarrow> sub_state \<Rightarrow> err_code \<times> sub_state" where
  "RemoveSubscriber listener s =
     (case listener of
        None \<Rightarrow> (ERR_INVALID_VALUE, s)
      | Some l \<Rightarrow> RemoveSubscriberRecordLocked (Some l) s)"

section \<open>Compaction\<close>

record compacted =
  compactedSubscribers :: "sub_ptr list"
  compactedEventSubscribers :: "(string, sub_ptr list) umap"
  compactedSubscriberCounts :: "(pid_t, nat) umap"

fun push_events :: "string list \<Rightarrow> sub_ptr \<Rightarrow> (string, sub_ptr list) umap \<Rightarrow>
    (string, sub_ptr list) umap" where
  "push_events [] p m = m"
| "push_events (event # es) p m = push_events es p (AList.update event (at_vec m event @ [p]) m)"

fun compact_loop :: "sub_ptr list \<Rightarrow> sub_state \<Rightarrow> compacted \<Rightarrow> sub_state \<times> compacted" where
  "compact_loop [] s c = (s, c)"
| "compact_loop (p # ps) s c =
     (let sub = subHeap s p;
          (n, s') = alloc_record \<lparr>isFreeze = isFreeze sub, subRecordTime = subRecordTime sub,
             freezeTime = freezeTime sub, eventSubscribeInfo = eventSubscribeInfo sub,
             commonEventListener = commonEventListener sub, subRecordInfo = subRecordInfo sub\<rparr> s;
          q = pid_at s' n
      in compact_loop ps s'
           \<lparr>compactedSubscribers = compactedSubscribers c @ [n],
            compactedEventSubscribers = push_events (events_at s' n) n (compactedEventSubscribers c),
            compactedSubscriberCounts = AList.update q (at_num (compactedSubscriberCounts c) q + 1)
              (compactedSubscriberCounts c)\<rparr>)"

definition CompactSubscriberDataStructures :: "sub_state \<Rightarrow> sub_state" where
  "CompactSubscriberDataStructures s =
     (let (s', c) = compact_loop (subscribers s) s
        \<lparr>compactedSubscribers = [], compactedEventSubscribers = [], compactedSubscriberCounts = []\<rparr>
      in s'\<lparr>subscribers := compactedSubscribers c,
            eventSubscribers := compactedEventSubscribers c,
            subscriberCounts := compactedSubscriberCounts c,
            hasCompacted := True\<rparr>)"

section \<open>Looking subscribers up\<close>

definition GetSubscriberRecordsByWantLocked ::
  "env \<Rightarrow> (string, Permission) umap \<Rightarrow> CommonEventRecord \<Rightarrow> payload \<Rightarrow> sub_state \<Rightarrow> sub_ptr list" where
  "GetSubscriberRecordsByWantLocked E pm er pl s =
     (if length (eventSubscribers s) \<le> 0 then []
      else case map_of (eventSubscribers s) (action_of pl) of
             None \<Rightarrow> []
           | Some vec \<Rightarrow> filter (\<lambda>p. accepts E pm er pl (subHeap s p)) vec)"

definition GetSubscriberRecords ::
  "env \<Rightarrow> (string, Permission) umap \<Rightarrow> CommonEventRecord \<Rightarrow> payload \<Rightarrow> sub_state \<Rightarrow>
     sub_ptr list \<times> sub_state" where
  "GetSubscriberRecords E pm er pl s =
     (let s' = (if \<not> hasCompacted s \<and> action_of pl = COMMON_EVENT_SCREEN_OFF
                then CompactSubscriberDataStructures s else s)
      in (GetSubscriberRecordsByWantLocked E pm er pl s', s'))"

definition GetSubscriberRecordsByEvent :: "string \<Rightarrow> int32 \<Rightarrow> sub_state \<Rightarrow> sub_ptr list" where
  "GetSubscriberRecordsByEvent event user s =
     (if event = [] \<and> user = ALL_USER then subscribers s
      else if event = []
        then filter (\<lambda>p. si_userId (eventSubscribeInfo (subHeap s p)) = user) (subscribers s)
      else if user = ALL_USER
        then (case map_of (eventSubscribers s) event of None \<Rightarrow> [] | Some vec \<Rightarrow> vec)
      else (case map_of (eventSubscribers s) event of
              None \<Rightarrow> []
            | Some vec \<Rightarrow> filter (\<lambda>p. CheckSubscriberByUserId
                (si_userId (eventSubscribeInfo (subHeap s p))) True user) vec))"

section \<open>Freezing\<close>

definition freeze_record :: "bool \<Rightarrow> int64 \<Rightarrow> EventSubscriberRecord \<Rightarrow> EventSubscriberRecord" where
  "freeze_record freezeState time r =
     r\<lparr>freezeTime := (if freezeState then time else 0), isFreeze := freezeState\<rparr>"

fun UpdateFreezeInfo_loop ::
  "(EventSubscriberRecord \<Rightarrow> bool) \<Rightarrow> bool \<Rightarrow> int64 \<Rightarrow> sub_ptr list \<Rightarrow> sub_state \<Rightarrow> sub_state" where
  "UpdateFreezeInfo_loop P freezeState time [] s = s"
| "UpdateFreezeInfo_loop P freezeState time (p # ps) s =
     UpdateFreezeInfo_loop P freezeState time ps
       (if P (subHeap s p) then set_record p (freeze_record freezeState time (subHeap s p)) s else s)"

definition UpdateFreezeInfo :: "uid_t \<Rightarrow> bool \<Rightarrow> int64 \<Rightarrow> sub_state \<Rightarrow> sub_state" where
  "UpdateFreezeInfo u freezeState time s =
     UpdateFreezeInfo_loop (\<lambda>r. uid (subRecordInfo r) = u) freezeState time (subscribers s) s"

definition UpdateFreezeInfo_pids :: "pid_t list \<Rightarrow> bool \<Rightarrow> int64 \<Rightarrow> sub_state \<Rightarrow> sub_state" where
  "UpdateFreezeInfo_pids pidList freezeState time s =
     UpdateFreezeInfo_loop (\<lambda>r. pid (subRecordInfo r) \<in> set pidList) freezeState time
       (subscribers s) s"

definition UpdateAllFreezeInfos :: "bool \<Rightarrow> int64 \<Rightarrow> sub_state \<Rightarrow> sub_state" where
  "UpdateAllFreezeInfos freezeState time s =
     UpdateFreezeInfo_loop (\<lambda>r. True) freezeState time (subscribers s) s"

end
