(* ===== verification/Subscriber_Invariant.thy ===== *)
theory Subscriber_Invariant
  imports Subscriber_Manager
begin

text \<open>
  The invariant of the subscriber manager and its preservation by every operation.  The
  invariant says that the index from event names to records holds exactly the pairs of a
  subscriber and an event it subscribed to, without duplicates and without empty vectors,
  that no two subscribers share a listener, and that the counters count the subscribers of
  each process.
\<close>

section \<open>The invariant\<close>

definition index_ok :: "(string, sub_ptr list) umap \<Rightarrow> bool" where
  "index_ok m \<longleftrightarrow> umap_ok m \<and> (\<forall>e v. map_of m e = Some v \<longrightarrow> v \<noteq> [] \<and> distinct v)"

definition counts_ok :: "(pid_t, nat) umap \<Rightarrow> pid_t list \<Rightarrow> bool" where
  "counts_ok m pids \<longleftrightarrow> umap_ok m \<and>
     (\<forall>q. map_of m q = (if q \<in> set pids then Some (count_list pids q) else None))"

definition sub_inv :: "sub_state \<Rightarrow> bool" where
  "sub_inv s \<longleftrightarrow>
     (\<forall>p \<in> set (subscribers s). p < subNext s) \<and>
     distinct (subscribers s) \<and>
     distinct (map (listener_at s) (subscribers s)) \<and>
     (\<forall>p \<in> set (subscribers s). distinct (events_at s p)) \<and>
     index_ok (eventSubscribers s) \<and>
     (\<forall>e p. p \<in> set (at_vec (eventSubscribers s) e) \<longleftrightarrow>
        p \<in> set (subscribers s) \<and> e \<in> set (events_at s p)) \<and>
     counts_ok (subscriberCounts s) (map (pid_at s) (subscribers s))"

lemma sub_invI:
  assumes "\<And>p. p \<in> set (subscribers s) \<Longrightarrow> p < subNext s"
    and "distinct (subscribers s)"
    and "distinct (map (listener_at s) (subscribers s))"
    and "\<And>p. p \<in> set (subscribers s) \<Longrightarrow> distinct (events_at s p)"
    and "index_ok (eventSubscribers s)"
    and "\<And>e p. p \<in> set (at_vec (eventSubscribers s) e) \<longleftrightarrow>
        p \<in> set (subscribers s) \<and> e \<in> set (events_at s p)"
    and "counts_ok (subscriberCounts s) (map (pid_at s) (subscribers s))"
  shows "sub_inv s"
  using assms by (simp add: sub_inv_def)

lemma sub_invD:
  assumes "sub_inv s"
  shows "p \<in> set (subscribers s) \<Longrightarrow> p < subNext s"
    and "distinct (subscribers s)"
    and "distinct (map (listener_at s) (subscribers s))"
    and "p \<in> set (subscribers s) \<Longrightarrow> distinct (events_at s p)"
    and "index_ok (eventSubscribers s)"
    and "p \<in> set (at_vec (eventSubscribers s) e) \<longleftrightarrow>
        p \<in> set (subscribers s) \<and> e \<in> set (events_at s p)"
    and "counts_ok (subscriberCounts s) (map (pid_at s) (subscribers s))"
  using assms by (simp_all add: sub_inv_def)

text \<open>The invariant reads six fields; changing the others keeps it.\<close>

lemma sub_inv_frame:
  "sub_inv s \<Longrightarrow> subHeap t = subHeap s \<Longrightarrow> subNext t = subNext s \<Longrightarrow> subscribers t = subscribers s \<Longrightarrow>
     eventSubscribers t = eventSubscribers s \<Longrightarrow> subscriberCounts t = subscriberCounts s \<Longrightarrow>
     sub_inv t"
  by (simp add: sub_inv_def)

section \<open>Maps of vectors and counters\<close>

lemma at_vec_update [simp]: "at_vec (AList.update e v m) e' = (if e' = e then v else at_vec m e')"
  by (simp add: at_vec_def update_conv')

lemma at_vec_delete [simp]: "at_vec (AList.delete e m) e' = (if e' = e then [] else at_vec m e')"
  by (simp add: at_vec_def delete_conv')

lemma at_vec_Some: "map_of m e = Some v \<Longrightarrow> at_vec m e = v"
  by (simp add: at_vec_def)

lemma at_vec_None: "map_of m e = None \<Longrightarrow> at_vec m e = []"
  by (simp add: at_vec_def)

lemma index_ok_update: "index_ok m \<Longrightarrow> v \<noteq> [] \<Longrightarrow> distinct v \<Longrightarrow> index_ok (AList.update e v m)"
  by (auto simp: index_ok_def distinct_update update_conv' split: if_splits)

lemma index_ok_delete: "index_ok m \<Longrightarrow> index_ok (AList.delete e m)"
  by (auto simp: index_ok_def distinct_delete delete_conv' split: if_splits)

lemma index_ok_distinct: "index_ok m \<Longrightarrow> distinct (at_vec m e)"
  by (auto simp: index_ok_def at_vec_def split: option.splits)

lemma index_ok_lookup: "index_ok m \<Longrightarrow> map_of m e = (if at_vec m e = [] then None else Some (at_vec m e))"
  by (auto simp: index_ok_def at_vec_def split: option.splits)

lemma at_num_update [simp]: "at_num (AList.update q n m) q' = (if q' = q then n else at_num m q')"
  by (simp add: at_num_def update_conv')

lemma counts_ok_at: "counts_ok m pids \<Longrightarrow> at_num m q = count_list pids q"
  by (auto simp: counts_ok_def at_num_def count_list_0_iff)

lemma counts_ok_snoc:
  "counts_ok m pids \<Longrightarrow> counts_ok (AList.update q (at_num m q + 1) m) (pids @ [q])"
  unfolding counts_ok_def
  by (auto simp: distinct_update update_conv' at_num_def count_list_0_iff)

lemma count_list_remove1: "count_list (remove1 x xs) y = count_list xs y - (if x = y then 1 else 0)"
  by (simp add: count_mset [symmetric])

lemma map_remove1_inj:
  "p \<in> set xs \<Longrightarrow> distinct xs \<Longrightarrow> mset (map f (remove1 p xs)) = mset (map f xs) - {#f p#}"
  by (induction xs) (auto simp: image_mset_Diff)

lemma counts_ok_mset: "mset ps = mset qs \<Longrightarrow> counts_ok m ps \<longleftrightarrow> counts_ok m qs"
proof -
  assume "mset ps = mset qs"
  then have "set ps = set qs" "\<And>q. count_list ps q = count_list qs q"
    by (auto simp: count_mset [symmetric] dest: mset_eq_setD)
  then show ?thesis by (simp add: counts_ok_def)
qed

lemma counts_ok_remove1:
  assumes "counts_ok m pids" "q \<in> set pids"
  shows "counts_ok (if at_num m q > 1 then AList.update q (at_num m q - 1) m else AList.delete q m)
           (remove1 q pids)"
proof -
  have n: "at_num m q = count_list pids q" using assms by (simp add: counts_ok_at)
  have mem: "x \<in> set (remove1 q pids) \<longleftrightarrow> count_list (remove1 q pids) x > 0" for x
    by (metis count_list_0_iff gr0I not_gr0)
  have mem': "x \<in> set pids \<longleftrightarrow> count_list pids x > 0" for x
    by (metis count_list_0_iff gr0I not_gr0)
  show ?thesis
    using assms(1) assms(2) unfolding counts_ok_def n mem mem'
    by (auto simp: distinct_update distinct_delete update_conv' delete_conv' count_list_remove1)
qed

section \<open>The index operations\<close>

lemma InsertEventSubscribers_frame [ces_frame]:
  "subHeap (InsertEventSubscribers es p s) = subHeap s"
  "subNext (InsertEventSubscribers es p s) = subNext s"
  "subscribers (InsertEventSubscribers es p s) = subscribers s"
  "subscriberCounts (InsertEventSubscribers es p s) = subscriberCounts s"
  "frozenEvents (InsertEventSubscribers es p s) = frozenEvents s"
  "frozenEventsMap (InsertEventSubscribers es p s) = frozenEventsMap s"
  "hasCompacted (InsertEventSubscribers es p s) = hasCompacted s"
  by (induction es arbitrary: s) (simp_all add: Let_def log_sub_def split: option.splits)

lemma RemoveEventSubscribers_frame [ces_frame]:
  "subHeap (RemoveEventSubscribers es p s) = subHeap s"
  "subNext (RemoveEventSubscribers es p s) = subNext s"
  "subscribers (RemoveEventSubscribers es p s) = subscribers s"
  "subscriberCounts (RemoveEventSubscribers es p s) = subscriberCounts s"
  "frozenEvents (RemoveEventSubscribers es p s) = frozenEvents s"
  "frozenEventsMap (RemoveEventSubscribers es p s) = frozenEventsMap s"
  "hasCompacted (RemoveEventSubscribers es p s) = hasCompacted s"
  "subLog (RemoveEventSubscribers es p s) = subLog s"
  by (induction es arbitrary: s) (simp_all add: Let_def split: option.splits)

lemma drop_listener_frame [ces_frame]:
  "subHeap (drop_listener l es s) = subHeap s"
  "subNext (drop_listener l es s) = subNext s"
  "subscribers (drop_listener l es s) = subscribers s"
  "subscriberCounts (drop_listener l es s) = subscriberCounts s"
  "frozenEvents (drop_listener l es s) = frozenEvents s"
  "frozenEventsMap (drop_listener l es s) = frozenEventsMap s"
  "hasCompacted (drop_listener l es s) = hasCompacted s"
  "subLog (drop_listener l es s) = subLog s"
  by (induction es arbitrary: s) (simp_all add: Let_def)

lemma InsertEventSubscribers_index:
  "index_ok (eventSubscribers s) \<Longrightarrow>
     index_ok (eventSubscribers (InsertEventSubscribers es p s)) \<and>
     at_vec (eventSubscribers (InsertEventSubscribers es p s)) e =
       (if e \<in> set es \<and> p \<notin> set (at_vec (eventSubscribers s) e)
        then at_vec (eventSubscribers s) e @ [p] else at_vec (eventSubscribers s) e)"
proof (induction es arbitrary: s)
  case (Cons a es)
  define v where "v = at_vec (eventSubscribers s) a"
  define t where "t = (case map_of (eventSubscribers s) a of
          Some vec \<Rightarrow>
            (let vec' = (if p \<in> set vec then vec else vec @ [p]);
                 s' = s\<lparr>eventSubscribers := AList.update a vec' (eventSubscribers s)\<rparr>
             in if length vec' > MAX_SUBSCRIBER_NUM_PER_EVENT
                then log_sub (SendSubscriberExceedMaximum
                       (si_userId (eventSubscribeInfo (subHeap s p))) a (length vec')) s'
                else s')
        | None \<Rightarrow> s\<lparr>eventSubscribers := AList.update a [p] (eventSubscribers s)\<rparr>)"
  have t: "eventSubscribers t =
      AList.update a (if p \<in> set v then v else v @ [p]) (eventSubscribers s)"
    unfolding t_def v_def by (simp add: Let_def log_sub_def at_vec_def split: option.splits)
  have "distinct v" using Cons.prems by (simp add: v_def index_ok_distinct)
  then have ok: "index_ok (eventSubscribers t)"
    unfolding t using Cons.prems by (auto intro!: index_ok_update)
  show ?case
    using Cons.IH [OF ok] unfolding InsertEventSubscribers.simps t_def [symmetric]
    by (auto simp: t v_def)
qed simp

lemma RemoveEventSubscribers_index:
  "index_ok (eventSubscribers s) \<Longrightarrow>
     index_ok (eventSubscribers (RemoveEventSubscribers es p s)) \<and>
     at_vec (eventSubscribers (RemoveEventSubscribers es p s)) e =
       (if e \<in> set es then remove1 p (at_vec (eventSubscribers s) e)
        else at_vec (eventSubscribers s) e)"
proof (induction es arbitrary: s)
  case (Cons a es)
  define v where "v = at_vec (eventSubscribers s) a"
  define t where "t = (case map_of (eventSubscribers s) a of
          None \<Rightarrow> s
        | Some vec \<Rightarrow>
            (let vec' = remove1 p vec
             in if vec' = [] then s\<lparr>eventSubscribers := AList.delete a (eventSubscribers s)\<rparr>
                else s\<lparr>eventSubscribers := AList.update a vec' (eventSubscribers s)\<rparr>))"
  have d: "distinct v" using Cons.prems by (simp add: v_def index_ok_distinct)
  have t: "at_vec (eventSubscribers t) e' =
      (if e' = a then remove1 p v else at_vec (eventSubscribers s) e')" for e'
    unfolding t_def v_def by (auto simp: Let_def at_vec_def update_conv' delete_conv' split: option.splits)
  have ok: "index_ok (eventSubscribers t)"
    using Cons.prems d unfolding t_def v_def
    by (auto simp: Let_def at_vec_def index_ok_update index_ok_delete split: option.splits)
  have "remove1 p (remove1 p v) = remove1 p v" using d by (simp add: remove1_idem)
  then show ?case
    using Cons.IH [OF ok] unfolding RemoveEventSubscribers.simps t_def [symmetric]
    by (auto simp: t v_def)
qed simp

lemma drop_listener_index:
  "index_ok (eventSubscribers s) \<Longrightarrow>
     index_ok (eventSubscribers (drop_listener l es s)) \<and>
     at_vec (eventSubscribers (drop_listener l es s)) e =
       (if e \<in> set es then filter (\<lambda>p. l \<noteq> listener_at s p) (at_vec (eventSubscribers s) e)
        else at_vec (eventSubscribers s) e)"
proof (induction es arbitrary: s)
  case (Cons a es)
  define v where "v = filter (\<lambda>p. l \<noteq> listener_at s p) (at_vec (eventSubscribers s) a)"
  define t where "t = (if v = [] then s\<lparr>eventSubscribers := AList.delete a (eventSubscribers s)\<rparr>
           else s\<lparr>eventSubscribers := AList.update a v (eventSubscribers s)\<rparr>)"
  have eq: "drop_listener l (a # es) s = drop_listener l es t"
    by (simp add: Let_def t_def v_def)
  have d: "distinct v" using Cons.prems by (simp add: v_def index_ok_distinct)
  have ok: "index_ok (eventSubscribers t)"
    using Cons.prems d by (simp add: t_def index_ok_update index_ok_delete)
  have "subHeap t = subHeap s" by (simp add: t_def)
  then show ?case
    using Cons.IH [OF ok] unfolding eq by (auto simp: t_def v_def)
qed simp

section \<open>Finding a record by its listener\<close>

lemma find_listener_Some:
  "find_listener s l ps = Some p \<Longrightarrow> p \<in> set ps \<and> listener_at s p = l"
  by (induction ps) (auto split: if_splits)

lemma find_listener_None: "find_listener s l ps = None \<longleftrightarrow> l \<notin> listener_at s ` set ps"
  by (induction ps) auto

lemma find_listener_distinct:
  "distinct (map (listener_at s) ps) \<Longrightarrow>
     find_listener s l ps = Some p \<longleftrightarrow> p \<in> set ps \<and> listener_at s p = l"
  using find_listener_Some [of s l ps] find_listener_None [of s l ps]
  by (cases "find_listener s l ps") (auto simp: distinct_map inj_on_def)

lemma find_listener_cong:
  "(\<And>p. p \<in> set ps \<Longrightarrow> listener_at t p = listener_at s p) \<Longrightarrow>
     find_listener t l ps = find_listener s l ps"
  by (induction ps) auto

section \<open>Preservation\<close>

lemma sub_inv_init [ces_inv]: "sub_inv (sub_init h)"
  by (rule sub_invI) (simp_all add: sub_init_def index_ok_def counts_ok_def at_vec_def)

lemma sub_inv_log [ces_inv]: "sub_inv (log_sub e s) \<longleftrightarrow> sub_inv s"
  by (simp add: log_sub_def sub_inv_def)

lemma sub_inv_alloc:
  assumes "sub_inv s"
  shows "sub_inv (snd (alloc_record r s))"
proof -
  have neq: "p \<noteq> subNext s" if "p \<in> set (subscribers s)" for p
    using sub_invD(1) [OF assms that] by simp
  show ?thesis
    using assms neq unfolding sub_inv_def alloc_record_def set_record_def
    by (auto cong: map_cong simp: less_SucI)
qed

lemma sub_inv_insert_record:
  assumes inv: "sub_inv s" and p: "p < subNext s" "p \<notin> set (subscribers s)"
    and l: "listener_at s p \<notin> listener_at s ` set (subscribers s)"
    and d: "distinct (events_at s p)"
  shows "sub_inv (snd (InsertSubscriberRecordLocked E cmd (events_at s p) (Some p) s))"
proof -
  let ?reached = "CheckSubscriberCountReachedMaxinum E s \<and> pid_at s p = fst (hd (GetTopSubscriberCounts s 1))"
  define s1 where "s1 = (if CheckSubscriberCountReachedMaxinum E s
     then log_sub (KillProcess (fst (hd (GetTopSubscriberCounts s 1))))
            (ReportTopSubscribersInfoHiSysEvent cmd
              (GetTopSubscriberRecordsMap s (GetTopSubscriberCounts s 1))
              (fst (hd (GetTopSubscriberCounts s 1))) s) else s)"
  have f1: "subHeap s1 = subHeap s" "subNext s1 = subNext s" "subscribers s1 = subscribers s"
    "eventSubscribers s1 = eventSubscribers s" "subscriberCounts s1 = subscriberCounts s"
    by (simp_all add: s1_def log_sub_def ReportTopSubscribersInfoHiSysEvent_def split: option.split)
  have index: "index_ok (eventSubscribers s1)" using inv f1 by (simp add: sub_inv_def)
  show ?thesis
  proof (cases "length (events_at s p) = 0 \<or> ?reached")
    case True
    then show ?thesis using inv by (auto simp: InsertSubscriberRecordLocked_def Let_def)
  next
    case False
    define t where "t = InsertEventSubscribers (events_at s p) p s1"
    have res: "snd (InsertSubscriberRecordLocked E cmd (events_at s p) (Some p) s) =
        t\<lparr>subscribers := subscribers t @ [p], subscriberCounts :=
            AList.update (pid_at s p) (at_num (subscriberCounts t) (pid_at s p) + 1)
              (subscriberCounts t)\<rparr>"
      using False unfolding InsertSubscriberRecordLocked_def t_def s1_def by (auto simp: Let_def)
    have tf: "subHeap t = subHeap s" "subNext t = subNext s" "subscribers t = subscribers s"
      "subscriberCounts t = subscriberCounts s"
      by (simp_all add: t_def ces_frame f1)
    have ti: "index_ok (eventSubscribers t)"
      "at_vec (eventSubscribers t) e = (if e \<in> set (events_at s p) \<and> p \<notin> set (at_vec (eventSubscribers s) e)
        then at_vec (eventSubscribers s) e @ [p] else at_vec (eventSubscribers s) e)" for e
      using InsertEventSubscribers_index [OF index, of "events_at s p" p] by (simp_all add: t_def f1)
    show ?thesis
      unfolding res
    proof (rule sub_invI, goal_cases)
      case 7
      then show ?case using counts_ok_snoc [OF sub_invD(7) [OF inv], of "pid_at s p"]
        by (simp add: tf)
    qed (use inv p l d in \<open>auto simp: tf ti sub_inv_def\<close>)
  qed
qed

lemma UpdateSubscriberRecordLocked_inv:
  assumes inv: "sub_inv s" and p: "p \<in> set (subscribers s)"
    and d: "distinct (ms_events (si_matchingSkills info))"
    and pid: "pid rinfo = pid_at s p"
  shows "sub_inv (snd (UpdateSubscriberRecordLocked info time rinfo (Some p) s))"
proof -
  define old where "old = sort (events_at s p)"
  define new where "new = sort (ms_events (si_matchingSkills info))"
  define s1 where "s1 = RemoveEventSubscribers (set_difference old new) p s"
  define s2 where "s2 = set_record p ((subHeap s1 p)\<lparr>eventSubscribeInfo := info,
                      subRecordInfo := rinfo, subRecordTime := time\<rparr>) s1"
  define t where "t = InsertEventSubscribers (set_difference new old) p s2"
  have res: "snd (UpdateSubscriberRecordLocked info time rinfo (Some p) s) = t"
    by (simp add: UpdateSubscriberRecordLocked_def Let_def t_def s2_def s1_def old_def new_def)
  have sd: "set (set_difference old new) = set (events_at s p) - set (ms_events (si_matchingSkills info))"
    "set (set_difference new old) = set (ms_events (si_matchingSkills info)) - set (events_at s p)"
    using d sub_invD(4) [OF inv p] unfolding old_def new_def by (simp_all add: set_set_difference)
  have i1: "index_ok (eventSubscribers s1)"
    "at_vec (eventSubscribers s1) e = (if e \<in> set (set_difference old new)
        then remove1 p (at_vec (eventSubscribers s) e) else at_vec (eventSubscribers s) e)" for e
    using RemoveEventSubscribers_index [OF sub_invD(5) [OF inv], of "set_difference old new" p]
    by (simp_all add: s1_def)
  have e2: "eventSubscribers s2 = eventSubscribers s1" by (simp add: s2_def set_record_def)
  have i2: "index_ok (eventSubscribers t)"
    "at_vec (eventSubscribers t) e = (if e \<in> set (set_difference new old) \<and>
          p \<notin> set (at_vec (eventSubscribers s1) e)
        then at_vec (eventSubscribers s1) e @ [p] else at_vec (eventSubscribers s1) e)" for e
    using InsertEventSubscribers_index [of s2 "set_difference new old" p] i1
    by (simp_all add: t_def e2)
  have tf: "subHeap t = (subHeap s)(p := (subHeap s p)\<lparr>eventSubscribeInfo := info,
                      subRecordInfo := rinfo, subRecordTime := time\<rparr>)"
    "subNext t = subNext s" "subscribers t = subscribers s" "subscriberCounts t = subscriberCounts s"
    by (simp_all add: t_def s2_def s1_def set_record_def ces_frame)
  have l: "listener_at t = listener_at s" "pid_at t = pid_at s"
    by (auto simp: tf fun_eq_iff pid)
  have ev: "set (events_at t q) = (if q = p then set (ms_events (si_matchingSkills info))
      else set (events_at s q))" for q by (simp add: tf)
  have dv: "distinct (at_vec (eventSubscribers s) e)" for e
    using sub_invD(5) [OF inv] by (rule index_ok_distinct)
  have mem: "q \<in> set (at_vec (eventSubscribers t) e) \<longleftrightarrow>
      q \<in> set (subscribers s) \<and> e \<in> set (events_at t q)" for e q
    using sub_invD(6) [OF inv] p dv [of e] unfolding i2 i1 ev sd by auto
  show ?thesis
    unfolding res
  proof (rule sub_invI, goal_cases)
    case (4 q)
    then show ?case using sub_invD(4) [OF inv] d by (simp add: tf)
  next
    case 7
    show ?case unfolding l tf(3,4) by (rule sub_invD(7) [OF inv])
  next
    case 3
    show ?case unfolding l tf(3) by (rule sub_invD(3) [OF inv])
  qed (use sub_invD(1,2) [OF inv] i2(1) mem in \<open>simp_all add: tf\<close>)
qed

lemma remove1_filter: "distinct xs \<Longrightarrow> remove1 p xs = filter (\<lambda>x. x \<noteq> p) xs"
  by (simp add: distinct_remove1_removeAll removeAll_filter_not_eq) (metis (mono_tags, lifting))

lemma RemoveFrozen_frame [ces_frame]:
  "subHeap (RemoveFrozenEventsBySubscriber p s) = subHeap s"
  "subNext (RemoveFrozenEventsBySubscriber p s) = subNext s"
  "subscribers (RemoveFrozenEventsBySubscriber p s) = subscribers s"
  "eventSubscribers (RemoveFrozenEventsBySubscriber p s) = eventSubscribers s"
  "subscriberCounts (RemoveFrozenEventsBySubscriber p s) = subscriberCounts s"
  "hasCompacted (RemoveFrozenEventsBySubscriber p s) = hasCompacted s"
  "frozenEventsMap (RemoveFrozenEventsBySubscriber p s) = frozenEventsMap s"
  "subHeap (RemoveFrozenEventsMapBySubscriber p s) = subHeap s"
  "subNext (RemoveFrozenEventsMapBySubscriber p s) = subNext s"
  "subscribers (RemoveFrozenEventsMapBySubscriber p s) = subscribers s"
  "eventSubscribers (RemoveFrozenEventsMapBySubscriber p s) = eventSubscribers s"
  "subscriberCounts (RemoveFrozenEventsMapBySubscriber p s) = subscriberCounts s"
  "hasCompacted (RemoveFrozenEventsMapBySubscriber p s) = hasCompacted s"
  "frozenEvents (RemoveFrozenEventsMapBySubscriber p s) = frozenEvents s"
  by (simp_all add: RemoveFrozenEventsBySubscriber_def RemoveFrozenEventsMapBySubscriber_def
    Let_def split: option.splits)

lemma frozen_frame [ces_frame]:
  "sub_inv (InsertFrozenEvents r er s) \<longleftrightarrow> sub_inv s"
  "sub_inv (InsertFrozenEventsMap r er s) \<longleftrightarrow> sub_inv s"
  "sub_inv (snd (GetFrozenEvents u s)) \<longleftrightarrow> sub_inv s"
  "sub_inv (snd (GetFrozenEventsMapByPid q s)) \<longleftrightarrow> sub_inv s"
  by (simp_all add: InsertFrozenEvents_def InsertFrozenEventsMap_def GetFrozenEvents_def
    GetFrozenEventsMapByPid_def RemoveFrozenEvents_def RemoveFrozenEventsMapByPid_def Let_def
    sub_inv_def split: option.splits)

text \<open>What \<open>RemoveSubscriberRecordLocked\<close> leaves when the listener is registered.\<close>

lemma RemoveSubscriberRecordLocked_fields:
  assumes "find_listener s l (subscribers s) = Some p"
  defines "t \<equiv> snd (RemoveSubscriberRecordLocked (Some l) s)"
  shows "subHeap t = subHeap s" "subNext t = subNext s" "subscribers t = remove1 p (subscribers s)"
    and "subscriberCounts t =
      (if at_num (subscriberCounts s) (pid_at s p) > 1
       then AList.update (pid_at s p) (at_num (subscriberCounts s) (pid_at s p) - 1) (subscriberCounts s)
       else AList.delete (pid_at s p) (subscriberCounts s))"
    and "index_ok (eventSubscribers s) \<Longrightarrow> index_ok (eventSubscribers t)"
    and "index_ok (eventSubscribers s) \<Longrightarrow> at_vec (eventSubscribers t) e =
       (if e \<in> set (events_at s p)
        then filter (\<lambda>q. l \<noteq> listener_at s q) (at_vec (eventSubscribers s) e)
        else at_vec (eventSubscribers s) e)"
    and "hasCompacted t = hasCompacted s"
proof -
  have "find_listener (log_sub (RemoveDeathRecipient l) s) l (subscribers s) = Some p"
    using assms(1) find_listener_cong [of "subscribers s" "log_sub (RemoveDeathRecipient l) s" s l]
    by (simp add: log_sub_def)
  note eqs = this t_def RemoveSubscriberRecordLocked_def Let_def log_sub_def ces_frame
  show "subHeap t = subHeap s" "subNext t = subNext s" "subscribers t = remove1 p (subscribers s)"
    "subscriberCounts t =
      (if at_num (subscriberCounts s) (pid_at s p) > 1
       then AList.update (pid_at s p) (at_num (subscriberCounts s) (pid_at s p) - 1) (subscriberCounts s)
       else AList.delete (pid_at s p) (subscriberCounts s))"
    "hasCompacted t = hasCompacted s"
    using eqs(1) by (simp_all add: eqs)
  define r where "r = RemoveFrozenEventsMapBySubscriber p (RemoveFrozenEventsBySubscriber p
     (s\<lparr>subLog := subLog s @ [RemoveDeathRecipient l]\<rparr>))"
  obtain r' where r': "t = drop_listener l (events_at s p) r'" "eventSubscribers r' = eventSubscribers s"
    "subHeap r' = subHeap s"
    using eqs(1) by (simp add: eqs)
  show "index_ok (eventSubscribers s) \<Longrightarrow> index_ok (eventSubscribers t)"
    "index_ok (eventSubscribers s) \<Longrightarrow> at_vec (eventSubscribers t) e =
       (if e \<in> set (events_at s p)
        then filter (\<lambda>q. l \<noteq> listener_at s q) (at_vec (eventSubscribers s) e)
        else at_vec (eventSubscribers s) e)"
    using drop_listener_index [of r' l "events_at s p" e] by (simp_all add: r')
qed

lemma RemoveSubscriberRecordLocked_inv:
  assumes inv: "sub_inv s"
  shows "sub_inv (snd (RemoveSubscriberRecordLocked listener s))"
proof (cases "\<exists>l p. listener = Some l \<and> find_listener s l (subscribers s) = Some p")
  case False
  then show ?thesis
    using inv find_listener_cong [of "subscribers s" "log_sub (RemoveDeathRecipient (the listener)) s" s
        "the listener"]
    by (cases listener) (auto simp: RemoveSubscriberRecordLocked_def Let_def sub_inv_log
        log_sub_def split: option.splits intro: sub_inv_frame)
next
  case True
  then obtain l p where l: "listener = Some l" and f: "find_listener s l (subscribers s) = Some p"
    by auto
  then have p: "p \<in> set (subscribers s)" "listener_at s p = l" by (auto dest: find_listener_Some)
  let ?t = "snd (RemoveSubscriberRecordLocked (Some l) s)"
  note F = RemoveSubscriberRecordLocked_fields [OF f]
  have only: "listener_at s q = l \<longleftrightarrow> q = p" if "q \<in> set (subscribers s)" for q
    using sub_invD(2,3) [OF inv] p that by (auto simp: distinct_map inj_on_def)
  have mem: "q \<in> set (at_vec (eventSubscribers ?t) e) \<longleftrightarrow>
      q \<in> set (subscribers ?t) \<and> e \<in> set (events_at ?t q)" for e q
    using sub_invD(2,6) [OF inv] only p unfolding F(6) [OF sub_invD(5) [OF inv]] F(1,3)
    by (auto simp: remove1_filter)
  have "mset (map (pid_at s) (remove1 p (subscribers s))) =
      mset (remove1 (pid_at s p) (map (pid_at s) (subscribers s)))"
    using map_remove1_inj [OF p(1) sub_invD(2) [OF inv], of "pid_at s"] by simp
  note same = counts_ok_mset [OF this]
  have "pid_at s p \<in> set (map (pid_at s) (subscribers s))" using p(1) by simp
  from counts_ok_remove1 [OF sub_invD(7) [OF inv] this]
  have counts: "counts_ok (subscriberCounts ?t) (map (pid_at s) (remove1 p (subscribers s)))"
    unfolding F(4) same .
  show ?thesis
    unfolding l
  proof (rule sub_invI, goal_cases)
    case (1 q)
    then show ?case using sub_invD(1) [OF inv] by (auto simp: F dest: notin_set_remove1)
  next
    case 2
    then show ?case using sub_invD(2) [OF inv] by (simp add: F)
  next
    case 3
    then show ?case using sub_invD(2,3) [OF inv] by (simp add: F distinct_map remove1_filter inj_on_def)
  next
    case (4 q)
    then show ?case using sub_invD(4) [OF inv] by (auto simp: F dest: notin_set_remove1)
  next
    case 5
    then show ?case using sub_invD(5) [OF inv] by (rule F)
  next
    case 6
    then show ?case by (rule mem)
  next
    case 7
    then show ?case using counts by (simp add: F(1,3))
  qed
qed

end
