(* ===== verification/Subscriber_Registry.thy ===== *)
theory Subscriber_Registry
  imports Subscriber_Invariant
begin

text \<open>
  The abstract view of the subscriber manager: a registry is a finite map from listeners to
  subscriber records.  Every operation of the manager is a simple function on it, the look-up
  by event through the index returns what filtering the whole registry would return, and the
  compaction, which replaces every record by a copy, cannot be seen.
\<close>

section \<open>The registry\<close>

definition registry :: "sub_state \<Rightarrow> remote \<Rightarrow> EventSubscriberRecord option" where
  "registry s l = map_option (subHeap s) (find_listener s l (subscribers s))"

lemma registry_iff:
  assumes "sub_inv s"
  shows "registry s l = Some r \<longleftrightarrow>
    (\<exists>p \<in> set (subscribers s). subHeap s p = r \<and> commonEventListener r = l)"
  using find_listener_distinct [OF sub_invD(3) [OF assms]] unfolding registry_def by auto

lemma registry_None: "registry s l = None \<longleftrightarrow> l \<notin> listener_at s ` set (subscribers s)"
  by (simp add: registry_def find_listener_None)

lemma registry_listener: "registry s l = Some r \<Longrightarrow> commonEventListener r = l"
  by (auto simp: registry_def dest: find_listener_Some)

lemma registry_cong:
  "subscribers t = subscribers s \<Longrightarrow> (\<And>p. p \<in> set (subscribers s) \<Longrightarrow> subHeap t p = subHeap s p) \<Longrightarrow>
     registry t = registry s"
  using find_listener_cong [of "subscribers s" t s] find_listener_Some [of s _ "subscribers s"]
  by (auto simp: registry_def fun_eq_iff intro!: map_option_cong)

section \<open>Insertion\<close>

definition fresh_record ::
  "CommonEventSubscribeInfo \<Rightarrow> remote \<Rightarrow> int64 \<Rightarrow> EventRecordInfo \<Rightarrow> EventSubscriberRecord" where
  "fresh_record info l time rinfo = \<lparr>isFreeze = False, subRecordTime = time, freezeTime = 0,
     eventSubscribeInfo = info, commonEventListener = l, subRecordInfo = rinfo\<rparr>"

definition renewed_record ::
  "CommonEventSubscribeInfo \<Rightarrow> int64 \<Rightarrow> EventRecordInfo \<Rightarrow> EventSubscriberRecord \<Rightarrow>
     EventSubscriberRecord" where
  "renewed_record info time rinfo r =
     r\<lparr>eventSubscribeInfo := info, subRecordInfo := rinfo, subRecordTime := time\<rparr>"

definition valid_events :: "CommonEventSubscribeInfo \<Rightarrow> bool" where
  "valid_events info \<longleftrightarrow> ms_events (si_matchingSkills info) \<noteq> [] \<and>
     length (ms_events (si_matchingSkills info)) \<le> SUBSCRIBE_EVENT_MAX_NUM"

text \<open>The two cases of \<open>InsertSubscriber\<close> once its arguments are accepted.\<close>

lemma InsertSubscriber_update:
  assumes "valid_events info" "GetSubscriberRecord s l = Some p"
  shows "InsertSubscriber E cmd (Some info) (Some l) time rinfo s =
    (Some p, snd (UpdateSubscriberRecordLocked info time rinfo (Some p) s))"
  using assms by (auto simp: InsertSubscriber_def valid_events_def split: prod.split)

definition with_new_record ::
  "CommonEventSubscribeInfo \<Rightarrow> remote \<Rightarrow> int64 \<Rightarrow> EventRecordInfo \<Rightarrow> sub_state \<Rightarrow> sub_state" where
  "with_new_record info l time rinfo s =
     log_sub (AddDeathRecipient l) (snd (alloc_record (fresh_record info l time rinfo) s))"

lemma with_new_record_simps [simp]:
  "subHeap (with_new_record info l time rinfo s) =
     (subHeap s)(subNext s := fresh_record info l time rinfo)"
  "subNext (with_new_record info l time rinfo s) = subNext s + 1"
  "subscribers (with_new_record info l time rinfo s) = subscribers s"
  "eventSubscribers (with_new_record info l time rinfo s) = eventSubscribers s"
  "subscriberCounts (with_new_record info l time rinfo s) = subscriberCounts s"
  "frozenEvents (with_new_record info l time rinfo s) = frozenEvents s"
  "frozenEventsMap (with_new_record info l time rinfo s) = frozenEventsMap s"
  "hasCompacted (with_new_record info l time rinfo s) = hasCompacted s"
  "subLog (with_new_record info l time rinfo s) = subLog s @ [AddDeathRecipient l]"
  by (simp_all add: with_new_record_def alloc_record_def set_record_def log_sub_def)

lemma sub_inv_with_new_record: "sub_inv s \<Longrightarrow> sub_inv (with_new_record info l time rinfo s)"
  by (simp add: with_new_record_def sub_inv_log sub_inv_alloc)

lemma InsertSubscriber_new:
  assumes "valid_events info" "GetSubscriberRecord s l = None"
  shows "InsertSubscriber E cmd (Some info) (Some l) time rinfo s =
    (let (ok, t) = InsertSubscriberRecordLocked E cmd (ms_events (si_matchingSkills info))
           (Some (subNext s)) (with_new_record info l time rinfo s)
     in (if ok then Some (subNext s) else None, t))"
  using assms
  by (auto simp: InsertSubscriber_def valid_events_def alloc_record_def set_record_def Let_def
    with_new_record_def fresh_record_def split: prod.split)

lemma InsertSubscriber_rejected_args:
  "info_opt = None \<or> listener = None \<or> (\<exists>info. info_opt = Some info \<and> \<not> valid_events info) \<Longrightarrow>
     InsertSubscriber E cmd info_opt listener time rinfo s = (None, s)"
  by (auto simp: InsertSubscriber_def valid_events_def split: option.split)

lemma InsertSubscriber_inv [ces_inv]:
  assumes inv: "sub_inv s"
    and d: "\<And>info. info_opt = Some info \<Longrightarrow> distinct (ms_events (si_matchingSkills info))"
    and pid: "\<And>l r. listener = Some l \<Longrightarrow> registry s l = Some r \<Longrightarrow> pid rinfo = pid (subRecordInfo r)"
  shows "sub_inv (snd (InsertSubscriber E cmd info_opt listener time rinfo s))"
proof (cases "\<exists>info l. info_opt = Some info \<and> listener = Some l \<and> valid_events info")
  case False
  then have "InsertSubscriber E cmd info_opt listener time rinfo s = (None, s)"
    by (intro InsertSubscriber_rejected_args) (cases info_opt; cases listener; auto)
  then show ?thesis using inv by simp
next
  case True
  then obtain info l where a: "info_opt = Some info" "listener = Some l" and v: "valid_events info"
    by auto
  show ?thesis
  proof (cases "GetSubscriberRecord s l")
    case (Some p)
    then have p: "p \<in> set (subscribers s)"
      by (auto simp: GetSubscriberRecord_def dest: find_listener_Some)
    have "pid rinfo = pid_at s p"
      using pid [of l "subHeap s p"] Some a by (simp add: registry_def GetSubscriberRecord_def)
    from UpdateSubscriberRecordLocked_inv [OF inv p d this, OF a(1)]
    show ?thesis by (simp add: a InsertSubscriber_update [OF v Some])
  next
    case None
    let ?t = "with_new_record info l time rinfo s"
    have old: "q < subNext s" if "q \<in> set (subscribers s)" for q using sub_invD(1) [OF inv that] .
    have "l \<notin> listener_at s ` set (subscribers s)"
      using None by (simp add: GetSubscriberRecord_def find_listener_None)
    then have "listener_at ?t (subNext s) \<notin> listener_at ?t ` set (subscribers ?t)"
      using old old [of "subNext s"] by (auto simp: fresh_record_def split: if_splits)
    moreover have "events_at ?t (subNext s) = ms_events (si_matchingSkills info)"
      by (simp add: fresh_record_def)
    ultimately have "sub_inv (snd (InsertSubscriberRecordLocked E cmd
        (ms_events (si_matchingSkills info)) (Some (subNext s)) ?t))"
      using sub_inv_insert_record [of ?t "subNext s" E cmd] inv d [OF a(1)] old
      by (auto simp: sub_inv_with_new_record)
    then show ?thesis
      unfolding a InsertSubscriber_new [OF v None] by (simp add: case_prod_unfold Let_def)
  qed
qed

lemma InsertSubscriberRecordLocked_frame:
  "subHeap (snd (InsertSubscriberRecordLocked E cmd es r s)) = subHeap s"
  "subNext (snd (InsertSubscriberRecordLocked E cmd es r s)) = subNext s"
  "fst (InsertSubscriberRecordLocked E cmd es (Some p) s) \<Longrightarrow>
     subscribers (snd (InsertSubscriberRecordLocked E cmd es (Some p) s)) = subscribers s @ [p]"
  "\<not> fst (InsertSubscriberRecordLocked E cmd es r s) \<Longrightarrow>
     snd (InsertSubscriberRecordLocked E cmd es r s) = s"
  by (cases "es = []"; cases r; cases "CheckSubscriberCountReachedMaxinum E s";
      simp add: InsertSubscriberRecordLocked_def Let_def ces_frame log_sub_def
        ReportTopSubscribersInfoHiSysEvent_def split: option.splits if_splits)+

text \<open>Inserting: an accepted insertion writes one entry of the registry, a refused one none.\<close>

lemma registry_InsertSubscriber:
  assumes inv: "sub_inv s" and v: "valid_events info"
    and res_def: "res = InsertSubscriber E cmd (Some info) (Some l) time rinfo s"
  shows "registry (snd res) = (if fst res = None then registry s
      else (registry s)(l \<mapsto> (case registry s l of
              None \<Rightarrow> fresh_record info l time rinfo
            | Some r \<Rightarrow> renewed_record info time rinfo r)))"
proof (cases "GetSubscriberRecord s l")
  case (Some p)
  let ?t = "snd (UpdateSubscriberRecordLocked info time rinfo (Some p) s)"
  have t: "subscribers ?t = subscribers s"
    "subHeap ?t = (subHeap s)(p := renewed_record info time rinfo (subHeap s p))"
    by (simp_all add: UpdateSubscriberRecordLocked_def Let_def ces_frame set_record_def renewed_record_def)
  have f: "find_listener ?t l' (subscribers s) = find_listener s l' (subscribers s)" for l'
    by (rule find_listener_cong) (simp add: t renewed_record_def)
  have p: "find_listener s l (subscribers s) = Some p" using Some by (simp add: GetSubscriberRecord_def)
  have "registry ?t l' = ((registry s)(l \<mapsto> renewed_record info time rinfo (subHeap s p))) l'" for l'
  proof (cases "l' = l")
    case True
    then show ?thesis by (simp add: registry_def t f p)
  next
    case False
    then have "find_listener s l' (subscribers s) \<noteq> Some p"
      using p by (auto dest: find_listener_Some)
    then show ?thesis
      using False by (cases "find_listener s l' (subscribers s)") (auto simp: registry_def t f)
  qed
  then have "registry ?t = (registry s)(l \<mapsto> renewed_record info time rinfo (subHeap s p))"
    by (rule ext)
  moreover have "registry s l = Some (subHeap s p)" by (simp add: registry_def p)
  ultimately show ?thesis
    unfolding res_def InsertSubscriber_update [OF v Some] by simp
next
  case None
  let ?u = "with_new_record info l time rinfo s"
  let ?ins = "InsertSubscriberRecordLocked E cmd (ms_events (si_matchingSkills info)) (Some (subNext s)) ?u"
  have new: "registry s l = None" using None by (simp add: registry_def GetSubscriberRecord_def)
  have old: "q \<noteq> subNext s" if "q \<in> set (subscribers s)" for q using sub_invD(1) [OF inv that] by simp
  show ?thesis
  proof (cases "fst ?ins")
    case False
    then have "res = (None, ?u)"
      unfolding res_def InsertSubscriber_new [OF v None]
      by (simp add: Let_def case_prod_unfold InsertSubscriberRecordLocked_frame)
    moreover have "registry ?u = registry s" by (rule registry_cong) (simp_all add: old)
    ultimately show ?thesis by simp
  next
    case True
    let ?t = "snd ?ins"
    have res: "res = (Some (subNext s), ?t)"
      unfolding res_def InsertSubscriber_new [OF v None] using True
      by (simp add: Let_def case_prod_unfold)
    have t: "subscribers ?t = subscribers s @ [subNext s]"
      "subHeap ?t = (subHeap s)(subNext s := fresh_record info l time rinfo)"
      using True by (simp_all add: InsertSubscriberRecordLocked_frame)
    have app: "find_listener ?t l' (xs @ [subNext s]) =
        (case find_listener ?t l' xs of None \<Rightarrow> if l' = l then Some (subNext s) else None | Some q \<Rightarrow> Some q)"
      for l' xs
      by (induction xs) (simp_all add: t fresh_record_def)
    have same: "find_listener ?t l' (subscribers s) = find_listener s l' (subscribers s)" for l'
      by (rule find_listener_cong) (simp add: t old)
    have "registry ?t = (registry s)(l \<mapsto> fresh_record info l time rinfo)"
      using new find_listener_Some [of s _ "subscribers s"] old
      unfolding registry_def t(1) app same
      by (auto simp: t(2) fun_eq_iff split: option.splits)
    then show ?thesis by (simp add: res new)
  qed
qed

section \<open>Removal\<close>

lemma registry_RemoveSubscriber:
  assumes inv: "sub_inv s"
  shows "registry (snd (RemoveSubscriber (Some l) s)) = (registry s)(l := None)"
proof (cases "find_listener s l (subscribers s)")
  case None
  have "find_listener (log_sub (RemoveDeathRecipient l) s) l (subscribers s) = None"
    using None find_listener_cong [of "subscribers s" "log_sub (RemoveDeathRecipient l) s" s l]
    by (simp add: log_sub_def)
  then have "snd (RemoveSubscriber (Some l) s) = log_sub (RemoveDeathRecipient l) s"
    by (simp add: RemoveSubscriber_def RemoveSubscriberRecordLocked_def Let_def log_sub_def)
  moreover have "registry (log_sub (RemoveDeathRecipient l) s) = registry s"
    by (rule registry_cong) (simp_all add: log_sub_def)
  ultimately show ?thesis using None by (auto simp: registry_def fun_eq_iff)
next
  case (Some p)
  note F = RemoveSubscriberRecordLocked_fields [OF Some]
  have inv': "sub_inv (snd (RemoveSubscriberRecordLocked (Some l) s))"
    using inv by (rule RemoveSubscriberRecordLocked_inv)
  have p: "p \<in> set (subscribers s)" "listener_at s p = l" using Some by (auto dest: find_listener_Some)
  have only: "listener_at s q = l \<longleftrightarrow> q = p" if "q \<in> set (subscribers s)" for q
    using sub_invD(2,3) [OF inv] p that by (auto simp: distinct_map inj_on_def)
  have "registry (snd (RemoveSubscriberRecordLocked (Some l) s)) l' = Some r \<longleftrightarrow>
      ((registry s)(l := None)) l' = Some r" for l' r
    unfolding registry_iff [OF inv'] F(1,3) remove1_filter [OF sub_invD(2) [OF inv]]
    using registry_iff [OF inv] only p by auto
  then have "registry (snd (RemoveSubscriberRecordLocked (Some l) s)) l' = ((registry s)(l := None)) l'"
    for l' by (cases "((registry s)(l := None)) l'"; metis not_None_eq)
  then show ?thesis by (auto simp: RemoveSubscriber_def)
qed

lemma RemoveSubscriber_inv [ces_inv]: "sub_inv s \<Longrightarrow> sub_inv (snd (RemoveSubscriber l s))"
  by (cases l) (simp_all add: RemoveSubscriber_def RemoveSubscriberRecordLocked_inv)

section \<open>Freezing\<close>

lemma UpdateFreezeInfo_loop_frame [ces_frame]:
  "subNext (UpdateFreezeInfo_loop P b t ps s) = subNext s"
  "subscribers (UpdateFreezeInfo_loop P b t ps s) = subscribers s"
  "eventSubscribers (UpdateFreezeInfo_loop P b t ps s) = eventSubscribers s"
  "subscriberCounts (UpdateFreezeInfo_loop P b t ps s) = subscriberCounts s"
  "frozenEvents (UpdateFreezeInfo_loop P b t ps s) = frozenEvents s"
  "frozenEventsMap (UpdateFreezeInfo_loop P b t ps s) = frozenEventsMap s"
  "hasCompacted (UpdateFreezeInfo_loop P b t ps s) = hasCompacted s"
  "subLog (UpdateFreezeInfo_loop P b t ps s) = subLog s"
  by (induction ps arbitrary: s) (simp_all add: set_record_def)

lemma UpdateFreezeInfo_loop_heap:
  "distinct ps \<Longrightarrow> subHeap (UpdateFreezeInfo_loop P b t ps s) q =
     (if q \<in> set ps \<and> P (subHeap s q) then freeze_record b t (subHeap s q) else subHeap s q)"
  by (induction ps arbitrary: s) (auto simp: set_record_def)

lemma UpdateFreezeInfo_loop_inv:
  assumes "sub_inv s"
  shows "sub_inv (UpdateFreezeInfo_loop P b t (subscribers s) s)"
proof -
  let ?t = "UpdateFreezeInfo_loop P b t (subscribers s) s"
  have h: "subHeap ?t q =
      (if q \<in> set (subscribers s) \<and> P (subHeap s q) then freeze_record b t (subHeap s q) else subHeap s q)" for q
    by (rule UpdateFreezeInfo_loop_heap) (rule sub_invD(2) [OF assms])
  have "listener_at ?t = listener_at s" "pid_at ?t = pid_at s" "\<And>q. events_at ?t q = events_at s q"
    by (auto simp: h freeze_record_def fun_eq_iff)
  then show ?thesis using assms unfolding sub_inv_def by (simp add: ces_frame)
qed

lemma freeze_inv [ces_inv]:
  "sub_inv s \<Longrightarrow> sub_inv (UpdateFreezeInfo u b t s)"
  "sub_inv s \<Longrightarrow> sub_inv (UpdateFreezeInfo_pids qs b t s)"
  "sub_inv s \<Longrightarrow> sub_inv (UpdateAllFreezeInfos b t s)"
  by (simp_all add: UpdateFreezeInfo_def UpdateFreezeInfo_pids_def UpdateAllFreezeInfos_def
    UpdateFreezeInfo_loop_inv)

lemma registry_freeze_loop:
  assumes "sub_inv s"
  shows "registry (UpdateFreezeInfo_loop P b t (subscribers s) s) l =
    map_option (\<lambda>r. if P r then freeze_record b t r else r) (registry s l)"
proof -
  let ?t = "UpdateFreezeInfo_loop P b t (subscribers s) s"
  have h: "subHeap ?t q =
      (if q \<in> set (subscribers s) \<and> P (subHeap s q) then freeze_record b t (subHeap s q) else subHeap s q)" for q
    by (rule UpdateFreezeInfo_loop_heap) (rule sub_invD(2) [OF assms])
  have "find_listener ?t l (subscribers s) = find_listener s l (subscribers s)"
    by (rule find_listener_cong) (simp add: h freeze_record_def)
  then show ?thesis
    by (cases "find_listener s l (subscribers s)")
      (auto simp: registry_def ces_frame h dest: find_listener_Some)
qed

section \<open>Looking up by event\<close>

text \<open>The index is an optimisation: walking all subscribers gives the same records.\<close>

lemma GetSubscriberRecordsByWantLocked_eq:
  "GetSubscriberRecordsByWantLocked E pm er pl s =
     filter (\<lambda>p. accepts E pm er pl (subHeap s p)) (at_vec (eventSubscribers s) (action_of pl))"
  by (simp add: GetSubscriberRecordsByWantLocked_def at_vec_def split: option.split)

lemma lookup_pointers:
  assumes "sub_inv s"
  shows "mset (GetSubscriberRecordsByWantLocked E pm er pl s) =
    mset (filter (\<lambda>p. accepts E pm er pl (subHeap s p)) (subscribers s))"
proof (rule set_eq_iff_mset_eq_distinct [THEN iffD1])
  show "distinct (GetSubscriberRecordsByWantLocked E pm er pl s)"
    using index_ok_distinct [OF sub_invD(5) [OF assms]]
    by (simp add: GetSubscriberRecordsByWantLocked_eq)
  show "distinct (filter (\<lambda>p. accepts E pm er pl (subHeap s p)) (subscribers s))"
    using sub_invD(2) [OF assms] by simp
  show "set (GetSubscriberRecordsByWantLocked E pm er pl s) =
      set (filter (\<lambda>p. accepts E pm er pl (subHeap s p)) (subscribers s))"
    using sub_invD(6) [OF assms] accepts_action
    unfolding GetSubscriberRecordsByWantLocked_eq by (auto simp: set_eq_iff)
qed

lemma lookup_registry:
  assumes "sub_inv s"
  shows "set (map (subHeap s) (GetSubscriberRecordsByWantLocked E pm er pl s)) =
    {r \<in> ran (registry s). accepts E pm er pl r}"
proof -
  have "set (GetSubscriberRecordsByWantLocked E pm er pl s) =
      {p \<in> set (subscribers s). accepts E pm er pl (subHeap s p)}"
    using mset_eq_setD [OF lookup_pointers [OF assms, of E pm er pl]] by simp
  moreover have "ran (registry s) = subHeap s ` set (subscribers s)"
    using registry_iff [OF assms] by (auto simp: ran_def)
  ultimately show ?thesis by auto
qed

section \<open>Compaction\<close>

lemma push_events_index:
  "distinct es \<Longrightarrow>
     at_vec (push_events es p m) e = at_vec m e @ (if e \<in> set es then [p] else [])"
  by (induction es arbitrary: m) auto

lemma push_events_ok:
  "umap_ok m \<Longrightarrow> \<forall>e v. map_of m e = Some v \<longrightarrow> v \<noteq> [] \<Longrightarrow>
     umap_ok (push_events es p m) \<and> (\<forall>e v. map_of (push_events es p m) e = Some v \<longrightarrow> v \<noteq> [])"
proof (induction es arbitrary: m)
  case (Cons a es)
  let ?m = "AList.update a (at_vec m a @ [p]) m"
  have "umap_ok ?m" using Cons.prems(1) by (rule distinct_update)
  moreover have "\<forall>e v. map_of ?m e = Some v \<longrightarrow> v \<noteq> []"
    using Cons.prems(2) by (simp add: update_conv')
  ultimately show ?case unfolding push_events.simps by (rule Cons.IH)
qed simp

lemma index_okI:
  assumes "umap_ok m" "\<forall>e v. map_of m e = Some v \<longrightarrow> v \<noteq> []" "\<forall>e. distinct (at_vec m e)"
  shows "index_ok m"
proof -
  have "distinct v" if "map_of m e = Some v" for e v
    using assms(3) [THEN spec, of e] at_vec_Some [OF that] by simp
  then show ?thesis using assms(1,2) unfolding index_ok_def by blast
qed

lemma compact_loop_step:
  "compact_loop (p # ps) s c =
     compact_loop ps
       (s\<lparr>subHeap := (subHeap s)(subNext s := subHeap s p), subNext := subNext s + 1\<rparr>)
       \<lparr>compactedSubscribers = compactedSubscribers c @ [subNext s],
        compactedEventSubscribers =
          push_events (events_at s p) (subNext s) (compactedEventSubscribers c),
        compactedSubscriberCounts =
          AList.update (pid_at s p) (at_num (compactedSubscriberCounts c) (pid_at s p) + 1)
            (compactedSubscriberCounts c)\<rparr>"
proof -
  have copy: "\<lparr>isFreeze = isFreeze r, subRecordTime = subRecordTime r, freezeTime = freezeTime r,
      eventSubscribeInfo = eventSubscribeInfo r, commonEventListener = commonEventListener r,
      subRecordInfo = subRecordInfo r\<rparr> = r" for r :: EventSubscriberRecord
    by (cases r) simp
  show ?thesis by (simp add: alloc_record_def set_record_def Let_def copy)
qed

declare compact_loop.simps(2) [simp del]

text \<open>The loop in closed form: the copies lie in order above the old end of the heap.\<close>

lemma compact_loop_heap:
  assumes "\<forall>p \<in> set ps. p < subNext s"
  shows "\<exists>h c'. compact_loop ps s c = (s\<lparr>subHeap := h, subNext := subNext s + length ps\<rparr>, c') \<and>
     (\<forall>q < subNext s. h q = subHeap s q) \<and>
     (\<forall>i < length ps. h (subNext s + i) = subHeap s (ps ! i)) \<and>
     compactedSubscribers c' = compactedSubscribers c @ [subNext s..<subNext s + length ps]"
  using assms
proof (induction ps arbitrary: s c)
  case Nil
  then show ?case by (intro exI [of _ "subHeap s"]) simp
next
  case (Cons p ps)
  let ?n = "subNext s"
  let ?s = "s\<lparr>subHeap := (subHeap s)(?n := subHeap s p), subNext := ?n + 1\<rparr>"
  have p: "p < ?n" and ps: "\<forall>q \<in> set ps. q < subNext ?s" using Cons.prems by auto
  obtain c1 where step: "compact_loop (p # ps) s c = compact_loop ps ?s c1"
    and c1: "compactedSubscribers c1 = compactedSubscribers c @ [?n]"
    by (rule that [OF compact_loop_step]) simp
  obtain h c' where IH: "compact_loop ps ?s c1 = (?s\<lparr>subHeap := h, subNext := subNext ?s + length ps\<rparr>, c')"
    "\<forall>q < subNext ?s. h q = subHeap ?s q"
    "\<forall>i < length ps. h (subNext ?s + i) = subHeap ?s (ps ! i)"
    "compactedSubscribers c' = compactedSubscribers c1 @ [subNext ?s..<subNext ?s + length ps]"
    using Cons.IH [OF ps, of c1] by blast
  have h: "h (?n + i) = subHeap s ((p # ps) ! i)" if "i < Suc (length ps)" for i
  proof (cases i)
    case 0
    then show ?thesis using IH(2) by simp
  next
    case (Suc j)
    then have j: "ps ! j \<in> set ps" "j < length ps" using that by auto
    moreover have "ps ! j \<noteq> ?n" using Cons.prems j(1) by fastforce
    ultimately show ?thesis using IH(3) Suc by simp
  qed
  have "compactedSubscribers c' = compactedSubscribers c @ [?n..<?n + length (p # ps)]"
    using IH(4) c1 upt_conv_Cons [of ?n "?n + length (p # ps)"] by simp
  moreover have "h q = subHeap s q" if "q < ?n" for q using IH(2) that by simp
  ultimately show ?case
    unfolding step IH(1) using h by (intro exI [of _ h] exI [of _ c']) simp
qed

lemma shift_set:
  "{n + i |i. i < Suc l \<and> P i} = (if P 0 then {n} else {}) \<union> {Suc n + i |i::nat. i < l \<and> P (Suc i)}"
proof -
  have "x \<in> {n + i |i. i < Suc l \<and> P i} \<longleftrightarrow> x = n \<and> P 0 \<or> (\<exists>j<l. x = n + Suc j \<and> P (Suc j))" for x
    by (auto simp: less_Suc_eq_0_disj)
  then show ?thesis by auto
qed

lemma compact_loop_index:
  assumes "\<forall>p \<in> set ps. p < subNext s" "\<forall>p \<in> set ps. distinct (events_at s p)"
    and "umap_ok (compactedEventSubscribers c)"
    and "\<forall>e v. map_of (compactedEventSubscribers c) e = Some v \<longrightarrow> v \<noteq> []"
    and "\<forall>e. distinct (at_vec (compactedEventSubscribers c) e)"
    and "\<forall>e. \<forall>q \<in> set (at_vec (compactedEventSubscribers c) e). q < subNext s"
  shows "index_ok (compactedEventSubscribers (snd (compact_loop ps s c))) \<and>
    set (at_vec (compactedEventSubscribers (snd (compact_loop ps s c))) e) =
      set (at_vec (compactedEventSubscribers c) e) \<union>
      {subNext s + i |i. i < length ps \<and> e \<in> set (events_at s (ps ! i))}"
  using assms
proof (induction ps arbitrary: s c)
  case Nil
  then show ?case using index_okI by simp
next
  case (Cons p ps)
  let ?n = "subNext s"
  let ?s = "s\<lparr>subHeap := (subHeap s)(?n := subHeap s p), subNext := ?n + 1\<rparr>"
  obtain c1 where step: "compact_loop (p # ps) s c = compact_loop ps ?s c1"
    and c1: "compactedEventSubscribers c1 =
      push_events (events_at s p) ?n (compactedEventSubscribers c)"
    by (rule that [OF compact_loop_step]) simp
  have d: "distinct (events_at s p)" using Cons.prems(2) by simp
  have old: "q \<noteq> ?n" if "q \<in> set ps" for q using Cons.prems(1) that by auto
  have "index_ok (compactedEventSubscribers (snd (compact_loop ps ?s c1))) \<and>
    set (at_vec (compactedEventSubscribers (snd (compact_loop ps ?s c1))) e) =
      set (at_vec (compactedEventSubscribers c1) e) \<union>
      {subNext ?s + i |i. i < length ps \<and> e \<in> set (events_at ?s (ps ! i))}"
  proof (rule Cons.IH)
    show "\<forall>q \<in> set ps. q < subNext ?s" using Cons.prems(1) by auto
    show "\<forall>q \<in> set ps. distinct (events_at ?s q)" using Cons.prems(2) old by simp
    show "umap_ok (compactedEventSubscribers c1)"
      "\<forall>e v. map_of (compactedEventSubscribers c1) e = Some v \<longrightarrow> v \<noteq> []"
      using push_events_ok [OF Cons.prems(3,4)] unfolding c1 by blast+
    show "\<forall>e. distinct (at_vec (compactedEventSubscribers c1) e)"
      using Cons.prems(5,6) d unfolding c1 by (auto simp: push_events_index)
    show "\<forall>e. \<forall>q \<in> set (at_vec (compactedEventSubscribers c1) e). q < subNext ?s"
      using Cons.prems(6) d unfolding c1 by (auto simp: push_events_index less_SucI)
  qed
  moreover have "{subNext ?s + i |i. i < length ps \<and> e \<in> set (events_at ?s (ps ! i))} =
      {Suc ?n + i |i. i < length ps \<and> e \<in> set (events_at s (ps ! i))}"
    using old nth_mem by (fastforce simp: Collect_conv_if)
  ultimately show ?case
    unfolding step
    by (simp add: c1 push_events_index [OF d] shift_set Un_assoc Un_commute Un_left_commute)
qed

lemma compact_loop_counts:
  assumes "\<forall>p \<in> set ps. p < subNext s" "counts_ok (compactedSubscriberCounts c) pids"
  shows "counts_ok (compactedSubscriberCounts (snd (compact_loop ps s c))) (pids @ map (pid_at s) ps)"
  using assms
proof (induction ps arbitrary: s c pids)
  case (Cons p ps)
  let ?s = "s\<lparr>subHeap := (subHeap s)(subNext s := subHeap s p), subNext := subNext s + 1\<rparr>"
  have same: "map (pid_at ?s) ps = map (pid_at s) ps" using Cons.prems(1) by auto
  have "\<forall>q \<in> set ps. q < subNext ?s" using Cons.prems(1) by auto
  from Cons.IH [OF this, of _ "pids @ [pid_at s p]", unfolded same]
  show ?case
    unfolding compact_loop_step using counts_ok_snoc [OF Cons.prems(2)] by simp
qed simp

text \<open>What the compaction leaves: the same records, in the same order, at fresh pointers.\<close>

lemma Compact_fields:
  assumes inv: "sub_inv s"
  defines "t \<equiv> CompactSubscriberDataStructures s"
  shows "subscribers t = [subNext s..<subNext s + length (subscribers s)]"
    and "\<And>i. i < length (subscribers s) \<Longrightarrow> subHeap t (subNext s + i) = subHeap s (subscribers s ! i)"
    and "\<And>q. q < subNext s \<Longrightarrow> subHeap t q = subHeap s q"
    and "subNext t = subNext s + length (subscribers s)"
    and "index_ok (eventSubscribers t)"
    and "\<And>e. set (at_vec (eventSubscribers t) e) =
      {subNext s + i |i. i < length (subscribers s) \<and> e \<in> set (events_at s (subscribers s ! i))}"
    and "counts_ok (subscriberCounts t) (map (pid_at s) (subscribers s))"
    and "hasCompacted t" "frozenEvents t = frozenEvents s" "frozenEventsMap t = frozenEventsMap s"
    and "subLog t = subLog s"
proof -
  let ?c = "\<lparr>compactedSubscribers = [], compactedEventSubscribers = [], compactedSubscriberCounts = []\<rparr>"
  have old: "\<forall>p \<in> set (subscribers s). p < subNext s"
    and dist: "\<forall>p \<in> set (subscribers s). distinct (events_at s p)"
    using sub_invD(1,4) [OF inv] by auto
  obtain h c' where L: "compact_loop (subscribers s) s ?c =
       (s\<lparr>subHeap := h, subNext := subNext s + length (subscribers s)\<rparr>, c')"
    and h: "\<forall>q < subNext s. h q = subHeap s q"
    "\<forall>i < length (subscribers s). h (subNext s + i) = subHeap s (subscribers s ! i)"
    and c': "compactedSubscribers c' = [subNext s..<subNext s + length (subscribers s)]"
    using compact_loop_heap [OF old, of ?c] by auto
  have t: "t = s\<lparr>subHeap := h, subNext := subNext s + length (subscribers s),
      subscribers := compactedSubscribers c', eventSubscribers := compactedEventSubscribers c',
      subscriberCounts := compactedSubscriberCounts c', hasCompacted := True\<rparr>"
    by (simp add: t_def CompactSubscriberDataStructures_def L)
  note I = compact_loop_index [OF old dist, of ?c, simplified, unfolded L]
  have I': "index_ok (compactedEventSubscribers c')"
    "\<And>e. set (at_vec (compactedEventSubscribers c') e) =
      {subNext s + i |i. i < length (subscribers s) \<and> e \<in> set (events_at s (subscribers s ! i))}"
    using I by (simp_all add: at_vec_def)
  have C: "counts_ok (compactedSubscriberCounts c') (map (pid_at s) (subscribers s))"
    using compact_loop_counts [OF old, of ?c "[]"] by (simp add: L counts_ok_def)
  show "subscribers t = [subNext s..<subNext s + length (subscribers s)]"
    and "\<And>i. i < length (subscribers s) \<Longrightarrow> subHeap t (subNext s + i) = subHeap s (subscribers s ! i)"
    and "\<And>q. q < subNext s \<Longrightarrow> subHeap t q = subHeap s q"
    and "subNext t = subNext s + length (subscribers s)"
    and "index_ok (eventSubscribers t)"
    and "\<And>e. set (at_vec (eventSubscribers t) e) =
      {subNext s + i |i. i < length (subscribers s) \<and> e \<in> set (events_at s (subscribers s ! i))}"
    and "counts_ok (subscriberCounts t) (map (pid_at s) (subscribers s))"
    and "hasCompacted t" "frozenEvents t = frozenEvents s" "frozenEventsMap t = frozenEventsMap s"
    and "subLog t = subLog s"
    using h I' C by (simp_all add: t c')
qed

lemma Compact_records:
  assumes "sub_inv s"
  defines "t \<equiv> CompactSubscriberDataStructures s"
  shows "map (subHeap t) (subscribers t) = map (subHeap s) (subscribers s)"
  unfolding t_def Compact_fields(1) [OF assms(1)]
  by (rule nth_equalityI) (simp_all add: Compact_fields(2) [OF assms(1)])

lemma map_comp_records: "map (subHeap t) xs = map (subHeap s) ys \<Longrightarrow>
    map (\<lambda>p. f (subHeap t p)) xs = map (\<lambda>p. f (subHeap s p)) ys"
proof -
  assume eq: "map (subHeap t) xs = map (subHeap s) ys"
  have "map f (map (subHeap t) xs) = map f (map (subHeap s) ys)" by (simp only: eq)
  then show ?thesis unfolding list.map_comp comp_def .
qed

lemma Compact_inv [ces_inv]:
  assumes inv: "sub_inv s"
  shows "sub_inv (CompactSubscriberDataStructures s)"
proof -
  let ?t = "CompactSubscriberDataStructures s"
  note F = Compact_fields [OF inv]
  have mem: "p \<in> set (subscribers ?t) \<Longrightarrow> subHeap ?t p \<in> subHeap s ` set (subscribers s)" for p
    using arg_cong [OF Compact_records [OF inv], of set] by (metis image_eqI list.set_map)
  show ?thesis
  proof (rule sub_invI, goal_cases)
    case (1 p)
    then show ?case by (simp add: F)
  next
    case 2
    show ?case by (simp add: F)
  next
    case 3
    show ?case
      using sub_invD(3) [OF inv] map_comp_records [OF Compact_records [OF inv], of commonEventListener]
      by simp
  next
    case (4 p)
    then show ?case using mem [of p] sub_invD(4) [OF inv] by auto
  next
    case 5
    show ?case by (rule F)
  next
    case (6 e p)
    show ?case
    proof
      assume "p \<in> set (at_vec (eventSubscribers ?t) e)"
      then show "p \<in> set (subscribers ?t) \<and> e \<in> set (events_at ?t p)"
        unfolding F(6) F(1) by (auto simp: F(2))
    next
      assume p: "p \<in> set (subscribers ?t) \<and> e \<in> set (events_at ?t p)"
      then have "p = subNext s + (p - subNext s)" "p - subNext s < length (subscribers s)"
        by (auto simp: F(1))
      then show "p \<in> set (at_vec (eventSubscribers ?t) e)"
        using p F(2) [of "p - subNext s"] unfolding F(6) by auto
    qed
  next
    case 7
    show ?case
      using F(7) map_comp_records [OF Compact_records [OF inv], of "\<lambda>r. pid (subRecordInfo r)"] by simp
  qed
qed

lemma find_listener_records:
  "map (subHeap t) xs = map (subHeap s) ys \<Longrightarrow>
     map_option (subHeap t) (find_listener t l xs) = map_option (subHeap s) (find_listener s l ys)"
proof (induction xs arbitrary: ys)
  case (Cons x xs)
  then obtain y ys' where "ys = y # ys'" by (cases ys) auto
  then show ?case using Cons by auto
qed simp

lemma registry_Compact:
  assumes "sub_inv s"
  shows "registry (CompactSubscriberDataStructures s) = registry s"
  using find_listener_records [OF Compact_records [OF assms]] by (simp add: registry_def fun_eq_iff)

lemma GetSubscriberRecords_inv [ces_inv]:
  "sub_inv s \<Longrightarrow> sub_inv (snd (GetSubscriberRecords E pm er pl s))"
  by (simp add: GetSubscriberRecords_def Let_def Compact_inv)

lemma registry_GetSubscriberRecords:
  "sub_inv s \<Longrightarrow> registry (snd (GetSubscriberRecords E pm er pl s)) = registry s"
  by (simp add: GetSubscriberRecords_def Let_def registry_Compact)

text \<open>Whoever is found is a registered subscriber that accepts the event, exactly once,
  whether or not the call compacted the structures.\<close>

lemma lookup_records:
  assumes inv: "sub_inv s"
    and res_def: "res = GetSubscriberRecords E pm er pl s"
  shows "mset (map (subHeap (snd res)) (fst res)) =
    mset (filter (accepts E pm er pl) (map (subHeap s) (subscribers s)))"
proof -
  let ?t = "snd res"
  have inv': "sub_inv ?t" unfolding res_def using inv by (rule GetSubscriberRecords_inv)
  have same: "map (subHeap ?t) (subscribers ?t) = map (subHeap s) (subscribers s)"
    by (simp add: res_def GetSubscriberRecords_def Let_def Compact_records [OF inv])
  have "fst res = GetSubscriberRecordsByWantLocked E pm er pl ?t"
    by (simp add: res_def GetSubscriberRecords_def Let_def)
  then have "mset (map (subHeap ?t) (fst res)) =
      image_mset (subHeap ?t) (mset (filter (\<lambda>p. accepts E pm er pl (subHeap ?t p)) (subscribers ?t)))"
    using lookup_pointers [OF inv', of E pm er pl] by simp
  also have "\<dots> = mset (filter (accepts E pm er pl) (map (subHeap ?t) (subscribers ?t)))"
    by (simp add: filter_map comp_def)
  finally show ?thesis unfolding same .
qed

lemma GetSubscriberRecords_bounds:
  assumes inv: "sub_inv s"
  defines "t \<equiv> CompactSubscriberDataStructures s"
  shows "p \<in> set (fst (GetSubscriberRecords E pm er pl s)) \<Longrightarrow>
      p < subNext (snd (GetSubscriberRecords E pm er pl s))"
    and "subNext s \<le> subNext (snd (GetSubscriberRecords E pm er pl s))"
    and "q < subNext s \<Longrightarrow> subHeap (snd (GetSubscriberRecords E pm er pl s)) q = subHeap s q"
proof -
  let ?t = "snd (GetSubscriberRecords E pm er pl s)"
  have inv': "sub_inv ?t" using inv by (rule GetSubscriberRecords_inv)
  have "fst (GetSubscriberRecords E pm er pl s) = GetSubscriberRecordsByWantLocked E pm er pl ?t"
    by (simp add: GetSubscriberRecords_def Let_def)
  then have "p \<in> set (subscribers ?t)" if "p \<in> set (fst (GetSubscriberRecords E pm er pl s))"
    using mset_eq_setD [OF lookup_pointers [OF inv', of E pm er pl]] that by auto
  then show "p \<in> set (fst (GetSubscriberRecords E pm er pl s)) \<Longrightarrow> p < subNext ?t"
    using sub_invD(1) [OF inv'] by blast
  show "subNext s \<le> subNext ?t" "q < subNext s \<Longrightarrow> subHeap ?t q = subHeap s q"
    using Compact_fields(3,4) [OF inv] by (simp_all add: GetSubscriberRecords_def Let_def)
qed

lemma frozen_insert_heap [simp]:
  "subHeap (InsertFrozenEvents r er s) = subHeap s"
  "subNext (InsertFrozenEvents r er s) = subNext s"
  "subscribers (InsertFrozenEvents r er s) = subscribers s"
  "subHeap (InsertFrozenEventsMap r er s) = subHeap s"
  "subNext (InsertFrozenEventsMap r er s) = subNext s"
  "subscribers (InsertFrozenEventsMap r er s) = subscribers s"
  by (simp_all add: InsertFrozenEvents_def InsertFrozenEventsMap_def Let_def split: option.split)

lemma frozen_get_heap [simp]:
  "subHeap (snd (GetFrozenEvents u s)) = subHeap s" "subNext (snd (GetFrozenEvents u s)) = subNext s"
  "subHeap (snd (GetFrozenEventsMapByPid q s)) = subHeap s"
  "subNext (snd (GetFrozenEventsMapByPid q s)) = subNext s"
  by (simp_all add: GetFrozenEvents_def GetFrozenEventsMapByPid_def RemoveFrozenEvents_def
    RemoveFrozenEventsMapByPid_def Let_def split: option.split)

section \<open>The step relation\<close>

text \<open>
  Every operation that changes the manager.  A subscription names each event once and comes
  from the process that made the listener, as the client library does it.
\<close>

inductive sub_step :: "sub_state \<Rightarrow> sub_state \<Rightarrow> bool" where
  subscribe:
    "(\<And>info. info_opt = Some info \<Longrightarrow> distinct (ms_events (si_matchingSkills info))) \<Longrightarrow>
     (\<And>l r. listener = Some l \<Longrightarrow> registry s l = Some r \<Longrightarrow> pid rinfo = pid (subRecordInfo r)) \<Longrightarrow>
     sub_step s (snd (InsertSubscriber E cmd info_opt listener time rinfo s))"
| unsubscribe: "sub_step s (snd (RemoveSubscriber listener s))"
| lookup: "sub_step s (snd (GetSubscriberRecords E pm er pl s))"
| freeze_uid: "sub_step s (UpdateFreezeInfo u b t s)"
| freeze_pids: "sub_step s (UpdateFreezeInfo_pids qs b t s)"
| freeze_all: "sub_step s (UpdateAllFreezeInfos b t s)"
| keep_uid: "sub_step s (InsertFrozenEvents r ev s)"
| keep_pid: "sub_step s (InsertFrozenEventsMap r ev s)"
| take_uid: "sub_step s (snd (GetFrozenEvents u s))"
| take_pid: "sub_step s (snd (GetFrozenEventsMapByPid q s))"

inductive_cases sub_stepE: "sub_step s s'"

inductive sub_reachable :: "sub_state \<Rightarrow> bool" where
  sub_start: "sub_reachable (sub_init h)"
| sub_next: "sub_reachable s \<Longrightarrow> sub_step s s' \<Longrightarrow> sub_reachable s'"

lemma sub_step_heap:
  assumes "sub_step s s'" "sub_inv s"
  shows "sub_inv s' \<and> subNext s \<le> subNext s' \<and>
    (\<forall>p < subNext s. listener_at s' p = listener_at s p)"
  using assms
proof (induction rule: sub_step.induct)
  case (subscribe info_opt listener s rinfo E cmd time)
  have "subNext s \<le> subNext (snd (InsertSubscriber E cmd info_opt listener time rinfo s)) \<and>
    (\<forall>p < subNext s. listener_at (snd (InsertSubscriber E cmd info_opt listener time rinfo s)) p =
       listener_at s p)"
  proof (cases "\<exists>info l. info_opt = Some info \<and> listener = Some l \<and> valid_events info")
    case False
    then have "InsertSubscriber E cmd info_opt listener time rinfo s = (None, s)"
      by (intro InsertSubscriber_rejected_args) (cases info_opt; cases listener; auto)
    then show ?thesis by simp
  next
    case True
    then obtain info l where a: "info_opt = Some info" "listener = Some l" and v: "valid_events info"
      by auto
    show ?thesis
    proof (cases "GetSubscriberRecord s l")
      case None
      then show ?thesis
        by (simp add: a InsertSubscriber_new [OF v] Let_def case_prod_unfold
          InsertSubscriberRecordLocked_frame)
    next
      case (Some p)
      then show ?thesis
        by (simp add: a InsertSubscriber_update [OF v] UpdateSubscriberRecordLocked_def Let_def
          ces_frame set_record_def)
    qed
  qed
  then show ?case using subscribe InsertSubscriber_inv by blast
next
  case (unsubscribe s listener)
  have "subHeap (snd (RemoveSubscriber listener s)) = subHeap s \<and>
    subNext (snd (RemoveSubscriber listener s)) = subNext s"
    by (auto simp: RemoveSubscriber_def RemoveSubscriberRecordLocked_def Let_def ces_frame log_sub_def
      split: option.split)
  then show ?case using unsubscribe by (simp add: RemoveSubscriber_inv)
next
  case (lookup s E pm er pl)
  then show ?case by (simp add: GetSubscriberRecords_inv GetSubscriberRecords_bounds)
next
  case (freeze_uid s u b t)
  then show ?case
    using UpdateFreezeInfo_loop_heap [OF sub_invD(2) [OF freeze_uid]] freeze_inv
    by (auto simp: UpdateFreezeInfo_def ces_frame freeze_record_def)
next
  case (freeze_pids s qs b t)
  then show ?case
    using UpdateFreezeInfo_loop_heap [OF sub_invD(2) [OF freeze_pids]] freeze_inv
    by (auto simp: UpdateFreezeInfo_pids_def ces_frame freeze_record_def)
next
  case (freeze_all s b t)
  then show ?case
    using UpdateFreezeInfo_loop_heap [OF sub_invD(2) [OF freeze_all]] freeze_inv
    by (auto simp: UpdateAllFreezeInfos_def ces_frame freeze_record_def)
qed (simp_all add: ces_frame)

lemma sub_reachable_inv: "sub_reachable s \<Longrightarrow> sub_inv s"
  by (induction rule: sub_reachable.induct) (auto simp: sub_inv_init dest: sub_step_heap)

end
