(* ===== verification/Control_Manager.thy ===== *)
theory Control_Manager
  imports Subscriber_Registry
begin

text \<open>
  \<open>CommonEventControlManager\<close> (\<open>common_event_control_manager.cpp\<close>): delivery of published
  events.  An unordered event is delivered to all its receivers by one task; an ordered
  event is delivered to one receiver at a time, in the order of their priorities, and the
  next one gets it when the current one has finished or timed out.

  The state holds the two queues of event records (pointers into \<open>ordHeap\<close>), the tasks
  submitted to the three \<open>ffrt\<close> queues that have not run yet, and what the manager has sent
  (\<open>ctlLog\<close>).  \<open>orderedTasks\<close> are the pending calls of \<open>ProcessNextOrderedEvent\<close> with their
  argument, \<open>timeoutTasks\<close> counts the delayed calls of \<open>CurrentOrderedEventTimeout(true)\<close>.
  A task runs as one step: the serial queues run one task at a time, and what IPC threads
  do in between is a step of its own.  Each step reads the clock once.  The subscriber manager
  is the field \<open>cs_subs\<close>, and \<open>cs_payloads\<close> holds the event data and publish info that all
  copies of an event record share.
\<close>

section \<open>State\<close>

datatype immediate_task =
    NotifyTask ord_ptr
  | FreezeTask EventSubscriberRecord CommonEventRecord

datatype ctl_effect =
    NotifyEvent remote CommonEventData bool bool
  | AddPermissionUsedRecord token_id string
  | OrderedEventProcTimeout int32 string pid_t int32 string

record ctl_state =
  cs_subs :: sub_state
  cs_payloads :: "payload_ptr \<Rightarrow> payload"
  ordHeap :: "ord_ptr \<Rightarrow> OrderedEventRecord"
  ordNext :: ord_ptr
  orderedEventQueue :: "ord_ptr list"
  unorderedEventQueue :: "ord_ptr list"
  pendingTimeoutMessage :: bool
  scheduled :: bool
  orderedTasks :: "bool list"
  timeoutTasks :: nat
  unorderedQueue :: "ord_ptr list"
  unorderedImmediateQueue :: "immediate_task list"
  unorderedEventLogCache :: "(string \<times> int64 \<times> nat) list"
  ctlLog :: "ctl_effect list"

abbreviation sub_rec :: "ctl_state \<Rightarrow> sub_ptr \<Rightarrow> EventSubscriberRecord" where
  "sub_rec c p \<equiv> subHeap (cs_subs c) p"

abbreviation payload_of :: "ctl_state \<Rightarrow> ord_ptr \<Rightarrow> payload" where
  "payload_of c o' \<equiv> cs_payloads c (payloadPtr (ordHeap c o'))"

definition upd_ord :: "ord_ptr \<Rightarrow> (OrderedEventRecord \<Rightarrow> OrderedEventRecord) \<Rightarrow> ctl_state \<Rightarrow> ctl_state"
  where
  "upd_ord p f c = c\<lparr>ordHeap := (ordHeap c)(p := f (ordHeap c p))\<rparr>"

definition log_ctl :: "ctl_effect list \<Rightarrow> ctl_state \<Rightarrow> ctl_state" where
  "log_ctl es c = c\<lparr>ctlLog := ctlLog c @ es\<rparr>"

definition upd_subs :: "(sub_state \<Rightarrow> sub_state) \<Rightarrow> ctl_state \<Rightarrow> ctl_state" where
  "upd_subs f c = c\<lparr>cs_subs := f (cs_subs c)\<rparr>"

definition TIMEOUT_MS :: int64 where "TIMEOUT_MS = 10000"
definition DOUBLE_FACTOR :: int where "DOUBLE_FACTOR = 2"
definition EVENT_LOG_EVENT_LIMIT_INTERVALS :: int64 where "EVENT_LOG_EVENT_LIMIT_INTERVALS = 50"

definition permission_used ::
  "env \<Rightarrow> (string, Permission) umap \<Rightarrow> token_id \<Rightarrow> string \<Rightarrow> ctl_state \<Rightarrow> ctl_state" where
  "permission_used E pm t e c =
     log_ctl (map (\<lambda>(t', p). AddPermissionUsedRecord t' p) (RecordSensitivePermissionUsage E pm t e)) c"

section \<open>Unordered events\<close>

definition HandleFrozenUnorderedSubscriber ::
  "ord_ptr \<Rightarrow> sub_ptr \<Rightarrow> nat \<Rightarrow> ctl_state \<Rightarrow> ctl_state" where
  "HandleFrozenUnorderedSubscriber o' p index c =
     (let c1 = upd_ord o' (\<lambda>r. r\<lparr>deliveryState := (deliveryState r)[index := SKIPPED]\<rparr>) c;
          er = slice (ordHeap c1 o')
      in upd_subs (InsertFrozenEventsMap (Some p) er) (upd_subs (InsertFrozenEvents (Some p) er) c1))"

text \<open>The result and, in the order of the reference arguments, what is added to the numbers of
  successes, failures and frozen receivers.\<close>

definition NotifySingleUnorderedSubscriber ::
  "env \<Rightarrow> (string, Permission) umap \<Rightarrow> ord_ptr \<Rightarrow> sub_ptr \<Rightarrow> nat \<Rightarrow> ctl_state \<Rightarrow>
     (bool \<times> nat \<times> nat \<times> nat) \<times> ctl_state" where
  "NotifySingleUnorderedSubscriber E pm o' p index c =
     (let sub = sub_rec c p; pl = payload_of c o'
      in if isFreeze sub then ((True, 0, 0, 1), HandleFrozenUnorderedSubscriber o' p index c)
         else if \<not> ipc_is_receiver E (commonEventListener sub)
           then ((False, 0, 1, 0),
                 upd_ord o' (\<lambda>r. r\<lparr>deliveryState := (deliveryState r)[index := SKIPPED]\<rparr>) c)
         else
           (let c1 = upd_ord o' (\<lambda>r. r\<lparr>deliveryState := (deliveryState r)[index := DELIVERED],
                                     state := event_code RECEIVING\<rparr>) c;
                result = ipc_notify E (commonEventListener sub) (commonEventData pl) False
                           (pi_sticky (publishInfo pl));
                c2 = log_ctl [NotifyEvent (commonEventListener sub) (commonEventData pl) False
                                (pi_sticky (publishInfo pl))] c1
            in if result \<noteq> ERR_OK
               then ((False, 0, 1, 0), upd_ord o' (\<lambda>r. r\<lparr>state := delivery_code SKIPPED\<rparr>) c2)
               else ((True, 1, 0, 0),
                     permission_used E pm (callerToken (subRecordInfo sub)) (action_of pl)
                       (upd_ord o' (\<lambda>r. r\<lparr>state := event_code RECEIVED\<rparr>) c2))))"

fun NotifyUnordered_loop ::
  "env \<Rightarrow> (string, Permission) umap \<Rightarrow> ord_ptr \<Rightarrow> sub_ptr list \<Rightarrow> ctl_state \<Rightarrow> ctl_state" where
  "NotifyUnordered_loop E pm o' [] c = c"
| "NotifyUnordered_loop E pm o' (p # ps) c =
     (let index = nextReceiver (ordHeap c o');
          c1 = upd_ord o' (\<lambda>r. r\<lparr>nextReceiver := index + 1\<rparr>) c
      in NotifyUnordered_loop E pm o' ps (snd (NotifySingleUnorderedSubscriber E pm o' p index c1)))"

text \<open>\<open>CanLogUnorderedEvent\<close>: an event is logged once per interval; the entries of other
  events that are past their interval leave the cache.\<close>

fun log_cache_loop ::
  "string \<Rightarrow> int64 \<Rightarrow> (string \<times> int64 \<times> nat) list \<Rightarrow>
     (string \<times> int64 \<times> nat) list \<times> bool \<times> bool" where
  "log_cache_loop event now [] = ([], False, False)"
| "log_cache_loop event now ((e, lastTime, missing) # items) =
     (let (items', canPrint, findEvent) = log_cache_loop event now items
      in if now - lastTime \<ge> EVENT_LOG_EVENT_LIMIT_INTERVALS
         then (if e = event then ((event, now, 0) # items', True, True)
               else (items', canPrint, findEvent))
         else if e \<noteq> event then ((e, lastTime, missing) # items', canPrint, findEvent)
         else ((e, lastTime, missing + 1) # items', canPrint, True))"

definition CanLogUnorderedEvent :: "string \<Rightarrow> int64 \<Rightarrow> ctl_state \<Rightarrow> bool \<times> ctl_state" where
  "CanLogUnorderedEvent event now c =
     (let (cache, canPrint, findEvent) = log_cache_loop event now (unorderedEventLogCache c)
      in if \<not> findEvent then (True, c\<lparr>unorderedEventLogCache := cache @ [(event, now, 0)]\<rparr>)
         else (canPrint, c\<lparr>unorderedEventLogCache := cache\<rparr>))"

definition NotifyUnorderedEventLocked ::
  "env \<Rightarrow> (string, Permission) umap \<Rightarrow> int64 \<Rightarrow> ord_ptr \<Rightarrow> ctl_state \<Rightarrow> ctl_state" where
  "NotifyUnorderedEventLocked E pm now o' c =
     (let c1 = NotifyUnordered_loop E pm o' (receivers (ordHeap c o')) c
      in snd (CanLogUnorderedEvent (action_of (payload_of c1 o')) now c1))"

definition NotifyUnorderedEvent ::
  "env \<Rightarrow> (string, Permission) umap \<Rightarrow> int64 \<Rightarrow> ord_ptr option \<Rightarrow> ctl_state \<Rightarrow> bool \<times> ctl_state" where
  "NotifyUnorderedEvent E pm now eventRecord c =
     (case eventRecord of
        None \<Rightarrow> (False, c)
      | Some o' \<Rightarrow>
          (let c1 = NotifyUnorderedEventLocked E pm now o' c
           in (True, c1\<lparr>unorderedEventQueue := remove1 o' (unorderedEventQueue c1)\<rparr>)))"

definition EnqueueUnorderedRecord :: "ord_ptr option \<Rightarrow> ctl_state \<Rightarrow> bool \<times> ctl_state" where
  "EnqueueUnorderedRecord r c =
     (case r of
        None \<Rightarrow> (False, c)
      | Some o' \<Rightarrow> (True, c\<lparr>unorderedEventQueue := unorderedEventQueue c @ [o']\<rparr>))"

definition alloc_ord :: "OrderedEventRecord \<Rightarrow> ctl_state \<Rightarrow> ord_ptr \<times> ctl_state" where
  "alloc_ord r c = (ordNext c, c\<lparr>ordHeap := (ordHeap c)(ordNext c := r), ordNext := ordNext c + 1\<rparr>)"

definition ProcessUnorderedEvent ::
  "env \<Rightarrow> (string, Permission) umap \<Rightarrow> CommonEventRecord \<Rightarrow> sub_ptr option \<Rightarrow> ctl_state \<Rightarrow>
     bool \<times> ctl_state" where
  "ProcessUnorderedEvent E pm er subscriberRecord c =
     (let (recs, subs') = (case subscriberRecord of
              Some p \<Rightarrow> ([p], cs_subs c)
            | None \<Rightarrow> GetSubscriberRecords E pm er (cs_payloads c (payloadPtr er)) (cs_subs c));
          r = (FillCommonEventRecord er)\<lparr>receivers := recs,
                deliveryState := replicate (length recs) PENDING\<rparr>;
          (o', c1) = alloc_ord r (c\<lparr>cs_subs := subs'\<rparr>);
          (_, c2) = EnqueueUnorderedRecord (Some o') c1
      in (False,
          if isSystemEvent er
          then c2\<lparr>unorderedImmediateQueue := unorderedImmediateQueue c2 @ [NotifyTask o']\<rparr>
          else c2\<lparr>unorderedQueue := unorderedQueue c2 @ [o']\<rparr>))"

definition PublishStickyCommonEvent_ctl ::
  "env \<Rightarrow> (string, Permission) umap \<Rightarrow> CommonEventRecord \<Rightarrow> sub_ptr option \<Rightarrow> ctl_state \<Rightarrow>
     bool \<times> ctl_state" where
  "PublishStickyCommonEvent_ctl E pm er subscriberRecord c =
     (case subscriberRecord of
        None \<Rightarrow> (False, c)
      | Some p \<Rightarrow> ProcessUnorderedEvent E pm er (Some p) c)"

section \<open>Frozen events\<close>

definition NotifyFreezeEvents ::
  "env \<Rightarrow> (string, Permission) umap \<Rightarrow> EventSubscriberRecord \<Rightarrow> CommonEventRecord \<Rightarrow> ctl_state \<Rightarrow>
     bool \<times> ctl_state" where
  "NotifyFreezeEvents E pm sub er c =
     (if \<not> ipc_is_receiver E (commonEventListener sub) then (False, c)
      else
        (let pl = cs_payloads c (payloadPtr er);
             c1 = log_ctl [NotifyEvent (commonEventListener sub) (commonEventData pl) False
                             (pi_sticky (publishInfo pl))] c
         in (True, permission_used E pm (callerToken (subRecordInfo sub)) (action_of pl) c1)))"

definition PublishFrozenEventsInner :: "FrozenRecords \<Rightarrow> ctl_state \<Rightarrow> ctl_state" where
  "PublishFrozenEventsInner frozenRecords c =
     c\<lparr>unorderedImmediateQueue := unorderedImmediateQueue c @
         concat (map (\<lambda>(l, sub, ers). map (\<lambda>er. FreezeTask sub er) ers) frozenRecords)\<rparr>"

definition PublishFreezeCommonEvent :: "uid_t \<Rightarrow> ctl_state \<Rightarrow> bool \<times> ctl_state" where
  "PublishFreezeCommonEvent u c =
     (let (records, subs') = GetFrozenEvents u (cs_subs c)
      in (True, PublishFrozenEventsInner records (c\<lparr>cs_subs := subs'\<rparr>)))"

fun PublishFreeze_pids :: "pid_t list \<Rightarrow> ctl_state \<Rightarrow> ctl_state" where
  "PublishFreeze_pids [] c = c"
| "PublishFreeze_pids (q # qs) c =
     (let (records, subs') = GetFrozenEventsMapByPid q (cs_subs c)
      in PublishFreeze_pids qs (PublishFrozenEventsInner records (c\<lparr>cs_subs := subs'\<rparr>)))"

text \<open>\<open>pidList\<close> is a \<open>std::set\<close>: it is given by its sorted elements.\<close>

definition PublishFreezeCommonEvent_pids :: "pid_t list \<Rightarrow> ctl_state \<Rightarrow> bool \<times> ctl_state" where
  "PublishFreezeCommonEvent_pids pidList c = (True, PublishFreeze_pids pidList c)"

definition PublishAllFreezeCommonEvents :: "ctl_state \<Rightarrow> bool \<times> ctl_state" where
  "PublishAllFreezeCommonEvents c =
     (let c1 = foldl (\<lambda>c (u, records). PublishFrozenEventsInner records c) c
                 (GetAllFrozenEvents (cs_subs c));
          c2 = foldl (\<lambda>c (q, records). PublishFrozenEventsInner records c) c1
                 (GetAllFrozenEventsMap (cs_subs c1))
      in (True, c2))"

section \<open>Ordered events\<close>

definition GetMatchingOrderedReceiver :: "remote option \<Rightarrow> ctl_state \<Rightarrow> ord_ptr option" where
  "GetMatchingOrderedReceiver proxy c =
     (case orderedEventQueue c of
        [] \<Rightarrow> None
      | o' # _ \<Rightarrow> if curReceiver (ordHeap c o') = proxy then Some o' else None)"

definition ScheduleOrderedCommonEvent :: "ctl_state \<Rightarrow> bool \<times> ctl_state" where
  "ScheduleOrderedCommonEvent c =
     (if scheduled c then (True, c)
      else (True, c\<lparr>scheduled := True, orderedTasks := orderedTasks c @ [True]\<rparr>))"

definition EnqueueOrderedRecord :: "ord_ptr option \<Rightarrow> ctl_state \<Rightarrow> bool \<times> ctl_state" where
  "EnqueueOrderedRecord r c =
     (case r of
        None \<Rightarrow> (False, c)
      | Some o' \<Rightarrow> (True, c\<lparr>orderedEventQueue := orderedEventQueue c @ [o']\<rparr>))"

text \<open>\<open>std::sort\<close> leaves the order of receivers of equal priority open; here they keep the
  order of the index.\<close>

definition sort_receivers :: "sub_state \<Rightarrow> sub_ptr list \<Rightarrow> sub_ptr list" where
  "sort_receivers s ps = sort_key (\<lambda>p. - si_priority (eventSubscribeInfo (subHeap s p))) ps"

definition ProcessOrderedEvent ::
  "env \<Rightarrow> (string, Permission) umap \<Rightarrow> CommonEventRecord \<Rightarrow> remote option \<Rightarrow> ctl_state \<Rightarrow>
     bool \<times> ctl_state" where
  "ProcessOrderedEvent E pm er listener c =
     (let (found, subs') =
            GetSubscriberRecords E pm er (cs_payloads c (payloadPtr er)) (cs_subs c);
          recs = sort_receivers subs' found;
          r = (FillCommonEventRecord er)\<lparr>resultTo := listener, state := event_code IDLE,
                nextReceiver := 0, receivers := recs,
                deliveryState := replicate (length recs) PENDING\<rparr>;
          (o', c1) = alloc_ord r (c\<lparr>cs_subs := subs'\<rparr>);
          (_, c2) = EnqueueOrderedRecord (Some o') c1
      in ScheduleOrderedCommonEvent c2)"

definition PublishCommonEvent_ctl ::
  "env \<Rightarrow> (string, Permission) umap \<Rightarrow> CommonEventRecord \<Rightarrow> remote option \<Rightarrow> ctl_state \<Rightarrow>
     bool \<times> ctl_state" where
  "PublishCommonEvent_ctl E pm er listener c =
     (if \<not> pi_ordered (publishInfo (cs_payloads c (payloadPtr er)))
      then ProcessUnorderedEvent E pm er None c
      else ProcessOrderedEvent E pm er listener c)"

subsection \<open>Timeouts\<close>

definition SetTimeout :: "ctl_state \<Rightarrow> ctl_state" where
  "SetTimeout c =
     (if \<not> pendingTimeoutMessage c
      then c\<lparr>pendingTimeoutMessage := True, timeoutTasks := timeoutTasks c + 1\<rparr> else c)"

definition CancelTimeout :: "ctl_state \<Rightarrow> ctl_state" where
  "CancelTimeout c =
     (if pendingTimeoutMessage c
      then c\<lparr>pendingTimeoutMessage := False, timeoutTasks := timeoutTasks c - 1\<rparr> else c)"

definition HandleTimeoutReceiver :: "ord_ptr \<Rightarrow> int64 \<Rightarrow> ctl_state \<Rightarrow> ctl_state" where
  "HandleTimeoutReceiver o' now c =
     (let c1 = upd_ord o' (\<lambda>r. r\<lparr>receiverTime := now\<rparr>) c;
          r = ordHeap c1 o';
          c2 = (if nextReceiver r > 0
                then let sub = sub_rec c1 (receivers r ! (nextReceiver r - 1));
                         c1' = log_ctl [OrderedEventProcTimeout
                           (si_userId (eventSubscribeInfo sub)) (bundleName (subRecordInfo sub))
                           (pid (subRecordInfo sub)) (to_int32 (uid (subRecordInfo sub)))
                           (action_of (payload_of c1 o'))] c1
                     in upd_ord o' (\<lambda>r. r\<lparr>deliveryState :=
                          (deliveryState r)[nextReceiver r - 1 := TIMEOUT]\<rparr>) c1'
                else c1)
      in upd_ord o' (\<lambda>r. r\<lparr>state := event_code IDLE, curReceiver := None,
            resultAbort := resultAbort r\<rparr>) c2)"

text \<open>The comparison is done on \<open>uint64_t\<close>: \<open>TIMEOUT * DOUBLE\<close> is an \<open>int64_t\<close> that the
  number of receivers converts.\<close>

definition CheckTimeoutForceReceive :: "int64 \<Rightarrow> ord_ptr \<Rightarrow> ctl_state \<Rightarrow> bool \<times> ctl_state" where
  "CheckTimeoutForceReceive now o' c =
     (let r = ordHeap c o'; numReceivers = length (receivers r); nowSysTime = word_of_int now :: uint64
      in if dispatchTime r > 0
         then (if numReceivers > 0 \<and>
                  nowSysTime > word_of_int (dispatchTime r) +
                    word_of_int (DOUBLE_FACTOR * TIMEOUT_MS) * of_nat numReceivers
               then (True, upd_ord o' (\<lambda>r. r\<lparr>state := event_code IDLE\<rparr>)
                             (HandleTimeoutReceiver o' now c))
               else (False, c))
         else (False, c))"

subsection \<open>The queue\<close>

function ProcessOrderedEventQueueLocked ::
  "int64 \<Rightarrow> ord_ptr list \<Rightarrow> ctl_state \<Rightarrow> ord_ptr option \<times> ord_ptr list \<times> ctl_state" where
  "ProcessOrderedEventQueueLocked now removed c =
     (case orderedEventQueue c of
        [] \<Rightarrow> (None, removed, c)
      | sp # rest \<Rightarrow>
          (let (forceReceive, c1) = CheckTimeoutForceReceive now sp c; r = ordHeap c1 sp
           in if state r \<noteq> event_code IDLE then (None, removed, c1)
              else if receivers r = [] \<or> nextReceiver r \<ge> length (receivers r) \<or> resultAbort r \<or>
                      forceReceive
              then ProcessOrderedEventQueueLocked now (removed @ [sp])
                     ((CancelTimeout c1)\<lparr>orderedEventQueue := rest\<rparr>)
              else (Some sp, removed, c1)))"
  by pat_completeness auto

termination
  by (relation "measure (\<lambda>(now, removed, c). length (orderedEventQueue c))") auto

definition HandleFinalSubscriber :: "env \<Rightarrow> ord_ptr \<Rightarrow> ctl_state \<Rightarrow> bool \<times> ctl_state" where
  "HandleFinalSubscriber E o' c =
     (case resultTo (ordHeap c o') of
        None \<Rightarrow> (True, c)
      | Some l \<Rightarrow>
          if \<not> ipc_is_receiver E l then (False, c)
          else (let pl = payload_of c o';
                    c1 = log_ctl [NotifyEvent l (commonEventData pl) True (pi_sticky (publishInfo pl))] c
                in (True, upd_ord o' (\<lambda>r. r\<lparr>resultTo := None\<rparr>) c1)))"

definition PrepareNextReceiverRecord :: "int64 \<Rightarrow> ord_ptr \<Rightarrow> ctl_state \<Rightarrow> nat \<times> ctl_state" where
  "PrepareNextReceiverRecord now o' c =
     (let recIdx = nextReceiver (ordHeap c o')
      in (recIdx, upd_ord o' (\<lambda>r. r\<lparr>nextReceiver := recIdx + 1, receiverTime := now,
            dispatchTime := (if recIdx = 0 then now else dispatchTime r)\<rparr>) c))"

definition NotifyFrozenSubscriber :: "ord_ptr \<Rightarrow> nat \<Rightarrow> ctl_state \<Rightarrow> bool \<times> ctl_state" where
  "NotifyFrozenSubscriber o' index c =
     (let p = receivers (ordHeap c o') ! index; er = slice (ordHeap c o');
          c1 = upd_subs (InsertFrozenEventsMap (Some p) er)
                 (upd_subs (InsertFrozenEvents (Some p) er) c)
      in (True, upd_ord o' (\<lambda>r. r\<lparr>deliveryState := (deliveryState r)[index := SKIPPED],
                                 curReceiver := None\<rparr>) c1))"

definition PrepareOrderedNotify ::
  "env \<Rightarrow> ord_ptr \<Rightarrow> nat \<Rightarrow> ctl_state \<Rightarrow> remote option \<times> ctl_state" where
  "PrepareOrderedNotify E o' index c =
     (let l = commonEventListener (sub_rec c (receivers (ordHeap c o') ! index));
          c1 = upd_ord o' (\<lambda>r. r\<lparr>deliveryState := (deliveryState r)[index := DELIVERED],
                 curReceiver := Some l\<rparr>) c
      in if \<not> ipc_is_receiver E l then (None, upd_ord o' (\<lambda>r. r\<lparr>curReceiver := None\<rparr>) c1)
         else (Some l, upd_ord o' (\<lambda>r. r\<lparr>state := event_code RECEIVING\<rparr>) c1))"

definition HandleOrderedNotifyResult :: "ord_ptr \<Rightarrow> nat \<Rightarrow> err_code \<Rightarrow> ctl_state \<Rightarrow> bool \<times> ctl_state"
  where
  "HandleOrderedNotifyResult o' index result c =
     (if result \<noteq> ERR_OK
      then (False, upd_ord o' (\<lambda>r. r\<lparr>state := delivery_code SKIPPED, curReceiver := None\<rparr>) c)
      else (True, upd_ord o' (\<lambda>r. r\<lparr>state := event_code RECEIVED\<rparr>) c))"

definition NotifyOrderedEvent ::
  "env \<Rightarrow> (string, Permission) umap \<Rightarrow> ord_ptr option \<Rightarrow> nat \<Rightarrow> ctl_state \<Rightarrow> bool \<times> ctl_state" where
  "NotifyOrderedEvent E pm eventRecordPtr index c =
     (case eventRecordPtr of
        None \<Rightarrow> (False, c)
      | Some o' \<Rightarrow>
          if index \<ge> length (receivers (ordHeap c o')) then (False, c)
          else if isFreeze (sub_rec c (receivers (ordHeap c o') ! index))
            then NotifyFrozenSubscriber o' index c
          else
            (case PrepareOrderedNotify E o' index c of
               (None, c1) \<Rightarrow> (False, c1)
             | (Some l, c1) \<Rightarrow>
                 (let pl = payload_of c1 o';
                      result = ipc_notify E l (commonEventData pl) True (pi_sticky (publishInfo pl));
                      c2 = log_ctl [NotifyEvent l (commonEventData pl) True
                                      (pi_sticky (publishInfo pl))] c1;
                      (ok, c3) = HandleOrderedNotifyResult o' index result c2
                  in if \<not> ok then (False, c3)
                     else (True, permission_used E pm
                             (callerToken (subRecordInfo (sub_rec c3 (receivers (ordHeap c3 o') ! index))))
                             (action_of pl) c3))))"

definition ProcessNextOrderedEvent ::
  "env \<Rightarrow> (string, Permission) umap \<Rightarrow> int64 \<Rightarrow> bool \<Rightarrow> ctl_state \<Rightarrow> ctl_state" where
  "ProcessNextOrderedEvent E pm now isSendMsg c =
     (let c0 = (if isSendMsg then c\<lparr>scheduled := False\<rparr> else c);
          (sp, removed, c1) = ProcessOrderedEventQueueLocked now [] c0;
          c2 = foldl (\<lambda>c o'. snd (HandleFinalSubscriber E o' c)) c1 removed
      in case sp of
           None \<Rightarrow> c2
         | Some o' \<Rightarrow>
             (let (recIdx, c3) = PrepareNextReceiverRecord now o' c2;
                  c4 = (if \<not> pendingTimeoutMessage c3 then SetTimeout c3 else c3);
                  c5 = snd (NotifyOrderedEvent E pm (Some o') recIdx c4)
              in if curReceiver (ordHeap c5 o') = None
                 then snd (ScheduleOrderedCommonEvent
                        (upd_ord o' (\<lambda>r. r\<lparr>state := event_code IDLE\<rparr>) c5))
                 else c5))"

definition GetFrontOrderedRecord :: "ctl_state \<Rightarrow> ord_ptr option" where
  "GetFrontOrderedRecord c = (case orderedEventQueue c of [] \<Rightarrow> None | o' # _ \<Rightarrow> Some o')"

definition CheckAndRescheduleTimeout :: "ord_ptr \<Rightarrow> int64 \<Rightarrow> ctl_state \<Rightarrow> bool \<times> ctl_state" where
  "CheckAndRescheduleTimeout o' now c =
     (let timeoutTime = receiverTime (ordHeap c o') + TIMEOUT_MS
      in if timeoutTime > now then (True, SetTimeout c) else (False, c))"

definition CurrentOrderedEventTimeout :: "int64 \<Rightarrow> bool \<Rightarrow> ctl_state \<Rightarrow> ctl_state" where
  "CurrentOrderedEventTimeout now isFromMsg c =
     (let c0 = (if isFromMsg then c\<lparr>pendingTimeoutMessage := False\<rparr> else c)
      in case GetFrontOrderedRecord c0 of
           None \<Rightarrow> c0
         | Some o' \<Rightarrow>
             (let (again, c1) = (if isFromMsg then CheckAndRescheduleTimeout o' now c0 else (False, c0))
              in if again then c1
                 else snd (ScheduleOrderedCommonEvent (HandleTimeoutReceiver o' now c1))))"

subsection \<open>Results of receivers\<close>

definition FinishReceiver_ctl ::
  "ord_ptr option \<Rightarrow> int32 \<Rightarrow> string \<Rightarrow> bool \<Rightarrow> ctl_state \<Rightarrow> bool \<times> ctl_state" where
  "FinishReceiver_ctl recordPtr code receiverData abortEvent c =
     (case recordPtr of
        None \<Rightarrow> (False, c)
      | Some o' \<Rightarrow>
          (let st = state (ordHeap c o');
               c1 = upd_ord o' (\<lambda>r. r\<lparr>state := event_code IDLE, curReceiver := None\<rparr>) c;
               q = payloadPtr (ordHeap c1 o');
               pl = cs_payloads c1 q;
               c2 = c1\<lparr>cs_payloads := (cs_payloads c1)(q := pl\<lparr>commonEventData :=
                      (commonEventData pl)\<lparr>cd_code := code, cd_data := receiverData\<rparr>\<rparr>)\<rparr>;
               c3 = upd_ord o' (\<lambda>r. r\<lparr>resultAbort := abortEvent\<rparr>) c2
           in (st = event_code RECEIVED, c3)))"

definition FinishReceiverAction ::
  "ord_ptr option \<Rightarrow> int32 \<Rightarrow> string \<Rightarrow> bool \<Rightarrow> ctl_state \<Rightarrow> bool \<times> ctl_state" where
  "FinishReceiverAction recordPtr code receiverData abortEvent c =
     (case recordPtr of
        None \<Rightarrow> (False, c)
      | Some o' \<Rightarrow>
          (let (doNext, c1) = FinishReceiver_ctl (Some o') code receiverData abortEvent c
           in if doNext then (True, c1\<lparr>orderedTasks := orderedTasks c1 @ [False]\<rparr>) else (True, c1)))"

section \<open>Queries\<close>

definition record_matches :: "ctl_state \<Rightarrow> string \<Rightarrow> int32 \<Rightarrow> ord_ptr \<Rightarrow> bool" where
  "record_matches c event user o' \<longleftrightarrow>
     (event = [] \<or> action_of (payload_of c o') = event) \<and>
     (user = ALL_USER \<or> userId (ordHeap c o') = user)"

definition GetUnorderedEventRecords :: "string \<Rightarrow> int32 \<Rightarrow> ctl_state \<Rightarrow> ord_ptr list" where
  "GetUnorderedEventRecords event user c =
     (if event = [] \<and> user = ALL_USER then unorderedEventQueue c
      else if event = [] then filter (\<lambda>o'. userId (ordHeap c o') = user) (unorderedEventQueue c)
      else if user = ALL_USER
        then filter (\<lambda>o'. action_of (payload_of c o') = event) (unorderedEventQueue c)
      else filter (\<lambda>o'. action_of (payload_of c o') = event \<and> userId (ordHeap c o') = user)
             (unorderedEventQueue c))"

definition GetOrderedEventRecords :: "string \<Rightarrow> int32 \<Rightarrow> ctl_state \<Rightarrow> ord_ptr list" where
  "GetOrderedEventRecords event user c =
     (if event = [] \<and> user = ALL_USER then orderedEventQueue c
      else if event = [] then filter (\<lambda>o'. userId (ordHeap c o') = user) (orderedEventQueue c)
      else if user = ALL_USER
        then filter (\<lambda>o'. action_of (payload_of c o') = event) (orderedEventQueue c)
      else filter (\<lambda>o'. action_of (payload_of c o') = event \<and> userId (ordHeap c o') = user)
             (orderedEventQueue c))"

lemma GetEventRecords_filter:
  "GetUnorderedEventRecords event user c = filter (record_matches c event user) (unorderedEventQueue c)"
  "GetOrderedEventRecords event user c = filter (record_matches c event user) (orderedEventQueue c)"
  by (auto simp: GetUnorderedEventRecords_def GetOrderedEventRecords_def record_matches_def
    intro!: filter_cong)

end
