(* ===== verification/Control_Invariant.thy ===== *)
theory Control_Invariant
  imports Control_Manager
begin

text \<open>
  The protocol of ordered events as a step relation over the handlers of the control manager,
  and its invariant: the records in the queues are well formed, at most one timer and one
  scheduled task are pending, only the head of the queue has been dispatched, and a non-empty
  queue is never left without a task or a receiver that somebody waits for.
\<close>

section \<open>Field access\<close>

lemma upd_ord_simps [simp]:
  "cs_subs (upd_ord p f c) = cs_subs c"
  "cs_payloads (upd_ord p f c) = cs_payloads c"
  "ordHeap (upd_ord p f c) = (ordHeap c)(p := f (ordHeap c p))"
  "ordNext (upd_ord p f c) = ordNext c"
  "orderedEventQueue (upd_ord p f c) = orderedEventQueue c"
  "unorderedEventQueue (upd_ord p f c) = unorderedEventQueue c"
  "pendingTimeoutMessage (upd_ord p f c) = pendingTimeoutMessage c"
  "scheduled (upd_ord p f c) = scheduled c"
  "orderedTasks (upd_ord p f c) = orderedTasks c"
  "timeoutTasks (upd_ord p f c) = timeoutTasks c"
  "unorderedQueue (upd_ord p f c) = unorderedQueue c"
  "unorderedImmediateQueue (upd_ord p f c) = unorderedImmediateQueue c"
  "unorderedEventLogCache (upd_ord p f c) = unorderedEventLogCache c"
  "ctlLog (upd_ord p f c) = ctlLog c"
  by (simp_all add: upd_ord_def)

lemma log_ctl_simps [simp]:
  "cs_subs (log_ctl es c) = cs_subs c"
  "cs_payloads (log_ctl es c) = cs_payloads c"
  "ordHeap (log_ctl es c) = ordHeap c"
  "ordNext (log_ctl es c) = ordNext c"
  "orderedEventQueue (log_ctl es c) = orderedEventQueue c"
  "unorderedEventQueue (log_ctl es c) = unorderedEventQueue c"
  "pendingTimeoutMessage (log_ctl es c) = pendingTimeoutMessage c"
  "scheduled (log_ctl es c) = scheduled c"
  "orderedTasks (log_ctl es c) = orderedTasks c"
  "timeoutTasks (log_ctl es c) = timeoutTasks c"
  "unorderedQueue (log_ctl es c) = unorderedQueue c"
  "unorderedImmediateQueue (log_ctl es c) = unorderedImmediateQueue c"
  "unorderedEventLogCache (log_ctl es c) = unorderedEventLogCache c"
  "ctlLog (log_ctl es c) = ctlLog c @ es"
  by (simp_all add: log_ctl_def)

lemma permission_used_simps [simp]:
  "cs_subs (permission_used E pm t e c) = cs_subs c"
  "cs_payloads (permission_used E pm t e c) = cs_payloads c"
  "ordHeap (permission_used E pm t e c) = ordHeap c"
  "ordNext (permission_used E pm t e c) = ordNext c"
  "orderedEventQueue (permission_used E pm t e c) = orderedEventQueue c"
  "unorderedEventQueue (permission_used E pm t e c) = unorderedEventQueue c"
  "pendingTimeoutMessage (permission_used E pm t e c) = pendingTimeoutMessage c"
  "scheduled (permission_used E pm t e c) = scheduled c"
  "orderedTasks (permission_used E pm t e c) = orderedTasks c"
  "timeoutTasks (permission_used E pm t e c) = timeoutTasks c"
  "unorderedQueue (permission_used E pm t e c) = unorderedQueue c"
  "unorderedImmediateQueue (permission_used E pm t e c) = unorderedImmediateQueue c"
  "unorderedEventLogCache (permission_used E pm t e c) = unorderedEventLogCache c"
  by (simp_all add: permission_used_def)

lemma upd_subs_simps [simp]:
  "cs_subs (upd_subs f c) = f (cs_subs c)"
  "cs_payloads (upd_subs f c) = cs_payloads c"
  "ordHeap (upd_subs f c) = ordHeap c"
  "ordNext (upd_subs f c) = ordNext c"
  "orderedEventQueue (upd_subs f c) = orderedEventQueue c"
  "unorderedEventQueue (upd_subs f c) = unorderedEventQueue c"
  "pendingTimeoutMessage (upd_subs f c) = pendingTimeoutMessage c"
  "scheduled (upd_subs f c) = scheduled c"
  "orderedTasks (upd_subs f c) = orderedTasks c"
  "timeoutTasks (upd_subs f c) = timeoutTasks c"
  "unorderedQueue (upd_subs f c) = unorderedQueue c"
  "unorderedImmediateQueue (upd_subs f c) = unorderedImmediateQueue c"
  "unorderedEventLogCache (upd_subs f c) = unorderedEventLogCache c"
  "ctlLog (upd_subs f c) = ctlLog c"
  by (simp_all add: upd_subs_def)

lemma upd_ord_log [simp]: "upd_ord p f (log_ctl es c) = log_ctl es (upd_ord p f c)"
  by (simp add: upd_ord_def log_ctl_def)

lemma upd_ord_twice [simp]: "upd_ord p f (upd_ord p g c) = upd_ord p (\<lambda>r. f (g r)) c"
  by (simp add: upd_ord_def)

lemma log_ctl_twice [simp]: "log_ctl es (log_ctl fs c) = log_ctl (fs @ es) c"
  by (simp add: log_ctl_def)

section \<open>Records\<close>

definition idle_rec :: "OrderedEventRecord \<Rightarrow> bool" where
  "idle_rec r \<longleftrightarrow> state r = event_code IDLE \<and> curReceiver r = None"

definition waiting_rec :: "sub_state \<Rightarrow> OrderedEventRecord \<Rightarrow> bool" where
  "waiting_rec s r \<longleftrightarrow> state r = event_code RECEIVED \<and> 0 < nextReceiver r \<and>
     nextReceiver r \<le> length (receivers r) \<and>
     curReceiver r = Some (listener_at s (receivers r ! (nextReceiver r - 1)))"

definition fresh_rec :: "OrderedEventRecord \<Rightarrow> bool" where
  "fresh_rec r \<longleftrightarrow> idle_rec r \<and> nextReceiver r = 0 \<and> dispatchTime r = 0"

definition rec_ok :: "sub_state \<Rightarrow> OrderedEventRecord \<Rightarrow> bool" where
  "rec_ok s r \<longleftrightarrow> length (deliveryState r) = length (receivers r) \<and>
     nextReceiver r \<le> length (receivers r) \<and> (\<forall>p \<in> set (receivers r). p < subNext s)"

fun queue_ok :: "sub_state \<Rightarrow> bool \<Rightarrow> (ord_ptr \<Rightarrow> OrderedEventRecord) \<Rightarrow> ord_ptr list \<Rightarrow> bool" where
  "queue_ok s pending h [] = True"
| "queue_ok s pending h (o' # os) \<longleftrightarrow>
     (idle_rec (h o') \<or> waiting_rec s (h o') \<and> pending) \<and> (\<forall>q \<in> set os. fresh_rec (h q))"

fun notify_ptrs :: "immediate_task list \<Rightarrow> ord_ptr list" where
  "notify_ptrs [] = []"
| "notify_ptrs (NotifyTask o' # ts) = o' # notify_ptrs ts"
| "notify_ptrs (FreezeTask sub er # ts) = notify_ptrs ts"

lemma notify_ptrs_append [simp]: "notify_ptrs (xs @ ys) = notify_ptrs xs @ notify_ptrs ys"
  by (induction xs rule: notify_ptrs.induct) simp_all

lemma notify_ptrs_freeze [simp]: "notify_ptrs (map (FreezeTask sub) ers) = []"
  by (induction ers) simp_all

section \<open>The invariant\<close>

definition core_inv :: "ctl_state \<Rightarrow> bool" where
  "core_inv c \<longleftrightarrow>
     sub_inv (cs_subs c) \<and>
     distinct (orderedEventQueue c) \<and>
     (\<forall>o' \<in> set (orderedEventQueue c). o' < ordNext c) \<and>
     distinct (unorderedEventQueue c) \<and>
     (\<forall>o' \<in> set (unorderedEventQueue c). o' < ordNext c \<and> nextReceiver (ordHeap c o') = 0) \<and>
     set (orderedEventQueue c) \<inter> set (unorderedEventQueue c) = {} \<and>
     mset (unorderedEventQueue c) =
       mset (unorderedQueue c @ notify_ptrs (unorderedImmediateQueue c)) \<and>
     (\<forall>o' < ordNext c. rec_ok (cs_subs c) (ordHeap c o')) \<and>
     timeoutTasks c = (if pendingTimeoutMessage c then 1 else 0) \<and>
     count_list (orderedTasks c) True = (if scheduled c then 1 else 0) \<and>
     queue_ok (cs_subs c) (pendingTimeoutMessage c) (ordHeap c) (orderedEventQueue c)"

definition progress :: "ctl_state \<Rightarrow> bool" where
  "progress c \<longleftrightarrow> (orderedEventQueue c \<noteq> [] \<longrightarrow>
     orderedTasks c \<noteq> [] \<or>
     state (ordHeap c (hd (orderedEventQueue c))) \<noteq> event_code IDLE)"

definition ctl_inv :: "ctl_state \<Rightarrow> bool" where
  "ctl_inv c \<longleftrightarrow> core_inv c \<and> progress c"

lemma core_invD:
  assumes "core_inv c"
  shows "sub_inv (cs_subs c)"
    and "distinct (orderedEventQueue c)"
    and "o' \<in> set (orderedEventQueue c) \<Longrightarrow> o' < ordNext c"
    and "distinct (unorderedEventQueue c)"
    and "o' \<in> set (unorderedEventQueue c) \<Longrightarrow> o' < ordNext c"
    and "o' \<in> set (unorderedEventQueue c) \<Longrightarrow> nextReceiver (ordHeap c o') = 0"
    and "o' \<in> set (unorderedEventQueue c) \<Longrightarrow> o' \<notin> set (orderedEventQueue c)"
    and "mset (unorderedEventQueue c) =
       mset (unorderedQueue c @ notify_ptrs (unorderedImmediateQueue c))"
    and "o' < ordNext c \<Longrightarrow> rec_ok (cs_subs c) (ordHeap c o')"
    and "timeoutTasks c = (if pendingTimeoutMessage c then 1 else 0)"
    and "count_list (orderedTasks c) True = (if scheduled c then 1 else 0)"
    and "queue_ok (cs_subs c) (pendingTimeoutMessage c) (ordHeap c) (orderedEventQueue c)"
  using assms by (auto simp: core_inv_def)

lemma queue_ok_cong:
  "(\<And>o'. o' \<in> set os \<Longrightarrow> h' o' = h o') \<Longrightarrow> (\<And>p. listener_at s' p = listener_at s p) \<Longrightarrow>
     queue_ok s' b h' os = queue_ok s b h os"
  by (cases os) (auto simp: waiting_rec_def)

text \<open>Changing one record: what has to be shown for it.\<close>

lemma core_upd_ord:
  assumes inv: "core_inv c" and o': "o' < ordNext c"
    and r: "r = f (ordHeap c o')" "rec_ok (cs_subs c) r"
    and u: "o' \<in> set (unorderedEventQueue c) \<Longrightarrow> nextReceiver r = 0"
    and hd: "\<And>os. orderedEventQueue c = o' # os \<Longrightarrow>
      idle_rec r \<or> waiting_rec (cs_subs c) r \<and> pendingTimeoutMessage c"
    and tl: "\<And>q os. orderedEventQueue c = q # os \<Longrightarrow> o' \<in> set os \<Longrightarrow> fresh_rec r"
  shows "core_inv (upd_ord o' f c)"
proof -
  have "queue_ok (cs_subs c) (pendingTimeoutMessage c) ((ordHeap c)(o' := r)) (orderedEventQueue c)"
    using core_invD(12) [OF inv] core_invD(2) [OF inv] hd tl
    by (cases "orderedEventQueue c") (auto simp: fun_upd_apply)
  then show ?thesis
    using inv o' r(2) u unfolding core_inv_def upd_ord_def r(1) [symmetric] by auto
qed

text \<open>Changing the subscriber manager: its invariant, and no listener of a known record.\<close>

lemma core_upd_subs:
  assumes "core_inv c" and "sub_inv s" and "subNext (cs_subs c) \<le> subNext s"
    and same: "\<And>p. p < subNext (cs_subs c) \<Longrightarrow> listener_at s p = listener_at (cs_subs c) p"
  shows "core_inv (c\<lparr>cs_subs := s\<rparr>)"
proof -
  have recs: "rec_ok s (ordHeap c o')" if "o' < ordNext c" for o'
    using core_invD(9) [OF assms(1) that] assms(3) by (auto simp: rec_ok_def)
  have w: "waiting_rec s (ordHeap c o') = waiting_rec (cs_subs c) (ordHeap c o')" if "o' < ordNext c" for o'
  proof -
    have "receivers (ordHeap c o') ! (nextReceiver (ordHeap c o') - 1) < subNext (cs_subs c)"
      if "0 < nextReceiver (ordHeap c o')" "nextReceiver (ordHeap c o') \<le> length (receivers (ordHeap c o'))"
      using core_invD(9) [OF assms(1) \<open>o' < ordNext c\<close>] that by (auto simp: rec_ok_def)
    then show ?thesis by (auto simp: waiting_rec_def same)
  qed
  have "queue_ok s (pendingTimeoutMessage c) (ordHeap c) (orderedEventQueue c)"
    using core_invD(12) [OF assms(1)] core_invD(3) [OF assms(1)] w
    by (cases "orderedEventQueue c") auto
  then show ?thesis using assms(1,2) recs by (simp add: core_inv_def)
qed

lemma core_log [simp]: "core_inv (log_ctl es c) \<longleftrightarrow> core_inv c"
  by (simp add: log_ctl_def core_inv_def)

lemma core_payloads [simp]: "core_inv (c\<lparr>cs_payloads := m\<rparr>) \<longleftrightarrow> core_inv c"
  by (simp add: core_inv_def)

lemma core_cache [simp]: "core_inv (c\<lparr>unorderedEventLogCache := m\<rparr>) \<longleftrightarrow> core_inv c"
  by (simp add: core_inv_def)

lemma core_permission [simp]: "core_inv (permission_used E pm t e c) \<longleftrightarrow> core_inv c"
  by (simp add: permission_used_def)

lemma core_frozen:
  "core_inv c \<Longrightarrow> core_inv (upd_subs (InsertFrozenEventsMap r er) (upd_subs (InsertFrozenEvents r er) c))"
  unfolding upd_subs_def by (simp, rule core_upd_subs) (simp_all add: ces_frame core_invD(1))

lemma queue_ok_pending: "queue_ok s b h os \<Longrightarrow> queue_ok s True h os"
  by (cases os) auto

lemma core_SetTimeout: "core_inv c \<Longrightarrow> core_inv (SetTimeout c)"
  using queue_ok_pending [of "cs_subs c" False "ordHeap c" "orderedEventQueue c"]
  by (cases "pendingTimeoutMessage c") (simp_all add: core_inv_def SetTimeout_def)

section \<open>Scheduling\<close>

lemma core_Schedule: "core_inv c \<Longrightarrow> core_inv (snd (ScheduleOrderedCommonEvent c))"
  by (auto simp: ScheduleOrderedCommonEvent_def core_inv_def)

lemma Schedule_tasks:
  "count_list (orderedTasks c) True = (if scheduled c then 1 else 0) \<Longrightarrow>
     True \<in> set (orderedTasks (snd (ScheduleOrderedCommonEvent c)))"
  using count_list_0_iff [of "orderedTasks c" True]
  by (cases "scheduled c") (simp_all add: ScheduleOrderedCommonEvent_def)

lemma Schedule_progress: "core_inv c \<Longrightarrow> progress (snd (ScheduleOrderedCommonEvent c))"
  using Schedule_tasks [of c] core_invD(11) [of c] by (auto simp: progress_def)

lemma ctl_inv_Schedule: "core_inv c \<Longrightarrow> ctl_inv (snd (ScheduleOrderedCommonEvent c))"
  by (simp add: ctl_inv_def core_Schedule Schedule_progress)

section \<open>Changes that keep a record in its phase\<close>

lemma core_upd_neutral:
  assumes inv: "core_inv c" and o': "o' < ordNext c"
    and same: "\<And>r. state (f r) = state r" "\<And>r. curReceiver (f r) = curReceiver r"
      "\<And>r. nextReceiver (f r) = nextReceiver r" "\<And>r. dispatchTime (f r) = dispatchTime r"
      "\<And>r. receivers (f r) = receivers r"
      "\<And>r. length (deliveryState (f r)) = length (deliveryState r)"
  shows "core_inv (upd_ord o' f c)"
proof (rule core_upd_ord [OF inv o', where r = "f (ordHeap c o')"], goal_cases)
  case 2
  then show ?case using core_invD(9) [OF inv o'] by (simp add: rec_ok_def same)
next
  case 3
  then show ?case using core_invD(6) [OF inv] by (simp add: same)
next
  case (4 os)
  then show ?case using core_invD(12) [OF inv] by (simp add: idle_rec_def waiting_rec_def same)
next
  case (5 q os)
  then show ?case using core_invD(12) [OF inv] by (auto simp: fresh_rec_def idle_rec_def same)
qed simp

text \<open>Putting a record back to rest is always possible.\<close>

lemma core_upd_rest:
  assumes inv: "core_inv c" and o': "o' < ordNext c"
    and same: "\<And>r. state (f r) = event_code IDLE" "\<And>r. curReceiver (f r) = None"
      "\<And>r. nextReceiver (f r) = nextReceiver r" "\<And>r. dispatchTime (f r) = dispatchTime r"
      "\<And>r. receivers (f r) = receivers r"
      "\<And>r. length (deliveryState (f r)) = length (deliveryState r)"
  shows "core_inv (upd_ord o' f c)"
proof (rule core_upd_ord [OF inv o', where r = "f (ordHeap c o')"], goal_cases)
  case 2
  then show ?case using core_invD(9) [OF inv o'] by (simp add: rec_ok_def same)
next
  case 3
  then show ?case using core_invD(6) [OF inv] by (simp add: same)
next
  case (4 os)
  then show ?case by (simp add: idle_rec_def same)
next
  case (5 q os)
  then show ?case using core_invD(12) [OF inv] by (auto simp: fresh_rec_def idle_rec_def same)
qed simp

definition timed_out :: "int64 \<Rightarrow> OrderedEventRecord \<Rightarrow> OrderedEventRecord" where
  "timed_out now r = r\<lparr>receiverTime := now, state := event_code IDLE, curReceiver := None,
     deliveryState := (if nextReceiver r > 0 then (deliveryState r)[nextReceiver r - 1 := TIMEOUT]
                       else deliveryState r)\<rparr>"

lemma timed_out_simps [simp]:
  "state (timed_out now r) = 0" "curReceiver (timed_out now r) = None"
  "nextReceiver (timed_out now r) = nextReceiver r" "dispatchTime (timed_out now r) = dispatchTime r"
  "receivers (timed_out now r) = receivers r" "receiverTime (timed_out now r) = now"
  "length (deliveryState (timed_out now r)) = length (deliveryState r)"
  "resultAbort (timed_out now r) = resultAbort r" "resultTo (timed_out now r) = resultTo r"
  "payloadPtr (timed_out now r) = payloadPtr r"
  by (simp_all add: timed_out_def)

definition timeout_report :: "ctl_state \<Rightarrow> ord_ptr \<Rightarrow> ctl_effect list" where
  "timeout_report c o' =
     (let r = ordHeap c o'; sub = sub_rec c (receivers r ! (nextReceiver r - 1))
      in if nextReceiver r > 0
         then [OrderedEventProcTimeout (si_userId (eventSubscribeInfo sub))
                 (bundleName (subRecordInfo sub)) (pid (subRecordInfo sub))
                 (to_int32 (uid (subRecordInfo sub))) (action_of (payload_of c o'))]
         else [])"

lemma HandleTimeoutReceiver_form:
  "HandleTimeoutReceiver o' now c = log_ctl (timeout_report c o') (upd_ord o' (timed_out now) c)"
proof (rule ctl_state.equality)
  show "ordHeap (HandleTimeoutReceiver o' now c) =
      ordHeap (log_ctl (timeout_report c o') (upd_ord o' (timed_out now) c))"
    by (auto simp: HandleTimeoutReceiver_def Let_def timed_out_def fun_eq_iff
      intro!: OrderedEventRecord.equality)
qed (simp_all add: HandleTimeoutReceiver_def Let_def timeout_report_def)

lemma core_HandleTimeout: "core_inv c \<Longrightarrow> o' < ordNext c \<Longrightarrow> core_inv (HandleTimeoutReceiver o' now c)"
  by (simp add: HandleTimeoutReceiver_form core_upd_rest)

lemma FinishReceiver_form:
  "\<exists>m. snd (FinishReceiver_ctl (Some o') code d ab c) =
     (upd_ord o' (\<lambda>r. r\<lparr>state := event_code IDLE, curReceiver := None, resultAbort := ab\<rparr>) c)
       \<lparr>cs_payloads := m\<rparr>"
  by (rule exI, rule ctl_state.equality) (simp_all add: FinishReceiver_ctl_def Let_def)

lemma core_FinishReceiver:
  "core_inv c \<Longrightarrow> o' < ordNext c \<Longrightarrow> core_inv (snd (FinishReceiver_ctl (Some o') code d ab c))"
  using FinishReceiver_form [of o' code d ab c]
    core_upd_rest [of c o' "\<lambda>r. r\<lparr>state := event_code IDLE, curReceiver := None, resultAbort := ab\<rparr>"]
  by auto

lemma core_Finish_task: "core_inv c \<Longrightarrow> core_inv (c\<lparr>orderedTasks := orderedTasks c @ [False]\<rparr>)"
  by (simp add: core_inv_def)

lemma FinishReceiverAction_inv [ces_inv]:
  assumes inv: "ctl_inv c" and o': "o' < ordNext c"
  shows "ctl_inv (snd (FinishReceiverAction (Some o') code d ab c))"
proof -
  let ?c = "snd (FinishReceiver_ctl (Some o') code d ab c)"
  have core: "core_inv ?c" using inv o' by (simp add: ctl_inv_def core_FinishReceiver)
  obtain m where c: "?c = (upd_ord o' (\<lambda>r. r\<lparr>state := event_code IDLE, curReceiver := None,
       resultAbort := ab\<rparr>) c)\<lparr>cs_payloads := m\<rparr>"
    using FinishReceiver_form by blast
  show ?thesis
  proof (cases "state (ordHeap c o') = event_code RECEIVED")
    case True
    then have "fst (FinishReceiver_ctl (Some o') code d ab c)"
      by (simp add: FinishReceiver_ctl_def Let_def)
    then have "snd (FinishReceiverAction (Some o') code d ab c) =
        ?c\<lparr>orderedTasks := orderedTasks ?c @ [False]\<rparr>"
      by (simp add: FinishReceiverAction_def case_prod_unfold Let_def)
    then show ?thesis using core_Finish_task [OF core] by (simp add: ctl_inv_def progress_def)
  next
    case False
    then have "\<not> fst (FinishReceiver_ctl (Some o') code d ab c)"
      by (simp add: FinishReceiver_ctl_def Let_def)
    then have eq: "snd (FinishReceiverAction (Some o') code d ab c) = ?c"
      by (simp add: FinishReceiverAction_def case_prod_unfold Let_def)
    have "orderedTasks c \<noteq> []" if "orderedEventQueue c = o' # os" for os
      using inv that False by (auto simp: ctl_inv_def core_inv_def progress_def waiting_rec_def idle_rec_def)
    then have "progress ?c"
      using inv unfolding c by (cases "orderedEventQueue c") (auto simp: ctl_inv_def progress_def)
    then show ?thesis unfolding eq using core by (simp add: ctl_inv_def)
  qed
qed

end
