(* ===== verification/Control_Steps.thy ===== *)
theory Control_Steps
  imports Control_Invariant
begin

text \<open>
  Preservation of the control manager's invariant by its remaining handlers, and the step
  relation of the whole component.
\<close>

section \<open>The scan of the ordered queue\<close>

lemma core_drop_head:
  assumes "core_inv c" "orderedEventQueue c = o' # os"
  shows "core_inv ((CancelTimeout c)\<lparr>orderedEventQueue := os\<rparr>)"
proof -
  have "queue_ok (cs_subs c) b (ordHeap c) os" for b
    using core_invD(12) [OF assms(1)] assms(2) by (cases os) (auto simp: fresh_rec_def)
  then show ?thesis
    using assms unfolding core_inv_def CancelTimeout_def by auto
qed

lemma CheckTimeoutForceReceive_form:
  "CheckTimeoutForceReceive now o' c = (False, c) \<or>
   dispatchTime (ordHeap c o') > 0 \<and> receivers (ordHeap c o') \<noteq> [] \<and>
     CheckTimeoutForceReceive now o' c =
       (True, log_ctl (timeout_report c o') (upd_ord o' (timed_out now) c))"
proof -
  have rest: "(timed_out now r)\<lparr>state := 0\<rparr> = timed_out now r" for r
    by (simp add: timed_out_def OrderedEventRecord.equality)
  show ?thesis
    by (auto simp: CheckTimeoutForceReceive_def Let_def HandleTimeoutReceiver_form rest)
qed

text \<open>What the scan may change: records it times out, the timer, the queue and the log.\<close>

definition scan_frame :: "ctl_state \<Rightarrow> ctl_state \<Rightarrow> bool" where
  "scan_frame c c' \<longleftrightarrow> cs_subs c' = cs_subs c \<and> cs_payloads c' = cs_payloads c \<and>
     ordNext c' = ordNext c \<and> unorderedEventQueue c' = unorderedEventQueue c \<and>
     scheduled c' = scheduled c \<and> orderedTasks c' = orderedTasks c \<and>
     unorderedQueue c' = unorderedQueue c \<and>
     unorderedImmediateQueue c' = unorderedImmediateQueue c \<and>
     (\<forall>o'. receivers (ordHeap c' o') = receivers (ordHeap c o') \<and>
        resultTo (ordHeap c' o') = resultTo (ordHeap c o') \<and>
        payloadPtr (ordHeap c' o') = payloadPtr (ordHeap c o') \<and>
        nextReceiver (ordHeap c' o') = nextReceiver (ordHeap c o') \<and>
        resultAbort (ordHeap c' o') = resultAbort (ordHeap c o') \<and>
        (ordHeap c' o' = ordHeap c o' \<or> (\<exists>now. ordHeap c' o' = timed_out now (ordHeap c o'))))"

lemma timed_out_idem [simp]: "timed_out now (timed_out now' r) = timed_out now r"
  by (simp add: timed_out_def)

lemma scan_frame_refl: "scan_frame c c"
  by (simp add: scan_frame_def)

lemma scan_frame_trans: "scan_frame a b \<Longrightarrow> scan_frame b c \<Longrightarrow> scan_frame a c"
  unfolding scan_frame_def by (metis timed_out_idem)

lemma scan_frame_timed_out: "scan_frame c (log_ctl es (upd_ord o' (timed_out now) c))"
  by (auto simp: scan_frame_def)

lemma scan_frame_drop: "scan_frame c ((CancelTimeout c)\<lparr>orderedEventQueue := os\<rparr>)"
  by (simp add: scan_frame_def CancelTimeout_def)

lemma scan_frame_Check: "scan_frame c (snd (CheckTimeoutForceReceive now o' c))"
  using CheckTimeoutForceReceive_form [of now o' c] scan_frame_refl scan_frame_timed_out by auto

lemma core_Check:
  "core_inv c \<Longrightarrow> o' < ordNext c \<Longrightarrow> core_inv (snd (CheckTimeoutForceReceive now o' c))"
  using CheckTimeoutForceReceive_form [of now o' c] by (auto simp: core_upd_rest)

lemma Check_queue [simp]:
  "orderedEventQueue (snd (CheckTimeoutForceReceive now o' c)) = orderedEventQueue c"
  using CheckTimeoutForceReceive_form [of now o' c] by auto

definition ready_rec :: "OrderedEventRecord \<Rightarrow> bool" where
  "ready_rec r \<longleftrightarrow> idle_rec r \<and> nextReceiver r < length (receivers r) \<and> \<not> resultAbort r"

declare ProcessOrderedEventQueueLocked.simps [simp del]

lemma scan_step:
  assumes "orderedEventQueue c = sp # rest"
    and c1_def: "c1 = snd (CheckTimeoutForceReceive now sp c)"
  shows "ProcessOrderedEventQueueLocked now removed c =
    (if state (ordHeap c1 sp) \<noteq> event_code IDLE then (None, removed, c1)
     else if receivers (ordHeap c1 sp) = [] \<or>
        nextReceiver (ordHeap c1 sp) \<ge> length (receivers (ordHeap c1 sp)) \<or>
        resultAbort (ordHeap c1 sp) \<or> fst (CheckTimeoutForceReceive now sp c)
     then ProcessOrderedEventQueueLocked now (removed @ [sp])
            ((CancelTimeout c1)\<lparr>orderedEventQueue := rest\<rparr>)
     else (Some sp, removed, c1))"
  by (subst ProcessOrderedEventQueueLocked.simps)
    (simp add: assms(1) c1_def case_prod_unfold Let_def)

lemma scan_spec:
  assumes "core_inv c" "ProcessOrderedEventQueueLocked now removed c = (sp, removed', c')"
  shows "core_inv c' \<and> scan_frame c c' \<and>
    (\<exists>n. removed' = removed @ take n (orderedEventQueue c) \<and>
         orderedEventQueue c' = drop n (orderedEventQueue c)) \<and>
    (case sp of
       None \<Rightarrow> orderedEventQueue c' = [] \<or>
         state (ordHeap c' (hd (orderedEventQueue c'))) \<noteq> event_code IDLE
     | Some o' \<Rightarrow> (\<exists>os. orderedEventQueue c' = o' # os) \<and> ready_rec (ordHeap c' o'))"
  using assms
proof (induction "length (orderedEventQueue c)" arbitrary: c removed)
  case 0
  then have "sp = None" "removed' = removed" "c' = c"
    by (simp_all add: ProcessOrderedEventQueueLocked.simps)
  then show ?case using 0 by (auto simp: scan_frame_refl intro: exI [of _ 0])
next
  case (Suc n)
  then obtain o' os where q: "orderedEventQueue c = o' # os" by (cases "orderedEventQueue c") auto
  define c1 where "c1 = snd (CheckTimeoutForceReceive now o' c)"
  have o': "o' < ordNext c" using core_invD(3) [OF Suc.prems(1)] q by simp
  have core1: "core_inv c1" and frame1: "scan_frame c c1" and q1: "orderedEventQueue c1 = o' # os"
    unfolding c1_def using core_Check [OF Suc.prems(1) o'] scan_frame_Check q by simp_all
  have run: "(if state (ordHeap c1 o') \<noteq> event_code IDLE then (None, removed, c1)
     else if receivers (ordHeap c1 o') = [] \<or>
        nextReceiver (ordHeap c1 o') \<ge> length (receivers (ordHeap c1 o')) \<or>
        resultAbort (ordHeap c1 o') \<or> fst (CheckTimeoutForceReceive now o' c)
     then ProcessOrderedEventQueueLocked now (removed @ [o'])
            ((CancelTimeout c1)\<lparr>orderedEventQueue := os\<rparr>)
     else (Some o', removed, c1)) = (sp, removed', c')"
    using scan_step [OF q c1_def, of removed] Suc.prems(2) by simp
  show ?case
  proof (cases "state (ordHeap c1 o') = event_code IDLE")
    case False
    then have "sp = None" "removed' = removed" "c' = c1" using run by simp_all
    then show ?thesis using core1 frame1 q1 q False by (auto intro: exI [of _ 0])
  next
    case idle: True
    show ?thesis
    proof (cases "receivers (ordHeap c1 o') = [] \<or>
        nextReceiver (ordHeap c1 o') \<ge> length (receivers (ordHeap c1 o')) \<or>
        resultAbort (ordHeap c1 o') \<or> fst (CheckTimeoutForceReceive now o' c)")
      case True
      let ?c2 = "(CancelTimeout c1)\<lparr>orderedEventQueue := os\<rparr>"
      have "ProcessOrderedEventQueueLocked now (removed @ [o']) ?c2 = (sp, removed', c')"
        using run True idle by simp
      from Suc.hyps(1) [OF _ core_drop_head [OF core1 q1] this] Suc.hyps(2) q
      have IH: "core_inv c' \<and> scan_frame ?c2 c' \<and>
        (\<exists>n. removed' = (removed @ [o']) @ take n os \<and> orderedEventQueue c' = drop n os) \<and>
        (case sp of
           None \<Rightarrow> orderedEventQueue c' = [] \<or>
             state (ordHeap c' (hd (orderedEventQueue c'))) \<noteq> event_code IDLE
         | Some o' \<Rightarrow> (\<exists>os. orderedEventQueue c' = o' # os) \<and> ready_rec (ordHeap c' o'))"
        by simp
      then obtain k where "removed' = removed @ take (Suc k) (orderedEventQueue c)"
        "orderedEventQueue c' = drop (Suc k) (orderedEventQueue c)" using q by auto
      then show ?thesis
        using IH scan_frame_trans [OF frame1 scan_frame_trans [OF scan_frame_drop [of c1 os]]] by blast
    next
      case False
      then have eq: "sp = Some o'" "removed' = removed" "c' = c1" using run idle by simp_all
      have "idle_rec (ordHeap c1 o')"
        using core_invD(12) [OF core1] q1 idle by (auto simp: waiting_rec_def)
      then have "ready_rec (ordHeap c1 o')" using False by (simp add: ready_rec_def)
      then show ?thesis using eq core1 frame1 q1 q by (auto intro: exI [of _ 0])
    qed
  qed
qed

section \<open>The final subscriber\<close>

definition final_report :: "env \<Rightarrow> ctl_state \<Rightarrow> ord_ptr \<Rightarrow> ctl_effect list" where
  "final_report E c o' =
     (case resultTo (ordHeap c o') of
        None \<Rightarrow> []
      | Some l \<Rightarrow>
          if ipc_is_receiver E l
          then [NotifyEvent l (commonEventData (payload_of c o')) True
                  (pi_sticky (publishInfo (payload_of c o')))]
          else [])"

lemma HandleFinalSubscriber_form:
  "\<exists>f. snd (HandleFinalSubscriber E o' c) = log_ctl (final_report E c o') (upd_ord o' f c) \<and>
     (f = (\<lambda>r. r) \<or> f = (\<lambda>r. r\<lparr>resultTo := None\<rparr>))"
proof (cases "resultTo (ordHeap c o')")
  case None
  then show ?thesis
    by (intro exI [of _ "\<lambda>r. r"])
      (simp add: HandleFinalSubscriber_def final_report_def log_ctl_def upd_ord_def)
next
  case (Some l)
  then show ?thesis
    by (cases "ipc_is_receiver E l")
      (auto simp: HandleFinalSubscriber_def final_report_def Let_def log_ctl_def upd_ord_def
        intro: exI [of _ "\<lambda>r. r"] exI [of _ "\<lambda>r. r\<lparr>resultTo := None\<rparr>"])
qed

definition final_frame :: "ctl_state \<Rightarrow> ctl_state \<Rightarrow> bool" where
  "final_frame c c' \<longleftrightarrow> (\<exists>h es. c' = c\<lparr>ordHeap := h, ctlLog := ctlLog c @ es\<rparr> \<and>
     (\<forall>o'. h o' = ordHeap c o' \<or> h o' = (ordHeap c o')\<lparr>resultTo := None\<rparr>))"

lemma final_frameD:
  assumes "final_frame c c'"
  shows "orderedEventQueue c' = orderedEventQueue c"
    and "ordHeap c' o' = ordHeap c o' \<or> ordHeap c' o' = (ordHeap c o')\<lparr>resultTo := None\<rparr>"
  using assms by (auto simp: final_frame_def)

lemma final_frame_HandleFinal: "final_frame c (snd (HandleFinalSubscriber E o' c))"
proof -
  obtain f where f: "snd (HandleFinalSubscriber E o' c) = log_ctl (final_report E c o') (upd_ord o' f c)"
    "f = (\<lambda>r. r) \<or> f = (\<lambda>r. r\<lparr>resultTo := None\<rparr>)"
    using HandleFinalSubscriber_form by blast
  then show ?thesis
    unfolding final_frame_def f(1)
    by (intro exI [of _ "(ordHeap c)(o' := f (ordHeap c o'))"] exI [of _ "final_report E c o'"])
      (auto simp: log_ctl_def upd_ord_def)
qed

lemma core_HandleFinal:
  assumes "core_inv c" "o' < ordNext c"
  shows "core_inv (snd (HandleFinalSubscriber E o' c))"
proof -
  obtain f where f: "snd (HandleFinalSubscriber E o' c) = log_ctl (final_report E c o') (upd_ord o' f c)"
    "f = (\<lambda>r. r) \<or> f = (\<lambda>r. r\<lparr>resultTo := None\<rparr>)"
    using HandleFinalSubscriber_form by blast
  show ?thesis
    unfolding f(1) core_log by (rule core_upd_neutral [OF assms]) (use f(2) in auto)
qed

lemma final_fold:
  assumes "core_inv c" "\<forall>o' \<in> set os. o' < ordNext c"
  shows "core_inv (foldl (\<lambda>c o'. snd (HandleFinalSubscriber E o' c)) c os) \<and>
    final_frame c (foldl (\<lambda>c o'. snd (HandleFinalSubscriber E o' c)) c os)"
  using assms
proof (induction os arbitrary: c)
  case Nil
  then show ?case by (auto simp: final_frame_def intro!: exI [of _ "ordHeap c"] exI [of _ "[]"])
next
  case (Cons o' os)
  let ?c = "snd (HandleFinalSubscriber E o' c)"
  have core: "core_inv ?c" using Cons.prems by (simp add: core_HandleFinal)
  have ff: "final_frame c ?c" by (rule final_frame_HandleFinal)
  then have "\<forall>o' \<in> set os. o' < ordNext ?c" using Cons.prems by (auto simp: final_frame_def)
  from Cons.IH [OF core this]
  have IH: "core_inv (foldl (\<lambda>c o'. snd (HandleFinalSubscriber E o' c)) ?c os)"
    "final_frame ?c (foldl (\<lambda>c o'. snd (HandleFinalSubscriber E o' c)) ?c os)" by simp_all
  have "final_frame a c" if ab: "final_frame a b" and bc: "final_frame b c" for a b c
  proof -
    obtain h es where 1: "b = a\<lparr>ordHeap := h, ctlLog := ctlLog a @ es\<rparr>"
      "\<forall>o'. h o' = ordHeap a o' \<or> h o' = (ordHeap a o')\<lparr>resultTo := None\<rparr>"
      using ab unfolding final_frame_def by blast
    obtain h' es' where 2: "c = b\<lparr>ordHeap := h', ctlLog := ctlLog b @ es'\<rparr>"
      "\<forall>o'. h' o' = ordHeap b o' \<or> h' o' = (ordHeap b o')\<lparr>resultTo := None\<rparr>"
      using bc unfolding final_frame_def by blast
    have "h' o' = ordHeap a o' \<or> h' o' = (ordHeap a o')\<lparr>resultTo := None\<rparr>" for o'
      using 1(2) [THEN spec, of o'] 2(2) [THEN spec, of o'] by (auto simp: 1(1))
    then show ?thesis
      unfolding final_frame_def
      by (intro exI [of _ h'] exI [of _ "es @ es'"]) (simp add: 1(1) 2(1))
  qed
  then show ?case using IH ff by auto
qed

section \<open>Notifying one receiver\<close>

datatype outcome = Frozen | NoProxy | Failed | Delivered

definition receiver_at :: "ctl_state \<Rightarrow> ord_ptr \<Rightarrow> nat \<Rightarrow> EventSubscriberRecord" where
  "receiver_at c o' i = sub_rec c (receivers (ordHeap c o') ! i)"

definition outcome :: "env \<Rightarrow> ctl_state \<Rightarrow> ord_ptr \<Rightarrow> nat \<Rightarrow> outcome" where
  "outcome E c o' i =
     (let sub = receiver_at c o' i; pl = payload_of c o'
      in if isFreeze sub then Frozen
         else if \<not> ipc_is_receiver E (commonEventListener sub) then NoProxy
         else if ipc_notify E (commonEventListener sub) (commonEventData pl) True
                (pi_sticky (publishInfo pl)) \<noteq> ERR_OK then Failed
         else Delivered)"

fun outcome_rec :: "outcome \<Rightarrow> remote \<Rightarrow> nat \<Rightarrow> OrderedEventRecord \<Rightarrow> OrderedEventRecord" where
  "outcome_rec Frozen l i r = r\<lparr>deliveryState := (deliveryState r)[i := SKIPPED], curReceiver := None\<rparr>"
| "outcome_rec NoProxy l i r = r\<lparr>deliveryState := (deliveryState r)[i := DELIVERED], curReceiver := None\<rparr>"
| "outcome_rec Failed l i r = r\<lparr>deliveryState := (deliveryState r)[i := DELIVERED],
     state := delivery_code SKIPPED, curReceiver := None\<rparr>"
| "outcome_rec Delivered l i r = r\<lparr>deliveryState := (deliveryState r)[i := DELIVERED],
     state := event_code RECEIVED, curReceiver := Some l\<rparr>"

definition outcome_log ::
  "env \<Rightarrow> (string, Permission) umap \<Rightarrow> ctl_state \<Rightarrow> ord_ptr \<Rightarrow> nat \<Rightarrow> ctl_effect list" where
  "outcome_log E pm c o' i =
     (let sub = receiver_at c o' i; pl = payload_of c o'
      in (if outcome E c o' i \<in> {Failed, Delivered}
          then [NotifyEvent (commonEventListener sub) (commonEventData pl) True
                  (pi_sticky (publishInfo pl))] else []) @
         (if outcome E c o' i = Delivered
          then map (\<lambda>(t, p). AddPermissionUsedRecord t p)
                 (RecordSensitivePermissionUsage E pm (callerToken (subRecordInfo sub)) (action_of pl))
          else []))"

definition freeze_event :: "ctl_state \<Rightarrow> ord_ptr \<Rightarrow> nat \<Rightarrow> ctl_state" where
  "freeze_event c o' i =
     (let p = receivers (ordHeap c o') ! i; er = slice (ordHeap c o')
      in upd_subs (InsertFrozenEventsMap (Some p) er) (upd_subs (InsertFrozenEvents (Some p) er) c))"

lemma freeze_event_simps [simp]:
  "ordHeap (freeze_event c o' i) = ordHeap c" "ordNext (freeze_event c o' i) = ordNext c"
  "orderedEventQueue (freeze_event c o' i) = orderedEventQueue c"
  "unorderedEventQueue (freeze_event c o' i) = unorderedEventQueue c"
  "scheduled (freeze_event c o' i) = scheduled c" "orderedTasks (freeze_event c o' i) = orderedTasks c"
  "pendingTimeoutMessage (freeze_event c o' i) = pendingTimeoutMessage c"
  "timeoutTasks (freeze_event c o' i) = timeoutTasks c" "ctlLog (freeze_event c o' i) = ctlLog c"
  "cs_payloads (freeze_event c o' i) = cs_payloads c"
  "subHeap (cs_subs (freeze_event c o' i)) = subHeap (cs_subs c)"
  "subNext (cs_subs (freeze_event c o' i)) = subNext (cs_subs c)"
  by (simp_all add: freeze_event_def Let_def)

lemma core_freeze_event: "core_inv c \<Longrightarrow> core_inv (freeze_event c o' i)"
  by (simp add: freeze_event_def Let_def core_frozen)

lemma NotifyOrderedEvent_form:
  assumes "i < length (receivers (ordHeap c o'))"
  shows "snd (NotifyOrderedEvent E pm (Some o') i c) =
    log_ctl (outcome_log E pm c o' i)
      (upd_ord o' (outcome_rec (outcome E c o' i) (commonEventListener (receiver_at c o' i)) i)
        (if outcome E c o' i = Frozen then freeze_event c o' i else c))"
proof (cases "outcome E c o' i")
  case Frozen
  then have "isFreeze (receiver_at c o' i)" by (auto simp: outcome_def Let_def split: if_splits)
  then show ?thesis
    using assms Frozen
    by (simp add: NotifyOrderedEvent_def NotifyFrozenSubscriber_def outcome_log_def Let_def
      receiver_at_def freeze_event_def upd_ord_def log_ctl_def)
next
  case NoProxy
  then have "\<not> isFreeze (receiver_at c o' i)" "\<not> ipc_is_receiver E (commonEventListener (receiver_at c o' i))"
    by (auto simp: outcome_def Let_def split: if_splits)
  then show ?thesis
    using assms NoProxy
    by (simp add: NotifyOrderedEvent_def PrepareOrderedNotify_def outcome_log_def Let_def
      receiver_at_def upd_ord_def log_ctl_def)
next
  case Failed
  then have "\<not> isFreeze (receiver_at c o' i)" "ipc_is_receiver E (commonEventListener (receiver_at c o' i))"
    "ipc_notify E (commonEventListener (receiver_at c o' i)) (commonEventData (payload_of c o')) True
                (pi_sticky (publishInfo (payload_of c o'))) \<noteq> ERR_OK"
    by (auto simp: outcome_def Let_def split: if_splits)
  then show ?thesis
    using assms Failed
    by (auto simp: NotifyOrderedEvent_def PrepareOrderedNotify_def HandleOrderedNotifyResult_def
      outcome_log_def Let_def receiver_at_def fun_eq_iff
      intro!: ctl_state.equality OrderedEventRecord.equality)
next
  case Delivered
  then have "\<not> isFreeze (receiver_at c o' i)" "ipc_is_receiver E (commonEventListener (receiver_at c o' i))"
    "ipc_notify E (commonEventListener (receiver_at c o' i)) (commonEventData (payload_of c o')) True
                (pi_sticky (publishInfo (payload_of c o'))) = ERR_OK"
    by (auto simp: outcome_def Let_def split: if_splits)
  then show ?thesis
    using assms Delivered
    by (auto simp: NotifyOrderedEvent_def PrepareOrderedNotify_def HandleOrderedNotifyResult_def
      outcome_log_def Let_def receiver_at_def permission_used_def fun_eq_iff
      intro!: ctl_state.equality OrderedEventRecord.equality)
qed

section \<open>Dispatching to the next receiver\<close>

definition dispatch ::
  "env \<Rightarrow> (string, Permission) umap \<Rightarrow> int64 \<Rightarrow> ord_ptr \<Rightarrow> ctl_state \<Rightarrow> ctl_state" where
  "dispatch E pm now o' c =
     (let (recIdx, c3) = PrepareNextReceiverRecord now o' c;
          c4 = (if \<not> pendingTimeoutMessage c3 then SetTimeout c3 else c3);
          c5 = snd (NotifyOrderedEvent E pm (Some o') recIdx c4)
      in if curReceiver (ordHeap c5 o') = None
         then snd (ScheduleOrderedCommonEvent (upd_ord o' (\<lambda>r. r\<lparr>state := event_code IDLE\<rparr>) c5))
         else c5)"

lemma ProcessNextOrderedEvent_dispatch:
  "ProcessNextOrderedEvent E pm now isSendMsg c =
     (let (sp, removed, c1) = ProcessOrderedEventQueueLocked now []
            (if isSendMsg then c\<lparr>scheduled := False\<rparr> else c);
          c2 = foldl (\<lambda>c o'. snd (HandleFinalSubscriber E o' c)) c1 removed
      in case sp of None \<Rightarrow> c2 | Some o' \<Rightarrow> dispatch E pm now o' c2)"
  unfolding ProcessNextOrderedEvent_def dispatch_def Let_def ..

definition prepared :: "int64 \<Rightarrow> OrderedEventRecord \<Rightarrow> OrderedEventRecord" where
  "prepared now r = r\<lparr>nextReceiver := nextReceiver r + 1, receiverTime := now,
     dispatchTime := (if nextReceiver r = 0 then now else dispatchTime r)\<rparr>"

lemma prepared_simps [simp]:
  "receivers (prepared now r) = receivers r" "state (prepared now r) = state r"
  "curReceiver (prepared now r) = curReceiver r" "deliveryState (prepared now r) = deliveryState r"
  "nextReceiver (prepared now r) = nextReceiver r + 1" "payloadPtr (prepared now r) = payloadPtr r"
  "receiverTime (prepared now r) = now" "resultAbort (prepared now r) = resultAbort r"
  "resultTo (prepared now r) = resultTo r"
  by (simp_all add: prepared_def)

definition armed :: "int64 \<Rightarrow> ord_ptr \<Rightarrow> ctl_state \<Rightarrow> ctl_state" where
  "armed now o' c = SetTimeout (upd_ord o' (prepared now) c)"

lemma armed_simps [simp]:
  "ordHeap (armed now o' c) = (ordHeap c)(o' := prepared now (ordHeap c o'))"
  "ordNext (armed now o' c) = ordNext c" "orderedEventQueue (armed now o' c) = orderedEventQueue c"
  "unorderedEventQueue (armed now o' c) = unorderedEventQueue c"
  "cs_subs (armed now o' c) = cs_subs c" "cs_payloads (armed now o' c) = cs_payloads c"
  "scheduled (armed now o' c) = scheduled c" "orderedTasks (armed now o' c) = orderedTasks c"
  "ctlLog (armed now o' c) = ctlLog c" "pendingTimeoutMessage (armed now o' c)"
  by (simp_all add: armed_def SetTimeout_def)

definition delivered_to :: "env \<Rightarrow> int64 \<Rightarrow> ord_ptr \<Rightarrow> ctl_state \<Rightarrow> ctl_state" where
  "delivered_to E now o' c =
     (let i = nextReceiver (ordHeap c o'); c4 = armed now o' c
      in if outcome E c4 o' i = Frozen then freeze_event c4 o' i else c4)"

lemma dispatch_form:
  assumes "nextReceiver (ordHeap c o') < length (receivers (ordHeap c o'))"
  defines "i \<equiv> nextReceiver (ordHeap c o')" and "l \<equiv> commonEventListener (receiver_at c o' (nextReceiver (ordHeap c o')))"
  shows "dispatch E pm now o' c =
    (let out = outcome E (armed now o' c) o' i;
         es = outcome_log E pm (armed now o' c) o' i
     in if out = Delivered
        then log_ctl es (upd_ord o' (outcome_rec out l i) (delivered_to E now o' c))
        else snd (ScheduleOrderedCommonEvent (log_ctl es
               (upd_ord o' (\<lambda>r. (outcome_rec out l i r)\<lparr>state := event_code IDLE\<rparr>)
                 (delivered_to E now o' c)))))"
proof -
  have prep: "PrepareNextReceiverRecord now o' c = (i, upd_ord o' (prepared now) c)"
    by (simp add: PrepareNextReceiverRecord_def Let_def i_def upd_ord_def prepared_def)
  have armed: "(if \<not> pendingTimeoutMessage c3 then SetTimeout c3 else c3) = SetTimeout c3" for c3
    by (simp add: SetTimeout_def)
  have l: "commonEventListener (receiver_at (armed now o' c) o' i) = l"
    by (simp add: receiver_at_def i_def l_def)
  have "i < length (receivers (ordHeap (armed now o' c) o'))" using assms(1) by (simp add: i_def)
  note N = NotifyOrderedEvent_form [OF this, of E pm, unfolded l]
  define out where "out = outcome E (armed now o' c) o' i"
  have "(curReceiver (outcome_rec out l i r) = None) = (out \<noteq> Delivered)" for r
    by (cases out) simp_all
  then show ?thesis
    unfolding dispatch_def prep prod.case Let_def armed armed_def [symmetric] N out_def [symmetric]
      delivered_to_def i_def [symmetric]
    by simp
qed

lemma dispatch_core:
  assumes inv: "core_inv c" and q: "orderedEventQueue c = o' # os" and ready: "ready_rec (ordHeap c o')"
  shows "core_inv (delivered_to E now o' c)"
proof -
  have o': "o' < ordNext c" using core_invD(3) [OF inv] q by simp
  have "core_inv (upd_ord o' (prepared now) c)"
  proof (rule core_upd_ord [OF inv o', where r = "prepared now (ordHeap c o')"], goal_cases)
    case 2
    then show ?case
      using core_invD(9) [OF inv o'] ready by (simp add: rec_ok_def ready_rec_def)
  next
    case 3
    then show ?case using core_invD(7) [OF inv 3] q by simp
  next
    case 4
    then show ?case using ready by (simp add: ready_rec_def idle_rec_def)
  next
    case 5
    then show ?case using core_invD(2) [OF inv] q by auto
  qed simp
  then have "core_inv (armed now o' c)" by (simp add: armed_def core_SetTimeout)
  then show ?thesis by (simp add: delivered_to_def Let_def core_freeze_event)
qed

lemma delivered_to_simps [simp]:
  "ordHeap (delivered_to E now o' c) = (ordHeap c)(o' := prepared now (ordHeap c o'))"
  "ordNext (delivered_to E now o' c) = ordNext c"
  "orderedEventQueue (delivered_to E now o' c) = orderedEventQueue c"
  "unorderedEventQueue (delivered_to E now o' c) = unorderedEventQueue c"
  "scheduled (delivered_to E now o' c) = scheduled c"
  "orderedTasks (delivered_to E now o' c) = orderedTasks c"
  "pendingTimeoutMessage (delivered_to E now o' c)" "ctlLog (delivered_to E now o' c) = ctlLog c"
  "cs_payloads (delivered_to E now o' c) = cs_payloads c"
  "subHeap (cs_subs (delivered_to E now o' c)) = subHeap (cs_subs c)"
  "subNext (cs_subs (delivered_to E now o' c)) = subNext (cs_subs c)"
  by (simp_all add: delivered_to_def Let_def)

lemma dispatch_inv:
  assumes inv: "core_inv c" and q: "orderedEventQueue c = o' # os" and ready: "ready_rec (ordHeap c o')"
  shows "ctl_inv (dispatch E pm now o' c)"
proof -
  define r where "r = ordHeap c o'"
  define i where "i = nextReceiver r"
  define d where "d = delivered_to E now o' c"
  define l where "l = commonEventListener (receiver_at c o' i)"
  have i: "i < length (receivers r)" using ready by (simp add: ready_rec_def i_def r_def)
  have core: "core_inv d" unfolding d_def by (rule dispatch_core [OF inv q ready])
  have o': "o' < ordNext d" using core_invD(3) [OF inv] q by (simp add: d_def)
  have dq: "orderedEventQueue d = o' # os" using q by (simp add: d_def)
  have notu: "o' \<notin> set (unorderedEventQueue d)" using core_invD(7) [OF core] dq by auto
  have nottl: "o' \<notin> set os" using core_invD(2) [OF core] dq by simp
  have ro: "rec_ok (cs_subs d) (prepared now r)"
    using core_invD(9) [OF core o'] by (simp add: d_def r_def)
  define out where "out = outcome E (armed now o' c) o' i"
  have form: "dispatch E pm now o' c =
    (if out = Delivered
     then log_ctl (outcome_log E pm (armed now o' c) o' i) (upd_ord o' (outcome_rec out l i) d)
     else snd (ScheduleOrderedCommonEvent (log_ctl (outcome_log E pm (armed now o' c) o' i)
            (upd_ord o' (\<lambda>r. (outcome_rec out l i r)\<lparr>state := event_code IDLE\<rparr>) d))))"
    using dispatch_form [of c o' E pm now] i
    by (simp add: Let_def out_def i_def r_def l_def d_def)
  show ?thesis
  proof (cases "out = Delivered")
    case True
    have "core_inv (upd_ord o' (outcome_rec out l i) d)"
    proof (rule core_upd_ord [OF core o', where r = "outcome_rec out l i (prepared now r)"], goal_cases)
      case 2
      then show ?case using ro by (simp add: True rec_ok_def)
    next
      case (4 os)
      have "waiting_rec (cs_subs d) (outcome_rec out l i (prepared now r))"
        using i by (simp add: True waiting_rec_def i_def l_def receiver_at_def d_def r_def)
      then show ?case by (simp add: d_def)
    qed (use notu nottl dq in \<open>simp_all add: d_def r_def\<close>)
    then show ?thesis
      unfolding form by (simp add: True ctl_inv_def progress_def dq)
  next
    case False
    have "core_inv (upd_ord o' (\<lambda>r. (outcome_rec out l i r)\<lparr>state := event_code IDLE\<rparr>) d)"
    proof (rule core_upd_ord [OF core o',
          where r = "(outcome_rec out l i (prepared now r))\<lparr>state := event_code IDLE\<rparr>"], goal_cases)
      case 2
      then show ?case using ro False by (cases out) (simp_all add: rec_ok_def)
    next
      case (4 os)
      then show ?case using False by (cases out) (simp_all add: idle_rec_def)
    qed (use notu nottl dq in \<open>simp_all add: d_def r_def\<close>)
    then show ?thesis
      unfolding form using False by (simp add: ctl_inv_Schedule)
  qed
qed

text \<open>A task of the ordered queue: it is taken from the list and run.\<close>

lemma ProcessNextOrderedEvent_inv [ces_inv]:
  assumes inv: "ctl_inv c" and t: "orderedTasks c = b # ts"
  shows "ctl_inv (ProcessNextOrderedEvent E pm now b (c\<lparr>orderedTasks := ts\<rparr>))"
proof -
  let ?c = "c\<lparr>orderedTasks := ts\<rparr>"
  define c0 where "c0 = (if b then ?c\<lparr>scheduled := False\<rparr> else ?c)"
  have core0: "core_inv c0"
    using inv t by (cases b) (auto simp: c0_def ctl_inv_def core_inv_def split: if_splits)
  obtain sp removed c1 where scan: "ProcessOrderedEventQueueLocked now [] c0 = (sp, removed, c1)"
    by (cases "ProcessOrderedEventQueueLocked now [] c0") auto
  from scan_spec [OF core0 scan] have core1: "core_inv c1" and frame: "scan_frame c0 c1"
    and sp: "case sp of
       None \<Rightarrow> orderedEventQueue c1 = [] \<or>
         state (ordHeap c1 (hd (orderedEventQueue c1))) \<noteq> event_code IDLE
     | Some o' \<Rightarrow> (\<exists>os. orderedEventQueue c1 = o' # os) \<and> ready_rec (ordHeap c1 o')"
    and "\<exists>n. removed = take n (orderedEventQueue c0)"
    by auto
  then have rem: "set removed \<subseteq> set (orderedEventQueue c0)"
    using set_take_subset by metis
  define c2 where "c2 = foldl (\<lambda>c o'. snd (HandleFinalSubscriber E o' c)) c1 removed"
  have "\<forall>o' \<in> set removed. o' < ordNext c1"
    using rem core_invD(3) [OF core0] frame by (auto simp: scan_frame_def)
  from final_fold [OF core1 this, of E]
  have core2: "core_inv c2" and ff: "final_frame c1 c2" by (simp_all add: c2_def)
  have q2: "orderedEventQueue c2 = orderedEventQueue c1"
    and s2: "\<And>o'. state (ordHeap c2 o') = state (ordHeap c1 o')"
    "\<And>o'. ready_rec (ordHeap c2 o') = ready_rec (ordHeap c1 o')"
  proof -
    fix o'
    from final_frameD(2) [OF ff, of o']
    show "state (ordHeap c2 o') = state (ordHeap c1 o')"
      "ready_rec (ordHeap c2 o') = ready_rec (ordHeap c1 o')"
      by (auto simp: ready_rec_def idle_rec_def)
  qed (rule final_frameD(1) [OF ff])
  have run: "ProcessNextOrderedEvent E pm now b ?c =
      (case sp of None \<Rightarrow> c2 | Some o' \<Rightarrow> dispatch E pm now o' c2)"
    unfolding ProcessNextOrderedEvent_dispatch c0_def [symmetric] scan c2_def Let_def by simp
  show ?thesis
  proof (cases sp)
    case None
    then have "progress c2" using sp q2 s2 by (auto simp: progress_def)
    then show ?thesis using core2 by (simp add: run None ctl_inv_def)
  next
    case (Some o')
    then obtain os where "orderedEventQueue c2 = o' # os" "ready_rec (ordHeap c2 o')"
      using sp q2 s2 by auto
    then show ?thesis using dispatch_inv [OF core2] by (simp add: run Some)
  qed
qed

end
