(* ===== verification/Unordered_Delivery.thy ===== *)
theory Unordered_Delivery
  imports Control_Steps
begin

text \<open>
  What the task of an unordered event does, in closed form: the loop over the receivers marks
  every delivery, keeps the event for the frozen receivers and notifies the others.  From it
  the preservation of the invariant, and the same for the publication of unordered and of
  frozen events.
\<close>

section \<open>The loop in closed form\<close>

definition mark_of :: "env \<Rightarrow> EventSubscriberRecord \<Rightarrow> DeliveryState" where
  "mark_of E sub =
     (if isFreeze sub then SKIPPED
      else if ipc_is_receiver E (commonEventListener sub) then DELIVERED else SKIPPED)"

definition notified :: "env \<Rightarrow> payload \<Rightarrow> EventSubscriberRecord \<Rightarrow> bool" where
  "notified E pl sub \<longleftrightarrow> \<not> isFreeze sub \<and> ipc_is_receiver E (commonEventListener sub)"

definition accepted :: "env \<Rightarrow> payload \<Rightarrow> EventSubscriberRecord \<Rightarrow> bool" where
  "accepted E pl sub \<longleftrightarrow> notified E pl sub \<and>
     ipc_notify E (commonEventListener sub) (commonEventData pl) False (pi_sticky (publishInfo pl)) = ERR_OK"

definition delivery_log ::
  "env \<Rightarrow> (string, Permission) umap \<Rightarrow> payload \<Rightarrow> EventSubscriberRecord \<Rightarrow> ctl_effect list" where
  "delivery_log E pm pl sub =
     (if notified E pl sub
      then [NotifyEvent (commonEventListener sub) (commonEventData pl) False (pi_sticky (publishInfo pl))]
      else []) @
     (if accepted E pl sub
      then map (\<lambda>(t, p). AddPermissionUsedRecord t p)
             (RecordSensitivePermissionUsage E pm (callerToken (subRecordInfo sub)) (action_of pl))
      else [])"

definition keep_frozen :: "CommonEventRecord \<Rightarrow> sub_ptr \<Rightarrow> sub_state \<Rightarrow> sub_state" where
  "keep_frozen er p s =
     (if isFreeze (subHeap s p)
      then InsertFrozenEventsMap (Some p) er (InsertFrozenEvents (Some p) er s) else s)"

lemma keep_frozen_simps [simp]:
  "subHeap (keep_frozen er p s) = subHeap s" "subNext (keep_frozen er p s) = subNext s"
  "subscribers (keep_frozen er p s) = subscribers s"
  "sub_inv (keep_frozen er p s) = sub_inv s"
  by (simp_all add: keep_frozen_def ces_frame)

lemma keep_frozen_fold [simp]:
  "subHeap (fold (keep_frozen er) ps s) = subHeap s"
  "subNext (fold (keep_frozen er) ps s) = subNext s"
  "subscribers (fold (keep_frozen er) ps s) = subscribers s"
  "sub_inv (fold (keep_frozen er) ps s) = sub_inv s"
  by (induction ps arbitrary: s) simp_all

definition new_state :: "env \<Rightarrow> payload \<Rightarrow> EventSubscriberRecord \<Rightarrow> int \<Rightarrow> int" where
  "new_state E pl sub st = (if notified E pl sub then event_code RECEIVED else st)"

lemma slice_frame [simp]:
  "slice (r\<lparr>nextReceiver := n\<rparr>) = slice r" "slice (r\<lparr>deliveryState := d\<rparr>) = slice r"
  "slice (r\<lparr>state := st\<rparr>) = slice r" "slice (r\<lparr>curReceiver := l\<rparr>) = slice r"
  by (simp_all add: slice_def)

text \<open>Both outcomes of a notification store the number 2 in \<open>state\<close>, as \<open>RECEIVED\<close> or as
  \<open>SKIPPED\<close>.\<close>

lemma NotifySingle_form:
  "snd (NotifySingleUnorderedSubscriber E pm o' p i c) =
     c\<lparr>cs_subs := keep_frozen (slice (ordHeap c o')) p (cs_subs c),
       ordHeap := (ordHeap c)(o' := (ordHeap c o')
         \<lparr>deliveryState := (deliveryState (ordHeap c o'))[i := mark_of E (sub_rec c p)],
          state := new_state E (payload_of c o') (sub_rec c p) (state (ordHeap c o'))\<rparr>),
       ctlLog := ctlLog c @ delivery_log E pm (payload_of c o') (sub_rec c p)\<rparr>"
proof (cases "isFreeze (sub_rec c p)")
  case True
  have "slice ((ordHeap c o')\<lparr>deliveryState := d\<rparr>) = slice (ordHeap c o')" for d
    by (simp add: slice_def)
  then show ?thesis
    using True
    by (auto simp: NotifySingleUnorderedSubscriber_def HandleFrozenUnorderedSubscriber_def Let_def
      keep_frozen_def mark_of_def new_state_def notified_def accepted_def delivery_log_def fun_eq_iff
      intro!: ctl_state.equality OrderedEventRecord.equality)
next
  case False
  then show ?thesis
    by (cases "ipc_is_receiver E (commonEventListener (sub_rec c p))";
        cases "ipc_notify E (commonEventListener (sub_rec c p)) (commonEventData (payload_of c o')) False
                (pi_sticky (publishInfo (payload_of c o'))) = ERR_OK")
      (auto simp: NotifySingleUnorderedSubscriber_def Let_def permission_used_def
        keep_frozen_def mark_of_def new_state_def notified_def accepted_def delivery_log_def fun_eq_iff
        intro!: ctl_state.equality OrderedEventRecord.equality)
qed

text \<open>\<open>overwrite i xs ys\<close> replaces the elements of \<open>ys\<close> from \<open>i\<close> on by \<open>xs\<close>.\<close>

definition overwrite :: "nat \<Rightarrow> 'a list \<Rightarrow> 'a list \<Rightarrow> 'a list" where
  "overwrite i xs ys = take i ys @ xs @ drop (i + length xs) ys"

lemma overwrite_step:
  "i < length ys \<Longrightarrow> overwrite (Suc i) xs (ys[i := x]) = overwrite i (x # xs) ys"
  by (simp add: overwrite_def take_Suc_conv_app_nth)

lemma length_overwrite: "i + length xs \<le> length ys \<Longrightarrow> length (overwrite i xs ys) = length ys"
  by (simp add: overwrite_def)

lemma NotifyUnordered_loop_form:
  assumes "nextReceiver (ordHeap c o') + length ps \<le> length (deliveryState (ordHeap c o'))"
  shows "\<exists>st. NotifyUnordered_loop E pm o' ps c =
    c\<lparr>cs_subs := fold (keep_frozen (slice (ordHeap c o'))) ps (cs_subs c),
      ordHeap := (ordHeap c)(o' := (ordHeap c o')
        \<lparr>nextReceiver := nextReceiver (ordHeap c o') + length ps,
         deliveryState := overwrite (nextReceiver (ordHeap c o')) (map (\<lambda>p. mark_of E (sub_rec c p)) ps)
           (deliveryState (ordHeap c o')), state := st\<rparr>),
      ctlLog := ctlLog c @ concat (map (\<lambda>p. delivery_log E pm (payload_of c o') (sub_rec c p)) ps)\<rparr>"
  using assms
proof (induction ps arbitrary: c)
  case Nil
  show ?case
    by (intro exI [of _ "state (ordHeap c o')"]) (simp add: overwrite_def)
next
  case (Cons p ps)
  define r where "r = ordHeap c o'"
  define r1 where "r1 = r\<lparr>nextReceiver := nextReceiver r + 1,
      deliveryState := (deliveryState r)[nextReceiver r := mark_of E (sub_rec c p)],
      state := new_state E (payload_of c o') (sub_rec c p) (state r)\<rparr>"
  define c1 where "c1 = snd (NotifySingleUnorderedSubscriber E pm o' p (nextReceiver r)
      (upd_ord o' (\<lambda>r. r\<lparr>nextReceiver := nextReceiver (ordHeap c o') + 1\<rparr>) c))"
  have sl: "slice (r\<lparr>nextReceiver := n\<rparr>) = slice r" "slice r1 = slice r" for n
    by (simp_all add: slice_def r1_def)
  have c1: "c1 = c\<lparr>cs_subs := keep_frozen (slice r) p (cs_subs c),
      ordHeap := (ordHeap c)(o' := r1),
      ctlLog := ctlLog c @ delivery_log E pm (payload_of c o') (sub_rec c p)\<rparr>"
    unfolding c1_def NotifySingle_form
    by (rule ctl_state.equality) (simp_all add: sl r_def [symmetric] r1_def)
  have len: "nextReceiver (ordHeap c1 o') + length ps \<le> length (deliveryState (ordHeap c1 o'))"
    using Cons.prems by (simp add: c1 r1_def r_def)
  have same: "subHeap (cs_subs c1) = subHeap (cs_subs c)" "cs_payloads c1 (payloadPtr r1) = payload_of c o'"
    "ordHeap c1 o' = r1" by (simp_all add: c1 r1_def r_def)
  obtain st where IH: "NotifyUnordered_loop E pm o' ps c1 =
    c1\<lparr>cs_subs := fold (keep_frozen (slice r1)) ps (cs_subs c1),
      ordHeap := (ordHeap c1)(o' := r1
        \<lparr>nextReceiver := nextReceiver r1 + length ps,
         deliveryState := overwrite (nextReceiver r1) (map (\<lambda>p. mark_of E (sub_rec c p)) ps)
           (deliveryState r1), state := st\<rparr>),
      ctlLog := ctlLog c1 @ concat (map (\<lambda>p. delivery_log E pm (payload_of c o') (sub_rec c p)) ps)\<rparr>"
    using Cons.IH [OF len] unfolding same by blast
  have step: "NotifyUnordered_loop E pm o' (p # ps) c = NotifyUnordered_loop E pm o' ps c1"
    by (simp add: Let_def c1_def r_def)
  have ow: "overwrite (Suc (nextReceiver r)) (map (\<lambda>p. mark_of E (sub_rec c p)) ps)
      ((deliveryState r)[nextReceiver r := mark_of E (sub_rec c p)]) =
      overwrite (nextReceiver r) (map (\<lambda>p. mark_of E (sub_rec c p)) (p # ps)) (deliveryState r)"
    using Cons.prems by (simp add: overwrite_step r_def)
  show ?case
    unfolding step IH r_def [symmetric]
    by (intro exI [of _ st] ctl_state.equality) (simp_all add: c1 r1_def ow [simplified], auto simp: r_def fun_eq_iff)
qed

section \<open>Running the task\<close>

lemma CanLog_frame: "\<exists>m. snd (CanLogUnorderedEvent e now c) = c\<lparr>unorderedEventLogCache := m\<rparr>"
  by (rule exI [of _ "unorderedEventLogCache (snd (CanLogUnorderedEvent e now c))"])
    (simp add: CanLogUnorderedEvent_def Let_def case_prod_unfold)

text \<open>The state after the deliveries: \<open>st\<close> is the record's last \<open>state\<close>, \<open>m\<close> the log
  cache.\<close>

definition after_delivery ::
  "env \<Rightarrow> (string, Permission) umap \<Rightarrow> ord_ptr \<Rightarrow> int \<Rightarrow> (string \<times> int64 \<times> nat) list \<Rightarrow> ctl_state \<Rightarrow>
     ctl_state" where
  "after_delivery E pm o' st m c =
     (let r = ordHeap c o'; ps = receivers r
      in c\<lparr>cs_subs := fold (keep_frozen (slice r)) ps (cs_subs c),
           ordHeap := (ordHeap c)(o' := r\<lparr>nextReceiver := length ps,
             deliveryState := map (\<lambda>p. mark_of E (sub_rec c p)) ps, state := st\<rparr>),
           ctlLog := ctlLog c @ concat (map (\<lambda>p. delivery_log E pm (payload_of c o') (sub_rec c p)) ps),
           unorderedEventLogCache := m\<rparr>)"

text \<open>The task of \<open>o'\<close> has left its queue; \<open>NotifyUnorderedEvent\<close> takes the record out of
  \<open>unorderedEventQueue\<close>.\<close>

lemma NotifyUnorderedEvent_form:
  assumes "nextReceiver (ordHeap c o') = 0" "length (deliveryState (ordHeap c o')) = length (receivers (ordHeap c o'))"
  shows "\<exists>st m. snd (NotifyUnorderedEvent E pm now (Some o') c) =
    (after_delivery E pm o' st m c)\<lparr>unorderedEventQueue := remove1 o' (unorderedEventQueue c)\<rparr>"
proof -
  let ?ps = "receivers (ordHeap c o')"
  have "overwrite 0 (map (\<lambda>p. mark_of E (sub_rec c p)) ?ps) (deliveryState (ordHeap c o')) =
      map (\<lambda>p. mark_of E (sub_rec c p)) ?ps"
    using assms by (simp add: overwrite_def)
  then obtain st where L: "NotifyUnordered_loop E pm o' ?ps c =
    c\<lparr>cs_subs := fold (keep_frozen (slice (ordHeap c o'))) ?ps (cs_subs c),
      ordHeap := (ordHeap c)(o' := (ordHeap c o')
        \<lparr>nextReceiver := length ?ps,
         deliveryState := map (\<lambda>p. mark_of E (sub_rec c p)) ?ps, state := st\<rparr>),
      ctlLog := ctlLog c @ concat (map (\<lambda>p. delivery_log E pm (payload_of c o') (sub_rec c p)) ?ps)\<rparr>"
    using NotifyUnordered_loop_form [of c o' ?ps E pm] assms by auto
  let ?c1 = "NotifyUnordered_loop E pm o' ?ps c"
  obtain m where m: "snd (CanLogUnorderedEvent (action_of (payload_of ?c1 o')) now ?c1) =
      ?c1\<lparr>unorderedEventLogCache := m\<rparr>"
    using CanLog_frame by blast
  have "snd (NotifyUnorderedEvent E pm now (Some o') c) =
      (?c1\<lparr>unorderedEventLogCache := m\<rparr>)\<lparr>unorderedEventQueue := remove1 o' (unorderedEventQueue ?c1)\<rparr>"
    by (simp add: NotifyUnorderedEvent_def NotifyUnorderedEventLocked_def Let_def m)
  also have "\<dots> = (after_delivery E pm o' st m c)\<lparr>unorderedEventQueue := remove1 o' (unorderedEventQueue c)\<rparr>"
    unfolding L by (simp add: after_delivery_def Let_def)
  finally show ?thesis by blast
qed

text \<open>A state that differs only in one record outside both queues, the frozen events, the log
  and the cache.\<close>

lemma core_outside:
  assumes inv: "core_inv c" and out: "o' \<notin> set (orderedEventQueue c)" "o' \<notin> set (unorderedEventQueue c)"
    and r: "rec_ok (cs_subs c) r" and s: "sub_inv s" "subHeap s = subHeap (cs_subs c)"
      "subNext s = subNext (cs_subs c)"
  shows "core_inv (c\<lparr>cs_subs := s, ordHeap := (ordHeap c)(o' := r), ctlLog := es,
    unorderedEventLogCache := m\<rparr>)"
proof -
  have "queue_ok s (pendingTimeoutMessage c) ((ordHeap c)(o' := r)) (orderedEventQueue c) =
      queue_ok (cs_subs c) (pendingTimeoutMessage c) (ordHeap c) (orderedEventQueue c)"
    using out(1) by (intro queue_ok_cong) (auto simp: s(2))
  moreover have "rec_ok s q = rec_ok (cs_subs c) q" for q by (simp add: rec_ok_def s(3))
  ultimately show ?thesis using inv out r s(1) unfolding core_inv_def by auto
qed

lemma core_after_delivery:
  assumes inv: "core_inv c" and o': "o' < ordNext c" "o' \<notin> set (orderedEventQueue c)"
    "o' \<notin> set (unorderedEventQueue c)"
  shows "core_inv (after_delivery E pm o' st m c)"
  unfolding after_delivery_def Let_def
  by (rule core_outside [OF inv o'(2,3)])
    (use core_invD(9) [OF inv o'(1)] core_invD(1) [OF inv] in \<open>simp_all add: rec_ok_def\<close>)

lemma after_delivery_simps [simp]:
  "ordNext (after_delivery E pm o' st m c) = ordNext c"
  "orderedEventQueue (after_delivery E pm o' st m c) = orderedEventQueue c"
  "unorderedEventQueue (after_delivery E pm o' st m c) = unorderedEventQueue c"
  "orderedTasks (after_delivery E pm o' st m c) = orderedTasks c"
  "scheduled (after_delivery E pm o' st m c) = scheduled c"
  "q \<noteq> o' \<Longrightarrow> ordHeap (after_delivery E pm o' st m c) q = ordHeap c q"
  by (simp_all add: after_delivery_def Let_def)

lemma after_delivery_queue:
  "(after_delivery E pm o' st m c)\<lparr>unorderedEventQueue := us\<rparr> =
     after_delivery E pm o' st m (c\<lparr>unorderedEventQueue := us\<rparr>)"
  by (simp add: after_delivery_def Let_def)

text \<open>A task of one of the two queues: \<open>c\<close> is the state it leaves when it is taken.\<close>

lemma NotifyUnordered_task:
  assumes inv: "ctl_inv c" and mem: "o' \<in> set (unorderedEventQueue c)"
    and t: "c' = c\<lparr>unorderedQueue := us, unorderedImmediateQueue := ims\<rparr>"
    and tasks: "mset (unorderedQueue c @ notify_ptrs (unorderedImmediateQueue c)) =
      add_mset o' (mset (us @ notify_ptrs ims))"
  shows "ctl_inv (snd (NotifyUnorderedEvent E pm now (Some o') c'))"
proof -
  have core: "core_inv c" using inv by (simp add: ctl_inv_def)
  have o': "o' < ordNext c" "nextReceiver (ordHeap c o') = 0" "o' \<notin> set (orderedEventQueue c)"
    using core_invD(5-7) [OF core mem] .
  let ?d = "c'\<lparr>unorderedEventQueue := remove1 o' (unorderedEventQueue c)\<rparr>"
  have "mset (remove1 o' (unorderedEventQueue c)) = mset (us @ notify_ptrs ims)"
    using core_invD(8) [OF core] tasks by simp
  then have cored: "core_inv ?d"
    using core unfolding core_inv_def t by (auto dest: notin_set_remove1)
  have notin: "o' \<notin> set (unorderedEventQueue ?d)"
    using core_invD(4) [OF core] by simp
  obtain st m where "snd (NotifyUnorderedEvent E pm now (Some o') c') = after_delivery E pm o' st m ?d"
    using NotifyUnorderedEvent_form [of c' o' E pm now] o' core_invD(9) [OF core o'(1)]
    by (auto simp: t rec_ok_def after_delivery_queue)
  moreover have "core_inv (after_delivery E pm o' st m ?d)"
    using core_after_delivery [OF cored _ _ notin] o' by (simp add: t)
  moreover have "progress (after_delivery E pm o' st m ?d)"
    using inv o'(3) unfolding ctl_inv_def progress_def t
    by (cases "orderedEventQueue c") auto
  ultimately show ?thesis by (simp add: ctl_inv_def)
qed

end
