(* ===== verification/Control_Protocol.thy ===== *)
theory Control_Protocol
  imports Unordered_Delivery
begin

text \<open>
  Publication, timeouts and the step relation of the control manager.  A step is a call of one
  of the manager's operations by the rest of the service, a task of one of the \<open>ffrt\<close> queues
  or the timer, an answer of a receiver, or a change of the subscriber manager.  Every
  reachable state satisfies \<open>ctl_inv\<close>.
\<close>

section \<open>Publication\<close>

lemma core_lookup:
  assumes "core_inv c"
  shows "core_inv (c\<lparr>cs_subs := snd (GetSubscriberRecords E pm er pl (cs_subs c))\<rparr>)"
  by (rule core_upd_subs [OF assms])
    (simp_all add: GetSubscriberRecords_inv GetSubscriberRecords_bounds core_invD(1) [OF assms])

lemma core_alloc:
  assumes inv: "core_inv c" and r: "rec_ok (cs_subs c) r"
  shows "core_inv (snd (alloc_ord r c))"
proof -
  have old: "o' \<noteq> ordNext c" if "o' \<in> set (orderedEventQueue c) \<or> o' \<in> set (unorderedEventQueue c)" for o'
    using core_invD(3,5) [OF inv] that by fastforce
  have "queue_ok (cs_subs c) (pendingTimeoutMessage c) ((ordHeap c)(ordNext c := r)) (orderedEventQueue c)
      = queue_ok (cs_subs c) (pendingTimeoutMessage c) (ordHeap c) (orderedEventQueue c)"
    using old by (intro queue_ok_cong) auto
  then show ?thesis
    using inv r old unfolding core_inv_def alloc_ord_def by (auto simp: less_Suc_eq)
qed

lemma queue_ok_snoc: "queue_ok s b h os \<Longrightarrow> fresh_rec (h o') \<Longrightarrow> queue_ok s b h (os @ [o'])"
  by (cases os) (auto simp: fresh_rec_def)

lemma core_enqueue_ordered:
  assumes "core_inv c" "o' < ordNext c" "o' \<notin> set (orderedEventQueue c)"
    "o' \<notin> set (unorderedEventQueue c)" "fresh_rec (ordHeap c o')"
  shows "core_inv (c\<lparr>orderedEventQueue := orderedEventQueue c @ [o']\<rparr>)"
  using assms queue_ok_snoc [of "cs_subs c" "pendingTimeoutMessage c" "ordHeap c" "orderedEventQueue c" o']
  unfolding core_inv_def by auto

lemma core_enqueue_unordered:
  assumes "core_inv c" "o' < ordNext c" "o' \<notin> set (orderedEventQueue c)"
    "o' \<notin> set (unorderedEventQueue c)" "nextReceiver (ordHeap c o') = 0"
    and "mset (us @ notify_ptrs is) =
      add_mset o' (mset (unorderedQueue c @ notify_ptrs (unorderedImmediateQueue c)))"
  shows "core_inv (c\<lparr>unorderedEventQueue := unorderedEventQueue c @ [o'], unorderedQueue := us,
    unorderedImmediateQueue := is\<rparr>)"
  using assms unfolding core_inv_def by auto

lemma ProcessOrderedEvent_inv [ces_inv]:
  assumes inv: "ctl_inv c"
  shows "ctl_inv (snd (ProcessOrderedEvent E pm er l c))"
proof -
  have core: "core_inv c" using inv by (simp add: ctl_inv_def)
  define res where "res = GetSubscriberRecords E pm er (cs_payloads c (payloadPtr er)) (cs_subs c)"
  define r where "r = (FillCommonEventRecord er)\<lparr>resultTo := l, state := event_code IDLE,
      nextReceiver := 0, receivers := sort_receivers (snd res) (fst res),
      deliveryState := replicate (length (sort_receivers (snd res) (fst res))) PENDING\<rparr>"
  let ?c = "c\<lparr>cs_subs := snd res\<rparr>"
  let ?d = "snd (alloc_ord r ?c)"
  have core1: "core_inv ?c" unfolding res_def by (rule core_lookup [OF core])
  have "rec_ok (cs_subs ?c) r"
    using GetSubscriberRecords_bounds(1) [OF core_invD(1) [OF core]]
    by (auto simp: rec_ok_def r_def sort_receivers_def res_def)
  then have core2: "core_inv ?d" by (simp add: core_alloc [OF core1])
  have f: "fresh_rec r" by (simp add: fresh_rec_def idle_rec_def r_def)
  have "core_inv (?d\<lparr>orderedEventQueue := orderedEventQueue ?d @ [ordNext c]\<rparr>)"
    by (rule core_enqueue_ordered [OF core2])
      (use core_invD(3,5) [OF core] f in \<open>auto simp: alloc_ord_def\<close>)
  moreover have "snd (ProcessOrderedEvent E pm er l c) =
      snd (ScheduleOrderedCommonEvent (?d\<lparr>orderedEventQueue := orderedEventQueue ?d @ [ordNext c]\<rparr>))"
    unfolding ProcessOrderedEvent_def res_def [symmetric]
    by (simp add: case_prod_unfold Let_def r_def EnqueueOrderedRecord_def alloc_ord_def)
  ultimately show ?thesis by (simp add: ctl_inv_Schedule)
qed

lemma ProcessUnorderedEvent_inv [ces_inv]:
  assumes inv: "ctl_inv c" and p: "\<And>p. sub_opt = Some p \<Longrightarrow> p < subNext (cs_subs c)"
  shows "ctl_inv (snd (ProcessUnorderedEvent E pm er sub_opt c))"
proof -
  have core: "core_inv c" using inv by (simp add: ctl_inv_def)
  define res where "res = (case sub_opt of
              Some p \<Rightarrow> ([p], cs_subs c)
            | None \<Rightarrow> GetSubscriberRecords E pm er (cs_payloads c (payloadPtr er)) (cs_subs c))"
  define r where "r = (FillCommonEventRecord er)\<lparr>receivers := fst res,
      deliveryState := replicate (length (fst res)) PENDING\<rparr>"
  let ?c = "c\<lparr>cs_subs := snd res\<rparr>"
  let ?d = "snd (alloc_ord r ?c)"
  have core1: "core_inv ?c"
    unfolding res_def using core core_lookup [OF core] by (simp split: option.split)
  have "rec_ok (cs_subs ?c) r"
    using GetSubscriberRecords_bounds(1) [OF core_invD(1) [OF core]] p
    by (auto simp: rec_ok_def r_def res_def split: option.split)
  then have core2: "core_inv ?d" by (simp add: core_alloc [OF core1])
  define us where "us = (if isSystemEvent er then unorderedQueue c else unorderedQueue c @ [ordNext c])"
  define "is" where "is = (if isSystemEvent er
     then unorderedImmediateQueue c @ [NotifyTask (ordNext c)] else unorderedImmediateQueue c)"
  define e where "e = ?d\<lparr>unorderedEventQueue := unorderedEventQueue ?d @ [ordNext c],
    unorderedQueue := us, unorderedImmediateQueue := is\<rparr>"
  have core3: "core_inv e"
    unfolding e_def
    by (rule core_enqueue_unordered [OF core2])
      (use core_invD(3,5) [OF core] in \<open>auto simp: alloc_ord_def r_def us_def is_def\<close>)
  have eq: "snd (ProcessUnorderedEvent E pm er sub_opt c) = e"
    unfolding ProcessUnorderedEvent_def res_def [symmetric]
    by (simp add: case_prod_unfold Let_def r_def EnqueueUnorderedRecord_def alloc_ord_def e_def
      us_def is_def)
  have "hd (orderedEventQueue c) \<noteq> ordNext c" if "orderedEventQueue c \<noteq> []"
    using core_invD(3) [OF core] hd_in_set [OF that] by fastforce
  then have "progress e"
    using inv by (auto simp: ctl_inv_def progress_def e_def alloc_ord_def)
  then show ?thesis unfolding eq using core3 by (simp add: ctl_inv_def)
qed

section \<open>Frozen events\<close>

lemma ctl_inv_frame:
  assumes "ctl_inv c" "core_inv d" "orderedEventQueue d = orderedEventQueue c"
    "orderedTasks d = orderedTasks c" "ordHeap d = ordHeap c"
  shows "ctl_inv d"
  using assms by (simp add: ctl_inv_def progress_def)

lemma PublishFrozenEventsInner_inv:
  assumes "ctl_inv c"
  shows "ctl_inv (PublishFrozenEventsInner records c)"
proof -
  have "notify_ptrs (concat (map (\<lambda>(l, sub, ers). map (\<lambda>er. FreezeTask sub er) ers) records)) = []"
    by (induction records) auto
  then have "core_inv (PublishFrozenEventsInner records c)"
    using assms by (simp add: ctl_inv_def core_inv_def PublishFrozenEventsInner_def)
  then show ?thesis by (rule ctl_inv_frame [OF assms]) (simp_all add: PublishFrozenEventsInner_def)
qed

lemma ctl_inv_upd_subs:
  assumes "ctl_inv c" "sub_inv s" "subNext (cs_subs c) \<le> subNext s"
    and "\<And>p. p < subNext (cs_subs c) \<Longrightarrow> listener_at s p = listener_at (cs_subs c) p"
  shows "ctl_inv (c\<lparr>cs_subs := s\<rparr>)"
  by (rule ctl_inv_frame [OF assms(1)]) (use assms in \<open>auto simp: ctl_inv_def intro: core_upd_subs\<close>)

lemma sub_inv_of_ctl: "ctl_inv c \<Longrightarrow> sub_inv (cs_subs c)"
  by (simp add: ctl_inv_def core_inv_def)

lemma PublishFreezeCommonEvent_inv [ces_inv]:
  assumes "ctl_inv c" shows "ctl_inv (snd (PublishFreezeCommonEvent u c))"
  using assms sub_inv_of_ctl [OF assms]
  by (auto simp: PublishFreezeCommonEvent_def case_prod_unfold ces_frame Let_def
    intro!: PublishFrozenEventsInner_inv ctl_inv_upd_subs)

lemma PublishFreeze_pids_inv: "ctl_inv c \<Longrightarrow> ctl_inv (PublishFreeze_pids qs c)"
proof (induction qs arbitrary: c)
  case (Cons q qs)
  let ?r = "GetFrozenEventsMapByPid q (cs_subs c)"
  have "ctl_inv (c\<lparr>cs_subs := snd ?r\<rparr>)"
    by (rule ctl_inv_upd_subs [OF Cons.prems])
      (simp_all add: ces_frame sub_inv_of_ctl [OF Cons.prems])
  then have "ctl_inv (PublishFrozenEventsInner (fst ?r) (c\<lparr>cs_subs := snd ?r\<rparr>))"
    by (rule PublishFrozenEventsInner_inv)
  from Cons.IH [OF this] show ?case by (simp add: case_prod_unfold Let_def)
qed simp

lemma PublishFreezeCommonEvent_pids_inv [ces_inv]:
  "ctl_inv c \<Longrightarrow> ctl_inv (snd (PublishFreezeCommonEvent_pids qs c))"
  by (simp add: PublishFreezeCommonEvent_pids_def PublishFreeze_pids_inv)

lemma PublishFrozen_foldl_inv:
  "ctl_inv c \<Longrightarrow> ctl_inv (foldl (\<lambda>c (k, records). PublishFrozenEventsInner records c) c m)"
  by (induction m arbitrary: c) (auto simp: PublishFrozenEventsInner_inv)

lemma PublishAllFreezeCommonEvents_inv [ces_inv]:
  "ctl_inv c \<Longrightarrow> ctl_inv (snd (PublishAllFreezeCommonEvents c))"
  by (simp add: PublishAllFreezeCommonEvents_def Let_def PublishFrozen_foldl_inv)

lemma NotifyFreezeEvents_inv [ces_inv]:
  assumes "ctl_inv c" shows "ctl_inv (snd (NotifyFreezeEvents E pm sub er c))"
  by (rule ctl_inv_frame [OF assms])
    (use assms in \<open>simp_all add: NotifyFreezeEvents_def Let_def ctl_inv_def\<close>)

section \<open>The timer\<close>

lemma core_disarm:
  assumes "core_inv c" "orderedEventQueue c = o' # os" "idle_rec (ordHeap c o')"
  shows "core_inv (c\<lparr>pendingTimeoutMessage := False, timeoutTasks := 0\<rparr>)"
  using assms by (simp add: core_inv_def)

lemma CurrentOrderedEventTimeout_inv [ces_inv]:
  assumes inv: "ctl_inv c" and t: "timeoutTasks c > 0"
  shows "ctl_inv (CurrentOrderedEventTimeout now True (c\<lparr>timeoutTasks := timeoutTasks c - 1\<rparr>))"
proof -
  have core: "core_inv c" using inv by (simp add: ctl_inv_def)
  have one: "timeoutTasks c = 1" "pendingTimeoutMessage c"
    using core_invD(10) [OF core] t by (auto split: if_splits)
  let ?c0 = "c\<lparr>timeoutTasks := 0, pendingTimeoutMessage := False\<rparr>"
  show ?thesis
  proof (cases "orderedEventQueue c")
    case Nil
    then have "ctl_inv ?c0" using inv by (auto simp: ctl_inv_def core_inv_def progress_def)
    then show ?thesis
      by (simp add: CurrentOrderedEventTimeout_def Let_def GetFrontOrderedRecord_def one Nil)
  next
    case (Cons o' os)
    show ?thesis
    proof (cases "receiverTime (ordHeap c o') + TIMEOUT_MS > now")
      case True
      then have "CurrentOrderedEventTimeout now True (c\<lparr>timeoutTasks := timeoutTasks c - 1\<rparr>) = c"
        using one by (simp add: CurrentOrderedEventTimeout_def Let_def GetFrontOrderedRecord_def Cons
          CheckAndRescheduleTimeout_def SetTimeout_def)
      then show ?thesis using inv by simp
    next
      case False
      have o': "o' < ordNext c" using core_invD(3) [OF core] Cons by simp
      let ?d = "log_ctl (timeout_report ?c0 o') (upd_ord o' (timed_out now) c)"
      have d: "core_inv ?d" using core_upd_rest [OF core o', of "timed_out now"] by simp
      have idle: "idle_rec (ordHeap ?d o')" by (simp add: idle_rec_def)
      have q: "orderedEventQueue ?d = o' # os" using Cons by simp
      have "core_inv (?d\<lparr>pendingTimeoutMessage := False, timeoutTasks := 0\<rparr>)"
        by (rule core_disarm [OF d q idle])
      moreover have "CurrentOrderedEventTimeout now True (c\<lparr>timeoutTasks := timeoutTasks c - 1\<rparr>) =
          snd (ScheduleOrderedCommonEvent (?d\<lparr>pendingTimeoutMessage := False, timeoutTasks := 0\<rparr>))"
      proof -
        have same: "log_ctl (timeout_report ?c0 o') (upd_ord o' (timed_out now) ?c0) =
            ?d\<lparr>pendingTimeoutMessage := False, timeoutTasks := 0\<rparr>"
          by (rule ctl_state.equality) simp_all
        show ?thesis
          using False one
          by (simp add: CurrentOrderedEventTimeout_def Let_def GetFrontOrderedRecord_def Cons
            CheckAndRescheduleTimeout_def HandleTimeoutReceiver_form same)
      qed
      ultimately show ?thesis by (simp add: ctl_inv_Schedule)
    qed
  qed
qed

section \<open>The step relation\<close>

inductive ctl_step :: "ctl_state \<Rightarrow> ctl_state \<Rightarrow> bool" where
  publish: "ctl_step c (snd (PublishCommonEvent_ctl E pm er l c))"
| publish_sticky:
    "p < subNext (cs_subs c) \<Longrightarrow> ctl_step c (snd (PublishStickyCommonEvent_ctl E pm er (Some p) c))"
| unfreeze_uid: "ctl_step c (snd (PublishFreezeCommonEvent u c))"
| unfreeze_pids: "ctl_step c (snd (PublishFreezeCommonEvent_pids qs c))"
| unfreeze_all: "ctl_step c (snd (PublishAllFreezeCommonEvents c))"
| ordered_task:
    "orderedTasks c = b # ts \<Longrightarrow>
     ctl_step c (ProcessNextOrderedEvent E pm now b (c\<lparr>orderedTasks := ts\<rparr>))"
| timer:
    "timeoutTasks c > 0 \<Longrightarrow>
     ctl_step c (CurrentOrderedEventTimeout now True (c\<lparr>timeoutTasks := timeoutTasks c - 1\<rparr>))"
| finish: "o' < ordNext c \<Longrightarrow> ctl_step c (snd (FinishReceiverAction (Some o') code d ab c))"
| unordered_task:
    "unorderedQueue c = o' # us \<Longrightarrow>
     ctl_step c (snd (NotifyUnorderedEvent E pm now (Some o') (c\<lparr>unorderedQueue := us\<rparr>)))"
| immediate_notify:
    "unorderedImmediateQueue c = NotifyTask o' # is \<Longrightarrow>
     ctl_step c (snd (NotifyUnorderedEvent E pm now (Some o') (c\<lparr>unorderedImmediateQueue := is\<rparr>)))"
| immediate_freeze:
    "unorderedImmediateQueue c = FreezeTask sub er # is \<Longrightarrow>
     ctl_step c (snd (NotifyFreezeEvents E pm sub er (c\<lparr>unorderedImmediateQueue := is\<rparr>)))"
| subscribers: "sub_step (cs_subs c) s \<Longrightarrow> ctl_step c (c\<lparr>cs_subs := s\<rparr>)"
| payload: "ctl_step c (c\<lparr>cs_payloads := (cs_payloads c)(q := pl)\<rparr>)"

definition ctl_init ::
  "(sub_ptr \<Rightarrow> EventSubscriberRecord) \<Rightarrow> (payload_ptr \<Rightarrow> payload) \<Rightarrow> (ord_ptr \<Rightarrow> OrderedEventRecord) \<Rightarrow>
     ctl_state" where
  "ctl_init h ps os = \<lparr>cs_subs = sub_init h, cs_payloads = ps, ordHeap = os, ordNext = 0,
     orderedEventQueue = [], unorderedEventQueue = [], pendingTimeoutMessage = False,
     scheduled = False, orderedTasks = [], timeoutTasks = 0, unorderedQueue = [],
     unorderedImmediateQueue = [], unorderedEventLogCache = [], ctlLog = []\<rparr>"

inductive reachable :: "ctl_state \<Rightarrow> bool" where
  init: "reachable (ctl_init h ps os)"
| step: "reachable c \<Longrightarrow> ctl_step c c' \<Longrightarrow> reachable c'"

inductive_cases ctl_stepE: "ctl_step c c'"

section \<open>The invariant of the reachable states\<close>

lemma ctl_step_inv:
  assumes "ctl_step c c'" "ctl_inv c"
  shows "ctl_inv c'"
  using assms
proof (induction rule: ctl_step.induct)
  case (publish c E pm er l)
  then show ?case
    using ProcessUnorderedEvent_inv [of c None E pm er] ProcessOrderedEvent_inv [of c E pm er l]
    by (simp add: PublishCommonEvent_ctl_def)
next
  case (publish_sticky p c E pm er)
  then show ?case
    using ProcessUnorderedEvent_inv [of c "Some p" E pm er]
    by (simp add: PublishStickyCommonEvent_ctl_def)
next
  case (unordered_task c o' us E pm now)
  have core: "core_inv c" using unordered_task.prems by (simp add: ctl_inv_def)
  have "o' \<in># mset (unorderedEventQueue c)"
    unfolding core_invD(8) [OF core] by (simp add: unordered_task.hyps)
  then show ?case
    using NotifyUnordered_task [OF unordered_task.prems, where o' = o' and us = us
        and c' = "c\<lparr>unorderedQueue := us\<rparr>" and ims = "unorderedImmediateQueue c"]
      unordered_task.hyps by simp
next
  case (immediate_notify c o' "is" E pm now)
  have core: "core_inv c" using immediate_notify.prems by (simp add: ctl_inv_def)
  have "o' \<in># mset (unorderedEventQueue c)"
    unfolding core_invD(8) [OF core] by (simp add: immediate_notify.hyps)
  then show ?case
    using NotifyUnordered_task [OF immediate_notify.prems, where o' = o' and us = "unorderedQueue c"
        and c' = "c\<lparr>unorderedImmediateQueue := is\<rparr>" and ims = "is"]
      immediate_notify.hyps by simp
next
  case (immediate_freeze c sub er "is" E pm)
  have "ctl_inv (c\<lparr>unorderedImmediateQueue := is\<rparr>)"
    by (rule ctl_inv_frame [OF immediate_freeze.prems])
      (use immediate_freeze in \<open>simp_all add: ctl_inv_def core_inv_def\<close>)
  then show ?case by (rule NotifyFreezeEvents_inv)
next
  case (subscribers c s)
  then show ?case
    using sub_step_heap [OF subscribers.hyps sub_inv_of_ctl [OF subscribers.prems]]
    by (intro ctl_inv_upd_subs) auto
next
  case (payload c q pl)
  then show ?case by (intro ctl_inv_frame [OF payload]) (simp_all add: ctl_inv_def)
qed (rule ces_inv; assumption)+

lemma ctl_inv_init: "ctl_inv (ctl_init h ps os)"
  using sub_inv_init [of h] by (simp add: ctl_inv_def core_inv_def progress_def ctl_init_def)

lemma reachable_inv: "reachable c \<Longrightarrow> ctl_inv c"
  by (induction rule: reachable.induct) (auto simp: ctl_inv_init intro: ctl_step_inv)

section \<open>Ordered events come to an end\<close>

text \<open>
  Without any answer of a receiver the manager's own tasks and its timer finish every ordered
  event: each of their steps makes a measure smaller, and as long as the queue is not empty
  one of them is possible.  The timer counts as a step when it fires after the time limit of
  the current receiver; before, it only arms itself again.
\<close>

inductive own_step :: "env \<Rightarrow> (string, Permission) umap \<Rightarrow> ctl_state \<Rightarrow> ctl_state \<Rightarrow> bool"
  for E :: env and pm :: "(string, Permission) umap" where
  own_task:
    "orderedTasks c = b # ts \<Longrightarrow>
     own_step E pm c (ProcessNextOrderedEvent E pm now b (c\<lparr>orderedTasks := ts\<rparr>))"
| own_timer:
    "timeoutTasks c > 0 \<Longrightarrow> orderedTasks c = [] \<Longrightarrow> orderedEventQueue c = o' # os \<Longrightarrow>
     receiverTime (ordHeap c o') + TIMEOUT_MS \<le> now \<Longrightarrow>
     own_step E pm c (CurrentOrderedEventTimeout now True (c\<lparr>timeoutTasks := timeoutTasks c - 1\<rparr>))"

lemma own_step_inv: "own_step E pm c c' \<Longrightarrow> ctl_inv c \<Longrightarrow> ctl_inv c'"
  by (induction rule: own_step.induct)
    (use ctl_step_inv ordered_task timer in blast)+

definition todo :: "(ord_ptr \<Rightarrow> OrderedEventRecord) \<Rightarrow> ord_ptr \<Rightarrow> nat" where
  "todo h o' = length (receivers (h o')) - nextReceiver (h o') + 1"

definition work :: "ctl_state \<Rightarrow> nat" where
  "work c = sum_list (map (todo (ordHeap c)) (orderedEventQueue c))"

definition waits :: "ctl_state \<Rightarrow> nat" where
  "waits c = (if orderedEventQueue c \<noteq> [] \<and>
     state (ordHeap c (hd (orderedEventQueue c))) \<noteq> event_code IDLE then 1 else 0)"

definition own_measure :: "ctl_state \<Rightarrow> nat \<times> nat \<times> nat" where
  "own_measure c = (work c, waits c, length (orderedTasks c))"

definition own_less :: "ctl_state \<Rightarrow> ctl_state \<Rightarrow> bool" where
  "own_less c' c \<longleftrightarrow> (own_measure c', own_measure c) \<in> less_than <*lex*> less_than <*lex*> less_than"

lemma dispatch_record:
  assumes "nextReceiver (ordHeap c o') < length (receivers (ordHeap c o'))"
  shows "orderedEventQueue (dispatch E pm now o' c) = orderedEventQueue c"
    and "receivers (ordHeap (dispatch E pm now o' c) q) = receivers (ordHeap c q)"
    and "nextReceiver (ordHeap (dispatch E pm now o' c) q) =
      (if q = o' then nextReceiver (ordHeap c o') + 1 else nextReceiver (ordHeap c q))"
proof -
  have out: "receivers (outcome_rec out l i r) = receivers r"
    "nextReceiver (outcome_rec out l i r) = nextReceiver r" for out l i r
    by (cases out; simp)+
  show "orderedEventQueue (dispatch E pm now o' c) = orderedEventQueue c"
    and "receivers (ordHeap (dispatch E pm now o' c) q) = receivers (ordHeap c q)"
    and "nextReceiver (ordHeap (dispatch E pm now o' c) q) =
      (if q = o' then nextReceiver (ordHeap c o') + 1 else nextReceiver (ordHeap c q))"
    unfolding dispatch_form [OF assms]
    by (simp_all add: Let_def ScheduleOrderedCommonEvent_def out)
qed

lemma work_dispatch:
  assumes q: "orderedEventQueue c = o' # os" "o' \<notin> set os"
    and ready: "ready_rec (ordHeap c o')"
  shows "work (dispatch E pm now o' c) < work c"
proof -
  have n: "nextReceiver (ordHeap c o') < length (receivers (ordHeap c o'))"
    using ready by (simp add: ready_rec_def)
  have "todo (ordHeap (dispatch E pm now o' c)) p = todo (ordHeap c) p" if "p \<in> set os" for p
    using that q(2) by (auto simp: todo_def dispatch_record [OF n])
  then have "map (todo (ordHeap (dispatch E pm now o' c))) os = map (todo (ordHeap c)) os" by simp
  then have "sum_list (map (todo (ordHeap (dispatch E pm now o' c))) os) =
      sum_list (map (todo (ordHeap c)) os)" by (rule arg_cong)
  moreover have "todo (ordHeap (dispatch E pm now o' c)) o' < todo (ordHeap c) o'"
    using n by (simp add: todo_def dispatch_record [OF n])
  ultimately show ?thesis
    unfolding work_def dispatch_record(1) [OF n] q by simp
qed

lemma work_cong:
  "orderedEventQueue c' = orderedEventQueue c \<Longrightarrow>
     (\<And>p. receivers (ordHeap c' p) = receivers (ordHeap c p) \<and>
        nextReceiver (ordHeap c' p) = nextReceiver (ordHeap c p)) \<Longrightarrow> work c' = work c"
  unfolding work_def todo_def by simp

lemma work_drop:
  assumes "orderedEventQueue c' = drop n (orderedEventQueue c)"
    and "\<And>p. receivers (ordHeap c' p) = receivers (ordHeap c p) \<and>
        nextReceiver (ordHeap c' p) = nextReceiver (ordHeap c p)"
  shows "work c' \<le> work c \<and> (take n (orderedEventQueue c) \<noteq> [] \<longrightarrow> work c' < work c)"
proof -
  let ?f = "todo (ordHeap c)"
  have f: "todo (ordHeap c') = ?f" using assms(2) by (simp add: todo_def fun_eq_iff)
  have "work c = sum_list (map ?f (take n (orderedEventQueue c))) +
      sum_list (map ?f (drop n (orderedEventQueue c)))"
    unfolding work_def by (metis append_take_drop_id map_append sum_list_append)
  moreover have "sum_list (map ?f xs) > 0" if "xs \<noteq> []" for xs
    using that by (cases xs) (simp_all add: todo_def)
  ultimately show ?thesis unfolding work_def assms(1) f by force
qed

lemma ProcessNext_measure:
  assumes inv: "ctl_inv c" and t: "orderedTasks c = b # ts"
  shows "own_less (ProcessNextOrderedEvent E pm now b (c\<lparr>orderedTasks := ts\<rparr>)) c"
proof -
  let ?c = "c\<lparr>orderedTasks := ts\<rparr>"
  define c0 where "c0 = (if b then ?c\<lparr>scheduled := False\<rparr> else ?c)"
  have core0: "core_inv c0"
    using inv t by (cases b) (auto simp: c0_def ctl_inv_def core_inv_def split: if_splits)
  have c0: "orderedEventQueue c0 = orderedEventQueue c" "ordHeap c0 = ordHeap c" "orderedTasks c0 = ts"
    by (simp_all add: c0_def)
  obtain sp removed c1 where scan: "ProcessOrderedEventQueueLocked now [] c0 = (sp, removed, c1)"
    by (cases "ProcessOrderedEventQueueLocked now [] c0") auto
  obtain n where core1: "core_inv c1" and frame: "scan_frame c0 c1"
    and n: "removed = take n (orderedEventQueue c0)" "orderedEventQueue c1 = drop n (orderedEventQueue c0)"
    and sp: "case sp of
       None \<Rightarrow> orderedEventQueue c1 = [] \<or>
         state (ordHeap c1 (hd (orderedEventQueue c1))) \<noteq> event_code IDLE
     | Some o' \<Rightarrow> (\<exists>os. orderedEventQueue c1 = o' # os) \<and> ready_rec (ordHeap c1 o')"
    using scan_spec [OF core0 scan] by auto
  define c2 where "c2 = foldl (\<lambda>c o'. snd (HandleFinalSubscriber E o' c)) c1 removed"
  have "\<forall>o' \<in> set removed. o' < ordNext c1"
    using n(1) core_invD(3) [OF core0] frame by (auto simp: scan_frame_def dest: in_set_takeD)
  from final_fold [OF core1 this, of E]
  have core2: "core_inv c2" and ff: "final_frame c1 c2" by (simp_all add: c2_def)
  have h2: "receivers (ordHeap c2 p) = receivers (ordHeap c p) \<and>
      nextReceiver (ordHeap c2 p) = nextReceiver (ordHeap c p)" for p
    using final_frameD(2) [OF ff, of p] frame c0 by (auto simp: scan_frame_def)
  have q2: "orderedEventQueue c2 = drop n (orderedEventQueue c)"
    using final_frameD(1) [OF ff] n(2) c0 by simp
  note W = work_drop [OF q2 h2]
  have run: "ProcessNextOrderedEvent E pm now b ?c =
      (case sp of None \<Rightarrow> c2 | Some o' \<Rightarrow> dispatch E pm now o' c2)"
    unfolding ProcessNextOrderedEvent_dispatch c0_def [symmetric] scan c2_def Let_def by simp
  show ?thesis
  proof (cases sp)
    case (Some o')
    then obtain os where os: "orderedEventQueue c2 = o' # os" "ready_rec (ordHeap c1 o')"
      using sp final_frameD(1) [OF ff] by auto
    have "ready_rec (ordHeap c2 o')"
      using os(2) final_frameD(2) [OF ff, of o'] by (auto simp: ready_rec_def idle_rec_def)
    moreover have "o' \<notin> set os" using core_invD(2) [OF core2] os(1) by simp
    ultimately have "work (dispatch E pm now o' c2) < work c2" using work_dispatch os(1) by blast
    then show ?thesis using W by (simp add: run Some own_less_def own_measure_def)
  next
    case None
    have tasks: "orderedTasks c2 = ts"
      using ff frame c0 by (auto simp: final_frame_def scan_frame_def)
    show ?thesis
    proof (cases "take n (orderedEventQueue c) = []")
      case False
      then show ?thesis using W by (simp add: run None own_less_def own_measure_def)
    next
      case True
      then have q: "orderedEventQueue c2 = orderedEventQueue c" using q2 by auto
      have "waits c2 \<le> waits c"
      proof (cases "orderedEventQueue c")
        case (Cons o' os)
        have "state (ordHeap c1 o') = state (ordHeap c o') \<or> state (ordHeap c1 o') = 0"
        proof -
          have "ordHeap c1 o' = ordHeap c o' \<or> (\<exists>now. ordHeap c1 o' = timed_out now (ordHeap c o'))"
            using frame c0(2) unfolding scan_frame_def by metis
          then show ?thesis by auto
        qed
        then show ?thesis
          using final_frameD(2) [OF ff, of o'] q Cons by (auto simp: waits_def)
      qed (simp add: waits_def q)
      then show ?thesis
        using W tasks t by (auto simp: run None own_less_def own_measure_def)
    qed
  qed
qed

lemma timer_measure:
  assumes inv: "ctl_inv c" and "timeoutTasks c > 0" "orderedTasks c = []"
    and q: "orderedEventQueue c = o' # os" and late: "receiverTime (ordHeap c o') + TIMEOUT_MS \<le> now"
  shows "own_less (CurrentOrderedEventTimeout now True (c\<lparr>timeoutTasks := timeoutTasks c - 1\<rparr>)) c"
proof -
  let ?c0 = "c\<lparr>timeoutTasks := timeoutTasks c - 1, pendingTimeoutMessage := False\<rparr>"
  let ?d = "snd (ScheduleOrderedCommonEvent
    (log_ctl (timeout_report ?c0 o') (upd_ord o' (timed_out now) ?c0)))"
  have "CurrentOrderedEventTimeout now True (c\<lparr>timeoutTasks := timeoutTasks c - 1\<rparr>) = ?d"
    using late by (simp add: CurrentOrderedEventTimeout_def Let_def GetFrontOrderedRecord_def q
      CheckAndRescheduleTimeout_def HandleTimeoutReceiver_form)
  moreover have "work ?d = work c"
    by (rule work_cong) (simp_all add: ScheduleOrderedCommonEvent_def)
  moreover have "waits ?d = 0" by (simp add: waits_def ScheduleOrderedCommonEvent_def q)
  moreover have "waits c = 1"
    using inv assms(3) q by (auto simp: ctl_inv_def progress_def waits_def)
  ultimately show ?thesis by (simp add: own_less_def own_measure_def)
qed

lemma own_step_decreases: "own_step E pm c c' \<Longrightarrow> ctl_inv c \<Longrightarrow> own_less c' c"
  by (induction rule: own_step.induct) (use ProcessNext_measure timer_measure in blast)+

lemma own_step_possible:
  assumes inv: "ctl_inv c" and q: "orderedEventQueue c \<noteq> []"
  shows "\<exists>c'. own_step E pm c c'"
proof (cases "orderedTasks c")
  case (Cons b ts)
  then show ?thesis using own_task by blast
next
  case Nil
  obtain o' os where o': "orderedEventQueue c = o' # os" using q by (cases "orderedEventQueue c") auto
  have "pendingTimeoutMessage c"
    using inv o' Nil by (auto simp: ctl_inv_def progress_def core_inv_def idle_rec_def)
  then have "timeoutTasks c > 0" using inv by (simp add: ctl_inv_def core_inv_def)
  then show ?thesis using own_timer [OF _ Nil o' order_refl] by blast
qed

lemma own_less_wf: "wfP own_less"
proof -
  have "wf (inv_image (less_than <*lex*> less_than <*lex*> less_than) own_measure)"
    by (intro wf_inv_image wf_lex_prod wf_less_than)
  then show ?thesis by (simp add: wfp_def own_less_def [abs_def] inv_image_def)
qed

lemma drains:
  assumes "ctl_inv c"
  shows "\<exists>c'. (own_step E pm)\<^sup>*\<^sup>* c c' \<and> ctl_inv c' \<and> orderedEventQueue c' = []"
  using own_less_wf assms
proof (induction c rule: wfp_induct_rule)
  case (less c)
  show ?case
  proof (cases "orderedEventQueue c = []")
    case True
    then show ?thesis using less.prems by blast
  next
    case False
    then obtain c1 where step: "own_step E pm c c1" using own_step_possible [OF less.prems] by blast
    then have "own_less c1 c" "ctl_inv c1"
      using own_step_decreases own_step_inv less.prems by blast+
    then obtain c' where "(own_step E pm)\<^sup>*\<^sup>* c1 c'" "ctl_inv c'" "orderedEventQueue c' = []"
      using less.IH by blast
    then show ?thesis using step by (blast intro: converse_rtranclp_into_rtranclp)
  qed
qed

end
