(* ===== verification/Frozen_Store.thy ===== *)
theory Frozen_Store
  imports Subscriber_Registry "HOL-Library.Sublist"
begin

text \<open>
  The store of the events kept for frozen processes.  The subscriber manager has it twice,
  keyed by the uid (\<open>frozenEvents_\<close>) and by the pid (\<open>frozenEventsMap_\<close>) of the subscriber,
  with the same contract: the locale \<open>frozen_store\<close>, interpreted for both.
\<close>

definition kept_in :: "FrozenRecords \<Rightarrow> remote \<Rightarrow> CommonEventRecord list" where
  "kept_in records l = (case map_of records l of None \<Rightarrow> [] | Some (sub, es) \<Rightarrow> es)"

definition trimmed :: "CommonEventRecord list \<Rightarrow> CommonEventRecord list" where
  "trimmed es = (if recordTime (last es) - recordTime (hd es) > FREEZE_EVENT_TIMEOUT then tl es else es)"

lemma kept_append_frozen:
  "kept_in (append_frozen sub er records) l =
     (if l = commonEventListener sub then trimmed (kept_in records l @ [er]) else kept_in records l)"
  by (auto simp: kept_in_def append_frozen_def trimmed_def Let_def map_of_omap_put FREEZE_EVENT_TIMEOUT_def
    split: option.split)

lemma kept_delete: "kept_in (AList.delete l records) l' = (if l' = l then [] else kept_in records l')"
  by (simp add: kept_in_def delete_conv')

lemma suffix_trimmed: "suffix (trimmed es) es"
  by (cases es) (auto simp: trimmed_def suffix_ConsI)

lemma trimmed_last: "last (trimmed (es @ [er])) = er \<and> trimmed (es @ [er]) \<noteq> []"
  by (cases es) (auto simp: trimmed_def FREEZE_EVENT_TIMEOUT_def)

locale frozen_store =
  fixes key :: "EventSubscriberRecord \<Rightarrow> 'k"
    and at :: "sub_state \<Rightarrow> 'k \<Rightarrow> FrozenRecords"
    and ins :: "sub_ptr option \<Rightarrow> CommonEventRecord \<Rightarrow> sub_state \<Rightarrow> sub_state"
    and tak :: "'k \<Rightarrow> sub_state \<Rightarrow> FrozenRecords \<times> sub_state"
    and del :: "sub_ptr \<Rightarrow> sub_state \<Rightarrow> sub_state"
  assumes at_ins: "at (ins (Some p) er s) k =
      (if k = key (subHeap s p) then append_frozen (subHeap s p) er (at s k) else at s k)"
    and heap_ins: "subHeap (ins r er s) = subHeap s"
    and ins_null: "ins None er s = s"
    and fst_tak: "fst (tak k s) = at s k"
    and at_tak: "at (snd (tak k s)) k' = (if k' = k then [] else at s k')"
    and at_del: "at (del p s) k =
      (if k = key (subHeap s p) then AList.delete (commonEventListener (subHeap s p)) (at s k)
       else at s k)"
begin

definition kept :: "sub_state \<Rightarrow> EventSubscriberRecord \<Rightarrow> CommonEventRecord list" where
  "kept s sub = kept_in (at s (key sub)) (commonEventListener sub)"

lemma kept_ins:
  "kept (ins (Some p) er s) sub =
     (if key sub = key (subHeap s p) \<and> commonEventListener sub = commonEventListener (subHeap s p)
      then trimmed (kept s sub @ [er]) else kept s sub)"
  by (auto simp: kept_def at_ins kept_append_frozen)

lemma heap_fold [simp]: "subHeap (fold (ins r) ers s) = subHeap s"
  by (induction ers arbitrary: s) (simp_all add: heap_ins)

text \<open>Nothing is lost but the oldest events, nothing is reordered, and the newest event is
  there.\<close>

lemma kept_fold:
  "suffix (kept (fold (ins (Some p)) ers s) (subHeap s p)) (kept s (subHeap s p) @ ers) \<and>
     (ers \<noteq> [] \<longrightarrow> kept (fold (ins (Some p)) ers s) (subHeap s p) \<noteq> [] \<and>
       last (kept (fold (ins (Some p)) ers s) (subHeap s p)) = last ers)"
proof (induction ers rule: rev_induct)
  case (snoc er ers)
  let ?t = "fold (ins (Some p)) ers s"
  have k: "kept (fold (ins (Some p)) (ers @ [er]) s) (subHeap s p) =
      trimmed (kept ?t (subHeap s p) @ [er])"
    using kept_ins [of p er ?t "subHeap s p"] by simp
  have "suffix (kept ?t (subHeap s p) @ [er]) (kept s (subHeap s p) @ ers @ [er])"
    using snoc by (auto simp: suffix_def)
  from suffix_order.trans [OF suffix_trimmed this] show ?case
    using trimmed_last [of "kept ?t (subHeap s p)" er] unfolding k by simp
qed simp

text \<open>Within thirty seconds everything is kept.\<close>

lemma kept_all:
  assumes "\<And>x y. x \<in> set (kept s (subHeap s p) @ ers) \<Longrightarrow> y \<in> set (kept s (subHeap s p) @ ers) \<Longrightarrow>
    recordTime x - recordTime y \<le> FREEZE_EVENT_TIMEOUT"
  shows "kept (fold (ins (Some p)) ers s) (subHeap s p) = kept s (subHeap s p) @ ers"
  using assms
proof (induction ers rule: rev_induct)
  case (snoc er ers)
  let ?t = "fold (ins (Some p)) ers s" and ?k = "kept s (subHeap s p)"
  have IH: "kept ?t (subHeap s p) = ?k @ ers" by (rule snoc.IH) (simp add: snoc.prems)
  have "recordTime er - recordTime (hd (?k @ ers @ [er])) \<le> FREEZE_EVENT_TIMEOUT"
  proof (rule snoc.prems)
    have "hd (?k @ ers @ [er]) \<in> set (?k @ ers @ [er])" by (rule hd_in_set) simp
    then show "hd (?k @ ers @ [er]) \<in> set (?k @ ers @ [er])" .
  qed simp
  then show ?case
    using kept_ins [of p er ?t "subHeap s p"] by (simp add: IH trimmed_def)
qed simp

lemma kept_other:
  "key sub \<noteq> key (subHeap s p) \<or> commonEventListener sub \<noteq> commonEventListener (subHeap s p) \<Longrightarrow>
     kept (fold (ins (Some p)) ers s) sub = kept s sub"
  by (induction ers arbitrary: s) (auto simp: kept_ins heap_ins)

lemma taken_once: "fst (tak k (snd (tak k s))) = []"
  by (simp add: fst_tak at_tak)

lemma tak_other: "k' \<noteq> k \<Longrightarrow> at (snd (tak k s)) k' = at s k'"
  by (simp add: at_tak)

lemma kept_del:
  "kept (del p s) sub =
     (if key sub = key (subHeap s p) \<and> commonEventListener sub = commonEventListener (subHeap s p)
      then [] else kept s sub)"
  by (auto simp: kept_def at_del kept_delete)

end

definition frozen_of_uid :: "sub_state \<Rightarrow> uid_t \<Rightarrow> FrozenRecords" where
  "frozen_of_uid s u = (case map_of (frozenEvents s) u of None \<Rightarrow> [] | Some r \<Rightarrow> r)"

definition frozen_of_pid :: "sub_state \<Rightarrow> pid_t \<Rightarrow> FrozenRecords" where
  "frozen_of_pid s q = (case map_of (frozenEventsMap s) q of None \<Rightarrow> [] | Some r \<Rightarrow> r)"

lemma delete_absent: "map_of m k = None \<Longrightarrow> AList.delete k m = m"
  by (simp add: delete_idem map_of_eq_None_iff)

lemma append_frozen_empty: "append_frozen sub er [] = [(commonEventListener sub, sub, [er])]"
  by (simp add: append_frozen_def)

interpretation uid_store: frozen_store "\<lambda>r. uid (subRecordInfo r)" frozen_of_uid InsertFrozenEvents
  GetFrozenEvents RemoveFrozenEventsBySubscriber
proof
  fix p er s k
  show "frozen_of_uid (InsertFrozenEvents (Some p) er s) k =
      (if k = uid_at s p then append_frozen (subHeap s p) er (frozen_of_uid s k) else frozen_of_uid s k)"
    by (auto simp: frozen_of_uid_def InsertFrozenEvents_def Let_def update_conv' append_frozen_empty
      split: option.split)
  show "frozen_of_uid (RemoveFrozenEventsBySubscriber p s) k =
      (if k = uid_at s p then AList.delete (listener_at s p) (frozen_of_uid s k) else frozen_of_uid s k)"
    by (auto simp: frozen_of_uid_def RemoveFrozenEventsBySubscriber_def Let_def update_conv'
      delete_absent split: option.split)
qed (auto simp: frozen_of_uid_def GetFrozenEvents_def RemoveFrozenEvents_def InsertFrozenEvents_def
  delete_conv' Let_def split: option.split)

interpretation pid_store: frozen_store "\<lambda>r. pid (subRecordInfo r)" frozen_of_pid InsertFrozenEventsMap
  GetFrozenEventsMapByPid RemoveFrozenEventsMapBySubscriber
proof
  fix p er s k
  show "frozen_of_pid (InsertFrozenEventsMap (Some p) er s) k =
      (if k = pid_at s p then append_frozen (subHeap s p) er (frozen_of_pid s k) else frozen_of_pid s k)"
    by (auto simp: frozen_of_pid_def InsertFrozenEventsMap_def Let_def update_conv' append_frozen_empty
      split: option.split)
  show "frozen_of_pid (RemoveFrozenEventsMapBySubscriber p s) k =
      (if k = pid_at s p then AList.delete (listener_at s p) (frozen_of_pid s k) else frozen_of_pid s k)"
    by (auto simp: frozen_of_pid_def RemoveFrozenEventsMapBySubscriber_def Let_def update_conv'
      delete_absent split: option.split)
qed (auto simp: frozen_of_pid_def GetFrozenEventsMapByPid_def RemoveFrozenEventsMapByPid_def
  InsertFrozenEventsMap_def delete_conv' Let_def split: option.split)

end
