(* ===== verification/Sample_Instances.thy ===== *)
theory Sample_Instances
  imports Control_Protocol Frozen_Store
begin

text \<open>
  Concrete values for the instances of the properties: an environment, a subscriber of the
  event \<open>ev.A\<close>, a publication of it, and the states a few operations reach with them.
\<close>

definition ex_env :: env where
  "ex_env = \<lparr>kit_token_type = \<lambda>_. TOKEN_HAP, kit_verify = \<lambda>_ _. PERMISSION_GRANTED,
     kit_dlp_type = \<lambda>_. DLP_COMMON, kit_process_name = \<lambda>_. [], kit_hap_token = \<lambda>_ _ _. 0,
     kit_full_token_system = \<lambda>_. True, bm_proxy = \<lambda>_. True, bm_name_for_uid = \<lambda>_. ''app'',
     bm_system_app = \<lambda>_. True, bm_target_version = \<lambda>_. Some 12, bm_uid_of_bundle = \<lambda>_ _. 100,
     os_local_id = \<lambda>_. Some 100, os_account_exists = \<lambda>_. True, os_active_ids = Some [100],
     sys_check_sa_permission = False, sys_subscriber_limit = 1, ipc_is_receiver = \<lambda>_. True,
     ipc_notify = \<lambda>_ _ _ _. ERR_OK\<rparr>"

definition ex_skills :: MatchingSkills where
  "ex_skills = \<lparr>ms_entities = [], ms_events = [''ev.A''], ms_schemes = []\<rparr>"

definition ex_info :: CommonEventSubscribeInfo where
  "ex_info = \<lparr>si_matchingSkills = ex_skills, si_priority = 5, si_userId = -1, si_permission = [],
     si_deviceId = [], si_threadMode = HANDLER, si_publisherBundleName = [], si_publisherUid = 0\<rparr>"

definition ex_rinfo :: EventRecordInfo where
  "ex_rinfo = \<lparr>isSubsystem = False, isSystemApp = True, isProxy = False, pid = 42, uid = 1000,
     callerToken = 9, bundleName = ''sub'', subId = ''s1''\<rparr>"

definition ex_pinfo :: EventRecordInfo where
  "ex_pinfo = \<lparr>isSubsystem = True, isSystemApp = False, isProxy = False, pid = 77, uid = 2000,
     callerToken = 8, bundleName = ''pub'', subId = ''''\<rparr>"

definition ex_want :: Want where
  "ex_want = \<lparr>w_action = ''ev.A'', w_entities = [], w_scheme = [], w_bundle = [], w_ability = [],
     w_params = [], w_uri = [], w_flags = 0, w_type = []\<rparr>"

definition ex_publish :: "bool \<Rightarrow> CommonEventPublishInfo" where
  "ex_publish ordered = \<lparr>pi_sticky = False, pi_ordered = ordered, pi_bundleName = [],
     pi_subscriberPermissions = [], pi_subscriberUids = [], pi_subscriberType = -1,
     pi_rule = RuleAND, pi_maximumVersion = -1\<rparr>"

definition ex_payload :: "bool \<Rightarrow> payload" where
  "ex_payload ordered = \<lparr>commonEventData = \<lparr>cd_want = ex_want, cd_code = 0, cd_data = []\<rparr>,
     publishInfo = ex_publish ordered\<rparr>"

definition ex_event :: CommonEventRecord where
  "ex_event = \<lparr>isSystemEvent = False, userId = 100, payloadPtr = 0, recordTime = 10,
     eventRecordInfo = ex_pinfo\<rparr>"

definition ex_sub :: EventSubscriberRecord where
  "ex_sub = \<lparr>isFreeze = False, subRecordTime = 3, freezeTime = 0, eventSubscribeInfo = ex_info,
     commonEventListener = 7, subRecordInfo = ex_rinfo\<rparr>"

lemmas ex_defs = ex_env_def ex_skills_def ex_info_def ex_rinfo_def ex_pinfo_def ex_want_def
  ex_publish_def ex_payload_def ex_event_def ex_sub_def

text \<open>One subscriber with listener 7.\<close>

definition ex_subs0 :: sub_state where "ex_subs0 = sub_init (\<lambda>_. ex_sub)"

definition ex_subs :: sub_state where
  "ex_subs = snd (InsertSubscriber ex_env (\<lambda>_. []) (Some ex_info) (Some 7) 3 ex_rinfo ex_subs0)"

lemma ex_subs0_reachable: "sub_reachable ex_subs0"
  unfolding ex_subs0_def by (rule sub_start)

lemma ex_subs_reachable: "sub_reachable ex_subs"
  unfolding ex_subs_def
  by (rule sub_next [OF ex_subs0_reachable])
    (rule sub_step.subscribe; simp add: ex_subs0_def sub_init_def registry_def ex_info_def ex_skills_def)

lemma ex_subs_value:
  "ex_subs = \<lparr>subHeap = (\<lambda>_. ex_sub), subNext = 1, subscribers = [0],
     eventSubscribers = [(''ev.A'', [0])], subscriberCounts = [(42, 1)], frozenEvents = [],
     frozenEventsMap = [], hasCompacted = False, subLog = [AddDeathRecipient 7]\<rparr>"
  by (simp add: ex_subs_def ex_subs0_def sub_init_def InsertSubscriber_def Let_def ex_defs
    SUBSCRIBE_EVENT_MAX_NUM_def GetSubscriberRecord_def alloc_record_def set_record_def log_sub_def
    InsertSubscriberRecordLocked_def CheckSubscriberCountReachedMaxinum_def at_num_def fun_eq_iff)

lemma ex_not_system_api: "\<not> IsSystemAPIEvent ''ev.A''"
  by code_simp

lemma ex_accepts: "accepts ex_env [] ex_event (ex_payload ordered) ex_sub"
  by (simp add: accepts_iff Match_iff CheckSubscriberByUserId_def CheckSubscriberPermission_def
    CheckWhetherIsAppIndexSubscribed_def CheckPublisherWhetherMatched_def
    CheckSubscriberRequiredPermission_def CheckSubscriberWhetherMatched_def GetFilterSettings_def
    ex_not_system_api GetEventPermission_def Permission_init_def
    user_consts ex_defs UNINITIALIZATED_SUBSCRIBER_TYPE_def DEFAULT_VERSION_def Let_def)

end
