(* ===== verification/Subscriber_Props.thy ===== *)
theory Subscriber_Props
  imports Sample_Instances
begin

text \<open>
  The properties of the subscriber manager: the index, the look-up, subscription and removal
  as operations of the registry, the limit on the number of subscribers, freezing, and the
  store of events for frozen subscribers.  Each property is followed by an instance.
\<close>

section \<open>The index and the look-up\<close>



text \<open>C2: Looking up the receivers of an event through the index returns, exactly once each, the
  registered subscribers that pass all tests for the event (\<open>accepts\<close>), the same as
  walking over all subscribers would; the compaction the look-up may run on a screen-off event
  changes no registered record.\<close>

theorem lookup_exact:
  assumes "sub_reachable s"
  shows "mset (map (subHeap (snd (GetSubscriberRecords E pm er pl s)))
           (fst (GetSubscriberRecords E pm er pl s))) =
      mset (filter (accepts E pm er pl) (map (subHeap s) (subscribers s))) \<and>
    registry (snd (GetSubscriberRecords E pm er pl s)) = registry s"
  using lookup_records [OF sub_reachable_inv [OF assms] refl]
    registry_GetSubscriberRecords [OF sub_reachable_inv [OF assms]] by blast

lemma lookup_exact_instance:
  "mset (map (subHeap (snd (GetSubscriberRecords ex_env [] ex_event (ex_payload False) ex_subs)))
     (fst (GetSubscriberRecords ex_env [] ex_event (ex_payload False) ex_subs))) = {#ex_sub#}"
  using lookup_exact [OF ex_subs_reachable, of ex_env "[]" ex_event "ex_payload False", THEN conjunct1]
  by (simp add: ex_subs_value ex_accepts)

section \<open>Subscribing and unsubscribing\<close>

text \<open>C3: A subscription with between one and 512 events either is refused, and then no registered
  record changes, or it writes exactly the entry of its listener: a fresh, unfrozen record for a
  new listener, and for a known one the old record with its subscribe info, publisher data and
  time replaced and its freeze state kept.\<close>

theorem subscribe_writes_one_entry:
  assumes "sub_reachable s" "valid_events info"
    and "res = InsertSubscriber E cmd (Some info) (Some l) time rinfo s"
  shows "registry (snd res) = (if fst res = None then registry s
      else (registry s)(l \<mapsto> (case registry s l of
              None \<Rightarrow> fresh_record info l time rinfo
            | Some r \<Rightarrow> renewed_record info time rinfo r)))"
  using registry_InsertSubscriber [OF sub_reachable_inv [OF assms(1)] assms(2,3)] .

lemma subscribe_writes_one_entry_instance:
  "registry (snd (InsertSubscriber ex_env (\<lambda>_. []) (Some ex_info) (Some 7) 8 ex_rinfo ex_subs)) 7 =
     Some (ex_sub\<lparr>subRecordTime := 8\<rparr>)"
  using subscribe_writes_one_entry [OF ex_subs_reachable _ refl, of ex_info ex_env "\<lambda>_. []" 7 8 ex_rinfo]
  by (simp add: valid_events_def ex_defs SUBSCRIBE_EVENT_MAX_NUM_def ex_subs_value registry_def
    renewed_record_def InsertSubscriber_def GetSubscriberRecord_def UpdateSubscriberRecordLocked_def Let_def)

text \<open>Removing a listener answers \<open>ERR_OK\<close>, takes exactly that listener's entry out of the
  registry, and drops all events kept for it while it was frozen, in both stores.\<close>

theorem unsubscribe_removes:
  assumes "sub_reachable s"
  shows "fst (RemoveSubscriber (Some l) s) = ERR_OK \<and>
    registry (snd (RemoveSubscriber (Some l) s)) = (registry s)(l := None) \<and>
    (\<forall>r. registry s l = Some r \<longrightarrow>
       kept_in (frozen_of_uid (snd (RemoveSubscriber (Some l) s)) (uid (subRecordInfo r))) l = [] \<and>
       kept_in (frozen_of_pid (snd (RemoveSubscriber (Some l) s)) (pid (subRecordInfo r))) l = [])"
proof (intro conjI allI impI)
  note inv = sub_reachable_inv [OF assms]
  show "fst (RemoveSubscriber (Some l) s) = ERR_OK"
    by (auto simp: RemoveSubscriber_def RemoveSubscriberRecordLocked_def Let_def split: option.split)
  show "registry (snd (RemoveSubscriber (Some l) s)) = (registry s)(l := None)"
    by (rule registry_RemoveSubscriber [OF inv])
  fix r assume "registry s l = Some r"
  then obtain p where f: "find_listener s l (subscribers s) = Some p" and r: "subHeap s p = r"
    by (auto simp: registry_def)
  then have l: "commonEventListener r = l" by (auto dest: find_listener_Some)
  let ?t = "RemoveFrozenEventsMapBySubscriber p (RemoveFrozenEventsBySubscriber p
      (log_sub (RemoveDeathRecipient l) s))"
  have "find_listener (log_sub (RemoveDeathRecipient l) s) l (subscribers s) = Some p"
    using f find_listener_cong [of "subscribers s" "log_sub (RemoveDeathRecipient l) s" s l]
    by (simp add: log_sub_def)
  then have "frozenEvents (snd (RemoveSubscriber (Some l) s)) = frozenEvents ?t"
    "frozenEventsMap (snd (RemoveSubscriber (Some l) s)) = frozenEventsMap ?t"
    by (simp_all add: RemoveSubscriber_def RemoveSubscriberRecordLocked_def Let_def ces_frame log_sub_def)
  then have eq: "frozen_of_uid (snd (RemoveSubscriber (Some l) s)) u =
        frozen_of_uid (RemoveFrozenEventsBySubscriber p (log_sub (RemoveDeathRecipient l) s)) u"
      "frozen_of_pid (snd (RemoveSubscriber (Some l) s)) q = frozen_of_pid ?t q" for u q
    by (simp_all add: frozen_of_uid_def frozen_of_pid_def ces_frame)
  show "kept_in (frozen_of_uid (snd (RemoveSubscriber (Some l) s)) (uid (subRecordInfo r))) l = []"
    by (simp add: eq uid_store.at_del log_sub_def r l kept_delete)
  show "kept_in (frozen_of_pid (snd (RemoveSubscriber (Some l) s)) (pid (subRecordInfo r))) l = []"
    by (simp add: eq pid_store.at_del log_sub_def ces_frame r l kept_delete)
qed

lemma unsubscribe_removes_instance: "registry (snd (RemoveSubscriber (Some 7) ex_subs)) 7 = None"
  using unsubscribe_removes [OF ex_subs_reachable, of 7] by simp

section \<open>The limit on the number of subscribers\<close>

lemma top_count_maximal:
  assumes "m \<noteq> []" "(q, n) \<in> set m"
  shows "fst (hd (take (min 1 (length m)) (sort_key (\<lambda>(p, c). - int c) m))) \<in> fst ` set m \<and>
    n \<le> snd (hd (take (min 1 (length m)) (sort_key (\<lambda>(p, c). - int c) m))) \<and>
    hd (take (min 1 (length m)) (sort_key (\<lambda>(p, c). - int c) m)) \<in> set m"
proof -
  let ?f = "\<lambda>(p, c). - int c" and ?s = "sort_key (\<lambda>(p, c). - int c) m"
  have s: "?s \<noteq> []" using assms(1) by (metis length_0_conv length_sort)
  then obtain x xs where x: "?s = x # xs" by (cases ?s) auto
  have "sorted (map ?f ?s)" by simp
  then have "?f x \<le> ?f y" if "y \<in> set m" for y
    using that x by (metis (no_types, lifting) list.set_map image_eqI list.simps(9) order_refl set_ConsD
      set_sort sorted_wrt.simps(2))
  from this [OF assms(2)] have "n \<le> snd x" by (cases x) simp
  moreover have "x \<in> set m" using x set_sort [of ?f m] by (metis list.set_intros(1))
  moreover have "hd (take (min 1 (length m)) ?s) = x"
    using x assms(1) by (cases m) simp_all
  ultimately show ?thesis by auto
qed

lemma InsertEventSubscribers_log:
  "x \<in> set (subLog s) \<Longrightarrow> x \<in> set (subLog (InsertEventSubscribers es p s))"
  by (induction es arbitrary: s) (simp_all add: Let_def log_sub_def split: option.split)

text \<open>When a new subscriber arrives and the number of subscribers equals the system limit, the
  process with the largest number of subscribers pays for it: if the new subscriber belongs to
  that process the subscription is refused and the registry stays as it is, otherwise that
  process is killed and the subscription goes through, above the limit.\<close>

theorem limit_hits_top_process:
  assumes reach: "sub_reachable s" and v: "valid_events info" and new: "registry s l = None"
    and full: "length (subscribers s) = sys_subscriber_limit E" "0 < sys_subscriber_limit E"
    and res: "res = InsertSubscriber E cmd (Some info) (Some l) time rinfo s"
    and q: "q = fst (hd (GetTopSubscriberCounts s 1))"
  shows "(\<forall>q'. count_list (map (pid_at s) (subscribers s)) q' \<le>
            count_list (map (pid_at s) (subscribers s)) q) \<and>
    (if pid rinfo = q then fst res = None \<and> subscribers (snd res) = subscribers s
     else fst res \<noteq> None \<and> KillProcess q \<in> set (subLog (snd res)) \<and>
       length (subscribers (snd res)) = sys_subscriber_limit E + 1)"
proof -
  note inv = sub_reachable_inv [OF reach]
  let ?pids = "map (pid_at s) (subscribers s)" and ?m = "subscriberCounts s"
  have ok: "counts_ok ?m ?pids" by (rule sub_invD(7) [OF inv])
  have "subscribers s \<noteq> []" using full by auto
  then have "hd ?pids \<in> set ?pids" by (cases "subscribers s") simp_all
  then have "map_of ?m (hd ?pids) \<noteq> None" using ok by (simp add: counts_ok_def)
  then have ne: "?m \<noteq> []" by auto
  have top: "GetTopSubscriberCounts s 1 =
      take (min 1 (length ?m)) (sort_key (\<lambda>(p, c). - int c) ?m)"
    using ne by (simp add: GetTopSubscriberCounts_def)
  have entry: "c = count_list ?pids p" if "(p, c) \<in> set ?m" for p c
  proof -
    have "umap_ok ?m" using ok by (simp add: counts_ok_def)
    then have "map_of ?m p = Some c" using that by (rule map_of_is_SomeI)
    then show ?thesis using ok unfolding counts_ok_def by (metis option.distinct(1) option.inject)
  qed
  have maximal: "count_list ?pids q' \<le> count_list ?pids q" for q'
  proof (cases "q' \<in> set ?pids")
    case True
    then have "(q', count_list ?pids q') \<in> set ?m"
      using ok by (auto simp: counts_ok_def intro: map_of_SomeD)
    from top_count_maximal [OF ne this] obtain c where "(q, c) \<in> set ?m" "count_list ?pids q' \<le> c"
      unfolding q top by (metis prod.collapse)
    then show ?thesis using entry by blast
  next
    case False
    then have "count_list ?pids q' = 0" by (simp add: count_list_0_iff)
    then show ?thesis by simp
  qed
  let ?u = "with_new_record info l time rinfo s"
  have reached: "CheckSubscriberCountReachedMaxinum E ?u"
    using full by (simp add: CheckSubscriberCountReachedMaxinum_def Let_def)
  have ne': "ms_events (si_matchingSkills info) \<noteq> []" using v by (simp add: valid_events_def)
  have g: "GetSubscriberRecord s l = None" using new by (simp add: registry_def GetSubscriberRecord_def)
  have topu: "GetTopSubscriberCounts ?u 1 = GetTopSubscriberCounts s 1"
    by (simp add: GetTopSubscriberCounts_def)
  have pid: "pid_at ?u (subNext s) = pid rinfo" by (simp add: fresh_record_def)
  show ?thesis
    using maximal ne' reached topu pid full
    unfolding res InsertSubscriber_new [OF v g] InsertSubscriberRecordLocked_def
    by (auto simp: Let_def q ces_frame log_sub_def ReportTopSubscribersInfoHiSysEvent_def
      split: option.split intro!: InsertEventSubscribers_log)
qed

text \<open>One subscriber fills the limit of one; a subscriber of another process comes.\<close>

definition ex_other :: EventRecordInfo where "ex_other = ex_rinfo\<lparr>pid := 43\<rparr>"

lemma limit_hits_top_process_instance:
  "KillProcess 42 \<in> set (subLog (snd
     (InsertSubscriber ex_env (\<lambda>_. []) (Some ex_info) (Some 8) 9 ex_other ex_subs)))"
proof -
  have 1: "valid_events ex_info" by (simp add: valid_events_def ex_defs SUBSCRIBE_EVENT_MAX_NUM_def)
  have 2: "registry ex_subs 8 = None" by (simp add: registry_def ex_subs_value ex_defs)
  have 3: "length (subscribers ex_subs) = sys_subscriber_limit ex_env" "0 < sys_subscriber_limit ex_env"
    by (simp_all add: ex_subs_value ex_env_def)
  have 4: "42 = fst (hd (GetTopSubscriberCounts ex_subs 1))"
    by (simp add: ex_subs_value GetTopSubscriberCounts_def)
  have "pid ex_other \<noteq> 42" by (simp add: ex_other_def)
  then show ?thesis
    using limit_hits_top_process [OF ex_subs_reachable 1 2 3 refl 4] by presburger
qed

section \<open>Freezing\<close>

text \<open>Freezing or thawing by uid, by a list of pids or altogether sets the freeze flag and time
  of exactly the registered records concerned (the time goes back to 0 on thawing) and changes
  nothing else in the registry.\<close>

theorem freeze_hits_matching_records:
  assumes "sub_reachable s"
  shows "registry (UpdateFreezeInfo u b t s) l =
      map_option (\<lambda>r. if uid (subRecordInfo r) = u then freeze_record b t r else r) (registry s l) \<and>
    registry (UpdateFreezeInfo_pids qs b t s) l =
      map_option (\<lambda>r. if pid (subRecordInfo r) \<in> set qs then freeze_record b t r else r) (registry s l) \<and>
    registry (UpdateAllFreezeInfos b t s) l = map_option (freeze_record b t) (registry s l)"
  using registry_freeze_loop [OF sub_reachable_inv [OF assms]]
  by (simp add: UpdateFreezeInfo_def UpdateFreezeInfo_pids_def UpdateAllFreezeInfos_def)

lemma freeze_hits_matching_records_instance:
  "registry (UpdateFreezeInfo 1000 True 55 ex_subs) 7 = Some (ex_sub\<lparr>freezeTime := 55, isFreeze := True\<rparr>)"
  using freeze_hits_matching_records [OF ex_subs_reachable, of 1000 True 55 7, THEN conjunct1]
  by (simp add: registry_def ex_subs_value ex_defs freeze_record_def)

text \<open>Events kept for a frozen subscriber come back in the order they were published: storing a
  list of events leaves, in both stores, a suffix of what was there followed by the list, with
  the newest event last; if all their record times lie within thirty seconds nothing is lost at
  all; and fetching a store empties it, so that no kept event is published twice from it.\<close>

theorem frozen_events_kept_in_order:
  fixes s :: sub_state and p :: sub_ptr and ers :: "CommonEventRecord list"
  defines "u \<equiv> fold (InsertFrozenEvents (Some p)) ers s"
    and "q \<equiv> fold (InsertFrozenEventsMap (Some p)) ers s"
    and "old_u \<equiv> kept_in (frozen_of_uid s (uid_at s p)) (listener_at s p)"
    and "old_q \<equiv> kept_in (frozen_of_pid s (pid_at s p)) (listener_at s p)"
  shows "suffix (kept_in (frozen_of_uid u (uid_at s p)) (listener_at s p)) (old_u @ ers) \<and>
    suffix (kept_in (frozen_of_pid q (pid_at s p)) (listener_at s p)) (old_q @ ers) \<and>
    (ers \<noteq> [] \<longrightarrow>
      last (kept_in (frozen_of_uid u (uid_at s p)) (listener_at s p)) = last ers \<and>
      last (kept_in (frozen_of_pid q (pid_at s p)) (listener_at s p)) = last ers) \<and>
    ((\<forall>x \<in> set (old_u @ ers). \<forall>y \<in> set (old_u @ ers). recordTime x - recordTime y \<le> 30) \<longrightarrow>
      kept_in (frozen_of_uid u (uid_at s p)) (listener_at s p) = old_u @ ers) \<and>
    ((\<forall>x \<in> set (old_q @ ers). \<forall>y \<in> set (old_q @ ers). recordTime x - recordTime y \<le> 30) \<longrightarrow>
      kept_in (frozen_of_pid q (pid_at s p)) (listener_at s p) = old_q @ ers) \<and>
    fst (GetFrozenEvents v (snd (GetFrozenEvents v s))) = [] \<and>
    fst (GetFrozenEventsMapByPid w (snd (GetFrozenEventsMapByPid w s))) = []"
  using uid_store.kept_fold [of p ers s] pid_store.kept_fold [of p ers s]
    uid_store.kept_all [of s p ers] pid_store.kept_all [of s p ers]
    uid_store.taken_once pid_store.taken_once
  unfolding u_def q_def old_u_def old_q_def uid_store.kept_def pid_store.kept_def FREEZE_EVENT_TIMEOUT_def
  by simp

lemma frozen_events_kept_in_order_instance:
  "kept_in (frozen_of_uid (fold (InsertFrozenEvents (Some 0)) [ex_event, ex_event] ex_subs) 1000) 7 =
     [ex_event, ex_event]"
  using frozen_events_kept_in_order [of 0 "[ex_event, ex_event]" ex_subs]
  by (simp add: ex_subs_value ex_defs frozen_of_uid_def kept_in_def)

section \<open>The tests a receiver passes\<close>

text \<open>C4: Under the AND rule a publication reaches exactly the subscribers that satisfy every
  restriction the publisher named (bundle name, permissions, subscriber type, uids, API version),
  under the OR rule those that satisfy at least one; without restrictions it reaches all.  In
  both cases satisfying all of them is enough.\<close>

theorem publisher_restrictions:
  "(GetFilterSettings p = 0 \<longrightarrow> CheckSubscriberWhetherMatched E sub pub p) \<and>
   (pi_rule p = RuleAND \<longrightarrow> CheckSubscriberWhetherMatched E sub pub p =
     ((pi_bundleName p \<noteq> [] \<longrightarrow> pi_bundleName p = bundleName (subRecordInfo sub)) \<and>
      (pi_subscriberPermissions p \<noteq> [] \<longrightarrow> CheckPublisherRequiredPermissions E sub pub p) \<and>
      (pi_subscriberType p \<noteq> UNINITIALIZATED_SUBSCRIBER_TYPE \<longrightarrow>
        CheckSubscriberBySpecifiedType (pi_subscriberType p)
          (isSystemApp (subRecordInfo sub) \<or> isSubsystem (subRecordInfo sub))) \<and>
      (pi_subscriberUids p \<noteq> [] \<longrightarrow> to_int32 (uid (subRecordInfo sub)) \<in> set (pi_subscriberUids p)) \<and>
      (pi_maximumVersion p \<noteq> DEFAULT_VERSION \<longrightarrow> CheckSubscriberByMaximumVersion E sub p))) \<and>
   (pi_rule p = RuleOR \<longrightarrow> CheckSubscriberWhetherMatched E sub pub p =
     (GetFilterSettings p = 0 \<or>
      pi_bundleName p \<noteq> [] \<and> pi_bundleName p = bundleName (subRecordInfo sub) \<or>
      pi_subscriberPermissions p \<noteq> [] \<and> CheckPublisherRequiredPermissions E sub pub p \<or>
      pi_subscriberType p \<noteq> UNINITIALIZATED_SUBSCRIBER_TYPE \<and>
        CheckSubscriberBySpecifiedType (pi_subscriberType p)
          (isSystemApp (subRecordInfo sub) \<or> isSubsystem (subRecordInfo sub)) \<or>
      to_int32 (uid (subRecordInfo sub)) \<in> set (pi_subscriberUids p) \<or>
      CheckSubscriberByMaximumVersion E sub p))"
proof (intro conjI impI)
  have perm: "CheckPublisherRequiredPermissions E sub pub p =
      (uid (subRecordInfo sub) = uid pub \<or>
       (\<forall>q \<in> set (pi_subscriberPermissions p). VerifyAccessToken E (callerToken (subRecordInfo sub)) q))"
    by (auto simp: CheckPublisherRequiredPermissions_def verify_each_iff)
  note sat = dyn_bundle_def dyn_perm_def dyn_type_def dyn_uids_def dyn_ver_def perm
  show "GetFilterSettings p = 0 \<Longrightarrow> CheckSubscriberWhetherMatched E sub pub p"
    using dyn_filter.no_restriction [of p E "(sub, pub)"] by simp
  show "pi_rule p = RuleAND \<Longrightarrow> CheckSubscriberWhetherMatched E sub pub p =
     ((pi_bundleName p \<noteq> [] \<longrightarrow> pi_bundleName p = bundleName (subRecordInfo sub)) \<and>
      (pi_subscriberPermissions p \<noteq> [] \<longrightarrow> CheckPublisherRequiredPermissions E sub pub p) \<and>
      (pi_subscriberType p \<noteq> UNINITIALIZATED_SUBSCRIBER_TYPE \<longrightarrow>
        CheckSubscriberBySpecifiedType (pi_subscriberType p)
          (isSystemApp (subRecordInfo sub) \<or> isSubsystem (subRecordInfo sub))) \<and>
      (pi_subscriberUids p \<noteq> [] \<longrightarrow> to_int32 (uid (subRecordInfo sub)) \<in> set (pi_subscriberUids p)) \<and>
      (pi_maximumVersion p \<noteq> DEFAULT_VERSION \<longrightarrow> CheckSubscriberByMaximumVersion E sub p))"
    using dyn_filter.matched_and [of p E "(sub, pub)"] by (auto simp: sat)
  show "pi_rule p = RuleOR \<Longrightarrow> CheckSubscriberWhetherMatched E sub pub p =
     (GetFilterSettings p = 0 \<or>
      pi_bundleName p \<noteq> [] \<and> pi_bundleName p = bundleName (subRecordInfo sub) \<or>
      pi_subscriberPermissions p \<noteq> [] \<and> CheckPublisherRequiredPermissions E sub pub p \<or>
      pi_subscriberType p \<noteq> UNINITIALIZATED_SUBSCRIBER_TYPE \<and>
        CheckSubscriberBySpecifiedType (pi_subscriberType p)
          (isSystemApp (subRecordInfo sub) \<or> isSubsystem (subRecordInfo sub)) \<or>
      to_int32 (uid (subRecordInfo sub)) \<in> set (pi_subscriberUids p) \<or>
      CheckSubscriberByMaximumVersion E sub p)"
    using dyn_filter.matched_or [of p E "(sub, pub)"] by (auto simp: sat)
qed

lemma publisher_restrictions_instance:
  "CheckSubscriberWhetherMatched ex_env ex_sub ex_pinfo ((ex_publish False)\<lparr>pi_bundleName := ''sub''\<rparr>) \<and>
   \<not> CheckSubscriberWhetherMatched ex_env ex_sub ex_pinfo ((ex_publish False)\<lparr>pi_bundleName := ''x''\<rparr>)"
  using publisher_restrictions [of "(ex_publish False)\<lparr>pi_bundleName := ''sub''\<rparr>" ex_env ex_sub ex_pinfo]
    publisher_restrictions [of "(ex_publish False)\<lparr>pi_bundleName := ''x''\<rparr>" ex_env ex_sub ex_pinfo]
  by (simp add: ex_defs UNINITIALIZATED_SUBSCRIBER_TYPE_def DEFAULT_VERSION_def)

end
