(* ===== verification/Control_Props.thy ===== *)
theory Control_Props
  imports Sample_Instances
begin

text \<open>
  The properties of the control manager: the protocol of ordered events, unordered delivery,
  timeouts, and the publication of frozen events.  Each property is followed by an instance.
\<close>

section \<open>States for the instances\<close>

definition ex_rec :: OrderedEventRecord where "ex_rec = FillCommonEventRecord ex_event"

text \<open>One subscriber, one published event: first the ordered, then the unordered one.\<close>

definition ex_ctl0 :: "bool \<Rightarrow> ctl_state" where
  "ex_ctl0 ordered = (ctl_init (\<lambda>_. ex_sub) (\<lambda>_. ex_payload ordered) (\<lambda>_. ex_rec))\<lparr>cs_subs := ex_subs\<rparr>"

lemma ex_ctl0_reachable: "reachable (ex_ctl0 ordered)"
proof -
  have "sub_step (sub_init (\<lambda>_. ex_sub)) ex_subs"
    unfolding ex_subs_def ex_subs0_def
    by (rule sub_step.subscribe; simp add: sub_init_def registry_def ex_info_def ex_skills_def)
  then have "ctl_step (ctl_init (\<lambda>_. ex_sub) (\<lambda>_. ex_payload ordered) (\<lambda>_. ex_rec)) (ex_ctl0 ordered)"
    unfolding ex_ctl0_def by (intro ctl_step.subscribers) (simp add: ctl_init_def)
  then show ?thesis by (rule reachable.step [OF reachable.init])
qed

definition ex_ctl1 :: "bool \<Rightarrow> ctl_state" where
  "ex_ctl1 ordered = snd (PublishCommonEvent_ctl ex_env [] ex_event (Some 99) (ex_ctl0 ordered))"

lemma ex_ctl1_reachable: "reachable (ex_ctl1 ordered)"
  unfolding ex_ctl1_def by (rule reachable.step [OF ex_ctl0_reachable ctl_step.publish])

lemma ex_not_screen_off: "COMMON_EVENT_SCREEN_OFF \<noteq> ''ev.A''"
  by (simp add: COMMON_EVENT_SCREEN_OFF_def)

lemma ex_found: "GetSubscriberRecords ex_env [] ex_event (ex_payload ordered) ex_subs = ([0], ex_subs)"
proof -
  have a: "action_of (ex_payload ordered) = ''ev.A''" by (simp add: ex_payload_def ex_want_def)
  show ?thesis
    using ex_not_screen_off
    by (simp add: GetSubscriberRecords_def Let_def GetSubscriberRecordsByWantLocked_eq a at_vec_def
      ex_subs_value ex_accepts eq_commute [of COMMON_EVENT_SCREEN_OFF])
qed

definition ex_ord_rec :: OrderedEventRecord where
  "ex_ord_rec = ex_rec\<lparr>resultTo := Some 99, receivers := [0], deliveryState := [PENDING]\<rparr>"

lemma ex_ctl1_ordered:
  "ex_ctl1 True = (ex_ctl0 True)\<lparr>ordHeap := (\<lambda>_. ex_rec)(0 := ex_ord_rec), ordNext := 1,
     orderedEventQueue := [0], scheduled := True, orderedTasks := [True]\<rparr>"
proof -
  have p: "cs_payloads (ex_ctl0 True) (payloadPtr ex_event) = ex_payload True"
    "cs_subs (ex_ctl0 True) = ex_subs"
    by (simp_all add: ex_ctl0_def ctl_init_def)
  show ?thesis
    unfolding ex_ctl1_def PublishCommonEvent_ctl_def ProcessOrderedEvent_def p ex_found
    by (simp add: Let_def sort_receivers_def alloc_ord_def EnqueueOrderedRecord_def
      ScheduleOrderedCommonEvent_def ex_ctl0_def ctl_init_def ex_payload_def ex_publish_def
      ex_rec_def ex_ord_rec_def FillCommonEventRecord_def)
qed

lemma ex_ctl1_unordered:
  "ex_ctl1 False = (ex_ctl0 False)\<lparr>ordHeap := (\<lambda>_. ex_rec)(0 := ex_rec\<lparr>receivers := [0],
       deliveryState := [PENDING]\<rparr>), ordNext := 1, unorderedEventQueue := [0], unorderedQueue := [0]\<rparr>"
proof -
  have p: "cs_payloads (ex_ctl0 False) (payloadPtr ex_event) = ex_payload False"
    "cs_subs (ex_ctl0 False) = ex_subs"
    by (simp_all add: ex_ctl0_def ctl_init_def)
  show ?thesis
    unfolding ex_ctl1_def PublishCommonEvent_ctl_def ProcessUnorderedEvent_def p option.case ex_found
    by (simp add: Let_def alloc_ord_def EnqueueUnorderedRecord_def
      ex_ctl0_def ctl_init_def ex_payload_def ex_publish_def ex_event_def
      ex_rec_def FillCommonEventRecord_def)
qed

section \<open>The protocol of ordered events\<close>

text \<open>C5: In every reachable state of the control manager, at most one timer and at most one
  scheduled task are pending; every record has one delivery state per receiver and never a next
  receiver beyond the last; of the queued ordered events only the first has been handed to a
  receiver; and when that receiver is awaited, it is the one before \<open>nextReceiver\<close> and the
  timer is running.\<close>

theorem ordered_protocol_invariant:
  assumes "reachable c"
  shows "timeoutTasks c \<le> 1 \<and> count_list (orderedTasks c) True \<le> 1 \<and>
    (\<forall>o' < ordNext c. length (deliveryState (ordHeap c o')) = length (receivers (ordHeap c o')) \<and>
       nextReceiver (ordHeap c o') \<le> length (receivers (ordHeap c o'))) \<and>
    (\<forall>o' \<in> set (tl (orderedEventQueue c)). nextReceiver (ordHeap c o') = 0 \<and>
       curReceiver (ordHeap c o') = None) \<and>
    (\<forall>o' os l. orderedEventQueue c = o' # os \<and> curReceiver (ordHeap c o') = Some l \<longrightarrow>
       0 < nextReceiver (ordHeap c o') \<and> timeoutTasks c = 1 \<and>
       l = listener_at (cs_subs c) (receivers (ordHeap c o') ! (nextReceiver (ordHeap c o') - 1)))"
proof -
  have core: "core_inv c" using reachable_inv [OF assms] by (simp add: ctl_inv_def)
  have q: "queue_ok (cs_subs c) (pendingTimeoutMessage c) (ordHeap c) (orderedEventQueue c)"
    by (rule core_invD(12) [OF core])
  show ?thesis
  proof (intro conjI allI ballI impI)
    show "timeoutTasks c \<le> 1" "count_list (orderedTasks c) True \<le> 1"
      using core_invD(10,11) [OF core] by simp_all
  next
    fix o' assume "o' < ordNext c"
    then show "length (deliveryState (ordHeap c o')) = length (receivers (ordHeap c o'))"
      "nextReceiver (ordHeap c o') \<le> length (receivers (ordHeap c o'))"
      using core_invD(9) [OF core] by (simp_all add: rec_ok_def)
  next
    fix o' assume "o' \<in> set (tl (orderedEventQueue c))"
    then show "nextReceiver (ordHeap c o') = 0" "curReceiver (ordHeap c o') = None"
      using q by (cases "orderedEventQueue c"; auto simp: fresh_rec_def idle_rec_def)+
  next
    fix o' os l assume "orderedEventQueue c = o' # os \<and> curReceiver (ordHeap c o') = Some l"
    then show "0 < nextReceiver (ordHeap c o')" "timeoutTasks c = 1"
      "l = listener_at (cs_subs c) (receivers (ordHeap c o') ! (nextReceiver (ordHeap c o') - 1))"
      using q core_invD(10) [OF core] by (auto simp: idle_rec_def waiting_rec_def)
  qed
qed

lemma ordered_protocol_invariant_instance:
  "timeoutTasks (ex_ctl1 True) \<le> 1 \<and> length (deliveryState (ordHeap (ex_ctl1 True) 0)) = 1"
  using ordered_protocol_invariant [OF ex_ctl1_reachable, of True]
  by (simp add: ex_ctl1_ordered ex_ord_rec_def)

text \<open>C6: Every ordered event comes to an end even if no receiver ever answers: as long as the queue
  of ordered events is not empty one of the manager's own steps (a task of its queue, or its
  timer when the current receiver is late) is possible, each such step makes a well-founded
  measure smaller, and so the own steps lead to an empty queue from every reachable state.\<close>

theorem ordered_events_finish:
  assumes "reachable c"
  shows "(orderedEventQueue c \<noteq> [] \<longrightarrow> (\<exists>c'. own_step E pm c c')) \<and>
    (\<forall>c'. own_step E pm c c' \<longrightarrow> own_less c' c) \<and> wfP own_less \<and>
    (\<exists>c'. (own_step E pm)\<^sup>*\<^sup>* c c' \<and> orderedEventQueue c' = [])"
  using reachable_inv [OF assms] own_step_possible own_step_decreases own_less_wf drains by blast

lemma ordered_events_finish_instance:
  "orderedEventQueue (ex_ctl1 True) = [0] \<and>
   (\<exists>c'. (own_step ex_env [])\<^sup>*\<^sup>* (ex_ctl1 True) c' \<and> orderedEventQueue c' = [])"
  using ordered_events_finish [OF ex_ctl1_reachable, of True ex_env "[]"] by (simp add: ex_ctl1_ordered)

text \<open>C7: Publishing an ordered event appends one record to the queue, with a task scheduled for it;
  its receivers are, sorted by descending priority, exactly the registered subscribers that
  accept the event, all still pending, and nobody has been notified yet.\<close>

theorem publish_ordered:
  fixes er :: CommonEventRecord and c :: ctl_state and E :: env
    and pm :: "(string, Permission) umap" and l :: "remote option"
  defines "pl \<equiv> cs_payloads c (payloadPtr er)"
    and "c' \<equiv> snd (PublishCommonEvent_ctl E pm er l c)"
  assumes "reachable c" and ord: "pi_ordered (publishInfo pl)"
  shows "orderedEventQueue c' = orderedEventQueue c @ [ordNext c] \<and> True \<in> set (orderedTasks c') \<and>
    ctlLog c' = ctlLog c \<and>
    mset (map (sub_rec c') (receivers (ordHeap c' (ordNext c)))) =
      mset (filter (accepts E pm er pl) (map (sub_rec c) (subscribers (cs_subs c)))) \<and>
    sorted_wrt (\<ge>) (map (\<lambda>p. si_priority (eventSubscribeInfo (sub_rec c' p)))
      (receivers (ordHeap c' (ordNext c)))) \<and>
    set (deliveryState (ordHeap c' (ordNext c))) \<subseteq> {PENDING} \<and> nextReceiver (ordHeap c' (ordNext c)) = 0"
proof -
  have inv: "ctl_inv c" and core: "core_inv c"
    using reachable_inv [OF assms(3)] by (simp_all add: ctl_inv_def)
  define found where "found = GetSubscriberRecords E pm er pl (cs_subs c)"
  define r where "r = (FillCommonEventRecord er)\<lparr>resultTo := l, state := event_code IDLE,
      nextReceiver := 0, receivers := sort_receivers (snd found) (fst found),
      deliveryState := replicate (length (sort_receivers (snd found) (fst found))) PENDING\<rparr>"
  define d where "d = c\<lparr>cs_subs := snd found, ordHeap := (ordHeap c)(ordNext c := r),
      ordNext := ordNext c + 1, orderedEventQueue := orderedEventQueue c @ [ordNext c]\<rparr>"
  have c': "c' = snd (ScheduleOrderedCommonEvent d)"
    using ord unfolding c'_def pl_def PublishCommonEvent_ctl_def ProcessOrderedEvent_def
    by (simp add: case_prod_unfold Let_def r_def EnqueueOrderedRecord_def alloc_ord_def d_def
      found_def pl_def)
  have fields: "cs_subs c' = snd found" "ordHeap c' = (ordHeap c)(ordNext c := r)"
    "orderedEventQueue c' = orderedEventQueue c @ [ordNext c]" "ctlLog c' = ctlLog c"
    by (simp_all add: c' ScheduleOrderedCommonEvent_def d_def)
  have "True \<in> set (orderedTasks c')"
    unfolding c' by (rule Schedule_tasks) (use core_invD(11) [OF core] in \<open>simp add: d_def\<close>)
  moreover have "mset (map (subHeap (snd found)) (fst found)) =
      mset (filter (accepts E pm er pl) (map (sub_rec c) (subscribers (cs_subs c))))"
    unfolding found_def by (rule lookup_records [OF sub_inv_of_ctl [OF inv] refl])
  moreover have "sorted (map (\<lambda>p. - si_priority (eventSubscribeInfo (subHeap (snd found) p)))
      (sort_receivers (snd found) (fst found)))"
    unfolding sort_receivers_def by simp
  then have "sorted_wrt (\<ge>) (map (\<lambda>p. si_priority (eventSubscribeInfo (subHeap (snd found) p)))
      (sort_receivers (snd found) (fst found)))"
    by (simp add: sorted_wrt_map)
  ultimately show ?thesis
    by (simp add: fields r_def) (simp add: sort_receivers_def set_replicate_conv_if)
qed

lemma publish_ordered_instance: "orderedEventQueue (ex_ctl1 True) = [0]"
  using publish_ordered [OF ex_ctl0_reachable, of True ex_event ex_env "[]" "Some 99"]
  unfolding ex_ctl1_def [symmetric] by (simp add: ex_ctl0_def ctl_init_def ex_payload_def ex_publish_def)

end
