(* ===== verification/Delivery_Props.thy ===== *)
theory Delivery_Props
  imports Control_Props
begin

text \<open>
  The properties of single deliveries: what a receiver of an ordered event experiences, what
  its answer or its silence leads to, and what the task of an unordered event does.
\<close>

section \<open>One receiver of an ordered event\<close>

text \<open>The test of \<open>CheckTimeoutForceReceive\<close>, on the record alone.\<close>

definition overdue :: "int64 \<Rightarrow> OrderedEventRecord \<Rightarrow> bool" where
  "overdue now r \<longleftrightarrow> dispatchTime r > 0 \<and> receivers r \<noteq> [] \<and>
     (word_of_int now :: uint64) > word_of_int (dispatchTime r) +
       word_of_int (DOUBLE_FACTOR * TIMEOUT_MS) * of_nat (length (receivers r))"

lemma fst_Check: "fst (CheckTimeoutForceReceive now o' c) = overdue now (ordHeap c o')"
  by (auto simp: CheckTimeoutForceReceive_def overdue_def Let_def)

lemma next_ready:
  assumes q: "orderedEventQueue c = o' # os" and ready: "ready_rec (ordHeap c o')"
    and time: "\<not> overdue now (ordHeap c o')"
  shows "ProcessNextOrderedEvent E pm now b c =
    dispatch E pm now o' (if b then c\<lparr>scheduled := False\<rparr> else c)"
proof -
  define c0 where "c0 = (if b then c\<lparr>scheduled := False\<rparr> else c)"
  have h: "ordHeap c0 = ordHeap c" "orderedEventQueue c0 = o' # os"
    by (simp_all add: c0_def q)
  have chk: "CheckTimeoutForceReceive now o' c0 = (False, c0)"
    using time fst_Check [of now o' c0] CheckTimeoutForceReceive_form [of now o' c0] h by auto
  have "ProcessOrderedEventQueueLocked now [] c0 = (Some o', [], c0)"
    using ready by (subst scan_step [OF h(2) refl]) (auto simp: chk h ready_rec_def idle_rec_def)
  then show ?thesis
    unfolding ProcessNextOrderedEvent_dispatch c0_def [symmetric] by simp
qed

lemma outcome_armed:
  "outcome E (armed now o' c) o' i = outcome E c o' i"
  "outcome_log E pm (armed now o' c) o' i = outcome_log E pm c o' i"
  by (simp_all add: outcome_def outcome_log_def receiver_at_def Let_def)

lemma slice_prepared [simp]: "slice (prepared now r) = slice r"
  by (simp add: slice_def prepared_def)

text \<open>C8: When a task runs for an ordered event that has a further receiver, the receiver of the
  next lower priority is served and no other, and the timer runs.  A frozen receiver is skipped
  and the event kept for it; one whose proxy cannot be cast or whose notification fails is passed
  over; in these cases nobody is awaited and a task for the next receiver is scheduled.  A
  notified receiver is awaited from now on.\<close>

theorem next_receiver_served:
  assumes "reachable c" and t: "orderedTasks c = b # ts" and q: "orderedEventQueue c = o' # os"
    and r: "r = ordHeap c o'" and i: "i = nextReceiver r" and pl: "pl = payload_of c o'"
    and idle: "state r = event_code IDLE" "\<not> resultAbort r" and n: "i < length (receivers r)"
    and time: "\<not> overdue now r"
    and sub: "sub = sub_rec c (receivers r ! i)" and l: "l = commonEventListener sub"
    and cast: "proxy \<longleftrightarrow> \<not> isFreeze sub \<and> ipc_is_receiver E l"
    and ok: "ok \<longleftrightarrow> proxy \<and>
      ipc_notify E l (commonEventData pl) True (pi_sticky (publishInfo pl)) = ERR_OK"
    and c': "c' = ProcessNextOrderedEvent E pm now b (c\<lparr>orderedTasks := ts\<rparr>)"
  shows "orderedEventQueue c' = orderedEventQueue c \<and> pendingTimeoutMessage c' \<and>
    nextReceiver (ordHeap c' o') = i + 1 \<and> receiverTime (ordHeap c' o') = now \<and>
    deliveryState (ordHeap c' o') =
      (deliveryState r)[i := if isFreeze sub then SKIPPED else DELIVERED] \<and>
    ctlLog c' = ctlLog c @
      (if proxy then [NotifyEvent l (commonEventData pl) True (pi_sticky (publishInfo pl))] else []) @
      (if ok then map (\<lambda>(t, p). AddPermissionUsedRecord t p)
         (RecordSensitivePermissionUsage E pm (callerToken (subRecordInfo sub)) (action_of pl)) else []) \<and>
    (if ok then curReceiver (ordHeap c' o') = Some l \<and> state (ordHeap c' o') = event_code RECEIVED
     else curReceiver (ordHeap c' o') = None \<and> state (ordHeap c' o') = event_code IDLE \<and>
       True \<in> set (orderedTasks c')) \<and>
    cs_subs c' = (if isFreeze sub then keep_frozen (slice r) (receivers r ! i) (cs_subs c)
      else cs_subs c)"
proof -
  have core: "core_inv c" using reachable_inv [OF assms(1)] by (simp add: ctl_inv_def)
  define a where "a = (if b then c\<lparr>orderedTasks := ts, scheduled := False\<rparr> else c\<lparr>orderedTasks := ts\<rparr>)"
  have a: "ordHeap a = ordHeap c" "cs_subs a = cs_subs c" "cs_payloads a = cs_payloads c"
    "ctlLog a = ctlLog c" "orderedEventQueue a = orderedEventQueue c"
    "scheduled a \<longleftrightarrow> \<not> b \<and> scheduled c" "orderedTasks a = ts"
    by (simp_all add: a_def)
  have "ready_rec (ordHeap (c\<lparr>orderedTasks := ts\<rparr>) o')"
    using core_invD(12) [OF core] q n idle
    by (auto simp: ready_rec_def idle_rec_def waiting_rec_def r i)
  then have disp: "c' = dispatch E pm now o' a"
    unfolding c' a_def using next_ready [of "c\<lparr>orderedTasks := ts\<rparr>" o' os now E pm b] q time r by simp
  have ra: "receiver_at a o' i = sub" "cs_payloads a (payloadPtr r) = pl" "ordHeap a o' = r"
    by (simp_all add: receiver_at_def a sub r pl)
  have ia: "nextReceiver (ordHeap a o') = i" and la: "commonEventListener (receiver_at a o' i) = l"
    and na: "nextReceiver (ordHeap a o') < length (receivers (ordHeap a o'))"
    using n by (simp_all add: ra l i [symmetric])
  have D: "c' = (let out = outcome E a o' i; es = outcome_log E pm a o' i
     in if out = Delivered then log_ctl es (upd_ord o' (outcome_rec out l i) (delivered_to E now o' a))
        else snd (ScheduleOrderedCommonEvent (log_ctl es
           (upd_ord o' (\<lambda>r. (outcome_rec out l i r)\<lparr>state := event_code IDLE\<rparr>)
             (delivered_to E now o' a)))))"
    unfolding disp dispatch_form [OF na, of E pm now, unfolded outcome_armed ia la] ..
  have task: "True \<in> set (orderedTasks a)" if "scheduled a"
    using that t core_invD(11) [OF core]
    by (cases "True \<in> set ts") (auto simp: a count_list_0_iff split: if_splits)
  have out: "outcome E a o' i = (if isFreeze sub then Frozen else if \<not> proxy then NoProxy
      else if ok then Delivered else Failed)"
    using cast ok l by (auto simp: outcome_def ra Let_def)
  have log: "outcome_log E pm a o' i =
      (if proxy then [NotifyEvent l (commonEventData pl) True (pi_sticky (publishInfo pl))] else []) @
      (if ok then map (\<lambda>(t, p). AddPermissionUsedRecord t p)
         (RecordSensitivePermissionUsage E pm (callerToken (subRecordInfo sub)) (action_of pl)) else [])"
    using cast ok l by (auto simp: outcome_log_def out ra Let_def)
  have st: "True \<in> set (orderedTasks (snd (ScheduleOrderedCommonEvent d)))"
    if "scheduled d \<longrightarrow> True \<in> set (orderedTasks d)" for d
    using that by (simp add: ScheduleOrderedCommonEvent_def)
  have subs: "cs_subs (delivered_to E now o' a) =
      (if isFreeze sub then keep_frozen (slice r) (receivers r ! i) (cs_subs c) else cs_subs c)"
    using sub out
    by (simp add: delivered_to_def outcome_armed Let_def ia freeze_event_def keep_frozen_def ra(3) a(2)
      i [symmetric])
  show ?thesis
    unfolding D out log Let_def
    using cast ok subs task i
    by (cases "isFreeze sub"; cases proxy; cases ok)
      (simp_all add: st a r [symmetric] ScheduleOrderedCommonEvent_def)
qed

lemma ex_ctl1_parts:
  "orderedTasks (ex_ctl1 True) = [True]" "orderedEventQueue (ex_ctl1 True) = [0]"
  "ordHeap (ex_ctl1 True) 0 = ex_ord_rec" "cs_subs (ex_ctl1 True) = ex_subs"
  "cs_payloads (ex_ctl1 True) p = ex_payload True" "ctlLog (ex_ctl1 True) = []"
  by (simp_all add: ex_ctl1_ordered ex_ctl0_def ctl_init_def)

lemma ex_ord_rec_parts:
  "state ex_ord_rec = event_code IDLE" "resultAbort ex_ord_rec = False" "nextReceiver ex_ord_rec = 0"
  "receivers ex_ord_rec = [0]" "dispatchTime ex_ord_rec = 0" "payloadPtr ex_ord_rec = 0"
  "resultTo ex_ord_rec = Some 99" "deliveryState ex_ord_rec = [PENDING]"
  by (simp_all add: ex_ord_rec_def ex_rec_def FillCommonEventRecord_def ex_event_def)

lemma ex_subs_heap: "subHeap ex_subs p = ex_sub"
  by (simp add: ex_subs_value)

definition ex_ctl2 :: ctl_state where
  "ex_ctl2 = ProcessNextOrderedEvent ex_env [] 50 True ((ex_ctl1 True)\<lparr>orderedTasks := []\<rparr>)"

lemma next_receiver_served_instance: "curReceiver (ordHeap ex_ctl2 0) = Some 7 \<and> nextReceiver (ordHeap ex_ctl2 0) = 1"
proof -
  have "ex_sub = sub_rec (ex_ctl1 True) (receivers ex_ord_rec ! 0)" "\<not> overdue 50 ex_ord_rec"
    "True \<longleftrightarrow> \<not> isFreeze ex_sub \<and> ipc_is_receiver ex_env 7"
    "True \<longleftrightarrow> True \<and> ipc_notify ex_env 7 (commonEventData (ex_payload True)) True
       (pi_sticky (publishInfo (ex_payload True))) = ERR_OK"
    "7 = commonEventListener ex_sub"
    by (simp_all add: ex_ctl1_parts ex_subs_heap overdue_def ex_ord_rec_parts)
      (simp_all add: ex_sub_def ex_env_def)
  note sub = this
  show ?thesis
    using next_receiver_served [OF ex_ctl1_reachable ex_ctl1_parts(1,2) _ _ _ _ _ _ sub(2,1,5,3,4) ex_ctl2_def]
    by (simp add: ex_ctl1_parts ex_ord_rec_parts)
qed

section \<open>The end of an ordered event\<close>

lemma dispatch_frame:
  assumes "nextReceiver (ordHeap c o') < length (receivers (ordHeap c o'))"
  shows "\<exists>es. ctlLog (dispatch E pm now o' c) = ctlLog c @ es"
    and "q \<noteq> o' \<Longrightarrow> ordHeap (dispatch E pm now o' c) q = ordHeap c q"
    and "cs_payloads (dispatch E pm now o' c) = cs_payloads c"
  unfolding dispatch_form [OF assms] Let_def by (auto simp: ScheduleOrderedCommonEvent_def)

lemma scan_log:
  "ProcessOrderedEventQueueLocked now removed c = (sp, removed', c') \<Longrightarrow>
     \<exists>es. ctlLog c' = ctlLog c @ es"
proof (induction "length (orderedEventQueue c)" arbitrary: c removed)
  case 0
  then show ?case by (subst (asm) ProcessOrderedEventQueueLocked.simps) simp
next
  case (Suc n)
  then obtain o' os where q: "orderedEventQueue c = o' # os" by (cases "orderedEventQueue c") auto
  define c1 where "c1 = snd (CheckTimeoutForceReceive now o' c)"
  let ?d = "(CancelTimeout c1)\<lparr>orderedEventQueue := os\<rparr>"
  obtain es where es: "ctlLog c1 = ctlLog c @ es"
    using CheckTimeoutForceReceive_form [of now o' c] unfolding c1_def by auto
  have "c' = c1 \<or> ProcessOrderedEventQueueLocked now (removed @ [o']) ?d = (sp, removed', c')"
    using Suc.prems unfolding scan_step [OF q c1_def] by (auto split: if_splits)
  then show ?case
  proof
    assume "ProcessOrderedEventQueueLocked now (removed @ [o']) ?d = (sp, removed', c')"
    moreover have "n = length (orderedEventQueue ?d)" using Suc.hyps(2) q by simp
    ultimately obtain fs where "ctlLog c' = ctlLog ?d @ fs" using Suc.hyps(1) by blast
    then show ?thesis using es by (simp add: CancelTimeout_def split: if_splits)
  qed (use es in auto)
qed

lemma final_fold_log:
  "\<exists>es. ctlLog (foldl (\<lambda>c o'. snd (HandleFinalSubscriber E o' c)) c os) = ctlLog c @ es"
proof (induction os arbitrary: c)
  case (Cons o' os)
  have "\<exists>es. ctlLog (snd (HandleFinalSubscriber E o' c)) = ctlLog c @ es"
    using final_frame_HandleFinal [of c E o'] by (auto simp: final_frame_def)
  then show ?case using Cons.IH [of "snd (HandleFinalSubscriber E o' c)"] by auto
qed simp

text \<open>A task that finds the first event at its end: the record leaves the queue, the receivers it
  has not reached stay as they are, and the final subscriber is told the result.\<close>

lemma task_core:
  assumes "core_inv c" "orderedTasks c = b # ts"
  shows "core_inv (if b then c\<lparr>orderedTasks := ts, scheduled := False\<rparr> else c\<lparr>orderedTasks := ts\<rparr>)"
  using assms by (cases b) (auto simp: core_inv_def split: if_splits)

lemma timed_out_later:
  "r' = r \<or> (\<exists>now. r' = timed_out now r) \<Longrightarrow> nextReceiver r \<le> i \<Longrightarrow>
     deliveryState r' ! i = deliveryState r ! i"
  by (auto simp: timed_out_def)

lemma event_end:
  assumes core: "core_inv c" and t: "orderedTasks c = b # ts" and q: "orderedEventQueue c = o' # os"
    and idle: "state (ordHeap c o') = event_code IDLE"
    and stop: "resultAbort (ordHeap c o') \<or> nextReceiver (ordHeap c o') \<ge> length (receivers (ordHeap c o'))"
    and c': "c' = ProcessNextOrderedEvent E pm now b (c\<lparr>orderedTasks := ts\<rparr>)"
  shows "o' \<notin> set (orderedEventQueue c') \<and> nextReceiver (ordHeap c' o') = nextReceiver (ordHeap c o') \<and>
    (\<forall>i \<ge> nextReceiver (ordHeap c o'). deliveryState (ordHeap c' o') ! i = deliveryState (ordHeap c o') ! i) \<and>
    (\<exists>es fs. ctlLog c' = ctlLog c @ es @ final_report E c o' @ fs)"
proof -
  define c0 where "c0 = (if b then c\<lparr>orderedTasks := ts, scheduled := False\<rparr> else c\<lparr>orderedTasks := ts\<rparr>)"
  define c1 where "c1 = snd (CheckTimeoutForceReceive now o' c0)"
  define d where "d = (CancelTimeout c1)\<lparr>orderedEventQueue := os\<rparr>"
  have c0: "orderedEventQueue c0 = o' # os" "ordHeap c0 = ordHeap c" "cs_payloads c0 = cs_payloads c"
    "ctlLog c0 = ctlLog c" and core0: "core_inv c0"
    using task_core [OF core t] by (simp_all add: c0_def q)
  have o': "o' \<notin> set os" "o' < ordNext c0" using core_invD(2,3) [OF core0] c0(1) by simp_all
  have f1: "scan_frame c0 c1" unfolding c1_def by (rule scan_frame_Check)
  have core1: "core_inv c1" unfolding c1_def by (rule core_Check [OF core0 o'(2)])
  obtain sp removed e where scan: "ProcessOrderedEventQueueLocked now [o'] d = (sp, removed, e)"
    by (cases "ProcessOrderedEventQueueLocked now [o'] d") auto
  have h1: "resultAbort (ordHeap c1 o') = resultAbort (ordHeap c o')"
    "nextReceiver (ordHeap c1 o') = nextReceiver (ordHeap c o')"
    "receivers (ordHeap c1 o') = receivers (ordHeap c o')"
    using f1 c0(2) unfolding scan_frame_def by simp_all
  have h2: "state (ordHeap c1 o') = event_code IDLE"
    using CheckTimeoutForceReceive_form [of now o' c0] idle c0(2) unfolding c1_def by auto
  have first: "ProcessOrderedEventQueueLocked now [] c0 = (sp, removed, e)"
    using stop scan by (subst scan_step [OF c0(1) c1_def]) (auto simp: h1 h2 d_def)
  have "orderedEventQueue c1 = o' # os" by (simp add: c1_def c0(1))
  from core_drop_head [OF core1 this] have "core_inv d" by (simp add: d_def)
  from scan_spec [OF this scan] obtain n where core_e: "core_inv e" and "scan_frame d e"
    and n: "removed = o' # take n os" "orderedEventQueue e = drop n os"
    and sp: "case sp of None \<Rightarrow> orderedEventQueue e = [] \<or>
         state (ordHeap e (hd (orderedEventQueue e))) \<noteq> event_code IDLE
     | Some q \<Rightarrow> (\<exists>os. orderedEventQueue e = q # os) \<and> ready_rec (ordHeap e q)"
    by (auto simp: d_def)
  then have f: "scan_frame c0 e"
    using scan_frame_trans [OF f1] scan_frame_drop [of c1 os] scan_frame_trans unfolding d_def by blast
  define c2 where "c2 = foldl (\<lambda>c o'. snd (HandleFinalSubscriber E o' c)) e removed"
  have o'_notin: "o' \<notin> set (orderedEventQueue e)" using o'(1) n(2) by (auto dest: in_set_dropD)
  have "\<forall>q \<in> set removed. q < ordNext e"
  proof
    fix q assume "q \<in> set removed"
    then have "q \<in> set (orderedEventQueue c0)" using n(1) c0(1) by (auto dest: in_set_takeD)
    then show "q < ordNext e" using core_invD(3) [OF core0] f by (simp add: scan_frame_def)
  qed
  from final_fold [OF core_e this, of E] have ff: "final_frame e c2" by (simp add: c2_def)
  have rec: "nextReceiver (ordHeap e o') = nextReceiver (ordHeap c o')"
    "nextReceiver (ordHeap c o') \<le> i \<Longrightarrow> deliveryState (ordHeap e o') ! i = deliveryState (ordHeap c o') ! i"
    for i
    using f timed_out_later [of "ordHeap e o'" "ordHeap c o'" i]
    unfolding scan_frame_def c0(2) by simp_all
  have "resultTo (ordHeap e o') = resultTo (ordHeap c o')" "payload_of e o' = payload_of c o'"
    using f unfolding scan_frame_def c0(2,3) by simp_all
  then have report: "final_report E e o' = final_report E c o'"
    unfolding final_report_def by (simp only:)
  have rec2: "nextReceiver (ordHeap c2 o') = nextReceiver (ordHeap e o')"
    "deliveryState (ordHeap c2 o') = deliveryState (ordHeap e o')"
    using final_frameD(2) [OF ff, of o'] by auto
  obtain es where es: "ctlLog e = ctlLog c @ es" using scan_log [OF first] c0(4) by auto
  obtain f where "snd (HandleFinalSubscriber E o' e) = log_ctl (final_report E e o') (upd_ord o' f e)"
    using HandleFinalSubscriber_form by blast
  then obtain fs where log2: "ctlLog c2 = ctlLog c @ es @ final_report E c o' @ fs"
    using final_fold_log [of E "snd (HandleFinalSubscriber E o' e)" "take n os"]
    by (auto simp: c2_def n(1) es report)
  have run: "c' = (case sp of None \<Rightarrow> c2 | Some q \<Rightarrow> dispatch E pm now q c2)"
    using first unfolding c' ProcessNextOrderedEvent_dispatch c2_def c0_def by (cases b) (simp_all add: Let_def)
  show ?thesis
  proof (cases sp)
    case None
    then show ?thesis using log2 rec rec2 o'_notin final_frameD(1) [OF ff] by (auto simp: run)
  next
    case (Some q)
    then have q: "q \<noteq> o'" "ready_rec (ordHeap e q)" using sp o'_notin by auto
    have "nextReceiver (ordHeap c2 q) < length (receivers (ordHeap c2 q))"
      using q(2) final_frameD(2) [OF ff, of q] by (auto simp: ready_rec_def)
    note D = dispatch_frame [OF this, where E = E and pm = pm and now = now]
      dispatch_record(1) [OF this, where E = E and pm = pm and now = now]
    obtain gs where "ctlLog c' = ctlLog c2 @ gs" using D(1) by (auto simp: run Some)
    then have "ctlLog c' = ctlLog c @ es @ final_report E c o' @ (fs @ gs)" by (simp add: log2)
    moreover have "ordHeap c' o' = ordHeap c2 o'" "orderedEventQueue c' = orderedEventQueue e"
      using D(2,4) q(1) final_frameD(1) [OF ff] by (simp_all add: run Some)
    ultimately show ?thesis using rec rec2 o'_notin by auto
  qed
qed

text \<open>The effect of an answer.\<close>

lemma FinishReceiverAction_effect:
  "snd (FinishReceiverAction (Some o') code d ab c) =
     (let r = ordHeap c o'; pl = cs_payloads c (payloadPtr r)
      in c\<lparr>ordHeap := (ordHeap c)(o' := r\<lparr>state := event_code IDLE, curReceiver := None, resultAbort := ab\<rparr>),
           cs_payloads := (cs_payloads c)(payloadPtr r := pl\<lparr>commonEventData :=
             (commonEventData pl)\<lparr>cd_code := code, cd_data := d\<rparr>\<rparr>),
           orderedTasks := orderedTasks c @ (if state r = event_code RECEIVED then [False] else [])\<rparr>)"
proof -
  let ?d = "snd (FinishReceiver_ctl (Some o') code d ab c)"
  have "snd (FinishReceiverAction (Some o') code d ab c) =
      (if state (ordHeap c o') = event_code RECEIVED
       then ?d\<lparr>orderedTasks := orderedTasks ?d @ [False]\<rparr> else ?d)"
    by (simp add: FinishReceiverAction_def case_prod_unfold Let_def FinishReceiver_ctl_def)
  also have "\<dots> = (let r = ordHeap c o'; pl = cs_payloads c (payloadPtr r)
      in c\<lparr>ordHeap := (ordHeap c)(o' := r\<lparr>state := event_code IDLE, curReceiver := None, resultAbort := ab\<rparr>),
           cs_payloads := (cs_payloads c)(payloadPtr r := pl\<lparr>commonEventData :=
             (commonEventData pl)\<lparr>cd_code := code, cd_data := d\<rparr>\<rparr>),
           orderedTasks := orderedTasks c @ (if state r = event_code RECEIVED then [False] else [])\<rparr>)"
    by (rule ctl_state.equality) (simp_all add: FinishReceiver_ctl_def Let_def)
  finally show ?thesis .
qed

text \<open>A receiver's answer is recorded where it belongs: code and data replace those of the
  event (and of every record that shares its data, and of no other), nobody is awaited any more,
  the abort flag is that of the answer, and a task for the next receiver is queued exactly when
  the record was awaiting an answer.\<close>

theorem answer_recorded:
  "let c' = snd (FinishReceiverAction (Some o') code d ab c); r = ordHeap c o'
   in (\<forall>q. payload_of c' q =
        (if payloadPtr (ordHeap c q) = payloadPtr r
         then (payload_of c q)\<lparr>commonEventData :=
           (commonEventData (payload_of c q))\<lparr>cd_code := code, cd_data := d\<rparr>\<rparr>
         else payload_of c q)) \<and>
    ordHeap c' = (ordHeap c)(o' := r\<lparr>state := event_code IDLE, curReceiver := None, resultAbort := ab\<rparr>) \<and>
    orderedTasks c' = orderedTasks c @ (if state r = event_code RECEIVED then [False] else []) \<and>
    orderedEventQueue c' = orderedEventQueue c \<and> ctlLog c' = ctlLog c"
  by (simp add: FinishReceiverAction_effect Let_def)


lemma ex_ctl2_reachable: "reachable ex_ctl2"
  unfolding ex_ctl2_def
  by (rule reachable.step [OF ex_ctl1_reachable ctl_step.ordered_task [OF ex_ctl1_parts(1)]])

lemma ex_ctl2_parts:
  "orderedTasks ex_ctl2 = []" "orderedEventQueue ex_ctl2 = [0]"
  "ordHeap ex_ctl2 0 = ex_ord_rec\<lparr>nextReceiver := 1, receiverTime := 50, dispatchTime := 50,
     deliveryState := [DELIVERED], state := event_code RECEIVED, curReceiver := Some 7\<rparr>"
  "cs_payloads ex_ctl2 p = ex_payload True" "timeoutTasks ex_ctl2 = 1" "cs_subs ex_ctl2 = ex_subs"
proof -
  define a where "a = (ex_ctl1 True)\<lparr>orderedTasks := [], scheduled := False\<rparr>"
  have a: "ordHeap a 0 = ex_ord_rec" "orderedTasks a = []" "orderedEventQueue a = [0]"
    "cs_payloads a p = ex_payload True" "cs_subs a = ex_subs" "timeoutTasks a = 0" "\<not> pendingTimeoutMessage a"
    for p
    by (simp_all add: a_def ex_ctl1_parts) (simp_all add: ex_ctl1_ordered ex_ctl0_def ctl_init_def)
  have "ready_rec (ordHeap ((ex_ctl1 True)\<lparr>orderedTasks := []\<rparr>) 0)"
    "\<not> overdue 50 (ordHeap ((ex_ctl1 True)\<lparr>orderedTasks := []\<rparr>) 0)"
    by (simp_all add: ex_ctl1_parts ready_rec_def idle_rec_def ex_ord_rec_parts overdue_def)
      (simp add: ex_ord_rec_def ex_rec_def FillCommonEventRecord_def)
  from next_ready [OF _ this, of "[]"] have e: "ex_ctl2 = dispatch ex_env [] 50 0 a"
    by (simp add: ex_ctl2_def a_def ex_ctl1_parts)
  have n: "nextReceiver (ordHeap a 0) < length (receivers (ordHeap a 0))"
    by (simp add: a ex_ord_rec_parts)
  have o: "outcome ex_env a 0 0 = Delivered"
    by (simp add: outcome_def receiver_at_def a ex_ord_rec_parts ex_subs_heap Let_def)
      (simp add: ex_sub_def ex_env_def)
  have i: "nextReceiver (ordHeap a 0) = 0" "commonEventListener (receiver_at a 0 0) = 7"
    by (simp_all add: a ex_ord_rec_parts receiver_at_def ex_subs_heap) (simp add: ex_sub_def)
  have d: "delivered_to ex_env 50 0 a = armed 50 0 a"
    by (simp add: delivered_to_def i outcome_armed o Let_def)
  obtain es where v: "ex_ctl2 = log_ctl es (upd_ord 0 (outcome_rec Delivered 7 0) (armed 50 0 a))"
    unfolding e dispatch_form [OF n] i outcome_armed o by (simp add: Let_def d)
  show "orderedTasks ex_ctl2 = []" "orderedEventQueue ex_ctl2 = [0]"
    "cs_payloads ex_ctl2 p = ex_payload True" "timeoutTasks ex_ctl2 = 1" "cs_subs ex_ctl2 = ex_subs"
    unfolding v by (simp_all add: a armed_def SetTimeout_def)
  show "ordHeap ex_ctl2 0 = ex_ord_rec\<lparr>nextReceiver := 1, receiverTime := 50, dispatchTime := 50,
     deliveryState := [DELIVERED], state := event_code RECEIVED, curReceiver := Some 7\<rparr>"
    unfolding v by (simp add: a prepared_def ex_ord_rec_parts)
qed

lemma ex_env_receiver: "ipc_is_receiver ex_env l" "ipc_notify ex_env l dt b b' = ERR_OK"
  by (simp_all add: ex_env_def)

lemma ex_payload_data: "commonEventData (ex_payload b) = \<lparr>cd_want = ex_want, cd_code = 0, cd_data = []\<rparr>"
  "pi_sticky (publishInfo (ex_payload b)) = False"
  by (simp_all add: ex_payload_def ex_publish_def)

definition ex_ctl3 :: ctl_state where
  "ex_ctl3 = snd (FinishReceiverAction (Some 0) 5 ''x'' True ex_ctl2)"


section \<open>Timeouts\<close>

text \<open>When the timer fires before the ten seconds of the current receiver are over it is only set
  again; when it fires later the receiver is marked as timed out and reported, nobody is awaited
  any more, and a task for the next receiver is scheduled.\<close>

theorem timer_passes_over_late_receiver:
  assumes "reachable c" and t: "timeoutTasks c > 0" and q: "orderedEventQueue c = o' # os"
    and r: "r = ordHeap c o'"
    and c': "c' = CurrentOrderedEventTimeout now True (c\<lparr>timeoutTasks := timeoutTasks c - 1\<rparr>)"
  shows "(now < receiverTime r + TIMEOUT_MS \<longrightarrow> c' = c) \<and>
    (receiverTime r + TIMEOUT_MS \<le> now \<longrightarrow>
       ordHeap c' = (ordHeap c)(o' := r\<lparr>receiverTime := now, state := event_code IDLE,
         curReceiver := None, deliveryState := (if nextReceiver r > 0
           then (deliveryState r)[nextReceiver r - 1 := TIMEOUT] else deliveryState r)\<rparr>) \<and>
       timeoutTasks c' = 0 \<and> \<not> pendingTimeoutMessage c' \<and> True \<in> set (orderedTasks c') \<and>
       orderedEventQueue c' = orderedEventQueue c \<and> ctlLog c' = ctlLog c @ timeout_report c o')"
proof -
  have core: "core_inv c" using reachable_inv [OF assms(1)] by (simp add: ctl_inv_def)
  have one: "timeoutTasks c = 1" "pendingTimeoutMessage c"
    using core_invD(10) [OF core] t by (auto split: if_splits)
  define a where "a = c\<lparr>timeoutTasks := 0, pendingTimeoutMessage := False\<rparr>"
  have a0: "(c\<lparr>timeoutTasks := timeoutTasks c - 1\<rparr>)\<lparr>pendingTimeoutMessage := False\<rparr> = a"
    by (simp add: a_def one)
  have front: "GetFrontOrderedRecord a = Some o'" by (simp add: GetFrontOrderedRecord_def a_def q)
  have run: "c' = (if now < receiverTime r + TIMEOUT_MS then SetTimeout a
      else snd (ScheduleOrderedCommonEvent (HandleTimeoutReceiver o' now a)))"
    unfolding c' CurrentOrderedEventTimeout_def Let_def if_True a0 front option.case
    by (simp add: CheckAndRescheduleTimeout_def Let_def a_def r)
  have "SetTimeout a = c"
    by (rule ctl_state.equality) (simp_all add: SetTimeout_def a_def one)
  moreover have "True \<in> set (orderedTasks (snd (ScheduleOrderedCommonEvent (HandleTimeoutReceiver o' now a))))"
    by (rule Schedule_tasks)
      (use core_invD(11) [OF core] in \<open>simp add: a_def HandleTimeoutReceiver_form\<close>)
  moreover have "timeout_report a o' = timeout_report c o'" by (simp add: timeout_report_def a_def Let_def)
  ultimately show ?thesis
    unfolding run
    by (auto simp: HandleTimeoutReceiver_form ScheduleOrderedCommonEvent_def a_def timed_out_def r fun_eq_iff)
qed

lemma timer_passes_over_late_receiver_instance:
  "deliveryState (ordHeap (CurrentOrderedEventTimeout 20000 True (ex_ctl2\<lparr>timeoutTasks := timeoutTasks ex_ctl2 - 1\<rparr>)) 0) =
     [TIMEOUT]"
proof -
  have "timeoutTasks ex_ctl2 > 0" by (simp add: ex_ctl2_parts)
  from timer_passes_over_late_receiver [OF ex_ctl2_reachable this ex_ctl2_parts(2) refl refl, of 20000]
  show ?thesis by (simp add: ex_ctl2_parts(3) TIMEOUT_MS_def)
qed

text \<open>The overdue test of an ordered event, computed on unsigned 64-bit words, is exact as long
  as the clock is not negative and the deadline fits into 64 bits: a dispatched event with
  receivers is forced to its end when more than twenty seconds for each of its receivers have
  passed since the first one was served, and not before.\<close>

theorem overdue_exact:
  assumes "0 \<le> now" "now < 2 ^ 63"
    and "dispatchTime r + 20000 * int (length (receivers r)) < 2 ^ 64" and r: "r = ordHeap c o'"
  shows "fst (CheckTimeoutForceReceive now o' c) \<longleftrightarrow>
    0 < dispatchTime r \<and> receivers r \<noteq> [] \<and> dispatchTime r + 20000 * int (length (receivers r)) < now"
proof (cases "0 < dispatchTime r")
  case True
  let ?t = "dispatchTime r + 20000 * int (length (receivers r))"
  have wt: "(word_of_int (dispatchTime r) + word_of_int (DOUBLE_FACTOR * TIMEOUT_MS) *
      of_nat (length (receivers r)) :: uint64) = word_of_int ?t"
    by (simp add: DOUBLE_FACTOR_def TIMEOUT_MS_def)
  have "uint (word_of_int ?t :: uint64) = ?t" "uint (word_of_int now :: uint64) = now"
    using assms(1-3) True by (simp_all only: uint_word_of_int len_of_numeral_defs) simp_all
  then have "(word_of_int ?t :: uint64) < word_of_int now \<longleftrightarrow> ?t < now"
    by (simp only: word_less_def)
  then show ?thesis using True unfolding fst_Check overdue_def r [symmetric] wt by blast
qed (simp add: fst_Check overdue_def r)

lemma overdue_exact_instance:
  "fst (CheckTimeoutForceReceive 20051 0 ex_ctl2) \<and> \<not> fst (CheckTimeoutForceReceive 20050 0 ex_ctl2)"
  using overdue_exact [OF _ _ _ ex_ctl2_parts(3) [symmetric], of 20051]
    overdue_exact [OF _ _ _ ex_ctl2_parts(3) [symmetric], of 20050]
  by (simp add: ex_ord_rec_parts)

end
