(* ===== verification/Unordered_Props.thy ===== *)
theory Unordered_Props
  imports Control_Props
begin

text \<open>
  The properties of unordered delivery: every published event has exactly one task, what that
  task does, how often an event is logged, and what unfreezing publishes.
\<close>

section \<open>Unordered events\<close>

text \<open>In every reachable state the unordered events that are queued are pairwise different and
  each has exactly one task that has not run, in one of the two queues; none of them is queued as
  an ordered event.\<close>

theorem unordered_event_has_one_task:
  assumes "reachable c"
  shows "distinct (unorderedEventQueue c) \<and>
    mset (unorderedEventQueue c) = mset (unorderedQueue c) + mset (notify_ptrs (unorderedImmediateQueue c)) \<and>
    set (unorderedEventQueue c) \<inter> set (orderedEventQueue c) = {}"
  using core_invD(4,7,8) [of c] reachable_inv [OF assms] by (auto simp: ctl_inv_def)

lemma unordered_event_has_one_task_instance:
  "unorderedEventQueue (ex_ctl1 False) = [0] \<and> mset (unorderedQueue (ex_ctl1 False)) = {#0#}"
  using unordered_event_has_one_task [OF ex_ctl1_reachable, of False]
  by (simp add: ex_ctl1_unordered ex_ctl0_def ctl_init_def)

text \<open>C10: The task of an unordered event treats its receivers in their order: a frozen one is marked
  skipped and the event kept for it in both stores, one whose proxy cannot be cast is marked
  skipped, and every other one is notified once and marked delivered; the permissions of the
  event are recorded as used when the notification succeeded.  Afterwards the event is out of the
  queue and no other record has changed.\<close>

theorem unordered_delivery:
  assumes "reachable c" and t: "unorderedQueue c = o' # us" and r: "r = ordHeap c o'"
    and pl: "pl = payload_of c o'"
    and c': "c' = snd (NotifyUnorderedEvent E pm now (Some o') (c\<lparr>unorderedQueue := us\<rparr>))"
  shows "deliveryState (ordHeap c' o') = map (\<lambda>p. if isFreeze (sub_rec c p) \<or>
        \<not> ipc_is_receiver E (commonEventListener (sub_rec c p)) then SKIPPED else DELIVERED) (receivers r) \<and>
    ctlLog c' = ctlLog c @ concat (map (\<lambda>p. delivery_log E pm pl (sub_rec c p)) (receivers r)) \<and>
    cs_subs c' = fold (\<lambda>p s. if isFreeze (sub_rec c p)
        then InsertFrozenEventsMap (Some p) (slice r) (InsertFrozenEvents (Some p) (slice r) s) else s)
      (receivers r) (cs_subs c) \<and>
    o' \<notin> set (unorderedEventQueue c') \<and> (\<forall>q. q \<noteq> o' \<longrightarrow> ordHeap c' q = ordHeap c q)"
proof -
  have core: "core_inv c" using reachable_inv [OF assms(1)] by (simp add: ctl_inv_def)
  have "o' \<in># mset (unorderedEventQueue c)" unfolding core_invD(8) [OF core] t by simp
  then have mem: "o' \<in> set (unorderedEventQueue c)" by simp
  let ?c = "c\<lparr>unorderedQueue := us\<rparr>"
  have "nextReceiver (ordHeap ?c o') = 0" "length (deliveryState (ordHeap ?c o')) = length (receivers (ordHeap ?c o'))"
    using core_invD(6) [OF core mem] core_invD(9) [OF core core_invD(5) [OF core mem]]
    by (simp_all add: rec_ok_def)
  from NotifyUnorderedEvent_form [OF this, of E pm now] obtain st m where
    "c' = (after_delivery E pm o' st m ?c)\<lparr>unorderedEventQueue := remove1 o' (unorderedEventQueue ?c)\<rparr>"
    unfolding c' by blast
  note F = this [unfolded after_delivery_def Let_def]
  have kf: "fold (keep_frozen er) ps s = fold (\<lambda>p s. if isFreeze (subHeap s0 p)
      then InsertFrozenEventsMap (Some p) er (InsertFrozenEvents (Some p) er s) else s) ps s"
    if "subHeap s = subHeap s0" for er ps s s0
    using that
  proof (induction ps arbitrary: s)
    case (Cons p ps)
    then show ?case using keep_frozen_simps(1) [of er p s] by (simp add: keep_frozen_def)
  qed simp
  have "map (\<lambda>p. mark_of E (sub_rec c p)) (receivers r) = map (\<lambda>p. if isFreeze (sub_rec c p) \<or>
        \<not> ipc_is_receiver E (commonEventListener (sub_rec c p)) then SKIPPED else DELIVERED) (receivers r)"
    by (simp add: mark_of_def)
  moreover have "o' \<notin> set (remove1 o' (unorderedEventQueue c))" using core_invD(4) [OF core] by simp
  ultimately show ?thesis
    using kf [of "cs_subs c" "cs_subs c"] pl by (simp add: F r [symmetric])
qed

lemma unordered_delivery_instance:
  "deliveryState (ordHeap (snd (NotifyUnorderedEvent ex_env [] 50 (Some 0)
     ((ex_ctl1 False)\<lparr>unorderedQueue := []\<rparr>))) 0) = [DELIVERED]"
proof -
  have "unorderedQueue (ex_ctl1 False) = 0 # []" "receivers (ordHeap (ex_ctl1 False) 0) = [0]"
    "sub_rec (ex_ctl1 False) 0 = ex_sub"
    by (simp_all add: ex_ctl1_unordered ex_ctl0_def ctl_init_def ex_subs_value)
  with unordered_delivery [OF ex_ctl1_reachable this(1) refl refl refl, of ex_env "[]" 50]
  show ?thesis by (simp add: ex_sub_def ex_env_def)
qed

section \<open>The log of unordered events\<close>

text \<open>What \<open>CanLogUnorderedEvent\<close> does to the cache, seen as a map from events to the times of
  their last print.\<close>

definition last_print :: "ctl_state \<Rightarrow> string \<Rightarrow> int64 option" where
  "last_print c e = map_option fst (map_of (unorderedEventLogCache c) e)"

abbreviation distinct_cache :: "ctl_state \<Rightarrow> bool" where
  "distinct_cache c \<equiv> distinct (map fst (unorderedEventLogCache c))"

lemma log_cache_keys:
  "log_cache_loop event now m = (m', canPrint, found) \<Longrightarrow> fst ` set m' \<subseteq> fst ` set m"
proof (induction event now m arbitrary: m' canPrint found rule: log_cache_loop.induct)
  case (2 event now e lastTime missing items)
  obtain n p f where rec: "log_cache_loop event now items = (n, p, f)"
    by (cases "log_cache_loop event now items") auto
  have "fst ` set m' \<subseteq> insert e (fst ` set n)"
    using "2.prems" rec by (simp add: Let_def split: if_splits) auto
  then show ?case using "2.IH" [OF rec] by auto
qed simp

lemma log_cache_distinct:
  "log_cache_loop event now m = (m', canPrint, found) \<Longrightarrow> distinct (map fst m) \<Longrightarrow> distinct (map fst m')"
proof (induction event now m arbitrary: m' canPrint found rule: log_cache_loop.induct)
  case (2 event now e lastTime missing items)
  obtain n p f where rec: "log_cache_loop event now items = (n, p, f)"
    by (cases "log_cache_loop event now items") auto
  then show ?case
    using "2.IH" [OF rec] log_cache_keys [OF rec] "2.prems" by (auto simp: Let_def split: if_splits)
qed simp

lemma log_cache_event:
  "log_cache_loop event now m = (m', canPrint, found) \<Longrightarrow> distinct (map fst m) \<Longrightarrow>
     (case map_of m event of
        None \<Rightarrow> \<not> found \<and> \<not> canPrint \<and> map_of m' event = None
      | Some (t, k) \<Rightarrow> found \<and> canPrint = (now - t \<ge> EVENT_LOG_EVENT_LIMIT_INTERVALS) \<and>
          map_option fst (map_of m' event) = Some (if canPrint then now else t))"
proof (induction event now m arbitrary: m' canPrint found rule: log_cache_loop.induct)
  case (2 event now e lastTime missing items)
  obtain n p f where rec: "log_cache_loop event now items = (n, p, f)"
    by (cases "log_cache_loop event now items") auto
  have none: "map_of items e = None" using "2.prems"(2) by (simp add: map_of_eq_None_iff)
  then show ?case
    using "2.IH" [OF rec] "2.prems" rec
    by (cases "e = event"; cases "map_of items event")
      (auto simp: Let_def simp del: map_of_eq_Some_iff Some_eq_map_of_iff split: if_splits)
qed simp

lemma log_cache_others:
  "log_cache_loop event now m = (m', canPrint, found) \<Longrightarrow> e \<noteq> event \<Longrightarrow> map_of m e = Some (t, k) \<Longrightarrow>
     now - t < EVENT_LOG_EVENT_LIMIT_INTERVALS \<Longrightarrow> map_of m' e = Some (t, k)"
  by (induction event now m arbitrary: m' canPrint found rule: log_cache_loop.induct)
    (auto simp: Let_def split: prod.splits if_splits)

lemma CanLog_spec:
  fixes c :: ctl_state and event :: string and now :: int64
  assumes "distinct_cache c"
  defines "c' \<equiv> snd (CanLogUnorderedEvent event now c)"
  shows "distinct_cache c'"
    and "fst (CanLogUnorderedEvent event now c) \<longleftrightarrow>
      (case last_print c event of None \<Rightarrow> True | Some t \<Rightarrow> now - t \<ge> EVENT_LOG_EVENT_LIMIT_INTERVALS)"
    and "last_print c' event =
      (if fst (CanLogUnorderedEvent event now c) then Some now else last_print c event)"
    and "e \<noteq> event \<Longrightarrow> last_print c e = Some t \<Longrightarrow> now - t < EVENT_LOG_EVENT_LIMIT_INTERVALS \<Longrightarrow>
      last_print c' e = Some t"
proof -
  obtain m p f where rec: "log_cache_loop event now (unorderedEventLogCache c) = (m, p, f)"
    by (cases "log_cache_loop event now (unorderedEventLogCache c)") auto
  note E = log_cache_event [OF rec assms(1)]
  have c': "c' = (if f then c\<lparr>unorderedEventLogCache := m\<rparr>
      else c\<lparr>unorderedEventLogCache := m @ [(event, now, 0)]\<rparr>)"
    "fst (CanLogUnorderedEvent event now c) = (f \<longrightarrow> p)"
    by (simp_all add: c'_def CanLogUnorderedEvent_def rec)
  have "\<not> f \<Longrightarrow> event \<notin> fst ` set m"
    using E by (auto simp: map_of_eq_None_iff split: option.splits)
  then show "distinct_cache c'" using log_cache_distinct [OF rec assms(1)] by (auto simp: c')
  show "fst (CanLogUnorderedEvent event now c) \<longleftrightarrow>
      (case last_print c event of None \<Rightarrow> True | Some t \<Rightarrow> now - t \<ge> EVENT_LOG_EVENT_LIMIT_INTERVALS)"
    using E by (auto simp: c'(2) last_print_def split: option.splits)
  show "last_print c' event =
      (if fst (CanLogUnorderedEvent event now c) then Some now else last_print c event)"
    using E by (auto simp: c' last_print_def map_add_def split: option.splits)
  show "last_print c' e = Some t" if e: "e \<noteq> event" "last_print c e = Some t"
    "now - t < EVENT_LOG_EVENT_LIMIT_INTERVALS"
  proof -
    obtain k where "map_of (unorderedEventLogCache c) e = Some (t, k)"
      using e(2) by (auto simp: last_print_def)
    from log_cache_others [OF rec e(1) this e(3)] show ?thesis
      using e(1) by (simp add: c'(1) last_print_def map_add_def)
  qed
qed

definition log_calls :: "(string \<times> int64) list \<Rightarrow> ctl_state \<Rightarrow> ctl_state" where
  "log_calls es c = fold (\<lambda>(e, t) c. snd (CanLogUnorderedEvent e t c)) es c"

lemma log_calls_keep:
  assumes "distinct_cache c" "last_print c event = Some t"
    "\<forall>(e, u) \<in> set es. t \<le> u \<and> u < t + EVENT_LOG_EVENT_LIMIT_INTERVALS"
  shows "distinct_cache (log_calls es c) \<and> last_print (log_calls es c) event = Some t"
  using assms
proof (induction es arbitrary: c)
  case (Cons eu es)
  obtain e u where eu: "eu = (e, u)" by (cases eu)
  let ?c = "snd (CanLogUnorderedEvent e u c)"
  note S = CanLog_spec [OF Cons.prems(1), where event = e and now = u]
  have "last_print ?c event = Some t"
    using S(2,3) S(4) [where e = event and t = t] Cons.prems(2,3) eu by (cases "e = event") auto
  then show ?case
    using Cons.IH [OF S(1)] Cons.prems(3) by (simp add: log_calls_def eu)
qed (simp add: log_calls_def)

lemma log_calls_distinct: "distinct_cache c \<Longrightarrow> distinct_cache (log_calls es c)"
  by (induction es arbitrary: c) (auto simp: log_calls_def CanLog_spec(1))

text \<open>Of the deliveries of one event at most one per 50 milliseconds is logged: once
  \<open>CanLogUnorderedEvent\<close> has said yes at a time \<open>t\<close>, it says no for that event until
  \<open>t + 50\<close>, whatever other events it is asked about in between and whatever it was asked before;
  and after 50 milliseconds it says yes again.\<close>

theorem event_logged_once_per_interval:
  assumes c: "unorderedEventLogCache c0 = []" "c = log_calls history c0"
    and yes: "fst (CanLogUnorderedEvent event t c)"
    and between: "\<forall>(e, u) \<in> set calls. t \<le> u \<and> u < t + 50"
    and c': "c' = log_calls calls (snd (CanLogUnorderedEvent event t c))"
  shows "fst (CanLogUnorderedEvent event now c') \<longleftrightarrow> now \<ge> t + 50"
proof -
  have d: "distinct_cache c" unfolding c(2) by (rule log_calls_distinct) (simp add: c(1))
  note S = CanLog_spec [OF d, where event = event and now = t]
  have "distinct_cache c' \<and> last_print c' event = Some t"
    unfolding c' using S(1,3) yes between
    by (intro log_calls_keep) (auto simp: EVENT_LOG_EVENT_LIMIT_INTERVALS_def)
  then show ?thesis
    using CanLog_spec(2) [where c = c' and event = event and now = now] by (auto simp: EVENT_LOG_EVENT_LIMIT_INTERVALS_def)
qed

lemma event_logged_once_per_interval_instance:
  "\<not> fst (CanLogUnorderedEvent ''a'' 149 (log_calls [(''b'', 120)]
       (snd (CanLogUnorderedEvent ''a'' 100 (log_calls [(''a'', 20)] (ex_ctl0 False))))))"
  using event_logged_once_per_interval [of "ex_ctl0 False", OF _ refl _ _ refl,
      of "''a''" 100 "[(''a'', 20)]" "[(''b'', 120)]" 149]
  by (simp add: ex_ctl0_def ctl_init_def log_calls_def CanLogUnorderedEvent_def
    EVENT_LOG_EVENT_LIMIT_INTERVALS_def)

section \<open>Unfreezing\<close>

text \<open>Unfreezing a uid submits one task for every event kept for its subscribers, in the order
  in which they were kept, and empties the store of that uid, so that a second call submits
  nothing; the store by pid and what is kept for other uids stay as they are.\<close>

theorem unfreeze_uid_publishes_once:
  fixes c :: ctl_state and u :: uid_t
  defines "c' \<equiv> snd (PublishFreezeCommonEvent u c)"
  shows "unorderedImmediateQueue c' = unorderedImmediateQueue c @
      concat (map (\<lambda>(l, sub, ers). map (FreezeTask sub) ers) (frozen_of_uid (cs_subs c) u)) \<and>
    (\<forall>v. frozen_of_uid (cs_subs c') v =
      (if v = u then [] else frozen_of_uid (cs_subs c) v)) \<and>
    frozenEventsMap (cs_subs c') = frozenEventsMap (cs_subs c) \<and>
    registry (cs_subs c') = registry (cs_subs c) \<and>
    unorderedImmediateQueue (snd (PublishFreezeCommonEvent u c')) = unorderedImmediateQueue c'"
proof -
  have e: "unorderedImmediateQueue (snd (PublishFreezeCommonEvent u d)) = unorderedImmediateQueue d @
      concat (map (\<lambda>(l, sub, ers). map (FreezeTask sub) ers) (frozen_of_uid (cs_subs d) u))"
    "cs_subs (snd (PublishFreezeCommonEvent u d)) = snd (GetFrozenEvents u (cs_subs d))" for d
    using uid_store.fst_tak [of u "cs_subs d"]
    by (simp_all add: PublishFreezeCommonEvent_def PublishFrozenEventsInner_def case_prod_unfold Let_def)
  have other: "frozenEventsMap (snd (GetFrozenEvents u s)) = frozenEventsMap s"
    "registry (snd (GetFrozenEvents u s)) = registry s" for s
    by (auto simp: GetFrozenEvents_def RemoveFrozenEvents_def Let_def split: option.split
      intro!: registry_cong)
  show ?thesis
    unfolding c'_def e other by (simp add: uid_store.at_tak)
qed

lemma publish_stores:
  "cs_subs (foldl (\<lambda>c (k, m). PublishFrozenEventsInner m c) c ms) = cs_subs c"
  "unorderedImmediateQueue (foldl (\<lambda>c (k, m). PublishFrozenEventsInner m c) c ms) =
     unorderedImmediateQueue c @
     concat (map (\<lambda>(k, m). concat (map (\<lambda>(l, sub, ers). map (FreezeTask sub) ers) m)) ms)"
  by (induction ms arbitrary: c) (auto simp: PublishFrozenEventsInner_def)

text \<open>Unfreezing everything submits the events of the store by uid and then those of the store by
  pid, and clears neither: since both stores are filled alike, every kept event is delivered
  twice, and again with every further call.\<close>

theorem unfreeze_all_clears_nothing:
  "cs_subs (snd (PublishAllFreezeCommonEvents c)) = cs_subs c \<and>
   unorderedImmediateQueue (snd (PublishAllFreezeCommonEvents c)) = unorderedImmediateQueue c @
     concat (map (\<lambda>(u, m). concat (map (\<lambda>(l, sub, ers). map (FreezeTask sub) ers) m))
       (frozenEvents (cs_subs c))) @
     concat (map (\<lambda>(q, m). concat (map (\<lambda>(l, sub, ers). map (FreezeTask sub) ers) m))
       (frozenEventsMap (cs_subs c)))"
  by (simp add: PublishAllFreezeCommonEvents_def Let_def GetAllFrozenEvents_def
    GetAllFrozenEventsMap_def publish_stores)

end
