(* ===== verification/Policy_Props.thy ===== *)
theory Policy_Props
  imports Permission_Manager
begin

text \<open>
  The tables that say which events are protected: the permission table after its
  initialisation, and its agreement with the list of system events.
\<close>

text \<open>Whatever the iteration order of the table is, the initialised permission manager returns
  for every event the state and the permissions of its row, and nothing for an event without a
  row.  The sensitive flag, however, depends on the order: besides the sensitive events
  themselves, every event that is reached after one is flagged.\<close>

theorem permission_lookup:
  "let p = GetEventPermission (PermissionManager_Init order) e
   in (case map_of order e of
         None \<Rightarrow> p = Permission_init
       | Some (st, ps) \<Rightarrow> perm_state p = st \<and> names p = ps \<and>
           (isSensitive p \<longleftrightarrow> IsSensitiveEvent e \<or>
             (\<exists>s \<in> set (takeWhile (\<lambda>x. x \<noteq> e) (map fst order)). IsSensitiveEvent s)))"
proof -
  have names: "map_option (\<lambda>p. (perm_state p, names p)) (map_of (PermissionManager_Init order) e) =
      map_of order e"
    using Init_loop_names [of Permission_init order "[]" e]
    by (simp add: PermissionManager_Init_def Permission_init_def)
  have "isSensitive p \<longleftrightarrow> IsSensitiveEvent e \<or>
      (\<exists>s \<in> set (takeWhile (\<lambda>x. x \<noteq> e) (map fst order)). IsSensitiveEvent s)"
    if "map_of (PermissionManager_Init order) e = Some p" for p
    using Init_loop_sensitive [of Permission_init "[]" e order p] that
    by (simp add: PermissionManager_Init_def Permission_init_def)
  then show ?thesis
    unfolding names [symmetric] GetEventPermission_def Let_def
    by (cases "map_of (PermissionManager_Init order) e") simp_all
qed

text \<open>Every event that needs a permission, that only system applications may receive, or that is
  sensitive is one of the registered system events, so no application can publish it.\<close>

theorem protected_events_are_system_events:
  "e \<in> fst ` set COMMON_EVENT_MAP \<union> set SYSTEM_API_COMMON_EVENTS \<union> set SENSITIVE_COMMON_EVENTS \<Longrightarrow>
     IsSystemEvent e"
  unfolding IsSystemEvent_def support_parts COMMON_EVENT_MAP_def SYSTEM_API_COMMON_EVENTS_def
    SENSITIVE_COMMON_EVENTS_def
  by (elim UnE; simp only: list.set image_insert image_empty fst_conv set_append; elim insertE emptyE;
    simp only: insert_iff Un_iff simp_thms)

lemma protected_events_are_system_events_instance: "IsSystemEvent COMMON_EVENT_SMS_RECEIVE_COMPLETED"
  using protected_events_are_system_events [of COMMON_EVENT_SMS_RECEIVE_COMPLETED]
  by (simp add: SENSITIVE_COMMON_EVENTS_def)

end
