(* ===== verification/Json_Values.thy ===== *)
theory Json_Values
  imports CES_Prelude
begin

text \<open>
  The JSON values the service reads and writes through \<open>nlohmann::json\<close>, as the documented value
  type of that library, with the accessors the source uses.  Parsing and dumping are functions of
  the library and stay parameters of the definitions that call them.  Then
  \<open>std::from_chars\<close> on a run of decimal digits, with the round trip to \<open>std::to_string\<close>.
  A \<open>double\<close> is only compared and stored; it is represented by a number and compared by a
  parameter.
\<close>

datatype json = JNull | JBool bool | JInt int | JFloat int | JString string
  | JArray "json list" | JObject "(string \<times> json) list" | JDiscarded

fun is_object :: "json \<Rightarrow> bool" where "is_object (JObject _) = True" | "is_object _ = False"
fun is_array :: "json \<Rightarrow> bool" where "is_array (JArray _) = True" | "is_array _ = False"
fun is_string :: "json \<Rightarrow> bool" where "is_string (JString _) = True" | "is_string _ = False"
fun is_number_integer :: "json \<Rightarrow> bool" where
  "is_number_integer (JInt _) = True" | "is_number_integer _ = False"

fun json_empty :: "json \<Rightarrow> bool" where
  "json_empty JNull = True"
| "json_empty (JArray xs) = (xs = [])"
| "json_empty (JObject kvs) = (kvs = [])"
| "json_empty _ = False"

text \<open>\<open>obj[key]\<close> on an object: a missing key is inserted with the value null.\<close>

fun json_at :: "json \<Rightarrow> string \<Rightarrow> json" where
  "json_at (JObject kvs) k = (case map_of kvs k of None \<Rightarrow> JNull | Some v \<Rightarrow> v)"
| "json_at _ k = JNull"

fun json_find :: "json \<Rightarrow> string \<Rightarrow> json option" where
  "json_find (JObject kvs) k = map_of kvs k"
| "json_find _ k = None"

fun json_elems :: "json \<Rightarrow> json list" where
  "json_elems (JArray xs) = xs"
| "json_elems _ = []"

fun json_items :: "json \<Rightarrow> (string \<times> json) list" where
  "json_items (JObject kvs) = kvs"
| "json_items _ = []"

fun get_string :: "json \<Rightarrow> string" where
  "get_string (JString s) = s"
| "get_string _ = []"

text \<open>\<open>get<int32_t>()\<close> converts the stored 64-bit number.\<close>

fun get_int32 :: "json \<Rightarrow> int32" where
  "get_int32 (JInt i) = sint (word_of_int i :: 32 word)"
| "get_int32 _ = 0"

section \<open>Decimal digits\<close>

definition is_digit :: "char \<Rightarrow> bool" where
  "is_digit c \<longleftrightarrow> 48 \<le> (of_char c :: nat) \<and> (of_char c :: nat) \<le> 57"

definition digit_val :: "char \<Rightarrow> nat" where
  "digit_val c = of_char c - 48"

definition digits_val :: "string \<Rightarrow> nat" where
  "digits_val ds = foldl (\<lambda>n c. 10 * n + digit_val c) 0 ds"

text \<open>\<open>from_chars\<close> into an \<open>int32_t\<close> on a string of digits: an empty string and a value out of
  range are errors.\<close>

definition from_chars_int32 :: "string \<Rightarrow> int32 option" where
  "from_chars_int32 ds =
     (if ds = [] then None
      else if digits_val ds > 2147483647 then None
      else Some (int (digits_val ds)))"

lemma of_char_digit: "d < 10 \<Longrightarrow> of_char (digit d) = 48 + d"
  by (simp add: digit_def of_char_of)

lemma is_digit_digit: "d < 10 \<Longrightarrow> is_digit (digit d)"
  by (simp add: is_digit_def of_char_digit)

lemma digit_val_digit: "d < 10 \<Longrightarrow> digit_val (digit d) = d"
  by (simp add: digit_val_def of_char_digit)

lemma nat_digits_digits: "list_all is_digit (nat_digits n)"
  by (induction n rule: nat_digits.induct)
    (subst nat_digits.simps, simp add: is_digit_digit)

lemma digits_val_nat_digits: "digits_val (nat_digits n) = n"
  by (induction n rule: nat_digits.induct)
    (subst nat_digits.simps, simp add: digits_val_def digit_val_digit)

lemma nat_digits_not_Nil [simp]: "nat_digits n \<noteq> []"
  by (subst nat_digits.simps) simp

lemma from_chars_to_string:
  "0 \<le> i \<Longrightarrow> i \<le> 2147483647 \<Longrightarrow> from_chars_int32 (to_string i) = Some i"
  by (simp add: from_chars_int32_def to_string_def digits_val_nat_digits)

lemma to_string_digits: "0 \<le> i \<Longrightarrow> list_all is_digit (to_string i)"
  by (simp add: to_string_def nat_digits_digits)

lemma nat_digits_inject: "nat_digits m = nat_digits n \<longleftrightarrow> m = n"
  by (metis digits_val_nat_digits)

lemma minus_not_digit: "\<not> is_digit (CHR ''-'')"
  by (simp add: is_digit_def)

lemma to_string_inject: "to_string i = to_string j \<longleftrightarrow> i = j"
proof -
  have "CHR ''-'' # xs \<noteq> nat_digits n" for xs n
    using nat_digits_digits [of n] minus_not_digit by (metis list.pred_inject(2))
  then show ?thesis
    by (auto simp: to_string_def nat_digits_inject) metis+
qed

text \<open>The characters of \<open>to_string\<close> are never underscores, so that a key
  \<open>to_string(userId) + "_" + bundleName\<close> determines both parts.\<close>

lemma to_string_no_underscore: "CHR ''_'' \<notin> set (to_string i)"
proof -
  have "CHR ''_'' \<notin> set (nat_digits n)" for n
    using nat_digits_digits [of n] by (auto simp: list_all_iff is_digit_def)
  then show ?thesis by (simp add: to_string_def)
qed

lemma append_underscore_inject:
  "CHR ''_'' \<notin> set xs \<Longrightarrow> CHR ''_'' \<notin> set ys \<Longrightarrow>
     xs @ ''_'' @ us = ys @ ''_'' @ vs \<longleftrightarrow> xs = ys \<and> us = vs"
proof (induction xs arbitrary: ys)
  case Nil
  then show ?case by (cases ys) auto
next
  case (Cons x xs)
  then show ?case by (cases ys) auto
qed

end
