(* ===== verification/Static_Data.thy ===== *)
theory Static_Data
  imports Json_Values Environment
begin

text \<open>
  \<open>StaticSubscriberDataManager\<close> (\<open>static_subscriber_data_manager.cpp\<close>): the persistent map from
  bundle keys to the events a bundle has disabled.  The key-value store is a service of another
  repository, a record \<open>kv_ops\<close> of functions on a store of any type: every operation may fail
  and returns the store it leaves behind.  \<open>data_state\<close> is the manager's \<open>kvStorePtr_\<close> (open or
  not) together with the store.
\<close>

section \<open>State\<close>

record 'kv kv_ops =
  kv_open :: "'kv \<Rightarrow> bool \<times> bool \<times> 'kv" \<comment> \<open>\<open>GetSingleKvStore\<close>: success, pointer set\<close>
  kv_close :: "'kv \<Rightarrow> 'kv"
  kv_entries :: "'kv \<Rightarrow> (string \<times> string) list option"
  kv_get :: "string \<Rightarrow> 'kv \<Rightarrow> string option"
  kv_put :: "string \<Rightarrow> string \<Rightarrow> 'kv \<Rightarrow> bool \<times> 'kv"
  kv_delete :: "string \<Rightarrow> 'kv \<Rightarrow> bool \<times> 'kv"
  kv_put_batch :: "(string \<times> string) list \<Rightarrow> 'kv \<Rightarrow> bool \<times> 'kv"
  kv_delete_batch :: "string list \<Rightarrow> 'kv \<Rightarrow> bool \<times> 'kv"
  js_parse :: "string \<Rightarrow> json" \<comment> \<open>\<open>nlohmann::json::parse\<close> without exceptions\<close>
  js_dump :: "json \<Rightarrow> string"

record 'kv data_state =
  kvOpen :: bool
  kvDb :: 'kv

type_synonym disable_map = "(string, string list) omap"

definition MAX_TIMES :: nat where "MAX_TIMES = 5"
definition STATIC_SUBSCRIBER_VALUE_DEFAULT :: string where "STATIC_SUBSCRIBER_VALUE_DEFAULT = ''0''"
definition IS_UPDATED_KEY :: string where "IS_UPDATED_KEY = ''is_updated_key''"
definition KEY_IS_ALREADY_UPDATED :: string where "KEY_IS_ALREADY_UPDATED = ''true''"

text \<open>\<open>emplace\<close> of \<open>std::map\<close> and of \<open>std::set\<close>, the latter kept as a sorted list.\<close>

definition omap_emplace :: "'k::linorder \<Rightarrow> 'v \<Rightarrow> ('k, 'v) omap \<Rightarrow> ('k, 'v) omap" where
  "omap_emplace k v m = (if map_of m k = None then omap_put k v m else m)"

definition set_emplace :: "'k::linorder \<Rightarrow> 'k list \<Rightarrow> 'k list" where
  "set_emplace k xs = (if k \<in> set xs then xs else insort k xs)"

section \<open>The store\<close>

definition GetKvStore :: "'kv kv_ops \<Rightarrow> 'kv data_state \<Rightarrow> bool \<times> 'kv data_state" where
  "GetKvStore K d =
     (let (status, ptr, db) = kv_open K (kvDb d) in (status, \<lparr>kvOpen = ptr, kvDb = db\<rparr>))"

fun CheckKvStore_loop :: "'kv kv_ops \<Rightarrow> nat \<Rightarrow> 'kv data_state \<Rightarrow> bool \<times> 'kv data_state" where
  "CheckKvStore_loop K 0 d = (kvOpen d, d)"
| "CheckKvStore_loop K (Suc tryTimes) d =
     (let (status, d1) = GetKvStore K d
      in if status \<and> kvOpen d1 then (True, d1) else CheckKvStore_loop K tryTimes d1)"

definition CheckKvStore :: "'kv kv_ops \<Rightarrow> 'kv data_state \<Rightarrow> bool \<times> 'kv data_state" where
  "CheckKvStore K d = (if kvOpen d then (True, d) else CheckKvStore_loop K MAX_TIMES d)"

definition CloseKvStore :: "'kv kv_ops \<Rightarrow> 'kv data_state \<Rightarrow> 'kv data_state" where
  "CloseKvStore K d = \<lparr>kvOpen = False, kvDb = kv_close K (kvDb d)\<rparr>"

section \<open>Values and keys\<close>

definition ConvertEventsToValue :: "'kv kv_ops \<Rightarrow> string list \<Rightarrow> string" where
  "ConvertEventsToValue K events = js_dump K (JArray (map JString events))"

definition ConvertValueToEvents :: "'kv kv_ops \<Rightarrow> string \<Rightarrow> string list option" where
  "ConvertValueToEvents K value =
     (let jsonObject = js_parse K value
      in if jsonObject = JNull \<or> \<not> is_array jsonObject \<or> json_empty jsonObject then None
         else if jsonObject = JDiscarded then None
         else Some (map get_string (filter is_string (json_elems jsonObject))))"

text \<open>Old keys are \<open>uid\<close> followed by the bundle name, new ones \<open>userId_bundleName\<close>.  The
  returned string is what \<open>key\<close>, an in-out parameter, holds in the end.\<close>

definition IsNeedUpdateKey :: "env \<Rightarrow> string \<Rightarrow> bool \<times> string" where
  "IsNeedUpdateKey E key =
     (let numStr = takeWhile is_digit key; key' = dropWhile is_digit key
      in case from_chars_int32 numStr of
           None \<Rightarrow> (False, key')
         | Some u \<Rightarrow>
             (let (ok, user) = GetOsAccountLocalIdFromUid E u ALL_USER
              in if ok then (True, to_string user @ ''_'' @ key') else (False, key')))"

definition GetValidKey ::
  "env \<Rightarrow> string \<Rightarrow> string list \<Rightarrow> string list \<Rightarrow> err_code \<times> string list \<times> string list" where
  "GetValidKey E key oldkeys newkeys =
     (if key = [] then (ERR_INVALID_VALUE, oldkeys, newkeys)
      else (let (need, newKey) = IsNeedUpdateKey E key
            in if \<not> need then (ERR_OK, oldkeys, newkeys)
               else (ERR_OK, set_emplace key oldkeys, newkeys @ [newKey])))"

definition UpdateDistributedKv ::
  "'kv kv_ops \<Rightarrow> string list \<Rightarrow> (string, string) omap \<Rightarrow> 'kv data_state \<Rightarrow> 'kv data_state" where
  "UpdateDistributedKv K oldkeys migrateValues d =
     (if \<not> kvOpen d then d
      else (let db1 = snd (kv_delete_batch K oldkeys (kvDb d));
                db2 = snd (kv_put_batch K migrateValues db1);
                db3 = snd (kv_put K IS_UPDATED_KEY KEY_IS_ALREADY_UPDATED db2)
            in d\<lparr>kvDb := db3\<rparr>))"

section \<open>Query\<close>

text \<open>The accumulators of the loop over the entries.\<close>

record query_acc =
  qa_result :: err_code
  qa_removeOldkeys :: "string list"
  qa_migrateValues :: "(string, string) omap"
  qa_bundleList :: "string list"
  qa_disableEvents :: disable_map

text \<open>One entry, with the flag that ends the loop, and the loop.\<close>

definition query_item ::
  "env \<Rightarrow> 'kv kv_ops \<Rightarrow> bool \<Rightarrow> string \<Rightarrow> string \<Rightarrow> query_acc \<Rightarrow> bool \<times> query_acc" where
  "query_item E K isUpdated key val a =
     (if key = IS_UPDATED_KEY then (False, a)
      else
        (let (result, oldkeys, newKeys) =
               (if isUpdated then (ERR_OK, qa_removeOldkeys a, [])
                else GetValidKey E key (qa_removeOldkeys a) []);
             a1 = a\<lparr>qa_result := result, qa_removeOldkeys := oldkeys\<rparr>
         in if result \<noteq> ERR_OK then (False, a1)
            else
              (let a2 = (if newKeys = [] then a1
                         else a1\<lparr>qa_migrateValues :=
                                fold (\<lambda>nk. omap_emplace nk val) newKeys (qa_migrateValues a1)\<rparr>);
                   keys = (if newKeys = [] then [key] else newKeys)
               in if val = STATIC_SUBSCRIBER_VALUE_DEFAULT
                  then (False, a2\<lparr>qa_bundleList := fold set_emplace keys (qa_bundleList a2)\<rparr>)
                  else
                    (case ConvertValueToEvents K val of
                       None \<Rightarrow> (True, a2\<lparr>qa_result := ERR_INVALID_OPERATION\<rparr>)
                     | Some values \<Rightarrow>
                         (False, a2\<lparr>qa_disableEvents :=
                              fold (\<lambda>nk. omap_emplace nk values) keys (qa_disableEvents a2)\<rparr>)))))"

fun query_loop :: "env \<Rightarrow> 'kv kv_ops \<Rightarrow> bool \<Rightarrow> (string \<times> string) list \<Rightarrow> query_acc \<Rightarrow> query_acc" where
  "query_loop E K isUpdated [] a = a"
| "query_loop E K isUpdated ((key, val) # items) a =
     (let (stop, a') = query_item E K isUpdated key val a
      in if stop then a' else query_loop E K isUpdated items a')"

definition QueryStaticSubscriberStateData ::
  "env \<Rightarrow> 'kv kv_ops \<Rightarrow> disable_map \<Rightarrow> string list \<Rightarrow> 'kv data_state \<Rightarrow>
     err_code \<times> disable_map \<times> string list \<times> 'kv data_state" where
  "QueryStaticSubscriberStateData E K disableEvents bundleList d =
     (let (opened, d1) = CheckKvStore K d
      in if \<not> opened then (ERR_NO_INIT, disableEvents, bundleList, d1)
         else
           (case kv_entries K (kvDb d1) of
              None \<Rightarrow> (ERR_INVALID_OPERATION, disableEvents, bundleList, d1)
            | Some allEntries \<Rightarrow>
                if allEntries = [] then (ERR_OK, disableEvents, bundleList, CloseKvStore K d1)
                else
                  (let isUpdated = (kv_get K IS_UPDATED_KEY (kvDb d1) = Some KEY_IS_ALREADY_UPDATED);
                       a = query_loop E K isUpdated allEntries
                             \<lparr>qa_result = ERR_OK, qa_removeOldkeys = [], qa_migrateValues = [],
                              qa_bundleList = bundleList, qa_disableEvents = disableEvents\<rparr>;
                       d2 = UpdateDistributedKv K (qa_removeOldkeys a) (qa_migrateValues a) d1
                   in (qa_result a, qa_disableEvents a, qa_bundleList a, CloseKvStore K d2))))"

section \<open>Update and delete\<close>

fun delete_keys :: "'kv kv_ops \<Rightarrow> string list \<Rightarrow> 'kv \<Rightarrow> bool \<times> 'kv" where
  "delete_keys K [] db = (True, db)"
| "delete_keys K (k # ks) db =
     (let (ok, db1) = kv_delete K k db in if ok then delete_keys K ks db1 else (False, db1))"

fun put_events :: "'kv kv_ops \<Rightarrow> disable_map \<Rightarrow> 'kv \<Rightarrow> bool \<times> 'kv" where
  "put_events K [] db = (True, db)"
| "put_events K ((k, events) # m) db =
     (let (ok, db1) = kv_put K k (ConvertEventsToValue K events) db
      in if ok then put_events K m db1 else (False, db1))"

definition UpdateStaticSubscriberState ::
  "env \<Rightarrow> 'kv kv_ops \<Rightarrow> disable_map \<Rightarrow> 'kv data_state \<Rightarrow> err_code \<times> 'kv data_state" where
  "UpdateStaticSubscriberState E K disableEvents d =
     (let (ret, disableEventsDatabase, bundleList, d1) = QueryStaticSubscriberStateData E K [] [] d
      in if ret \<noteq> ERR_OK then (ret, d1)
         else
           (let (opened, d2) = CheckKvStore K d1
            in if \<not> opened then (ERR_NO_INIT, d2)
               else
                 (let db1 = snd (kv_put K IS_UPDATED_KEY KEY_IS_ALREADY_UPDATED (kvDb d2));
                      (deleted, db2) = delete_keys K (map fst disableEventsDatabase) db1
                  in if \<not> deleted then (ERR_INVALID_OPERATION, CloseKvStore K (d2\<lparr>kvDb := db2\<rparr>))
                     else (let (stored, db3) = put_events K disableEvents db2
                           in if \<not> stored
                              then (ERR_INVALID_OPERATION, CloseKvStore K (d2\<lparr>kvDb := db3\<rparr>))
                              else (ERR_OK, CloseKvStore K (d2\<lparr>kvDb := db3\<rparr>))))))"

definition DeleteDisableEventElementByBundleName ::
  "'kv kv_ops \<Rightarrow> string \<Rightarrow> 'kv data_state \<Rightarrow> err_code \<times> 'kv data_state" where
  "DeleteDisableEventElementByBundleName K bundle d =
     (if bundle = [] then (ERR_INVALID_VALUE, d)
      else
        (let (opened, d1) = CheckKvStore K d
         in if \<not> opened then (ERR_NO_INIT, d1)
            else (let (ok, db) = kv_delete K bundle (kvDb d1)
                  in if \<not> ok then (ERR_INVALID_OPERATION, d1\<lparr>kvDb := db\<rparr>)
                     else (ERR_OK, CloseKvStore K (d1\<lparr>kvDb := db\<rparr>)))))"

end
