(* ===== verification/Static_Subscriber.thy ===== *)
theory Static_Subscriber
  imports Static_Data Publish_Info Event_Support
begin

text \<open>
  \<open>StaticSubscriberManager\<close> (\<open>static_subscriber_manager.cpp\<close>): extensions that are started to
  receive an event.  \<open>staticSubscribers\<close> is the allow list (bundle key to event names),
  \<open>validSubscribers\<close> the extensions by event, read from the profiles of the installed bundles,
  \<open>disableEvents\<close> what a bundle has switched off, kept by the data manager as well.  The queries
  to the bundle manager and the account service are the record \<open>senv\<close>; the connections
  that are requested and the errors that are reported go to \<open>staticLog\<close>.  \<open>bootTasks\<close> are
  the delayed tasks of a build with \<open>WATCH_EVENT_BOOT_COMPLETED_DELAY\<close>, which the flag
  \<open>watch_boot_delay\<close> selects.
\<close>

section \<open>State\<close>

datatype ParameterType = PBool bool | PInt int32 | PDouble int | PString string

record StaticSubscriberInfo =
  ssi_userId :: int32
  ssi_name :: string
  ssi_bundleName :: string
  ssi_permission :: string
  filterCode :: "int32 option"
  filterData :: "string option"
  filterParameters :: "(string, ParameterType) omap"

record app_info =
  allowCommonEvent :: "string list"
  app_bundleName :: string
  app_uid :: int32

record ext_info =
  ext_name :: string
  ext_bundleName :: string
  ext_uid :: int32

record senv =
  os_foreground_ids :: "int32 list option" \<comment> \<open>\<open>GetForegroundOsAccounts\<close>; \<open>None\<close>: an error code\<close>
  os_local_id_error :: "int32 \<Rightarrow> int" \<comment> \<open>the code of a failed \<open>GetOsAccountLocalIdFromUid\<close>\<close>
  bm_application_infos :: "int32 \<Rightarrow> app_info list option"
  bm_extension_infos :: "int32 \<Rightarrow> bool \<times> ext_info list"
  bm_res_config :: "ext_info \<Rightarrow> string list option"
  bm_uid_param :: string \<comment> \<open>\<open>AppExecFwk::Constants::UID\<close>\<close>
  js_accept :: "string \<Rightarrow> bool"
  js_profile :: "string \<Rightarrow> json" \<comment> \<open>\<open>nlohmann::json::parse\<close> without exceptions\<close>
  double_eq :: "int \<Rightarrow> int \<Rightarrow> bool"
  watch_boot_delay :: bool

datatype static_effect =
    ConnectAbility string string CommonEventData int32
  | StaticEventProcError int32 string string string

record 'kv static_state =
  validSubscribers :: "(string, StaticSubscriberInfo list) omap"
  staticSubscribers :: "(string, string list) omap"
  disableEvents :: disable_map
  hasInitAllowList :: bool
  hasInitValidSubscribers :: bool
  bootTasks :: "(StaticSubscriberInfo list \<times> CommonEventData) list"
  ss_data :: "'kv data_state"
  staticLog :: "static_effect list"

definition log_static :: "static_effect \<Rightarrow> 'kv static_state \<Rightarrow> 'kv static_state" where
  "log_static e t = t\<lparr>staticLog := staticLog t @ [e]\<rparr>"

definition bundle_key :: "int32 \<Rightarrow> string \<Rightarrow> string" where
  "bundle_key user bundle = to_string user @ ''_'' @ bundle"

lemma bundle_key_inject [simp]:
  "bundle_key u b = bundle_key u' b' \<longleftrightarrow> u = u' \<and> b = b'"
  using append_underscore_inject [OF to_string_no_underscore to_string_no_underscore]
  by (auto simp: bundle_key_def to_string_inject)

section \<open>Queries of the helper classes\<close>

definition GetForegroundUserIds :: "senv \<Rightarrow> int32 list" where
  "GetForegroundUserIds S = (case os_foreground_ids S of None \<Rightarrow> [] | Some ids \<Rightarrow> ids)"

fun application_infos_loop :: "senv \<Rightarrow> int32 list \<Rightarrow> bool \<Rightarrow> app_info list \<Rightarrow> bool \<times> app_info list" where
  "application_infos_loop S [] result infos = (result, infos)"
| "application_infos_loop S (user # users) result infos =
     (case bm_application_infos S user of
        None \<Rightarrow> application_infos_loop S users False infos
      | Some temp \<Rightarrow> application_infos_loop S users result (infos @ temp))"

definition GetApplicationInfos :: "env \<Rightarrow> senv \<Rightarrow> bool \<times> app_info list" where
  "GetApplicationInfos E S =
     (if \<not> bm_proxy E False then (False, [])
      else application_infos_loop S (GetForegroundUserIds S) True [])"

definition QueryExtensionInfos_user :: "env \<Rightarrow> senv \<Rightarrow> int32 \<Rightarrow> bool \<times> ext_info list" where
  "QueryExtensionInfos_user E S user =
     (if \<not> bm_proxy E False then (False, []) else bm_extension_infos S user)"

definition QueryExtensionInfos :: "env \<Rightarrow> senv \<Rightarrow> bool \<times> ext_info list" where
  "QueryExtensionInfos E S =
     (if \<not> bm_proxy E False then (False, [])
      else (True, concat (map (\<lambda>user. snd (bm_extension_infos S user)) (GetForegroundUserIds S))))"

definition GetResConfigFile :: "env \<Rightarrow> senv \<Rightarrow> ext_info \<Rightarrow> string list option" where
  "GetResConfigFile E S extension =
     (if \<not> bm_proxy E False then None else bm_res_config S extension)"

section \<open>Profiles\<close>

definition AddFilterParameter ::
  "string \<Rightarrow> json \<Rightarrow> (string, ParameterType) omap \<Rightarrow> (string, ParameterType) omap" where
  "AddFilterParameter paramName paramValue m =
     (case paramValue of
        JBool b \<Rightarrow> omap_emplace paramName (PBool b) m
      | JInt i \<Rightarrow> omap_emplace paramName (PInt (get_int32 paramValue)) m
      | JFloat f \<Rightarrow> omap_emplace paramName (PDouble f) m
      | JString s \<Rightarrow> omap_emplace paramName (PString s) m
      | _ \<Rightarrow> m)"

definition ParseConditions :: "json \<Rightarrow> StaticSubscriberInfo \<Rightarrow> StaticSubscriberInfo" where
  "ParseConditions conditions sub =
     (let sub1 = (case json_find conditions ''code'' of
                    None \<Rightarrow> sub
                  | Some code \<Rightarrow> if is_number_integer code
                      then sub\<lparr>filterCode := Some (get_int32 code)\<rparr> else sub);
          sub2 = (case json_find conditions ''data'' of
                    None \<Rightarrow> sub1
                  | Some data \<Rightarrow> if is_string data
                      then sub1\<lparr>filterData := Some (get_string data)\<rparr> else sub1)
      in case json_find conditions ''parameters'' of
           None \<Rightarrow> sub2
         | Some ps \<Rightarrow> if is_object ps
             then sub2\<lparr>filterParameters :=
                    foldl (\<lambda>m (n, v). AddFilterParameter n v m) (filterParameters sub2) (json_items ps)\<rparr>
             else sub2)"

fun filter_loop :: "json list \<Rightarrow> string \<Rightarrow> StaticSubscriberInfo \<Rightarrow> StaticSubscriberInfo" where
  "filter_loop [] eventName sub = sub"
| "filter_loop (flt # fs) eventName sub =
     (if \<not> is_object flt then filter_loop fs eventName sub
      else if \<not> is_string (json_at flt ''event'') then filter_loop fs eventName sub
      else if get_string (json_at flt ''event'') \<noteq> eventName then filter_loop fs eventName sub
      else (case json_find flt ''conditions'' of
              None \<Rightarrow> filter_loop fs eventName sub
            | Some conditions \<Rightarrow>
                if \<not> is_object conditions then filter_loop fs eventName sub
                else ParseConditions conditions sub))"

definition ParseFilterObject :: "json \<Rightarrow> string \<Rightarrow> StaticSubscriberInfo \<Rightarrow> StaticSubscriberInfo" where
  "ParseFilterObject filterObj eventName sub =
     (if \<not> is_array filterObj \<or> json_empty filterObj then sub
      else filter_loop (json_elems filterObj) eventName sub)"

definition same_subscriber :: "StaticSubscriberInfo \<Rightarrow> StaticSubscriberInfo \<Rightarrow> bool" where
  "same_subscriber a b \<longleftrightarrow> ssi_name a = ssi_name b \<and> ssi_bundleName a = ssi_bundleName b \<and>
     ssi_userId a = ssi_userId b"

definition AddToValidSubscribers ::
  "string \<Rightarrow> StaticSubscriberInfo \<Rightarrow> 'kv static_state \<Rightarrow> 'kv static_state" where
  "AddToValidSubscribers eventName sub t =
     (if \<exists>s \<in> set (at_vec (validSubscribers t) eventName). same_subscriber s sub then t
      else t\<lparr>validSubscribers :=
             omap_put eventName (at_vec (validSubscribers t) eventName @ [sub]) (validSubscribers t)\<rparr>)"

fun events_loop ::
  "string \<Rightarrow> string \<Rightarrow> int32 \<Rightarrow> json \<Rightarrow> json list \<Rightarrow> 'kv static_state \<Rightarrow> 'kv static_state" where
  "events_loop name bundle user obj [] t = t"
| "events_loop name bundle user obj (e # es) t =
     events_loop name bundle user obj es
       (if \<not> is_string e then t
        else (case map_of (staticSubscribers t) (bundle_key user bundle) of
                None \<Rightarrow> t
              | Some allowed \<Rightarrow>
                  if get_string e \<notin> set allowed then t
                  else AddToValidSubscribers (get_string e)
                         (ParseFilterObject (json_at obj ''filter'') (get_string e)
                            \<lparr>ssi_userId = user, ssi_name = name, ssi_bundleName = bundle,
                             ssi_permission = get_string (json_at obj ''permission''),
                             filterCode = None, filterData = None, filterParameters = []\<rparr>) t))"

fun objects_loop :: "string \<Rightarrow> string \<Rightarrow> int32 \<Rightarrow> json list \<Rightarrow> 'kv static_state \<Rightarrow> 'kv static_state" where
  "objects_loop name bundle user [] t = t"
| "objects_loop name bundle user (obj # objs) t =
     objects_loop name bundle user objs
       (if \<not> is_object obj then t
        else if \<not> is_string (json_at obj ''name'') then t
        else if get_string (json_at obj ''name'') \<noteq> name then t
        else if \<not> is_string (json_at obj ''permission'') then t
        else if \<not> is_array (json_at obj ''events'') \<or> json_empty (json_at obj ''events'') then t
        else events_loop name bundle user obj (json_elems (json_at obj ''events'')) t)"

definition ParseEvents ::
  "senv \<Rightarrow> string \<Rightarrow> string \<Rightarrow> int32 \<Rightarrow> string \<Rightarrow> 'kv static_state \<Rightarrow> 'kv static_state" where
  "ParseEvents S name bundle user profile t =
     (if profile = [] then t
      else if \<not> js_accept S profile then t
      else (let jsonObj = js_profile S profile
            in if json_empty jsonObj \<or> \<not> is_object jsonObj then t
               else (let commonEventsObj = json_at jsonObj ''commonEvents''
                     in if \<not> is_array commonEventsObj \<or> json_empty commonEventsObj then t
                        else objects_loop name bundle user (json_elems commonEventsObj) t)))"

text \<open>The loop over the profiles of an extension asks for the user anew in each round.\<close>

fun profiles_loop :: "env \<Rightarrow> senv \<Rightarrow> ext_info \<Rightarrow> string list \<Rightarrow> 'kv static_state \<Rightarrow> 'kv static_state"
  where
  "profiles_loop E S extension [] t = t"
| "profiles_loop E S extension (profile # ps) t =
     (let (ok, user) = GetOsAccountLocalIdFromUid E (ext_uid extension) ALL_USER
      in if \<not> ok then t
         else profiles_loop E S extension ps
                (ParseEvents S (ext_name extension) (ext_bundleName extension) user profile t))"

definition AddSubscriber :: "env \<Rightarrow> senv \<Rightarrow> ext_info \<Rightarrow> 'kv static_state \<Rightarrow> 'kv static_state" where
  "AddSubscriber E S extension t =
     (case GetResConfigFile E S extension of
        None \<Rightarrow> t
      | Some profileInfos \<Rightarrow> profiles_loop E S extension profileInfos t)"

section \<open>Initialisation\<close>

fun allow_events :: "string \<Rightarrow> string list \<Rightarrow> (string, string list) omap \<Rightarrow> (string, string list) omap"
  where
  "allow_events key [] m = m"
| "allow_events key (e # es) m = allow_events key es (omap_put key (at_vec m key @ [e]) m)"

fun allow_apps :: "env \<Rightarrow> app_info list \<Rightarrow> (string, string list) omap \<Rightarrow> (string, string list) omap"
  where
  "allow_apps E [] m = m"
| "allow_apps E (a # as) m =
     (let (ok, user) = GetOsAccountLocalIdFromUid E (app_uid a) ALL_USER
      in if \<not> ok then allow_apps E as m
         else allow_apps E as
                (allow_events (bundle_key user (app_bundleName a)) (allowCommonEvent a) m))"

definition InitAllowList :: "env \<Rightarrow> senv \<Rightarrow> 'kv static_state \<Rightarrow> bool \<times> 'kv static_state" where
  "InitAllowList E S t =
     (let (ok, appInfos) = GetApplicationInfos E S
      in if \<not> ok then (False, t)
         else (True, t\<lparr>staticSubscribers := allow_apps E appInfos (staticSubscribers t),
                       hasInitAllowList := True\<rparr>))"

fun extensions_loop :: "env \<Rightarrow> senv \<Rightarrow> ext_info list \<Rightarrow> 'kv static_state \<Rightarrow> 'kv static_state" where
  "extensions_loop E S [] t = t"
| "extensions_loop E S (x # xs) t =
     (let (ok, user) = GetOsAccountLocalIdFromUid E (ext_uid x) ALL_USER
      in if \<not> ok then extensions_loop E S xs t
         else if map_of (staticSubscribers t) (bundle_key user (ext_bundleName x)) = None
           then extensions_loop E S xs t
         else extensions_loop E S xs (AddSubscriber E S x t))"

definition InitValidSubscribers ::
  "env \<Rightarrow> senv \<Rightarrow> 'kv kv_ops \<Rightarrow> 'kv static_state \<Rightarrow> bool \<times> 'kv static_state" where
  "InitValidSubscribers E S K t =
     (let t0 = t\<lparr>validSubscribers := []\<rparr>; (ok, t1) = InitAllowList E S t0
      in if \<not> ok then (False, t1)
         else
           (let (ret, disabled, bundleList, d) =
                  QueryStaticSubscriberStateData E K (disableEvents t1) [] (ss_data t1);
                t2 = t1\<lparr>disableEvents := disabled, ss_data := d\<rparr>;
                (ok, extensions) = QueryExtensionInfos E S
            in if \<not> ok then (False, t2)
               else
                 (let t3 = extensions_loop E S extensions t2
                  in if bundleList = [] then (True, t3\<lparr>hasInitValidSubscribers := True\<rparr>)
                     else
                       (let disabled' = fold (\<lambda>key m.
                              case map_of (staticSubscribers t3) key of
                                None \<Rightarrow> m
                              | Some events \<Rightarrow> omap_emplace key events m) bundleList [];
                            t4 = t3\<lparr>disableEvents := disabled'\<rparr>;
                            (r, d') = UpdateStaticSubscriberState E K disabled' (ss_data t4)
                        in (True, t4\<lparr>ss_data := d', hasInitValidSubscribers := True\<rparr>)))))"

section \<open>Matching an event\<close>

definition IsDisableEvent :: "string \<Rightarrow> string \<Rightarrow> int32 \<Rightarrow> 'kv static_state \<Rightarrow> bool" where
  "IsDisableEvent bundle event user t =
     (case map_of (disableEvents t) (bundle_key user bundle) of
        None \<Rightarrow> False
      | Some events \<Rightarrow> event \<in> set events)"

fun CheckSubscriberBySpecifiedUids_static :: "int32 \<Rightarrow> int32 list \<Rightarrow> bool" where
  "CheckSubscriberBySpecifiedUids_static u [] = False"
| "CheckSubscriberBySpecifiedUids_static u (x # xs) =
     (if x = u then True else CheckSubscriberBySpecifiedUids_static u xs)"

definition VerifyPublisherPermission :: "env \<Rightarrow> token_id \<Rightarrow> string \<Rightarrow> bool" where
  "VerifyPublisherPermission E t permission =
     (if permission = [] then True else VerifyAccessToken E t permission)"

fun verify_nonempty :: "env \<Rightarrow> token_id \<Rightarrow> string list \<Rightarrow> bool" where
  "verify_nonempty E t [] = True"
| "verify_nonempty E t (p # ps) =
     (if p = [] then verify_nonempty E t ps
      else if \<not> VerifyAccessToken E t p then False else verify_nonempty E t ps)"

definition VerifySubscriberPermission :: "env \<Rightarrow> string \<Rightarrow> int32 \<Rightarrow> string list \<Rightarrow> bool" where
  "VerifySubscriberPermission E bundle user permissions =
     verify_nonempty E (GetHapTokenID E user bundle 0) permissions"

definition CheckSubscriberWhetherMatched_static ::
  "env \<Rightarrow> StaticSubscriberInfo \<Rightarrow> CommonEventPublishInfo \<Rightarrow> bool" where
  "CheckSubscriberWhetherMatched_static E sub p =
     (let filterSettings = GetFilterSettings p; ty = pi_subscriberType p
      in if filterSettings = 0 then True
         else
           (let c0 = 0;
                c1 = (if pi_bundleName p \<noteq> [] \<and> pi_bundleName p = ssi_bundleName sub
                      then c0 OR SUBSCRIBER_FILTER_BUNDLE_INDEX else c0);
                isSys = CheckIsSystemAppByBundleName E (ssi_bundleName sub) (ssi_userId sub);
                isTypeMatched = (ty = ALL_SUBSCRIBER_TYPE \<or> (ty = SYSTEM_SUBSCRIBER_TYPE \<and> isSys));
                c2 = (if ty \<noteq> UNINITIALIZATED_SUBSCRIBER_TYPE \<and> isTypeMatched
                      then c1 OR SUBSCRIBER_FILTER_SUBSCRIBER_TYPE_INDEX else c1);
                subscriberUid = GetDefaultUidByBundleName E (ssi_bundleName sub) (ssi_userId sub);
                c3 = (if pi_subscriberUids p \<noteq> [] \<and>
                        CheckSubscriberBySpecifiedUids_static subscriberUid (pi_subscriberUids p)
                      then c2 OR SUBSCRIBER_FILTER_SUBSCRIBER_UID_INDEX else c2);
                c4 = (if pi_subscriberPermissions p \<noteq> [] \<and>
                        VerifySubscriberPermission E (ssi_bundleName sub) (ssi_userId sub)
                          (pi_subscriberPermissions p)
                      then c3 OR SUBSCRIBER_FILTER_PERMISSION_INDEX else c3)
            in if pi_rule p = RuleAND then c4 = filterSettings
               else c4 AND filterSettings \<noteq> 0))"

definition CheckFilterCodeAndData :: "StaticSubscriberInfo \<Rightarrow> CommonEventData \<Rightarrow> bool" where
  "CheckFilterCodeAndData sub d =
     (case filterCode sub of
        Some code \<Rightarrow> if code \<noteq> cd_code d then False
          else (case filterData sub of Some s \<Rightarrow> s = cd_data d | None \<Rightarrow> True)
      | None \<Rightarrow> (case filterData sub of Some s \<Rightarrow> s = cd_data d | None \<Rightarrow> True))"

text \<open>\<open>CheckSpecificParam\<close>: the value of the \<open>Want\<close> has to have the type of the filter's
  value and to be equal to it.\<close>

fun CheckSpecificParam :: "senv \<Rightarrow> ParameterType \<Rightarrow> want_value \<Rightarrow> bool" where
  "CheckSpecificParam S (PBool b) (WBool b') = (b' = b)"
| "CheckSpecificParam S (PInt i) (WInt i') = (i' = i)"
| "CheckSpecificParam S (PDouble d) (WDouble d') = double_eq S d' d"
| "CheckSpecificParam S (PString s) (WString s') = (s' = s)"
| "CheckSpecificParam S _ _ = False"

fun CheckFilterParameters :: "senv \<Rightarrow> (string \<times> ParameterType) list \<Rightarrow> Want \<Rightarrow> bool" where
  "CheckFilterParameters S [] w = True"
| "CheckFilterParameters S ((n, v) # ps) w =
     (case map_of (w_params w) n of
        None \<Rightarrow> False
      | Some wv \<Rightarrow> if \<not> CheckSpecificParam S v wv then False else CheckFilterParameters S ps w)"

definition IsFilterParameters :: "senv \<Rightarrow> StaticSubscriberInfo \<Rightarrow> CommonEventData \<Rightarrow> bool" where
  "IsFilterParameters S sub d =
     (if \<not> CheckFilterCodeAndData sub d then False
      else if \<not> CheckFilterParameters S (filterParameters sub) (cd_want d) then False else True)"

section \<open>Publication\<close>

definition PublishCommonEventConnecAbility ::
  "CommonEventData \<Rightarrow> int32 \<Rightarrow> string \<Rightarrow> string \<Rightarrow> 'kv static_state \<Rightarrow> 'kv static_state" where
  "PublishCommonEventConnecAbility d user bundle ability t =
     log_static (ConnectAbility bundle ability d user) t"

definition SendStaticEventProcErrHiSysEvent ::
  "int32 \<Rightarrow> string \<Rightarrow> string \<Rightarrow> string \<Rightarrow> 'kv static_state \<Rightarrow> 'kv static_state" where
  "SendStaticEventProcErrHiSysEvent user publisher subscriber event t =
     log_static (StaticEventProcError user publisher subscriber event) t"

fun targets_loop ::
  "env \<Rightarrow> senv \<Rightarrow> CommonEventData \<Rightarrow> CommonEventPublishInfo \<Rightarrow> token_id \<Rightarrow> int32 \<Rightarrow> string \<Rightarrow>
     StaticSubscriberInfo list \<Rightarrow> StaticSubscriberInfo list \<Rightarrow> 'kv static_state \<Rightarrow>
     StaticSubscriberInfo list \<times> 'kv static_state" where
  "targets_loop E S d p tok user bundle [] boot t = (boot, t)"
| "targets_loop E S d p tok user bundle (sub # subs) boot t =
     (let action = w_action (cd_want d);
          skip = SendStaticEventProcErrHiSysEvent user bundle (ssi_bundleName sub) action t
      in if IsDisableEvent (ssi_bundleName sub) action (ssi_userId sub) t
           then targets_loop E S d p tok user bundle subs boot skip
         else if ssi_userId sub < SUBSCRIBE_USER_SYSTEM_BEGIN
           then targets_loop E S d p tok user bundle subs boot skip
         else if ssi_userId sub > SUBSCRIBE_USER_SYSTEM_END \<and> user \<noteq> ALL_USER \<and> ssi_userId sub \<noteq> user
           then targets_loop E S d p tok user bundle subs boot skip
         else if \<not> CheckSubscriberWhetherMatched_static E sub p
           then targets_loop E S d p tok user bundle subs boot skip
         else if \<not> VerifyPublisherPermission E tok (ssi_permission sub)
           then targets_loop E S d p tok user bundle subs boot skip
         else if \<not> IsFilterParameters S sub d
           then targets_loop E S d p tok user bundle subs boot t
         else if watch_boot_delay S \<and> action = COMMON_EVENT_BOOT_COMPLETED
           then targets_loop E S d p tok user bundle subs (boot @ [sub]) t
         else targets_loop E S d p tok user bundle subs boot
                (PublishCommonEventConnecAbility d (ssi_userId sub) (ssi_bundleName sub)
                   (ssi_name sub) t))"

definition PublishCommonEventInner ::
  "env \<Rightarrow> senv \<Rightarrow> CommonEventData \<Rightarrow> CommonEventPublishInfo \<Rightarrow> token_id \<Rightarrow> int32 \<Rightarrow> string \<Rightarrow>
     'kv static_state \<Rightarrow> 'kv static_state" where
  "PublishCommonEventInner E S d p tok user bundle t =
     (case map_of (validSubscribers t) (w_action (cd_want d)) of
        None \<Rightarrow> t
      | Some subs \<Rightarrow>
          (let (boot, t1) = targets_loop E S d p tok user bundle subs [] t
           in if boot = [] then t1 else t1\<lparr>bootTasks := bootTasks t1 @ [(boot, d)]\<rparr>))"

text \<open>A task of the delay queue.\<close>

definition run_boot_task :: "'kv static_state \<Rightarrow> 'kv static_state" where
  "run_boot_task t =
     (case bootTasks t of
        [] \<Rightarrow> t
      | (subs, d) # tasks \<Rightarrow>
          foldl (\<lambda>t sub. PublishCommonEventConnecAbility d (ssi_userId sub) (ssi_bundleName sub)
                   (ssi_name sub) t) (t\<lparr>bootTasks := tasks\<rparr>) subs)"

section \<open>Installed and removed bundles\<close>

fun bundle_extensions_loop ::
  "env \<Rightarrow> senv \<Rightarrow> string \<Rightarrow> int32 \<Rightarrow> ext_info list \<Rightarrow> 'kv static_state \<Rightarrow> 'kv static_state" where
  "bundle_extensions_loop E S bundle user [] t = t"
| "bundle_extensions_loop E S bundle user (x # xs) t =
     bundle_extensions_loop E S bundle user xs
       (if ext_bundleName x = bundle \<and>
           map_of (staticSubscribers t) (bundle_key user (ext_bundleName x)) \<noteq> None
        then AddSubscriber E S x t else t)"

definition AddSubscriberWithBundleName ::
  "env \<Rightarrow> senv \<Rightarrow> string \<Rightarrow> int32 \<Rightarrow> 'kv static_state \<Rightarrow> 'kv static_state" where
  "AddSubscriberWithBundleName E S bundle user t =
     (let (ok, extensions) = QueryExtensionInfos_user E S user
      in if \<not> ok then t else bundle_extensions_loop E S bundle user extensions t)"

fun remove_bundle ::
  "string \<Rightarrow> int32 \<Rightarrow> (string \<times> StaticSubscriberInfo list) list \<Rightarrow>
     (string \<times> StaticSubscriberInfo list) list" where
  "remove_bundle bundle user [] = []"
| "remove_bundle bundle user ((event, subs) # m) =
     (let subs' = filter (\<lambda>s. \<not> (ssi_bundleName s = bundle \<and> ssi_userId s = user)) subs
      in if subs' = [] then remove_bundle bundle user m
         else (event, subs') # remove_bundle bundle user m)"

definition RemoveSubscriberWithBundleName ::
  "'kv kv_ops \<Rightarrow> string \<Rightarrow> int32 \<Rightarrow> 'kv static_state \<Rightarrow> 'kv static_state" where
  "RemoveSubscriberWithBundleName K bundle user t =
     (let t1 = t\<lparr>validSubscribers := remove_bundle bundle user (validSubscribers t)\<rparr>;
          key = bundle_key user bundle
      in if map_of (disableEvents t1) key = None then t1
         else (let t2 = t1\<lparr>disableEvents := AList.delete key (disableEvents t1)\<rparr>;
                   (r, d) = DeleteDisableEventElementByBundleName K key (ss_data t2)
               in t2\<lparr>ss_data := d\<rparr>))"

text \<open>\<open>GetIntParam\<close> of a \<open>Want\<close>.\<close>

definition GetIntParam :: "Want \<Rightarrow> string \<Rightarrow> int32 \<Rightarrow> int32" where
  "GetIntParam w k dflt = (case map_of (w_params w) k of Some (WInt i) \<Rightarrow> i | _ \<Rightarrow> dflt)"

definition UpdateSubscriber ::
  "env \<Rightarrow> senv \<Rightarrow> 'kv kv_ops \<Rightarrow> CommonEventData \<Rightarrow> 'kv static_state \<Rightarrow> 'kv static_state" where
  "UpdateSubscriber E S K d t =
     (let action = w_action (cd_want d)
      in if action \<noteq> COMMON_EVENT_PACKAGE_ADDED \<and> action \<noteq> COMMON_EVENT_PACKAGE_CHANGED \<and>
            action \<noteq> COMMON_EVENT_PACKAGE_REMOVED then t
         else
           (let bundle = w_bundle (cd_want d);
                u = GetIntParam (cd_want d) (bm_uid_param S) (-1);
                (ok, user) = GetOsAccountLocalIdFromUid E u (-1)
            in if \<not> ok then t
               else
                 (case os_active_ids E of
                    None \<Rightarrow> t
                  | Some ids \<Rightarrow>
                      if user \<notin> set ids then t
                      else if action = COMMON_EVENT_PACKAGE_ADDED
                        then AddSubscriberWithBundleName E S bundle user t
                      else if action = COMMON_EVENT_PACKAGE_REMOVED
                        then RemoveSubscriberWithBundleName K bundle user t
                      else AddSubscriberWithBundleName E S bundle user
                             (RemoveSubscriberWithBundleName K bundle user t))))"

definition PublishCommonEvent_static ::
  "env \<Rightarrow> senv \<Rightarrow> 'kv kv_ops \<Rightarrow> CommonEventData \<Rightarrow> CommonEventPublishInfo \<Rightarrow> token_id \<Rightarrow> int32 \<Rightarrow>
     string \<Rightarrow> 'kv static_state \<Rightarrow> 'kv static_state" where
  "PublishCommonEvent_static E S K d p tok user bundle t =
     (let event = w_action (cd_want d);
          (ok, t1) = (if \<not> hasInitValidSubscribers t \<or> event = COMMON_EVENT_USER_FOREGROUND
                      then InitValidSubscribers E S K t else (True, t))
      in if \<not> ok then t1
         else PublishCommonEventInner E S d p tok user bundle (UpdateSubscriber E S K d t1))"

section \<open>Switching events off and on\<close>

fun update_events :: "bool \<Rightarrow> string list \<Rightarrow> string list \<Rightarrow> string list" where
  "update_events enable [] current = current"
| "update_events enable (e # es) current =
     update_events enable es
       (if enable then (if e \<notin> set current then current else remove1 e current)
        else (if e \<notin> set current then current @ [e] else current))"

definition UpdateDisableEvents ::
  "env \<Rightarrow> 'kv kv_ops \<Rightarrow> string \<Rightarrow> string list \<Rightarrow> bool \<Rightarrow> int32 \<Rightarrow> 'kv static_state \<Rightarrow>
     err_code \<times> 'kv static_state" where
  "UpdateDisableEvents E K bundle events enable user t =
     (let key = bundle_key user bundle;
          disabled = (case map_of (disableEvents t) key of
                        None \<Rightarrow> if \<not> enable then omap_emplace key events (disableEvents t)
                                else disableEvents t
                      | Some current \<Rightarrow>
                          (let current' = update_events enable events current
                           in if current' = [] then AList.delete key (disableEvents t)
                              else omap_put key current' (disableEvents t)));
          (r, d) = UpdateStaticSubscriberState E K disabled (ss_data t)
      in (r, t\<lparr>disableEvents := disabled, ss_data := d\<rparr>))"

definition SetStaticSubscriberState ::
  "env \<Rightarrow> senv \<Rightarrow> 'kv kv_ops \<Rightarrow> uid_t \<Rightarrow> bool \<Rightarrow> 'kv static_state \<Rightarrow> err_code \<times> 'kv static_state" where
  "SetStaticSubscriberState E S K callingUid enable t =
     (let (ok, user) = GetOsAccountLocalIdFromUid E (to_int32 callingUid) ALL_USER
      in if \<not> ok then (ERR_REMOTE (os_local_id_error S (to_int32 callingUid)), t)
         else
           (let bundle = GetBundleName E callingUid
            in case map_of (staticSubscribers t) (bundle_key user bundle) of
                 None \<Rightarrow> (ERR_INVALID_OPERATION, t)
               | Some events \<Rightarrow> UpdateDisableEvents E K bundle events enable user t))"

definition SetStaticSubscriberState_events ::
  "env \<Rightarrow> senv \<Rightarrow> 'kv kv_ops \<Rightarrow> uid_t \<Rightarrow> string list \<Rightarrow> bool \<Rightarrow> 'kv static_state \<Rightarrow>
     err_code \<times> 'kv static_state" where
  "SetStaticSubscriberState_events E S K callingUid events enable t =
     (let (ok, user) = GetOsAccountLocalIdFromUid E (to_int32 callingUid) ALL_USER
      in if \<not> ok then (ERR_REMOTE (os_local_id_error S (to_int32 callingUid)), t)
         else UpdateDisableEvents E K (GetBundleName E callingUid) events enable user t)"

end
