(* ===== verification/Static_Invariant.thy ===== *)
theory Static_Invariant
  imports Static_Subscriber
begin

text \<open>
  Lemmas on the static subscribers: the filter as an instance of \<open>subscriber_filter\<close>, whom a
  publication starts, the invariant \<open>static_ok\<close> (the valid subscribers are covered by the allow
  list and listed once), and the step relation of the manager with its reachable states.
\<close>

section \<open>The filter\<close>

abbreviation static_sat_bundle where
  "static_sat_bundle p sub \<equiv> pi_bundleName p \<noteq> [] \<and> pi_bundleName p = ssi_bundleName sub"

abbreviation static_sat_perm where
  "static_sat_perm E p sub \<equiv> pi_subscriberPermissions p \<noteq> [] \<and>
     VerifySubscriberPermission E (ssi_bundleName sub) (ssi_userId sub) (pi_subscriberPermissions p)"

abbreviation static_sat_type where
  "static_sat_type E p sub \<equiv> pi_subscriberType p \<noteq> UNINITIALIZATED_SUBSCRIBER_TYPE \<and>
     (pi_subscriberType p = ALL_SUBSCRIBER_TYPE \<or> pi_subscriberType p = SYSTEM_SUBSCRIBER_TYPE \<and>
        CheckIsSystemAppByBundleName E (ssi_bundleName sub) (ssi_userId sub))"

abbreviation static_sat_uids where
  "static_sat_uids E p sub \<equiv> pi_subscriberUids p \<noteq> [] \<and>
     CheckSubscriberBySpecifiedUids_static
       (GetDefaultUidByBundleName E (ssi_bundleName sub) (ssi_userId sub)) (pi_subscriberUids p)"

lemma SpecifiedUids_static_set [simp]: "CheckSubscriberBySpecifiedUids_static u xs \<longleftrightarrow> u \<in> set xs"
  by (induction xs) auto

lemma verify_nonempty_all:
  "verify_nonempty E t ps \<longleftrightarrow> (\<forall>p \<in> set ps. p \<noteq> [] \<longrightarrow> VerifyAccessToken E t p)"
  by (induction ps) auto

interpretation static_filter: subscriber_filter
  "\<lambda>p sub. CheckSubscriberWhetherMatched_static E sub p"
  static_sat_bundle "static_sat_perm E" "static_sat_type E" "static_sat_uids E" "\<lambda>p sub. False"
  for E
proof
  fix p :: CommonEventPublishInfo and sub :: StaticSubscriberInfo
  show "CheckSubscriberWhetherMatched_static E sub p \<longleftrightarrow> GetFilterSettings p = 0 \<or>
      rule_holds (pi_rule p)
        (bits_of (static_sat_bundle p sub) (static_sat_perm E p sub) (static_sat_type E p sub)
          (static_sat_uids E p sub) False)
        (GetFilterSettings p)"
    unfolding CheckSubscriberWhetherMatched_static_def rule_holds_def bits_of_def Let_def
    by (simp add: or.assoc or.commute or.left_commute cong: if_cong)
qed auto

section \<open>Whom a publication starts\<close>

definition static_eligible ::
  "env \<Rightarrow> senv \<Rightarrow> CommonEventData \<Rightarrow> CommonEventPublishInfo \<Rightarrow> token_id \<Rightarrow> int32 \<Rightarrow> disable_map \<Rightarrow>
     StaticSubscriberInfo \<Rightarrow> bool" where
  "static_eligible E S d p tok user disabled sub \<longleftrightarrow>
     w_action (cd_want d) \<notin> set (at_vec disabled (bundle_key (ssi_userId sub) (ssi_bundleName sub))) \<and>
     0 \<le> ssi_userId sub \<and>
     (ssi_userId sub \<le> 99 \<or> user = ALL_USER \<or> ssi_userId sub = user) \<and>
     CheckSubscriberWhetherMatched_static E sub p \<and>
     (ssi_permission sub = [] \<or> VerifyAccessToken E tok (ssi_permission sub)) \<and>
     IsFilterParameters S sub d"

definition is_connect :: "static_effect \<Rightarrow> bool" where
  "is_connect e = (case e of ConnectAbility _ _ _ _ \<Rightarrow> True | StaticEventProcError _ _ _ _ \<Rightarrow> False)"

definition connects :: "'kv static_state \<Rightarrow> static_effect list" where
  "connects t = filter is_connect (staticLog t)"

definition connect_of :: "CommonEventData \<Rightarrow> StaticSubscriberInfo \<Rightarrow> static_effect" where
  "connect_of d sub = ConnectAbility (ssi_bundleName sub) (ssi_name sub) d (ssi_userId sub)"

definition delayed :: "senv \<Rightarrow> CommonEventData \<Rightarrow> bool" where
  "delayed S d \<longleftrightarrow> watch_boot_delay S \<and> w_action (cd_want d) = COMMON_EVENT_BOOT_COMPLETED"

lemma IsDisableEvent_iff:
  "IsDisableEvent bundle event user t \<longleftrightarrow>
     event \<in> set (at_vec (disableEvents t) (bundle_key user bundle))"
  by (simp add: IsDisableEvent_def at_vec_def split: option.split)

lemma connects_log [simp]:
  "connects (SendStaticEventProcErrHiSysEvent u b s e t) = connects t"
  "connects (PublishCommonEventConnecAbility d u b a t) = connects t @ [ConnectAbility b a d u]"
  "disableEvents (SendStaticEventProcErrHiSysEvent u b s e t) = disableEvents t"
  "disableEvents (PublishCommonEventConnecAbility d u b a t) = disableEvents t"
  "bootTasks (SendStaticEventProcErrHiSysEvent u b s e t) = bootTasks t"
  "bootTasks (PublishCommonEventConnecAbility d u b a t) = bootTasks t"
  "validSubscribers (SendStaticEventProcErrHiSysEvent u b s e t) = validSubscribers t"
  "validSubscribers (PublishCommonEventConnecAbility d u b a t) = validSubscribers t"
  "staticSubscribers (SendStaticEventProcErrHiSysEvent u b s e t) = staticSubscribers t"
  "staticSubscribers (PublishCommonEventConnecAbility d u b a t) = staticSubscribers t"
  by (simp_all add: SendStaticEventProcErrHiSysEvent_def PublishCommonEventConnecAbility_def
    log_static_def connects_def is_connect_def)

definition static_checks ::
  "env \<Rightarrow> CommonEventData \<Rightarrow> CommonEventPublishInfo \<Rightarrow> token_id \<Rightarrow> int32 \<Rightarrow> disable_map \<Rightarrow>
     StaticSubscriberInfo \<Rightarrow> bool" where
  "static_checks E d p tok user disabled sub \<longleftrightarrow>
     w_action (cd_want d) \<notin> set (at_vec disabled (bundle_key (ssi_userId sub) (ssi_bundleName sub))) \<and>
     0 \<le> ssi_userId sub \<and>
     (ssi_userId sub \<le> 99 \<or> user = ALL_USER \<or> ssi_userId sub = user) \<and>
     CheckSubscriberWhetherMatched_static E sub p \<and>
     (ssi_permission sub = [] \<or> VerifyAccessToken E tok (ssi_permission sub))"

lemma static_eligible_checks:
  "static_eligible E S d p tok user disabled sub \<longleftrightarrow>
     static_checks E d p tok user disabled sub \<and> IsFilterParameters S sub d"
  by (auto simp: static_eligible_def static_checks_def)

lemma if_chain:
  "(if a then X else if \<not> b then X else if \<not> c then X else if \<not> d then X else if \<not> e then X else R) =
     (if \<not> (\<not> a \<and> b \<and> c \<and> d \<and> e) then X else R)"
  by simp

lemma targets_loop_Cons:
  "targets_loop E S d p tok user bundle (sub # subs) boot t =
     (if \<not> static_checks E d p tok user (disableEvents t) sub
        then targets_loop E S d p tok user bundle subs boot
               (SendStaticEventProcErrHiSysEvent user bundle (ssi_bundleName sub) (w_action (cd_want d)) t)
      else if \<not> IsFilterParameters S sub d then targets_loop E S d p tok user bundle subs boot t
      else if delayed S d then targets_loop E S d p tok user bundle subs (boot @ [sub]) t
      else targets_loop E S d p tok user bundle subs boot
             (PublishCommonEventConnecAbility d (ssi_userId sub) (ssi_bundleName sub) (ssi_name sub) t))"
proof -
  have perm: "VerifyPublisherPermission E tok (ssi_permission sub) \<longleftrightarrow>
      ssi_permission sub = [] \<or> VerifyAccessToken E tok (ssi_permission sub)"
    by (simp add: VerifyPublisherPermission_def)
  have user: "(ssi_userId sub > SUBSCRIBE_USER_SYSTEM_END \<and> user \<noteq> ALL_USER \<and> ssi_userId sub \<noteq> user) \<longleftrightarrow>
      \<not> (ssi_userId sub \<le> 99 \<or> user = ALL_USER \<or> ssi_userId sub = user)"
    "ssi_userId sub < SUBSCRIBE_USER_SYSTEM_BEGIN \<longleftrightarrow> \<not> 0 \<le> ssi_userId sub"
    by (auto simp: SUBSCRIBE_USER_SYSTEM_END_def SUBSCRIBE_USER_SYSTEM_BEGIN_def)
  show ?thesis
    unfolding targets_loop.simps Let_def IsDisableEvent_iff static_checks_def delayed_def perm user
    by (rule if_chain)
qed

declare targets_loop.simps(2) [simp del]

lemma targets_loop_spec:
  "targets_loop E S d p tok user bundle subs boot t = (boot', t') \<Longrightarrow>
     boot' = boot @ (if delayed S d
       then filter (static_eligible E S d p tok user (disableEvents t)) subs else []) \<and>
     connects t' = connects t @ (if delayed S d then []
       else map (connect_of d) (filter (static_eligible E S d p tok user (disableEvents t)) subs)) \<and>
     disableEvents t' = disableEvents t \<and> bootTasks t' = bootTasks t \<and>
     validSubscribers t' = validSubscribers t \<and> staticSubscribers t' = staticSubscribers t"
proof (induction subs arbitrary: boot t)
  case (Cons sub subs)
  let ?c = "static_checks E d p tok user (disableEvents t) sub" and ?f = "IsFilterParameters S sub d"
  consider "\<not> ?c" | "?c" "\<not> ?f" | "?c" "?f" "delayed S d" | "?c" "?f" "\<not> delayed S d" by blast
  then show ?case
    using Cons.prems
    by cases (auto simp: targets_loop_Cons
      static_eligible_checks [of E S d p tok user "disableEvents t" sub] connect_of_def dest!: Cons.IH)
qed simp

lemma PublishCommonEventInner_spec:
  "let t' = PublishCommonEventInner E S d p tok user bundle t;
       el = filter (static_eligible E S d p tok user (disableEvents t))
              (at_vec (validSubscribers t) (w_action (cd_want d))) in
   connects t' = connects t @ (if delayed S d then [] else map (connect_of d) el) \<and>
   bootTasks t' = bootTasks t @ (if delayed S d \<and> el \<noteq> [] then [(el, d)] else []) \<and>
   disableEvents t' = disableEvents t \<and>
   validSubscribers t' = validSubscribers t \<and> staticSubscribers t' = staticSubscribers t"
proof (cases "map_of (validSubscribers t) (w_action (cd_want d))")
  case None
  then show ?thesis by (simp add: PublishCommonEventInner_def at_vec_def Let_def)
next
  case (Some subs)
  obtain boot t' where r: "targets_loop E S d p tok user bundle subs [] t = (boot, t')" by fastforce
  show ?thesis
    using targets_loop_spec [OF r] Some r
    by (auto simp: PublishCommonEventInner_def at_vec_def Let_def connects_def)
qed

section \<open>The invariant\<close>

definition listed_once :: "StaticSubscriberInfo list \<Rightarrow> bool" where
  "listed_once subs \<longleftrightarrow> sorted_wrt (\<lambda>a b. \<not> same_subscriber a b) subs"

definition covered :: "(string, string list) omap \<Rightarrow> string \<Rightarrow> StaticSubscriberInfo \<Rightarrow> bool" where
  "covered allow event sub \<longleftrightarrow>
     event \<in> set (at_vec allow (bundle_key (ssi_userId sub) (ssi_bundleName sub)))"

definition static_ok :: "'kv static_state \<Rightarrow> bool" where
  "static_ok t \<longleftrightarrow> omap_ok (validSubscribers t) \<and> omap_ok (staticSubscribers t) \<and>
     omap_ok (disableEvents t) \<and>
     (\<forall>event subs. map_of (validSubscribers t) event = Some subs \<longrightarrow>
        listed_once subs \<and> list_all (covered (staticSubscribers t) event) subs)"

lemma at_vec_put: "at_vec (omap_put k v m) k' = (if k' = k then v else at_vec m k')"
  by (simp add: at_vec_def map_of_omap_put)

lemma static_okD:
  "static_ok t \<Longrightarrow> listed_once (at_vec (validSubscribers t) event) \<and>
     list_all (covered (staticSubscribers t) event) (at_vec (validSubscribers t) event)"
  by (auto simp: static_ok_def at_vec_def listed_once_def split: option.split)

lemma ParseConditions_id [simp]:
  "ssi_userId (ParseConditions c sub) = ssi_userId sub"
  "ssi_name (ParseConditions c sub) = ssi_name sub"
  "ssi_bundleName (ParseConditions c sub) = ssi_bundleName sub"
  "ssi_permission (ParseConditions c sub) = ssi_permission sub"
  by (simp_all add: ParseConditions_def Let_def split: option.split)

lemma filter_loop_id [simp]:
  "ssi_userId (filter_loop fs e sub) = ssi_userId sub"
  "ssi_name (filter_loop fs e sub) = ssi_name sub"
  "ssi_bundleName (filter_loop fs e sub) = ssi_bundleName sub"
  "ssi_permission (filter_loop fs e sub) = ssi_permission sub"
  by (induction fs) (auto split: option.split)

lemma ParseFilterObject_id [simp]:
  "ssi_userId (ParseFilterObject f e sub) = ssi_userId sub"
  "ssi_name (ParseFilterObject f e sub) = ssi_name sub"
  "ssi_bundleName (ParseFilterObject f e sub) = ssi_bundleName sub"
  "ssi_permission (ParseFilterObject f e sub) = ssi_permission sub"
  by (simp_all add: ParseFilterObject_def)

text \<open>What reading profiles leaves alone, as one predicate, so that each loop has one lemma.\<close>

definition grows :: "'kv static_state \<Rightarrow> 'kv static_state \<Rightarrow> bool" where
  "grows t t' \<longleftrightarrow> (static_ok t \<longrightarrow> static_ok t') \<and> staticSubscribers t' = staticSubscribers t \<and>
     disableEvents t' = disableEvents t \<and> ss_data t' = ss_data t \<and> staticLog t' = staticLog t \<and>
     bootTasks t' = bootTasks t \<and> hasInitValidSubscribers t' = hasInitValidSubscribers t"

lemma grows_refl [simp]: "grows t t"
  by (simp add: grows_def)

lemma grows_trans: "grows t t' \<Longrightarrow> grows t' t'' \<Longrightarrow> grows t t''"
  by (simp add: grows_def)

lemma AddToValidSubscribers_grows:
  assumes "covered (staticSubscribers t) event sub"
  shows "grows t (AddToValidSubscribers event sub t)"
proof -
  have "static_ok (AddToValidSubscribers event sub t)" if ok: "static_ok t"
    using ok static_okD [OF ok, of event] assms
    by (auto simp: static_ok_def AddToValidSubscribers_def omap_ok_put map_of_omap_put listed_once_def
      sorted_wrt_append)
  then show ?thesis by (simp add: grows_def AddToValidSubscribers_def)
qed

lemma events_loop_grows: "grows t (events_loop name bundle user obj es t)"
proof (induction es arbitrary: t)
  case (Cons e es)
  show ?case
    by (auto intro!: grows_trans [OF _ Cons.IH] AddToValidSubscribers_grows
      simp: covered_def at_vec_def split: option.split)
qed simp

lemma objects_loop_grows: "grows t (objects_loop name bundle user objs t)"
proof (induction objs arbitrary: t name)
  case (Cons obj objs)
  show ?case by (auto intro: grows_trans [OF events_loop_grows Cons.IH] simp: Cons.IH)
qed simp

lemma ParseEvents_grows: "grows t (ParseEvents S name bundle user profile t)"
  by (simp add: ParseEvents_def Let_def objects_loop_grows)

lemma profiles_loop_grows: "grows t (profiles_loop E S x ps t)"
proof (induction ps arbitrary: t)
  case (Cons q ps)
  show ?case by (auto simp: split_beta intro: grows_trans [OF ParseEvents_grows Cons.IH])
qed simp

lemma AddSubscriber_grows: "grows t (AddSubscriber E S x t)"
  by (simp add: AddSubscriber_def profiles_loop_grows split: option.split)

lemma extensions_loop_grows: "grows t (extensions_loop E S xs t)"
proof (induction xs arbitrary: t)
  case (Cons x xs)
  show ?case by (auto simp: split_beta Cons.IH intro: grows_trans [OF AddSubscriber_grows Cons.IH])
qed simp

lemma bundle_extensions_loop_grows: "grows t (bundle_extensions_loop E S b user xs t)"
proof (induction xs arbitrary: t b)
  case (Cons x xs)
  show ?case by (auto simp: Cons.IH intro: grows_trans [OF AddSubscriber_grows Cons.IH])
qed simp

lemma AddSubscriberWithBundleName_grows: "grows t (AddSubscriberWithBundleName E S bundle user t)"
  by (simp add: AddSubscriberWithBundleName_def split_beta bundle_extensions_loop_grows)

section \<open>Every operation keeps the invariant\<close>

lemma omap_ok_emplace: "omap_ok m \<Longrightarrow> omap_ok (omap_emplace k v m)"
  by (simp add: omap_emplace_def omap_ok_put)

lemma omap_ok_fold_emplace: "omap_ok m \<Longrightarrow> omap_ok (fold (\<lambda>k. omap_emplace k v) ks m)"
  by (induction ks arbitrary: m) (simp_all add: omap_ok_emplace)

lemma omap_ok_allow_events: "omap_ok m \<Longrightarrow> omap_ok (allow_events key es m)"
  by (induction es arbitrary: m) (simp_all add: omap_ok_put)

lemma omap_ok_allow_apps: "omap_ok m \<Longrightarrow> omap_ok (allow_apps E as m)"
  by (induction as arbitrary: m) (simp_all add: split_beta omap_ok_allow_events)

lemma query_item_omap_ok:
  "omap_ok (qa_disableEvents a) \<Longrightarrow> omap_ok (qa_disableEvents (snd (query_item E K u k v a)))"
  by (simp add: query_item_def Let_def split_beta omap_ok_fold_emplace omap_ok_emplace
    split: option.split)

lemma query_loop_omap_ok:
  "omap_ok (qa_disableEvents a) \<Longrightarrow> omap_ok (qa_disableEvents (query_loop E K u items a))"
proof (induction items arbitrary: a)
  case (Cons x items)
  then show ?case by (cases x) (auto simp: split_beta intro!: Cons.IH query_item_omap_ok)
qed simp

lemma Query_omap_ok:
  "omap_ok m \<Longrightarrow> omap_ok (fst (snd (QueryStaticSubscriberStateData E K m bl d)))"
  by (simp add: QueryStaticSubscriberStateData_def split_beta Let_def query_loop_omap_ok
    split: option.split)

lemma keys_remove_bundle: "fst ` set (remove_bundle b u m) \<subseteq> fst ` set m"
proof (induction m)
  case (Cons x m)
  then show ?case by (cases x) (auto simp: Let_def)
qed simp

lemma sorted_remove_bundle: "omap_ok m \<Longrightarrow> omap_ok (remove_bundle b u m)"
proof (induction m)
  case (Cons x m)
  obtain e subs where x: "x = (e, subs)" by (cases x)
  have "\<forall>k \<in> fst ` set m. e < k" using Cons.prems by (simp add: x)
  then have "\<forall>k \<in> fst ` set (remove_bundle b u m). e < k"
    using keys_remove_bundle [of b u m] by blast
  with Cons show ?case by (simp add: x Let_def)
qed simp

lemma map_of_remove_bundle:
  "umap_ok m \<Longrightarrow> map_of (remove_bundle b u m) event =
     (case map_of m event of
        None \<Rightarrow> None
      | Some subs \<Rightarrow>
          (let subs' = filter (\<lambda>s. \<not> (ssi_bundleName s = b \<and> ssi_userId s = u)) subs
           in if subs' = [] then None else Some subs'))"
proof (induction m)
  case (Cons x m)
  obtain e subs where x: "x = (e, subs)" by (cases x)
  have m: "umap_ok m" using Cons.prems by simp
  show ?case
  proof (cases "event = e")
    case True
    have "map_of m event = None" using Cons.prems True x by (simp add: map_of_eq_None_iff)
    then show ?thesis using Cons.IH [OF m] True by (simp add: x Let_def)
  next
    case False
    then show ?thesis using Cons.IH [OF m] by (simp add: x Let_def)
  qed
qed simp

lemma listed_once_filter: "listed_once subs \<Longrightarrow> listed_once (filter P subs)"
  by (simp add: listed_once_def sorted_wrt_filter)

lemma RemoveSubscriberWithBundleName_ok:
  assumes "static_ok t"
  shows "static_ok (RemoveSubscriberWithBundleName K b u t)"
proof -
  have "map_of (remove_bundle b u (validSubscribers t)) event = Some subs \<Longrightarrow>
      listed_once subs \<and> list_all (covered (staticSubscribers t) event) subs" for event subs
    using assms omap_ok_distinct [of "validSubscribers t"]
    by (auto simp: static_ok_def map_of_remove_bundle Let_def listed_once_filter list_all_iff
      split: option.splits if_splits)
  then show ?thesis
    using assms sorted_remove_bundle [of "validSubscribers t" b u]
    by (auto simp: static_ok_def RemoveSubscriberWithBundleName_def Let_def split_beta omap_ok_delete)
qed

lemma grows_ok: "grows t t' \<Longrightarrow> static_ok t \<Longrightarrow> static_ok t'"
  by (simp add: grows_def)

lemma static_ok_upd [simp]:
  "static_ok (t\<lparr>ss_data := d\<rparr>) = static_ok t"
  "static_ok (t\<lparr>hasInitValidSubscribers := b\<rparr>) = static_ok t"
  "static_ok (t\<lparr>bootTasks := bs\<rparr>) = static_ok t"
  "static_ok (t\<lparr>staticLog := l\<rparr>) = static_ok t"
  by (simp_all add: static_ok_def)

lemma static_ok_disable: "static_ok t \<Longrightarrow> omap_ok m \<Longrightarrow> static_ok (t\<lparr>disableEvents := m\<rparr>)"
  by (simp add: static_ok_def)

lemma static_ok_no_valid:
  "validSubscribers t = [] \<Longrightarrow> omap_ok (staticSubscribers t) \<Longrightarrow> omap_ok (disableEvents t) \<Longrightarrow> static_ok t"
  by (simp add: static_ok_def)

lemma omap_ok_fold_bundles:
  "omap_ok m \<Longrightarrow> omap_ok (fold (\<lambda>key m. case map_of allow key of
      None \<Rightarrow> m | Some events \<Rightarrow> omap_emplace key events m) ks m)"
  by (induction ks arbitrary: m) (auto simp: omap_ok_emplace split: option.split)

lemma InitValidSubscribers_ok:
  assumes ok: "static_ok t"
  shows "static_ok (snd (InitValidSubscribers E S K t))"
proof -
  obtain o1 t1 where i: "InitAllowList E S (t\<lparr>validSubscribers := []\<rparr>) = (o1, t1)" by fastforce
  obtain ret dis bl d where q: "QueryStaticSubscriberStateData E K (disableEvents t1) [] (ss_data t1) =
      (ret, dis, bl, d)"
    by (metis prod_cases4)
  obtain o2 xs where e: "QueryExtensionInfos E S = (o2, xs)" by fastforce
  have t1: "validSubscribers t1 = []" "omap_ok (staticSubscribers t1)" "omap_ok (disableEvents t1)"
    using ok i by (auto simp: InitAllowList_def split_beta static_ok_def omap_ok_allow_apps split: if_splits)
  have dis: "omap_ok dis"
    using Query_omap_ok [OF t1(3), of E K "[]" "ss_data t1"] by (simp add: q)
  let ?t2 = "t1\<lparr>disableEvents := dis, ss_data := d\<rparr>"
  let ?t3 = "extensions_loop E S xs ?t2"
  have t2: "static_ok ?t2" using t1 dis by (simp add: static_ok_no_valid)
  have t3: "static_ok ?t3" by (rule grows_ok [OF extensions_loop_grows t2])
  have "static_ok t1" using t1 by (simp add: static_ok_no_valid)
  with t2 t3 show ?thesis
    by (simp add: InitValidSubscribers_def Let_def i q e split_beta static_ok_disable
      omap_ok_fold_bundles)
qed

lemma UpdateSubscriber_ok: "static_ok t \<Longrightarrow> static_ok (UpdateSubscriber E S K d t)"
  by (auto simp: UpdateSubscriber_def Let_def split_beta RemoveSubscriberWithBundleName_ok
    intro!: grows_ok [OF AddSubscriberWithBundleName_grows] split: option.split)

lemma PublishCommonEventInner_ok:
  "static_ok t \<Longrightarrow> static_ok (PublishCommonEventInner E S d p tok user b t)"
  using PublishCommonEventInner_spec [of E S d p tok user b t] by (simp add: static_ok_def Let_def)

lemma PublishCommonEvent_static_ok:
  "static_ok t \<Longrightarrow> static_ok (PublishCommonEvent_static E S K d p tok user b t)"
  using InitValidSubscribers_ok [of t E S K]
  by (simp add: PublishCommonEvent_static_def Let_def split_beta PublishCommonEventInner_ok
    UpdateSubscriber_ok)

lemma connect_all_frame:
  "static_ok (foldl (\<lambda>t sub. PublishCommonEventConnecAbility d (ssi_userId sub) (ssi_bundleName sub)
     (ssi_name sub) t) t subs) = static_ok t"
  "disableEvents (foldl (\<lambda>t sub. PublishCommonEventConnecAbility d (ssi_userId sub)
     (ssi_bundleName sub) (ssi_name sub) t) t subs) = disableEvents t"
  by (induction subs arbitrary: t) (simp_all add: PublishCommonEventConnecAbility_def log_static_def)

lemma run_boot_task_frame:
  "static_ok (run_boot_task t) = static_ok t" "disableEvents (run_boot_task t) = disableEvents t"
  by (simp_all add: run_boot_task_def connect_all_frame split: list.split prod.split)

lemma UpdateDisableEvents_ok:
  "static_ok t \<Longrightarrow> static_ok (snd (UpdateDisableEvents E K b events enable u t))"
  by (auto simp: UpdateDisableEvents_def Let_def split_beta static_ok_def omap_ok_emplace omap_ok_put
    omap_ok_delete split: option.split)

section \<open>Steps\<close>

definition static_init :: "'kv data_state \<Rightarrow> 'kv static_state" where
  "static_init d = \<lparr>validSubscribers = [], staticSubscribers = [], disableEvents = [],
     hasInitAllowList = False, hasInitValidSubscribers = False, bootTasks = [], ss_data = d,
     staticLog = []\<rparr>"

text \<open>The environments may change from step to step.\<close>

inductive static_step :: "'kv static_state \<Rightarrow> 'kv static_state \<Rightarrow> bool" where
  publish: "static_step t (PublishCommonEvent_static E S K d p tok user b t)"
| boot: "static_step t (run_boot_task t)"
| set_all: "static_step t (snd (SetStaticSubscriberState E S K u enable t))"
| set_events: "static_step t (snd (SetStaticSubscriberState_events E S K u events enable t))"

inductive static_reachable :: "'kv static_state \<Rightarrow> bool" where
  start: "static_reachable (static_init d)"
| step: "static_reachable t \<Longrightarrow> static_step t t' \<Longrightarrow> static_reachable t'"

inductive_cases static_stepE: "static_step t t'"

lemma static_step_ok: "static_step t t' \<Longrightarrow> static_ok t \<Longrightarrow> static_ok t'"
  by (erule static_stepE) (auto simp: PublishCommonEvent_static_ok run_boot_task_frame
    SetStaticSubscriberState_def SetStaticSubscriberState_events_def split_beta
    UpdateDisableEvents_ok Let_def split: option.split)

lemma static_reachable_ok: "static_reachable t \<Longrightarrow> static_ok t"
  by (induction rule: static_reachable.induct) (auto simp: static_init_def static_ok_def
    dest: static_step_ok)

end
