(* ===== verification/Static_Store.thy ===== *)
theory Static_Store
  imports Static_Invariant
begin

text \<open>
  What \<open>StaticSubscriberDataManager\<close> does on a key-value store that behaves as documented
  (\<open>kv_lawful\<close>: every operation succeeds and acts on a map \<open>c db\<close>) with a JSON library that
  reads back the arrays of strings it writes (\<open>js_lawful\<close>): closed forms of \<open>Query\<close> and
  \<open>Update\<close> for a store in the current key format (\<open>settled\<close>).
\<close>

definition kv_lawful :: "'kv kv_ops \<Rightarrow> ('kv \<Rightarrow> string \<Rightarrow> string option) \<Rightarrow> bool" where
  "kv_lawful K c \<longleftrightarrow> (\<forall>db.
     fst (kv_open K db) \<and> fst (snd (kv_open K db)) \<and> c (snd (snd (kv_open K db))) = c db \<and>
     c (kv_close K db) = c db \<and>
     (\<exists>es. kv_entries K db = Some es \<and> distinct (map fst es) \<and> map_of es = c db) \<and>
     (\<forall>k. kv_get K k db = c db k) \<and>
     (\<forall>k v. fst (kv_put K k v db) \<and> c (snd (kv_put K k v db)) = (c db)(k \<mapsto> v)) \<and>
     (\<forall>k. fst (kv_delete K k db) \<and> c (snd (kv_delete K k db)) = (c db)(k := None)) \<and>
     (\<forall>m. fst (kv_put_batch K m db) \<and> c (snd (kv_put_batch K m db)) = c db ++ map_of m) \<and>
     (\<forall>ks. fst (kv_delete_batch K ks db) \<and> c (snd (kv_delete_batch K ks db)) = c db |` (- set ks)))"

definition js_lawful :: "'kv kv_ops \<Rightarrow> bool" where
  "js_lawful K \<longleftrightarrow> (\<forall>xs.
     js_parse K (js_dump K (JArray (map JString xs))) = JArray (map JString xs) \<and>
     js_dump K (JArray (map JString xs)) \<noteq> STATIC_SUBSCRIBER_VALUE_DEFAULT)"

definition readable :: "'kv kv_ops \<Rightarrow> string \<Rightarrow> string \<Rightarrow> bool" where
  "readable K k v \<longleftrightarrow> k = IS_UPDATED_KEY \<or> v = STATIC_SUBSCRIBER_VALUE_DEFAULT \<or>
     ConvertValueToEvents K v \<noteq> None"

definition settled :: "(string \<Rightarrow> string option) \<Rightarrow> bool" where
  "settled m \<longleftrightarrow> m = Map.empty \<or> m IS_UPDATED_KEY = Some KEY_IS_ALREADY_UPDATED"

definition disabled_at :: "'kv kv_ops \<Rightarrow> (string \<Rightarrow> string option) \<Rightarrow> string \<Rightarrow> string list option" where
  "disabled_at K m k = (case m k of None \<Rightarrow> None
     | Some v \<Rightarrow> if k = IS_UPDATED_KEY \<or> v = STATIC_SUBSCRIBER_VALUE_DEFAULT then None
                 else ConvertValueToEvents K v)"

section \<open>Values\<close>

lemma Convert_back:
  "js_lawful K \<Longrightarrow> ConvertValueToEvents K (ConvertEventsToValue K es) =
     (if es = [] then None else Some es)"
  by (simp add: ConvertValueToEvents_def ConvertEventsToValue_def js_lawful_def Let_def comp_def
    filter_map)

lemma Convert_not_default:
  "js_lawful K \<Longrightarrow> ConvertEventsToValue K es \<noteq> STATIC_SUBSCRIBER_VALUE_DEFAULT"
  by (simp add: ConvertEventsToValue_def js_lawful_def)

section \<open>The store\<close>

lemma CheckKvStore_lawful:
  assumes "kv_lawful K c"
  obtains d1 where "CheckKvStore K d = (True, d1)" "kvOpen d1" "c (kvDb d1) = c (kvDb d)"
proof (cases "kvOpen d")
  case True
  then show ?thesis using that [of d] by (simp add: CheckKvStore_def)
next
  case False
  have "fst (kv_open K (kvDb d))" "fst (snd (kv_open K (kvDb d)))"
    "c (snd (snd (kv_open K (kvDb d)))) = c (kvDb d)"
    using assms by (auto simp: kv_lawful_def)
  then show ?thesis
    using that [of "\<lparr>kvOpen = True, kvDb = snd (snd (kv_open K (kvDb d)))\<rparr>"] False
    by (simp add: CheckKvStore_def MAX_TIMES_def eval_nat_numeral GetKvStore_def split_beta)
qed

lemma delete_keys_lawful:
  assumes K: "kv_lawful K c"
  shows "fst (delete_keys K ks db) \<and> c (snd (delete_keys K ks db)) = c db |` (- set ks)"
proof (induction ks arbitrary: db)
  case (Cons k ks)
  have "fst (kv_delete K k db)" "c (snd (kv_delete K k db)) = (c db)(k := None)"
    using K by (auto simp: kv_lawful_def)
  with Cons.IH show ?case
    by (auto simp: split_beta restrict_map_def fun_eq_iff)
qed (simp add: restrict_map_def)

lemma put_events_lawful:
  assumes K: "kv_lawful K c"
  shows "umap_ok m \<Longrightarrow> fst (put_events K m db) \<and>
    c (snd (put_events K m db)) k =
      (case map_of m k of None \<Rightarrow> c db k | Some es \<Rightarrow> Some (ConvertEventsToValue K es))"
proof (induction m arbitrary: db)
  case (Cons x m)
  obtain e es where x: "x = (e, es)" by (cases x)
  have "fst (kv_put K e (ConvertEventsToValue K es) db)"
    "c (snd (kv_put K e (ConvertEventsToValue K es) db)) = (c db)(e \<mapsto> ConvertEventsToValue K es)"
    using K by (auto simp: kv_lawful_def)
  moreover have "umap_ok m" "map_of m e = None"
    using Cons.prems x by (auto simp: map_of_eq_None_iff)
  ultimately show ?case
    using Cons.IH [of "snd (kv_put K e (ConvertEventsToValue K es) db)"]
    by (auto simp: x split_beta split: option.splits)
qed simp

section \<open>Query\<close>

lemma query_item_updated:
  "query_item E K True k v a =
     (if k = IS_UPDATED_KEY then (False, a)
      else if v = STATIC_SUBSCRIBER_VALUE_DEFAULT
        then (False, a\<lparr>qa_result := ERR_OK, qa_bundleList := set_emplace k (qa_bundleList a)\<rparr>)
      else (case ConvertValueToEvents K v of
              None \<Rightarrow> (True, a\<lparr>qa_result := ERR_INVALID_OPERATION\<rparr>)
            | Some values \<Rightarrow> (False, a\<lparr>qa_result := ERR_OK,
                qa_disableEvents := omap_emplace k values (qa_disableEvents a)\<rparr>)))"
  by (simp add: query_item_def Let_def split: option.split)

lemma map_of_emplace:
  "map_of (omap_emplace k v m) k' = (if k' = k \<and> map_of m k = None then Some v else map_of m k')"
  by (simp add: omap_emplace_def map_of_omap_put)

lemma query_loop_updated:
  "\<lbrakk>distinct (map fst items); \<forall>(k, v) \<in> set items. readable K k v; qa_result a = ERR_OK\<rbrakk> \<Longrightarrow>
   qa_result (query_loop E K True items a) = ERR_OK \<and>
   map_of (qa_disableEvents (query_loop E K True items a)) k =
     (case map_of (qa_disableEvents a) k of None \<Rightarrow> disabled_at K (map_of items) k | Some es \<Rightarrow> Some es)"
proof (induction items arbitrary: a)
  case Nil
  then show ?case by (simp add: disabled_at_def split: option.split)
next
  case (Cons x items)
  obtain e v where x: "x = (e, v)" by (cases x)
  have d: "distinct (map fst items)" "\<forall>(k, v) \<in> set items. readable K k v" "map_of items e = None"
    using Cons.prems by (auto simp: x map_of_eq_None_iff)
  have r: "readable K e v" using Cons.prems by (simp add: x)
  note IH = Cons.IH [OF d(1,2)]
  consider "e = IS_UPDATED_KEY" | "e \<noteq> IS_UPDATED_KEY" "v = STATIC_SUBSCRIBER_VALUE_DEFAULT"
    | es where "e \<noteq> IS_UPDATED_KEY" "v \<noteq> STATIC_SUBSCRIBER_VALUE_DEFAULT" "ConvertValueToEvents K v = Some es"
    using r by (auto simp: readable_def)
  then show ?case
    by cases (use Cons.prems d(3) in \<open>auto simp: x query_item_updated IH map_of_emplace disabled_at_def
      split: option.splits\<close>)
qed

lemma query_loop_migrates_nothing:
  "qa_removeOldkeys (query_loop E K True items a) = qa_removeOldkeys a \<and>
   qa_migrateValues (query_loop E K True items a) = qa_migrateValues a"
proof (induction items arbitrary: a)
  case (Cons x items)
  then show ?case by (cases x) (auto simp: query_item_updated split: option.split)
qed simp

lemma query_loop_unreadable:
  "\<lbrakk>(k, v) \<in> set items; \<not> readable K k v\<rbrakk> \<Longrightarrow>
   qa_result (query_loop E K True items a) = ERR_INVALID_OPERATION"
proof (induction items arbitrary: a)
  case (Cons x items)
  then show ?case
    by (cases x) (auto simp: query_item_updated readable_def split: option.split)
qed simp

text \<open>The shape of a query on a lawful, settled store: what it returns depends on the loop over
  the entries alone, and the store keeps its contents.\<close>

lemma Query_settled:
  assumes K: "kv_lawful K c" and s: "settled (c (kvDb d))"
  obtains items a d' where "distinct (map fst items)" "map_of items = c (kvDb d)"
    "a = query_loop E K True items \<lparr>qa_result = ERR_OK, qa_removeOldkeys = [], qa_migrateValues = [],
       qa_bundleList = bl, qa_disableEvents = m\<rparr>"
    "QueryStaticSubscriberStateData E K m bl d = (qa_result a, qa_disableEvents a, qa_bundleList a, d')"
    "c (kvDb d') = c (kvDb d)"
proof -
  obtain d1 where d1: "CheckKvStore K d = (True, d1)" "kvOpen d1" "c (kvDb d1) = c (kvDb d)"
    by (rule CheckKvStore_lawful [OF K])
  obtain items where items: "kv_entries K (kvDb d1) = Some items" "distinct (map fst items)"
    "map_of items = c (kvDb d)"
    using K d1(3) unfolding kv_lawful_def by metis
  have close: "c (kvDb (CloseKvStore K x)) = c (kvDb x)" for x
    using K by (simp add: CloseKvStore_def kv_lawful_def)
  show ?thesis
  proof (cases "items = []")
    case True
    show ?thesis
      by (rule that [of items "\<lparr>qa_result = ERR_OK, qa_removeOldkeys = [], qa_migrateValues = [],
          qa_bundleList = bl, qa_disableEvents = m\<rparr>" "CloseKvStore K d1"])
        (use True items d1 close in \<open>simp_all add: QueryStaticSubscriberStateData_def\<close>)
  next
    case False
    then have "c (kvDb d) IS_UPDATED_KEY = Some KEY_IS_ALREADY_UPDATED"
      using s items(3) by (auto simp: settled_def)
    then have get: "kv_get K IS_UPDATED_KEY (kvDb d1) = Some KEY_IS_ALREADY_UPDATED"
      and same: "(c (kvDb d))(IS_UPDATED_KEY \<mapsto> KEY_IS_ALREADY_UPDATED) = c (kvDb d)"
      using K d1(3) by (auto simp: kv_lawful_def fun_upd_idem)
    have "c (snd (kv_delete_batch K [] db)) = c db" "c (snd (kv_put_batch K [] db)) = c db"
      "c (snd (kv_put K k v db)) = (c db)(k \<mapsto> v)" for db k v
      using K by (simp_all add: kv_lawful_def restrict_map_def)
    then have upd: "c (kvDb (UpdateDistributedKv K [] [] d1)) = c (kvDb d)"
      using d1 same by (simp add: UpdateDistributedKv_def Let_def)
    let ?a = "query_loop E K True items \<lparr>qa_result = ERR_OK, qa_removeOldkeys = [],
      qa_migrateValues = [], qa_bundleList = bl, qa_disableEvents = m\<rparr>"
    show ?thesis
      by (rule that [of items ?a "CloseKvStore K (UpdateDistributedKv K [] [] d1)"])
        (use False items d1 get upd close in \<open>simp_all add: QueryStaticSubscriberStateData_def
          query_loop_migrates_nothing Let_def\<close>)
  qed
qed

lemma Query_readable:
  assumes K: "kv_lawful K c" and s: "settled (c (kvDb d))"
    and r: "\<And>k v. c (kvDb d) k = Some v \<Longrightarrow> readable K k v"
  obtains m' bl' d' where "QueryStaticSubscriberStateData E K m bl d = (ERR_OK, m', bl', d')"
    "c (kvDb d') = c (kvDb d)"
    "map_of m' = (\<lambda>k. case map_of m k of None \<Rightarrow> disabled_at K (c (kvDb d)) k | Some es \<Rightarrow> Some es)"
proof -
  obtain items a d' where i: "distinct (map fst items)" "map_of items = c (kvDb d)"
    "a = query_loop E K True items \<lparr>qa_result = ERR_OK, qa_removeOldkeys = [], qa_migrateValues = [],
       qa_bundleList = bl, qa_disableEvents = m\<rparr>"
    "QueryStaticSubscriberStateData E K m bl d = (qa_result a, qa_disableEvents a, qa_bundleList a, d')"
    "c (kvDb d') = c (kvDb d)"
    by (rule Query_settled [OF K s])
  have "\<forall>(k, v) \<in> set items. readable K k v"
    using r i(1,2) by (auto simp flip: map_of_eq_Some_iff)
  note q = query_loop_updated [OF i(1) this, of "\<lparr>qa_result = ERR_OK, qa_removeOldkeys = [],
    qa_migrateValues = [], qa_bundleList = bl, qa_disableEvents = m\<rparr>" E]
  show ?thesis
  proof (rule that [of "qa_disableEvents a" "qa_bundleList a" d'])
    show "map_of (qa_disableEvents a) =
      (\<lambda>k. case map_of m k of None \<Rightarrow> disabled_at K (c (kvDb d)) k | Some es \<Rightarrow> Some es)"
      unfolding i(3) i(2) [symmetric] using q by (intro ext) simp
    show "QueryStaticSubscriberStateData E K m bl d = (ERR_OK, qa_disableEvents a, qa_bundleList a, d')"
      using q i(3,4) by simp
  qed (rule i(5))
qed

lemma Query_unreadable:
  assumes K: "kv_lawful K c" and s: "settled (c (kvDb d))"
    and k: "c (kvDb d) k = Some v" "\<not> readable K k v"
  obtains m' bl' d' where
    "QueryStaticSubscriberStateData E K m bl d = (ERR_INVALID_OPERATION, m', bl', d')"
    "c (kvDb d') = c (kvDb d)"
proof -
  obtain items a d' where i: "distinct (map fst items)" "map_of items = c (kvDb d)"
    "a = query_loop E K True items \<lparr>qa_result = ERR_OK, qa_removeOldkeys = [], qa_migrateValues = [],
       qa_bundleList = bl, qa_disableEvents = m\<rparr>"
    "QueryStaticSubscriberStateData E K m bl d = (qa_result a, qa_disableEvents a, qa_bundleList a, d')"
    "c (kvDb d') = c (kvDb d)"
    by (rule Query_settled [OF K s])
  have "(k, v) \<in> set items" using k(1) i(2) by (metis map_of_SomeD)
  then have "qa_result a = ERR_INVALID_OPERATION"
    unfolding i(3) by (rule query_loop_unreadable [OF _ k(2)])
  with i show ?thesis by (intro that [of "qa_disableEvents a" "qa_bundleList a" d']) auto
qed

section \<open>Update\<close>

lemma Update_readable:
  assumes K: "kv_lawful K c" and s: "settled (c (kvDb d))"
    and r: "\<And>k v. c (kvDb d) k = Some v \<Longrightarrow> readable K k v" and m: "umap_ok m"
  obtains d' where "UpdateStaticSubscriberState E K m d = (ERR_OK, d')"
    "\<forall>k. c (kvDb d') k = (case map_of m k of
       Some es \<Rightarrow> Some (ConvertEventsToValue K es)
     | None \<Rightarrow> if k = IS_UPDATED_KEY then Some KEY_IS_ALREADY_UPDATED
         else if disabled_at K (c (kvDb d)) k \<noteq> None then None else c (kvDb d) k)"
proof -
  obtain m1 bl1 d1 where q: "QueryStaticSubscriberStateData E K [] [] d = (ERR_OK, m1, bl1, d1)"
    "c (kvDb d1) = c (kvDb d)" "map_of m1 = disabled_at K (c (kvDb d))"
    using Query_readable [where m = "[]" and bl = "[]" and E = E, OF K s r] by auto
  obtain d2 where d2: "CheckKvStore K d1 = (True, d2)" "kvOpen d2" "c (kvDb d2) = c (kvDb d1)"
    by (rule CheckKvStore_lawful [OF K])
  let ?db1 = "snd (kv_put K IS_UPDATED_KEY KEY_IS_ALREADY_UPDATED (kvDb d2))"
  let ?db2 = "snd (delete_keys K (map fst m1) ?db1)"
  let ?db3 = "snd (put_events K m ?db2)"
  have c1: "c ?db1 = (c (kvDb d))(IS_UPDATED_KEY \<mapsto> KEY_IS_ALREADY_UPDATED)"
    using K d2 q by (simp add: kv_lawful_def)
  have dom: "k \<in> set (map fst m1) \<longleftrightarrow> disabled_at K (c (kvDb d)) k \<noteq> None" for k
    by (simp add: q(3) [symmetric] map_of_eq_None_iff)
  have up: "disabled_at K (c (kvDb d)) IS_UPDATED_KEY = None"
    by (simp add: disabled_at_def split: option.split)
  have "UpdateStaticSubscriberState E K m d = (ERR_OK, CloseKvStore K (d2\<lparr>kvDb := ?db3\<rparr>))"
    using q d2 delete_keys_lawful [OF K, of "map fst m1" ?db1] put_events_lawful [OF K m, of ?db2]
    by (simp add: UpdateStaticSubscriberState_def split_beta Let_def)
  moreover have "c (kvDb (CloseKvStore K (d2\<lparr>kvDb := ?db3\<rparr>))) = c ?db3"
    using K by (simp add: CloseKvStore_def kv_lawful_def)
  moreover have "c ?db3 k = (case map_of m k of
       Some es \<Rightarrow> Some (ConvertEventsToValue K es)
     | None \<Rightarrow> if k = IS_UPDATED_KEY then Some KEY_IS_ALREADY_UPDATED
         else if disabled_at K (c (kvDb d)) k \<noteq> None then None else c (kvDb d) k)" for k
  proof -
    have "c ?db3 k = (case map_of m k of None \<Rightarrow> c ?db2 k | Some es \<Rightarrow> Some (ConvertEventsToValue K es))"
      using put_events_lawful [OF K m] by blast
    moreover have "c ?db2 k = (if k \<in> set (map fst m1) then None else c ?db1 k)"
      using delete_keys_lawful [OF K, of "map fst m1" ?db1] by (simp add: restrict_map_def)
    ultimately show ?thesis
      by (cases "k = IS_UPDATED_KEY") (simp_all only: dom c1 up fun_upd_apply if_False simp_thms split: option.split)
  qed
  ultimately show ?thesis by (intro that) auto
qed

lemma Update_unreadable:
  assumes "kv_lawful K c" "settled (c (kvDb d))" "c (kvDb d) k = Some v" "\<not> readable K k v"
  shows "fst (UpdateStaticSubscriberState E K m d) = ERR_INVALID_OPERATION \<and>
    c (kvDb (snd (UpdateStaticSubscriberState E K m d))) = c (kvDb d)"
  by (rule Query_unreadable [OF assms, of E "[]" "[]"]) (simp add: UpdateStaticSubscriberState_def)

text \<open>After an update every value is readable again if every list written has an event, and
  the store is settled.\<close>

lemma settled_after:
  "c (kvDb d') IS_UPDATED_KEY = Some KEY_IS_ALREADY_UPDATED \<Longrightarrow> settled (c (kvDb d'))"
  by (simp add: settled_def)

end
