(* ===== verification/Static_Props.thy ===== *)
theory Static_Props
  imports Static_Store
begin

text \<open>
  The properties of the static subscriber manager and of its persistent data, with instances on a
  store that is an association list (\<open>ex_kv\<close>) and one installed extension (\<open>ex_senv\<close>).
\<close>

section \<open>Concrete values\<close>

fun ex_decode :: "string \<Rightarrow> string \<Rightarrow> json list" where
  "ex_decode [] s = []"
| "ex_decode [x] s = (if x = CHR ''e'' then [JString s] else [])"
| "ex_decode (x # y # r) s =
     (if x = CHR ''e'' then JString s # ex_decode (y # r) [] else ex_decode r (s @ [y]))"

definition ex_encode :: "string \<Rightarrow> string" where
  "ex_encode s = concat (map (\<lambda>c. [CHR ''c'', c]) s) @ ''e''"

lemma ex_decode_encode: "ex_decode (ex_encode s @ r) a = JString (a @ s) # ex_decode r []"
proof (induction s arbitrary: a)
  case Nil
  then show ?case by (cases r) (simp_all add: ex_encode_def)
next
  case (Cons x s)
  then show ?case by (simp add: ex_encode_def)
qed

lemma ex_decode_all: "ex_decode (concat (map ex_encode xs)) [] = map JString xs"
  by (induction xs) (simp_all add: ex_decode_encode)

definition ex_kv :: "(string \<times> string) list kv_ops" where
  "ex_kv = \<lparr>kv_open = \<lambda>db. (True, True, db), kv_close = \<lambda>db. db,
     kv_entries = \<lambda>db. Some (AList.clearjunk db), kv_get = \<lambda>k db. map_of db k,
     kv_put = \<lambda>k v db. (True, AList.update k v db), kv_delete = \<lambda>k db. (True, AList.delete k db),
     kv_put_batch = \<lambda>m db. (True, m @ db), kv_delete_batch = \<lambda>ks db. (True, AList.restrict (- set ks) db),
     js_parse = \<lambda>s. JArray (ex_decode (tl s) []),
     js_dump = \<lambda>j. CHR ''['' # concat (map (\<lambda>e. ex_encode (get_string e)) (json_elems j))\<rparr>"

lemma ex_kv_lawful: "kv_lawful ex_kv map_of"
  by (auto simp: kv_lawful_def ex_kv_def distinct_clearjunk map_of_clearjunk update_conv' delete_conv'
    restr_conv')

lemma ex_kv_js: "js_lawful ex_kv"
  by (simp add: js_lawful_def ex_kv_def STATIC_SUBSCRIBER_VALUE_DEFAULT_def ex_decode_all comp_def)

section \<open>Delivery\<close>

text \<open>C39: Publishing an event starts exactly the extensions listed for it that have not disabled
  it, belong to user 0 to 99 or to the user the event is for (or it is for all users), meet the
  restrictions of the publication, whose required permission the publisher holds and whose filter
  accepts code, data and parameters; each once and in the order of the list.  With the delayed
  boot event they become one delayed task instead.  Nothing else of the state changes but the log.\<close>

theorem static_delivery_exact:
  "let t' = PublishCommonEventInner E S d p tok user pub t;
       targets = filter (static_eligible E S d p tok user (disableEvents t))
         (at_vec (validSubscribers t) (w_action (cd_want d)));
       late = watch_boot_delay S \<and> w_action (cd_want d) = COMMON_EVENT_BOOT_COMPLETED in
   filter is_connect (staticLog t') = filter is_connect (staticLog t) @
     (if late then [] else
        map (\<lambda>s. ConnectAbility (ssi_bundleName s) (ssi_name s) d (ssi_userId s)) targets) \<and>
   bootTasks t' = bootTasks t @ (if late \<and> targets \<noteq> [] then [(targets, d)] else []) \<and>
   disableEvents t' = disableEvents t \<and> validSubscribers t' = validSubscribers t \<and>
   staticSubscribers t' = staticSubscribers t"
  using PublishCommonEventInner_spec [of E S d p tok user pub t]
  by (simp add: Let_def connects_def delayed_def connect_of_def [abs_def])

text \<open>What the restrictions of a publication mean for an extension.  Under the AND rule every
  restriction that is named has to hold, and a maximum version can never hold because the routine
  does not compute its bit; under the OR rule no restriction is named or one of them holds.\<close>

theorem static_restrictions:
  "CheckSubscriberWhetherMatched_static E sub p \<longleftrightarrow>
     (if pi_rule p = RuleAND
      then (pi_bundleName p = [] \<or> pi_bundleName p = ssi_bundleName sub) \<and>
        (pi_subscriberPermissions p = [] \<or> VerifySubscriberPermission E (ssi_bundleName sub)
           (ssi_userId sub) (pi_subscriberPermissions p)) \<and>
        (pi_subscriberType p = UNINITIALIZATED_SUBSCRIBER_TYPE \<or> static_sat_type E p sub) \<and>
        (pi_subscriberUids p = [] \<or> GetDefaultUidByBundleName E (ssi_bundleName sub) (ssi_userId sub)
           \<in> set (pi_subscriberUids p)) \<and>
        pi_maximumVersion p = DEFAULT_VERSION
      else GetFilterSettings p = 0 \<or> static_sat_bundle p sub \<or> static_sat_perm E p sub \<or>
        static_sat_type E p sub \<or> static_sat_uids E p sub)"
proof (cases "pi_rule p")
  case RuleAND
  then show ?thesis using static_filter.matched_and [of p E sub] by auto
next
  case RuleOR
  then show ?thesis using static_filter.matched_or [of p E sub] by auto
qed

section \<open>The listing\<close>

definition ex_tenv :: env where
  "ex_tenv = \<lparr>kit_token_type = \<lambda>_. TOKEN_HAP, kit_verify = \<lambda>_ _. PERMISSION_GRANTED,
     kit_dlp_type = \<lambda>_. DLP_COMMON, kit_process_name = \<lambda>_. [], kit_hap_token = \<lambda>_ _ _. 0,
     kit_full_token_system = \<lambda>_. True, bm_proxy = \<lambda>_. True, bm_name_for_uid = \<lambda>_. ''b'',
     bm_system_app = \<lambda>_. True, bm_target_version = \<lambda>_. None, bm_uid_of_bundle = \<lambda>_ _. 7,
     os_local_id = \<lambda>_. Some 100, os_account_exists = \<lambda>_. True, os_active_ids = Some [100],
     sys_check_sa_permission = False, sys_subscriber_limit = 1, ipc_is_receiver = \<lambda>_. True,
     ipc_notify = \<lambda>_ _ _ _. ERR_OK\<rparr>"

definition ex_profile :: json where
  "ex_profile = JObject [(''commonEvents'', JArray [JObject [(''name'', JString ''x''),
     (''permission'', JString []), (''events'', JArray [JString ''ev.A'', JString ''ev.B''])]])]"

definition ex_senv :: senv where
  "ex_senv = \<lparr>os_foreground_ids = Some [100], os_local_id_error = \<lambda>_. 1,
     bm_application_infos = \<lambda>_. Some [\<lparr>allowCommonEvent = [''ev.A''], app_bundleName = ''b'',
       app_uid = 7\<rparr>],
     bm_extension_infos = \<lambda>_. (True, [\<lparr>ext_name = ''x'', ext_bundleName = ''b'', ext_uid = 7\<rparr>]),
     bm_res_config = \<lambda>_. Some [''profile''], bm_uid_param = ''uid'', js_accept = \<lambda>_. True,
     js_profile = \<lambda>_. ex_profile, double_eq = (=), watch_boot_delay = False\<rparr>"

definition ex_tdata :: CommonEventData where
  "ex_tdata = \<lparr>cd_want = \<lparr>w_action = ''ev.A'', w_entities = [], w_scheme = [], w_bundle = [],
     w_ability = [], w_params = [], w_uri = [], w_flags = 0, w_type = []\<rparr>, cd_code = 0, cd_data = []\<rparr>"

definition ex_tpub :: CommonEventPublishInfo where
  "ex_tpub = \<lparr>pi_sticky = False, pi_ordered = False, pi_bundleName = [],
     pi_subscriberPermissions = [], pi_subscriberUids = [], pi_subscriberType = -1,
     pi_rule = RuleAND, pi_maximumVersion = -1\<rparr>"

definition ex_static :: "(string \<times> string) list static_state" where
  "ex_static = PublishCommonEvent_static ex_tenv ex_senv ex_kv ex_tdata ex_tpub 9 100 ''p''
     (static_init \<lparr>kvOpen = False, kvDb = []\<rparr>)"

definition ex_sinfo :: StaticSubscriberInfo where
  "ex_sinfo = \<lparr>ssi_userId = 100, ssi_name = ''x'', ssi_bundleName = ''b'', ssi_permission = [],
     filterCode = None, filterData = None, filterParameters = []\<rparr>"

lemma ex_static_value:
  "ex_static = \<lparr>validSubscribers = [(''ev.A'', [ex_sinfo])],
     staticSubscribers = [(''100_b'', [''ev.A''])], disableEvents = [], hasInitAllowList = True,
     hasInitValidSubscribers = True, bootTasks = [], ss_data = \<lparr>kvOpen = False, kvDb = []\<rparr>,
     staticLog = [ConnectAbility ''b'' ''x'' ex_tdata 100]\<rparr>"
  by code_simp

lemma ex_static_reachable: "static_reachable ex_static"
  unfolding ex_static_def by (rule static_reachable.step [OF static_reachable.start static_step.publish])

text \<open>However the manager is used, an extension is only ever listed for an event that the
  installer has allowed for its bundle and user, no list names the same extension, bundle and user
  twice, and no list is kept twice for an event.\<close>

theorem static_listing_allowed:
  assumes "static_reachable t"
  shows "distinct (map fst (validSubscribers t)) \<and>
    distinct (map (\<lambda>s. (ssi_name s, ssi_bundleName s, ssi_userId s))
      (at_vec (validSubscribers t) event)) \<and>
    (\<forall>s \<in> set (at_vec (validSubscribers t) event).
      event \<in> set (at_vec (staticSubscribers t) (bundle_key (ssi_userId s) (ssi_bundleName s))))"
proof (intro conjI)
  have ok: "static_ok t" by (rule static_reachable_ok [OF assms])
  then show "distinct (map fst (validSubscribers t))"
    by (simp add: static_ok_def omap_ok_distinct)
  have "listed_once subs \<Longrightarrow>
      distinct (map (\<lambda>s. (ssi_name s, ssi_bundleName s, ssi_userId s)) subs)" for subs
    by (induction subs) (auto simp: listed_once_def same_subscriber_def)
  with static_okD [OF ok] show "distinct (map (\<lambda>s. (ssi_name s, ssi_bundleName s, ssi_userId s))
      (at_vec (validSubscribers t) event))" by blast
  show "\<forall>s \<in> set (at_vec (validSubscribers t) event).
      event \<in> set (at_vec (staticSubscribers t) (bundle_key (ssi_userId s) (ssi_bundleName s)))"
    using static_okD [OF ok, of event] by (simp add: list_all_iff covered_def)
qed

lemma static_listing_allowed_instance:
  "set (at_vec (validSubscribers ex_static) ''ev.A'') \<noteq> {} \<and>
    distinct (map (\<lambda>s. (ssi_name s, ssi_bundleName s, ssi_userId s))
      (at_vec (validSubscribers ex_static) ''ev.A''))"
  using static_listing_allowed [OF ex_static_reachable, of "''ev.A''"]
  by (simp add: ex_static_value at_vec_def)

text \<open>When a bundle is removed, no event lists an extension of that bundle and user any more,
  the other extensions stay listed in their order, the bundle has no disabled events left, and
  those of other bundles and users stay disabled.\<close>

theorem removed_bundle_is_gone:
  assumes "static_reachable t"
  shows "at_vec (validSubscribers (RemoveSubscriberWithBundleName K b u t)) event =
      filter (\<lambda>s. \<not> (ssi_bundleName s = b \<and> ssi_userId s = u)) (at_vec (validSubscribers t) event) \<and>
    (IsDisableEvent b' e u' (RemoveSubscriberWithBundleName K b u t) \<longleftrightarrow>
      IsDisableEvent b' e u' t \<and> (b', u') \<noteq> (b, u))"
proof (intro conjI)
  have "umap_ok (validSubscribers t)"
    using static_reachable_ok [OF assms] by (simp add: static_ok_def omap_ok_distinct)
  then show "at_vec (validSubscribers (RemoveSubscriberWithBundleName K b u t)) event =
      filter (\<lambda>s. \<not> (ssi_bundleName s = b \<and> ssi_userId s = u)) (at_vec (validSubscribers t) event)"
    by (simp add: RemoveSubscriberWithBundleName_def Let_def split_beta at_vec_def map_of_remove_bundle
      split: option.split)
  show "IsDisableEvent b' e u' (RemoveSubscriberWithBundleName K b u t) \<longleftrightarrow>
      IsDisableEvent b' e u' t \<and> (b', u') \<noteq> (b, u)"
    by (auto simp: RemoveSubscriberWithBundleName_def Let_def split_beta IsDisableEvent_def
      delete_conv' split: option.split)
qed

lemma removed_bundle_is_gone_instance:
  "at_vec (validSubscribers (RemoveSubscriberWithBundleName ex_kv ''b'' 100 ex_static)) ''ev.A'' = []"
  using removed_bundle_is_gone [OF ex_static_reachable, of ex_kv "''b''" 100 "''ev.A''" "''b''" "''ev.A''" 100]
  by (simp add: ex_static_value at_vec_def ex_sinfo_def)

section \<open>Disabled events\<close>

lemma count_update_events:
  "count_list (update_events True es cur) e = count_list cur e - count_list es e"
proof (induction es arbitrary: cur)
  case (Cons x es)
  have "count_list (remove1 x cur) e = count_list cur e - (if x = e then 1 else 0)" for cur
    by (induction cur) auto
  with Cons show ?case by (auto simp: count_notin)
qed simp

lemma set_update_events: "set (update_events False es cur) = set cur \<union> set es"
  by (induction es arbitrary: cur) auto

text \<open>Switching events off or on for a bundle of a user changes nothing for other bundles and
  users.  Switching off disables just the named events in addition.  Switching on removes one
  entry for each time an event is named, so that an event is enabled afterwards if and only if it is
  named at least as often as it is listed.\<close>

theorem disable_exact:
  "IsDisableEvent b' e u' (snd (UpdateDisableEvents E K b events enable u t)) \<longleftrightarrow>
     (if (b', u') \<noteq> (b, u) then IsDisableEvent b' e u' t
      else if enable
        then count_list events e < count_list (at_vec (disableEvents t) (bundle_key u b)) e
      else IsDisableEvent b e u t \<or> e \<in> set events)"
proof -
  have empty: "update_events False es cur = [] \<longleftrightarrow> es = [] \<and> cur = []" for es cur
    by (metis set_update_events Un_empty set_empty)
  have pos: "e \<in> set xs \<longleftrightarrow> 0 < count_list xs e" for xs :: "string list"
    by (induction xs) auto
  have on: "e \<in> set (update_events True es cur) \<longleftrightarrow> count_list es e < count_list cur e" for es cur
    unfolding pos count_update_events by simp
  show ?thesis
  proof (cases "(b', u') = (b, u)")
    case False
    then show ?thesis
      by (auto simp: UpdateDisableEvents_def Let_def split_beta IsDisableEvent_def map_of_emplace
        map_of_omap_put delete_conv' split: option.split)
  next
    case True
    show ?thesis
    proof (cases enable)
      case True
      show ?thesis
      proof (cases "map_of (disableEvents t) (bundle_key u b)")
        case None
        then show ?thesis
          using True \<open>(b', u') = (b, u)\<close>
          by (simp add: UpdateDisableEvents_def Let_def split_beta IsDisableEvent_def at_vec_def)
      next
        case (Some cur)
        have "IsDisableEvent b e u (snd (UpdateDisableEvents E K b events enable u t)) \<longleftrightarrow>
            e \<in> set (update_events True events cur)"
          using True Some
          by (simp add: UpdateDisableEvents_def Let_def split_beta IsDisableEvent_def
            map_of_omap_put delete_conv')
        then show ?thesis
          using True Some \<open>(b', u') = (b, u)\<close> by (simp add: on at_vec_def)
      qed
    next
      case False
      then show ?thesis
        using \<open>(b', u') = (b, u)\<close>
        by (auto simp: UpdateDisableEvents_def Let_def split_beta IsDisableEvent_def map_of_emplace
          map_of_omap_put delete_conv' empty set_update_events split: option.split)
    qed
  qed
qed

section \<open>Persistence\<close>

text \<open>C40: Round trip through the store.  On a lawful store in the current format whose values can
  be read, writing a map of disabled events succeeds, and a query afterwards (the service has
  restarted) succeeds and returns exactly that map, provided that every list in it has an event.\<close>

theorem disabled_events_persist:
  assumes "kv_lawful K c" "js_lawful K" "settled (c (kvDb d))"
    and readable: "\<And>k v. c (kvDb d) k = Some v \<Longrightarrow> readable K k v"
    and m: "omap_ok m" "map_of m IS_UPDATED_KEY = None" "\<And>k. map_of m k \<noteq> Some []"
  shows "fst (UpdateStaticSubscriberState E K m d) = ERR_OK \<and>
    (let (r, m', bl, d') =
       QueryStaticSubscriberStateData E K [] [] (snd (UpdateStaticSubscriberState E K m d))
     in r = ERR_OK \<and> map_of m' = map_of m)"
proof -
  obtain d' where u: "UpdateStaticSubscriberState E K m d = (ERR_OK, d')"
    "\<forall>k. c (kvDb d') k = (case map_of m k of
       Some es \<Rightarrow> Some (ConvertEventsToValue K es)
     | None \<Rightarrow> if k = IS_UPDATED_KEY then Some KEY_IS_ALREADY_UPDATED
         else if disabled_at K (c (kvDb d)) k \<noteq> None then None else c (kvDb d) k)"
    by (rule Update_readable [where E = E, OF assms(1,3) readable omap_ok_distinct [OF m(1)]])
  note conv = Convert_back [OF assms(2)] Convert_not_default [OF assms(2)]
  have s: "settled (c (kvDb d'))" by (simp add: settled_def u(2) m(2))
  have nonempty: "map_of m k = Some es \<Longrightarrow> es \<noteq> []" for k es using m(3) [of k] by auto
  have r: "readable K k v" if "c (kvDb d') k = Some v" for k v
    using that readable [of k v] nonempty [of k]
    by (auto simp: u(2) readable_def conv split: option.splits if_splits)
  have same: "disabled_at K (c (kvDb d')) k = map_of m k" for k
    using nonempty [of k] m(2)
    by (auto simp: disabled_at_def u(2) conv split: option.splits if_splits)
  obtain m' bl d'' where "QueryStaticSubscriberStateData E K [] [] d' = (ERR_OK, m', bl, d'')"
    "map_of m' = disabled_at K (c (kvDb d'))"
    by (rule Query_readable [where m = "[]" and bl = "[]" and E = E, OF assms(1) s r], assumption)
      (rule that, auto)
  with same show ?thesis by (auto simp: u(1) fun_eq_iff)
qed

lemma disabled_events_persist_instance:
  "fst (UpdateStaticSubscriberState ex_tenv ex_kv [(''100_b'', [''ev.A'', ''ev.B''])]
     \<lparr>kvOpen = False, kvDb = []\<rparr>) = ERR_OK"
  using disabled_events_persist [OF ex_kv_lawful ex_kv_js, of "\<lparr>kvOpen = False, kvDb = []\<rparr>"
      "[(''100_b'', [''ev.A'', ''ev.B''])]" ex_tenv]
  by (simp add: settled_def IS_UPDATED_KEY_def)

text \<open>Switching off an empty list of events for a bundle that has none disabled breaks the
  store for good: the call itself succeeds, and from then on every attempt to switch events on or
  off, by any bundle, fails with \<open>ERR_INVALID_OPERATION\<close> and leaves the stored data as it is.\<close>

theorem empty_disable_breaks_store:
  assumes "kv_lawful K c" "js_lawful K" "settled (c (kvDb (ss_data t)))"
    and readable: "\<And>k v. c (kvDb (ss_data t)) k = Some v \<Longrightarrow> readable K k v"
    and t: "omap_ok (disableEvents t)" "map_of (disableEvents t) (bundle_key u b) = None"
      "map_of (disableEvents t) IS_UPDATED_KEY = None"
  shows "let (r, t1) = UpdateDisableEvents E K b [] False u t;
      (r', t2) = UpdateDisableEvents E' K b' events enable u' t1
    in r = ERR_OK \<and> r' = ERR_INVALID_OPERATION \<and> c (kvDb (ss_data t2)) = c (kvDb (ss_data t1))"
proof -
  let ?m = "omap_emplace (bundle_key u b) [] (disableEvents t)"
  have key: "bundle_key u b \<noteq> IS_UPDATED_KEY"
  proof -
    have "is_digit (hd (to_string u)) \<or> hd (to_string u) = CHR ''-''" "to_string u \<noteq> []"
      using to_string_digits [of u] by (auto simp: to_string_def list_all_iff)
    then show ?thesis
      by (cases "to_string u") (auto simp: bundle_key_def IS_UPDATED_KEY_def is_digit_def)
  qed
  have m: "umap_ok ?m" using t(1) by (simp add: omap_ok_emplace omap_ok_distinct)
  obtain d' where u: "UpdateStaticSubscriberState E K ?m (ss_data t) = (ERR_OK, d')"
    "\<forall>k. c (kvDb d') k = (case map_of ?m k of
       Some es \<Rightarrow> Some (ConvertEventsToValue K es)
     | None \<Rightarrow> if k = IS_UPDATED_KEY then Some KEY_IS_ALREADY_UPDATED
         else if disabled_at K (c (kvDb (ss_data t))) k \<noteq> None then None
         else c (kvDb (ss_data t)) k)"
    by (rule Update_readable [where E = E, OF assms(1,3) readable m])
  have s: "settled (c (kvDb d'))" using t(3) key by (simp add: settled_def u(2) map_of_emplace)
  have bad: "c (kvDb d') (bundle_key u b) = Some (ConvertEventsToValue K [])"
    by (simp add: u(2) map_of_emplace t(2))
  have unread: "\<not> readable K (bundle_key u b) (ConvertEventsToValue K [])"
    using key Convert_back [OF assms(2), of "[]"] Convert_not_default [OF assms(2)]
    by (simp add: readable_def)
  have fails: "fst (UpdateStaticSubscriberState E' K m d') = ERR_INVALID_OPERATION \<and>
      c (kvDb (snd (UpdateStaticSubscriberState E' K m d'))) = c (kvDb d')" for m
    by (rule Update_unreadable [OF assms(1) s bad unread])
  have "UpdateDisableEvents E K b [] False u t = (ERR_OK, t\<lparr>disableEvents := ?m, ss_data := d'\<rparr>)"
    by (simp add: UpdateDisableEvents_def t(2) u(1))
  then show ?thesis
    using fails by (simp add: UpdateDisableEvents_def [of E' K b'] Let_def split_beta)
qed

lemma empty_disable_breaks_store_instance:
  "fst (UpdateDisableEvents ex_tenv ex_kv ''b'' [''ev.A''] False 100
     (snd (UpdateDisableEvents ex_tenv ex_kv ''b'' [] False 100 ex_static))) = ERR_INVALID_OPERATION"
  using empty_disable_breaks_store [OF ex_kv_lawful ex_kv_js, of ex_static 100 "''b''" ex_tenv
      ex_tenv "''b''" "[''ev.A'']" False 100]
  by (simp add: ex_static_value settled_def split_beta Let_def)

text \<open>Migration of old keys.  A key \<open>uid\<close> followed by a bundle name that does not begin with a
  digit becomes the key of the current format for the user the uid belongs to, and current keys of
  different users or bundles are different.\<close>

theorem old_keys_migrate:
  assumes "0 \<le> uid'" "uid' \<le> 2147483647" and "b = [] \<or> \<not> is_digit (hd b)"
    and "os_local_id E uid' = Some u"
  shows "GetValidKey E (to_string uid' @ b) old [] =
      (ERR_OK, set_emplace (to_string uid' @ b) old, [bundle_key u b]) \<and>
    (bundle_key u b = bundle_key u' b' \<longleftrightarrow> u = u' \<and> b = b')"
proof -
  have d: "\<forall>x \<in> set (to_string uid'). is_digit x"
    using to_string_digits [OF assms(1)] by (simp add: list_all_iff)
  have b: "takeWhile is_digit b = []" "dropWhile is_digit b = b"
    using assms(3) by (cases b; auto)+
  have "takeWhile is_digit (to_string uid' @ b) = to_string uid'"
    "dropWhile is_digit (to_string uid' @ b) = b"
    using d b by simp_all
  moreover have "to_string uid' \<noteq> []" by (simp add: to_string_def)
  ultimately show ?thesis
    using assms by (simp add: GetValidKey_def IsNeedUpdateKey_def Let_def from_chars_to_string
      GetOsAccountLocalIdFromUid_def) (simp add: bundle_key_def)
qed

lemma old_keys_migrate_instance:
  "GetValidKey ex_tenv (to_string 20010042 @ ''com.app'') [] [] =
     (ERR_OK, [''20010042com.app''], [''100_com.app''])"
proof -
  have "digit 0 = CHR ''0''" "digit 1 = CHR ''1''" "digit 2 = CHR ''2''" "digit 4 = CHR ''4''"
    by code_simp+
  then have "to_string 20010042 = ''20010042''" "to_string 100 = ''100''"
    by (simp_all add: to_string_def nat_digits.simps)
  moreover have "os_local_id ex_tenv 20010042 = Some 100" by (simp add: ex_tenv_def)
  ultimately show ?thesis
    using old_keys_migrate [of 20010042 "''com.app''" ex_tenv 100 "[]"]
    by (simp add: is_digit_def set_emplace_def bundle_key_def)
qed

end
