(* ===== verification/Publish_Manager.thy ===== *)
theory Publish_Manager
  imports CES_Prelude
begin

text \<open>
  \<open>PublishManager\<close> (\<open>publish_manager.cpp\<close>): the flood limit.  For every uid the manager keeps
  the times of the recent publications; \<open>CheckIsFloodAttack\<close> drops the expired ones from the
  front, judges the call, and records it, also when it is refused.  The reference definition
  \<open>flood\<close> looks at the complete history of a uid instead of the pruned vector; the two agree as
  long as the clock does not run backwards (\<open>check_refines\<close>).
\<close>

definition FLOOD_ATTACK_NUMBER_MAX :: nat where "FLOOD_ATTACK_NUMBER_MAX = 20"
definition FLOOD_ATTACK_INTERVAL_MAX :: int64 where "FLOOD_ATTACK_INTERVAL_MAX = 5"

type_synonym flood_statistics = "(pid_t, int64 list) omap"

definition CheckIsFloodAttack :: "pid_t \<Rightarrow> int64 \<Rightarrow> flood_statistics \<Rightarrow> bool \<times> flood_statistics" where
  "CheckIsFloodAttack appUid now m =
     (case map_of m appUid of
        None \<Rightarrow> (False, omap_put appUid [now] m)
      | Some vec \<Rightarrow>
          (let vec1 = dropWhile (\<lambda>t. now - t > FLOOD_ATTACK_INTERVAL_MAX) vec;
               isAttacked = (length vec1 + 1 > FLOOD_ATTACK_NUMBER_MAX)
           in (isAttacked, omap_put appUid (vec1 @ [now]) m)))"

section \<open>The reference\<close>

text \<open>A history lists the calls, oldest first.  A call is part of a flood when twenty earlier
  calls of the same uid are at most five milliseconds old.\<close>

type_synonym call_history = "(pid_t \<times> int64) list"

definition flood :: "call_history \<Rightarrow> pid_t \<Rightarrow> int64 \<Rightarrow> bool" where
  "flood h u now \<longleftrightarrow>
     20 \<le> length (filter (\<lambda>(v, t). v = u \<and> now - t \<le> FLOOD_ATTACK_INTERVAL_MAX) h)"

fun run_calls :: "call_history \<Rightarrow> flood_statistics \<Rightarrow> bool list \<times> flood_statistics" where
  "run_calls [] m = ([], m)"
| "run_calls ((u, t) # cs) m =
     (let (b, m1) = CheckIsFloodAttack u t m; (bs, m2) = run_calls cs m1 in (b # bs, m2))"

definition times_of :: "call_history \<Rightarrow> pid_t \<Rightarrow> int64 list" where
  "times_of h u = map snd (filter (\<lambda>(v, t). v = u) h)"

text \<open>What the vector of a uid is: the calls within the interval before the last one.\<close>

definition pruned :: "int64 list \<Rightarrow> int64 list" where
  "pruned ts = (if ts = [] then []
     else filter (\<lambda>t. last ts - t \<le> FLOOD_ATTACK_INTERVAL_MAX) ts)"

definition stats_rel :: "call_history \<Rightarrow> flood_statistics \<Rightarrow> bool" where
  "stats_rel h m \<longleftrightarrow> (\<forall>u. map_of m u = (if times_of h u = [] then None else Some (pruned (times_of h u))))"

section \<open>Lemmas\<close>

lemma times_of_simps [simp]:
  "times_of [] u = []"
  "times_of (h @ [(v, t)]) u = times_of h u @ (if v = u then [t] else [])"
  by (simp_all add: times_of_def)

lemma flood_times: "flood h u now \<longleftrightarrow>
    20 \<le> length (filter (\<lambda>t. now - t \<le> FLOOD_ATTACK_INTERVAL_MAX) (times_of h u))"
  unfolding flood_def times_of_def
  by (induction h) (auto simp: split_beta)

lemma dropWhile_sorted_filter:
  "sorted (ts :: int list) \<Longrightarrow> dropWhile (\<lambda>t. now - t > d) ts = filter (\<lambda>t. now - t \<le> d) ts"
proof (induction ts)
  case (Cons t ts)
  then have "\<not> now - t > d \<Longrightarrow> \<forall>x\<in>set ts. now - x \<le> d" by force
  with Cons show ?case by (auto simp: filter_id_conv)
qed simp

lemma sorted_times: "sorted (map snd h) \<Longrightarrow> sorted (times_of h u)"
  by (simp add: times_of_def sorted_filter)

text \<open>Pruning for an earlier call loses nothing a later call looks at.\<close>

lemma filter_pruned:
  assumes "\<forall>t\<in>set ts. t \<le> now"
  shows "filter (\<lambda>t. now - t \<le> FLOOD_ATTACK_INTERVAL_MAX) (pruned ts) =
    filter (\<lambda>t. now - t \<le> FLOOD_ATTACK_INTERVAL_MAX) ts"
proof (cases "ts = []")
  case False
  with assms have "last ts \<le> now" by simp
  then show ?thesis by (auto simp: pruned_def intro!: filter_cong)
qed (simp add: pruned_def)

lemma times_le: "sorted (map snd (h @ [(u, now)])) \<Longrightarrow> \<forall>t\<in>set (times_of h v). t \<le> now"
  by (auto simp: times_of_def sorted_append)

lemma check_refines:
  assumes rel: "stats_rel h m" and srt: "sorted (map snd (h @ [(u, now)]))"
  shows "fst (CheckIsFloodAttack u now m) = flood h u now"
    and "stats_rel (h @ [(u, now)]) (snd (CheckIsFloodAttack u now m))"
proof -
  let ?ts = "times_of h u" and ?in = "\<lambda>t. now - t \<le> FLOOD_ATTACK_INTERVAL_MAX"
  have s: "sorted (pruned ?ts)"
    using srt by (auto simp: pruned_def sorted_append intro!: sorted_wrt_filter sorted_times)
  have p: "pruned (?ts @ [now]) = filter ?in ?ts @ [now]"
    by (simp add: pruned_def FLOOD_ATTACK_INTERVAL_MAX_def)
  have v: "dropWhile (\<lambda>t. now - t > FLOOD_ATTACK_INTERVAL_MAX) (pruned ?ts) = filter ?in ?ts"
    by (simp add: dropWhile_sorted_filter s filter_pruned times_le [OF srt])
  have m: "map_of m u = (if ?ts = [] then None else Some (pruned ?ts))"
    using rel by (simp add: stats_rel_def)
  show "fst (CheckIsFloodAttack u now m) = flood h u now"
    unfolding CheckIsFloodAttack_def m by (auto simp: v flood_times FLOOD_ATTACK_NUMBER_MAX_def Let_def)
  have "snd (CheckIsFloodAttack u now m) = omap_put u (pruned (?ts @ [now])) m"
    unfolding CheckIsFloodAttack_def m p by (auto simp: v Let_def)
  then show "stats_rel (h @ [(u, now)]) (snd (CheckIsFloodAttack u now m))"
    using rel by (auto simp: stats_rel_def map_of_omap_put)
qed

lemma run_calls_flood:
  assumes "stats_rel h m" and "sorted (map snd (h @ cs))"
  shows "fst (run_calls cs m) =
    map (\<lambda>i. flood (h @ take i cs) (fst (cs ! i)) (snd (cs ! i))) [0..<length cs]"
  using assms
proof (induction cs arbitrary: h m)
  case (Cons c cs)
  obtain u t where c: "c = (u, t)" by (cases c)
  have s: "sorted (map snd (h @ [(u, t)]))" using Cons.prems(2) by (auto simp: c sorted_append)
  note r = check_refines [OF Cons.prems(1) s]
  have "fst (run_calls cs (snd (CheckIsFloodAttack u t m))) =
      map (\<lambda>i. flood ((h @ [(u, t)]) @ take i cs) (fst (cs ! i)) (snd (cs ! i))) [0..<length cs]"
    by (rule Cons.IH [OF r(2)]) (use Cons.prems(2) in \<open>simp add: c\<close>)
  moreover have "[0..<length (c # cs)] = 0 # map Suc [0..<length cs]"
    by (simp add: upt_conv_Cons map_Suc_upt del: upt_Suc)
  ultimately show ?case
    by (simp add: c r(1) split_beta Let_def o_def)
qed simp

section \<open>Properties\<close>

text \<open>C38: The flood limit counts exactly: for a sequence of publications whose times do not
  decrease, each is judged an attack if and only if at least twenty earlier publications of the
  same uid, refused ones included, are at most five milliseconds old.\<close>

theorem flood_limit_exact:
  assumes "sorted (map snd cs)"
  shows "fst (run_calls cs []) =
    map (\<lambda>i. flood (take i cs) (fst (cs ! i)) (snd (cs ! i))) [0..<length cs]"
  using run_calls_flood [of "[]" "[]" cs] assms by (simp add: stats_rel_def)

lemma flood_limit_exact_instance:
  "last (fst (run_calls (replicate 20 (7, 100) @ [(8, 101), (7, 105)]) [])) = True"
  using flood_limit_exact [of "replicate 20 (7, 100) @ [(8, 101), (7, 105)]"]
  by (simp add: flood_def FLOOD_ATTACK_INTERVAL_MAX_def numeral_eq_Suc upt_conv_Cons)

end
