(* ===== verification/Sticky_Manager.thy ===== *)
theory Sticky_Manager
  imports Event_Types
begin

text \<open>
  \<open>CommonEventStickyManager\<close> (\<open>common_event_sticky_manager.cpp\<close>): the last sticky event of every
  name.  The store maps a name to an event record; event data and publish info are read through
  the record's payload pointer, so the store shares them with every other copy of the record.
  Records in the store are never null.
\<close>

type_synonym sticky_store = "(string, CommonEventRecord) umap"

definition FindStickyEventsLocked :: "string list \<Rightarrow> sticky_store \<Rightarrow> CommonEventRecord list" where
  "FindStickyEventsLocked events m =
     concat (map (\<lambda>event. case map_of m event of None \<Rightarrow> [] | Some r \<Rightarrow> [r]) events)"

definition FindStickyEvents ::
  "CommonEventSubscribeInfo option \<Rightarrow> sticky_store \<Rightarrow> err_code \<times> CommonEventRecord list" where
  "FindStickyEvents subscribeInfo m =
     (case subscribeInfo of
        None \<Rightarrow> (ERR_INVALID_VALUE, [])
      | Some info \<Rightarrow>
          (let events = ms_events (si_matchingSkills info)
           in if length events = 0 then (ERR_INVALID_VALUE, [])
              else (ERR_OK, FindStickyEventsLocked events m)))"

definition GetStickyCommonEventLocked ::
  "(payload_ptr \<Rightarrow> payload) \<Rightarrow> string \<Rightarrow> sticky_store \<Rightarrow> CommonEventData option" where
  "GetStickyCommonEventLocked pls event m =
     (case map_of m event of
        None \<Rightarrow> None
      | Some r \<Rightarrow> Some (commonEventData (pls (payloadPtr r))))"

definition GetStickyCommonEvent_store ::
  "(payload_ptr \<Rightarrow> payload) \<Rightarrow> string \<Rightarrow> sticky_store \<Rightarrow> CommonEventData option" where
  "GetStickyCommonEvent_store pls event m =
     (if event = [] then None else GetStickyCommonEventLocked pls event m)"

definition UpdateStickyEventLocked ::
  "string \<Rightarrow> CommonEventRecord option \<Rightarrow> sticky_store \<Rightarrow> err_code \<times> sticky_store" where
  "UpdateStickyEventLocked event record m =
     (if event = [] then (ERR_INVALID_VALUE, m)
      else case record of
        None \<Rightarrow> (ERR_INVALID_VALUE, m)
      | Some r \<Rightarrow> (ERR_OK, AList.update event r m))"

definition UpdateStickyEvent ::
  "(payload_ptr \<Rightarrow> payload) \<Rightarrow> CommonEventRecord \<Rightarrow> sticky_store \<Rightarrow> err_code \<times> sticky_store" where
  "UpdateStickyEvent pls r m =
     UpdateStickyEventLocked (w_action (cd_want (commonEventData (pls (payloadPtr r))))) (Some r) m"

definition GetStickyCommonEventRecords ::
  "string \<Rightarrow> int32 \<Rightarrow> sticky_store \<Rightarrow> CommonEventRecord list" where
  "GetStickyCommonEventRecords event user m =
     (if event = []
      then filter (\<lambda>r. user = ALL_USER \<or> userId r = user) (map snd m)
      else (case map_of m event of
              None \<Rightarrow> []
            | Some r \<Rightarrow> if user = ALL_USER \<or> user = userId r then [r] else []))"

definition RemoveStickyCommonEvent_store ::
  "string \<Rightarrow> uid_t \<Rightarrow> sticky_store \<Rightarrow> err_code \<times> sticky_store" where
  "RemoveStickyCommonEvent_store event callerUid m =
     (case map_of m event of
        None \<Rightarrow> (ERR_OK, m)
      | Some r \<Rightarrow>
          if uid (eventRecordInfo r) = callerUid then (ERR_OK, AList.delete event m) else (ERR_OK, m))"

section \<open>The store as a map\<close>

lemma Update_map:
  "map_of (snd (UpdateStickyEventLocked event (Some r) m)) =
     (if event = [] then map_of m else (map_of m)(event \<mapsto> r))"
  by (simp add: UpdateStickyEventLocked_def update_conv')

lemma Remove_map:
  "map_of (snd (RemoveStickyCommonEvent_store event u m)) e =
     (if e = event \<and> (\<exists>r. map_of m event = Some r \<and> uid (eventRecordInfo r) = u) then None
      else map_of m e)"
  by (auto simp: RemoveStickyCommonEvent_store_def delete_conv' split: option.split)

lemma umap_ok_sticky [intro]:
  "umap_ok m \<Longrightarrow> umap_ok (snd (UpdateStickyEventLocked event r m))"
  "umap_ok m \<Longrightarrow> umap_ok (snd (RemoveStickyCommonEvent_store event u m))"
  by (auto simp: UpdateStickyEventLocked_def RemoveStickyCommonEvent_store_def distinct_update
    distinct_delete split: option.split)

lemma FindStickyEvents_in_store:
  "r \<in> set (snd (FindStickyEvents info m)) \<Longrightarrow> \<exists>event. map_of m event = Some r"
  by (auto simp: FindStickyEvents_def FindStickyEventsLocked_def Let_def
    split: option.splits if_splits)

end
