(* ===== verification/Inner_Manager.thy ===== *)
theory Inner_Manager
  imports Sticky_Manager Static_Subscriber Control_Manager
begin

text \<open>
  \<open>InnerCommonEventManager\<close> (\<open>inner_common_event_manager.cpp\<close>): where the managers meet.  It
  checks who the caller is and for which user it may act, and passes publications to the static
  subscribers, the sticky store and the control manager, subscriptions to the subscriber manager
  (\<open>cs_subs\<close> of the control manager's state).  \<open>controlPtr_\<close> and \<open>staticSubscriberManager_\<close> are
  created by the constructor and never null.  The map \<open>publishControlMap\<close> is read from
  configuration files by the constructor (\<open>Inner_Config\<close>).  \<open>make_shared\<close> of the pair of event data
  and publish info allocates the cell \<open>nextPayload\<close>.
\<close>

section \<open>State\<close>

datatype inner_effect = PublishError int32 string pid_t int32 string

record EventComeFrom =
  cf_isSubsystem :: bool
  cf_isSystemApp :: bool
  cf_isProxy :: bool
  cf_isCemShell :: bool

record 'kv inner_state =
  in_ctl :: ctl_state
  in_sticky :: sticky_store
  in_static :: "'kv static_state"
  nextPayload :: payload_ptr
  subCount :: "32 word"
  publishControlMap :: "(string, int32 list) umap"
  innerLog :: "inner_effect list"

definition EventComeFrom_init :: EventComeFrom where
  "EventComeFrom_init = \<lparr>cf_isSubsystem = False, cf_isSystemApp = False, cf_isProxy = False,
     cf_isCemShell = False\<rparr>"

definition upd_ctl :: "(ctl_state \<Rightarrow> ctl_state) \<Rightarrow> 'kv inner_state \<Rightarrow> 'kv inner_state" where
  "upd_ctl f i = i\<lparr>in_ctl := f (in_ctl i)\<rparr>"

definition SendPublishHiSysEvent ::
  "int32 \<Rightarrow> string \<Rightarrow> pid_t \<Rightarrow> int32 \<Rightarrow> string \<Rightarrow> bool \<Rightarrow> 'kv inner_state \<Rightarrow> 'kv inner_state" where
  "SendPublishHiSysEvent user publisherName p u event succeed i =
     (if \<not> succeed
      then i\<lparr>innerLog := innerLog i @ [PublishError user publisherName p u event]\<rparr> else i)"

section \<open>Who may publish and for whom\<close>

definition IsPublishAllowed :: "string \<Rightarrow> int32 \<Rightarrow> 'kv inner_state \<Rightarrow> bool" where
  "IsPublishAllowed event u i =
     (if publishControlMap i = [] then True
      else (case map_of (publishControlMap i) event of
              Some uids \<Rightarrow> u \<in> set uids
            | None \<Rightarrow> True))"

definition SetSystemUserId :: "env \<Rightarrow> uid_t \<Rightarrow> EventComeFrom \<Rightarrow> int32 \<Rightarrow> int32" where
  "SetSystemUserId E u comeFrom user =
     (if user = CURRENT_USER then snd (GetOsAccountLocalIdFromUid E (to_int32 u) user)
      else if user = UNDEFINED_USER
        then (if cf_isSubsystem comeFrom then ALL_USER
              else (let user' = snd (GetOsAccountLocalIdFromUid E (to_int32 u) user)
                    in if user' \<ge> SUBSCRIBE_USER_SYSTEM_BEGIN \<and> user' \<le> SUBSCRIBE_USER_SYSTEM_END
                       then ALL_USER else user'))
      else user)"

text \<open>\<open>comeFrom\<close> and \<open>userId\<close> are out parameters: the result is the returned value followed
  by what they hold.\<close>

definition CheckUserId ::
  "env \<Rightarrow> pid_t \<Rightarrow> uid_t \<Rightarrow> token_id \<Rightarrow> EventComeFrom \<Rightarrow> int32 \<Rightarrow> bool \<times> EventComeFrom \<times> int32" where
  "CheckUserId E p u tok comeFrom user =
     (if user < UNDEFINED_USER then (False, comeFrom, user)
      else
        (let c1 = comeFrom\<lparr>cf_isSubsystem := VerifyNativeToken E tok\<rparr>;
             c2 = (if \<not> cf_isSubsystem c1 \<or> sys_check_sa_permission E
                   then (if VerifyShellToken E tok then c1\<lparr>cf_isCemShell := True\<rparr>
                         else c1\<lparr>cf_isSystemApp := CheckIsSystemAppByUid E u\<rparr>)
                   else c1);
             c3 = c2\<lparr>cf_isProxy := (p = UNDEFINED_PID)\<rparr>
         in if (cf_isSystemApp c3 \<or> cf_isSubsystem c3 \<or> cf_isCemShell c3) \<and> \<not> cf_isProxy c3
            then (True, c3, SetSystemUserId E u c3 user)
            else if user = UNDEFINED_USER
              then (True, c3, snd (GetOsAccountLocalIdFromUid E (to_int32 u) user))
            else (False, c3, user)))"

definition COMMONEVENT_STICKY :: string where
  "COMMONEVENT_STICKY = ''ohos.permission.COMMONEVENT_STICKY''"

definition ProcessStickyEvent :: "env \<Rightarrow> CommonEventRecord \<Rightarrow> 'kv inner_state \<Rightarrow> bool \<times> 'kv inner_state"
  where
  "ProcessStickyEvent E er i =
     (let info = eventRecordInfo er; result = VerifyAccessToken E (callerToken info) COMMONEVENT_STICKY
      in if (result \<and> isSystemApp info) \<or> (\<not> isProxy info \<and> isSubsystem info)
         then (True, i\<lparr>in_sticky :=
                 snd (UpdateStickyEvent (cs_payloads (in_ctl i)) er (in_sticky i))\<rparr>)
         else (False, i))"

section \<open>Publication\<close>

definition PublishCommonEvent_inner ::
  "env \<Rightarrow> senv \<Rightarrow> 'kv kv_ops \<Rightarrow> (string, Permission) umap \<Rightarrow> CommonEventData \<Rightarrow>
     CommonEventPublishInfo \<Rightarrow> remote option \<Rightarrow> int64 \<Rightarrow> pid_t \<Rightarrow> uid_t \<Rightarrow> token_id \<Rightarrow> int32 \<Rightarrow> string \<Rightarrow>
     'kv inner_state \<Rightarrow> bool \<times> 'kv inner_state" where
  "PublishCommonEvent_inner E S K pm data pinfo listener time p u tok requestedUser bundle i =
     (let action = w_action (cd_want data)
      in if action = [] then (False, i)
         else if \<not> pi_ordered pinfo \<and> listener \<noteq> None then (False, i)
         else if \<not> IsPublishAllowed action (to_int32 u) i then (False, i)
         else
           (let isSystem = IsSystemEvent action;
                (ok, comeFrom, user) = CheckUserId E p u tok EventComeFrom_init requestedUser
            in if \<not> ok then (False, SendPublishHiSysEvent user bundle p (to_int32 u) action False i)
               else if isSystem \<and> \<not> cf_isSystemApp comeFrom \<and> \<not> cf_isSubsystem comeFrom
                 then (False, SendPublishHiSysEvent user bundle p (to_int32 u) action False i)
               else
                 (let i1 = i\<lparr>in_static :=
                        PublishCommonEvent_static E S K data pinfo tok user bundle (in_static i)\<rparr>;
                      q = nextPayload i1;
                      i2 = upd_ctl (\<lambda>c. c\<lparr>cs_payloads := (cs_payloads c)
                             (q := \<lparr>commonEventData = data, publishInfo = pinfo\<rparr>)\<rparr>)
                             (i1\<lparr>nextPayload := q + 1\<rparr>);
                      er = \<lparr>isSystemEvent = isSystem, userId = user, payloadPtr = q, recordTime = time,
                            eventRecordInfo = \<lparr>isSubsystem = cf_isSubsystem comeFrom,
                              isSystemApp = cf_isSystemApp comeFrom \<or> cf_isCemShell comeFrom,
                              isProxy = cf_isProxy comeFrom, pid = p, uid = u, callerToken = tok,
                              bundleName = bundle, subId = []\<rparr>\<rparr>;
                      (accepted, i3) = (if pi_sticky pinfo then ProcessStickyEvent E er i2 else (True, i2))
                  in if \<not> accepted
                     then (False, SendPublishHiSysEvent user bundle p (to_int32 u) action False i3)
                     else (True, upd_ctl (\<lambda>c. snd (PublishCommonEvent_ctl E pm er listener c)) i3))))"

section \<open>Subscription\<close>

text \<open>\<open>SetOrdered(false)\<close> writes to the publish info that the stored record shares.\<close>

fun publish_stickies ::
  "env \<Rightarrow> (string, Permission) umap \<Rightarrow> sub_ptr \<Rightarrow> CommonEventRecord list \<Rightarrow> ctl_state \<Rightarrow> ctl_state" where
  "publish_stickies E pm p [] c = c"
| "publish_stickies E pm p (er # ers) c =
     (let pl = cs_payloads c (payloadPtr er); required = pi_bundleName (publishInfo pl)
      in if required \<noteq> [] \<and> required \<noteq> bundleName (subRecordInfo (sub_rec c p))
         then publish_stickies E pm p ers c
         else
           (let c1 = c\<lparr>cs_payloads := (cs_payloads c)(payloadPtr er :=
                       pl\<lparr>publishInfo := (publishInfo pl)\<lparr>pi_ordered := False\<rparr>\<rparr>)\<rparr>
            in publish_stickies E pm p ers (snd (PublishStickyCommonEvent_ctl E pm er (Some p) c1))))"

definition PublishStickyEvent ::
  "env \<Rightarrow> (string, Permission) umap \<Rightarrow> CommonEventSubscribeInfo option \<Rightarrow> sub_ptr option \<Rightarrow>
     'kv inner_state \<Rightarrow> bool \<times> 'kv inner_state" where
  "PublishStickyEvent E pm sp subscriberRecord i =
     (case sp of
        None \<Rightarrow> (False, i)
      | Some info \<Rightarrow>
          (case subscriberRecord of
             None \<Rightarrow> (False, i)
           | Some p \<Rightarrow>
               (let (code, records) = FindStickyEvents (Some info) (in_sticky i)
                in if code \<noteq> ERR_OK then (False, i)
                   else (True, upd_ctl (publish_stickies E pm p records) i))))"

definition make_subId :: "pid_t \<Rightarrow> uid_t \<Rightarrow> int32 \<Rightarrow> 32 word \<Rightarrow> int32 \<Rightarrow> string" where
  "make_subId p u instanceKey n user =
     to_string p @ ''_'' @ to_string (uint u) @ ''_'' @ to_string instanceKey @ ''_'' @
     to_string (sint n) @ ''_'' @ to_string user"

definition SubscribeCommonEvent_inner ::
  "env \<Rightarrow> (string, Permission) umap \<Rightarrow> (pid_t \<Rightarrow> string) \<Rightarrow> CommonEventSubscribeInfo \<Rightarrow> remote option \<Rightarrow>
     int64 \<Rightarrow> pid_t \<Rightarrow> uid_t \<Rightarrow> token_id \<Rightarrow> string \<Rightarrow> int32 \<Rightarrow> 'kv inner_state \<Rightarrow> bool \<times> 'kv inner_state"
  where
  "SubscribeCommonEvent_inner E pm cmdline sinfo listener time p u tok bundle instanceKey i =
     (if length (ms_events (si_matchingSkills sinfo)) = 0 then (False, i)
      else if listener = None then (False, i)
      else
        (let (ok, comeFrom, user) = CheckUserId E p u tok EventComeFrom_init (si_userId sinfo)
         in if \<not> ok then (False, i)
            else
              (let sp = sinfo\<lparr>si_userId := user\<rparr>;
                   rinfo = \<lparr>isSubsystem = cf_isSubsystem comeFrom, isSystemApp = cf_isSystemApp comeFrom,
                     isProxy = cf_isProxy comeFrom, pid = p, uid = u, callerToken = tok,
                     bundleName = bundle, subId = make_subId p u instanceKey (subCount i) user\<rparr>;
                   i1 = i\<lparr>subCount := subCount i + 1\<rparr>;
                   (record, subs') = InsertSubscriber E cmdline (Some sp) listener time rinfo
                     (cs_subs (in_ctl i1));
                   i2 = upd_ctl (upd_subs (\<lambda>_. subs')) i1
               in (True, snd (PublishStickyEvent E pm (Some sp) record i2)))))"

definition UnsubscribeCommonEvent_inner :: "remote option \<Rightarrow> 'kv inner_state \<Rightarrow> bool \<times> 'kv inner_state" where
  "UnsubscribeCommonEvent_inner listener i =
     (if listener = None then (False, i)
      else
        (let c = in_ctl i;
             c1 = (case GetMatchingOrderedReceiver listener c of
                     None \<Rightarrow> c
                   | Some o' \<Rightarrow>
                       snd (FinishReceiverAction (Some o') (cd_code (commonEventData (payload_of c o')))
                              (cd_data (commonEventData (payload_of c o'))) (resultAbort (ordHeap c o')) c))
         in (True, upd_ctl (\<lambda>_. upd_subs (\<lambda>s. snd (RemoveSubscriber listener s)) c1) i)))"

section \<open>The other operations\<close>

definition GetStickyCommonEvent_inner :: "string \<Rightarrow> 'kv inner_state \<Rightarrow> CommonEventData option" where
  "GetStickyCommonEvent_inner event i =
     GetStickyCommonEvent_store (cs_payloads (in_ctl i)) event (in_sticky i)"

definition FinishReceiver_inner ::
  "remote option \<Rightarrow> int32 \<Rightarrow> string \<Rightarrow> bool \<Rightarrow> 'kv inner_state \<Rightarrow> 'kv inner_state" where
  "FinishReceiver_inner proxy code receiverData abortEvent i =
     upd_ctl (\<lambda>c. case GetMatchingOrderedReceiver proxy c of
                    None \<Rightarrow> c
                  | Some o' \<Rightarrow> snd (FinishReceiverAction (Some o') code receiverData abortEvent c)) i"

definition Freeze_inner :: "uid_t \<Rightarrow> int64 \<Rightarrow> 'kv inner_state \<Rightarrow> 'kv inner_state" where
  "Freeze_inner u now i = upd_ctl (upd_subs (UpdateFreezeInfo u True now)) i"

definition Unfreeze_inner :: "uid_t \<Rightarrow> 'kv inner_state \<Rightarrow> 'kv inner_state" where
  "Unfreeze_inner u i =
     upd_ctl (\<lambda>c. snd (PublishFreezeCommonEvent u (upd_subs (UpdateFreezeInfo u False 0) c))) i"

definition SetFreezeStatus_inner ::
  "pid_t list \<Rightarrow> bool \<Rightarrow> int64 \<Rightarrow> 'kv inner_state \<Rightarrow> bool \<times> 'kv inner_state" where
  "SetFreezeStatus_inner pidList freeze now i =
     (let i1 = upd_ctl (upd_subs (UpdateFreezeInfo_pids pidList freeze now)) i
      in if \<not> freeze
         then (let (b, c) = PublishFreezeCommonEvent_pids pidList (in_ctl i1)
               in (b, i1\<lparr>in_ctl := c\<rparr>))
         else (True, i1))"

definition UnfreezeAll_inner :: "'kv inner_state \<Rightarrow> 'kv inner_state" where
  "UnfreezeAll_inner i =
     upd_ctl (\<lambda>c. snd (PublishAllFreezeCommonEvents (upd_subs (UpdateAllFreezeInfos False 0) c))) i"

definition RemoveStickyCommonEvent_inner ::
  "string \<Rightarrow> uid_t \<Rightarrow> 'kv inner_state \<Rightarrow> err_code \<times> 'kv inner_state" where
  "RemoveStickyCommonEvent_inner event callerUid i =
     (let (r, m) = RemoveStickyCommonEvent_store event callerUid (in_sticky i)
      in (r, i\<lparr>in_sticky := m\<rparr>))"

definition SetStaticSubscriberState_inner ::
  "env \<Rightarrow> senv \<Rightarrow> 'kv kv_ops \<Rightarrow> uid_t \<Rightarrow> bool \<Rightarrow> 'kv inner_state \<Rightarrow> err_code \<times> 'kv inner_state" where
  "SetStaticSubscriberState_inner E S K callingUid enable i =
     (let (r, t) = SetStaticSubscriberState E S K callingUid enable (in_static i)
      in (r, i\<lparr>in_static := t\<rparr>))"

definition SetStaticSubscriberState_events_inner ::
  "env \<Rightarrow> senv \<Rightarrow> 'kv kv_ops \<Rightarrow> uid_t \<Rightarrow> string list \<Rightarrow> bool \<Rightarrow> 'kv inner_state \<Rightarrow>
     err_code \<times> 'kv inner_state" where
  "SetStaticSubscriberState_events_inner E S K callingUid events enable i =
     (let (r, t) = SetStaticSubscriberState_events E S K callingUid events enable (in_static i)
      in (r, i\<lparr>in_static := t\<rparr>))"

definition inner_init ::
  "(string, int32 list) umap \<Rightarrow> ctl_state \<Rightarrow> 'kv static_state \<Rightarrow> 'kv inner_state" where
  "inner_init control c t =
     \<lparr>in_ctl = c, in_sticky = [], in_static = t, nextPayload = 0, subCount = 0,
      publishControlMap = control, innerLog = []\<rparr>"

end
