(* ===== verification/Manager_Service.thy ===== *)
theory Manager_Service
  imports Inner_Manager Publish_Manager
begin

text \<open>
  \<open>CommonEventManagerService\<close> (\<open>common_event_manager_service.cpp\<close>): the IPC entry points.  A
  handler runs on an IPC thread with the identity of its caller (\<open>caller\<close>), checks it, and
  either works on the inner manager at once or submits a task to \<open>commonEventSrvQueue_\<close>, here
  \<open>srvQueue\<close>; \<open>run_task\<close> runs the task at its head.  Handlers return the value of their out
  parameter \<open>funcResult\<close>; the \<open>ErrCode\<close> they return besides is always \<open>ERR_OK\<close> (dumping, which differs,
  is in \<open>Dump_State\<close>).
  \<open>innerCommonEventManager_\<close> and the queue are created together by \<open>Init\<close>, which \<open>running\<close>
  records.  \<open>GetSystemCurrentTime\<close> may fail, so the time of day is an option.
\<close>

section \<open>State\<close>

record caller =
  cl_pid :: pid_t
  cl_uid :: uid_t
  cl_token :: token_id

datatype srv_task =
    PublishTask CommonEventData CommonEventPublishInfo "remote option" int64 pid_t uid_t token_id int32
  | SubscribeTask CommonEventSubscribeInfo "remote option" int64 pid_t uid_t token_id int32
  | UnsubscribeTask "remote option"
  | FinishTask "remote option" int32 string bool
  | FreezeSrvTask uid_t
  | UnfreezeTask uid_t
  | UnfreezeAllTask
  | SetFreezeTask "pid_t list" bool

record 'kv service_state =
  sv_inner :: "'kv inner_state"
  srvQueue :: "srv_task list"
  sv_flood :: flood_statistics
  running :: bool

definition RESOURCE_MANAGER_PROCESS_NAME :: string where
  "RESOURCE_MANAGER_PROCESS_NAME = ''resource_schedule_service''"

definition Init_srv :: "'kv service_state \<Rightarrow> err_code \<times> 'kv service_state" where
  "Init_srv s = (ERR_OK, s\<lparr>running := True\<rparr>)"

definition IsReady :: "'kv service_state \<Rightarrow> bool" where
  "IsReady s = running s"

definition submit :: "srv_task \<Rightarrow> 'kv service_state \<Rightarrow> 'kv service_state" where
  "submit t s = s\<lparr>srvQueue := srvQueue s @ [t]\<rparr>"

section \<open>Publication\<close>

definition CheckUserIdParams :: "env \<Rightarrow> int32 \<Rightarrow> err_code" where
  "CheckUserIdParams E user =
     (if user \<noteq> ALL_USER \<and> user \<noteq> CURRENT_USER \<and> user \<noteq> UNDEFINED_USER \<and> \<not> CheckUserExists E user
      then ERR_NOTIFICATION_CES_USERID_INVALID else ERR_OK)"

definition PublishCommonEventDetailed ::
  "env \<Rightarrow> int64 option \<Rightarrow> int64 \<Rightarrow> CommonEventData \<Rightarrow> CommonEventPublishInfo \<Rightarrow> remote option \<Rightarrow>
     pid_t \<Rightarrow> uid_t \<Rightarrow> token_id \<Rightarrow> int32 \<Rightarrow> 'kv service_state \<Rightarrow> err_code \<times> 'kv service_state" where
  "PublishCommonEventDetailed E time now event pinfo listener p u tok user s =
     (if IsDlpHap E tok then (ERR_NOTIFICATION_CES_NOT_SA_SYSTEM_APP, s)
      else case time of
        None \<Rightarrow> (ERR_NOTIFICATION_SYS_ERROR, s)
      | Some rtime \<Rightarrow>
          (let errCode = CheckUserIdParams E user
           in if errCode \<noteq> ERR_OK then (errCode, s)
              else
                (let (attack, m) = CheckIsFloodAttack (to_int32 u) now (sv_flood s);
                     s1 = s\<lparr>sv_flood := m\<rparr>
                 in if attack then (ERR_NOTIFICATION_CES_EVENT_FREQ_TOO_HIGH, s1)
                    else (ERR_OK, submit (PublishTask event pinfo listener rtime p u tok user) s1))))"

definition PublishCommonEvent_srv ::
  "env \<Rightarrow> caller \<Rightarrow> int64 option \<Rightarrow> int64 \<Rightarrow> CommonEventData \<Rightarrow> CommonEventPublishInfo \<Rightarrow>
     remote option \<Rightarrow> int32 \<Rightarrow> 'kv service_state \<Rightarrow> err_code \<times> 'kv service_state" where
  "PublishCommonEvent_srv E cl time now event pinfo listener user s =
     (if \<not> IsReady s then (ERR_NOTIFICATION_CESM_ERROR, s)
      else if user \<noteq> ALL_USER \<and> user \<noteq> CURRENT_USER \<and> user \<noteq> UNDEFINED_USER \<and>
          \<not> VerifyNativeToken E (cl_token cl) \<and> \<not> IsSystemApp E (cl_token cl)
        then (ERR_NOTIFICATION_CES_COMMON_NOT_SYSTEM_APP, s)
      else PublishCommonEventDetailed E time now event pinfo listener (cl_pid cl) (cl_uid cl)
             (cl_token cl) user s)"

text \<open>The proxy variant takes uid and token of the client from its arguments.\<close>

definition PublishCommonEvent_proxy_srv ::
  "env \<Rightarrow> caller \<Rightarrow> int64 option \<Rightarrow> int64 \<Rightarrow> CommonEventData \<Rightarrow> CommonEventPublishInfo \<Rightarrow>
     remote option \<Rightarrow> uid_t \<Rightarrow> token_id \<Rightarrow> int32 \<Rightarrow> 'kv service_state \<Rightarrow> bool \<times> 'kv service_state" where
  "PublishCommonEvent_proxy_srv E cl time now event pinfo listener u tok user s =
     (if \<not> IsReady s then (False, s)
      else if cl_uid cl \<noteq> FOUNDATION_UID then (False, s)
      else
        (let (r, s') = PublishCommonEventDetailed E time now event pinfo listener UNDEFINED_PID u tok user s
         in (r = ERR_OK, s')))"

section \<open>Subscription\<close>

definition SubscribeCommonEvent_srv ::
  "env \<Rightarrow> caller \<Rightarrow> int64 option \<Rightarrow> CommonEventSubscribeInfo \<Rightarrow> remote option \<Rightarrow> int32 \<Rightarrow>
     'kv service_state \<Rightarrow> err_code \<times> 'kv service_state" where
  "SubscribeCommonEvent_srv E cl time sinfo listener instanceKey s =
     (if \<not> IsReady s then (ERR_NOTIFICATION_CES_COMMON_PARAM_INVALID, s)
      else case time of
        None \<Rightarrow> (ERR_NOTIFICATION_CES_COMMON_PARAM_INVALID, s)
      | Some rtime \<Rightarrow>
          (let errCode = CheckUserIdParams E (si_userId sinfo)
           in if errCode \<noteq> ERR_OK then (errCode, s)
              else (ERR_OK, submit (SubscribeTask sinfo listener rtime (cl_pid cl) (cl_uid cl)
                              (cl_token cl) instanceKey) s)))"

definition UnsubscribeCommonEvent_srv ::
  "remote option \<Rightarrow> 'kv service_state \<Rightarrow> err_code \<times> 'kv service_state" where
  "UnsubscribeCommonEvent_srv listener s =
     (if \<not> IsReady s then (ERR_NOTIFICATION_CES_COMMON_PARAM_INVALID, s)
      else (ERR_OK, submit (UnsubscribeTask listener) s))"

text \<open>\<open>UnsubscribeCommonEventSync\<close> submits the same task and waits for it; the wait is the
  caller's and does not show in the state.\<close>

definition UnsubscribeCommonEventSync ::
  "remote option \<Rightarrow> 'kv service_state \<Rightarrow> err_code \<times> 'kv service_state" where
  "UnsubscribeCommonEventSync listener s =
     (if \<not> IsReady s then (ERR_NOTIFICATION_CES_COMMON_PARAM_INVALID, s)
      else (ERR_OK, submit (UnsubscribeTask listener) s))"

definition FinishReceiver_srv ::
  "remote option \<Rightarrow> int32 \<Rightarrow> string \<Rightarrow> bool \<Rightarrow> 'kv service_state \<Rightarrow> bool \<times> 'kv service_state" where
  "FinishReceiver_srv proxy code receiverData abortEvent s =
     (if \<not> IsReady s then (False, s)
      else (True, submit (FinishTask proxy code receiverData abortEvent) s))"

section \<open>Sticky events\<close>

text \<open>The out parameter \<open>funcResult\<close> is a \<open>bool\<close>; the code for a caller that is neither a
  subsystem nor a system application is converted to it.\<close>

definition GetStickyCommonEvent_srv ::
  "env \<Rightarrow> caller \<Rightarrow> string \<Rightarrow> 'kv service_state \<Rightarrow> bool \<times> CommonEventData option" where
  "GetStickyCommonEvent_srv E cl event s =
     (if \<not> IsReady s then (False, None)
      else if event = [] then (False, None)
      else
        (let tok = cl_token cl; isSub = VerifyNativeToken E tok
         in if \<not> isSub \<and> \<not> IsSystemApp E tok
              then (code_to_bool ERR_NOTIFICATION_CES_COMMON_NOT_SYSTEM_APP, None)
            else if \<not> VerifyAccessToken E tok COMMONEVENT_STICKY then (False, None)
            else (case GetStickyCommonEvent_inner event (sv_inner s) of
                    None \<Rightarrow> (False, None)
                  | Some d \<Rightarrow> (True, Some d))))"

definition RemoveStickyCommonEvent_srv ::
  "env \<Rightarrow> caller \<Rightarrow> string \<Rightarrow> 'kv service_state \<Rightarrow> err_code \<times> 'kv service_state" where
  "RemoveStickyCommonEvent_srv E cl event s =
     (if \<not> IsReady s then (ERR_NOTIFICATION_CESM_ERROR, s)
      else
        (let tok = cl_token cl; isSub = VerifyNativeToken E tok
         in if \<not> isSub \<and> \<not> IsSystemApp E tok then (ERR_NOTIFICATION_CES_COMMON_NOT_SYSTEM_APP, s)
            else if \<not> VerifyAccessToken E tok COMMONEVENT_STICKY \<and>
                (\<not> isSub \<or> sys_check_sa_permission E)
              then (ERR_NOTIFICATION_CES_COMMON_PERMISSION_DENIED, s)
            else (let (r, i) = RemoveStickyCommonEvent_inner event (cl_uid cl) (sv_inner s)
                  in (r, s\<lparr>sv_inner := i\<rparr>))))"

section \<open>Static subscribers\<close>

text \<open>These two handlers use \<open>innerCommonEventManager_\<close> without asking \<open>IsReady\<close>.\<close>

definition SetStaticSubscriberState_srv ::
  "env \<Rightarrow> senv \<Rightarrow> 'kv kv_ops \<Rightarrow> caller \<Rightarrow> bool \<Rightarrow> 'kv service_state \<Rightarrow> err_code \<times> 'kv service_state"
  where
  "SetStaticSubscriberState_srv E S K cl enable s =
     (if \<not> IsSystemApp E (cl_token cl) then (ERR_NOTIFICATION_CES_COMMON_NOT_SYSTEM_APP, s)
      else (let (r, i) = SetStaticSubscriberState_inner E S K (cl_uid cl) enable (sv_inner s)
            in (r, s\<lparr>sv_inner := i\<rparr>)))"

definition SetStaticSubscriberStateByEvents ::
  "env \<Rightarrow> senv \<Rightarrow> 'kv kv_ops \<Rightarrow> caller \<Rightarrow> string list \<Rightarrow> bool \<Rightarrow> 'kv service_state \<Rightarrow>
     err_code \<times> 'kv service_state" where
  "SetStaticSubscriberStateByEvents E S K cl events enable s =
     (if \<not> IsSystemApp E (cl_token cl) then (ERR_NOTIFICATION_CES_COMMON_NOT_SYSTEM_APP, s)
      else (let (r, i) = SetStaticSubscriberState_events_inner E S K (cl_uid cl) events enable (sv_inner s)
            in (r, s\<lparr>sv_inner := i\<rparr>)))"

section \<open>Freezing\<close>

definition is_resource_manager :: "env \<Rightarrow> caller \<Rightarrow> bool" where
  "is_resource_manager E cl \<longleftrightarrow> \<not> (\<not> VerifyNativeToken E (cl_token cl) \<or>
     GetCallingProcessName E (cl_token cl) \<noteq> RESOURCE_MANAGER_PROCESS_NAME)"

definition Freeze_srv :: "env \<Rightarrow> caller \<Rightarrow> uid_t \<Rightarrow> 'kv service_state \<Rightarrow> bool \<times> 'kv service_state" where
  "Freeze_srv E cl u s =
     (if \<not> is_resource_manager E cl then (False, s)
      else if \<not> IsReady s then (False, s)
      else (True, submit (FreezeSrvTask u) s))"

definition Unfreeze_srv :: "env \<Rightarrow> caller \<Rightarrow> uid_t \<Rightarrow> 'kv service_state \<Rightarrow> bool \<times> 'kv service_state" where
  "Unfreeze_srv E cl u s =
     (if \<not> is_resource_manager E cl then (False, s)
      else if \<not> IsReady s then (False, s)
      else (True, submit (UnfreezeTask u) s))"

definition UnfreezeAll_srv :: "env \<Rightarrow> caller \<Rightarrow> 'kv service_state \<Rightarrow> bool \<times> 'kv service_state" where
  "UnfreezeAll_srv E cl s =
     (if \<not> is_resource_manager E cl then (False, s)
      else if \<not> IsReady s then (False, s)
      else (True, submit UnfreezeAllTask s))"

definition SetFreezeStatus_srv ::
  "env \<Rightarrow> caller \<Rightarrow> pid_t list \<Rightarrow> bool \<Rightarrow> 'kv service_state \<Rightarrow> bool \<times> 'kv service_state" where
  "SetFreezeStatus_srv E cl pidList freeze s =
     (if \<not> is_resource_manager E cl then (False, s)
      else if \<not> IsReady s then (False, s)
      else (True, submit (SetFreezeTask pidList freeze) s))"

section \<open>The queue\<close>

definition task_bundle :: "env \<Rightarrow> token_id \<Rightarrow> uid_t \<Rightarrow> string" where
  "task_bundle E tok u = (if \<not> VerifyNativeToken E tok then GetBundleName E u else [])"

fun exec_task ::
  "env \<Rightarrow> senv \<Rightarrow> 'kv kv_ops \<Rightarrow> (string, Permission) umap \<Rightarrow> (pid_t \<Rightarrow> string) \<Rightarrow> int64 \<Rightarrow> srv_task \<Rightarrow>
     'kv inner_state \<Rightarrow> 'kv inner_state" where
  "exec_task E S K pm cmdline now (PublishTask event pinfo listener time p u tok user) i =
     snd (PublishCommonEvent_inner E S K pm event pinfo listener time p u tok user (task_bundle E tok u) i)"
| "exec_task E S K pm cmdline now (SubscribeTask sinfo listener time p u tok instanceKey) i =
     snd (SubscribeCommonEvent_inner E pm cmdline sinfo listener time p u tok (task_bundle E tok u)
            instanceKey i)"
| "exec_task E S K pm cmdline now (UnsubscribeTask listener) i =
     snd (UnsubscribeCommonEvent_inner listener i)"
| "exec_task E S K pm cmdline now (FinishTask proxy code receiverData abortEvent) i =
     FinishReceiver_inner proxy code receiverData abortEvent i"
| "exec_task E S K pm cmdline now (FreezeSrvTask u) i = Freeze_inner u now i"
| "exec_task E S K pm cmdline now (UnfreezeTask u) i = Unfreeze_inner u i"
| "exec_task E S K pm cmdline now UnfreezeAllTask i = UnfreezeAll_inner i"
| "exec_task E S K pm cmdline now (SetFreezeTask pidList freeze) i =
     snd (SetFreezeStatus_inner pidList freeze now i)"

definition run_task ::
  "env \<Rightarrow> senv \<Rightarrow> 'kv kv_ops \<Rightarrow> (string, Permission) umap \<Rightarrow> (pid_t \<Rightarrow> string) \<Rightarrow> int64 \<Rightarrow>
     'kv service_state \<Rightarrow> 'kv service_state" where
  "run_task E S K pm cmdline now s =
     (case srvQueue s of
        [] \<Rightarrow> s
      | t # ts \<Rightarrow> s\<lparr>srvQueue := ts, sv_inner := exec_task E S K pm cmdline now t (sv_inner s)\<rparr>)"

text \<open>\<open>SubscriberDeathRecipient::OnRemoteDied\<close> (\<open>subscriber_death_recipient.cpp\<close>) goes to the
  subscriber manager directly: an ordered event that waits for the dead receiver is not answered
  and runs into its timeout.\<close>

definition OnRemoteDied :: "remote option \<Rightarrow> 'kv service_state \<Rightarrow> 'kv service_state" where
  "OnRemoteDied object s =
     (case object of
        None \<Rightarrow> s
      | Some l \<Rightarrow> s\<lparr>sv_inner :=
          upd_ctl (upd_subs (\<lambda>t. snd (RemoveSubscriber (Some l) t))) (sv_inner s)\<rparr>)"

definition service_init :: "'kv inner_state \<Rightarrow> 'kv service_state" where
  "service_init i = \<lparr>sv_inner = i, srvQueue = [], sv_flood = [], running = False\<rparr>"

end
