(* ===== verification/Registry_Frame.thy ===== *)
theory Registry_Frame
  imports Control_Protocol
begin

text \<open>
  What the control manager does on its own (\<open>internal_step\<close>: the tasks of its three queues and its
  timer), and the frame of all its operations: none of them changes the registry of subscribers.
  Only subscriptions, removals and the freezing operations of the subscriber manager do.
\<close>

inductive internal_step :: "ctl_state \<Rightarrow> ctl_state \<Rightarrow> bool" where
  ordered_task:
    "orderedTasks c = b # ts \<Longrightarrow>
     internal_step c (ProcessNextOrderedEvent E pm now b (c\<lparr>orderedTasks := ts\<rparr>))"
| timer:
    "timeoutTasks c > 0 \<Longrightarrow>
     internal_step c (CurrentOrderedEventTimeout now True (c\<lparr>timeoutTasks := timeoutTasks c - 1\<rparr>))"
| unordered_task:
    "unorderedQueue c = o' # us \<Longrightarrow>
     internal_step c (snd (NotifyUnorderedEvent E pm now (Some o') (c\<lparr>unorderedQueue := us\<rparr>)))"
| immediate_notify:
    "unorderedImmediateQueue c = NotifyTask o' # is \<Longrightarrow>
     internal_step c (snd (NotifyUnorderedEvent E pm now (Some o') (c\<lparr>unorderedImmediateQueue := is\<rparr>)))"
| immediate_freeze:
    "unorderedImmediateQueue c = FreezeTask sub er # is \<Longrightarrow>
     internal_step c (snd (NotifyFreezeEvents E pm sub er (c\<lparr>unorderedImmediateQueue := is\<rparr>)))"

lemma internal_step_ctl: "internal_step c c' \<Longrightarrow> ctl_step c c'"
  by (induction rule: internal_step.induct) (blast intro: ctl_step.intros)+

text \<open>What stays: the registry, the payloads and, with them, every event data.\<close>

definition kept :: "ctl_state \<Rightarrow> ctl_state \<Rightarrow> bool" where
  "kept c c' \<longleftrightarrow> registry (cs_subs c') = registry (cs_subs c) \<and> cs_payloads c' = cs_payloads c"

lemma kept_trans: "kept a b \<Longrightarrow> kept b c \<Longrightarrow> kept a c"
  by (simp add: kept_def)

abbreviation registered :: "ctl_state \<Rightarrow> remote \<Rightarrow> EventSubscriberRecord option" where
  "registered c \<equiv> registry (cs_subs c)"

section \<open>The subscriber state of the control manager's operations\<close>

lemma registry_keep [simp]:
  "registry (InsertFrozenEvents r er s) = registry s"
  "registry (InsertFrozenEventsMap r er s) = registry s"
  "registry (snd (GetFrozenEvents u s)) = registry s"
  "registry (snd (GetFrozenEventsMapByPid q s)) = registry s"
  by (auto intro!: registry_cong simp: GetFrozenEvents_def GetFrozenEventsMapByPid_def
    RemoveFrozenEvents_def RemoveFrozenEventsMapByPid_def Let_def split: option.split)

lemma registry_keep_frozen [simp]: "registry (fold (keep_frozen er) ps s) = registry s"
  by (auto intro!: registry_cong)

lemma kept_delivered_to: "kept c (delivered_to E now o' c)"
  by (simp add: kept_def delivered_to_def freeze_event_def Let_def)

lemma Schedule_frame [simp]:
  "cs_subs (snd (ScheduleOrderedCommonEvent c)) = cs_subs c"
  "cs_payloads (snd (ScheduleOrderedCommonEvent c)) = cs_payloads c"
  by (simp_all add: ScheduleOrderedCommonEvent_def)

lemma kept_dispatch:
  "nextReceiver (ordHeap c o') < length (receivers (ordHeap c o')) \<Longrightarrow> kept c (dispatch E pm now o' c)"
  using kept_delivered_to [of c E now o'] by (simp add: dispatch_form Let_def kept_def)

lemma kept_ProcessNext:
  assumes inv: "ctl_inv c" and t: "orderedTasks c = b # ts"
  shows "kept c (ProcessNextOrderedEvent E pm now b (c\<lparr>orderedTasks := ts\<rparr>))"
proof -
  let ?c = "c\<lparr>orderedTasks := ts\<rparr>"
  define c0 where "c0 = (if b then ?c\<lparr>scheduled := False\<rparr> else ?c)"
  obtain sp removed c1 where scan: "ProcessOrderedEventQueueLocked now [] c0 = (sp, removed, c1)"
    by (cases "ProcessOrderedEventQueueLocked now [] c0") auto
  have core0: "core_inv c0"
    using inv t by (cases b) (auto simp: c0_def ctl_inv_def core_inv_def split: if_splits)
  from scan_spec [OF core0 scan] have core1: "core_inv c1" and frame: "scan_frame c0 c1"
    and ready: "\<And>o'. sp = Some o' \<Longrightarrow> ready_rec (ordHeap c1 o')"
    and rem: "set removed \<subseteq> set (orderedEventQueue c0)"
    by (auto dest: in_set_takeD)
  define c2 where "c2 = foldl (\<lambda>c o'. snd (HandleFinalSubscriber E o' c)) c1 removed"
  have "\<forall>o' \<in> set removed. o' < ordNext c1"
    using rem core_invD(3) [OF core0] frame by (auto simp: scan_frame_def)
  from final_fold [OF core1 this, of E] have ff: "final_frame c1 c2" by (simp add: c2_def)
  have same: "kept c c2"
    using ff frame by (auto simp: final_frame_def scan_frame_def c0_def kept_def)
  have "kept c (dispatch E pm now o' c2)" if "sp = Some o'" for o'
    using kept_trans [OF same kept_dispatch, of o' E pm now] ready [OF that] final_frameD(2) [OF ff, of o']
    by (auto simp: ready_rec_def)
  moreover have "ProcessNextOrderedEvent E pm now b ?c =
      (case sp of None \<Rightarrow> c2 | Some o' \<Rightarrow> dispatch E pm now o' c2)"
    unfolding ProcessNextOrderedEvent_dispatch c0_def [symmetric] scan c2_def Let_def by simp
  ultimately show ?thesis by (auto simp: same split: option.split)
qed

section \<open>Publications and own steps keep the registry\<close>

lemma subs_publish:
  assumes inv: "ctl_inv c"
  shows "registered (snd (PublishCommonEvent_ctl E pm er l c)) = registered c"
    and "registered (snd (PublishStickyCommonEvent_ctl E pm er p c)) = registered c"
  using sub_inv_of_ctl [OF inv]
  by (cases p; simp add: PublishCommonEvent_ctl_def PublishStickyCommonEvent_ctl_def
    ProcessUnorderedEvent_def ProcessOrderedEvent_def EnqueueUnorderedRecord_def
    EnqueueOrderedRecord_def alloc_ord_def Let_def case_prod_unfold registry_GetSubscriberRecords)+

lemma subs_publish_frozen [simp]: "cs_subs (PublishFrozenEventsInner m c) = cs_subs c"
  by (simp add: PublishFrozenEventsInner_def)

lemma subs_publish_frozen_fold [simp]:
  "cs_subs (foldl (\<lambda>c p. PublishFrozenEventsInner (snd p) c) c ms) = cs_subs c"
  by (induction ms arbitrary: c) auto

lemma subs_unfreeze:
  "registered (snd (PublishFreezeCommonEvent u c)) = registered c"
  "registered (snd (PublishFreezeCommonEvent_pids qs c)) = registered c"
  "registered (snd (PublishAllFreezeCommonEvents c)) = registered c"
proof -
  have "registered (PublishFreeze_pids qs c) = registered c" for c
    by (induction qs arbitrary: c) (simp_all add: Let_def case_prod_unfold)
  then show "registered (snd (PublishFreezeCommonEvent_pids qs c)) = registered c"
    by (simp add: PublishFreezeCommonEvent_pids_def)
qed (simp_all add: PublishFreezeCommonEvent_def PublishAllFreezeCommonEvents_def Let_def case_prod_unfold)

lemma subs_Finish: "cs_subs (snd (FinishReceiverAction (Some o') code d ab c)) = cs_subs c"
  using FinishReceiver_form [of o' code d ab c]
  by (auto simp: FinishReceiverAction_def Let_def case_prod_unfold)

lemma kept_timer: "kept c (CurrentOrderedEventTimeout now b c)"
  by (simp add: kept_def CurrentOrderedEventTimeout_def CheckAndRescheduleTimeout_def SetTimeout_def Let_def
    HandleTimeoutReceiver_form split: option.split)

lemma kept_NotifyUnordered:
  assumes inv: "core_inv c" and mem: "o' \<in> set (unorderedEventQueue c)"
  shows "kept c (snd (NotifyUnorderedEvent E pm now (Some o') (c\<lparr>unorderedQueue := us\<rparr>)))"
    and "kept c (snd (NotifyUnorderedEvent E pm now (Some o') (c\<lparr>unorderedImmediateQueue := is\<rparr>)))"
  using NotifyUnorderedEvent_form [of "c\<lparr>unorderedQueue := us\<rparr>" o' E pm now]
    NotifyUnorderedEvent_form [of "c\<lparr>unorderedImmediateQueue := is\<rparr>" o' E pm now]
    core_invD(5,6) [OF inv mem] core_invD(9) [OF inv, of o']
  by (auto simp: rec_ok_def after_delivery_def Let_def kept_def)

lemma internal_step_kept: "internal_step c c' \<Longrightarrow> ctl_inv c \<Longrightarrow> kept c c'"
proof (induction rule: internal_step.induct)
  case (ordered_task c b ts E pm now)
  then show ?case by (simp add: kept_ProcessNext)
next
  case (timer c now)
  then show ?case using kept_timer by (simp add: kept_def)
next
  case (unordered_task c o' us E pm now)
  then have core: "core_inv c" by (simp add: ctl_inv_def)
  have "o' \<in># mset (unorderedEventQueue c)"
    unfolding core_invD(8) [OF core] by (simp add: unordered_task.hyps)
  then show ?case by (simp add: kept_NotifyUnordered(1) [OF core])
next
  case (immediate_notify c o' "is" E pm now)
  then have core: "core_inv c" by (simp add: ctl_inv_def)
  have "o' \<in># mset (unorderedEventQueue c)"
    unfolding core_invD(8) [OF core] by (simp add: immediate_notify.hyps)
  then show ?case by (simp add: kept_NotifyUnordered(2) [OF core])
next
  case (immediate_freeze c sub er "is" E pm)
  then show ?case by (simp add: kept_def NotifyFreezeEvents_def Let_def permission_used_def)
qed

end
