(* ===== verification/Service_Refinement.thy ===== *)
theory Service_Refinement
  imports Manager_Service Static_Invariant Registry_Frame
begin

text \<open>
  The service as a state machine (\<open>service_step\<close>: IPC handlers, tasks of the service queue, tasks
  of the managers, deaths of subscribers), and its refinement of the control manager's machine:
  whatever the service does is, for the control manager, a sequence of the steps of
  \<open>ctl_step\<close>.  So the invariant of the ordered protocol holds in every reachable state of the
  service.
\<close>

abbreviation ctl_of :: "'kv service_state \<Rightarrow> ctl_state" where
  "ctl_of s \<equiv> in_ctl (sv_inner s)"

abbreviation ctl_steps :: "ctl_state \<Rightarrow> ctl_state \<Rightarrow> bool" where
  "ctl_steps \<equiv> ctl_step\<^sup>*\<^sup>*"

section \<open>Inner operations as steps of the control manager\<close>

lemma in_ctl_upd [simp]:
  "in_ctl (upd_ctl f i) = f (in_ctl i)"
  "in_ctl (SendPublishHiSysEvent user n p u e b i) = in_ctl i"
  "in_sticky (upd_ctl f i) = in_sticky i"
  "in_static (upd_ctl f i) = in_static i"
  "in_sticky (SendPublishHiSysEvent user n p u e b i) = in_sticky i"
  "in_static (SendPublishHiSysEvent user n p u e b i) = in_static i"
  "nextPayload (upd_ctl f i) = nextPayload i"
  "nextPayload (SendPublishHiSysEvent user n p u e b i) = nextPayload i"
  "publishControlMap (upd_ctl f i) = publishControlMap i"
  "subCount (upd_ctl f i) = subCount i"
  "innerLog (upd_ctl f i) = innerLog i"
  by (simp_all add: upd_ctl_def SendPublishHiSysEvent_def)

lemma ProcessSticky_ctl [simp]:
  "in_ctl (snd (ProcessStickyEvent E er i)) = in_ctl i"
  "in_static (snd (ProcessStickyEvent E er i)) = in_static i"
  "nextPayload (snd (ProcessStickyEvent E er i)) = nextPayload i"
  by (simp_all add: ProcessStickyEvent_def Let_def)

lemma subs_step: "sub_step (cs_subs c) s \<Longrightarrow> ctl_step c (upd_subs (\<lambda>_. s) c)"
  by (simp add: upd_subs_def ctl_step.subscribers)

lemma subs_step_fun: "sub_step (cs_subs c) (f (cs_subs c)) \<Longrightarrow> ctl_step c (upd_subs f c)"
  using ctl_step.subscribers [of c "f (cs_subs c)"] by (simp add: upd_subs_def)

lemma two_steps: "ctl_step a b \<Longrightarrow> ctl_step b c \<Longrightarrow> ctl_steps a c"
  by (simp add: converse_rtranclp_into_rtranclp r_into_rtranclp)

lemma PublishCommonEvent_inner_steps:
  "ctl_steps (in_ctl i)
     (in_ctl (snd (PublishCommonEvent_inner E S K pm d pinfo l time p u tok user b i)))"
proof -
  have two: "ctl_steps c (snd (PublishCommonEvent_ctl E pm er l'
      (c\<lparr>cs_payloads := (cs_payloads c)(q := pl)\<rparr>)))" for c er q pl l'
    by (rule two_steps [OF ctl_step.payload ctl_step.publish])
  show ?thesis
    by (simp add: PublishCommonEvent_inner_def Let_def split_beta two r_into_rtranclp ctl_step.payload)
qed

lemma publish_sticky_simps [simp]:
  "cs_subs (snd (PublishStickyCommonEvent_ctl E pm er (Some p) c)) = cs_subs c"
  "cs_payloads (snd (PublishStickyCommonEvent_ctl E pm er (Some p) c)) = cs_payloads c"
  "ordNext (snd (PublishStickyCommonEvent_ctl E pm er (Some p) c)) = ordNext c + 1"
  "unorderedEventQueue (snd (PublishStickyCommonEvent_ctl E pm er (Some p) c)) =
     unorderedEventQueue c @ [ordNext c]"
  "ordHeap (snd (PublishStickyCommonEvent_ctl E pm er (Some p) c)) = (ordHeap c)
     (ordNext c := (FillCommonEventRecord er)\<lparr>receivers := [p], deliveryState := [PENDING]\<rparr>)"
  by (simp_all add: PublishStickyCommonEvent_ctl_def ProcessUnorderedEvent_def Let_def alloc_ord_def
    EnqueueUnorderedRecord_def)

lemma publish_stickies_steps:
  "p < subNext (cs_subs c) \<Longrightarrow> ctl_steps c (publish_stickies E pm p ers c)"
proof (induction ers arbitrary: c)
  case (Cons er ers)
  let ?pl = "cs_payloads c (payloadPtr er)"
  let ?c1 = "c\<lparr>cs_payloads := (cs_payloads c)(payloadPtr er :=
    ?pl\<lparr>publishInfo := (publishInfo ?pl)\<lparr>pi_ordered := False\<rparr>\<rparr>)\<rparr>"
  let ?c2 = "snd (PublishStickyCommonEvent_ctl E pm er (Some p) ?c1)"
  have s1: "ctl_step c ?c1" by (rule ctl_step.payload)
  have s2: "ctl_step ?c1 ?c2" by (rule ctl_step.publish_sticky) (simp add: Cons.prems)
  have "ctl_steps ?c2 (publish_stickies E pm p ers ?c2)" using Cons by simp
  with s1 s2 have "ctl_steps c (publish_stickies E pm p ers ?c2)"
    by (meson converse_rtranclp_into_rtranclp)
  then show ?case using Cons by (simp add: Let_def)
qed simp

lemma inserted_in_heap:
  assumes inv: "sub_inv s" and r: "InsertSubscriber E cmd (Some info) (Some l) time rinfo s = (Some p, s')"
    and mono: "subNext s \<le> subNext s'"
  shows "p < subNext s'"
proof -
  have v: "valid_events info"
    using r InsertSubscriber_rejected_args [of "Some info" "Some l" E cmd time rinfo s]
    by (cases "valid_events info") auto
  show ?thesis
  proof (cases "GetSubscriberRecord s l")
    case (Some q)
    then have "p \<in> set (subscribers s)"
      using r by (auto simp: InsertSubscriber_update [OF v] GetSubscriberRecord_def dest: find_listener_Some)
    then show ?thesis using sub_invD(1) [OF inv] mono by force
  next
    case None
    have "p = subNext s" "subNext s' = subNext s + 1"
      using r unfolding InsertSubscriber_new [OF v None]
      by (auto simp: split_beta InsertSubscriberRecordLocked_frame Let_def split: if_splits)
    then show ?thesis by simp
  qed
qed

definition subscribe_ok :: "CommonEventSubscribeInfo \<Rightarrow> remote option \<Rightarrow> pid_t \<Rightarrow> sub_state \<Rightarrow> bool" where
  "subscribe_ok sinfo listener p s \<longleftrightarrow>
     distinct (ms_events (si_matchingSkills sinfo)) \<and>
     (\<forall>l r. listener = Some l \<longrightarrow> registry s l = Some r \<longrightarrow> p = pid (subRecordInfo r))"

lemma PublishStickyEvent_steps:
  assumes "\<And>p. record = Some p \<Longrightarrow> p < subNext (cs_subs (in_ctl i))"
  shows "ctl_steps (in_ctl i) (in_ctl (snd (PublishStickyEvent E pm sp record i)))"
  using assms by (auto simp: PublishStickyEvent_def split_beta publish_stickies_steps split: option.split)

text \<open>What a subscription that passes the checks does.\<close>

definition subscription_info ::
  "EventComeFrom \<Rightarrow> pid_t \<Rightarrow> uid_t \<Rightarrow> token_id \<Rightarrow> string \<Rightarrow> int32 \<Rightarrow> 32 word \<Rightarrow> int32 \<Rightarrow> EventRecordInfo" where
  "subscription_info come p u tok b k n user = \<lparr>isSubsystem = cf_isSubsystem come,
     isSystemApp = cf_isSystemApp come, isProxy = cf_isProxy come, pid = p, uid = u, callerToken = tok,
     bundleName = b, subId = make_subId p u k n user\<rparr>"

definition inserted ::
  "env \<Rightarrow> (pid_t \<Rightarrow> string) \<Rightarrow> CommonEventSubscribeInfo \<Rightarrow> remote \<Rightarrow> int64 \<Rightarrow> EventRecordInfo \<Rightarrow>
     'kv inner_state \<Rightarrow> sub_ptr option \<times> 'kv inner_state" where
  "inserted E cmd sp l time rinfo i =
     (let (rc, subs') = InsertSubscriber E cmd (Some sp) (Some l) time rinfo (cs_subs (in_ctl i))
      in (rc, upd_ctl (upd_subs (\<lambda>_. subs')) (i\<lparr>subCount := subCount i + 1\<rparr>)))"

lemma Subscribe_form:
  assumes "ms_events (si_matchingSkills sinfo) \<noteq> []"
    and "CheckUserId E p u tok EventComeFrom_init (si_userId sinfo) = (True, come, user)"
    and r_def: "r = inserted E cmd (sinfo\<lparr>si_userId := user\<rparr>) l time
      (subscription_info come p u tok b k (subCount i) user) i"
  shows "SubscribeCommonEvent_inner E pm cmd sinfo (Some l) time p u tok b k i =
    (True, snd (PublishStickyEvent E pm (Some (sinfo\<lparr>si_userId := user\<rparr>)) (fst r) (snd r)))"
  using assms(1,2) by (simp add: r_def SubscribeCommonEvent_inner_def inserted_def Let_def split_beta
    subscription_info_def upd_ctl_def)

lemma Subscribe_rejected:
  assumes "ms_events (si_matchingSkills sinfo) = [] \<or> listener = None \<or>
    \<not> fst (CheckUserId E p u tok EventComeFrom_init (si_userId sinfo))"
  shows "SubscribeCommonEvent_inner E pm cmd sinfo listener time p u tok b k i = (False, i)"
  using assms by (auto simp: SubscribeCommonEvent_inner_def Let_def split_beta)

lemma Subscribe_cases:
  obtains (rejected) "SubscribeCommonEvent_inner E pm cmd sinfo listener time p u tok b k i = (False, i)"
  | (accepted) l come user where "listener = Some l" "ms_events (si_matchingSkills sinfo) \<noteq> []"
      "CheckUserId E p u tok EventComeFrom_init (si_userId sinfo) = (True, come, user)"
proof (cases "ms_events (si_matchingSkills sinfo) = [] \<or> listener = None \<or>
    \<not> fst (CheckUserId E p u tok EventComeFrom_init (si_userId sinfo))")
  case True
  then show thesis by (rule rejected [OF Subscribe_rejected])
next
  case False
  then obtain l where l: "listener = Some l" "ms_events (si_matchingSkills sinfo) \<noteq> []"
    by (cases listener) auto
  obtain ok come user where c: "CheckUserId E p u tok EventComeFrom_init (si_userId sinfo) = (ok, come, user)"
    by (metis prod_cases3)
  then have "ok" using False by simp
  then show thesis using accepted [OF l] c by simp
qed

lemma inserted_steps:
  assumes inv: "ctl_inv (in_ctl i)" and ok: "subscribe_ok sinfo (Some l) (pid rinfo) (cs_subs (in_ctl i))"
    and sp: "si_matchingSkills sp = si_matchingSkills sinfo"
    and r_def: "r = inserted E cmd sp l time rinfo i"
  shows "ctl_step (in_ctl i) (in_ctl (snd r))"
    and "fst r = Some q \<Longrightarrow> q < subNext (cs_subs (in_ctl (snd r)))"
proof -
  let ?ins = "InsertSubscriber E cmd (Some sp) (Some l) time rinfo (cs_subs (in_ctl i))"
  have sub: "sub_inv (cs_subs (in_ctl i))" using inv by (simp add: ctl_inv_def core_invD(1))
  have st: "sub_step (cs_subs (in_ctl i)) (snd ?ins)"
    by (rule sub_step.subscribe) (use ok in \<open>auto simp: subscribe_ok_def sp\<close>)
  have r: "in_ctl (snd r) = upd_subs (\<lambda>_. snd ?ins) (in_ctl i)" "fst r = fst ?ins"
    by (simp_all add: r_def inserted_def Let_def split_beta upd_ctl_def)
  show "ctl_step (in_ctl i) (in_ctl (snd r))" using subs_step [OF st] by (simp add: r)
  show "fst r = Some q \<Longrightarrow> q < subNext (cs_subs (in_ctl (snd r)))"
    using inserted_in_heap [OF sub, of E cmd sp l time rinfo q "snd ?ins"] sub_step_heap [OF st sub]
    by (simp add: r upd_subs_def prod_eq_iff)
qed

lemma SubscribeCommonEvent_inner_steps:
  assumes inv: "ctl_inv (in_ctl i)" and ok: "subscribe_ok sinfo listener p (cs_subs (in_ctl i))"
  shows "ctl_steps (in_ctl i)
    (in_ctl (snd (SubscribeCommonEvent_inner E pm cmd sinfo listener time p u tok b k i)))"
proof (cases rule: Subscribe_cases [of E pm cmd sinfo listener time p u tok b k i])
  case (accepted l come user)
  let ?sp = "sinfo\<lparr>si_userId := user\<rparr>" and ?rinfo = "subscription_info come p u tok b k (subCount i) user"
  have "subscribe_ok sinfo (Some l) (pid ?rinfo) (cs_subs (in_ctl i))"
    using ok by (simp add: accepted subscription_info_def)
  note steps = inserted_steps [OF inv this, of ?sp _ E cmd time, OF _ refl, simplified]
  show ?thesis
    unfolding accepted(1) Subscribe_form [OF accepted(2,3) refl] snd_conv
    by (rule converse_rtranclp_into_rtranclp [where r = ctl_step, OF steps(1)])
      (simp_all add: PublishStickyEvent_steps steps(2))
qed simp

lemma finish_matching_steps:
  assumes inv: "ctl_inv c" and m: "GetMatchingOrderedReceiver l c = Some o'"
  shows "ctl_step c (snd (FinishReceiverAction (Some o') code d ab c))"
proof (rule ctl_step.finish)
  have "core_inv c" using inv by (simp add: ctl_inv_def)
  then show "o' < ordNext c"
    using m core_invD(3) by (force simp: GetMatchingOrderedReceiver_def split: list.splits if_splits)
qed

lemma UnsubscribeCommonEvent_inner_steps:
  assumes inv: "ctl_inv (in_ctl i)"
  shows "ctl_steps (in_ctl i) (in_ctl (snd (UnsubscribeCommonEvent_inner l i)))"
proof -
  have rem: "ctl_step c (upd_subs (\<lambda>s. snd (RemoveSubscriber l' s)) c)" for c l'
    by (rule subs_step_fun) (rule sub_step.unsubscribe)
  show ?thesis
    by (auto simp: UnsubscribeCommonEvent_inner_def Let_def split: option.split
      intro: r_into_rtranclp rem two_steps finish_matching_steps [OF inv])
qed

lemma FinishReceiver_inner_steps:
  assumes inv: "ctl_inv (in_ctl i)"
  shows "ctl_steps (in_ctl i) (in_ctl (FinishReceiver_inner l code d ab i))"
  using finish_matching_steps [OF inv, of l] by (auto simp: FinishReceiver_inner_def split: option.split)

lemma freeze_steps:
  "ctl_steps (in_ctl i) (in_ctl (Freeze_inner u now i))"
  "ctl_steps (in_ctl i) (in_ctl (Unfreeze_inner u i))"
  "ctl_steps (in_ctl i) (in_ctl (UnfreezeAll_inner i))"
  "ctl_steps (in_ctl i) (in_ctl (snd (SetFreezeStatus_inner ps f now i)))"
proof -
  have f: "ctl_step c (upd_subs (UpdateFreezeInfo u b now) c)"
    "ctl_step c (upd_subs (UpdateFreezeInfo_pids ps b now) c)"
    "ctl_step c (upd_subs (UpdateAllFreezeInfos b now) c)" for c b now
    by (rule subs_step_fun, rule sub_step.intros)+
  show "ctl_steps (in_ctl i) (in_ctl (Freeze_inner u now i))"
    by (simp add: Freeze_inner_def f r_into_rtranclp)
  show "ctl_steps (in_ctl i) (in_ctl (Unfreeze_inner u i))"
    by (simp add: Unfreeze_inner_def two_steps [OF f(1) ctl_step.unfreeze_uid])
  show "ctl_steps (in_ctl i) (in_ctl (UnfreezeAll_inner i))"
    by (simp add: UnfreezeAll_inner_def two_steps [OF f(3) ctl_step.unfreeze_all])
  show "ctl_steps (in_ctl i) (in_ctl (snd (SetFreezeStatus_inner ps f now i)))"
    by (simp add: SetFreezeStatus_inner_def Let_def split_beta r_into_rtranclp f(2)
      two_steps [OF f(2) ctl_step.unfreeze_pids])
qed

section \<open>The service as a state machine\<close>

text \<open>What a task needs of its environment for the control manager's invariant: a
  subscription lists an event once and comes from the process that registered its listener.\<close>

fun task_ok :: "srv_task \<Rightarrow> ctl_state \<Rightarrow> bool" where
  "task_ok (SubscribeTask sinfo listener time p u tok k) c = subscribe_ok sinfo listener p (cs_subs c)"
| "task_ok _ c = True"

lemma exec_task_steps:
  assumes "ctl_inv (in_ctl i)" "task_ok t (in_ctl i)"
  shows "ctl_steps (in_ctl i) (in_ctl (exec_task E S K pm cmd now t i))"
  using assms
  by (cases t) (simp_all add: PublishCommonEvent_inner_steps SubscribeCommonEvent_inner_steps
    UnsubscribeCommonEvent_inner_steps FinishReceiver_inner_steps freeze_steps)

text \<open>The label of a step: the call of a client, with the environment as it is then and the
  identity of the caller, or a step of the service's own.\<close>

datatype call = Call env caller | Own

inductive service_step :: "call \<Rightarrow> 'kv service_state \<Rightarrow> 'kv service_state \<Rightarrow> bool" where
  init: "service_step Own s (snd (Init_srv s))"
| publish: "service_step (Call E cl) s (snd (PublishCommonEvent_srv E cl time now d pinfo l user s))"
| publish_proxy: "service_step (Call E cl) s
     (snd (PublishCommonEvent_proxy_srv E cl time now d pinfo l u tok user s))"
| subscribe: "service_step (Call E cl) s (snd (SubscribeCommonEvent_srv E cl time sinfo l k s))"
| unsubscribe: "service_step (Call E cl) s (snd (UnsubscribeCommonEvent_srv l s))"
| unsubscribe_sync: "service_step (Call E cl) s (snd (UnsubscribeCommonEventSync l s))"
| finish: "service_step (Call E cl) s (snd (FinishReceiver_srv l code d' ab s))"
| remove_sticky: "service_step (Call E cl) s (snd (RemoveStickyCommonEvent_srv E cl event s))"
| set_static: "service_step (Call E cl) s (snd (SetStaticSubscriberState_srv E S K cl enable s))"
| set_static_events: "service_step (Call E cl) s
     (snd (SetStaticSubscriberStateByEvents E S K cl events enable s))"
| freeze: "service_step (Call E cl) s (snd (Freeze_srv E cl u s))"
| unfreeze: "service_step (Call E cl) s (snd (Unfreeze_srv E cl u s))"
| unfreeze_all: "service_step (Call E cl) s (snd (UnfreezeAll_srv E cl s))"
| set_freeze: "service_step (Call E cl) s (snd (SetFreezeStatus_srv E cl ps f s))"
| run: "(\<And>t ts. srvQueue s = t # ts \<Longrightarrow> task_ok t (ctl_of s)) \<Longrightarrow>
     service_step Own s (run_task E S K pm cmdline now s)"
| died: "service_step Own s (OnRemoteDied l s)"
| manager: "internal_step (ctl_of s) c \<Longrightarrow>
     service_step Own s (s\<lparr>sv_inner := upd_ctl (\<lambda>_. c) (sv_inner s)\<rparr>)"
| boot_task: "service_step Own s (s\<lparr>sv_inner := (sv_inner s)
     \<lparr>in_static := run_boot_task (in_static (sv_inner s))\<rparr>\<rparr>)"

inductive service_reachable :: "'kv service_state \<Rightarrow> bool" where
  start: "service_reachable (service_init (inner_init control (ctl_init h ps os) (static_init d)))"
| step: "service_reachable s \<Longrightarrow> service_step a s s' \<Longrightarrow> service_reachable s'"

inductive_cases service_stepE: "service_step a s s'"

text \<open>A handler never touches the control manager.\<close>

lemma handler_ctl:
  "ctl_of (snd (Init_srv s)) = ctl_of s"
  "ctl_of (snd (PublishCommonEvent_srv E cl time now d pinfo l user s)) = ctl_of s"
  "ctl_of (snd (PublishCommonEvent_proxy_srv E cl time now d pinfo l u tok user s)) = ctl_of s"
  "ctl_of (snd (SubscribeCommonEvent_srv E cl time sinfo l k s)) = ctl_of s"
  "ctl_of (snd (UnsubscribeCommonEvent_srv l s)) = ctl_of s"
  "ctl_of (snd (UnsubscribeCommonEventSync l s)) = ctl_of s"
  "ctl_of (snd (FinishReceiver_srv l code d' ab s)) = ctl_of s"
  "ctl_of (snd (RemoveStickyCommonEvent_srv E cl event s)) = ctl_of s"
  "ctl_of (snd (SetStaticSubscriberState_srv E S K cl enable s)) = ctl_of s"
  "ctl_of (snd (SetStaticSubscriberStateByEvents E S K cl events enable s)) = ctl_of s"
  "ctl_of (snd (Freeze_srv E cl u s)) = ctl_of s"
  "ctl_of (snd (Unfreeze_srv E cl u s)) = ctl_of s"
  "ctl_of (snd (UnfreezeAll_srv E cl s)) = ctl_of s"
  "ctl_of (snd (SetFreezeStatus_srv E cl ps f s)) = ctl_of s"
  by (simp_all add: Init_srv_def PublishCommonEvent_srv_def PublishCommonEvent_proxy_srv_def
    PublishCommonEventDetailed_def SubscribeCommonEvent_srv_def UnsubscribeCommonEvent_srv_def
    UnsubscribeCommonEventSync_def FinishReceiver_srv_def RemoveStickyCommonEvent_srv_def
    RemoveStickyCommonEvent_inner_def SetStaticSubscriberState_srv_def
    SetStaticSubscriberState_inner_def SetStaticSubscriberStateByEvents_def
    SetStaticSubscriberState_events_inner_def Freeze_srv_def Unfreeze_srv_def UnfreezeAll_srv_def
    SetFreezeStatus_srv_def submit_def Let_def split_beta split: option.split)

lemma service_step_refines:
  "service_step a s s' \<Longrightarrow> ctl_inv (ctl_of s) \<Longrightarrow> ctl_steps (ctl_of s) (ctl_of s')"
proof (induction rule: service_step.induct)
  case (run s E S K pm cmd now)
  then show ?case by (auto simp: run_task_def exec_task_steps split: list.split)
next
  case (died s l)
  have "ctl_step c (upd_subs (\<lambda>s. snd (RemoveSubscriber (Some l') s)) c)" for c l'
    by (rule subs_step_fun) (rule sub_step.unsubscribe)
  then show ?case by (auto simp: OnRemoteDied_def split: option.split)
qed (simp_all add: handler_ctl r_into_rtranclp internal_step_ctl)

lemma reachable_steps: "ctl_steps c c' \<Longrightarrow> reachable c \<Longrightarrow> reachable c'"
  by (induction rule: rtranclp_induct) (auto intro: reachable.step)

lemma service_reachable_ctl: "service_reachable s \<Longrightarrow> reachable (ctl_of s)"
proof (induction rule: service_reachable.induct)
  case (start control h ps os d)
  then show ?case by (simp add: service_init_def inner_init_def reachable.init)
next
  case (step s a s')
  then show ?case using service_step_refines [OF step.hyps(2)] reachable_inv reachable_steps by blast
qed

end
