(* ===== verification/Service_Frame.thy ===== *)
theory Service_Frame
  imports Service_Refinement
begin

text \<open>
  What the tasks of the service do to the registry of subscribers and to the sticky store, and the
  invariant of the sticky store: its records belong to publications made before.
\<close>

section \<open>Frozen subscribers\<close>

definition frozen_in :: "sub_state \<Rightarrow> remote set" where
  "frozen_in s = {l. \<exists>r. registry s l = Some r \<and> isFreeze r}"

fun freezes :: "srv_task \<Rightarrow> bool" where
  "freezes (FreezeSrvTask u) = True"
| "freezes (SetFreezeTask ps f) = f"
| "freezes _ = False"

lemma frozen_in_cong: "registry s = registry t \<Longrightarrow> frozen_in s = frozen_in t"
  by (simp add: frozen_in_def)

lemma frozen_Insert:
  assumes inv: "sub_inv s"
  shows "frozen_in (snd (InsertSubscriber E cmd info l time rinfo s)) \<subseteq> frozen_in s"
proof (cases "\<exists>i l'. info = Some i \<and> l = Some l' \<and> valid_events i")
  case True
  then obtain i l' where "info = Some i" "l = Some l'" "valid_events i" by auto
  then show ?thesis
    using registry_InsertSubscriber [OF inv, of i _ E cmd l' time rinfo]
    by (auto simp: frozen_in_def fresh_record_def renewed_record_def split: if_splits option.splits)
next
  case False
  then have "info = None \<or> l = None \<or> (\<exists>i. info = Some i \<and> \<not> valid_events i)" by auto
  then show ?thesis using InsertSubscriber_rejected_args by auto
qed

lemma RemoveSubscriber_null: "snd (RemoveSubscriber None s) = s"
  by (simp add: RemoveSubscriber_def)

lemma frozen_Remove: "sub_inv s \<Longrightarrow> frozen_in (snd (RemoveSubscriber l s)) \<subseteq> frozen_in s"
  by (cases l) (auto simp: frozen_in_def registry_RemoveSubscriber RemoveSubscriber_null split: if_splits)

lemma frozen_unfreeze:
  assumes "sub_inv s"
  shows "frozen_in (UpdateFreezeInfo u False t s) \<subseteq> frozen_in s"
    "frozen_in (UpdateFreezeInfo_pids ps False t s) \<subseteq> frozen_in s"
    "frozen_in (UpdateAllFreezeInfos False t s) \<subseteq> frozen_in s"
  by (auto simp: frozen_in_def UpdateFreezeInfo_def UpdateFreezeInfo_pids_def UpdateAllFreezeInfos_def
    registry_freeze_loop [OF assms] freeze_record_def split: if_splits)

section \<open>The tasks and the registry\<close>

lemma registered_publish:
  "ctl_inv (in_ctl i) \<Longrightarrow>
   registered (in_ctl (snd (PublishCommonEvent_inner E S K pm d pinfo l time p u tok user b i))) =
     registered (in_ctl i)"
  by (simp add: PublishCommonEvent_inner_def Let_def split_beta subs_publish ctl_inv_def progress_def)

lemma registered_stickies:
  "cs_subs (publish_stickies E pm p ers c) = cs_subs c"
  by (induction ers arbitrary: c) (simp_all add: Let_def)

lemma registered_sticky_event:
  "cs_subs (in_ctl (snd (PublishStickyEvent E pm sp rc i))) = cs_subs (in_ctl i)"
  by (simp add: PublishStickyEvent_def registered_stickies split_beta split: option.split)

lemma frozen_subscribe:
  assumes inv: "ctl_inv (in_ctl i)"
  shows "frozen_in (cs_subs (in_ctl (snd (SubscribeCommonEvent_inner E pm cmd sinfo l time p u tok b k i))))
    \<subseteq> frozen_in (cs_subs (in_ctl i))"
proof (cases rule: Subscribe_cases [of E pm cmd sinfo l time p u tok b k i])
  case (accepted l' come user)
  have "frozen_in (cs_subs (in_ctl (snd (inserted E cmd sp l' time rinfo i)))) \<subseteq>
      frozen_in (cs_subs (in_ctl i))" for sp rinfo
    using frozen_Insert [OF sub_inv_of_ctl [OF inv]]
    by (simp add: inserted_def Let_def split_beta upd_ctl_def)
  then show ?thesis
    unfolding accepted(1) Subscribe_form [OF accepted(2,3) refl] snd_conv registered_sticky_event .
qed simp

lemma frozen_unsubscribe:
  assumes inv: "ctl_inv (in_ctl i)"
  shows "frozen_in (cs_subs (in_ctl (snd (UnsubscribeCommonEvent_inner l i)))) \<subseteq>
    frozen_in (cs_subs (in_ctl i))"
  using frozen_Remove [OF sub_inv_of_ctl [OF inv], of l]
  by (simp add: UnsubscribeCommonEvent_inner_def Let_def subs_Finish split: option.split)

lemma frozen_unfreeze_tasks:
  assumes inv: "ctl_inv (in_ctl i)"
  shows "frozen_in (cs_subs (in_ctl (Unfreeze_inner u i))) \<subseteq> frozen_in (cs_subs (in_ctl i))"
    "frozen_in (cs_subs (in_ctl (UnfreezeAll_inner i))) \<subseteq> frozen_in (cs_subs (in_ctl i))"
    "frozen_in (cs_subs (in_ctl (snd (SetFreezeStatus_inner ps False now i)))) \<subseteq>
       frozen_in (cs_subs (in_ctl i))"
proof -
  note sub = sub_inv_of_ctl [OF inv]
  have "frozen_in (cs_subs (snd (PublishFreezeCommonEvent u c))) = frozen_in (cs_subs c)"
    "frozen_in (cs_subs (snd (PublishAllFreezeCommonEvents c))) = frozen_in (cs_subs c)"
    "frozen_in (cs_subs (snd (PublishFreezeCommonEvent_pids ps c))) = frozen_in (cs_subs c)" for c
    by (rule frozen_in_cong, simp add: subs_unfreeze)+
  then show "frozen_in (cs_subs (in_ctl (Unfreeze_inner u i))) \<subseteq> frozen_in (cs_subs (in_ctl i))"
    "frozen_in (cs_subs (in_ctl (UnfreezeAll_inner i))) \<subseteq> frozen_in (cs_subs (in_ctl i))"
    "frozen_in (cs_subs (in_ctl (snd (SetFreezeStatus_inner ps False now i)))) \<subseteq>
       frozen_in (cs_subs (in_ctl i))"
    using frozen_unfreeze [OF sub]
    by (simp_all add: Unfreeze_inner_def UnfreezeAll_inner_def SetFreezeStatus_inner_def Let_def
      split_beta)
qed

lemma frozen_eq: "registry s = registry t \<Longrightarrow> frozen_in s \<subseteq> frozen_in t"
  by (simp add: frozen_in_def)

lemma exec_task_frozen:
  assumes inv: "ctl_inv (in_ctl i)" and t: "\<not> freezes t"
  shows "frozen_in (cs_subs (in_ctl (exec_task E S K pm cmd now t i))) \<subseteq> frozen_in (cs_subs (in_ctl i))"
proof (cases t)
  case (PublishTask d pinfo l time p u tok user)
  show ?thesis
    unfolding PublishTask exec_task.simps by (rule frozen_eq [OF registered_publish [OF inv]])
next
  case (SubscribeTask sinfo l time p u tok k)
  show ?thesis unfolding SubscribeTask exec_task.simps by (rule frozen_subscribe [OF inv])
next
  case (UnsubscribeTask l)
  show ?thesis unfolding UnsubscribeTask exec_task.simps by (rule frozen_unsubscribe [OF inv])
next
  case (FinishTask l code d ab)
  show ?thesis
    unfolding FinishTask exec_task.simps
    by (rule frozen_eq) (simp add: FinishReceiver_inner_def subs_Finish split: option.split)
qed (use t frozen_unfreeze_tasks [OF inv] in simp_all)

text \<open>An admitted subscription: its record holds what the caller passed.\<close>

lemma inserted_record:
  assumes v: "valid_events info"
    and r: "InsertSubscriber E cmd (Some info) (Some l) time rinfo s = (Some p, s')"
  shows "subRecordInfo (subHeap s' p) = rinfo" "commonEventListener (subHeap s' p) = l"
proof -
  have "subRecordInfo (subHeap s' p) = rinfo \<and> commonEventListener (subHeap s' p) = l"
  proof (cases "GetSubscriberRecord s l")
    case (Some q)
    then have "commonEventListener (subHeap s q) = l"
      by (auto simp: GetSubscriberRecord_def dest: find_listener_Some)
    then show ?thesis
      using r by (auto simp: InsertSubscriber_update [OF v Some] UpdateSubscriberRecordLocked_def Let_def
        ces_frame set_record_def)
  next
    case None
    then show ?thesis
      using r by (auto simp: InsertSubscriber_new [OF v None] Let_def split_beta
        InsertSubscriberRecordLocked_frame fresh_record_def split: if_splits)
  qed
  then show "subRecordInfo (subHeap s' p) = rinfo" "commonEventListener (subHeap s' p) = l" by simp_all
qed

section \<open>Freezing is gated\<close>

definition no_freezes :: "'kv service_state \<Rightarrow> bool" where
  "no_freezes s \<longleftrightarrow> (\<forall>t \<in> set (srvQueue s). \<not> freezes t)"

fun foreign :: "call \<Rightarrow> bool" where
  "foreign Own = True"
| "foreign (Call E cl) = (\<not> is_resource_manager E cl)"

definition foreign_step :: "'kv service_state \<Rightarrow> 'kv service_state \<Rightarrow> bool" where
  "foreign_step s s' \<longleftrightarrow> (\<exists>a. foreign a \<and> service_step a s s')"

text \<open>A handler appends at most one task, and only the handlers of the resource manager append
  one that freezes.\<close>

definition appended :: "'kv service_state \<Rightarrow> 'kv service_state \<Rightarrow> bool" where
  "appended s s' \<longleftrightarrow> srvQueue s' = srvQueue s \<or> (\<exists>t. srvQueue s' = srvQueue s @ [t] \<and> \<not> freezes t)"

lemma appended_simps [simp]:
  "appended s s" "appended s (s\<lparr>sv_inner := i\<rparr>)" "appended s (s\<lparr>sv_flood := m\<rparr>)"
  "\<not> freezes t \<Longrightarrow> appended s (submit t s)"
  "\<not> freezes t \<Longrightarrow> appended s (submit t (s\<lparr>sv_flood := m\<rparr>))"
  by (simp_all add: appended_def submit_def)

lemma Detailed_appended:
  "appended s (snd (PublishCommonEventDetailed E time now d pinfo l p u tok user s))"
  by (simp add: PublishCommonEventDetailed_def Let_def split_beta split: option.split)

lemma handler_tasks:
  assumes "service_step (Call E cl) s s'" "\<not> is_resource_manager E cl"
  shows "appended s s'"
  using assms(1)
proof (cases rule: service_step.cases)
  case (publish time now d pinfo l user)
  then show ?thesis by (simp add: PublishCommonEvent_srv_def Detailed_appended)
next
  case (publish_proxy time now d pinfo l u tok user)
  then show ?thesis by (simp add: PublishCommonEvent_proxy_srv_def Detailed_appended split_beta)
next
  case (subscribe time sinfo l k)
  then show ?thesis by (simp add: SubscribeCommonEvent_srv_def Let_def split: option.split)
next
  case (remove_sticky event)
  then show ?thesis by (simp add: RemoveStickyCommonEvent_srv_def Let_def split_beta)
next
  case (set_static S K enable)
  then show ?thesis by (simp add: SetStaticSubscriberState_srv_def split_beta)
next
  case (set_static_events S K events enable)
  then show ?thesis by (simp add: SetStaticSubscriberStateByEvents_def split_beta)
qed (use assms(2) in \<open>simp_all add: UnsubscribeCommonEvent_srv_def UnsubscribeCommonEventSync_def
  FinishReceiver_srv_def Freeze_srv_def Unfreeze_srv_def UnfreezeAll_srv_def SetFreezeStatus_srv_def\<close>)

lemma handler_step_ctl: "service_step (Call E cl) s s' \<Longrightarrow> ctl_of s' = ctl_of s"
  by (erule service_step.cases) (simp_all only: call.distinct call.inject handler_ctl)

lemma foreign_step_frozen:
  assumes st: "service_step a s s'" and f: "foreign a" and inv: "ctl_inv (ctl_of s)" and nf: "no_freezes s"
  shows "no_freezes s' \<and> frozen_in (cs_subs (ctl_of s')) \<subseteq> frozen_in (cs_subs (ctl_of s))"
proof (cases a)
  case (Call E cl)
  have st: "service_step (Call E cl) s s'" using st by (simp add: Call)
  have "no_freezes s'" using handler_tasks [OF st] f nf by (auto simp: Call no_freezes_def appended_def)
  then show ?thesis by (simp add: handler_step_ctl [OF st])
next
  case Own
  from st show ?thesis
  proof (cases rule: service_step.cases)
    case init
    then show ?thesis using nf by (simp add: Init_srv_def no_freezes_def)
  next
    case (run E S K pm cmd now)
    then show ?thesis
      using nf exec_task_frozen [OF inv] by (simp add: run_task_def no_freezes_def split: list.split)
  next
    case (died l)
    then show ?thesis
      using nf frozen_Remove [OF sub_inv_of_ctl [OF inv]]
      by (simp add: OnRemoteDied_def no_freezes_def split: option.split)
  next
    case (manager c)
    have "frozen_in (cs_subs c) \<subseteq> frozen_in (cs_subs (ctl_of s))"
      using internal_step_kept [OF manager(3) inv] by (simp add: kept_def frozen_eq)
    then show ?thesis using nf by (simp add: manager no_freezes_def)
  next
    case boot_task
    then show ?thesis using nf by (simp add: no_freezes_def)
  qed (simp_all add: Own)
qed

end
