(* ===== verification/Sticky_Flow.thy ===== *)
theory Sticky_Flow
  imports Service_Frame
begin

text \<open>
  Sticky events through the service: the invariant of the store (\<open>sticky_inv\<close>), what an accepted
  publication leaves in it, and which stored events a new subscriber is sent.
\<close>

section \<open>The invariant\<close>

definition event_name :: "ctl_state \<Rightarrow> payload_ptr \<Rightarrow> string" where
  "event_name c q = action_of (cs_payloads c q)"

definition publisher_ok :: "EventRecordInfo \<Rightarrow> bool" where
  "publisher_ok r \<longleftrightarrow> isSystemApp r \<or> isSubsystem r \<and> \<not> isProxy r"

definition sticky_inv :: "'kv inner_state \<Rightarrow> bool" where
  "sticky_inv i \<longleftrightarrow> (\<forall>e r. map_of (in_sticky i) e = Some r \<longrightarrow>
     e \<noteq> [] \<and> payloadPtr r < nextPayload i \<and> event_name (in_ctl i) (payloadPtr r) = e \<and>
     publisher_ok (eventRecordInfo r))"

lemma sticky_invD:
  assumes "sticky_inv i" "map_of (in_sticky i) e = Some r"
  shows "e \<noteq> []" "payloadPtr r < nextPayload i" "event_name (in_ctl i) (payloadPtr r) = e"
    "publisher_ok (eventRecordInfo r)"
  using assms by (auto simp: sticky_inv_def)

text \<open>Most operations keep the store, the allocation pointer and all event names.\<close>

definition same_sticky :: "'kv inner_state \<Rightarrow> 'kv inner_state \<Rightarrow> bool" where
  "same_sticky i i' \<longleftrightarrow> in_sticky i' = in_sticky i \<and> nextPayload i' = nextPayload i \<and>
     event_name (in_ctl i') = event_name (in_ctl i)"

lemma same_sticky_refl [simp]: "same_sticky i i"
  by (simp add: same_sticky_def)

lemma same_sticky_trans: "same_sticky a b \<Longrightarrow> same_sticky b c \<Longrightarrow> same_sticky a c"
  by (simp add: same_sticky_def)

lemma same_sticky_inv: "same_sticky i i' \<Longrightarrow> sticky_inv i \<Longrightarrow> sticky_inv i'"
  by (simp add: same_sticky_def sticky_inv_def)

lemma same_sticky_upd [simp]: "same_sticky i (upd_ctl f i) = (event_name (f (in_ctl i)) = event_name (in_ctl i))"
  by (simp add: same_sticky_def)

lemma event_name_payloads: "cs_payloads c' = cs_payloads c \<Longrightarrow> event_name c' = event_name c"
  by (simp add: event_name_def fun_eq_iff)

lemma event_name_subs [simp]: "event_name (upd_subs f c) = event_name c"
  by (rule event_name_payloads) simp

lemma publish_payloads [simp]: "cs_payloads (snd (PublishCommonEvent_ctl E pm er l c)) = cs_payloads c"
  by (simp add: PublishCommonEvent_ctl_def ProcessUnorderedEvent_def ProcessOrderedEvent_def
    EnqueueUnorderedRecord_def EnqueueOrderedRecord_def ScheduleOrderedCommonEvent_def alloc_ord_def Let_def
    case_prod_unfold)

lemma Finish_names [simp]:
  "event_name (snd (FinishReceiverAction (Some o') code d ab c)) = event_name c"
  by (simp add: FinishReceiverAction_def FinishReceiver_ctl_def event_name_def Let_def fun_eq_iff)

lemma unfreeze_payloads [simp]:
  "cs_payloads (PublishFrozenEventsInner m c) = cs_payloads c"
  "cs_payloads (foldl (\<lambda>c p. PublishFrozenEventsInner (snd p) c) c ms) = cs_payloads c"
  "cs_payloads (PublishFreeze_pids qs c) = cs_payloads c"
proof -
  show *: "cs_payloads (PublishFrozenEventsInner m c) = cs_payloads c" for m c
    by (simp add: PublishFrozenEventsInner_def)
  show "cs_payloads (foldl (\<lambda>c p. PublishFrozenEventsInner (snd p) c) c ms) = cs_payloads c"
    by (induction ms arbitrary: c) (simp_all add: *)
  show "cs_payloads (PublishFreeze_pids qs c) = cs_payloads c"
    by (induction qs arbitrary: c) (simp_all add: * Let_def split_beta)
qed

lemma freeze_tasks_sticky:
  "same_sticky i (Freeze_inner u now i)" "same_sticky i (Unfreeze_inner u i)"
  "same_sticky i (UnfreezeAll_inner i)" "same_sticky i (snd (SetFreezeStatus_inner ps f now i))"
  by (simp_all add: Freeze_inner_def Unfreeze_inner_def UnfreezeAll_inner_def SetFreezeStatus_inner_def
    PublishFreezeCommonEvent_def PublishAllFreezeCommonEvents_def PublishFreezeCommonEvent_pids_def
    Let_def case_prod_unfold same_sticky_def event_name_def fun_eq_iff)

section \<open>Sending stored events to a new subscriber\<close>

definition wanted_by :: "ctl_state \<Rightarrow> string \<Rightarrow> CommonEventRecord \<Rightarrow> bool" where
  "wanted_by c bundle er \<longleftrightarrow>
     pi_bundleName (publishInfo (cs_payloads c (payloadPtr er))) \<in> {[], bundle}"

definition sticky_task :: "sub_ptr \<Rightarrow> CommonEventRecord \<Rightarrow> OrderedEventRecord" where
  "sticky_task p er = (FillCommonEventRecord er)\<lparr>receivers := [p], deliveryState := [PENDING]\<rparr>"

lemma publish_stickies_names [simp]: "event_name (publish_stickies E pm p ers c) = event_name c"
proof (induction ers arbitrary: c)
  case (Cons er ers)
  have "event_name (c\<lparr>cs_payloads := (cs_payloads c)(q := (cs_payloads c q)\<lparr>publishInfo := x\<rparr>)\<rparr>) =
      event_name c" for q x by (simp add: event_name_def fun_eq_iff)
  moreover have "event_name (snd (PublishStickyCommonEvent_ctl E pm er (Some p) c)) = event_name c" for c
    by (rule event_name_payloads) simp
  ultimately show ?case using Cons by (simp add: Let_def)
qed simp

lemma publish_stickies_spec:
  assumes "c' = publish_stickies E pm p ers c"
    and "wanted = filter (wanted_by c (bundleName (subRecordInfo (sub_rec c p)))) ers"
  shows "ordNext c' = ordNext c + length wanted \<and>
    unorderedEventQueue c' = unorderedEventQueue c @ [ordNext c ..< ordNext c'] \<and>
    map (ordHeap c') [ordNext c ..< ordNext c'] = map (sticky_task p) wanted \<and>
    (\<forall>o' < ordNext c. ordHeap c' o' = ordHeap c o') \<and>
    (\<forall>q. commonEventData (cs_payloads c' q) = commonEventData (cs_payloads c q))"
  using assms
proof (induction ers arbitrary: c wanted)
  case (Cons er ers)
  show ?case
  proof (cases "wanted_by c (bundleName (subRecordInfo (sub_rec c p))) er")
    case False
    then have "c' = publish_stickies E pm p ers c"
      using Cons.prems(1) by (simp add: wanted_by_def Let_def)
    moreover have "wanted = filter (wanted_by c (bundleName (subRecordInfo (sub_rec c p)))) ers"
      using Cons.prems(2) False by simp
    ultimately show ?thesis by (rule Cons.IH)
  next
    case True
    let ?pl = "cs_payloads c (payloadPtr er)"
    define c1 where "c1 = c\<lparr>cs_payloads := (cs_payloads c)(payloadPtr er :=
      ?pl\<lparr>publishInfo := (publishInfo ?pl)\<lparr>pi_ordered := False\<rparr>\<rparr>)\<rparr>"
    define c2 where "c2 = snd (PublishStickyCommonEvent_ctl E pm er (Some p) c1)"
    have same: "wanted_by c2 = wanted_by c" "cs_subs c2 = cs_subs c" "ordNext c2 = ordNext c + 1"
      "unorderedEventQueue c2 = unorderedEventQueue c @ [ordNext c]"
      "ordHeap c2 = (ordHeap c)(ordNext c := sticky_task p er)"
      "\<And>q. commonEventData (cs_payloads c2 q) = commonEventData (cs_payloads c q)"
      by (simp_all add: c1_def c2_def wanted_by_def fun_eq_iff sticky_task_def)
    have step: "c' = publish_stickies E pm p ers c2"
      using Cons.prems(1) True by (auto simp: Let_def c1_def c2_def wanted_by_def)
    have w: "wanted = er # filter (wanted_by c2 (bundleName (subRecordInfo (sub_rec c2 p)))) ers"
      using Cons.prems(2) True by (simp add: same)
    note IH0 = Cons.IH [OF step refl]
    have IH1: "ordNext c' = ordNext c + length wanted"
      using IH0 [THEN conjunct1] by (simp add: w same)
    have IH2: "unorderedEventQueue c' = unorderedEventQueue c @ ordNext c # [Suc (ordNext c) ..< ordNext c']"
      using IH0 [THEN conjunct2, THEN conjunct1] by (simp add: same del: upt_Suc)
    have IH3: "map (ordHeap c') [Suc (ordNext c) ..< ordNext c'] = map (sticky_task p) (tl wanted)"
      using IH0 [THEN conjunct2, THEN conjunct2, THEN conjunct1] by (simp add: w same del: upt_Suc)
    have IH4: "\<forall>o' < Suc (ordNext c). ordHeap c' o' = ordHeap c2 o'"
      "\<forall>q. commonEventData (cs_payloads c' q) = commonEventData (cs_payloads c q)"
      using IH0 [THEN conjunct2, THEN conjunct2, THEN conjunct2] by (simp_all add: same(3,6))
    have "[ordNext c ..< ordNext c'] = ordNext c # [Suc (ordNext c) ..< ordNext c']"
      using IH1 by (intro upt_conv_Cons) (simp add: w)
    then show ?thesis using IH1 IH2 IH3 IH4 by (simp add: w same(5) del: upt_Suc)
  qed
qed simp

section \<open>Every step keeps the invariant\<close>

lemma PublishStickyEvent_sticky: "same_sticky i (snd (PublishStickyEvent E pm sp rc i))"
  by (simp add: PublishStickyEvent_def split_beta split: option.split)

lemma Subscribe_sticky: "same_sticky i (snd (SubscribeCommonEvent_inner E pm cmd sinfo l time p u tok b k i))"
proof (cases rule: Subscribe_cases [of E pm cmd sinfo l time p u tok b k i])
  case (accepted l' come user)
  have "same_sticky i (snd (inserted E cmd sp l' time rinfo i))" for sp rinfo
    by (simp add: inserted_def Let_def split_beta same_sticky_def)
  then show ?thesis
    unfolding accepted(1) Subscribe_form [OF accepted(2,3) refl] snd_conv
    by (rule same_sticky_trans [OF _ PublishStickyEvent_sticky])
qed simp

text \<open>The checks of a publication before anything is stored, and what follows them.\<close>

definition publish_refused ::
  "env \<Rightarrow> CommonEventData \<Rightarrow> CommonEventPublishInfo \<Rightarrow> remote option \<Rightarrow> pid_t \<Rightarrow> uid_t \<Rightarrow> token_id \<Rightarrow> int32 \<Rightarrow>
     'kv inner_state \<Rightarrow> bool" where
  "publish_refused E d pinfo l p u tok user i \<longleftrightarrow>
     (let action = w_action (cd_want d); r = CheckUserId E p u tok EventComeFrom_init user
      in action = [] \<or> \<not> pi_ordered pinfo \<and> l \<noteq> None \<or> \<not> IsPublishAllowed action (to_int32 u) i \<or>
         \<not> fst r \<or> IsSystemEvent action \<and> \<not> cf_isSystemApp (fst (snd r)) \<and> \<not> cf_isSubsystem (fst (snd r)))"

definition publisher_info :: "EventComeFrom \<Rightarrow> pid_t \<Rightarrow> uid_t \<Rightarrow> token_id \<Rightarrow> string \<Rightarrow> EventRecordInfo" where
  "publisher_info come p u tok b = \<lparr>isSubsystem = cf_isSubsystem come,
     isSystemApp = cf_isSystemApp come \<or> cf_isCemShell come, isProxy = cf_isProxy come, pid = p,
     uid = u, callerToken = tok, bundleName = b, subId = []\<rparr>"

definition published_record ::
  "env \<Rightarrow> CommonEventData \<Rightarrow> int64 \<Rightarrow> pid_t \<Rightarrow> uid_t \<Rightarrow> token_id \<Rightarrow> int32 \<Rightarrow> string \<Rightarrow> 'kv inner_state \<Rightarrow>
     CommonEventRecord" where
  "published_record E d time p u tok user b i =
     (let (_, come, user') = CheckUserId E p u tok EventComeFrom_init user
      in \<lparr>isSystemEvent = IsSystemEvent (w_action (cd_want d)), userId = user',
          payloadPtr = nextPayload i, recordTime = time, eventRecordInfo = publisher_info come p u tok b\<rparr>)"

definition with_payload ::
  "env \<Rightarrow> senv \<Rightarrow> 'kv kv_ops \<Rightarrow> CommonEventData \<Rightarrow> CommonEventPublishInfo \<Rightarrow> token_id \<Rightarrow> int32 \<Rightarrow> string \<Rightarrow>
     'kv inner_state \<Rightarrow> 'kv inner_state" where
  "with_payload E S K d pinfo tok user' b i = i
     \<lparr>in_static := PublishCommonEvent_static E S K d pinfo tok user' b (in_static i),
      nextPayload := nextPayload i + 1,
      in_ctl := (in_ctl i)\<lparr>cs_payloads := (cs_payloads (in_ctl i))
        (nextPayload i := \<lparr>commonEventData = d, publishInfo = pinfo\<rparr>)\<rparr>\<rparr>"

lemma Publish_refused:
  assumes "publish_refused E d pinfo l p u tok user i"
  shows "\<exists>es. PublishCommonEvent_inner E S K pm d pinfo l time p u tok user b i =
    (False, i\<lparr>innerLog := innerLog i @ es\<rparr>)"
proof -
  have "\<exists>es. i = i\<lparr>innerLog := innerLog i @ es\<rparr>" by (rule exI [of _ "[]"]) simp
  then show ?thesis
    using assms
    by (auto simp: publish_refused_def PublishCommonEvent_inner_def Let_def split_beta SendPublishHiSysEvent_def)
qed

lemma Publish_form:
  assumes "\<not> publish_refused E d pinfo l p u tok user i"
    and er: "er = published_record E d time p u tok user b i"
    and j: "j = with_payload E S K d pinfo tok (userId er) b i"
  shows "PublishCommonEvent_inner E S K pm d pinfo l time p u tok user b i =
    (let (accepted, i3) = (if pi_sticky pinfo then ProcessStickyEvent E er j else (True, j))
     in if accepted then (True, upd_ctl (\<lambda>c. snd (PublishCommonEvent_ctl E pm er l c)) i3)
        else (False, SendPublishHiSysEvent (userId er) b p (to_int32 u) (w_action (cd_want d)) False i3))"
proof -
  obtain ok come user' where c: "CheckUserId E p u tok EventComeFrom_init user = (ok, come, user')"
    by (metis prod_cases3)
  have facts: "ok" "w_action (cd_want d) \<noteq> []" "(\<not> pi_ordered pinfo \<and> l \<noteq> None) = False"
    "IsPublishAllowed (w_action (cd_want d)) (to_int32 u) i"
    "(IsSystemEvent (w_action (cd_want d)) \<and> \<not> cf_isSystemApp come \<and> \<not> cf_isSubsystem come) = False"
    using assms(1) by (auto simp: publish_refused_def Let_def c)
  have er': "er = \<lparr>isSystemEvent = IsSystemEvent (w_action (cd_want d)), userId = user',
      payloadPtr = nextPayload i, recordTime = time, eventRecordInfo = publisher_info come p u tok b\<rparr>"
    by (simp add: er published_record_def c)
  have "userId er = user'" by (simp add: er')
  then show ?thesis
    unfolding PublishCommonEvent_inner_def Let_def facts if_False c prod.case j
    by (cases "pi_sticky pinfo")
      (simp_all add: facts er' publisher_info_def with_payload_def upd_ctl_def split_beta)
qed

lemma Publish_sticky:
  assumes r: "r = PublishCommonEvent_inner E S K pm d pinfo l time p u tok user b i"
    and acc: "fst r"
  defines "er \<equiv> published_record E d time p u tok user b i"
  shows "w_action (cd_want d) \<noteq> [] \<and> nextPayload (snd r) = nextPayload i + 1 \<and>
    cs_payloads (in_ctl (snd r)) = (cs_payloads (in_ctl i))
        (nextPayload i := \<lparr>commonEventData = d, publishInfo = pinfo\<rparr>) \<and>
    map_of (in_sticky (snd r)) = (if pi_sticky pinfo
      then (map_of (in_sticky i))(w_action (cd_want d) \<mapsto> er) else map_of (in_sticky i)) \<and>
    (pi_sticky pinfo \<longrightarrow> publisher_ok (eventRecordInfo er))"
proof -
  define j where "j = with_payload E S K d pinfo tok (userId er) b i"
  have nr: "\<not> publish_refused E d pinfo l p u tok user i"
    using acc Publish_refused [of E d pinfo l p u tok user i S K pm time b] by (auto simp: r)
  then have ne: "w_action (cd_want d) \<noteq> []" by (simp add: publish_refused_def Let_def)
  have ptr: "payloadPtr er = nextPayload i"
    by (simp add: er_def published_record_def split_beta)
  have j': "in_sticky j = in_sticky i" "nextPayload j = nextPayload i + 1"
    "cs_payloads (in_ctl j) = (cs_payloads (in_ctl i))
      (nextPayload i := \<lparr>commonEventData = d, publishInfo = pinfo\<rparr>)"
    by (simp_all add: j_def with_payload_def)
  note form = Publish_form [OF nr er_def [THEN meta_eq_to_obj_eq] j_def, of pm]
  show ?thesis
  proof (cases "pi_sticky pinfo")
    case True
    then show ?thesis
      using acc unfolding r form
      by (simp add: ProcessStickyEvent_def Let_def split: if_splits)
        (auto simp: j' ne ptr UpdateStickyEvent_def Update_map publisher_ok_def)
  next
    case False
    then show ?thesis unfolding r form by (simp add: j' ne)
  qed
qed

lemma Publish_rejected_sticky:
  assumes r: "r = PublishCommonEvent_inner E S K pm d pinfo l time p u tok user b i"
    and rej: "\<not> fst r"
  shows "in_sticky (snd r) = in_sticky i \<and> nextPayload i \<le> nextPayload (snd r) \<and>
    (\<forall>q < nextPayload i. cs_payloads (in_ctl (snd r)) q = cs_payloads (in_ctl i) q) \<and>
    cs_subs (in_ctl (snd r)) = cs_subs (in_ctl i)"
proof (cases "publish_refused E d pinfo l p u tok user i")
  case True
  then show ?thesis using Publish_refused [OF True, of S K pm time b] by (auto simp: r)
next
  case False
  define er where "er = published_record E d time p u tok user b i"
  define j where "j = with_payload E S K d pinfo tok (userId er) b i"
  have "in_sticky j = in_sticky i" "nextPayload j = nextPayload i + 1"
    "cs_subs (in_ctl j) = cs_subs (in_ctl i)"
    "\<forall>q < nextPayload i. cs_payloads (in_ctl j) q = cs_payloads (in_ctl i) q"
    by (simp_all add: j_def with_payload_def)
  then show ?thesis
    using rej unfolding r Publish_form [OF False er_def j_def]
    by (auto simp: ProcessStickyEvent_def Let_def split: if_splits)
qed

lemma publish_keeps_sticky_inv:
  assumes inv: "sticky_inv i"
  shows "sticky_inv (snd (PublishCommonEvent_inner E S K pm d pinfo l time p u tok user b i))"
proof -
  define r where "r = PublishCommonEvent_inner E S K pm d pinfo l time p u tok user b i"
  have "sticky_inv (snd r)"
  proof (cases "fst r")
    case True
    note P = Publish_sticky [OF r_def True]
    have ptr: "payloadPtr (published_record E d time p u tok user b i) = nextPayload i"
      by (simp add: published_record_def split_beta)
    have old: "q < nextPayload i \<Longrightarrow> event_name (in_ctl (snd r)) q = event_name (in_ctl i) q" for q
      using P by (simp add: event_name_def)
    have new: "event_name (in_ctl (snd r)) (nextPayload i) = w_action (cd_want d)"
      using P by (simp add: event_name_def)
    show ?thesis
      unfolding sticky_inv_def
    proof (intro allI impI)
      fix e er assume m: "map_of (in_sticky (snd r)) e = Some er"
      show "e \<noteq> [] \<and> payloadPtr er < nextPayload (snd r) \<and>
        event_name (in_ctl (snd r)) (payloadPtr er) = e \<and> publisher_ok (eventRecordInfo er)"
      proof (cases "pi_sticky pinfo \<and> e = w_action (cd_want d)")
        case True
        then show ?thesis using m P ptr new by auto
      next
        case False
        then have "map_of (in_sticky i) e = Some er" using m P by (auto split: if_splits)
        from sticky_invD [OF inv this] show ?thesis using old P by auto
      qed
    qed
  next
    case False
    note P = Publish_rejected_sticky [OF r_def False]
    then show ?thesis
      using sticky_invD [OF inv] unfolding sticky_inv_def event_name_def
      by (metis order_less_le_trans)
  qed
  then show ?thesis by (simp add: r_def)
qed

lemma exec_task_sticky:
  assumes inv: "sticky_inv i"
  shows "sticky_inv (exec_task E S K pm cmd now t i)"
proof (cases t)
  case (PublishTask d pinfo l time p u tok user)
  then show ?thesis by (simp add: publish_keeps_sticky_inv inv)
next
  case (SubscribeTask sinfo l time p u tok k)
  then show ?thesis by (simp add: same_sticky_inv [OF Subscribe_sticky inv])
next
  case (UnsubscribeTask l)
  then show ?thesis
    by (intro same_sticky_inv [OF _ inv])
      (simp add: UnsubscribeCommonEvent_inner_def Let_def split: option.split)
next
  case (FinishTask l code d ab)
  then show ?thesis
    by (intro same_sticky_inv [OF _ inv]) (simp add: FinishReceiver_inner_def split: option.split)
qed (simp_all add: same_sticky_inv [OF freeze_tasks_sticky(1) inv] same_sticky_inv [OF freeze_tasks_sticky(2) inv]
  same_sticky_inv [OF freeze_tasks_sticky(3) inv] same_sticky_inv [OF freeze_tasks_sticky(4) inv])

lemma submit_inner [simp]: "sv_inner (submit t s) = sv_inner s"
  by (simp add: submit_def)

lemma handler_inner:
  "sv_inner (snd (PublishCommonEvent_srv E cl time now d pinfo l user s)) = sv_inner s"
  "sv_inner (snd (PublishCommonEvent_proxy_srv E cl time now d pinfo l u tok user s)) = sv_inner s"
  "sv_inner (snd (SubscribeCommonEvent_srv E cl time sinfo l k s)) = sv_inner s"
  "sv_inner (snd (UnsubscribeCommonEvent_srv l s)) = sv_inner s"
  "sv_inner (snd (UnsubscribeCommonEventSync l s)) = sv_inner s"
  "sv_inner (snd (FinishReceiver_srv l code d' ab s)) = sv_inner s"
  "sv_inner (snd (Freeze_srv E cl u s)) = sv_inner s"
  "sv_inner (snd (Unfreeze_srv E cl u s)) = sv_inner s"
  "sv_inner (snd (UnfreezeAll_srv E cl s)) = sv_inner s"
  "sv_inner (snd (SetFreezeStatus_srv E cl ps f s)) = sv_inner s"
  by (simp_all add: PublishCommonEvent_srv_def PublishCommonEvent_proxy_srv_def
    PublishCommonEventDetailed_def SubscribeCommonEvent_srv_def UnsubscribeCommonEvent_srv_def
    UnsubscribeCommonEventSync_def FinishReceiver_srv_def Freeze_srv_def Unfreeze_srv_def
    UnfreezeAll_srv_def SetFreezeStatus_srv_def Let_def split_beta split: option.split)

lemma handler_sticky:
  assumes "service_step (Call E cl) s s'" "sticky_inv (sv_inner s)"
  shows "sticky_inv (sv_inner s')"
  using assms(1)
proof (cases rule: service_step.cases)
  case (remove_sticky event)
  have "sticky_inv (snd (RemoveStickyCommonEvent_inner event u (sv_inner s)))" for u
    using assms(2) by (simp add: RemoveStickyCommonEvent_inner_def split_beta sticky_inv_def Remove_map)
  then show ?thesis
    using assms(2) by (simp add: remove_sticky RemoveStickyCommonEvent_srv_def Let_def split_beta)
next
  case (set_static S K enable)
  then show ?thesis
    using assms(2) by (simp add: SetStaticSubscriberState_srv_def SetStaticSubscriberState_inner_def
      split_beta sticky_inv_def)
next
  case (set_static_events S K events enable)
  then show ?thesis
    using assms(2) by (simp add: SetStaticSubscriberStateByEvents_def
      SetStaticSubscriberState_events_inner_def split_beta sticky_inv_def)
qed (simp_all add: handler_inner assms(2))

lemma step_sticky:
  assumes st: "service_step a s s'" and c: "ctl_inv (ctl_of s)" and inv: "sticky_inv (sv_inner s)"
  shows "sticky_inv (sv_inner s')"
proof (cases a)
  case (Call E cl)
  then show ?thesis using handler_sticky st inv by blast
next
  case Own
  from st show ?thesis
  proof (cases rule: service_step.cases)
    case init
    then show ?thesis using inv by (simp add: Init_srv_def)
  next
    case (run E S K pm cmd now)
    then show ?thesis using exec_task_sticky [OF inv] inv by (auto simp: run_task_def split: list.split)
  next
    case (died l)
    then show ?thesis
      using inv by (auto simp: OnRemoteDied_def split: option.split intro!: same_sticky_inv [OF _ inv])
  next
    case (manager c)
    have "event_name c = event_name (ctl_of s)"
      using internal_step_kept [OF manager(3) assms(2)] by (intro event_name_payloads) (simp add: kept_def)
    then show ?thesis by (simp add: manager same_sticky_inv [OF _ inv])
  next
    case boot_task
    then show ?thesis using inv by (simp add: sticky_inv_def)
  qed (simp_all add: Own)
qed

lemma reachable_sticky: "service_reachable s \<Longrightarrow> sticky_inv (sv_inner s)"
proof (induction rule: service_reachable.induct)
  case (start control h ps os d)
  then show ?case by (simp add: service_init_def inner_init_def sticky_inv_def)
next
  case (step s a s')
  then show ?case using step_sticky reachable_inv [OF service_reachable_ctl] by blast
qed

end
