(* ===== verification/Service_Props.thy ===== *)
theory Service_Props
  imports Sticky_Flow Static_Props Delivery_Props
begin

text \<open>
  Properties of the service as a whole: its refinement of the ordered protocol, who may freeze,
  publish and act for which user, and the life of sticky events.
\<close>

section \<open>States for the instances\<close>

definition ex_inner :: "ctl_state \<Rightarrow> (string \<times> string) list inner_state" where
  "ex_inner c = inner_init [] c (static_init \<lparr>kvOpen = False, kvDb = []\<rparr>)"

definition ex_start :: "(string \<times> string) list service_state" where
  "ex_start = service_init (ex_inner (ctl_init (\<lambda>_. ex_sub) (\<lambda>_. ex_payload True) (\<lambda>_. ex_rec)))"

lemma ex_start_reachable: "service_reachable ex_start"
  unfolding ex_start_def ex_inner_def by (rule service_reachable.start)

definition ex_caller :: caller where
  "ex_caller = \<lparr>cl_pid = 42, cl_uid = 1000, cl_token = 9\<rparr>"

definition ex_data :: CommonEventData where
  "ex_data = \<lparr>cd_want = ex_want, cd_code = 0, cd_data = []\<rparr>"

definition ex_sticky_pub :: CommonEventPublishInfo where
  "ex_sticky_pub = (ex_publish False)\<lparr>pi_sticky := True\<rparr>"

lemma ex_sticky_parts: "w_action (cd_want ex_data) = ''ev.A''" "pi_sticky ex_sticky_pub"
  by (simp_all add: ex_data_def ex_want_def ex_sticky_pub_def)

lemma ex_user: "CheckUserId ex_env 42 1000 9 EventComeFrom_init (-3) =
  (True, \<lparr>cf_isSubsystem = False, cf_isSystemApp = True, cf_isProxy = False, cf_isCemShell = False\<rparr>, 100)"
  by (simp add: CheckUserId_def EventComeFrom_init_def SetSystemUserId_def VerifyNativeToken_def
    VerifyShellToken_def CheckIsSystemAppByUid_def GetOsAccountLocalIdFromUid_def user_consts ex_env_def
    Let_def)

lemma ex_sticky_accepted:
  assumes "publishControlMap i = []"
  shows "fst (PublishCommonEvent_inner ex_env S K [] ex_data ex_sticky_pub None 10 42 1000 9 (-3) b i)"
proof -
  have nr: "\<not> publish_refused ex_env ex_data ex_sticky_pub None 42 1000 9 (-3) i"
    by (simp add: publish_refused_def ex_user IsPublishAllowed_def assms ex_data_def ex_want_def Let_def)
  have "isSystemApp (eventRecordInfo (published_record ex_env ex_data 10 42 1000 9 (-3) b i))"
    "callerToken (eventRecordInfo (published_record ex_env ex_data 10 42 1000 9 (-3) b i)) = 9"
    by (simp_all add: published_record_def ex_user publisher_info_def)
  then show ?thesis
    unfolding Publish_form [OF nr refl refl]
    by (simp add: ex_sticky_pub_def ProcessStickyEvent_def VerifyAccessToken_def ex_env_def Let_def)
qed

text \<open>The service after it ran one sticky publication.\<close>

definition ex_queued :: "(string \<times> string) list service_state" where
  "ex_queued = snd (PublishCommonEvent_srv ex_env ex_caller (Some 10) 10 ex_data ex_sticky_pub None (-3)
     (snd (Init_srv ex_start)))"

definition ex_published :: "(string \<times> string) list service_state" where
  "ex_published = run_task ex_env ex_senv ex_kv [] (\<lambda>_. []) 10 ex_queued"

lemma ex_queued_parts:
  "srvQueue ex_queued = [PublishTask ex_data ex_sticky_pub None 10 42 1000 9 (-3)]"
  "sv_inner ex_queued = sv_inner ex_start"
  by (simp_all add: ex_queued_def PublishCommonEvent_srv_def PublishCommonEventDetailed_def Init_srv_def
    IsReady_def CheckUserIdParams_def IsDlpHap_def user_consts ex_env_def ex_caller_def ex_start_def
    service_init_def submit_def CheckIsFloodAttack_def Let_def)

lemma ex_published_reachable: "service_reachable ex_published"
proof -
  have "service_reachable ex_queued"
    unfolding ex_queued_def
    by (rule service_reachable.step [OF service_reachable.step [OF ex_start_reachable service_step.init]
        service_step.publish])
  then show ?thesis
    unfolding ex_published_def
    by (rule service_reachable.step) (rule service_step.run, simp add: ex_queued_parts)
qed

lemma ex_published_sticky: "\<exists>r. map_of (in_sticky (sv_inner ex_published)) ''ev.A'' = Some r"
proof -
  let ?i = "sv_inner ex_start"
  define r where "r = PublishCommonEvent_inner ex_env ex_senv ex_kv [] ex_data ex_sticky_pub None 10 42 1000 9
    (-3) (task_bundle ex_env 9 1000) ?i"
  have "fst r"
    unfolding r_def by (rule ex_sticky_accepted) (simp add: ex_start_def service_init_def ex_inner_def inner_init_def)
  from Publish_sticky [OF r_def this] show ?thesis
    by (simp add: ex_published_def run_task_def ex_queued_parts r_def [symmetric] ex_sticky_parts)
qed

section \<open>The service refines the ordered protocol\<close>



section \<open>Freezing\<close>

text \<open>C13: Only the resource manager (the native process \<open>resource_schedule_service\<close>) can freeze
  subscribers.  From a reachable state with no freezing task queued, no sequence of steps whose
  calls come from other callers queues such a task or freezes a registered subscriber: every
  listener that is frozen afterwards was frozen before.\<close>

theorem freezing_needs_resource_manager:
  assumes "service_reachable s" "no_freezes s" "foreign_step\<^sup>*\<^sup>* s s'"
  shows "no_freezes s' \<and> frozen_in (cs_subs (ctl_of s')) \<subseteq> frozen_in (cs_subs (ctl_of s))"
proof -
  have "service_reachable s' \<and> no_freezes s' \<and>
    frozen_in (cs_subs (ctl_of s')) \<subseteq> frozen_in (cs_subs (ctl_of s))"
    using assms(3,1,2)
  proof (induction rule: rtranclp_induct)
    case (step t u)
    then obtain a where a: "foreign a" "service_step a t u" by (auto simp: foreign_step_def)
    have IH: "service_reachable t" "no_freezes t"
      "frozen_in (cs_subs (ctl_of t)) \<subseteq> frozen_in (cs_subs (ctl_of s))"
      using step by simp_all
    show ?case
      using foreign_step_frozen [OF a(2,1) reachable_inv [OF service_reachable_ctl [OF IH(1)]] IH(2)] IH(3)
        service_reachable.step [OF IH(1) a(2)] by blast
  qed simp
  then show ?thesis by simp
qed

lemma freezing_needs_resource_manager_instance:
  "no_freezes (snd (Freeze_srv ex_env ex_caller 1000 ex_start))"
proof -
  have "\<not> is_resource_manager ex_env ex_caller"
    by (simp add: is_resource_manager_def VerifyNativeToken_def ex_env_def)
  then have "foreign_step ex_start (snd (Freeze_srv ex_env ex_caller 1000 ex_start))"
    unfolding foreign_step_def
    by (intro exI [of _ "Call ex_env ex_caller"]) (simp add: service_step.freeze)
  moreover have "no_freezes ex_start" by (simp add: no_freezes_def ex_start_def service_init_def)
  ultimately show ?thesis
    using freezing_needs_resource_manager [OF ex_start_reachable] by blast
qed

section \<open>Users\<close>

text \<open>C14: The user an operation acts for.  \<open>CheckUserId\<close> accepts exactly the callers that are
  native processes, shells or system applications and call for themselves, with any user from
  \<open>UNDEFINED_USER\<close> on, and every other caller with \<open>UNDEFINED_USER\<close> only.  If the account service
  knows the caller's uid, an accepted result is never one of the placeholders \<open>CURRENT_USER\<close> and
  \<open>UNDEFINED_USER\<close>, and a caller of the second kind acts for the account of its own uid.\<close>

theorem user_id_resolved:
  assumes "os_local_id E (to_int32 u) = Some n" "n \<ge> 0"
    and r: "CheckUserId E p u tok c user = (ok, come, user')"
    and c: "c = EventComeFrom_init"
  shows "ok = (user \<ge> UNDEFINED_USER \<and> ((p \<noteq> UNDEFINED_PID \<and> (VerifyNativeToken E tok \<or>
      VerifyShellToken E tok \<or> CheckIsSystemAppByUid E u)) \<or> user = UNDEFINED_USER)) \<and>
    (ok \<longrightarrow> user' \<ge> ALL_USER \<and>
      (if p \<noteq> UNDEFINED_PID \<and> (VerifyNativeToken E tok \<or> VerifyShellToken E tok \<or>
           CheckIsSystemAppByUid E u)
       then user \<ge> ALL_USER \<longrightarrow> user' = user else user' = n))"
proof -
  have "VerifyShellToken E tok \<Longrightarrow> \<not> VerifyNativeToken E tok"
    by (simp add: VerifyShellToken_def VerifyNativeToken_def)
  then show ?thesis
    using assms(1,2) r
    by (auto simp: c CheckUserId_def EventComeFrom_init_def SetSystemUserId_def
      GetOsAccountLocalIdFromUid_def user_consts Let_def split: if_splits)
qed

lemma user_id_resolved_instance:
  "snd (snd (CheckUserId ex_env 42 1000 9 EventComeFrom_init CURRENT_USER)) \<ge> ALL_USER"
  using user_id_resolved [of ex_env 1000 100 42 9 EventComeFrom_init CURRENT_USER]
  by (cases "CheckUserId ex_env 42 1000 9 EventComeFrom_init CURRENT_USER")
    (auto simp: ex_env_def user_consts CheckIsSystemAppByUid_def)

section \<open>Publications\<close>

lemma CheckUserId_flags:
  assumes "CheckUserId E p u tok EventComeFrom_init user = (ok, come, user')"
  defines "shell \<equiv> VerifyShellToken E tok" and "native \<equiv> VerifyNativeToken E tok"
    and "app \<equiv> CheckIsSystemAppByUid E u \<and> \<not> VerifyShellToken E tok \<and>
      (\<not> VerifyNativeToken E tok \<or> sys_check_sa_permission E)"
  shows "ok = (user \<ge> UNDEFINED_USER \<and> (p \<noteq> UNDEFINED_PID \<and> (native \<or> shell \<or> app) \<or> user = UNDEFINED_USER))"
    and "user \<ge> UNDEFINED_USER \<Longrightarrow> cf_isSubsystem come = native \<and> cf_isSystemApp come = app \<and>
      cf_isCemShell come = shell \<and> cf_isProxy come = (p = UNDEFINED_PID)"
proof -
  have "VerifyShellToken E tok \<Longrightarrow> \<not> VerifyNativeToken E tok"
    by (simp add: VerifyShellToken_def VerifyNativeToken_def)
  then show "ok = (user \<ge> UNDEFINED_USER \<and> (p \<noteq> UNDEFINED_PID \<and> (native \<or> shell \<or> app) \<or> user = UNDEFINED_USER))"
    "user \<ge> UNDEFINED_USER \<Longrightarrow> cf_isSubsystem come = native \<and> cf_isSystemApp come = app \<and>
      cf_isCemShell come = shell \<and> cf_isProxy come = (p = UNDEFINED_PID)"
    using assms(1)
    by (auto simp: shell_def native_def app_def CheckUserId_def EventComeFrom_init_def Let_def
      split: if_splits)
qed

text \<open>C12: Which publications are accepted, exactly: the event has a name, an unordered one names
  no result receiver, the configured list of publishers allows it, the caller may act for the user,
  a system event comes from a native process or a system application, and a sticky one from a native
  process that is not a proxy or from a system application or shell that holds the sticky permission.
  A publication that is not accepted changes no queue, no subscriber and no stored sticky event.\<close>

theorem publication_accepted_exactly:
  "let action = w_action (cd_want d); native = VerifyNativeToken E tok; shell = VerifyShellToken E tok;
       app = CheckIsSystemAppByUid E u \<and> \<not> shell \<and> (if native then sys_check_sa_permission E else True);
       r = PublishCommonEvent_inner E S K pm d pinfo l time p u tok user b i
   in fst r = (action \<noteq> [] \<and> (pi_ordered pinfo \<or> l = None) \<and> IsPublishAllowed action (to_int32 u) i \<and>
        user \<ge> UNDEFINED_USER \<and> (p \<noteq> UNDEFINED_PID \<and> (native \<or> shell \<or> app) \<or> user = UNDEFINED_USER) \<and>
        (if IsSystemEvent action then native \<or> app else True) \<and>
        (if pi_sticky pinfo
         then p \<noteq> UNDEFINED_PID \<and> native \<or> VerifyAccessToken E tok COMMONEVENT_STICKY \<and> (app \<or> shell)
         else True)) \<and>
      (if fst r then True
       else in_ctl (snd r) = (in_ctl i)\<lparr>cs_payloads := cs_payloads (in_ctl (snd r))\<rparr> \<and>
         in_sticky (snd r) = in_sticky i)"
proof -
  define r where "r = PublishCommonEvent_inner E S K pm d pinfo l time p u tok user b i"
  obtain ok come user' where c: "CheckUserId E p u tok EventComeFrom_init user = (ok, come, user')"
    by (metis prod_cases3)
  note flags = CheckUserId_flags [OF c]
  show ?thesis
  proof (cases "publish_refused E d pinfo l p u tok user i")
    case True
    obtain es where "r = (False, i\<lparr>innerLog := innerLog i @ es\<rparr>)"
      using Publish_refused [OF True, of S K pm time b] unfolding r_def by blast
    then show ?thesis
      using True flags unfolding r_def [symmetric]
      by (auto simp: publish_refused_def c Let_def)
  next
    case False
    define er where "er = published_record E d time p u tok user b i"
    define j where "j = with_payload E S K d pinfo tok (userId er) b i"
    have ok: "user \<ge> UNDEFINED_USER" using False flags(1) by (auto simp: publish_refused_def c Let_def)
    have er: "eventRecordInfo er = publisher_info come p u tok b"
      by (simp add: er_def published_record_def c)
    have j: "in_sticky j = in_sticky i"
      "in_ctl j = (in_ctl i)\<lparr>cs_payloads := cs_payloads (in_ctl j)\<rparr>"
      by (simp_all add: j_def with_payload_def)
    show ?thesis
      using False flags(1) flags(2) [OF ok] j unfolding Publish_form [OF False er_def j_def]
      by (auto simp: publish_refused_def c Let_def ProcessStickyEvent_def er publisher_info_def
        split: if_splits)
  qed
qed

section \<open>Sticky events\<close>

text \<open>C15: In every reachable state of the service the sticky store holds, under a nonempty name,
  an event of that very name whose data is an allocated payload, and every stored event comes from
  a system application or shell, or from a native process that is not a proxy.\<close>

theorem sticky_store_authorised:
  assumes "service_reachable s" "map_of (in_sticky (sv_inner s)) e = Some r"
  shows "e \<noteq> [] \<and> action_of (cs_payloads (ctl_of s) (payloadPtr r)) = e \<and>
    payloadPtr r < nextPayload (sv_inner s) \<and>
    (isSystemApp (eventRecordInfo r) \<or> isSubsystem (eventRecordInfo r) \<and> \<not> isProxy (eventRecordInfo r))"
  using sticky_invD [OF reachable_sticky [OF assms(1)] assms(2)]
  by (simp add: event_name_def publisher_ok_def)

lemma sticky_store_authorised_instance:
  "\<exists>r :: CommonEventRecord. action_of (cs_payloads (ctl_of ex_published) (payloadPtr r)) = ''ev.A''"
proof -
  obtain r where "map_of (in_sticky (sv_inner ex_published)) ''ev.A'' = Some r"
    using ex_published_sticky by blast
  from sticky_store_authorised [OF ex_published_reachable this] show ?thesis by blast
qed



text \<open>A new subscription is sent the stored sticky events at once: one task each, addressed to
  the new record only, for exactly the stored events of the names it subscribes to, in that order,
  whose publication is not restricted to another bundle.  Nothing else is asked: not the permissions
  of either side, not the user, not the filters that decide about every later event.\<close>

theorem new_subscriber_gets_sticky_events:
  assumes ev: "valid_events sinfo"
    and user: "CheckUserId E p u tok EventComeFrom_init (si_userId sinfo) = (True, come, user)"
    and ins: "InsertSubscriber E cmd (Some (sinfo\<lparr>si_userId := user\<rparr>)) (Some l) time
      (subscription_info come p u tok b k (subCount i) user) (cs_subs (in_ctl i)) = (Some q, subs')"
    and c': "c' = in_ctl (snd (SubscribeCommonEvent_inner E pm cmd sinfo (Some l) time p u tok b k i))"
    and wanted: "wanted = filter (wanted_by (in_ctl i) b)
      (FindStickyEventsLocked (ms_events (si_matchingSkills sinfo)) (in_sticky i))"
  shows "cs_subs c' = subs' \<and> commonEventListener (sub_rec c' q) = l \<and>
    unorderedEventQueue c' = unorderedEventQueue (in_ctl i) @ [ordNext (in_ctl i) ..< ordNext c'] \<and>
    map (ordHeap c') [ordNext (in_ctl i) ..< ordNext c'] = map (sticky_task q) wanted"
proof -
  let ?sp = "sinfo\<lparr>si_userId := user\<rparr>" and ?rinfo = "subscription_info come p u tok b k (subCount i) user"
  have ne: "ms_events (si_matchingSkills sinfo) \<noteq> []" using ev by (simp add: valid_events_def)
  have v: "valid_events ?sp" using ev by (simp add: valid_events_def)
  have rec: "subRecordInfo (subHeap subs' q) = ?rinfo" "commonEventListener (subHeap subs' q) = l"
    using inserted_record [OF v ins] by simp_all
  have b: "bundleName ?rinfo = b" by (simp add: subscription_info_def)
  let ?c = "upd_subs (\<lambda>_. subs') (in_ctl i)"
  have w: "wanted_by ?c = wanted_by (in_ctl i)" by (simp add: wanted_by_def fun_eq_iff)
  have r: "inserted E cmd ?sp l time ?rinfo i = (Some q, upd_ctl (upd_subs (\<lambda>_. subs')) (i\<lparr>subCount := subCount i + 1\<rparr>))"
    by (simp add: inserted_def ins)
  have c'': "c' = publish_stickies E pm q (FindStickyEventsLocked (ms_events (si_matchingSkills sinfo)) (in_sticky i)) ?c"
    using ne unfolding c' Subscribe_form [OF ne user refl] r
    by (simp add: PublishStickyEvent_def FindStickyEvents_def Let_def upd_ctl_def)
  have subs: "cs_subs c' = subs'" by (simp add: c'' registered_stickies)
  have "wanted = filter (wanted_by ?c (bundleName (subRecordInfo (sub_rec ?c q))))
      (FindStickyEventsLocked (ms_events (si_matchingSkills sinfo)) (in_sticky i))"
    by (simp add: wanted w rec b)
  note spec = publish_stickies_spec [OF c'' this]
  have "unorderedEventQueue c' = unorderedEventQueue (in_ctl i) @ [ordNext (in_ctl i) ..< ordNext c']"
    using spec [THEN conjunct2, THEN conjunct1] by simp
  moreover have "map (ordHeap c') [ordNext (in_ctl i) ..< ordNext c'] = map (sticky_task q) wanted"
    using spec [THEN conjunct2, THEN conjunct2, THEN conjunct1] by simp
  ultimately show ?thesis by (simp add: subs rec)
qed

text \<open>One stored event, kept for the bundle of the subscriber that comes next.\<close>

definition ex_stored :: "(string \<times> string) list inner_state" where
  "ex_stored = (ex_inner (ctl_init (\<lambda>_. ex_sub) (\<lambda>_. ex_payload True) (\<lambda>_. ex_rec)))
     \<lparr>in_sticky := [(''ev.A'', ex_event)]\<rparr>"

lemma new_subscriber_gets_sticky_events_instance:
  "let c' = in_ctl (snd (SubscribeCommonEvent_inner ex_env [] (\<lambda>_. []) (ex_info\<lparr>si_userId := -3\<rparr>) (Some 7) 3
       42 1000 9 ''sub'' 0 ex_stored))
   in map (ordHeap c') [0 ..< ordNext c'] = [sticky_task 0 ex_event]"
proof -
  let ?sp = "ex_info\<lparr>si_userId := 100\<rparr>"
  let ?come = "\<lparr>cf_isSubsystem = False, cf_isSystemApp = True, cf_isProxy = False, cf_isCemShell = False\<rparr>"
  let ?rinfo = "subscription_info ?come 42 1000 9 ''sub'' 0 (subCount ex_stored) 100"
  have st: "cs_subs (in_ctl ex_stored) = ex_subs0" "ordNext (in_ctl ex_stored) = 0"
    "in_sticky ex_stored = [(''ev.A'', ex_event)]"
    "\<And>q. cs_payloads (in_ctl ex_stored) q = ex_payload True"
    by (simp_all add: ex_stored_def ex_inner_def inner_init_def ctl_init_def ex_subs0_def)
  obtain subs' where ins:
    "InsertSubscriber ex_env (\<lambda>_. []) (Some ?sp) (Some 7) 3 ?rinfo ex_subs0 = (Some 0, subs')"
    by (simp add: ex_subs0_def sub_init_def InsertSubscriber_def Let_def ex_info_def ex_skills_def
      SUBSCRIBE_EVENT_MAX_NUM_def GetSubscriberRecord_def alloc_record_def set_record_def log_sub_def
      InsertSubscriberRecordLocked_def CheckSubscriberCountReachedMaxinum_def at_num_def ex_env_def)
  have v: "valid_events (ex_info\<lparr>si_userId := -3\<rparr>)"
    by (simp add: valid_events_def ex_info_def ex_skills_def SUBSCRIBE_EVENT_MAX_NUM_def)
  have w: "[ex_event] = filter (wanted_by (in_ctl ex_stored) ''sub'')
      (FindStickyEventsLocked (ms_events (si_matchingSkills (ex_info\<lparr>si_userId := -3\<rparr>))) (in_sticky ex_stored))"
    by (simp add: FindStickyEventsLocked_def st wanted_by_def ex_payload_def ex_publish_def ex_info_def
      ex_skills_def)
  show ?thesis
    using new_subscriber_gets_sticky_events [OF v, of ex_env 42 1000 9 ?come 100 "\<lambda>_. []" 7 3 "''sub''" 0
        ex_stored 0 subs' _ "[]" "[ex_event]", OF _ _ refl w] ex_user ins
    by (simp add: st Let_def)
qed

section \<open>Leaving while an ordered event waits\<close>

text \<open>C17: A subscriber that unsubscribes while the first ordered event waits for its answer answers
  it on the way out: the event keeps its data, waits for nobody any more, and a task is queued that
  serves the next receiver.  A subscriber whose process dies is unregistered just the same, but the
  event goes on waiting for it: only the timer gets it moving again.\<close>

theorem leaving_while_awaited:
  assumes inv: "reachable (ctl_of s)"
    and q: "orderedEventQueue (ctl_of s) = o' # os" "curReceiver (ordHeap (ctl_of s) o') = Some l"
    and u: "u = in_ctl (snd (UnsubscribeCommonEvent_inner (Some l) (sv_inner s)))"
    and d: "d = ctl_of (OnRemoteDied (Some l) s)"
  shows "registered u = (registered (ctl_of s))(l := None) \<and> registered d = registered u \<and>
    curReceiver (ordHeap u o') = None \<and> state (ordHeap u o') = event_code IDLE \<and>
    orderedTasks u = orderedTasks (ctl_of s) @ [False] \<and> cs_payloads u = cs_payloads (ctl_of s) \<and>
    ordHeap d = ordHeap (ctl_of s) \<and> orderedTasks d = orderedTasks (ctl_of s)"
proof -
  let ?c = "ctl_of s"
  have core: "core_inv ?c" using reachable_inv [OF inv] by (simp add: ctl_inv_def)
  have "state (ordHeap ?c o') = event_code RECEIVED"
    using core_invD(12) [OF core] q by (auto simp: idle_rec_def waiting_rec_def)
  then have F: "snd (FinishReceiverAction (Some o') (cd_code (commonEventData (payload_of ?c o')))
      (cd_data (commonEventData (payload_of ?c o'))) (resultAbort (ordHeap ?c o')) ?c) =
    (upd_ord o' (\<lambda>r. r\<lparr>state := event_code IDLE, curReceiver := None\<rparr>) ?c)
      \<lparr>orderedTasks := orderedTasks ?c @ [False]\<rparr>"
    by (simp add: FinishReceiverAction_def FinishReceiver_ctl_def Let_def upd_ord_def fun_eq_iff)
  have m: "GetMatchingOrderedReceiver (Some l) ?c = Some o'"
    by (simp add: GetMatchingOrderedReceiver_def q)
  have u': "u = upd_subs (\<lambda>t. snd (RemoveSubscriber (Some l) t))
      ((upd_ord o' (\<lambda>r. r\<lparr>state := event_code IDLE, curReceiver := None\<rparr>) ?c)
        \<lparr>orderedTasks := orderedTasks ?c @ [False]\<rparr>)"
    by (simp add: u UnsubscribeCommonEvent_inner_def m F [simplified] Let_def)
  have d': "d = upd_subs (\<lambda>t. snd (RemoveSubscriber (Some l) t)) ?c"
    by (simp add: d OnRemoteDied_def)
  show ?thesis
    by (simp add: u' d' registry_RemoveSubscriber [OF core_invD(1) [OF core]])
qed

lemma leaving_while_awaited_instance:
  "let s = service_init (ex_inner ex_ctl2)
   in orderedTasks (in_ctl (snd (UnsubscribeCommonEvent_inner (Some 7) (sv_inner s)))) = [False] \<and>
      orderedTasks (ctl_of (OnRemoteDied (Some 7) s)) = []"
proof -
  have s: "ctl_of (service_init (ex_inner ex_ctl2)) = ex_ctl2"
    by (simp add: service_init_def ex_inner_def inner_init_def)
  show ?thesis
    using leaving_while_awaited [of "service_init (ex_inner ex_ctl2)" 0 "[]" 7, OF _ _ _ refl refl]
    by (simp add: s ex_ctl2_reachable ex_ctl2_parts Let_def)
qed

end
