(* ===== verification/Parcel_Codecs.thy ===== *)
theory Parcel_Codecs
  imports Publish_Info
begin

text \<open>
  How the value classes travel between processes: \<open>Marshalling\<close>, \<open>ReadFromParcel\<close> and
  \<open>Unmarshalling\<close> of \<open>MatchingSkills\<close> (\<open>matching_skills.cpp\<close>), \<open>CommonEventSubscribeInfo\<close>
  (\<open>common_event_subscribe_info.cpp\<close>), \<open>CommonEventPublishInfo\<close>
  (\<open>common_event_publish_info.cpp\<close>) and \<open>CommonEventData\<close> (\<open>common_event_data.cpp\<close>).

  The parcel and the conversions of UTF-8 and UTF-16 strings belong to the system's library and are
  the parameter \<open>parcel_ops\<close>: a parcel accepts and yields typed items, and an operation may fail.
  \<open>parcel_lawful\<close> states the documented behaviour: what is written is read in the same order.  A
  parcelable member is a mark followed by its own items.
\<close>

section \<open>The parcel\<close>

type_synonym u16string = "16 word list"

datatype parcel_item = PInt32 int32 | PUint32 int | PBool bool | PString string | PString16 u16string
  | PString16s "u16string list" | PInt32s "int32 list" | PWant Want | PObject

datatype parcel_kind = KInt32 | KUint32 | KBool | KString | KString16 | KString16s | KInt32s | KWant | KObject

fun kind_of :: "parcel_item \<Rightarrow> parcel_kind" where
  "kind_of (PInt32 _) = KInt32"
| "kind_of (PUint32 _) = KUint32"
| "kind_of (PBool _) = KBool"
| "kind_of (PString _) = KString"
| "kind_of (PString16 _) = KString16"
| "kind_of (PString16s _) = KString16s"
| "kind_of (PInt32s _) = KInt32s"
| "kind_of (PWant _) = KWant"
| "kind_of PObject = KObject"

record 'p parcel_ops =
  pc_write :: "parcel_item \<Rightarrow> 'p \<Rightarrow> bool \<times> 'p"
  pc_read :: "parcel_kind \<Rightarrow> 'p \<Rightarrow> parcel_item option \<times> 'p"
  Str8ToStr16 :: "string \<Rightarrow> u16string"
  Str16ToStr8 :: "u16string \<Rightarrow> string"
  VALUE_NULL :: int32
  VALUE_OBJECT :: int32

text \<open>\<open>c\<close> gives the items a parcel still holds.\<close>

definition parcel_lawful :: "'p parcel_ops \<Rightarrow> ('p \<Rightarrow> parcel_item list) \<Rightarrow> bool" where
  "parcel_lawful P c \<longleftrightarrow> VALUE_NULL P \<noteq> VALUE_OBJECT P \<and>
     (\<forall>x p p'. pc_write P x p = (True, p') \<longrightarrow> c p' = c p @ [x]) \<and>
     (\<forall>x xs p. c p = x # xs \<longrightarrow> (\<exists>p'. pc_read P (kind_of x) p = (Some x, p') \<and> c p' = xs))"

definition utf_ok :: "'p parcel_ops \<Rightarrow> string \<Rightarrow> bool" where
  "utf_ok P s \<longleftrightarrow> Str16ToStr8 P (Str8ToStr16 P s) = s"

text \<open>The typed reads.  The forms without an out parameter return a default when they fail.\<close>

definition ReadInt32 :: "'p parcel_ops \<Rightarrow> 'p \<Rightarrow> int32 option \<times> 'p" where
  "ReadInt32 P p = (case pc_read P KInt32 p of (Some (PInt32 i), p') \<Rightarrow> (Some i, p') | (_, p') \<Rightarrow> (None, p'))"

definition ReadInt32_or_0 :: "'p parcel_ops \<Rightarrow> 'p \<Rightarrow> int32 \<times> 'p" where
  "ReadInt32_or_0 P p = (case ReadInt32 P p of (Some i, p') \<Rightarrow> (i, p') | (None, p') \<Rightarrow> (0, p'))"

definition ReadUint32_or_0 :: "'p parcel_ops \<Rightarrow> 'p \<Rightarrow> int \<times> 'p" where
  "ReadUint32_or_0 P p = (case pc_read P KUint32 p of (Some (PUint32 i), p') \<Rightarrow> (i, p') | (_, p') \<Rightarrow> (0, p'))"

definition ReadBool :: "'p parcel_ops \<Rightarrow> 'p \<Rightarrow> bool \<times> 'p" where
  "ReadBool P p = (case pc_read P KBool p of (Some (PBool b), p') \<Rightarrow> (b, p') | (_, p') \<Rightarrow> (False, p'))"

definition ReadString :: "'p parcel_ops \<Rightarrow> 'p \<Rightarrow> string \<times> 'p" where
  "ReadString P p = (case pc_read P KString p of (Some (PString s), p') \<Rightarrow> (s, p') | (_, p') \<Rightarrow> ([], p'))"

definition ReadString16 :: "'p parcel_ops \<Rightarrow> 'p \<Rightarrow> u16string \<times> 'p" where
  "ReadString16 P p = (case pc_read P KString16 p of (Some (PString16 s), p') \<Rightarrow> (s, p') | (_, p') \<Rightarrow> ([], p'))"

definition ReadString16Vector :: "'p parcel_ops \<Rightarrow> 'p \<Rightarrow> u16string list option \<times> 'p" where
  "ReadString16Vector P p =
     (case pc_read P KString16s p of (Some (PString16s v), p') \<Rightarrow> (Some v, p') | (_, p') \<Rightarrow> (None, p'))"

definition ReadInt32Vector :: "'p parcel_ops \<Rightarrow> 'p \<Rightarrow> int32 list option \<times> 'p" where
  "ReadInt32Vector P p =
     (case pc_read P KInt32s p of (Some (PInt32s v), p') \<Rightarrow> (Some v, p') | (_, p') \<Rightarrow> (None, p'))"

definition ReadWant :: "'p parcel_ops \<Rightarrow> 'p \<Rightarrow> Want option \<times> 'p" where
  "ReadWant P p = (case pc_read P KWant p of (Some (PWant w), p') \<Rightarrow> (Some w, p') | (_, p') \<Rightarrow> (None, p'))"

definition ReadParcelable :: "'p parcel_ops \<Rightarrow> ('p \<Rightarrow> 'a option \<times> 'p) \<Rightarrow> 'p \<Rightarrow> 'a option \<times> 'p" where
  "ReadParcelable P unmarshal p =
     (case pc_read P KObject p of (Some _, p') \<Rightarrow> unmarshal p' | (None, p') \<Rightarrow> (None, p'))"

text \<open>A sequence of writes that stops at the first failure.\<close>

fun write_all :: "('p \<Rightarrow> bool \<times> 'p) list \<Rightarrow> 'p \<Rightarrow> bool \<times> 'p" where
  "write_all [] p = (True, p)"
| "write_all (w # ws) p = (let (ok, p') = w p in if ok then write_all ws p' else (False, p'))"

definition WriteParcelable :: "'p parcel_ops \<Rightarrow> ('p \<Rightarrow> bool \<times> 'p) \<Rightarrow> 'p \<Rightarrow> bool \<times> 'p" where
  "WriteParcelable P marshal = write_all [pc_write P PObject, marshal]"

section \<open>MatchingSkills\<close>

definition WriteVectorInfo :: "'p parcel_ops \<Rightarrow> u16string list \<Rightarrow> 'p \<Rightarrow> bool \<times> 'p" where
  "WriteVectorInfo P vectorInfo =
     (if vectorInfo = [] then write_all [pc_write P (PInt32 (VALUE_NULL P))]
      else write_all [pc_write P (PInt32 (VALUE_OBJECT P)), pc_write P (PString16s vectorInfo)])"

definition Marshalling_skills :: "'p parcel_ops \<Rightarrow> MatchingSkills \<Rightarrow> 'p \<Rightarrow> bool \<times> 'p" where
  "Marshalling_skills P m = write_all
     [WriteVectorInfo P (map (Str8ToStr16 P) (ms_entities m)),
      WriteVectorInfo P (map (Str8ToStr16 P) (ms_events m)),
      WriteVectorInfo P (map (Str8ToStr16 P) (ms_schemes m))]"

text \<open>One of the three vectors; \<open>None\<close> is the early return.\<close>

definition read_vector :: "'p parcel_ops \<Rightarrow> 'p \<Rightarrow> string list option \<times> 'p" where
  "read_vector P p =
     (case ReadInt32 P p of
        (None, p1) \<Rightarrow> (None, p1)
      | (Some flag, p1) \<Rightarrow>
          if flag = VALUE_OBJECT P
          then (case ReadString16Vector P p1 of
                  (None, p2) \<Rightarrow> (None, p2)
                | (Some v, p2) \<Rightarrow> (Some (map (Str16ToStr8 P) v), p2))
          else (Some [], p1))"

definition ReadFromParcel_skills ::
  "'p parcel_ops \<Rightarrow> MatchingSkills \<Rightarrow> 'p \<Rightarrow> bool \<times> MatchingSkills \<times> 'p" where
  "ReadFromParcel_skills P m p =
     (case read_vector P p of
        (None, p1) \<Rightarrow> (False, m, p1)
      | (Some entities, p1) \<Rightarrow>
          (let m1 = m\<lparr>ms_entities := entities\<rparr>
           in case read_vector P p1 of
                (None, p2) \<Rightarrow> (False, m1, p2)
              | (Some events, p2) \<Rightarrow>
                  (let m2 = m1\<lparr>ms_events := events\<rparr>
                   in case read_vector P p2 of
                        (None, p3) \<Rightarrow> (False, m2, p3)
                      | (Some schemes, p3) \<Rightarrow> (True, m2\<lparr>ms_schemes := schemes\<rparr>, p3))))"

definition Unmarshalling_skills :: "'p parcel_ops \<Rightarrow> 'p \<Rightarrow> MatchingSkills option \<times> 'p" where
  "Unmarshalling_skills P p =
     (let (ok, m, p') = ReadFromParcel_skills P \<lparr>ms_entities = [], ms_events = [], ms_schemes = []\<rparr> p
      in (if ok then Some m else None, p'))"

section \<open>CommonEventSubscribeInfo\<close>

definition CommonEventSubscribeInfo_init :: CommonEventSubscribeInfo where
  "CommonEventSubscribeInfo_init = \<lparr>si_matchingSkills = \<lparr>ms_entities = [], ms_events = [], ms_schemes = []\<rparr>,
     si_priority = 0, si_userId = UNDEFINED_USER, si_permission = [], si_deviceId = [],
     si_threadMode = ASYNC, si_publisherBundleName = [], si_publisherUid = 0\<rparr>"

fun thread_mode_code :: "ThreadMode \<Rightarrow> int" where
  "thread_mode_code HANDLER = 0"
| "thread_mode_code POST = 1"
| "thread_mode_code ASYNC = 2"
| "thread_mode_code BACKGROUND = 3"
| "thread_mode_code COMMON = 4"

text \<open>The cast of the number read is not checked.  The program only ever tests for \<open>HANDLER\<close>, so a
  number outside the enumeration acts like any other mode and is \<open>COMMON\<close> here.\<close>

definition thread_mode_of :: "int \<Rightarrow> ThreadMode" where
  "thread_mode_of n = (if n = 0 then HANDLER else if n = 1 then POST else if n = 2 then ASYNC
     else if n = 3 then BACKGROUND else COMMON)"

definition Marshalling_subscribe :: "'p parcel_ops \<Rightarrow> CommonEventSubscribeInfo \<Rightarrow> 'p \<Rightarrow> bool \<times> 'p" where
  "Marshalling_subscribe P s = write_all
     [pc_write P (PString16 (Str8ToStr16 P (si_permission s))),
      pc_write P (PInt32 (si_priority s)),
      pc_write P (PInt32 (si_userId s)),
      pc_write P (PUint32 (thread_mode_code (si_threadMode s))),
      pc_write P (PString16 (Str8ToStr16 P (si_deviceId s))),
      WriteParcelable P (Marshalling_skills P (si_matchingSkills s)),
      pc_write P (PString (si_publisherBundleName s)),
      pc_write P (PInt32 (si_publisherUid s))]"

definition ReadFromParcel_subscribe ::
  "'p parcel_ops \<Rightarrow> CommonEventSubscribeInfo \<Rightarrow> 'p \<Rightarrow> bool \<times> CommonEventSubscribeInfo \<times> 'p" where
  "ReadFromParcel_subscribe P s p =
     (let (perm, p1) = ReadString16 P p;
          (priority, p2) = ReadInt32_or_0 P p1;
          (user, p3) = ReadInt32_or_0 P p2;
          (mode, p4) = ReadUint32_or_0 P p3;
          (device, p5) = ReadString16 P p4;
          s1 = s\<lparr>si_permission := Str16ToStr8 P perm, si_priority := priority, si_userId := user,
                 si_threadMode := thread_mode_of mode, si_deviceId := Str16ToStr8 P device\<rparr>
      in case ReadParcelable P (Unmarshalling_skills P) p5 of
           (None, p6) \<Rightarrow> (False, s1, p6)
         | (Some skills, p6) \<Rightarrow>
             (let (publisher, p7) = ReadString P p6; (u, p8) = ReadInt32_or_0 P p7
              in (True, s1\<lparr>si_matchingSkills := skills, si_publisherBundleName := publisher,
                           si_publisherUid := u\<rparr>, p8)))"

definition Unmarshalling_subscribe :: "'p parcel_ops \<Rightarrow> 'p \<Rightarrow> CommonEventSubscribeInfo option \<times> 'p" where
  "Unmarshalling_subscribe P p =
     (let (ok, s, p') = ReadFromParcel_subscribe P CommonEventSubscribeInfo_init p
      in (if ok then Some s else None, p'))"

section \<open>CommonEventPublishInfo\<close>

fun rule_code :: "ValidationRule \<Rightarrow> int32" where
  "rule_code RuleAND = 1"
| "rule_code RuleOR = 2"

definition Marshalling_publish :: "'p parcel_ops \<Rightarrow> CommonEventPublishInfo \<Rightarrow> 'p \<Rightarrow> bool \<times> 'p" where
  "Marshalling_publish P i = write_all
     [pc_write P (PString16s (map (Str8ToStr16 P) (pi_subscriberPermissions i))),
      pc_write P (PBool (pi_ordered i)),
      pc_write P (PBool (pi_sticky i)),
      pc_write P (PString16 (Str8ToStr16 P (pi_bundleName i))),
      pc_write P (PInt32s (pi_subscriberUids i)),
      pc_write P (PInt32 (pi_subscriberType i)),
      pc_write P (PInt32 (rule_code (pi_rule i))),
      pc_write P (PInt32 (pi_maximumVersion i))]"

definition ReadFromParcel_publish ::
  "'p parcel_ops \<Rightarrow> CommonEventPublishInfo \<Rightarrow> 'p \<Rightarrow> bool \<times> CommonEventPublishInfo \<times> 'p" where
  "ReadFromParcel_publish P i p =
     (case ReadString16Vector P p of
        (None, p1) \<Rightarrow> (False, i, p1)
      | (Some perms, p1) \<Rightarrow>
          (let (ordered, p2) = ReadBool P p1;
               (sticky, p3) = ReadBool P p2;
               (bundle, p4) = ReadString16 P p3;
               i1 = i\<lparr>pi_subscriberPermissions := map (Str16ToStr8 P) perms, pi_ordered := ordered,
                      pi_sticky := sticky, pi_bundleName := Str16ToStr8 P bundle\<rparr>
           in case ReadInt32Vector P p4 of
                (None, p5) \<Rightarrow> (False, i1, p5)
              | (Some uids, p5) \<Rightarrow>
                  (let (ty, p6) = ReadInt32_or_0 P p5;
                       (rule, p7) = ReadInt32_or_0 P p6;
                       i2 = i1\<lparr>pi_subscriberUids := uids, pi_subscriberType := ty\<rparr>
                   in if rule < rule_code RuleAND \<or> rule > rule_code RuleOR then (False, i2, p7)
                      else
                        (let (version, p8) = ReadInt32_or_0 P p7
                         in (True, i2\<lparr>pi_rule := (if rule = rule_code RuleAND then RuleAND else RuleOR),
                                     pi_maximumVersion := version\<rparr>, p8)))))"

definition Unmarshalling_publish :: "'p parcel_ops \<Rightarrow> 'p \<Rightarrow> CommonEventPublishInfo option \<times> 'p" where
  "Unmarshalling_publish P p =
     (let (ok, i, p') = ReadFromParcel_publish P CommonEventPublishInfo_init p
      in (if ok then Some i else None, p'))"

section \<open>CommonEventData\<close>

definition Marshalling_data :: "'p parcel_ops \<Rightarrow> CommonEventData \<Rightarrow> 'p \<Rightarrow> bool \<times> 'p" where
  "Marshalling_data P d = write_all
     ((if cd_data d = [] then [pc_write P (PInt32 (VALUE_NULL P))]
       else [pc_write P (PInt32 (VALUE_OBJECT P)), pc_write P (PString16 (Str8ToStr16 P (cd_data d)))]) @
      [pc_write P (PInt32 (cd_code d)),
       WriteParcelable P (pc_write P (PWant (cd_want d)))])"

text \<open>The object read into is new: empty data, code 0 and \<open>want0\<close>, an empty \<open>Want\<close>.\<close>

definition ReadFromParcel_data ::
  "'p parcel_ops \<Rightarrow> CommonEventData \<Rightarrow> 'p \<Rightarrow> bool \<times> CommonEventData \<times> 'p" where
  "ReadFromParcel_data P d p =
     (case ReadInt32 P p of
        (None, p1) \<Rightarrow> (False, d, p1)
      | (Some flag, p1) \<Rightarrow>
          (let (d1, p2) = (if flag = VALUE_OBJECT P
                 then (let (s, p2) = ReadString16 P p1 in (d\<lparr>cd_data := Str16ToStr8 P s\<rparr>, p2))
                 else (d, p1));
               (code, p3) = ReadInt32_or_0 P p2;
               d2 = d1\<lparr>cd_code := code\<rparr>
           in case ReadParcelable P (ReadWant P) p3 of
                (None, p4) \<Rightarrow> (False, d2, p4)
              | (Some w, p4) \<Rightarrow> (True, d2\<lparr>cd_want := w\<rparr>, p4)))"

definition Unmarshalling_data :: "'p parcel_ops \<Rightarrow> Want \<Rightarrow> 'p \<Rightarrow> CommonEventData option \<times> 'p" where
  "Unmarshalling_data P want0 p =
     (let (ok, d, p') = ReadFromParcel_data P \<lparr>cd_want = want0, cd_code = 0, cd_data = []\<rparr> p
      in (if ok then Some d else None, p'))"

section \<open>What is written\<close>

definition enc_vector :: "'p parcel_ops \<Rightarrow> string list \<Rightarrow> parcel_item list" where
  "enc_vector P xs = (if xs = [] then [PInt32 (VALUE_NULL P)]
     else [PInt32 (VALUE_OBJECT P), PString16s (map (Str8ToStr16 P) xs)])"

definition enc_skills :: "'p parcel_ops \<Rightarrow> MatchingSkills \<Rightarrow> parcel_item list" where
  "enc_skills P m = enc_vector P (ms_entities m) @ enc_vector P (ms_events m) @ enc_vector P (ms_schemes m)"

definition enc_subscribe :: "'p parcel_ops \<Rightarrow> CommonEventSubscribeInfo \<Rightarrow> parcel_item list" where
  "enc_subscribe P s = [PString16 (Str8ToStr16 P (si_permission s)), PInt32 (si_priority s),
      PInt32 (si_userId s), PUint32 (thread_mode_code (si_threadMode s)),
      PString16 (Str8ToStr16 P (si_deviceId s)), PObject] @ enc_skills P (si_matchingSkills s) @
     [PString (si_publisherBundleName s), PInt32 (si_publisherUid s)]"

definition enc_publish :: "'p parcel_ops \<Rightarrow> CommonEventPublishInfo \<Rightarrow> parcel_item list" where
  "enc_publish P i = [PString16s (map (Str8ToStr16 P) (pi_subscriberPermissions i)), PBool (pi_ordered i),
     PBool (pi_sticky i), PString16 (Str8ToStr16 P (pi_bundleName i)), PInt32s (pi_subscriberUids i),
     PInt32 (pi_subscriberType i), PInt32 (rule_code (pi_rule i)), PInt32 (pi_maximumVersion i)]"

definition enc_data :: "'p parcel_ops \<Rightarrow> CommonEventData \<Rightarrow> parcel_item list" where
  "enc_data P d = (if cd_data d = [] then [PInt32 (VALUE_NULL P)]
      else [PInt32 (VALUE_OBJECT P), PString16 (Str8ToStr16 P (cd_data d))]) @
     [PInt32 (cd_code d), PObject, PWant (cd_want d)]"

text \<open>\<open>writes P c w xs\<close>: the writer \<open>w\<close>, when it succeeds, appends the items \<open>xs\<close>.\<close>

definition writes :: "('p \<Rightarrow> parcel_item list) \<Rightarrow> ('p \<Rightarrow> bool \<times> 'p) \<Rightarrow> parcel_item list \<Rightarrow> bool" where
  "writes c w xs \<longleftrightarrow> (\<forall>p p'. w p = (True, p') \<longrightarrow> c p' = c p @ xs)"

lemma writes_item: "parcel_lawful P c \<Longrightarrow> writes c (pc_write P x) [x]"
  by (simp add: parcel_lawful_def writes_def)

lemma writes_Nil: "writes c (write_all []) []"
  by (simp add: writes_def)

lemma writes_Cons: "writes c w xs \<Longrightarrow> writes c (write_all ws) ys \<Longrightarrow> writes c (write_all (w # ws)) (xs @ ys)"
  by (auto simp: writes_def Let_def split: prod.splits if_splits)

lemma writes_list:
  "list_all2 (writes c) ws xss \<Longrightarrow> writes c (write_all ws) (concat xss)"
  by (induction rule: list_all2_induct) (simp_all add: writes_Nil writes_Cons del: write_all.simps)

lemma writes_vector:
  assumes "parcel_lawful P c"
  shows "writes c (WriteVectorInfo P (map (Str8ToStr16 P) xs)) (enc_vector P xs)"
proof -
  have "writes c (write_all (map (pc_write P) ys)) (concat (map (\<lambda>y. [y]) ys))" for ys
    by (rule writes_list) (simp add: list_all2_conv_all_nth writes_item [OF assms])
  from this [of "[PInt32 (VALUE_NULL P)]"]
    this [of "[PInt32 (VALUE_OBJECT P), PString16s (map (Str8ToStr16 P) xs)]"]
  show ?thesis by (simp add: WriteVectorInfo_def enc_vector_def del: write_all.simps)
qed

lemma writes_skills: "parcel_lawful P c \<Longrightarrow> writes c (Marshalling_skills P m) (enc_skills P m)"
  using writes_list [of c "[WriteVectorInfo P (map (Str8ToStr16 P) (ms_entities m)),
      WriteVectorInfo P (map (Str8ToStr16 P) (ms_events m)),
      WriteVectorInfo P (map (Str8ToStr16 P) (ms_schemes m))]"
      "[enc_vector P (ms_entities m), enc_vector P (ms_events m), enc_vector P (ms_schemes m)]"]
  by (simp add: Marshalling_skills_def enc_skills_def writes_vector del: write_all.simps)

lemma writes_object:
  "parcel_lawful P c \<Longrightarrow> writes c w xs \<Longrightarrow> writes c (WriteParcelable P w) (PObject # xs)"
  using writes_list [of c "[pc_write P PObject, w]" "[[PObject], xs]"]
  by (simp add: WriteParcelable_def writes_item del: write_all.simps)

lemma writes_subscribe: "parcel_lawful P c \<Longrightarrow> writes c (Marshalling_subscribe P s) (enc_subscribe P s)"
  unfolding Marshalling_subscribe_def enc_subscribe_def
  using writes_list [of c _ "[[PString16 (Str8ToStr16 P (si_permission s))], [PInt32 (si_priority s)],
      [PInt32 (si_userId s)], [PUint32 (thread_mode_code (si_threadMode s))],
      [PString16 (Str8ToStr16 P (si_deviceId s))], PObject # enc_skills P (si_matchingSkills s),
      [PString (si_publisherBundleName s)], [PInt32 (si_publisherUid s)]]"]
  by (simp add: writes_item writes_object writes_skills del: write_all.simps)

lemma writes_publish: "parcel_lawful P c \<Longrightarrow> writes c (Marshalling_publish P i) (enc_publish P i)"
  unfolding Marshalling_publish_def enc_publish_def
  using writes_list [of c _ "[[PString16s (map (Str8ToStr16 P) (pi_subscriberPermissions i))],
      [PBool (pi_ordered i)], [PBool (pi_sticky i)], [PString16 (Str8ToStr16 P (pi_bundleName i))],
      [PInt32s (pi_subscriberUids i)], [PInt32 (pi_subscriberType i)], [PInt32 (rule_code (pi_rule i))],
      [PInt32 (pi_maximumVersion i)]]"]
  by (simp add: writes_item del: write_all.simps)

lemma writes_data: "parcel_lawful P c \<Longrightarrow> writes c (Marshalling_data P d) (enc_data P d)"
  unfolding Marshalling_data_def enc_data_def
  using writes_list [of c _ "[[PInt32 (VALUE_NULL P)], [PInt32 (cd_code d)], [PObject, PWant (cd_want d)]]"]
    writes_list [of c _ "[[PInt32 (VALUE_OBJECT P)], [PString16 (Str8ToStr16 P (cd_data d))],
      [PInt32 (cd_code d)], [PObject, PWant (cd_want d)]]"]
  by (simp add: writes_item writes_object del: write_all.simps)

section \<open>Reading it back\<close>

text \<open>\<open>reads c r xs x\<close>: from a parcel that holds \<open>xs\<close> first, the reader \<open>r\<close> returns \<open>x\<close> and
  leaves the rest.\<close>

definition reads :: "('p \<Rightarrow> parcel_item list) \<Rightarrow> ('p \<Rightarrow> 'a \<times> 'p) \<Rightarrow> parcel_item list \<Rightarrow> 'a \<Rightarrow> bool" where
  "reads c r xs x \<longleftrightarrow> (\<forall>p ys. c p = xs @ ys \<longrightarrow> (\<exists>p'. r p = (x, p') \<and> c p' = ys))"

lemma readsD: "reads c r xs x \<Longrightarrow> c p = xs @ ys \<Longrightarrow> \<exists>p'. r p = (x, p') \<and> c p' = ys"
  by (simp add: reads_def)

lemma reads_item: "parcel_lawful P c \<Longrightarrow> reads c (pc_read P (kind_of x)) [x] (Some x)"
  by (simp add: parcel_lawful_def reads_def)

lemma reads_typed:
  assumes "parcel_lawful P c"
  shows "reads c (ReadInt32 P) [PInt32 i] (Some i)" "reads c (ReadInt32_or_0 P) [PInt32 i] i"
    "reads c (ReadUint32_or_0 P) [PUint32 n] n" "reads c (ReadBool P) [PBool b] b"
    "reads c (ReadString P) [PString s] s" "reads c (ReadString16 P) [PString16 u] u"
    "reads c (ReadString16Vector P) [PString16s v] (Some v)" "reads c (ReadInt32Vector P) [PInt32s ns] (Some ns)"
    "reads c (ReadWant P) [PWant w] (Some w)"
  using reads_item [OF assms, of "PInt32 i"] reads_item [OF assms, of "PUint32 n"]
    reads_item [OF assms, of "PBool b"] reads_item [OF assms, of "PString s"]
    reads_item [OF assms, of "PString16 u"] reads_item [OF assms, of "PString16s v"]
    reads_item [OF assms, of "PInt32s ns"] reads_item [OF assms, of "PWant w"]
  by (fastforce simp: reads_def ReadInt32_def ReadInt32_or_0_def ReadUint32_or_0_def ReadBool_def
    ReadString_def ReadString16_def ReadString16Vector_def ReadInt32Vector_def ReadWant_def)+

definition utf_all :: "'p parcel_ops \<Rightarrow> string list \<Rightarrow> bool" where
  "utf_all P xs \<longleftrightarrow> (\<forall>x \<in> set xs. utf_ok P x)"

lemma utf_all_map [simp]: "utf_all P xs \<Longrightarrow> map (Str16ToStr8 P) (map (Str8ToStr16 P) xs) = xs"
  by (induction xs) (simp_all add: utf_all_def utf_ok_def)

lemma reads_vector:
  assumes P: "parcel_lawful P c" and utf: "utf_all P xs"
  shows "reads c (read_vector P) (enc_vector P xs) (Some xs)"
proof -
  have "VALUE_NULL P \<noteq> VALUE_OBJECT P" using P by (simp add: parcel_lawful_def)
  moreover have "\<exists>p'. read_vector P p = (Some xs, p') \<and> c p' = ys"
    if ne: "xs \<noteq> []" and cp: "c p = enc_vector P xs @ ys" for p ys
  proof -
    obtain p1 where p1: "ReadInt32 P p = (Some (VALUE_OBJECT P), p1)"
      "c p1 = [PString16s (map (Str8ToStr16 P) xs)] @ ys"
      using readsD [OF reads_typed(1) [OF P]] cp ne by (fastforce simp: enc_vector_def)
    obtain p2 where "ReadString16Vector P p1 = (Some (map (Str8ToStr16 P) xs), p2)" "c p2 = ys"
      using readsD [OF reads_typed(7) [OF P] p1(2)] by blast
    then show ?thesis by (simp add: read_vector_def p1(1) utf_all_map [OF utf, simplified])
  qed
  moreover have "\<exists>p'. read_vector P p = (Some xs, p') \<and> c p' = ys"
    if n: "xs = []" and cp: "c p = enc_vector P xs @ ys" for p ys
  proof -
    obtain p1 where "ReadInt32 P p = (Some (VALUE_NULL P), p1)" "c p1 = ys"
      using readsD [OF reads_typed(1) [OF P]] cp n by (fastforce simp: enc_vector_def)
    then show ?thesis using calculation by (simp add: read_vector_def n)
  qed
  ultimately show ?thesis unfolding reads_def by blast
qed

definition utf_skills :: "'p parcel_ops \<Rightarrow> MatchingSkills \<Rightarrow> bool" where
  "utf_skills P m \<longleftrightarrow> utf_all P (ms_entities m @ ms_events m @ ms_schemes m)"

lemma utf_skillsD:
  assumes "utf_skills P m"
  shows "utf_all P (ms_entities m)" "utf_all P (ms_events m)" "utf_all P (ms_schemes m)"
  using assms by (simp_all add: utf_skills_def utf_all_def)

lemma reads_skills:
  assumes P: "parcel_lawful P c" and utf: "utf_skills P m"
  shows "reads c (Unmarshalling_skills P) (enc_skills P m) (Some m)"
  unfolding reads_def
proof (intro allI impI)
  fix p ys assume cp: "c p = enc_skills P m @ ys"
  note r = reads_vector [OF P utf_skillsD(1) [OF utf]] reads_vector [OF P utf_skillsD(2) [OF utf]]
    reads_vector [OF P utf_skillsD(3) [OF utf]]
  obtain p1 where p1: "read_vector P p = (Some (ms_entities m), p1)"
    "c p1 = enc_vector P (ms_events m) @ enc_vector P (ms_schemes m) @ ys"
    using readsD [OF r(1), of p] cp by (auto simp: enc_skills_def)
  obtain p2 where p2: "read_vector P p1 = (Some (ms_events m), p2)" "c p2 = enc_vector P (ms_schemes m) @ ys"
    using readsD [OF r(2) p1(2)] by blast
  obtain p3 where p3: "read_vector P p2 = (Some (ms_schemes m), p3)" "c p3 = ys"
    using readsD [OF r(3) p2(2)] by blast
  show "\<exists>p'. Unmarshalling_skills P p = (Some m, p') \<and> c p' = ys"
    by (simp add: Unmarshalling_skills_def ReadFromParcel_skills_def p1 p2 p3)
qed

lemma reads_object:
  assumes P: "parcel_lawful P c" and r: "reads c r xs x"
  shows "reads c (ReadParcelable P r) (PObject # xs) x"
  unfolding reads_def
proof (intro allI impI)
  fix p ys assume "c p = (PObject # xs) @ ys"
  then obtain p1 where "pc_read P KObject p = (Some PObject, p1)" "c p1 = xs @ ys"
    using readsD [OF reads_item [OF P, of PObject], of p] by auto
  then show "\<exists>p'. ReadParcelable P r p = (x, p') \<and> c p' = ys"
    using readsD [OF r] by (simp add: ReadParcelable_def)
qed

lemma thread_mode_of_code [simp]: "thread_mode_of (thread_mode_code m) = m"
  by (cases m) (simp_all add: thread_mode_of_def)

lemma reads_subscribe:
  assumes P: "parcel_lawful P c" and utf: "utf_skills P (si_matchingSkills s)"
    "utf_ok P (si_permission s)" "utf_ok P (si_deviceId s)"
  shows "reads c (Unmarshalling_subscribe P) (enc_subscribe P s) (Some s)"
  unfolding reads_def
proof (intro allI impI)
  fix p ys assume cp: "c p = enc_subscribe P s @ ys"
  note r = reads_typed [OF P, THEN readsD]
  let ?tl = "[PString (si_publisherBundleName s), PInt32 (si_publisherUid s)] @ ys"
  obtain p1 where p1: "ReadString16 P p = (Str8ToStr16 P (si_permission s), p1)"
    "c p1 = [PInt32 (si_priority s)] @ [PInt32 (si_userId s)] @
      [PUint32 (thread_mode_code (si_threadMode s))] @ [PString16 (Str8ToStr16 P (si_deviceId s))] @
      (PObject # enc_skills P (si_matchingSkills s)) @ ?tl"
    using r(6) [of p] cp by (auto simp: enc_subscribe_def)
  obtain p2 where p2: "ReadInt32_or_0 P p1 = (si_priority s, p2)"
    "c p2 = [PInt32 (si_userId s)] @ [PUint32 (thread_mode_code (si_threadMode s))] @
      [PString16 (Str8ToStr16 P (si_deviceId s))] @ (PObject # enc_skills P (si_matchingSkills s)) @ ?tl"
    using r(2) [OF p1(2)] by blast
  obtain p3 where p3: "ReadInt32_or_0 P p2 = (si_userId s, p3)"
    "c p3 = [PUint32 (thread_mode_code (si_threadMode s))] @
      [PString16 (Str8ToStr16 P (si_deviceId s))] @ (PObject # enc_skills P (si_matchingSkills s)) @ ?tl"
    using r(2) [OF p2(2)] by blast
  obtain p4 where p4: "ReadUint32_or_0 P p3 = (thread_mode_code (si_threadMode s), p4)"
    "c p4 = [PString16 (Str8ToStr16 P (si_deviceId s))] @
      (PObject # enc_skills P (si_matchingSkills s)) @ ?tl"
    using r(3) [OF p3(2)] by blast
  obtain p5 where p5: "ReadString16 P p4 = (Str8ToStr16 P (si_deviceId s), p5)"
    "c p5 = (PObject # enc_skills P (si_matchingSkills s)) @ ?tl"
    using r(6) [OF p4(2)] by blast
  obtain p6 where p6: "ReadParcelable P (Unmarshalling_skills P) p5 = (Some (si_matchingSkills s), p6)"
    "c p6 = [PString (si_publisherBundleName s)] @ [PInt32 (si_publisherUid s)] @ ys"
    using readsD [OF reads_object [OF P reads_skills [OF P utf(1)]] p5(2)] by auto
  obtain p7 where p7: "ReadString P p6 = (si_publisherBundleName s, p7)" "c p7 = [PInt32 (si_publisherUid s)] @ ys"
    using r(5) [OF p6(2)] by blast
  obtain p8 where p8: "ReadInt32_or_0 P p7 = (si_publisherUid s, p8)" "c p8 = ys"
    using r(2) [OF p7(2)] by blast
  show "\<exists>p'. Unmarshalling_subscribe P p = (Some s, p') \<and> c p' = ys"
    using utf(2,3)
    by (simp add: Unmarshalling_subscribe_def ReadFromParcel_subscribe_def p1 p2 p3 p4 p5 p6 p7 p8 utf_ok_def)
qed

lemma reads_publish:
  assumes P: "parcel_lawful P c" and utf: "utf_all P (pi_subscriberPermissions i)" "utf_ok P (pi_bundleName i)"
  shows "reads c (Unmarshalling_publish P) (enc_publish P i) (Some i)"
  unfolding reads_def
proof (intro allI impI)
  fix p ys assume cp: "c p = enc_publish P i @ ys"
  note r = reads_typed [OF P, THEN readsD]
  let ?tl = "[PInt32 (pi_maximumVersion i)] @ ys"
  obtain p1 where p1: "ReadString16Vector P p = (Some (map (Str8ToStr16 P) (pi_subscriberPermissions i)), p1)"
    "c p1 = [PBool (pi_ordered i)] @ [PBool (pi_sticky i)] @ [PString16 (Str8ToStr16 P (pi_bundleName i))] @
      [PInt32s (pi_subscriberUids i)] @ [PInt32 (pi_subscriberType i)] @ [PInt32 (rule_code (pi_rule i))] @ ?tl"
    using r(7) [of p] cp by (auto simp: enc_publish_def)
  obtain p2 where p2: "ReadBool P p1 = (pi_ordered i, p2)"
    "c p2 = [PBool (pi_sticky i)] @ [PString16 (Str8ToStr16 P (pi_bundleName i))] @
      [PInt32s (pi_subscriberUids i)] @ [PInt32 (pi_subscriberType i)] @ [PInt32 (rule_code (pi_rule i))] @ ?tl"
    using r(4) [OF p1(2)] by blast
  obtain p3 where p3: "ReadBool P p2 = (pi_sticky i, p3)"
    "c p3 = [PString16 (Str8ToStr16 P (pi_bundleName i))] @
      [PInt32s (pi_subscriberUids i)] @ [PInt32 (pi_subscriberType i)] @ [PInt32 (rule_code (pi_rule i))] @ ?tl"
    using r(4) [OF p2(2)] by blast
  obtain p4 where p4: "ReadString16 P p3 = (Str8ToStr16 P (pi_bundleName i), p4)"
    "c p4 = [PInt32s (pi_subscriberUids i)] @ [PInt32 (pi_subscriberType i)] @ [PInt32 (rule_code (pi_rule i))] @ ?tl"
    using r(6) [OF p3(2)] by blast
  obtain p5 where p5: "ReadInt32Vector P p4 = (Some (pi_subscriberUids i), p5)"
    "c p5 = [PInt32 (pi_subscriberType i)] @ [PInt32 (rule_code (pi_rule i))] @ ?tl"
    using r(8) [OF p4(2)] by blast
  obtain p6 where p6: "ReadInt32_or_0 P p5 = (pi_subscriberType i, p6)"
    "c p6 = [PInt32 (rule_code (pi_rule i))] @ ?tl"
    using r(2) [OF p5(2)] by blast
  obtain p7 where p7: "ReadInt32_or_0 P p6 = (rule_code (pi_rule i), p7)" "c p7 = ?tl"
    using r(2) [OF p6(2)] by blast
  obtain p8 where p8: "ReadInt32_or_0 P p7 = (pi_maximumVersion i, p8)" "c p8 = ys"
    using r(2) [OF p7(2)] by blast
  show "\<exists>p'. Unmarshalling_publish P p = (Some i, p') \<and> c p' = ys"
    using utf(2)
    by (cases "pi_rule i") (simp_all add: Unmarshalling_publish_def ReadFromParcel_publish_def p1 p2 p3 p4 p5
      p6 p7 p8 utf_ok_def utf_all_map [OF utf(1), simplified])
qed

lemma reads_data:
  assumes P: "parcel_lawful P c" and utf: "utf_ok P (cd_data d)"
  shows "reads c (Unmarshalling_data P want0) (enc_data P d) (Some d)"
  unfolding reads_def
proof (intro allI impI)
  fix p ys assume cp: "c p = enc_data P d @ ys"
  note r = reads_typed [OF P, THEN readsD]
  let ?tl = "[PInt32 (cd_code d)] @ (PObject # [PWant (cd_want d)]) @ ys"
  have tail: "\<exists>p3 p4. ReadInt32_or_0 P p2 = (cd_code d, p3) \<and>
      ReadParcelable P (ReadWant P) p3 = (Some (cd_want d), p4) \<and> c p4 = ys" if tl: "c p2 = ?tl" for p2
  proof -
    obtain p3 where p3: "ReadInt32_or_0 P p2 = (cd_code d, p3)" "c p3 = (PObject # [PWant (cd_want d)]) @ ys"
      using r(2) [OF tl] by blast
    then show ?thesis using readsD [OF reads_object [OF P reads_typed(9) [OF P]] p3(2)] by blast
  qed
  show "\<exists>p'. Unmarshalling_data P want0 p = (Some d, p') \<and> c p' = ys"
  proof (cases "cd_data d = []")
    case True
    obtain p1 where p1: "ReadInt32 P p = (Some (VALUE_NULL P), p1)" "c p1 = ?tl"
      using r(1) [of p] cp True by (auto simp: enc_data_def)
    then show ?thesis
      using tail [OF p1(2)] True P
      by (auto simp: Unmarshalling_data_def ReadFromParcel_data_def parcel_lawful_def)
  next
    case False
    obtain p1 where p1: "ReadInt32 P p = (Some (VALUE_OBJECT P), p1)"
      "c p1 = [PString16 (Str8ToStr16 P (cd_data d))] @ ?tl"
      using r(1) [of p] cp False by (auto simp: enc_data_def)
    obtain p2 where p2: "ReadString16 P p1 = (Str8ToStr16 P (cd_data d), p2)" "c p2 = ?tl"
      using r(6) [OF p1(2)] by blast
    then show ?thesis
      using tail [OF p2(2)] p1(1) utf
      by (auto simp: Unmarshalling_data_def ReadFromParcel_data_def utf_ok_def)
  qed
qed

end
