(* ===== verification/Codec_Props.thy ===== *)
theory Codec_Props
  imports Parcel_Codecs
begin

text \<open>
  The value classes survive the trip to another process.  Both properties take any lawful parcel,
  and strings that are well-formed, and are applied to a parcel that is a list of items.
\<close>

section \<open>A parcel that is a list of items\<close>

definition list_parcel :: "parcel_item list parcel_ops" where
  "list_parcel = \<lparr>pc_write = (\<lambda>x p. (True, p @ [x])),
     pc_read = (\<lambda>k p. case p of [] \<Rightarrow> (None, []) | x # xs \<Rightarrow> if kind_of x = k then (Some x, xs) else (None, p)),
     Str8ToStr16 = map (\<lambda>ch. word_of_nat (of_char ch)),
     Str16ToStr8 = map (\<lambda>u. char_of (unat u)),
     VALUE_NULL = -1, VALUE_OBJECT = 1\<rparr>"

lemma list_parcel_lawful: "parcel_lawful list_parcel (\<lambda>p. p)"
  by (simp add: parcel_lawful_def list_parcel_def)

lemma char_through_word: "char_of (unat (word_of_nat (of_char ch) :: 16 word)) = ch"
proof -
  have "of_char ch < (65536 :: nat)" by (rule less_trans [OF nat_of_char_less_256]) simp
  then have "unat (word_of_nat (of_char ch) :: 16 word) = of_char ch"
    by (simp add: unat_of_nat take_bit_nat_eq_self)
  then show ?thesis by simp
qed

lemma list_parcel_utf [simp]: "utf_ok list_parcel s"
  by (simp add: utf_ok_def list_parcel_def map_idI char_through_word)

lemma list_parcel_utf_all [simp]: "utf_all list_parcel xs" "utf_skills list_parcel m"
  by (simp_all add: utf_all_def utf_skills_def)

section \<open>Subscriptions\<close>

text \<open>A subscription arrives as it was sent: whatever the subscribe info holds (matching skills,
  permission, device, priority, user, thread mode, publisher bundle and uid), if marshalling it into an
  empty parcel succeeds, then unmarshalling that parcel succeeds, returns exactly the same info and
  leaves nothing behind.  So the service decides on what the subscriber asked for; empty lists of
  entities, events or schemes are no exception (they travel as a mark).\<close>

theorem subscription_arrives:
  assumes "parcel_lawful P c" and "c p = []"
    and "utf_skills P (si_matchingSkills s)" and "utf_ok P (si_permission s)" and "utf_ok P (si_deviceId s)"
    and "Marshalling_subscribe P s p = (True, p')"
  shows "\<exists>q. Unmarshalling_subscribe P p' = (Some s, q) \<and> c q = []"
proof -
  have "c p' = enc_subscribe P s @ []"
    using writes_subscribe [OF assms(1), of s] assms(2,6) by (simp add: writes_def)
  then show ?thesis by (rule readsD [OF reads_subscribe [OF assms(1,3-5)]])
qed

definition sample_subscription :: CommonEventSubscribeInfo where
  "sample_subscription = CommonEventSubscribeInfo_init\<lparr>si_matchingSkills :=
     \<lparr>ms_entities = [], ms_events = [''usual.event.SCREEN_ON'', ''my.event''], ms_schemes = [''file'']\<rparr>,
     si_priority := 7, si_permission := ''ohos.permission.X'', si_threadMode := HANDLER\<rparr>"

lemma list_parcel_marshals:
  "Marshalling_subscribe list_parcel s p = (True, snd (Marshalling_subscribe list_parcel s p))"
  "Marshalling_data list_parcel d p = (True, snd (Marshalling_data list_parcel d p))"
  "Marshalling_publish list_parcel i p = (True, snd (Marshalling_publish list_parcel i p))"
  by (simp_all add: Marshalling_subscribe_def Marshalling_data_def Marshalling_publish_def WriteParcelable_def
    Marshalling_skills_def WriteVectorInfo_def list_parcel_def)

theorem subscription_arrives_instance:
  "\<exists>q. Unmarshalling_subscribe list_parcel (snd (Marshalling_subscribe list_parcel sample_subscription [])) =
     (Some sample_subscription, q) \<and> q = []"
  by (rule subscription_arrives [OF list_parcel_lawful refl, of sample_subscription, OF _ _ _ list_parcel_marshals(1)])
    simp_all

section \<open>Publications\<close>

text \<open>C33: A publication arrives as it was sent: if the event data and then the publish info are
  marshalled into an empty parcel with success, unmarshalling first the data and then the info returns
  exactly the two objects and leaves nothing behind.  In particular the receiver permissions, the ordered
  and sticky flags, the bundle, the uids, the type, the AND or OR rule and the maximum version, on which
  the service filters the receivers, are those the publisher chose, and the code, data and want are those
  the receivers are to see.\<close>

theorem publication_arrives:
  assumes "parcel_lawful P c" and "c p = []"
    and "utf_ok P (cd_data d)" and "utf_all P (pi_subscriberPermissions i)" and "utf_ok P (pi_bundleName i)"
    and "Marshalling_data P d p = (True, p1)" and "Marshalling_publish P i p1 = (True, p2)"
  shows "\<exists>q1 q2. Unmarshalling_data P want0 p2 = (Some d, q1) \<and> Unmarshalling_publish P q1 = (Some i, q2) \<and> c q2 = []"
proof -
  have "c p2 = enc_data P d @ enc_publish P i @ []"
    using writes_data [OF assms(1), of d] writes_publish [OF assms(1), of i] assms(2,6,7)
    by (simp add: writes_def)
  then obtain q1 where q1: "Unmarshalling_data P want0 p2 = (Some d, q1)" "c q1 = enc_publish P i @ []"
    using readsD [OF reads_data [OF assms(1,3)]] by blast
  then show ?thesis using readsD [OF reads_publish [OF assms(1,4,5)] q1(2)] by blast
qed

definition sample_publication :: CommonEventPublishInfo where
  "sample_publication = CommonEventPublishInfo_init\<lparr>pi_ordered := True,
     pi_subscriberPermissions := [''ohos.permission.X'', ''ohos.permission.Y''],
     pi_subscriberUids := [100, 200], pi_rule := RuleOR, pi_maximumVersion := 9\<rparr>"

definition sample_data :: CommonEventData where
  "sample_data = \<lparr>cd_want = \<lparr>w_action = ''my.event'', w_entities = [], w_scheme = [], w_bundle = [],
     w_ability = [], w_params = [], w_uri = [], w_flags = 0, w_type = []\<rparr>, cd_code = 3, cd_data = ''done''\<rparr>"

theorem publication_arrives_instance:
  "\<exists>q1 q2. Unmarshalling_data list_parcel (cd_want sample_data)
       (snd (Marshalling_publish list_parcel sample_publication
         (snd (Marshalling_data list_parcel sample_data [])))) = (Some sample_data, q1) \<and>
     Unmarshalling_publish list_parcel q1 = (Some sample_publication, q2) \<and> q2 = []"
  by (rule publication_arrives [OF list_parcel_lawful refl _ _ _ list_parcel_marshals(2,3)]) simp_all

section \<open>Damaged publications\<close>

text \<open>A publish info whose rule is outside the enumeration is refused.\<close>

lemma bad_rule_refused:
  assumes "ReadString16Vector P p = (Some perms, p1)" and "ReadBool P p1 = (b1, p2)" and "ReadBool P p2 = (b2, p3)"
    and "ReadString16 P p3 = (bundle', p4)" and "ReadInt32Vector P p4 = (Some uids, p5)"
    and "ReadInt32_or_0 P p5 = (ty, p6)" and "ReadInt32_or_0 P p6 = (rule, p7)" and "rule \<noteq> 1" and "rule \<noteq> 2"
  shows "fst (Unmarshalling_publish P p) = None"
proof -
  have "rule < 1 \<or> rule > 2" using assms(8,9) by linarith
  then show ?thesis using assms(1-7) by (auto simp: Unmarshalling_publish_def ReadFromParcel_publish_def)
qed

end
