(* ===== verification/Client_Results.thy ===== *)
theory Client_Results
  imports Matching_Skills Publish_Info
begin

text \<open>
  The objects of an application that receives events: the result of an ordered event
  (\<open>async_common_event_result.cpp\<close>), the subscriber the application derives from
  \<open>CommonEventSubscriber\<close> (\<open>common_event_subscriber.cpp\<close>), and the listener the library puts
  between the service and the subscriber (\<open>common_event_listener.cpp\<close>).

  The three live in heaps indexed by addresses; \<open>cc_next\<close> is the next address of a listener or a
  result.  A queue or handler of a listener is a flag, its pending tasks are in \<open>cc_tasks\<close> in the
  order they were posted.  \<open>ln_alive\<close> is what promoting a weak pointer to the listener finds.
  The calls that leave the library are entries of \<open>cc_log\<close>: the callback of the application and
  the answer that \<open>FinishCommonEvent\<close> sends.  The service and the system ability manager are a
  state \<open>'s\<close> with the operations \<open>svc_ops\<close>, which every stub of \<open>ICommonEvent\<close> provides: an
  \<open>ErrCode\<close> of the transport, the out parameter, and the state afterwards.
\<close>

section \<open>The service as the client sees it\<close>

record 's svc_ops =
  sa_manager :: "'s \<Rightarrow> bool"
  sa_ability :: "'s \<Rightarrow> bool"
  sa_proxy :: "'s \<Rightarrow> bool"
  sa_subscribe :: "'s \<Rightarrow> err_code \<times> 's"
  sa_sleep :: "int \<Rightarrow> 's \<Rightarrow> 's"
  os_main_runner :: "'s \<Rightarrow> bool" \<comment> \<open>\<open>GetMainEventRunner\<close> is not null\<close>
  os_alloc :: "'s \<Rightarrow> bool" \<comment> \<open>the next \<open>new (std::nothrow)\<close> is not null\<close>
  px_publish :: "CommonEventData \<Rightarrow> CommonEventPublishInfo \<Rightarrow> int32 \<Rightarrow> 's \<Rightarrow> err_code \<times> err_code \<times> 's"
  px_publish_listener :: "CommonEventData \<Rightarrow> CommonEventPublishInfo \<Rightarrow> remote option \<Rightarrow> int32 \<Rightarrow>
    's \<Rightarrow> err_code \<times> err_code \<times> 's"
  px_publish_proxy :: "CommonEventData \<Rightarrow> CommonEventPublishInfo \<Rightarrow> uid_t \<Rightarrow> int32 \<Rightarrow> int32 \<Rightarrow>
    's \<Rightarrow> err_code \<times> bool \<times> 's"
  px_publish_proxy_listener :: "CommonEventData \<Rightarrow> CommonEventPublishInfo \<Rightarrow> remote option \<Rightarrow> uid_t \<Rightarrow>
    int32 \<Rightarrow> int32 \<Rightarrow> 's \<Rightarrow> err_code \<times> bool \<times> 's"
  px_subscribe :: "CommonEventSubscribeInfo \<Rightarrow> remote option \<Rightarrow> int32 \<Rightarrow> 's \<Rightarrow> err_code \<times> err_code \<times> 's"
  px_unsubscribe :: "remote option \<Rightarrow> 's \<Rightarrow> err_code \<times> err_code \<times> 's"
  px_unsubscribe_sync :: "remote option \<Rightarrow> 's \<Rightarrow> err_code \<times> err_code \<times> 's"
  px_sticky :: "string \<Rightarrow> CommonEventData \<Rightarrow> 's \<Rightarrow> err_code \<times> bool \<times> CommonEventData \<times> 's"
  px_finish :: "remote option \<Rightarrow> int32 \<Rightarrow> string \<Rightarrow> bool \<Rightarrow> 's \<Rightarrow> err_code \<times> bool \<times> 's"
  px_freeze :: "uid_t \<Rightarrow> 's \<Rightarrow> err_code \<times> bool \<times> 's"
  px_unfreeze :: "uid_t \<Rightarrow> 's \<Rightarrow> err_code \<times> bool \<times> 's"
  px_unfreeze_all :: "'s \<Rightarrow> err_code \<times> bool \<times> 's"
  px_remove_sticky :: "string \<Rightarrow> 's \<Rightarrow> err_code \<times> err_code \<times> 's"
  px_static :: "bool \<Rightarrow> 's \<Rightarrow> err_code \<times> err_code \<times> 's"
  px_static_events :: "string list \<Rightarrow> bool \<Rightarrow> 's \<Rightarrow> err_code \<times> err_code \<times> 's"
  px_dump :: "8 word \<Rightarrow> string \<Rightarrow> int32 \<Rightarrow> 's \<Rightarrow> err_code \<times> bool \<times> string list \<times> 's"
  px_freeze_status :: "pid_t list \<Rightarrow> bool \<Rightarrow> 's \<Rightarrow> err_code \<times> bool \<times> 's"

definition GetCommonEventProxy :: "'s svc_ops \<Rightarrow> 's \<Rightarrow> bool" where
  "GetCommonEventProxy X s =
     (if \<not> sa_manager X s then False
      else if \<not> sa_ability X s then False
      else if \<not> sa_proxy X s then False
      else True)"

text \<open>The pattern of every call: \<open>res\<close> decides whether the out parameter counts.\<close>

definition ok_or :: "'r \<Rightarrow> err_code \<times> 'r \<times> 's \<Rightarrow> 'r \<times> 's" where
  "ok_or bad = (\<lambda>(res, funcResult, s). (if res \<noteq> ERR_OK then bad else funcResult, s))"

definition FinishReceiver_client ::
  "'s svc_ops \<Rightarrow> remote option \<Rightarrow> int32 \<Rightarrow> string \<Rightarrow> bool \<Rightarrow> 's \<Rightarrow> bool \<times> 's" where
  "FinishReceiver_client X token code txt abortEvent s =
     (if token = None then (False, s)
      else if \<not> GetCommonEventProxy X s then (False, s)
      else ok_or False (px_finish X token code txt abortEvent s))"

section \<open>State\<close>

record AsyncCommonEventResult =
  ar_code :: int32
  ar_data :: string
  ar_ordered :: bool
  ar_sticky :: bool
  ar_token :: nat \<comment> \<open>a weak pointer to the listener\<close>
  ar_abort :: bool
  ar_finished :: bool

record CommonEventSubscriber =
  sr_info :: CommonEventSubscribeInfo
  sr_result :: "nat option"

record CommonEventListener =
  ln_subscriber :: "nat option"
  ln_runner :: bool
  ln_handler :: bool
  ln_queue :: bool
  ln_alive :: bool

datatype listener_task = ListenerTask nat CommonEventData bool bool

datatype client_effect =
    Received nat nat CommonEventData \<comment> \<open>listener, subscriber and event of a callback\<close>
  | Answered nat \<comment> \<open>the result that called \<open>FinishReceiver\<close>\<close>
  | LimitReport string

record client_state =
  cc_subscribers :: "nat \<Rightarrow> CommonEventSubscriber"
  cc_listeners :: "nat \<Rightarrow> CommonEventListener"
  cc_results :: "nat \<Rightarrow> AsyncCommonEventResult"
  cc_next :: nat
  cc_table :: "(nat, nat option) omap" \<comment> \<open>\<open>eventListeners_\<close>\<close>
  cc_tasks :: "listener_task list"
  cc_watching :: bool \<comment> \<open>\<open>statusChangeListener_\<close> is set\<close>
  cc_offline :: bool \<comment> \<open>its \<open>isSAOffline_\<close>\<close>
  cc_resubscribe :: nat \<comment> \<open>tasks in its queue\<close>
  cc_log :: "client_effect list"

definition log_client :: "client_effect \<Rightarrow> client_state \<Rightarrow> client_state" where
  "log_client x c = c\<lparr>cc_log := cc_log c @ [x]\<rparr>"

definition upd_result :: "nat \<Rightarrow> (AsyncCommonEventResult \<Rightarrow> AsyncCommonEventResult) \<Rightarrow> client_state \<Rightarrow> client_state" where
  "upd_result r f c = c\<lparr>cc_results := (cc_results c)(r := f (cc_results c r))\<rparr>"

definition upd_subscriber :: "nat \<Rightarrow> (CommonEventSubscriber \<Rightarrow> CommonEventSubscriber) \<Rightarrow> client_state \<Rightarrow> client_state" where
  "upd_subscriber b f c = c\<lparr>cc_subscribers := (cc_subscribers c)(b := f (cc_subscribers c b))\<rparr>"

definition upd_listener :: "nat \<Rightarrow> (CommonEventListener \<Rightarrow> CommonEventListener) \<Rightarrow> client_state \<Rightarrow> client_state" where
  "upd_listener l f c = c\<lparr>cc_listeners := (cc_listeners c)(l := f (cc_listeners c l))\<rparr>"

definition promote :: "client_state \<Rightarrow> nat \<Rightarrow> nat option" where
  "promote c l = (if ln_alive (cc_listeners c l) then Some l else None)"

lemmas client_upd_defs = log_client_def upd_result_def upd_subscriber_def upd_listener_def

section \<open>AsyncCommonEventResult\<close>

definition CheckSynchronous_result :: "AsyncCommonEventResult \<Rightarrow> bool" where
  "CheckSynchronous_result a = (if ar_ordered a then True else False)"

definition AsyncCommonEventResult_new :: "int32 \<Rightarrow> string \<Rightarrow> bool \<Rightarrow> bool \<Rightarrow> nat \<Rightarrow> AsyncCommonEventResult" where
  "AsyncCommonEventResult_new code txt ord sticky token =
     \<lparr>ar_code = code, ar_data = txt, ar_ordered = ord, ar_sticky = sticky, ar_token = token,
      ar_abort = False, ar_finished = False\<rparr>"

definition SetCode_result :: "int32 \<Rightarrow> AsyncCommonEventResult \<Rightarrow> bool \<times> AsyncCommonEventResult" where
  "SetCode_result code a = (if \<not> CheckSynchronous_result a then (False, a) else (True, a\<lparr>ar_code := code\<rparr>))"

definition SetData_result :: "string \<Rightarrow> AsyncCommonEventResult \<Rightarrow> bool \<times> AsyncCommonEventResult" where
  "SetData_result txt a = (if \<not> CheckSynchronous_result a then (False, a) else (True, a\<lparr>ar_data := txt\<rparr>))"

definition SetCodeAndData_result ::
  "int32 \<Rightarrow> string \<Rightarrow> AsyncCommonEventResult \<Rightarrow> bool \<times> AsyncCommonEventResult" where
  "SetCodeAndData_result code txt a =
     (if \<not> CheckSynchronous_result a then (False, a) else (True, a\<lparr>ar_code := code, ar_data := txt\<rparr>))"

definition AbortCommonEvent_result :: "AsyncCommonEventResult \<Rightarrow> bool \<times> AsyncCommonEventResult" where
  "AbortCommonEvent_result a = (if \<not> CheckSynchronous_result a then (False, a) else (True, a\<lparr>ar_abort := True\<rparr>))"

definition ClearAbortCommonEvent_result :: "AsyncCommonEventResult \<Rightarrow> bool \<times> AsyncCommonEventResult" where
  "ClearAbortCommonEvent_result a =
     (if \<not> CheckSynchronous_result a then (False, a) else (True, a\<lparr>ar_abort := False\<rparr>))"

definition FinishCommonEvent ::
  "'s svc_ops \<Rightarrow> nat \<Rightarrow> client_state \<times> 's \<Rightarrow> bool \<times> client_state \<times> 's" where
  "FinishCommonEvent X r = (\<lambda>(c, s).
     (let a = cc_results c r
      in if \<not> CheckSynchronous_result a then (False, c, s)
         else if ar_finished a then (False, c, s)
         else
           (let c1 = log_client (Answered r) (upd_result r (\<lambda>a. a\<lparr>ar_finished := True\<rparr>) c);
                (ok, s1) = FinishReceiver_client X (promote c (ar_token a)) (ar_code a) (ar_data a) (ar_abort a) s
            in (ok, c1, s1))))"

section \<open>CommonEventSubscriber\<close>

definition CheckSynchronous_subscriber :: "client_state \<Rightarrow> nat \<Rightarrow> bool" where
  "CheckSynchronous_subscriber c b =
     (case sr_result (cc_subscribers c b) of
        None \<Rightarrow> False
      | Some r \<Rightarrow> if \<not> CheckSynchronous_result (cc_results c r) then False else True)"

text \<open>The setters of the subscriber check first and pass the call to \<open>result_\<close>.\<close>

definition via_result ::
  "(AsyncCommonEventResult \<Rightarrow> bool \<times> AsyncCommonEventResult) \<Rightarrow> nat \<Rightarrow> client_state \<Rightarrow> bool \<times> client_state" where
  "via_result f b c =
     (if \<not> CheckSynchronous_subscriber c b then (False, c)
      else case sr_result (cc_subscribers c b) of
             None \<Rightarrow> (False, c)
           | Some r \<Rightarrow> (let (ok, a) = f (cc_results c r) in (ok, upd_result r (\<lambda>_. a) c)))"

definition SetCode_subscriber :: "nat \<Rightarrow> int32 \<Rightarrow> client_state \<Rightarrow> bool \<times> client_state" where
  "SetCode_subscriber b code = via_result (SetCode_result code) b"

definition SetData_subscriber :: "nat \<Rightarrow> string \<Rightarrow> client_state \<Rightarrow> bool \<times> client_state" where
  "SetData_subscriber b txt = via_result (SetData_result txt) b"

definition SetCodeAndData_subscriber :: "nat \<Rightarrow> int32 \<Rightarrow> string \<Rightarrow> client_state \<Rightarrow> bool \<times> client_state" where
  "SetCodeAndData_subscriber b code txt = via_result (SetCodeAndData_result code txt) b"

definition AbortCommonEvent_subscriber :: "nat \<Rightarrow> client_state \<Rightarrow> bool \<times> client_state" where
  "AbortCommonEvent_subscriber b = via_result AbortCommonEvent_result b"

definition ClearAbortCommonEvent_subscriber :: "nat \<Rightarrow> client_state \<Rightarrow> bool \<times> client_state" where
  "ClearAbortCommonEvent_subscriber b = via_result ClearAbortCommonEvent_result b"

definition of_result :: "'v \<Rightarrow> (AsyncCommonEventResult \<Rightarrow> 'v) \<Rightarrow> client_state \<Rightarrow> nat \<Rightarrow> 'v" where
  "of_result dflt f c b =
     (if \<not> CheckSynchronous_subscriber c b then dflt
      else case sr_result (cc_subscribers c b) of None \<Rightarrow> dflt | Some r \<Rightarrow> f (cc_results c r))"

definition GetCode_subscriber :: "client_state \<Rightarrow> nat \<Rightarrow> int32" where
  "GetCode_subscriber = of_result 0 ar_code"

definition GetData_subscriber :: "client_state \<Rightarrow> nat \<Rightarrow> string" where
  "GetData_subscriber = of_result [] ar_data"

definition GetAbortCommonEvent_subscriber :: "client_state \<Rightarrow> nat \<Rightarrow> bool" where
  "GetAbortCommonEvent_subscriber = of_result False ar_abort"

definition GoAsyncCommonEvent :: "nat \<Rightarrow> client_state \<Rightarrow> nat option \<times> client_state" where
  "GoAsyncCommonEvent b c =
     (let res = sr_result (cc_subscribers c b) in (res, upd_subscriber b (\<lambda>x. x\<lparr>sr_result := None\<rparr>) c))"

definition IsOrderedCommonEvent_subscriber :: "client_state \<Rightarrow> nat \<Rightarrow> bool" where
  "IsOrderedCommonEvent_subscriber c b =
     (case sr_result (cc_subscribers c b) of None \<Rightarrow> False | Some r \<Rightarrow> ar_ordered (cc_results c r))"

definition IsStickyCommonEvent_subscriber :: "client_state \<Rightarrow> nat \<Rightarrow> bool" where
  "IsStickyCommonEvent_subscriber c b =
     (case sr_result (cc_subscribers c b) of None \<Rightarrow> False | Some r \<Rightarrow> ar_sticky (cc_results c r))"

definition SetAsyncCommonEventResult :: "nat \<Rightarrow> nat option \<Rightarrow> client_state \<Rightarrow> client_state" where
  "SetAsyncCommonEventResult b res = upd_subscriber b (\<lambda>x. x\<lparr>sr_result := res\<rparr>)"

section \<open>CommonEventListener\<close>

definition IsReady_listener :: "CommonEventListener \<Rightarrow> bool" where
  "IsReady_listener ln = (if \<not> ln_queue ln \<and> \<not> ln_handler ln then False else True)"

definition InitListenerQueue :: "CommonEventListener \<Rightarrow> CommonEventListener" where
  "InitListenerQueue ln = (if \<not> ln_queue ln then ln\<lparr>ln_queue := True\<rparr> else ln)"

definition Init_listener ::
  "'s svc_ops \<Rightarrow> 's \<Rightarrow> client_state \<Rightarrow> CommonEventListener \<Rightarrow> err_code \<times> CommonEventListener" where
  "Init_listener X s c ln =
     (case ln_subscriber ln of
        None \<Rightarrow> (ERR_INVALID_OPERATION, ln)
      | Some b \<Rightarrow>
          if si_threadMode (sr_info (cc_subscribers c b)) = HANDLER
          then
            (let ln1 = (if \<not> ln_runner ln then ln\<lparr>ln_runner := os_main_runner X s\<rparr> else ln)
             in if \<not> ln_runner ln1 then (ERR_INVALID_OPERATION, ln1)
                else if \<not> ln_handler ln1 then (ERR_OK, ln1\<lparr>ln_handler := True\<rparr>) else (ERR_OK, ln1))
          else
            (let ln1 = InitListenerQueue ln
             in if \<not> ln_queue ln1 then (ERR_INVALID_OPERATION, ln1) else (ERR_OK, ln1)))"

text \<open>The constructor does not look at what \<open>Init\<close> returns.\<close>

definition CommonEventListener_new ::
  "'s svc_ops \<Rightarrow> 's \<Rightarrow> nat \<Rightarrow> client_state \<Rightarrow> nat \<times> client_state" where
  "CommonEventListener_new X s b c =
     (let l = cc_next c;
          ln = snd (Init_listener X s c \<lparr>ln_subscriber = Some b, ln_runner = False, ln_handler = False,
                                        ln_queue = False, ln_alive = True\<rparr>)
      in (l, upd_listener l (\<lambda>_. ln) (c\<lparr>cc_next := l + 1\<rparr>)))"

definition NotifyEvent_listener ::
  "nat \<Rightarrow> CommonEventData \<Rightarrow> bool \<Rightarrow> bool \<Rightarrow> client_state \<Rightarrow> err_code \<times> client_state" where
  "NotifyEvent_listener l d ord sticky c =
     (let ln = cc_listeners c l; t = ListenerTask l d ord sticky
      in if \<not> IsReady_listener ln then (IPC_INVOKER_ERR, c)
         else
           (let c1 = (if ln_handler ln then c\<lparr>cc_tasks := cc_tasks c @ [t]\<rparr> else c);
                c2 = (if ln_queue ln then c1\<lparr>cc_tasks := cc_tasks c1 @ [t]\<rparr> else c1)
            in (ERR_OK, c2)))"

text \<open>\<open>app\<close> is the \<open>OnReceiveEvent\<close> of the application, which may call the library in turn.\<close>

definition OnReceiveEvent ::
  "'s svc_ops \<Rightarrow> (client_state \<times> 's \<Rightarrow> client_state \<times> 's) \<Rightarrow> nat \<Rightarrow> CommonEventData \<Rightarrow> bool \<Rightarrow> bool \<Rightarrow>
     client_state \<times> 's \<Rightarrow> client_state \<times> 's" where
  "OnReceiveEvent X app l d ord sticky = (\<lambda>(c, s).
     (let r = cc_next c;
          c1 = upd_result r (\<lambda>_. AsyncCommonEventResult_new (cd_code d) (cd_data d) ord sticky l) (c\<lparr>cc_next := r + 1\<rparr>)
      in case ln_subscriber (cc_listeners c1 l) of
           None \<Rightarrow> (c1, s)
         | Some b \<Rightarrow>
             (let c2 = SetAsyncCommonEventResult b (Some r) c1;
                  (c3, s3) = app (log_client (Received l b d) c2, s)
              in if ord \<and> sr_result (cc_subscribers c3 b) \<noteq> None
                 then (case sr_result (cc_subscribers c3 b) of
                         None \<Rightarrow> (c3, s3)
                       | Some r' \<Rightarrow> snd (FinishCommonEvent X r' (c3, s3)))
                 else (c3, s3))))"

text \<open>The function a task runs: it holds a weak pointer to its listener.  The tasks of one listener
  run in the order they were posted.\<close>

fun take_task :: "nat \<Rightarrow> listener_task list \<Rightarrow> (listener_task \<times> listener_task list) option" where
  "take_task l [] = None"
| "take_task l (ListenerTask l' d ord sticky # ts) =
     (if l' = l then Some (ListenerTask l' d ord sticky, ts)
      else (case take_task l ts of None \<Rightarrow> None | Some (t, ts') \<Rightarrow> Some (t, ListenerTask l' d ord sticky # ts')))"

definition run_listener_task ::
  "'s svc_ops \<Rightarrow> (client_state \<times> 's \<Rightarrow> client_state \<times> 's) \<Rightarrow> nat \<Rightarrow> client_state \<times> 's \<Rightarrow> client_state \<times> 's" where
  "run_listener_task X app l = (\<lambda>(c, s).
     (case take_task l (cc_tasks c) of
        None \<Rightarrow> (c, s)
      | Some (ListenerTask l' d ord sticky, ts) \<Rightarrow>
          (let c1 = c\<lparr>cc_tasks := ts\<rparr>
           in case promote c1 l' of
                None \<Rightarrow> (c1, s)
              | Some sThis \<Rightarrow> OnReceiveEvent X app sThis d ord sticky (c1, s))))"

definition Stop_listener :: "nat \<Rightarrow> client_state \<Rightarrow> client_state" where
  "Stop_listener l = upd_listener l (\<lambda>ln. ln\<lparr>ln_queue := False, ln_handler := False,
     ln_subscriber := None, ln_runner := False\<rparr>)"

end
