(* ===== verification/Client_Library.thy ===== *)
theory Client_Library
  imports Client_Results
begin

text \<open>
  The client library: \<open>CommonEvent\<close> (\<open>common_event.cpp\<close>) with its table \<open>eventListeners_\<close> of
  subscribers and their listeners, \<open>CommonEventDeathRecipient\<close>
  (\<open>common_event_death_recipient.cpp\<close>), which subscribes again after the service has died, and the
  public entry points \<open>CommonEventManager\<close> (\<open>common_event_manager.cpp\<close>) that choose defaults.

  Operations take and return the client's state and the state \<open>'s\<close> behind the service proxy.  A
  subscriber or listener that may be null is an option.  The constants for the four answers of
  \<open>CreateCommonEventListener\<close> carry their numbers.
\<close>

section \<open>The table of listeners\<close>

definition SUBSCRIBER_MAX_SIZE :: nat where "SUBSCRIBER_MAX_SIZE = 200"
definition ALREADY_SUBSCRIBED :: nat where "ALREADY_SUBSCRIBED = 0"
definition INITIAL_SUBSCRIPTION :: nat where "INITIAL_SUBSCRIPTION = 1"
definition SUBSCRIBE_FAILED :: nat where "SUBSCRIBE_FAILED = 2"
definition SUBSCRIBE_EXCEED_LIMIT :: nat where "SUBSCRIBE_EXCEED_LIMIT = 3"
definition UNDEFINED_INSTANCE_KEY :: int32 where "UNDEFINED_INSTANCE_KEY = -1"
definition MAX_RETRY_TIME :: nat where "MAX_RETRY_TIME = 30"
definition SLEEP_TIME :: int32 where "SLEEP_TIME = 1000"

lemmas subscribe_states = ALREADY_SUBSCRIBED_def INITIAL_SUBSCRIPTION_def SUBSCRIBE_FAILED_def
  SUBSCRIBE_EXCEED_LIMIT_def

abbreviation info_of :: "client_state \<Rightarrow> nat \<Rightarrow> CommonEventSubscribeInfo" where
  "info_of c b \<equiv> sr_info (cc_subscribers c b)"

text \<open>\<open>std::sort\<close> is not stable; the order of equal counts is arbitrary and that of the map here.\<close>

definition limit_report :: "client_state \<Rightarrow> string" where
  "limit_report c =
     (let skills = map (\<lambda>(b, _). MatchingSkills_ToString (si_matchingSkills (info_of c b))) (cc_table c);
          eventCounts = foldl (\<lambda>m k. omap_put k (at_num m k + 1) m) [] skills;
          vec = sort_key (\<lambda>(_, n). - int n) eventCounts
      in concat (map (\<lambda>(k, n). if n > 1 then k @ '':'' @ to_string (int n) @ '','' else []) vec))"

definition LogCachedSubscriber :: "client_state \<Rightarrow> client_state" where
  "LogCachedSubscriber c = log_client (LimitReport (limit_report c)) c"

definition CreateCommonEventListener ::
  "'s svc_ops \<Rightarrow> nat option \<Rightarrow> client_state \<times> 's \<Rightarrow> nat \<times> remote option \<times> client_state" where
  "CreateCommonEventListener X subscriber = (\<lambda>(c, s).
     (case subscriber of
        None \<Rightarrow> (SUBSCRIBE_FAILED, None, c)
      | Some b \<Rightarrow>
          (case map_of (cc_table c) b of
             Some eventListener \<Rightarrow> (ALREADY_SUBSCRIBED, eventListener, c)
           | None \<Rightarrow>
               if length (cc_table c) = SUBSCRIBER_MAX_SIZE
               then (SUBSCRIBE_EXCEED_LIMIT, None, LogCachedSubscriber c)
               else if \<not> os_alloc X s then (SUBSCRIBE_FAILED, None, c)
               else
                 (let (l, c1) = CommonEventListener_new X s b c
                  in (INITIAL_SUBSCRIPTION, Some l, c1\<lparr>cc_table := omap_put b (Some l) (cc_table c1)\<rparr>)))))"

section \<open>Publishing\<close>

definition PublishParameterCheck ::
  "'s svc_ops \<Rightarrow> CommonEventData \<Rightarrow> CommonEventPublishInfo \<Rightarrow> nat option \<Rightarrow> client_state \<times> 's \<Rightarrow>
     bool \<times> remote option \<times> client_state" where
  "PublishParameterCheck X d pinfo subscriber = (\<lambda>(c, s).
     (if w_action (cd_want d) = [] then (False, None, c)
      else if \<not> pi_ordered pinfo \<and> subscriber \<noteq> None then (False, None, c)
      else if subscriber \<noteq> None
        then (let (state, commonEventListener, c1) = CreateCommonEventListener X subscriber (c, s)
              in if state = SUBSCRIBE_FAILED then (False, commonEventListener, c1)
                 else (True, commonEventListener, c1))
      else (True, None, c)))"

definition PublishCommonEvent_client ::
  "'s svc_ops \<Rightarrow> CommonEventData \<Rightarrow> CommonEventPublishInfo \<Rightarrow> nat option \<Rightarrow> client_state \<times> 's \<Rightarrow>
     bool \<times> client_state \<times> 's" where
  "PublishCommonEvent_client X d pinfo subscriber = (\<lambda>(c, s).
     (let (ok, commonEventListener, c1) = PublishParameterCheck X d pinfo subscriber (c, s)
      in if \<not> ok then (False, c1, s)
         else if \<not> GetCommonEventProxy X s then (False, c1, s)
         else
           (let (funcResult, s1) = ok_or ERR_NOTIFICATION_CES_COMMON_PARAM_INVALID
                  (if subscriber = None then px_publish X d pinfo UNDEFINED_USER s
                   else px_publish_listener X d pinfo commonEventListener UNDEFINED_USER s)
            in (funcResult = ERR_OK, c1, s1))))"

definition PublishCommonEventAsUser_client ::
  "'s svc_ops \<Rightarrow> CommonEventData \<Rightarrow> CommonEventPublishInfo \<Rightarrow> nat option \<Rightarrow> int32 \<Rightarrow> client_state \<times> 's \<Rightarrow>
     err_code \<times> client_state \<times> 's" where
  "PublishCommonEventAsUser_client X d pinfo subscriber user = (\<lambda>(c, s).
     (let (ok, commonEventListener, c1) = PublishParameterCheck X d pinfo subscriber (c, s)
      in if \<not> ok then (ERR_NOTIFICATION_CES_COMMON_PARAM_INVALID, c1, s)
         else if \<not> GetCommonEventProxy X s then (ERR_NOTIFICATION_CES_COMMON_PARAM_INVALID, c1, s)
         else
           (let (funcResult, s1) = ok_or ERR_NOTIFICATION_CES_COMMON_PARAM_INVALID
                  (if subscriber = None then px_publish X d pinfo user s
                   else px_publish_listener X d pinfo commonEventListener user s)
            in (funcResult, c1, s1))))"

definition PublishCommonEvent_proxy_client ::
  "'s svc_ops \<Rightarrow> CommonEventData \<Rightarrow> CommonEventPublishInfo \<Rightarrow> nat option \<Rightarrow> uid_t \<Rightarrow> int32 \<Rightarrow> client_state \<times> 's \<Rightarrow>
     bool \<times> client_state \<times> 's" where
  "PublishCommonEvent_proxy_client X d pinfo subscriber u tok = (\<lambda>(c, s).
     (let (ok, commonEventListener, c1) = PublishParameterCheck X d pinfo subscriber (c, s)
      in if \<not> ok then (False, c1, s)
         else if \<not> GetCommonEventProxy X s then (False, c1, s)
         else
           (let (funcResult, s1) = ok_or False
                  (if subscriber = None then px_publish_proxy X d pinfo u tok UNDEFINED_USER s
                   else px_publish_proxy_listener X d pinfo commonEventListener u tok UNDEFINED_USER s)
            in (funcResult, c1, s1))))"

definition PublishCommonEventAsUser_proxy_client ::
  "'s svc_ops \<Rightarrow> CommonEventData \<Rightarrow> CommonEventPublishInfo \<Rightarrow> nat option \<Rightarrow> uid_t \<Rightarrow> int32 \<Rightarrow> int32 \<Rightarrow> client_state \<times> 's \<Rightarrow>
     bool \<times> client_state \<times> 's" where
  "PublishCommonEventAsUser_proxy_client X d pinfo subscriber u tok user = (\<lambda>(c, s).
     (let (ok, commonEventListener, c1) = PublishParameterCheck X d pinfo subscriber (c, s)
      in if \<not> ok then (False, c1, s)
         else if \<not> GetCommonEventProxy X s then (False, c1, s)
         else
           (let (funcResult, s1) = ok_or False
                  (if subscriber = None then px_publish_proxy X d pinfo u tok user s
                   else px_publish_proxy_listener X d pinfo commonEventListener u tok user s)
            in (funcResult, c1, s1))))"

section \<open>Subscribing\<close>

text \<open>The listener of a table entry is stopped after the entry has been erased.\<close>

definition erase_and_stop :: "nat \<Rightarrow> client_state \<Rightarrow> client_state" where
  "erase_and_stop b c =
     (case map_of (cc_table c) b of
        None \<Rightarrow> c
      | Some listenerToStop \<Rightarrow>
          (let c1 = c\<lparr>cc_table := AList.delete b (cc_table c)\<rparr>
           in case listenerToStop of None \<Rightarrow> c1 | Some l \<Rightarrow> Stop_listener l c1))"

definition SubscribeOrUpdate ::
  "'s svc_ops \<Rightarrow> nat \<Rightarrow> bool \<Rightarrow> client_state \<times> 's \<Rightarrow> err_code \<times> client_state \<times> 's" where
  "SubscribeOrUpdate X b isUpdate = (\<lambda>(c, s).
     (let (subscribeState, commonEventListener, c1) = CreateCommonEventListener X (Some b) (c, s)
      in if subscribeState = INITIAL_SUBSCRIPTION
         then
           (let (funcResult, s1) = ok_or ERR_NOTIFICATION_CES_COMMON_PARAM_INVALID
                  (px_subscribe X (info_of c1 b) commonEventListener UNDEFINED_INSTANCE_KEY s)
            in if funcResult \<noteq> ERR_OK then (funcResult, erase_and_stop b c1, s1) else (funcResult, c1, s1))
         else if subscribeState = ALREADY_SUBSCRIBED
         then
           (if isUpdate
            then (let (res, funcResult, s1) =
                    px_subscribe X (info_of c1 b) commonEventListener UNDEFINED_INSTANCE_KEY s
                  in (if res \<noteq> ERR_OK then ERR_NOTIFICATION_CES_COMMON_PARAM_INVALID else ERR_OK, c1, s1))
            else (ERR_OK, c1, s))
         else if subscribeState = SUBSCRIBE_EXCEED_LIMIT
         then (ERR_NOTIFICATION_CES_SUBSCRIBE_EXCEED_LIMIT, c1, s)
         else (ERR_NOTIFICATION_CES_COMMON_SYSTEMCAP_NOT_SUPPORT, c1, s)))"

text \<open>\<open>CommonEventDeathRecipient::SubscribeSAManager\<close>; a new listener starts with
  \<open>isSAOffline_\<close> false and an empty queue.\<close>

definition SubscribeSAManager :: "'s svc_ops \<Rightarrow> client_state \<times> 's \<Rightarrow> client_state \<times> 's" where
  "SubscribeSAManager X = (\<lambda>(c, s).
     (if cc_watching c then (c, s)
      else if \<not> sa_manager X s then (c, s)
      else if \<not> os_alloc X s then (c, s)
      else
        (let (ret, s1) = sa_subscribe X s
         in if ret \<noteq> ERR_OK then (c, s1)
            else (c\<lparr>cc_watching := True, cc_offline := False, cc_resubscribe := 0\<rparr>, s1))))"

definition Subscribe_client ::
  "'s svc_ops \<Rightarrow> nat option \<Rightarrow> client_state \<times> 's \<Rightarrow> err_code \<times> client_state \<times> 's" where
  "Subscribe_client X subscriber = (\<lambda>(c, s).
     (case subscriber of
        None \<Rightarrow> (ERR_NOTIFICATION_CES_COMMON_PARAM_INVALID, c, s)
      | Some b \<Rightarrow>
          if CountEvent (si_matchingSkills (info_of c b)) = 0
          then (ERR_NOTIFICATION_CES_COMMON_PARAM_INVALID, c, s)
          else if \<not> GetCommonEventProxy X s then (ERR_NOTIFICATION_CESM_ERROR, c, s)
          else SubscribeOrUpdate X b True (SubscribeSAManager X (c, s))))"

definition SubscribeCommonEvent_client ::
  "'s svc_ops \<Rightarrow> nat option \<Rightarrow> client_state \<times> 's \<Rightarrow> err_code \<times> client_state \<times> 's" where
  "SubscribeCommonEvent_client X subscriber = (\<lambda>(c, s).
     (case subscriber of
        None \<Rightarrow> (ERR_NOTIFICATION_CES_COMMON_PARAM_INVALID, c, s)
      | Some b \<Rightarrow>
          if CountEvent (si_matchingSkills (info_of c b)) = 0
          then (ERR_NOTIFICATION_CES_COMMON_PARAM_INVALID, c, s)
          else if \<not> GetCommonEventProxy X s then (ERR_NOTIFICATION_CESM_ERROR, c, s)
          else SubscribeOrUpdate X b False (SubscribeSAManager X (c, s))))"

definition UnSubscribeCommonEvent_client ::
  "'s svc_ops \<Rightarrow> nat option \<Rightarrow> client_state \<times> 's \<Rightarrow> err_code \<times> client_state \<times> 's" where
  "UnSubscribeCommonEvent_client X subscriber = (\<lambda>(c, s).
     (case subscriber of
        None \<Rightarrow> (ERR_NOTIFICATION_CES_COMMON_PARAM_INVALID, c, s)
      | Some b \<Rightarrow>
          if \<not> GetCommonEventProxy X s then (ERR_NOTIFICATION_CESM_ERROR, c, s)
          else
            (case map_of (cc_table c) b of
               None \<Rightarrow> (ERR_OK, c, s)
             | Some eventListener \<Rightarrow>
                 if eventListener = None then (ERR_NOTIFICATION_CES_COMMON_PARAM_INVALID, c, s)
                 else
                   (let (funcResult, s1) = ok_or ERR_NOTIFICATION_CES_COMMON_PARAM_INVALID
                          (px_unsubscribe X eventListener s)
                    in if funcResult = ERR_OK then (ERR_OK, erase_and_stop b c, s1)
                       else (ERR_NOTIFICATION_SEND_ERROR, c, s1)))))"

definition UnSubscribeCommonEventSync_client ::
  "'s svc_ops \<Rightarrow> nat option \<Rightarrow> client_state \<times> 's \<Rightarrow> err_code \<times> client_state \<times> 's" where
  "UnSubscribeCommonEventSync_client X subscriber = (\<lambda>(c, s).
     (case subscriber of
        None \<Rightarrow> (ERR_NOTIFICATION_CES_COMMON_PARAM_INVALID, c, s)
      | Some b \<Rightarrow>
          if \<not> GetCommonEventProxy X s then (ERR_NOTIFICATION_CESM_ERROR, c, s)
          else
            (case map_of (cc_table c) b of
               None \<Rightarrow> (ERR_OK, c, s)
             | Some eventListener \<Rightarrow>
                 if eventListener = None then (ERR_NOTIFICATION_CES_COMMON_PARAM_INVALID, c, s)
                 else
                   (let (funcResult, s1) = ok_or ERR_NOTIFICATION_CES_COMMON_PARAM_INVALID
                          (px_unsubscribe_sync X eventListener s)
                    in if funcResult = ERR_OK then (ERR_OK, erase_and_stop b c, s1)
                       else (ERR_NOTIFICATION_SEND_ERROR, c, s1)))))"

section \<open>Calls that only pass on\<close>

definition GetStickyCommonEvent_client ::
  "'s svc_ops \<Rightarrow> string \<Rightarrow> CommonEventData \<Rightarrow> 's \<Rightarrow> bool \<times> CommonEventData \<times> 's" where
  "GetStickyCommonEvent_client X event eventData s =
     (if event = [] then (False, eventData, s)
      else if \<not> GetCommonEventProxy X s then (False, eventData, s)
      else (let (res, funcResult, d, s1) = px_sticky X event eventData s
            in (if res \<noteq> ERR_OK then False else funcResult, d, s1)))"

definition Freeze_client :: "'s svc_ops \<Rightarrow> uid_t \<Rightarrow> 's \<Rightarrow> bool \<times> 's" where
  "Freeze_client X u s =
     (if \<not> GetCommonEventProxy X s then (False, s) else ok_or False (px_freeze X u s))"

definition Unfreeze_client :: "'s svc_ops \<Rightarrow> uid_t \<Rightarrow> 's \<Rightarrow> bool \<times> 's" where
  "Unfreeze_client X u s =
     (if \<not> GetCommonEventProxy X s then (False, s) else ok_or False (px_unfreeze X u s))"

definition UnfreezeAll_client :: "'s svc_ops \<Rightarrow> 's \<Rightarrow> bool \<times> 's" where
  "UnfreezeAll_client X s =
     (if \<not> GetCommonEventProxy X s then (False, s) else ok_or False (px_unfreeze_all X s))"

definition RemoveStickyCommonEvent_client :: "'s svc_ops \<Rightarrow> string \<Rightarrow> 's \<Rightarrow> err_code \<times> 's" where
  "RemoveStickyCommonEvent_client X event s =
     (if \<not> GetCommonEventProxy X s then (ERR_NOTIFICATION_CES_COMMON_PARAM_INVALID, s) else ok_or ERR_NOTIFICATION_CES_COMMON_PARAM_INVALID (px_remove_sticky X event s))"

definition SetStaticSubscriberState_client :: "'s svc_ops \<Rightarrow> bool \<Rightarrow> 's \<Rightarrow> err_code \<times> 's" where
  "SetStaticSubscriberState_client X enable s =
     (if \<not> GetCommonEventProxy X s then (ERR_NOTIFICATION_CES_COMMON_PARAM_INVALID, s) else ok_or ERR_NOTIFICATION_CES_COMMON_PARAM_INVALID (px_static X enable s))"

definition SetStaticSubscriberState_events_client :: "'s svc_ops \<Rightarrow> string list \<Rightarrow> bool \<Rightarrow> 's \<Rightarrow> err_code \<times> 's" where
  "SetStaticSubscriberState_events_client X events enable s =
     (if \<not> GetCommonEventProxy X s then (ERR_NOTIFICATION_CES_COMMON_PARAM_INVALID, s) else ok_or ERR_NOTIFICATION_CES_COMMON_PARAM_INVALID (px_static_events X events enable s))"

text \<open>Without a proxy this one returns an error code as a \<open>bool\<close>.\<close>

definition SetFreezeStatus_client :: "'s svc_ops \<Rightarrow> pid_t list \<Rightarrow> bool \<Rightarrow> 's \<Rightarrow> bool \<times> 's" where
  "SetFreezeStatus_client X pidList freeze s =
     (if \<not> GetCommonEventProxy X s then (code_to_bool ERR_NOTIFICATION_CES_COMMON_PARAM_INVALID, s) else ok_or False (px_freeze_status X pidList freeze s))"

definition DumpState_client :: "'s svc_ops \<Rightarrow> 8 word \<Rightarrow> string \<Rightarrow> int32 \<Rightarrow> 's \<Rightarrow> bool \<times> string list \<times> 's" where
  "DumpState_client X dumpType event user s =
     (if \<not> GetCommonEventProxy X s then (False, [], s)
      else (let (res, funcResult, xs, s1) = px_dump X dumpType event user s
            in (if res \<noteq> ERR_OK then False else funcResult, xs, s1)))"

section \<open>The death of the service\<close>

fun Reconnect_loop :: "'s svc_ops \<Rightarrow> nat \<Rightarrow> 's \<Rightarrow> bool \<times> 's" where
  "Reconnect_loop X 0 s = (False, s)"
| "Reconnect_loop X (Suc n) s =
     (if \<not> GetCommonEventProxy X s then Reconnect_loop X n (sa_sleep X SLEEP_TIME s) else (True, s))"

definition Reconnect :: "'s svc_ops \<Rightarrow> 's \<Rightarrow> bool \<times> 's" where
  "Reconnect X = Reconnect_loop X MAX_RETRY_TIME"

text \<open>The entries the loop keeps.  An entry it erases loses its listener without a \<open>Stop\<close>.\<close>

fun resubscribe_loop ::
  "'s svc_ops \<Rightarrow> client_state \<Rightarrow> (nat, nat option) omap \<Rightarrow> 's \<Rightarrow> (nat, nat option) omap \<times> 's" where
  "resubscribe_loop X c [] s = ([], s)"
| "resubscribe_loop X c ((subscriber, listener) # rest) s =
     (case listener of
        None \<Rightarrow> resubscribe_loop X c rest s
      | Some l \<Rightarrow>
          (let (funcResult, s1) = ok_or ERR_NOTIFICATION_CES_COMMON_PARAM_INVALID
                 (px_subscribe X (info_of c subscriber) (Some l) UNDEFINED_INSTANCE_KEY s);
               (kept, s2) = resubscribe_loop X c rest s1
           in (if funcResult \<noteq> ERR_OK then kept else (subscriber, listener) # kept, s2)))"

definition Resubscribe :: "'s svc_ops \<Rightarrow> client_state \<times> 's \<Rightarrow> bool \<times> client_state \<times> 's" where
  "Resubscribe X = (\<lambda>(c, s).
     (if \<not> GetCommonEventProxy X s then (False, c, s)
      else (let (kept, s1) = resubscribe_loop X c (cc_table c) s in (True, c\<lparr>cc_table := kept\<rparr>, s1))))"

definition OnRemoveSystemAbility :: "client_state \<Rightarrow> client_state" where
  "OnRemoveSystemAbility c = c\<lparr>cc_offline := True\<rparr>"

definition OnAddSystemAbility :: "'s svc_ops \<Rightarrow> client_state \<times> 's \<Rightarrow> client_state \<times> 's" where
  "OnAddSystemAbility X = (\<lambda>(c, s).
     (if \<not> cc_offline c then (c, s)
      else (let (ok, s1) = Reconnect X s
            in if ok then (c\<lparr>cc_resubscribe := cc_resubscribe c + 1, cc_offline := False\<rparr>, s1) else (c, s1))))"

definition run_resubscribe :: "'s svc_ops \<Rightarrow> client_state \<times> 's \<Rightarrow> client_state \<times> 's" where
  "run_resubscribe X = (\<lambda>(c, s).
     (if cc_resubscribe c = 0 then (c, s)
      else snd (Resubscribe X (c\<lparr>cc_resubscribe := cc_resubscribe c - 1\<rparr>, s))))"

section \<open>CommonEventManager\<close>

definition NewPublishCommonEventAsUser ::
  "'s svc_ops \<Rightarrow> CommonEventData \<Rightarrow> CommonEventPublishInfo \<Rightarrow> nat option \<Rightarrow> int32 \<Rightarrow> client_state \<times> 's \<Rightarrow>
     err_code \<times> client_state \<times> 's" where
  "NewPublishCommonEventAsUser = PublishCommonEventAsUser_client"

definition PublishCommonEventAsUser_mgr ::
  "'s svc_ops \<Rightarrow> CommonEventData \<Rightarrow> CommonEventPublishInfo \<Rightarrow> nat option \<Rightarrow> int32 \<Rightarrow> client_state \<times> 's \<Rightarrow>
     bool \<times> client_state \<times> 's" where
  "PublishCommonEventAsUser_mgr X d pinfo subscriber user cs =
     (let (r, cs1) = NewPublishCommonEventAsUser X d pinfo subscriber user cs in (r = ERR_OK, cs1))"

definition PublishCommonEvent_mgr ::
  "'s svc_ops \<Rightarrow> CommonEventData \<Rightarrow> client_state \<times> 's \<Rightarrow> bool \<times> client_state \<times> 's" where
  "PublishCommonEvent_mgr X d = PublishCommonEventAsUser_mgr X d CommonEventPublishInfo_init None UNDEFINED_USER"

definition NewPublishCommonEvent ::
  "'s svc_ops \<Rightarrow> CommonEventData \<Rightarrow> CommonEventPublishInfo \<Rightarrow> client_state \<times> 's \<Rightarrow> err_code \<times> client_state \<times> 's" where
  "NewPublishCommonEvent X d pinfo = NewPublishCommonEventAsUser X d pinfo None UNDEFINED_USER"

definition SubscribeCommonEvent_mgr ::
  "'s svc_ops \<Rightarrow> nat option \<Rightarrow> client_state \<times> 's \<Rightarrow> bool \<times> client_state \<times> 's" where
  "SubscribeCommonEvent_mgr X subscriber cs =
     (let (r, cs1) = SubscribeCommonEvent_client X subscriber cs in (r = ERR_OK, cs1))"

definition UnSubscribeCommonEvent_mgr ::
  "'s svc_ops \<Rightarrow> nat option \<Rightarrow> client_state \<times> 's \<Rightarrow> bool \<times> client_state \<times> 's" where
  "UnSubscribeCommonEvent_mgr X subscriber cs =
     (let (r, cs1) = UnSubscribeCommonEvent_client X subscriber cs in (r = ERR_OK, cs1))"

end
