(* ===== verification/Client_Steps.thy ===== *)
theory Client_Steps
  imports Client_Library
begin

text \<open>
  The runs of an application process: what the application calls, what the service and the system
  call, and what the queues run, in any order.  The callback of an application is a list of such
  steps, so it may use the library in turn, and steps of other threads may fall into it.
  \<open>client_ok\<close> is the invariant of the table of listeners and of the answers that were sent;
  \<open>evolves\<close> says what no step ever undoes.
\<close>

section \<open>Steps\<close>

datatype subscriber_call = CallSetCode int32 | CallSetData string | CallSetCodeAndData int32 string
  | CallAbort | CallClearAbort | CallGoAsync

datatype result_call = ResultSetCode int32 | ResultSetData string | ResultSetCodeAndData int32 string
  | ResultAbort | ResultClearAbort | ResultFinish

datatype 's client_op =
    OpPublish CommonEventData CommonEventPublishInfo "nat option"
  | OpPublishAsUser CommonEventData CommonEventPublishInfo "nat option" int32
  | OpPublishProxy CommonEventData CommonEventPublishInfo "nat option" uid_t int32
  | OpPublishProxyAsUser CommonEventData CommonEventPublishInfo "nat option" uid_t int32 int32
  | OpSubscribe "nat option"
  | OpSubscribeOrUpdate "nat option"
  | OpUnsubscribe "nat option"
  | OpUnsubscribeSync "nat option"
  | OpSetInfo nat CommonEventSubscribeInfo
  | OpSubscriber nat subscriber_call
  | OpResult nat result_call
  | OpNotify nat CommonEventData bool bool
  | OpRun nat "'s client_op list"
  | OpServiceGone
  | OpServiceBack
  | OpResubscribe
  | OpRelease nat \<comment> \<open>the last strong pointer to a listener goes\<close>
  | OpWorld "'s \<Rightarrow> 's" \<comment> \<open>the service moves on; also the calls that only pass on\<close>

fun call_subscriber :: "nat \<Rightarrow> subscriber_call \<Rightarrow> client_state \<Rightarrow> client_state" where
  "call_subscriber b (CallSetCode i) c = snd (SetCode_subscriber b i c)"
| "call_subscriber b (CallSetData t) c = snd (SetData_subscriber b t c)"
| "call_subscriber b (CallSetCodeAndData i t) c = snd (SetCodeAndData_subscriber b i t c)"
| "call_subscriber b CallAbort c = snd (AbortCommonEvent_subscriber b c)"
| "call_subscriber b CallClearAbort c = snd (ClearAbortCommonEvent_subscriber b c)"
| "call_subscriber b CallGoAsync c = snd (GoAsyncCommonEvent b c)"

fun call_result :: "'s svc_ops \<Rightarrow> nat \<Rightarrow> result_call \<Rightarrow> client_state \<times> 's \<Rightarrow> client_state \<times> 's" where
  "call_result X r (ResultSetCode i) (c, s) = (upd_result r (\<lambda>a. snd (SetCode_result i a)) c, s)"
| "call_result X r (ResultSetData t) (c, s) = (upd_result r (\<lambda>a. snd (SetData_result t a)) c, s)"
| "call_result X r (ResultSetCodeAndData i t) (c, s) = (upd_result r (\<lambda>a. snd (SetCodeAndData_result i t a)) c, s)"
| "call_result X r ResultAbort (c, s) = (upd_result r (\<lambda>a. snd (AbortCommonEvent_result a)) c, s)"
| "call_result X r ResultClearAbort (c, s) = (upd_result r (\<lambda>a. snd (ClearAbortCommonEvent_result a)) c, s)"
| "call_result X r ResultFinish (c, s) = snd (FinishCommonEvent X r (c, s))"

fun client_exec :: "'s svc_ops \<Rightarrow> 's client_op \<Rightarrow> client_state \<times> 's \<Rightarrow> client_state \<times> 's" where
  "client_exec X (OpPublish d i b) (c, s) = snd (PublishCommonEvent_client X d i b (c, s))"
| "client_exec X (OpPublishAsUser d i b u) (c, s) = snd (PublishCommonEventAsUser_client X d i b u (c, s))"
| "client_exec X (OpPublishProxy d i b u t) (c, s) = snd (PublishCommonEvent_proxy_client X d i b u t (c, s))"
| "client_exec X (OpPublishProxyAsUser d i b u t v) (c, s) =
     snd (PublishCommonEventAsUser_proxy_client X d i b u t v (c, s))"
| "client_exec X (OpSubscribe b) (c, s) = snd (SubscribeCommonEvent_client X b (c, s))"
| "client_exec X (OpSubscribeOrUpdate b) (c, s) = snd (Subscribe_client X b (c, s))"
| "client_exec X (OpUnsubscribe b) (c, s) = snd (UnSubscribeCommonEvent_client X b (c, s))"
| "client_exec X (OpUnsubscribeSync b) (c, s) = snd (UnSubscribeCommonEventSync_client X b (c, s))"
| "client_exec X (OpSetInfo b i) (c, s) = (upd_subscriber b (\<lambda>x. x\<lparr>sr_info := i\<rparr>) c, s)"
| "client_exec X (OpSubscriber b k) (c, s) = (call_subscriber b k c, s)"
| "client_exec X (OpResult r k) (c, s) = (if r < cc_next c then call_result X r k (c, s) else (c, s))"
| "client_exec X (OpNotify l d ord sticky) (c, s) =
     (if l < cc_next c then (snd (NotifyEvent_listener l d ord sticky c), s) else (c, s))"
| "client_exec X (OpRun l ops) cs = run_listener_task X (\<lambda>cs1. foldl (\<lambda>cs' op. client_exec X op cs') cs1 ops) l cs"
| "client_exec X OpServiceGone (c, s) = (OnRemoveSystemAbility c, s)"
| "client_exec X OpServiceBack (c, s) = OnAddSystemAbility X (c, s)"
| "client_exec X OpResubscribe (c, s) = run_resubscribe X (c, s)"
| "client_exec X (OpRelease l) (c, s) =
     (if Some l \<in> snd ` set (cc_table c) then (c, s) else (upd_listener l (\<lambda>ln. ln\<lparr>ln_alive := False\<rparr>) c, s))"
| "client_exec X (OpWorld f) (c, s) = (c, f s)"

definition client_init :: "client_state \<Rightarrow> bool" where
  "client_init c \<longleftrightarrow> cc_next c = 0 \<and> cc_table c = [] \<and> cc_tasks c = [] \<and> \<not> cc_watching c \<and>
     cc_resubscribe c = 0 \<and> cc_log c = [] \<and> (\<forall>b. sr_result (cc_subscribers c b) = None)"

inductive client_reachable :: "'s svc_ops \<Rightarrow> client_state \<times> 's \<Rightarrow> bool" for X where
  start: "client_init c \<Longrightarrow> client_reachable X (c, s)"
| step: "client_reachable X cs \<Longrightarrow> client_reachable X (client_exec X op cs)"

section \<open>The invariant\<close>

definition client_ok :: "client_state \<Rightarrow> bool" where
  "client_ok c \<longleftrightarrow> omap_ok (cc_table c) \<and> length (cc_table c) \<le> SUBSCRIBER_MAX_SIZE \<and>
     (\<forall>b v. map_of (cc_table c) b = Some v \<longrightarrow>
        (\<exists>l. v = Some l \<and> l < cc_next c \<and> ln_subscriber (cc_listeners c l) = Some b \<and> ln_alive (cc_listeners c l))) \<and>
     (\<forall>b r. sr_result (cc_subscribers c b) = Some r \<longrightarrow> r < cc_next c) \<and>
     (\<forall>r. count_list (cc_log c) (Answered r) \<le> (if r < cc_next c \<and> ar_finished (cc_results c r) then 1 else 0))"

text \<open>Addresses below \<open>n\<close> are in use.\<close>

definition evolves :: "client_state \<Rightarrow> client_state \<Rightarrow> bool" where
  "evolves c c' \<longleftrightarrow> cc_next c \<le> cc_next c' \<and>
     (\<forall>l < cc_next c. ln_subscriber (cc_listeners c' l) = ln_subscriber (cc_listeners c l) \<or>
        ln_subscriber (cc_listeners c' l) = None) \<and>
     (\<exists>ext. cc_log c' = cc_log c @ ext \<and>
        (\<forall>l < cc_next c. ln_subscriber (cc_listeners c l) = None \<longrightarrow> (\<forall>b d. Received l b d \<notin> set ext)))"

definition good_step :: "client_state \<Rightarrow> client_state \<Rightarrow> bool" where
  "good_step c c' \<longleftrightarrow> (client_ok c \<longrightarrow> client_ok c' \<and> evolves c c')"

lemma evolves_refl: "evolves c c"
  by (simp add: evolves_def)

lemma evolves_trans:
  assumes "evolves c1 c2" and "evolves c2 c3"
  shows "evolves c1 c3"
proof -
  obtain e1 e2 where e: "cc_log c2 = cc_log c1 @ e1" "cc_log c3 = cc_log c2 @ e2"
    "\<forall>l < cc_next c1. ln_subscriber (cc_listeners c1 l) = None \<longrightarrow> (\<forall>b d. Received l b d \<notin> set e1)"
    "\<forall>l < cc_next c2. ln_subscriber (cc_listeners c2 l) = None \<longrightarrow> (\<forall>b d. Received l b d \<notin> set e2)"
    using assms unfolding evolves_def by blast
  have n: "cc_next c1 \<le> cc_next c2" "cc_next c2 \<le> cc_next c3" using assms by (auto simp: evolves_def)
  have sub: "ln_subscriber (cc_listeners c2 l) = ln_subscriber (cc_listeners c1 l) \<or>
      ln_subscriber (cc_listeners c2 l) = None" if "l < cc_next c1" for l
    using assms(1) that by (simp add: evolves_def)
  have sub': "ln_subscriber (cc_listeners c3 l) = ln_subscriber (cc_listeners c2 l) \<or>
      ln_subscriber (cc_listeners c3 l) = None" if "l < cc_next c2" for l
    using assms(2) that by (simp add: evolves_def)
  have "\<forall>l < cc_next c1. ln_subscriber (cc_listeners c1 l) = None \<longrightarrow> (\<forall>b d. Received l b d \<notin> set (e1 @ e2))"
  proof (intro allI impI)
    fix l b d assume l: "l < cc_next c1" "ln_subscriber (cc_listeners c1 l) = None"
    then have "ln_subscriber (cc_listeners c2 l) = None" "l < cc_next c2" using sub n by fastforce+
    then show "Received l b d \<notin> set (e1 @ e2)" using e(3,4) l by simp
  qed
  moreover have "\<forall>l < cc_next c1. ln_subscriber (cc_listeners c3 l) = ln_subscriber (cc_listeners c1 l) \<or>
        ln_subscriber (cc_listeners c3 l) = None"
    using sub sub' n by (metis less_le_trans)
  ultimately show ?thesis
    unfolding evolves_def using n e(1,2) by (metis append.assoc order_trans)
qed

lemma good_step_refl [ces_inv]: "good_step c c"
  by (simp add: good_step_def evolves_refl)

lemma good_step_trans: "good_step c1 c2 \<Longrightarrow> good_step c2 c3 \<Longrightarrow> good_step c1 c3"
  unfolding good_step_def using evolves_trans by blast

text \<open>Parts the invariant does not read.\<close>

lemma good_step_frame:
  assumes "cc_listeners c' = cc_listeners c" and "cc_subscribers c' = cc_subscribers c" and "cc_results c' = cc_results c" and "cc_next c' = cc_next c"
    and "cc_table c' = cc_table c" and "cc_log c' = cc_log c"
  shows "good_step c c'"
  using assms by (simp add: good_step_def client_ok_def evolves_def)

end
