(* ===== verification/Client_Invariant.thy ===== *)
theory Client_Invariant
  imports Client_Steps
begin

text \<open>
  Every step of an application process keeps \<open>client_ok\<close> and evolves the state.  The facts are one
  per operation, collected in \<open>ces_inv\<close>, and composed by \<open>good_step_trans\<close>.
\<close>

lemmas client_okD =
  client_ok_def [THEN iffD1, THEN conjunct1]
  client_ok_def [THEN iffD1, THEN conjunct2, THEN conjunct1]
  client_ok_def [THEN iffD1, THEN conjunct2, THEN conjunct2, THEN conjunct1, rule_format]
  client_ok_def [THEN iffD1, THEN conjunct2, THEN conjunct2, THEN conjunct2, THEN conjunct1, rule_format]
  client_ok_def [THEN iffD1, THEN conjunct2, THEN conjunct2, THEN conjunct2, THEN conjunct2, rule_format]

section \<open>Results and subscribers\<close>

lemma good_upd_result:
  assumes "\<And>a. ar_finished a \<Longrightarrow> ar_finished (f a)"
  shows "good_step c (upd_result r f c)"
  unfolding good_step_def
proof
  assume ok: "client_ok c"
  have "count_list (cc_log c) (Answered r') \<le>
      (if r' < cc_next c \<and> ar_finished (cc_results (upd_result r f c) r') then 1 else 0)" for r'
    using client_okD(5) [OF ok, of r'] assms by (auto simp: upd_result_def split: if_splits)
  then show "client_ok (upd_result r f c) \<and> evolves c (upd_result r f c)"
    using ok by (simp add: client_ok_def evolves_def upd_result_def)
qed

lemma good_upd_subscriber:
  assumes "\<And>x r. sr_result (f x) = Some r \<Longrightarrow> sr_result x = Some r \<or> r < cc_next c"
  shows "good_step c (upd_subscriber b f c)"
  unfolding good_step_def
proof
  assume ok: "client_ok c"
  let ?c = "upd_subscriber b f c"
  have "sr_result (cc_subscribers ?c b') = Some r \<Longrightarrow> r < cc_next c" for b' r
    using assms [of "cc_subscribers c b" r] client_okD(4) [OF ok, of b' r] client_okD(4) [OF ok, of b r]
    by (cases "b' = b") (auto simp: upd_subscriber_def)
  moreover have "cc_listeners ?c = cc_listeners c" "cc_results ?c = cc_results c" "cc_next ?c = cc_next c"
    "cc_table ?c = cc_table c" "cc_log ?c = cc_log c" by (simp_all add: upd_subscriber_def)
  ultimately show "client_ok ?c \<and> evolves c ?c"
    using ok unfolding client_ok_def evolves_def by simp
qed

lemma good_log:
  assumes "\<And>r. x \<noteq> Answered r" and "\<And>l b d. x = Received l b d \<Longrightarrow> ln_subscriber (cc_listeners c l) \<noteq> None"
  shows "good_step c (log_client x c)"
proof -
  have "count_list (cc_log c @ [x]) (Answered r) = count_list (cc_log c) (Answered r)" for r
    using assms(1) [of r] by simp
  then show ?thesis using assms(2) by (auto simp: good_step_def client_ok_def evolves_def log_client_def)
qed

lemma good_new_result:
  assumes "\<not> ar_finished a"
  shows "good_step c (upd_result (cc_next c) (\<lambda>_. a) (c\<lparr>cc_next := cc_next c + 1\<rparr>))"
  unfolding good_step_def
proof
  assume ok: "client_ok c"
  let ?c = "upd_result (cc_next c) (\<lambda>_. a) (c\<lparr>cc_next := cc_next c + 1\<rparr>)"
  have "count_list (cc_log c) (Answered r) \<le> (if r < cc_next ?c \<and> ar_finished (cc_results ?c r) then 1 else 0)" for r
    using client_okD(5) [OF ok, of r] assms by (auto simp: upd_result_def split: if_splits)
  moreover have "\<exists>l. v = Some l \<and> l < cc_next ?c \<and> ln_subscriber (cc_listeners c l) = Some b \<and>
      ln_alive (cc_listeners c l)" if "map_of (cc_table c) b = Some v" for b v
    using client_okD(3) [OF ok that] by (auto simp: upd_result_def)
  moreover have "sr_result (cc_subscribers c b) = Some r \<Longrightarrow> r < cc_next ?c" for b r
    using client_okD(4) [OF ok, of b r] by (simp add: upd_result_def)
  ultimately show "client_ok ?c \<and> evolves c ?c"
    using ok by (simp add: client_ok_def evolves_def upd_result_def)
qed

lemma good_finish [ces_inv]:
  assumes "r < cc_next c"
  shows "good_step c (fst (snd (FinishCommonEvent X r (c, s))))"
proof (cases "CheckSynchronous_result (cc_results c r) \<and> \<not> ar_finished (cc_results c r)")
  case True
  let ?c = "log_client (Answered r) (upd_result r (\<lambda>a. a\<lparr>ar_finished := True\<rparr>) c)"
  have "good_step c ?c"
    unfolding good_step_def
  proof
    assume ok: "client_ok c"
    have "count_list (cc_log c) (Answered r) = 0" using client_okD(5) [OF ok, of r] True by simp
    then have "count_list (cc_log ?c) (Answered r') \<le>
        (if r' < cc_next ?c \<and> ar_finished (cc_results ?c r') then 1 else 0)" for r'
      using assms client_okD(5) [OF ok, of r'] by (auto simp: client_upd_defs split: if_splits)
    then show "client_ok ?c \<and> evolves c ?c"
      using ok by (auto simp: client_ok_def evolves_def client_upd_defs)
  qed
  then show ?thesis using True by (simp add: FinishCommonEvent_def Let_def split: prod.split)
next
  case False
  then show ?thesis by (auto simp: FinishCommonEvent_def Let_def good_step_refl)
qed

lemmas result_defs = SetCode_result_def SetData_result_def SetCodeAndData_result_def
  AbortCommonEvent_result_def ClearAbortCommonEvent_result_def

lemmas subscriber_defs = SetCode_subscriber_def SetData_subscriber_def SetCodeAndData_subscriber_def
  AbortCommonEvent_subscriber_def ClearAbortCommonEvent_subscriber_def

lemma good_via_result:
  assumes "\<And>a. ar_finished (snd (f a)) = ar_finished a"
  shows "good_step c (snd (via_result f b c))"
proof -
  have "good_step c (upd_result r (\<lambda>_. a) c)" if "f (cc_results c r) = (ok, a)" for r ok a
  proof -
    have "upd_result r (\<lambda>_. a) c = upd_result r (\<lambda>x. snd (f x)) c" using that by (simp add: upd_result_def)
    then show ?thesis using good_upd_result assms by metis
  qed
  then show ?thesis
    by (auto simp: via_result_def good_step_refl split: option.split prod.split)
qed

lemma good_call_subscriber [ces_inv]: "good_step c (call_subscriber b k c)"
proof (cases k)
  case CallGoAsync
  then show ?thesis
    by (simp add: GoAsyncCommonEvent_def Let_def) (rule good_upd_subscriber, simp)
qed (simp_all add: subscriber_defs good_via_result result_defs)

lemma good_call_result [ces_inv]:
  assumes "r < cc_next c"
  shows "good_step c (fst (call_result X r k (c, s)))"
  using good_finish [OF assms] by (cases k) (simp_all add: good_upd_result result_defs)

section \<open>Listeners and the table\<close>

lemma length_omap_put: "length (omap_put k v m) \<le> Suc (length m)"
  by (induction k v m rule: omap_put.induct) auto

lemma good_create [ces_inv]:
  assumes "CreateCommonEventListener X subscriber (c, s) = (st, lst, c')"
  shows "good_step c c'"
proof (cases "\<exists>b. subscriber = Some b \<and> map_of (cc_table c) b = None \<and>
    length (cc_table c) \<noteq> SUBSCRIBER_MAX_SIZE \<and> os_alloc X s")
  case True
  then obtain b where b: "subscriber = Some b" "map_of (cc_table c) b = None"
    "length (cc_table c) \<noteq> SUBSCRIBER_MAX_SIZE" "os_alloc X s" by blast
  obtain ln where ln: "Init_listener X s c \<lparr>ln_subscriber = Some b, ln_runner = False,
      ln_handler = False, ln_queue = False, ln_alive = True\<rparr> = ln" by blast
  have sub: "ln_subscriber (snd ln) = Some b" "ln_alive (snd ln)"
    using ln by (auto simp: Init_listener_def InitListenerQueue_def Let_def split: if_splits)
  have c': "c' = c\<lparr>cc_next := cc_next c + 1, cc_listeners := (cc_listeners c)(cc_next c := snd ln),
      cc_table := omap_put b (Some (cc_next c)) (cc_table c)\<rparr>"
    using assms b ln by (auto simp: CreateCommonEventListener_def CommonEventListener_new_def upd_listener_def Let_def)
  show ?thesis
    unfolding good_step_def
  proof
    assume ok: "client_ok c"
    have "\<exists>l. v = Some l \<and> l < cc_next c' \<and> ln_subscriber (cc_listeners c' l) = Some b' \<and> ln_alive (cc_listeners c' l)"
      if "map_of (cc_table c') b' = Some v" for b' v
      using that client_okD(3) [OF ok, of b' v] sub
      by (cases "b' = b") (fastforce simp: c' map_of_omap_put)+
    moreover have "length (cc_table c') \<le> SUBSCRIBER_MAX_SIZE"
      using client_okD(2) [OF ok] b(3) length_omap_put [of b "Some (cc_next c)" "cc_table c"] by (simp add: c')
    moreover have "omap_ok (cc_table c')" using client_okD(1) [OF ok] by (simp add: c' omap_ok_put)
    moreover have "sr_result (cc_subscribers c' b') = Some r \<Longrightarrow> r < cc_next c'" for b' r
      using client_okD(4) [OF ok, of b' r] by (simp add: c')
    moreover have "count_list (cc_log c') (Answered r) \<le> (if r < cc_next c' \<and> ar_finished (cc_results c' r) then 1 else 0)"
      for r using client_okD(5) [OF ok, of r] by (auto simp: c' split: if_splits)
    ultimately show "client_ok c' \<and> evolves c c'"
      by (simp add: client_ok_def) (simp add: evolves_def c')
  qed
next
  case False
  then have "c' = c \<or> c' = LogCachedSubscriber c"
    using assms by (auto simp: CreateCommonEventListener_def split: option.splits if_splits prod.splits)
  then show ?thesis
    using good_log [of "LimitReport (limit_report c)" c] by (auto simp: LogCachedSubscriber_def good_step_refl)
qed

lemma good_erase_and_stop [ces_inv]: "good_step c (erase_and_stop b c)"
proof (cases "map_of (cc_table c) b")
  case None
  then show ?thesis by (simp add: erase_and_stop_def good_step_refl)
next
  case (Some v)
  show ?thesis
    unfolding good_step_def
  proof
    assume ok: "client_ok c"
    obtain l where l: "v = Some l" "ln_subscriber (cc_listeners c l) = Some b"
      using client_okD(3) [OF ok Some] by blast
    let ?c = "erase_and_stop b c"
    have c': "?c = c\<lparr>cc_table := AList.delete b (cc_table c), cc_listeners := (cc_listeners c)
        (l := (cc_listeners c l)\<lparr>ln_queue := False, ln_handler := False, ln_subscriber := None, ln_runner := False\<rparr>)\<rparr>"
      using Some l by (simp add: erase_and_stop_def Stop_listener_def upd_listener_def)
    have "\<exists>l. v = Some l \<and> l < cc_next ?c \<and> ln_subscriber (cc_listeners ?c l) = Some b' \<and> ln_alive (cc_listeners ?c l)"
      if "map_of (cc_table ?c) b' = Some v" for b' v
    proof -
      have b': "b' \<noteq> b" "map_of (cc_table c) b' = Some v" using that by (auto simp: c' delete_conv' split: if_splits)
      then obtain l' where "v = Some l'" "l' < cc_next c" "ln_subscriber (cc_listeners c l') = Some b'"
        "ln_alive (cc_listeners c l')" using client_okD(3) [OF ok] by blast
      then show ?thesis using l b' by (auto simp: c')
    qed
    moreover have "length (cc_table ?c) \<le> SUBSCRIBER_MAX_SIZE"
      using client_okD(2) [OF ok] length_delete_le [of b "cc_table c"] by (simp add: c')
    moreover have "omap_ok (cc_table ?c)" using client_okD(1) [OF ok] by (simp add: c' omap_ok_delete)
    moreover have "evolves c ?c" by (simp add: evolves_def c')
    moreover have "cc_subscribers ?c = cc_subscribers c" "cc_log ?c = cc_log c" "cc_results ?c = cc_results c"
      "cc_next ?c = cc_next c" by (simp_all add: c')
    ultimately show "client_ok ?c \<and> evolves c ?c"
      using client_okD(4,5) [OF ok] unfolding client_ok_def by metis
  qed
qed

lemma good_new_callback:
  assumes "ln_subscriber (cc_listeners c l) = Some b"
  shows "good_step c (log_client (Received l b d) c)"
  by (rule good_log) (simp_all add: assms)

section \<open>Operations of the library\<close>

lemma good_parameter_check [ces_inv]:
  assumes "PublishParameterCheck X d i b (c, s) = (ok, lst, c')"
  shows "good_step c c'"
proof (cases "c' = c")
  case False
  then obtain st lst' where "CreateCommonEventListener X b (c, s) = (st, lst', c')"
    using assms by (auto simp: PublishParameterCheck_def Let_def split: if_splits prod.splits)
  then show ?thesis by (rule good_create)
qed (simp add: good_step_refl)

lemma good_publish [ces_inv]:
  "good_step c (fst (snd (PublishCommonEvent_client X d i b (c, s))))"
  "good_step c (fst (snd (PublishCommonEventAsUser_client X d i b u (c, s))))"
  "good_step c (fst (snd (PublishCommonEvent_proxy_client X d i b w t (c, s))))"
  "good_step c (fst (snd (PublishCommonEventAsUser_proxy_client X d i b w t u (c, s))))"
  using good_parameter_check [of X d i b c s]
  by (auto simp: PublishCommonEvent_client_def PublishCommonEventAsUser_client_def
    PublishCommonEvent_proxy_client_def PublishCommonEventAsUser_proxy_client_def Let_def split: prod.splits)

lemma good_subscribe_or_update: "good_step c (fst (snd (SubscribeOrUpdate X b upd (c, s))))"
proof -
  obtain st lst c1 where cr: "CreateCommonEventListener X (Some b) (c, s) = (st, lst, c1)"
    by (metis prod_cases3)
  have "good_step c c1" by (rule good_create [OF cr])
  moreover from this have "good_step c (erase_and_stop b c1)"
    by (rule good_step_trans) (rule good_erase_and_stop)
  ultimately show ?thesis
    by (auto simp: SubscribeOrUpdate_def cr Let_def split: prod.splits)
qed

lemma good_sa_manager: "good_step c (fst (SubscribeSAManager X (c, s)))"
  by (auto simp: SubscribeSAManager_def Let_def good_step_refl split: prod.splits intro!: good_step_frame)

lemma sa_manager_frame:
  "cc_subscribers (fst (SubscribeSAManager X cs)) = cc_subscribers (fst cs)"
  "cc_table (fst (SubscribeSAManager X cs)) = cc_table (fst cs)"
  "cc_listeners (fst (SubscribeSAManager X cs)) = cc_listeners (fst cs)"
  "cc_next (fst (SubscribeSAManager X cs)) = cc_next (fst cs)"
  "cc_log (fst (SubscribeSAManager X cs)) = cc_log (fst cs)"
  by (cases cs; simp add: SubscribeSAManager_def Let_def split: prod.splits)+

lemma good_subscribe [ces_inv]:
  "good_step c (fst (snd (Subscribe_client X b (c, s))))"
  "good_step c (fst (snd (SubscribeCommonEvent_client X b (c, s))))"
proof -
  obtain c1 s1 where sa: "SubscribeSAManager X (c, s) = (c1, s1)" by fastforce
  have "good_step c c1" using good_sa_manager [of c X s] sa by simp
  then have "good_step c (fst (snd (SubscribeOrUpdate X b' upd (c1, s1))))" for b' upd
    by (rule good_step_trans) (rule good_subscribe_or_update)
  then show "good_step c (fst (snd (Subscribe_client X b (c, s))))"
    "good_step c (fst (snd (SubscribeCommonEvent_client X b (c, s))))"
    by (simp_all add: Subscribe_client_def SubscribeCommonEvent_client_def sa good_step_refl split: option.split)
qed

lemma good_unsubscribe [ces_inv]:
  "good_step c (fst (snd (UnSubscribeCommonEvent_client X b (c, s))))"
  "good_step c (fst (snd (UnSubscribeCommonEventSync_client X b (c, s))))"
  by (auto simp: UnSubscribeCommonEvent_client_def UnSubscribeCommonEventSync_client_def Let_def
    good_step_refl good_erase_and_stop split: option.split prod.split)

lemma resubscribe_sub:
  "set (fst (resubscribe_loop X c m s)) \<subseteq> set m \<and> length (fst (resubscribe_loop X c m s)) \<le> length m \<and>
     (omap_ok m \<longrightarrow> omap_ok (fst (resubscribe_loop X c m s)))"
proof (induction m arbitrary: s)
  case (Cons e m)
  obtain b v where e: "e = (b, v)" by fastforce
  show ?case
  proof (cases v)
    case None
    then show ?thesis using Cons [of s] by (auto simp: e)
  next
    case (Some l)
    obtain r s1 where r: "ok_or ERR_NOTIFICATION_CES_COMMON_PARAM_INVALID
        (px_subscribe X (info_of c b) (Some l) UNDEFINED_INSTANCE_KEY s) = (r, s1)" by fastforce
    obtain k s2 where k: "resubscribe_loop X c m s1 = (k, s2)" by fastforce
    then show ?thesis using Cons [of s1] Some r by (auto simp: e)
  qed
qed simp

lemma good_resubscribe [ces_inv]: "good_step c (fst (snd (Resubscribe X (c, s))))"
proof (cases "GetCommonEventProxy X s")
  case True
  let ?k = "fst (resubscribe_loop X c (cc_table c) s)"
  have c': "fst (snd (Resubscribe X (c, s))) = c\<lparr>cc_table := ?k\<rparr>"
    using True by (simp add: Resubscribe_def split: prod.split)
  note k = resubscribe_sub [of X c "cc_table c" s]
  show ?thesis
    unfolding good_step_def c'
  proof
    assume ok: "client_ok c"
    note d = omap_ok_distinct [OF client_okD(1) [OF ok]]
    have kok: "omap_ok ?k" using k client_okD(1) [OF ok] by blast
    have sub: "map_of ?k b = Some v \<Longrightarrow> map_of (cc_table c) b = Some v" for b v
      using k d by (meson map_of_SomeD map_of_is_SomeI subsetD)
    show "client_ok (c\<lparr>cc_table := ?k\<rparr>) \<and> evolves c (c\<lparr>cc_table := ?k\<rparr>)"
      using ok kok k sub by (fastforce simp: client_ok_def evolves_def)
  qed
qed (simp add: Resubscribe_def good_step_refl)

section \<open>Delivery\<close>

text \<open>The state in which the application's callback starts.\<close>

definition callback_state ::
  "nat \<Rightarrow> nat \<Rightarrow> CommonEventData \<Rightarrow> bool \<Rightarrow> bool \<Rightarrow> client_state \<Rightarrow> client_state" where
  "callback_state l b d ord sticky c =
     log_client (Received l b d) (SetAsyncCommonEventResult b (Some (cc_next c))
       (upd_result (cc_next c) (\<lambda>_. AsyncCommonEventResult_new (cd_code d) (cd_data d) ord sticky l)
         (c\<lparr>cc_next := cc_next c + 1\<rparr>)))"

lemma upd_result_listeners [simp]: "cc_listeners (upd_result r f c) = cc_listeners c"
  by (simp add: upd_result_def)

lemma OnReceiveEvent_stopped:
  assumes "ln_subscriber (cc_listeners c l) = None"
  shows "OnReceiveEvent X app l d ord sticky (c, s) =
    (upd_result (cc_next c) (\<lambda>_. AsyncCommonEventResult_new (cd_code d) (cd_data d) ord sticky l)
       (c\<lparr>cc_next := cc_next c + 1\<rparr>), s)"
  using assms by (simp add: OnReceiveEvent_def Let_def)

lemma OnReceiveEvent_runs:
  assumes "ln_subscriber (cc_listeners c l) = Some b"
    and "app (callback_state l b d ord sticky c, s) = (c4, s4)"
  shows "OnReceiveEvent X app l d ord sticky (c, s) =
    (case sr_result (cc_subscribers c4 b) of
       None \<Rightarrow> (c4, s4)
     | Some r \<Rightarrow> if ord then snd (FinishCommonEvent X r (c4, s4)) else (c4, s4))"
  using assms unfolding callback_state_def
  by (simp add: OnReceiveEvent_def Let_def split: option.split)

lemma good_callback_state:
  assumes "ln_subscriber (cc_listeners c l) = Some b"
  shows "good_step c (callback_state l b d ord sticky c)"
proof -
  let ?c1 = "upd_result (cc_next c) (\<lambda>_. AsyncCommonEventResult_new (cd_code d) (cd_data d) ord sticky l)
    (c\<lparr>cc_next := cc_next c + 1\<rparr>)"
  let ?c2 = "SetAsyncCommonEventResult b (Some (cc_next c)) ?c1"
  have "good_step c ?c1" by (rule good_new_result) (simp add: AsyncCommonEventResult_new_def)
  moreover have "good_step ?c1 ?c2"
    unfolding SetAsyncCommonEventResult_def by (rule good_upd_subscriber) (simp add: upd_result_def)
  moreover have "good_step ?c2 (log_client (Received l b d) ?c2)"
    by (rule good_new_callback) (simp add: assms client_upd_defs SetAsyncCommonEventResult_def)
  ultimately show ?thesis unfolding callback_state_def using good_step_trans by blast
qed

lemma OnReceiveEvent_good:
  assumes app: "\<And>c s. good_step c (fst (app (c, s)))"
  shows "good_step c (fst (OnReceiveEvent X app l d ord sticky (c, s)))"
proof (cases "ln_subscriber (cc_listeners c l)")
  case None
  show ?thesis
    unfolding OnReceiveEvent_stopped [OF None] fst_conv
    by (rule good_new_result) (simp add: AsyncCommonEventResult_new_def)
next
  case (Some b)
  obtain c4 s4 where c4: "app (callback_state l b d ord sticky c, s) = (c4, s4)" by fastforce
  have g4: "good_step c c4"
    using good_step_trans [OF good_callback_state [OF Some] app] c4 by (metis fst_conv)
  have "good_step c (fst (snd (FinishCommonEvent X r (c4, s4))))" if r: "sr_result (cc_subscribers c4 b) = Some r" for r
    unfolding good_step_def
  proof
    assume "client_ok c"
    then have "r < cc_next c4" using g4 client_okD(4) [OF _ r] by (simp add: good_step_def)
    then show "client_ok (fst (snd (FinishCommonEvent X r (c4, s4)))) \<and>
        evolves c (fst (snd (FinishCommonEvent X r (c4, s4))))"
      using good_step_trans [OF g4 good_finish] \<open>client_ok c\<close> by (simp add: good_step_def)
  qed
  then show ?thesis
    unfolding OnReceiveEvent_runs [where app = app, OF Some c4] using g4 by (simp split: option.split)
qed

lemma good_run_task:
  assumes app: "\<And>c s. good_step c (fst (app (c, s)))"
  shows "good_step c (fst (run_listener_task X app l (c, s)))"
proof (cases "take_task l (cc_tasks c)")
  case None
  then show ?thesis by (simp add: run_listener_task_def good_step_refl)
next
  case (Some t)
  obtain l' d ord sticky ts where t: "t = (ListenerTask l' d ord sticky, ts)"
    by (cases t; cases "fst t") auto
  have g: "good_step c (c\<lparr>cc_tasks := ts\<rparr>)" by (rule good_step_frame) simp_all
  then have "good_step c (fst (OnReceiveEvent X app l' d ord sticky (c\<lparr>cc_tasks := ts\<rparr>, s)))"
    by (rule good_step_trans) (rule OnReceiveEvent_good [OF app])
  then show ?thesis
    using g by (auto simp: run_listener_task_def Some t Let_def promote_def split: option.split)
qed

lemma good_notify: "good_step c (snd (NotifyEvent_listener l d ord sticky c))"
  by (rule good_step_frame) (simp_all add: NotifyEvent_listener_def Let_def)

lemma good_release:
  assumes "Some l \<notin> snd ` set (cc_table c)"
  shows "good_step c (upd_listener l (\<lambda>ln. ln\<lparr>ln_alive := False\<rparr>) c)"
proof -
  have "map_of (cc_table c) b = Some (Some l') \<Longrightarrow> l' \<noteq> l" for b l'
    using assms by (metis imageI map_of_SomeD snd_conv)
  then show ?thesis by (fastforce simp: good_step_def client_ok_def evolves_def upd_listener_def)
qed

lemma good_foldl:
  assumes "\<And>op c s. op \<in> set ops \<Longrightarrow> good_step c (fst (f (c, s) op))"
  shows "good_step c (fst (foldl f (c, s) ops))"
  using assms
proof (induction ops arbitrary: c s)
  case (Cons op ops)
  obtain c1 s1 where f: "f (c, s) op = (c1, s1)" by fastforce
  have "good_step c c1" using Cons.prems [of op c s] f by simp
  then show ?case using Cons.IH [of c1 s1] Cons.prems f good_step_trans by fastforce
qed (simp add: good_step_refl)

lemma client_exec_good: "good_step c (fst (client_exec X op (c, s)))"
proof (induction X op "(c, s)" arbitrary: c s rule: client_exec.induct)
  case (13 X l ops)
  have "good_step c (fst (run_listener_task X (\<lambda>cs1. foldl (\<lambda>cs' op. client_exec X op cs') cs1 ops) l (c, s)))" for c s
    by (rule good_run_task, rule good_foldl) (rule 13)
  then show ?case by simp
next
  case (15 X c s)
  have "good_step c (fst (OnAddSystemAbility X (c, s)))"
    by (rule good_step_frame) (simp_all add: OnAddSystemAbility_def Let_def split: prod.split)
  then show ?case by simp
next
  case (16 X c s)
  have "good_step c (c\<lparr>cc_resubscribe := cc_resubscribe c - 1\<rparr>)" by (rule good_step_frame) simp_all
  then show ?case
    using good_resubscribe [of "c\<lparr>cc_resubscribe := cc_resubscribe c - 1\<rparr>" X s] good_step_trans
    by (auto simp: run_resubscribe_def good_step_refl)
qed (auto simp: ces_inv good_release good_notify OnRemoveSystemAbility_def
  intro!: good_step_frame good_upd_subscriber)

lemma client_reachable_ok:
  assumes "client_reachable X cs"
  shows "client_ok (fst cs)"
  using assms
proof induction
  case (step cs op)
  then show ?case using client_exec_good [of "fst cs" X op "snd cs"] by (simp add: good_step_def)
qed (simp add: client_init_def client_ok_def)

lemma client_run_good: "good_step (fst cs) (fst (foldl (\<lambda>cs' op. client_exec X op cs') cs ops))"
proof (cases cs)
  case (Pair c s)
  show ?thesis unfolding Pair fst_conv by (rule good_foldl) (rule client_exec_good)
qed

end
