(* ===== verification/Client_Props.thy ===== *)
theory Client_Props
  imports Client_Invariant
begin

text \<open>
  What the client library guarantees to an application, over every run of \<open>client_exec\<close>: the table
  of listeners is sound, an ordered event is answered once and with what the receiver decided, a
  listener that has been unsubscribed stays silent, and the library finds the service again after a
  restart.
\<close>

section \<open>A service to apply the properties to\<close>

text \<open>It is up or not, and keeps the listeners it was given and the answers it received.\<close>

type_synonym demo = "bool \<times> remote option list \<times> (remote option \<times> int32 \<times> string \<times> bool) list"

definition demo_service :: "demo svc_ops" where
  "demo_service = \<lparr>sa_manager = (\<lambda>_. True), sa_ability = fst, sa_proxy = (\<lambda>_. True),
     sa_subscribe = (\<lambda>s. (ERR_OK, s)), sa_sleep = (\<lambda>_ (up, r). (True, r)),
     os_main_runner = (\<lambda>_. True), os_alloc = (\<lambda>_. True),
     px_publish = (\<lambda>_ _ _ s. (ERR_OK, ERR_OK, s)), px_publish_listener = (\<lambda>_ _ _ _ s. (ERR_OK, ERR_OK, s)),
     px_publish_proxy = (\<lambda>_ _ _ _ _ s. (ERR_OK, True, s)),
     px_publish_proxy_listener = (\<lambda>_ _ _ _ _ _ s. (ERR_OK, True, s)),
     px_subscribe = (\<lambda>_ l _ (up, ls, as). (ERR_OK, ERR_OK, (up, ls @ [l], as))),
     px_unsubscribe = (\<lambda>l (up, ls, as). (ERR_OK, ERR_OK, (up, removeAll l ls, as))),
     px_unsubscribe_sync = (\<lambda>l (up, ls, as). (ERR_OK, ERR_OK, (up, removeAll l ls, as))),
     px_sticky = (\<lambda>_ d s. (ERR_OK, False, d, s)),
     px_finish = (\<lambda>l i t b (up, ls, as). (ERR_OK, True, (up, ls, as @ [(l, i, t, b)]))),
     px_freeze = (\<lambda>_ s. (ERR_OK, True, s)), px_unfreeze = (\<lambda>_ s. (ERR_OK, True, s)),
     px_unfreeze_all = (\<lambda>s. (ERR_OK, True, s)), px_remove_sticky = (\<lambda>_ s. (ERR_OK, ERR_OK, s)),
     px_static = (\<lambda>_ s. (ERR_OK, ERR_OK, s)), px_static_events = (\<lambda>_ _ s. (ERR_OK, ERR_OK, s)),
     px_dump = (\<lambda>_ _ _ s. (ERR_OK, True, [], s)),
     px_freeze_status = (\<lambda>_ _ s. (ERR_OK, True, s))\<rparr>"

definition demo_subscriber :: CommonEventSubscriber where
  "demo_subscriber = \<lparr>sr_info = \<lparr>si_matchingSkills = \<lparr>ms_entities = [], ms_events = [''e''], ms_schemes = []\<rparr>,
     si_priority = 0, si_userId = UNDEFINED_USER, si_permission = [], si_deviceId = [],
     si_threadMode = ASYNC, si_publisherBundleName = [], si_publisherUid = 0\<rparr>, sr_result = None\<rparr>"

definition demo_client :: client_state where
  "demo_client = \<lparr>cc_subscribers = \<lambda>_. demo_subscriber,
     cc_listeners = \<lambda>_. \<lparr>ln_subscriber = None, ln_runner = False, ln_handler = False, ln_queue = False, ln_alive = False\<rparr>,
     cc_results = \<lambda>_. AsyncCommonEventResult_new 0 [] False False 0,
     cc_next = 0, cc_table = [], cc_tasks = [], cc_watching = False, cc_offline = False, cc_resubscribe = 0, cc_log = []\<rparr>"

definition demo_event :: CommonEventData where
  "demo_event = \<lparr>cd_want = \<lparr>w_action = ''e'', w_entities = [], w_scheme = [], w_bundle = [], w_ability = [],
     w_params = [], w_uri = [], w_flags = 0, w_type = []\<rparr>, cd_code = 1, cd_data = ''x''\<rparr>"

definition demo_run :: "demo client_op list \<Rightarrow> client_state \<times> demo" where
  "demo_run ops = foldl (\<lambda>cs op. client_exec demo_service op cs) (demo_client, (True, [], [])) ops"

lemma reachable_foldl:
  "client_reachable X cs \<Longrightarrow> client_reachable X (foldl (\<lambda>cs op. client_exec X op cs) cs ops)"
  by (induction ops arbitrary: cs) (simp_all add: client_reachable.step)

lemma demo_reachable: "client_reachable demo_service (fst (demo_run ops), snd (demo_run ops))"
proof -
  have "client_init demo_client" by (simp add: client_init_def demo_client_def demo_subscriber_def)
  then show ?thesis
    unfolding demo_run_def prod.collapse by (intro reachable_foldl client_reachable.start)
qed

section \<open>The table\<close>

text \<open>C20: The table of listeners is sound in every state an application process can reach, whatever
  it calls, whatever the service and the system call, and in whatever order its queues run: it never
  holds more than 200 subscribers (the limit is tested with equality, and no step passes it), no
  subscriber twice, and the listener of each entry exists, is alive, has not been stopped and passes
  events to exactly this subscriber.\<close>

theorem client_table_sound:
  assumes "client_reachable X (c, s)"
  shows "length (cc_table c) \<le> 200 \<and> distinct (map fst (cc_table c)) \<and>
    list_all (\<lambda>(b, v). case v of None \<Rightarrow> False
      | Some l \<Rightarrow> ln_subscriber (cc_listeners c l) = Some b \<and> ln_alive (cc_listeners c l)) (cc_table c)"
proof -
  have ok: "client_ok c" using client_reachable_ok [OF assms] by simp
  have d: "distinct (map fst (cc_table c))" by (rule omap_ok_distinct [OF client_okD(1) [OF ok]])
  have "case v of None \<Rightarrow> False
      | Some l \<Rightarrow> ln_subscriber (cc_listeners c l) = Some b \<and> ln_alive (cc_listeners c l)"
    if "(b, v) \<in> set (cc_table c)" for b v
    using client_okD(3) [OF ok map_of_is_SomeI [OF d that]] by auto
  then show ?thesis
    using d client_okD(2) [OF ok] by (auto simp: list_all_iff SUBSCRIBER_MAX_SIZE_def)
qed

theorem client_table_sound_instance:
  "length (cc_table (fst (demo_run [OpSubscribe (Some 5), OpSubscribe (Some 3), OpUnsubscribe (Some 5)]))) \<le> 200 \<and>
   distinct (map fst (cc_table (fst (demo_run [OpSubscribe (Some 5), OpSubscribe (Some 3), OpUnsubscribe (Some 5)])))) \<and>
   list_all (\<lambda>(b, v). case v of None \<Rightarrow> False
      | Some l \<Rightarrow> ln_subscriber (cc_listeners
            (fst (demo_run [OpSubscribe (Some 5), OpSubscribe (Some 3), OpUnsubscribe (Some 5)])) l) = Some b \<and>
          ln_alive (cc_listeners (fst (demo_run [OpSubscribe (Some 5), OpSubscribe (Some 3), OpUnsubscribe (Some 5)])) l))
     (cc_table (fst (demo_run [OpSubscribe (Some 5), OpSubscribe (Some 3), OpUnsubscribe (Some 5)])))"
  by (rule client_table_sound [OF demo_reachable])

text \<open>C21: A result of an ordered event is answered at most once, in every run: however often the
  application calls \<open>FinishCommonEvent\<close> on it, inside or after the callback, after \<open>GoAsync\<close> or
  without it, and although the library finishes it itself when the callback returns, at most one
  \<open>FinishReceiver\<close> is sent for it.\<close>

theorem answered_at_most_once:
  assumes "client_reachable X (c, s)"
  shows "count_list (cc_log c) (Answered r) \<le> 1"
proof -
  have "client_ok c" using client_reachable_ok [OF assms] by simp
  from client_okD(5) [OF this, of r] show ?thesis by (simp split: if_splits)
qed

definition demo_answers :: "demo client_op list" where
  "demo_answers = [OpSubscribe (Some 5), OpNotify 0 demo_event True False,
     OpRun 0 [OpSubscriber 5 (CallSetCode 7), OpResult 1 ResultFinish], OpResult 1 ResultFinish]"

theorem answered_at_most_once_instance:
  "count_list (cc_log (fst (demo_run demo_answers))) (Answered 1) \<le> 1"
  by (rule answered_at_most_once [OF demo_reachable])

lemma demo_answers_once: "snd (demo_run demo_answers) = (True, [Some 0], [(Some 0, 7, ''x'', False)])"
  by code_simp

section \<open>Silence after unsubscribing\<close>

fun deliveries :: "nat \<Rightarrow> client_effect list \<Rightarrow> (nat \<times> CommonEventData) list" where
  "deliveries l [] = []"
| "deliveries l (Received l' b d # xs) = (if l' = l then [(b, d)] else []) @ deliveries l xs"
| "deliveries l (_ # xs) = deliveries l xs"

lemma deliveries_append [simp]: "deliveries l (xs @ ys) = deliveries l xs @ deliveries l ys"
  by (induction l xs rule: deliveries.induct) auto

lemma deliveries_none: "(\<And>b d. Received l b d \<notin> set xs) \<Longrightarrow> deliveries l xs = []"
  by (induction l xs rule: deliveries.induct) fastforce+

text \<open>C22: After a successful \<open>UnSubscribeCommonEvent\<close> the application hears nothing from the
  listener of that subscription any more: in no continuation of the run, with events that were
  already queued on the listener, events that the service still sends to it, resubscriptions and
  restarts of the service, does the listener call the application again.  (A new subscription of the
  same subscriber has a new listener.)\<close>

theorem no_delivery_after_unsubscribe:
  assumes "client_reachable X (c, s)" and "map_of (cc_table c) b = Some (Some l)"
    and "UnSubscribeCommonEvent_client X (Some b) (c, s) = (ERR_OK, c1, s1)"
  shows "deliveries l (cc_log (fst (foldl (\<lambda>cs op. client_exec X op cs) (c1, s1) ops))) =
    deliveries l (cc_log c1)"
proof -
  let ?c2 = "fst (foldl (\<lambda>cs op. client_exec X op cs) (c1, s1) ops)"
  have ok: "client_ok c" using client_reachable_ok [OF assms(1)] by simp
  have c1: "c1 = erase_and_stop b c \<and> GetCommonEventProxy X s"
    using assms(2,3) by (auto simp: UnSubscribeCommonEvent_client_def Let_def err_consts split: if_splits prod.splits)
  then have ok1: "client_ok c1" and n: "cc_next c1 = cc_next c"
    using good_erase_and_stop [of c b] ok assms(2)
    by (auto simp: good_step_def erase_and_stop_def Stop_listener_def upd_listener_def)
  have l: "l < cc_next c1" using client_okD(3) [OF ok assms(2)] n by auto
  have stopped: "ln_subscriber (cc_listeners c1 l) = None"
    using c1 assms(2) by (simp add: erase_and_stop_def Stop_listener_def upd_listener_def)
  have "evolves c1 ?c2" using client_run_good [of "(c1, s1)" X ops] ok1 by (simp add: good_step_def)
  then obtain ext where "cc_log ?c2 = cc_log c1 @ ext" "\<And>b d. Received l b d \<notin> set ext"
    using l stopped unfolding evolves_def by blast
  then show ?thesis using deliveries_none [of l ext] by simp
qed

definition demo_queued :: "client_state \<times> demo" where
  "demo_queued = demo_run [OpSubscribe (Some 5), OpNotify 0 demo_event True False]"

lemma demo_unsubscribes:
  "map_of (cc_table (fst demo_queued)) 5 = Some (Some 0) \<and>
   fst (UnSubscribeCommonEvent_client demo_service (Some 5) (fst demo_queued, snd demo_queued)) = ERR_OK"
  by code_simp

theorem no_delivery_after_unsubscribe_instance:
  "deliveries 0 (cc_log (fst (foldl (\<lambda>cs op. client_exec demo_service op cs)
      (snd (UnSubscribeCommonEvent_client demo_service (Some 5) (fst demo_queued, snd demo_queued)))
      [OpNotify 0 demo_event True False, OpRun 0 [], OpRun 0 []]))) =
   deliveries 0 (cc_log (fst (snd (UnSubscribeCommonEvent_client demo_service (Some 5)
      (fst demo_queued, snd demo_queued)))))"
proof -
  obtain r c1 s1 where u: "UnSubscribeCommonEvent_client demo_service (Some 5) (fst demo_queued, snd demo_queued) = (r, c1, s1)"
    by (metis prod_cases3)
  have r: "r = ERR_OK" using demo_unsubscribes u by simp
  show ?thesis
    unfolding u fst_conv snd_conv
    by (rule no_delivery_after_unsubscribe [OF demo_reachable [of "[OpSubscribe (Some 5), OpNotify 0 demo_event True False]",
      folded demo_queued_def] conjunct1 [OF demo_unsubscribes] u [unfolded r]])
qed

section \<open>The answer to an ordered event\<close>

text \<open>The reference: what a sequence of calls of a receiver makes of code, data and abort flag.  Calls
  after \<open>GoAsync\<close> find no result.\<close>

fun answer_of :: "subscriber_call list \<Rightarrow> int32 \<times> string \<times> bool \<Rightarrow> int32 \<times> string \<times> bool" where
  "answer_of [] a = a"
| "answer_of (CallSetCode i # ks) (i', t', b') = answer_of ks (i, t', b')"
| "answer_of (CallSetData t # ks) (i', t', b') = answer_of ks (i', t, b')"
| "answer_of (CallSetCodeAndData i t # ks) (i', t', b') = answer_of ks (i, t, b')"
| "answer_of (CallAbort # ks) (i', t', b') = answer_of ks (i', t', True)"
| "answer_of (CallClearAbort # ks) (i', t', b') = answer_of ks (i', t', False)"
| "answer_of (CallGoAsync # ks) a = a"

abbreviation app_calls :: "nat \<Rightarrow> subscriber_call list \<Rightarrow> client_state \<times> 's \<Rightarrow> client_state \<times> 's" where
  "app_calls b ks cs \<equiv> (foldl (\<lambda>c k. call_subscriber b k c) (fst cs) ks, snd cs)"

definition result_is :: "client_state \<Rightarrow> nat \<Rightarrow> nat \<Rightarrow> int32 \<times> string \<times> bool \<Rightarrow> bool" where
  "result_is c r l a \<longleftrightarrow> (case a of (i, t, ab) \<Rightarrow>
     ar_ordered (cc_results c r) \<and> \<not> ar_finished (cc_results c r) \<and> ar_token (cc_results c r) = l \<and>
     ar_code (cc_results c r) = i \<and> ar_data (cc_results c r) = t \<and> ar_abort (cc_results c r) = ab)"

lemma no_result_no_call:
  assumes "sr_result (cc_subscribers c b) = None"
  shows "foldl (\<lambda>c k. call_subscriber b k c) c ks = c \<or>
    foldl (\<lambda>c k. call_subscriber b k c) c ks = upd_subscriber b (\<lambda>x. x\<lparr>sr_result := None\<rparr>) c"
proof (induction ks rule: rev_induct)
  case (snoc k ks)
  have e: "call_subscriber b k c' = c' \<or> call_subscriber b k c' = upd_subscriber b (\<lambda>x. x\<lparr>sr_result := None\<rparr>) c'"
    if "sr_result (cc_subscribers c' b) = None" for c'
    using that by (cases k) (simp_all add: subscriber_defs via_result_def CheckSynchronous_subscriber_def
      GoAsyncCommonEvent_def)
  from snoc e [of c] e [of "upd_subscriber b (\<lambda>x. x\<lparr>sr_result := None\<rparr>) c"] assms show ?case
    by (auto simp: upd_subscriber_def)
qed simp

lemma call_keeps_result:
  assumes "sr_result (cc_subscribers c b) = Some r" and "result_is c r l a" and "k \<noteq> CallGoAsync"
  shows "sr_result (cc_subscribers (call_subscriber b k c) b) = Some r \<and>
    result_is (call_subscriber b k c) r l (answer_of [k] a) \<and>
    cc_listeners (call_subscriber b k c) = cc_listeners c"
proof -
  obtain i t ab where a: "a = (i, t, ab)" by (cases a)
  show ?thesis
    using assms
    by (cases k) (simp_all add: a subscriber_defs via_result_def CheckSynchronous_subscriber_def
      CheckSynchronous_result_def result_defs Let_def upd_result_def result_is_def)
qed

lemma calls_answer:
  assumes "sr_result (cc_subscribers c b) = Some r" and "result_is c r l a"
  shows "result_is (foldl (\<lambda>c k. call_subscriber b k c) c ks) r l (answer_of ks a) \<and>
    sr_result (cc_subscribers (foldl (\<lambda>c k. call_subscriber b k c) c ks) b) =
      (if CallGoAsync \<in> set ks then None else Some r) \<and>
    cc_listeners (foldl (\<lambda>c k. call_subscriber b k c) c ks) = cc_listeners c"
  using assms
proof (induction ks arbitrary: c a)
  case (Cons k ks)
  show ?case
  proof (cases "k = CallGoAsync")
    case True
    let ?c = "upd_subscriber b (\<lambda>x. x\<lparr>sr_result := None\<rparr>) c"
    have "call_subscriber b k c = ?c" by (simp add: True GoAsyncCommonEvent_def)
    then show ?thesis
      using no_result_no_call [of ?c b ks] Cons.prems True by (auto simp: upd_subscriber_def result_is_def)
  next
    case False
    have "answer_of (k # ks) a = answer_of ks (answer_of [k] a)" using False by (cases k; cases a) simp_all
    then show ?thesis
      using Cons.IH [of "call_subscriber b k c" "answer_of [k] a"] call_keeps_result [OF Cons.prems False] False by simp
  qed
qed simp

text \<open>C23: The answer to an ordered event is what its receiver decided.  When the listener of a
  subscriber runs the callback for an ordered event and the callback makes any sequence of calls
  (\<open>SetCode\<close>, \<open>SetData\<close>, \<open>SetCodeAndData\<close>, \<open>AbortCommonEvent\<close>, \<open>ClearAbortCommonEvent\<close>,
  \<open>GoAsyncCommonEvent\<close>), then: without a \<open>GoAsync\<close> the one thing that reaches the service is a
  single \<open>FinishReceiver\<close> for this listener with the code, the data and the abort flag that the calls
  make of the event's code and data; with a \<open>GoAsync\<close> nothing reaches the service, the answer is left
  to the application.\<close>

theorem ordered_event_answered:
  assumes "ln_subscriber (cc_listeners c l) = Some b" and "ln_alive (cc_listeners c l)"
  shows "snd (OnReceiveEvent X (app_calls b ks) l d True sticky (c, s)) =
    (case answer_of ks (cd_code d, cd_data d, False) of (code, txt, ab) \<Rightarrow>
       if CallGoAsync \<in> set ks then s else snd (FinishReceiver_client X (Some l) code txt ab s))"
proof -
  let ?c = "callback_state l b d True sticky c"
  let ?c4 = "foldl (\<lambda>c k. call_subscriber b k c) ?c ks"
  obtain code str ab where a: "answer_of ks (cd_code d, cd_data d, False) = (code, str, ab)" by (metis prod_cases3)
  have "sr_result (cc_subscribers ?c b) = Some (cc_next c)" "result_is ?c (cc_next c) l (cd_code d, cd_data d, False)"
    "cc_listeners ?c = cc_listeners c"
    by (simp_all add: callback_state_def client_upd_defs SetAsyncCommonEventResult_def result_is_def
      AsyncCommonEventResult_new_def)
  note k = calls_answer [OF this(1,2), of ks] this(3)
  have f: "ar_ordered (cc_results ?c4 (cc_next c))" "\<not> ar_finished (cc_results ?c4 (cc_next c))"
    "ar_token (cc_results ?c4 (cc_next c)) = l" "ar_code (cc_results ?c4 (cc_next c)) = code"
    "ar_data (cc_results ?c4 (cc_next c)) = str" "ar_abort (cc_results ?c4 (cc_next c)) = ab"
    using k by (simp_all add: result_is_def a)
  have run: "app_calls b ks (?c, s) = (?c4, s)" by simp
  show ?thesis
    unfolding OnReceiveEvent_runs [where app = "app_calls b ks", OF assms(1) run] a
    using k f assms(2)
    by (auto simp: FinishCommonEvent_def CheckSynchronous_result_def promote_def Let_def split: prod.split)
qed

definition demo_delivered :: client_state where
  "demo_delivered = fst (demo_run [OpSubscribe (Some 5)])"

lemma demo_delivered_listener:
  "ln_subscriber (cc_listeners demo_delivered 0) = Some 5 \<and> ln_alive (cc_listeners demo_delivered 0)"
  by code_simp

theorem ordered_event_answered_instance:
  "snd (OnReceiveEvent demo_service (app_calls 5 [CallSetCode 7, CallAbort]) 0 demo_event True False
     (demo_delivered, (True, [], []))) = (True, [], [(Some 0, 7, ''x'', True)])"
  using ordered_event_answered [OF conjunct1 [OF demo_delivered_listener] conjunct2 [OF demo_delivered_listener],
    of demo_service "[CallSetCode 7, CallAbort]" demo_event False "(True, [], [])"]
  by (simp add: FinishReceiver_client_def GetCommonEventProxy_def ok_or_def demo_service_def demo_event_def)

end
