(* ===== verification/Client_Recovery.thy ===== *)
theory Client_Recovery
  imports Client_Props
begin

text \<open>
  The client library and a service that is not there: how long it looks for it, what it does when
  the service has come back, and two answers that mislead the application.
\<close>

section \<open>Looking for the service\<close>

abbreviation slept :: "'s svc_ops \<Rightarrow> nat \<Rightarrow> 's \<Rightarrow> 's" where
  "slept X k s \<equiv> (sa_sleep X SLEEP_TIME ^^ k) s"

lemma find_map: "find P (map f xs) = map_option f (find (P \<circ> f) xs)"
  by (induction xs) auto

lemma reconnect_loop_spec:
  "Reconnect_loop X n s =
    (case find (\<lambda>k. GetCommonEventProxy X (slept X k s)) [0..<n] of
       Some k \<Rightarrow> (True, slept X k s) | None \<Rightarrow> (False, slept X n s))"
proof (induction n arbitrary: s)
  case (Suc n)
  show ?case
  proof (cases "GetCommonEventProxy X s")
    case True
    then show ?thesis by (simp add: upt_conv_Cons del: upt_Suc)
  next
    case False
    have "[0..<Suc n] = 0 # map Suc [0..<n]" by (simp add: upt_conv_Cons map_Suc_upt del: upt_Suc)
    then show ?thesis
      using False Suc [of "sa_sleep X SLEEP_TIME s"]
      by (simp add: find_map o_def funpow_Suc_right split: option.split del: funpow.simps)
  qed
qed simp

text \<open>C32: Looking for a restarted service ends: \<open>Reconnect\<close> returns true at the first moment, of the
  thirty it looks at one second apart, at which the service is there, having slept exactly until
  then; if the service is there at none of them it returns false after thirty sleeps of one second.
  It never looks or sleeps more often.\<close>

theorem reconnect_ends:
  "Reconnect X s =
    (case find (\<lambda>k. GetCommonEventProxy X ((sa_sleep X 1000 ^^ k) s)) [0..<30] of
       Some k \<Rightarrow> (True, (sa_sleep X 1000 ^^ k) s) | None \<Rightarrow> (False, (sa_sleep X 1000 ^^ 30) s))"
  using reconnect_loop_spec [of X 30 s] unfolding Reconnect_def MAX_RETRY_TIME_def SLEEP_TIME_def .

section \<open>Subscribing again\<close>

text \<open>The call of one entry, and which entries it keeps.\<close>

definition resubscribe_call :: "'s svc_ops \<Rightarrow> client_state \<Rightarrow> nat \<times> nat option \<Rightarrow> 's \<Rightarrow> err_code \<times> 's" where
  "resubscribe_call X c e s = ok_or ERR_NOTIFICATION_CES_COMMON_PARAM_INVALID
     (px_subscribe X (info_of c (fst e)) (snd e) UNDEFINED_INSTANCE_KEY s)"

lemma resubscribe_loop_spec:
  assumes "\<And>e s. e \<in> set m \<Longrightarrow> fst (resubscribe_call X c e s) = ERR_OK \<longleftrightarrow> acc e"
    and "\<And>e. e \<in> set m \<Longrightarrow> snd e \<noteq> None"
  shows "resubscribe_loop X c m s = (filter acc m, fold (\<lambda>e s. snd (resubscribe_call X c e s)) m s)"
  using assms
proof (induction m arbitrary: s)
  case (Cons e m)
  obtain b l where e: "e = (b, Some l)" using Cons.prems(2) [of e] by (cases e) auto
  have "fst (resubscribe_call X c e s) = ERR_OK \<longleftrightarrow> acc e" by (rule Cons.prems(1)) simp
  moreover obtain r s1 where r: "resubscribe_call X c e s = (r, s1)" by fastforce
  moreover have "resubscribe_loop X c m s1 = (filter acc m, fold (\<lambda>e s. snd (resubscribe_call X c e s)) m s1)"
    by (rule Cons.IH) (simp_all add: Cons.prems)
  ultimately show ?case by (simp add: e resubscribe_call_def)
qed simp


lemma demo_restart:
  "find (\<lambda>k. GetCommonEventProxy demo_service ((sa_sleep demo_service 1000 ^^ k) (False, [], []))) [0..<30] = Some 1"
  by code_simp

definition demo_two :: client_state where
  "demo_two = fst (demo_run [OpSubscribe (Some 5), OpSubscribe (Some 3)])"

lemma demo_two_state: "cc_resubscribe demo_two = 0 \<and> cc_table demo_two = [(3, Some 1), (5, Some 0)]"
  by code_simp


section \<open>Answers that mislead\<close>

text \<open>Publishing an ordered event with a final receiver enters the receiver into the table although it
  is not subscribed.  A later \<open>SubscribeCommonEvent\<close> of the same object finds it there and reports
  success without a word to the service.\<close>

lemma publication_enters_table:
  assumes "w_action (cd_want d) \<noteq> []" and "pi_ordered pinfo" and "map_of (cc_table c) b = None"
    and "length (cc_table c) \<noteq> 200" and "os_alloc X s"
    and "PublishCommonEvent_client X d pinfo (Some b) (c, s) = (r, c1, s1)"
  shows "map_of (cc_table c1) b = Some (Some (cc_next c))"
proof -
  have "\<exists>lst. PublishParameterCheck X d pinfo (Some b) (c, s) = (True, lst, c1)"
    using assms by (auto simp: PublishCommonEvent_client_def PublishParameterCheck_def Let_def
      CreateCommonEventListener_def SUBSCRIBER_MAX_SIZE_def subscribe_states split: if_splits prod.splits)
  then obtain lst where "PublishParameterCheck X d pinfo (Some b) (c, s) = (True, lst, c1)" by blast
  then show ?thesis
    using assms(1-5) by (auto simp: PublishParameterCheck_def CreateCommonEventListener_def SUBSCRIBER_MAX_SIZE_def
      subscribe_states CommonEventListener_new_def Let_def map_of_omap_put split: if_splits prod.splits)
qed

lemma subscription_of_entry_is_silent:
  assumes "map_of (cc_table c) b = Some v" and "cc_watching c" and "ms_events (si_matchingSkills (info_of c b)) \<noteq> []"
    and "GetCommonEventProxy X s"
  shows "SubscribeCommonEvent_client X (Some b) (c, s) = (ERR_OK, c, s)"
  using assms by (simp add: SubscribeCommonEvent_client_def SubscribeSAManager_def SubscribeOrUpdate_def
    CreateCommonEventListener_def CountEvent_def subscribe_states)

text \<open>\<open>Subscribe\<close> does ask the service, but reports success whatever the service answers, as long as
  the call itself went through.\<close>

lemma update_ignores_refusal:
  assumes "map_of (cc_table c) b = Some v" and "px_subscribe X (info_of c b) v UNDEFINED_INSTANCE_KEY s = (ERR_OK, refusal, s1)"
  shows "SubscribeOrUpdate X b True (c, s) = (ERR_OK, c, s1)"
  using assms by (simp add: SubscribeOrUpdate_def CreateCommonEventListener_def subscribe_states)

lemma freeze_status_without_service:
  "\<not> GetCommonEventProxy X s \<Longrightarrow> SetFreezeStatus_client X pids fr s = (True, s)"
  by (simp add: SetFreezeStatus_client_def code_to_bool_def err_consts)

end
