(* ===== verification/Dump_State.thy ===== *)
theory Dump_State
  imports Manager_Service
begin

text \<open>
  What the service tells about itself: \<open>DumpState\<close> and \<open>DumpDetailed\<close> of the subscriber manager,
  \<open>DumpState\<close> of the sticky manager, \<open>DumpState\<close> and its parts of the control manager, and the two
  ways to ask for them, the IPC call \<open>DumpState\<close> and the dump of a system ability (\<open>Dump\<close>,
  \<open>HiDump\<close>).  The code is compiled under \<open>CEM_SUPPORT_DUMP\<close>.

  \<open>T\<close> is the text \<open>strftime\<close> makes of a time with the format \<open>%Y%m%d %I:%M %p\<close>.  An access to
  \<open>deliveryState\<close> out of range is \<open>None\<close>.
\<close>

section \<open>Text\<close>

definition nl :: string where "nl = [CHR 0x0A]"
definition tab :: string where "tab = [CHR 0x09]"

definition bool_text :: "bool \<Rightarrow> string" where
  "bool_text b = (if b then ''true'' else ''false'')"

definition user_text :: "int32 \<Rightarrow> string" where
  "user_text user =
     (if user = UNDEFINED_USER then ''UNDEFINED_USER''
      else if user = ALL_USER then ''ALL_USER''
      else to_string user)"

text \<open>The loops that put a separator in front of every element but the first.\<close>

fun separated_loop :: "nat \<Rightarrow> string \<Rightarrow> string list \<Rightarrow> string" where
  "separated_loop num text [] = text"
| "separated_loop num text (x # xs) =
     separated_loop (num + 1) (text @ (if num = 0 then [] else '', '') @ x) xs"

definition separated :: "string list \<Rightarrow> string" where
  "separated xs = separated_loop 0 [] xs"

definition numbered :: "string \<Rightarrow> string \<Rightarrow> nat \<Rightarrow> string" where
  "numbered header no num =
     (if num = 1 then header @ no @ to_string (int num) @ nl else no @ to_string (int num) @ nl)"

section \<open>Subscribers\<close>

definition DumpDetailed :: "(int64 \<Rightarrow> string) \<Rightarrow> string \<Rightarrow> EventSubscriberRecord \<Rightarrow> string \<Rightarrow> string" where
  "DumpDetailed T title r format =
     (let info = eventSubscribeInfo r;
          skills = si_matchingSkills info;
          time = format @ ''Time: '' @ T (subRecordTime r) @ nl;
          pid_line = format @ ''PID: '' @ to_string (pid (subRecordInfo r)) @ nl;
          uid_line = format @ ''UID: '' @ to_string (uint (uid (subRecordInfo r))) @ nl;
          bundle = format @ ''BundleName: '' @ bundleName (subRecordInfo r) @ nl;
          priority = format @ ''Priority: '' @ to_string (si_priority info) @ nl;
          user = format @ ''USERID: '' @ user_text (si_userId info) @ nl;
          permission = format @ ''Permission: '' @ si_permission info @ nl;
          events = format @ tab @ ''Event: '' @ separated (map (GetEvent skills) [0..<CountEvent skills]) @ nl;
          entities = format @ tab @ ''Entity: '' @ separated (map (GetEntity skills) [0..<CountEntities skills]) @ nl;
          scheme = format @ tab @ ''Scheme: '' @ separated (map (GetScheme skills) [0..<CountSchemes skills]) @ nl;
          matchingSkills = format @ ''MatchingSkills:'' @ nl @ events @ entities @ scheme;
          freeze = format @ ''IsFreeze: '' @ bool_text (isFreeze r) @ nl;
          freeze_time = (if freezeTime r = 0 then format @ ''FreezeTime:  -'' @ nl
                         else format @ ''FreezeTime: '' @ to_string (freezeTime r) @ nl)
      in title @ time @ pid_line @ uid_line @ bundle @ priority @ user @ permission @ matchingSkills @
           freeze @ freeze_time)"

fun dump_subscribers_loop :: "(int64 \<Rightarrow> string) \<Rightarrow> nat \<Rightarrow> nat \<Rightarrow> EventSubscriberRecord list \<Rightarrow> string list" where
  "dump_subscribers_loop T amount num [] = []"
| "dump_subscribers_loop T amount num (r # rs) =
     (let num' = num + 1;
          header = ''Subscribers:'' @ tab @ ''Total '' @ to_string (int amount) @ '' subscribers'' @ nl;
          title = numbered header ''NO '' num'
      in DumpDetailed T title r tab # dump_subscribers_loop T amount num' rs)"

definition DumpState_sub :: "(int64 \<Rightarrow> string) \<Rightarrow> string \<Rightarrow> int32 \<Rightarrow> sub_state \<Rightarrow> string list" where
  "DumpState_sub T event user s =
     (let records = GetSubscriberRecordsByEvent event user s
      in if length records = 0 then [''Subscribers:'' @ tab @ ''No information'']
         else dump_subscribers_loop T (length records) 0 (map (subHeap s) records))"

section \<open>Events\<close>

definition dump_publish :: "CommonEventPublishInfo \<Rightarrow> string" where
  "dump_publish info = tab @ ''RequiredPermission: '' @ separated (pi_subscriberPermissions info) @ nl @
     tab @ ''IsSticky: '' @ bool_text (pi_sticky info) @ nl @
     tab @ ''IsOrdered: '' @ bool_text (pi_ordered info) @ nl"

definition dump_want :: "Want \<Rightarrow> string" where
  "dump_want w = tab @ ''Want:'' @ nl @
     tab @ tab @ ''Action: '' @ w_action w @ nl @
     tab @ tab @ ''Entity: '' @ separated (w_entities w) @ nl @
     tab @ tab @ ''Scheme: '' @ w_scheme w @ nl @
     tab @ tab @ ''Uri: '' @ w_uri w @ nl @
     tab @ tab @ ''Flags: '' @ to_string (uint (w_flags w)) @ nl @
     tab @ tab @ ''Type: '' @ w_type w @ nl @
     tab @ tab @ ''BundleName: '' @ w_bundle w @ nl @
     tab @ tab @ ''AbilityName: '' @ w_ability w @ nl"

definition dump_data :: "CommonEventData \<Rightarrow> string" where
  "dump_data d = tab @ ''Code: '' @ to_string (cd_code d) @ nl @ tab @ ''Data: '' @ cd_data d @ nl"

definition dump_sticky :: "(int64 \<Rightarrow> string) \<Rightarrow> (payload_ptr \<Rightarrow> payload) \<Rightarrow> string \<Rightarrow> CommonEventRecord \<Rightarrow> string" where
  "dump_sticky T pls no r =
     (let pl = pls (payloadPtr r)
      in no @ tab @ ''Time: '' @ T (recordTime r) @ nl @
         tab @ ''PID: '' @ to_string (pid (eventRecordInfo r)) @ nl @
         tab @ ''UID: '' @ to_string (uint (uid (eventRecordInfo r))) @ nl @
         tab @ ''BundleName: '' @ bundleName (eventRecordInfo r) @ nl @
         dump_publish (publishInfo pl) @
         tab @ ''IsSystemEvent: '' @ bool_text (isSystemEvent r) @ nl @
         dump_want (cd_want (commonEventData pl)) @ dump_data (commonEventData pl))"

fun dump_stickies_loop :: "(int64 \<Rightarrow> string) \<Rightarrow> (payload_ptr \<Rightarrow> payload) \<Rightarrow> nat \<Rightarrow> nat \<Rightarrow> CommonEventRecord list \<Rightarrow> string list" where
  "dump_stickies_loop T pls amount num [] = []"
| "dump_stickies_loop T pls amount num (r # rs) =
     (let num' = num + 1;
          header = ''Sticky Events:'' @ tab @ ''Total '' @ to_string (int amount) @ '' information'' @ nl
      in dump_sticky T pls (numbered header ''NO '' num') r # dump_stickies_loop T pls amount num' rs)"

definition DumpState_sticky ::
  "(int64 \<Rightarrow> string) \<Rightarrow> (payload_ptr \<Rightarrow> payload) \<Rightarrow> string \<Rightarrow> int32 \<Rightarrow> sticky_store \<Rightarrow> string list" where
  "DumpState_sticky T pls event user m =
     (let records = GetStickyCommonEventRecords event user m
      in if length records = 0 then [''Sticky Events:'' @ tab @ ''No information'']
         else dump_stickies_loop T pls (length records) 0 records)"

section \<open>Pending events\<close>

text \<open>\<open>state\<close> has no default branch: another number gives no line.\<close>

definition state_text :: "int \<Rightarrow> string" where
  "state_text x =
     (if x = event_code IDLE then tab @ ''EventState: IDLE'' @ nl
      else if x = event_code RECEIVING then tab @ ''EventState: RECEIVING'' @ nl
      else if x = event_code RECEIVED then tab @ ''EventState: RECEIVED'' @ nl
      else [])"

definition DumpStateByCommonEventRecord :: "(int64 \<Rightarrow> string) \<Rightarrow> (payload_ptr \<Rightarrow> payload) \<Rightarrow> OrderedEventRecord \<Rightarrow> string" where
  "DumpStateByCommonEventRecord T pls r =
     (let pl = pls (payloadPtr r)
      in tab @ ''Time: '' @ T (recordTime r) @ nl @
         tab @ ''PID: '' @ to_string (pid (eventRecordInfo r)) @ nl @
         tab @ ''UID: '' @ to_string (uint (uid (eventRecordInfo r))) @ nl @
         tab @ ''USERID: '' @ user_text (userId r) @ nl @
         tab @ ''BundleName: '' @ bundleName (eventRecordInfo r) @ nl @
         dump_publish (publishInfo pl) @
         tab @ ''IsSystemApp: '' @ bool_text (isSystemApp (eventRecordInfo r)) @ nl @
         tab @ ''IsSystemEvent: '' @ bool_text (isSystemEvent r) @ nl @
         dump_want (cd_want (commonEventData pl)) @ dump_data (commonEventData pl) @
         tab @ ''HasLastSubscriber: '' @ bool_text (resultTo r \<noteq> None) @ nl @
         state_text (state r) @
         tab @ ''ReceiverTime: '' @ to_string (receiverTime r) @ nl @
         tab @ ''DispatchTime: '' @ to_string (dispatchTime r) @ nl @
         tab @ ''ResultAbort: '' @ bool_text (resultAbort r) @ nl)"

fun delivery_text :: "DeliveryState \<Rightarrow> string" where
  "delivery_text PENDING = tab @ tab @ ''EventState: PENDING'' @ nl"
| "delivery_text DELIVERED = tab @ tab @ ''EventState: DELIVERED'' @ nl"
| "delivery_text SKIPPED = tab @ tab @ ''EventState: SKIPPED'' @ nl"
| "delivery_text TIMEOUT = tab @ tab @ ''EventState: TIMEOUT'' @ nl"

fun dump_receivers_loop ::
  "(int64 \<Rightarrow> string) \<Rightarrow> (sub_ptr \<Rightarrow> EventSubscriberRecord) \<Rightarrow> DeliveryState list \<Rightarrow> nat \<Rightarrow> nat \<Rightarrow> string \<Rightarrow> sub_ptr list \<Rightarrow> string option"
  where
  "dump_receivers_loop T h ds amount num dumpInfo [] = Some dumpInfo"
| "dump_receivers_loop T h ds amount num dumpInfo (p # ps) =
     (let num' = num + 1;
          header = tab @ ''Subscribers:'' @ tab @ ''Total '' @ to_string (int amount) @ '' subscribers'' @ nl;
          title = numbered header (tab @ ''NO '') num';
          dumpInfoBySubscriber = DumpDetailed T title (h p) (tab @ tab)
      in if num' - 1 < length ds
         then dump_receivers_loop T h ds amount num'
                (dumpInfo @ dumpInfoBySubscriber @ delivery_text (ds ! (num' - 1))) ps
         else None)"

definition DumpStateBySubscriberRecord ::
  "(int64 \<Rightarrow> string) \<Rightarrow> (sub_ptr \<Rightarrow> EventSubscriberRecord) \<Rightarrow> OrderedEventRecord \<Rightarrow> string option" where
  "DumpStateBySubscriberRecord T h r =
     (if receivers r = [] then Some (tab @ ''Subscribers:'' @ tab @ ''No information'')
      else dump_receivers_loop T h (deliveryState r) (length (receivers r)) 0 [] (receivers r))"

fun dump_pending_loop :: "(int64 \<Rightarrow> string) \<Rightarrow> ctl_state \<Rightarrow> nat \<Rightarrow> nat \<Rightarrow> ord_ptr list \<Rightarrow> string list option" where
  "dump_pending_loop T c amount num [] = Some []"
| "dump_pending_loop T c amount num (o' # os) =
     (let num' = num + 1;
          header = ''Pending Events:'' @ tab @ ''Total '' @ to_string (int amount) @ '' information'' @ nl;
          no = numbered header ''NO '' num'
      in case DumpStateBySubscriberRecord T (subHeap (cs_subs c)) (ordHeap c o') of
           None \<Rightarrow> None
         | Some subscriberRecord \<Rightarrow>
             map_option ((#) (no @ DumpStateByCommonEventRecord T (cs_payloads c) (ordHeap c o') @ subscriberRecord))
               (dump_pending_loop T c amount num' os))"

definition DumpState_ctl :: "(int64 \<Rightarrow> string) \<Rightarrow> string \<Rightarrow> int32 \<Rightarrow> ctl_state \<Rightarrow> string list option" where
  "DumpState_ctl T event user c =
     (let records = GetUnorderedEventRecords event user c @ GetOrderedEventRecords event user c
      in if records = [] then Some [''Pending Events:'' @ tab @ ''No information'']
         else dump_pending_loop T c (length records) 0 records)"

section \<open>Asking the service\<close>

datatype DumpEventType = DumpALL | DumpSUBSCRIBER | DumpSTICKY | DumpPENDING | DumpHISTORY

fun dump_code :: "DumpEventType \<Rightarrow> int" where
  "dump_code DumpALL = 0"
| "dump_code DumpSUBSCRIBER = 1"
| "dump_code DumpSTICKY = 2"
| "dump_code DumpPENDING = 3"
| "dump_code DumpHISTORY = 4"

definition MAX_HISTORY_SIZE :: nat where "MAX_HISTORY_SIZE = 100"

definition DumpState_inner ::
  "(int64 \<Rightarrow> string) \<Rightarrow> 8 word \<Rightarrow> string \<Rightarrow> int32 \<Rightarrow> 'kv inner_state \<Rightarrow> string list option" where
  "DumpState_inner T dumpType event user i =
     (let c = in_ctl i;
          subs = DumpState_sub T event user (cs_subs c);
          stickies = DumpState_sticky T (cs_payloads c) event user (in_sticky i)
      in if uint dumpType = dump_code DumpSUBSCRIBER then Some subs
         else if uint dumpType = dump_code DumpSTICKY then Some stickies
         else if uint dumpType = dump_code DumpPENDING then DumpState_ctl T event user c
         else if uint dumpType = dump_code DumpHISTORY then Some []
         else map_option ((@) (subs @ stickies)) (DumpState_ctl T event user c))"

definition DumpState_srv ::
  "env \<Rightarrow> (int64 \<Rightarrow> string) \<Rightarrow> caller \<Rightarrow> 8 word \<Rightarrow> string \<Rightarrow> int32 \<Rightarrow> 'kv service_state \<Rightarrow>
     (err_code \<times> bool \<times> string list) option" where
  "DumpState_srv E T cl dumpType event user s =
     (if \<not> VerifyShellToken E (cl_token cl) \<and> \<not> VerifyNativeToken E (cl_token cl)
      then Some (ERR_INVALID_VALUE, False, [])
      else if \<not> IsReady s then Some (ERR_INVALID_VALUE, False, [])
      else (case DumpState_inner T dumpType event user (sv_inner s) of
              None \<Rightarrow> None
            | Some lines0 \<Rightarrow>
                (let lines1 = (if length lines0 > MAX_HISTORY_SIZE then take MAX_HISTORY_SIZE lines0 else lines0)
                 in Some (ERR_OK, True, lines1))))"

text \<open>\<open>HiDump\<close>: the arguments are 16-bit strings, \<open>U\<close> is \<open>Str16ToStr8\<close>.\<close>

definition HIDUMPER_HELP_MSG :: string where
  "HIDUMPER_HELP_MSG = ''Usage:dump <command> [options]'' @ nl @ ''Description:'' @ nl @
     ''  -h, --help                   list available commands'' @ nl @
     ''  -a, --all                    dump the info of all events'' @ nl @
     ''  -e, --event <name>           dump the info of a specified event'' @ nl"

definition HIDUMPER_CMD_MAP :: "(string, char) umap" where
  "HIDUMPER_CMD_MAP = [(''--help'', CHR ''h''), (''--all'', CHR ''a''), (''--event'', CHR ''e''),
     (''-h'', CHR ''h''), (''-a'', CHR ''a''), (''-e'', CHR ''e'')]"

definition HIDUMP_OPTION_MAX_SIZE :: nat where "HIDUMP_OPTION_MAX_SIZE = 2"

definition HiDump ::
  "(int64 \<Rightarrow> string) \<Rightarrow> ('u \<Rightarrow> string) \<Rightarrow> 'u list \<Rightarrow> 'kv inner_state \<Rightarrow> string option" where
  "HiDump T U args i =
     (if length args = 0 \<or> length args > HIDUMP_OPTION_MAX_SIZE then Some ''error: unknown option.''
      else
        (let cmd = U (args ! 0)
         in case map_of HIDUMPER_CMD_MAP cmd of
              None \<Rightarrow> Some ''error: unknown option.''
            | Some cmdValue \<Rightarrow>
                (let event = (if length args = HIDUMP_OPTION_MAX_SIZE then U (args ! 1) else []);
                     event' = (if cmdValue = CHR ''a'' then [] else event)
                 in if cmdValue = CHR ''h'' then Some HIDUMPER_HELP_MSG
                    else if cmdValue = CHR ''e'' \<and> event = [] then Some ''error: request a event value.''
                    else map_option (\<lambda>records. concat (map (\<lambda>record. record @ nl) records))
                           (DumpState_inner T (word_of_int (dump_code DumpALL)) event' ALL_USER i))))"

text \<open>\<open>dprintf\<close> writes the text to a descriptor or fails; the text is returned with the code.\<close>

definition Dump_srv ::
  "env \<Rightarrow> (int64 \<Rightarrow> string) \<Rightarrow> ('u \<Rightarrow> string) \<Rightarrow> (string \<Rightarrow> bool) \<Rightarrow> caller \<Rightarrow> 'u list \<Rightarrow> 'kv service_state \<Rightarrow>
     (err_code \<times> string) option" where
  "Dump_srv E T U dprintf cl args s =
     (if \<not> VerifyShellToken E (cl_token cl) \<and> \<not> VerifyNativeToken E (cl_token cl)
      then Some (ERR_NOTIFICATION_CES_COMMON_PERMISSION_DENIED, [])
      else if \<not> IsReady s then Some (ERR_INVALID_VALUE, [])
      else (case HiDump T U args (sv_inner s) of
              None \<Rightarrow> None
            | Some result \<Rightarrow>
                if dprintf (result @ nl) then Some (ERR_OK, result @ nl) else Some (ERR_INVALID_VALUE, [])))"

end
