(* ===== verification/Client_Service.thy ===== *)
theory Client_Service
  imports Client_Recovery Service_Props Dump_State
begin

text \<open>
  The client library and the service together: \<open>service_ops\<close> puts the IPC entry points of the
  service, called with the identity of one process, behind the proxy of that process's client.  The
  transport delivers every call; \<open>rm\<close> is the remote object by which the service knows a listener of
  the process.  The service answers most calls before the task it queues has run; the properties
  follow a call through both.
\<close>

definition service_ops ::
  "env \<Rightarrow> senv \<Rightarrow> 'kv kv_ops \<Rightarrow> caller \<Rightarrow> int64 option \<Rightarrow> int64 \<Rightarrow> (int64 \<Rightarrow> string) \<Rightarrow> (nat \<Rightarrow> remote) \<Rightarrow> 'kv service_state svc_ops" where
  "service_ops E S K cl time now T rm =
    \<lparr>sa_manager = (\<lambda>_. True), sa_ability = IsReady, sa_proxy = (\<lambda>_. True), sa_subscribe = Pair ERR_OK,
     sa_sleep = (\<lambda>_ s. s), os_main_runner = (\<lambda>_. True), os_alloc = (\<lambda>_. True),
     px_publish = (\<lambda>d i u s. (ERR_OK, PublishCommonEvent_srv E cl time now d i None u s)),
     px_publish_listener = (\<lambda>d i l u s. (ERR_OK, PublishCommonEvent_srv E cl time now d i (map_option rm l) u s)),
     px_publish_proxy = (\<lambda>d i w t u s. (ERR_OK, PublishCommonEvent_proxy_srv E cl time now d i None w (to_uid t) u s)),
     px_publish_proxy_listener =
       (\<lambda>d i l w t u s. (ERR_OK, PublishCommonEvent_proxy_srv E cl time now d i (map_option rm l) w (to_uid t) u s)),
     px_subscribe = (\<lambda>i l k s. (ERR_OK, SubscribeCommonEvent_srv E cl time i (map_option rm l) k s)),
     px_unsubscribe = (\<lambda>l s. (ERR_OK, UnsubscribeCommonEvent_srv (map_option rm l) s)),
     px_unsubscribe_sync = (\<lambda>l s. (ERR_OK, UnsubscribeCommonEventSync (map_option rm l) s)),
     px_sticky = (\<lambda>e d s. (case GetStickyCommonEvent_srv E cl e s of
        (r, None) \<Rightarrow> (ERR_OK, r, d, s) | (r, Some d') \<Rightarrow> (ERR_OK, r, d', s))),
     px_finish = (\<lambda>l c t a s. (ERR_OK, FinishReceiver_srv (map_option rm l) c t a s)),
     px_freeze = (\<lambda>u s. (ERR_OK, Freeze_srv E cl u s)), px_unfreeze = (\<lambda>u s. (ERR_OK, Unfreeze_srv E cl u s)),
     px_unfreeze_all = (\<lambda>s. (ERR_OK, UnfreezeAll_srv E cl s)),
     px_remove_sticky = (\<lambda>e s. (ERR_OK, RemoveStickyCommonEvent_srv E cl e s)),
     px_static = (\<lambda>b s. (ERR_OK, SetStaticSubscriberState_srv E S K cl b s)),
     px_static_events = (\<lambda>es b s. (ERR_OK, SetStaticSubscriberStateByEvents E S K cl es b s)),
     px_dump = (\<lambda>ty e u s. (case DumpState_srv E T cl ty e u s of
        None \<Rightarrow> (IPC_INVOKER_ERR, False, [], s) | Some (r, ok, xs) \<Rightarrow> (r, ok, xs, s))),
     px_freeze_status = (\<lambda>ps b s. (ERR_OK, SetFreezeStatus_srv E cl ps b s))\<rparr>"

lemma service_proxy [simp]: "GetCommonEventProxy (service_ops E S K cl time now T rm) s = IsReady s"
  by (simp add: GetCommonEventProxy_def service_ops_def)

lemma service_ops_simps [simp]:
  "sa_manager (service_ops E S K cl time now T rm) s" "sa_subscribe (service_ops E S K cl time now T rm) s = (ERR_OK, s)"
  "os_alloc (service_ops E S K cl time now T rm) s"
  "px_subscribe (service_ops E S K cl time now T rm) i l k s = (ERR_OK, SubscribeCommonEvent_srv E cl time i (map_option rm l) k s)"
  "px_unsubscribe (service_ops E S K cl time now T rm) l s = (ERR_OK, UnsubscribeCommonEvent_srv (map_option rm l) s)"
  "px_finish (service_ops E S K cl time now T rm) l code t a s = (ERR_OK, FinishReceiver_srv (map_option rm l) code t a s)"
  by (simp_all add: service_ops_def)

section \<open>Subscribing\<close>

lemma client_subscribes:
  assumes "map_of (cc_table c) b = None" and "length (cc_table c) \<noteq> 200" and "ms_events (si_matchingSkills (info_of c b)) \<noteq> []"
    and "IsReady s" and "CheckUserIdParams E (si_userId (info_of c b)) = ERR_OK"
    and "SubscribeCommonEvent_client (service_ops E S K cl (Some rtime) now T rm) (Some b) (c, s) = (r, c1, s1)"
  shows "r = ERR_OK \<and> map_of (cc_table c1) b = Some (Some (cc_next c)) \<and>
    s1 = submit (SubscribeTask (info_of c b) (Some (rm (cc_next c))) rtime (cl_pid cl) (cl_uid cl) (cl_token cl) (-1)) s"
proof -
  let ?X = "service_ops E S K cl (Some rtime) now T rm"
  obtain c0 s0 where sa: "SubscribeSAManager ?X (c, s) = (c0, s0)" by fastforce
  have c0: "cc_table c0 = cc_table c" "cc_subscribers c0 = cc_subscribers c" "cc_next c0 = cc_next c" "s0 = s"
    using sa_manager_frame [of ?X "(c, s)"] sa
    by (auto simp: SubscribeSAManager_def split: if_splits)
  obtain c2 where cr: "CreateCommonEventListener ?X (Some b) (c0, s) = (INITIAL_SUBSCRIPTION, Some (cc_next c), c2)"
    and c2: "map_of (cc_table c2) b = Some (Some (cc_next c))" "cc_subscribers c2 = cc_subscribers c"
    using assms(1,2) c0
    by (auto simp: CreateCommonEventListener_def SUBSCRIBER_MAX_SIZE_def CommonEventListener_new_def Let_def
      map_of_omap_put upd_listener_def)
  have "SubscribeCommonEvent_client ?X (Some b) (c, s) = SubscribeOrUpdate ?X b False (c0, s)"
    using assms(3,4) sa c0 by (simp add: SubscribeCommonEvent_client_def CountEvent_def)
  moreover have "SubscribeOrUpdate ?X b False (c0, s) = (ERR_OK, c2,
      submit (SubscribeTask (info_of c b) (Some (rm (cc_next c))) rtime (cl_pid cl) (cl_uid cl) (cl_token cl) (-1)) s)"
    using assms(4,5) c2
    by (simp add: SubscribeOrUpdate_def cr ok_or_def SubscribeCommonEvent_srv_def
      UNDEFINED_INSTANCE_KEY_def Let_def)
  ultimately show ?thesis using assms(6) c2 by simp
qed


lemma ex_ready:
  "service_reachable (snd (Init_srv ex_start))" "IsReady (snd (Init_srv ex_start))"
  "srvQueue (snd (Init_srv ex_start)) = []" "registered (ctl_of (snd (Init_srv ex_start))) l = None"
  "subscribers (cs_subs (ctl_of (snd (Init_srv ex_start)))) = []"
  by (rule service_reachable.step [OF ex_start_reachable service_step.init])
    (simp_all add: Init_srv_def IsReady_def ex_start_def service_init_def ex_inner_def inner_init_def ctl_init_def
      sub_init_def registry_def)


text \<open>The service answers before it has decided: a subscription it then refuses, because it names too
  many events, is a success for the client, which keeps the subscriber in its table.\<close>

lemma refused_subscription_reported_as_success:
  assumes "IsReady s" and "srvQueue s = []" and "map_of (cc_table c) b = None" and "length (cc_table c) \<noteq> 200"
    and "length (ms_events (si_matchingSkills (info_of c b))) > 512"
    and "CheckUserIdParams E (si_userId (info_of c b)) = ERR_OK"
    and "SubscribeCommonEvent_client (service_ops E S K cl (Some rtime) now T rm) (Some b) (c, s) = (r, c1, s1)"
  shows "r = ERR_OK \<and> map_of (cc_table c1) b = Some (Some (cc_next c)) \<and>
    registered (ctl_of (run_task E S K pm cmd now2 s1)) = registered (ctl_of s)"
proof -
  have ev: "ms_events (si_matchingSkills (info_of c b)) \<noteq> []" using assms(5) by auto
  note cl = client_subscribes [OF assms(3,4) ev assms(1,6,7)]
  have bad: "\<not> valid_events ((info_of c b)\<lparr>si_userId := user\<rparr>)" for user
    using assms(5) by (simp add: valid_events_def SUBSCRIBE_EVENT_MAX_NUM_def)
  let ?sub = "SubscribeCommonEvent_inner E pm cmd (info_of c b) (Some (rm (cc_next c))) rtime (cl_pid cl) (cl_uid cl)
    (cl_token cl) (task_bundle E (cl_token cl) (cl_uid cl)) (-1) (sv_inner s)"
  have "cs_subs (in_ctl (snd ?sub)) = cs_subs (ctl_of s)"
  proof (cases "fst (CheckUserId E (cl_pid cl) (cl_uid cl) (cl_token cl) EventComeFrom_init (si_userId (info_of c b)))")
    case True
    then obtain come user where u: "CheckUserId E (cl_pid cl) (cl_uid cl) (cl_token cl) EventComeFrom_init
        (si_userId (info_of c b)) = (True, come, user)" by (metis prod.collapse)
    have "InsertSubscriber E cmd (Some ((info_of c b)\<lparr>si_userId := user\<rparr>)) l t ri x = (None, x)" for l t ri x
      using bad by (intro InsertSubscriber_rejected_args) simp
    then show ?thesis
      unfolding Subscribe_form [OF ev u refl] snd_conv registered_sticky_event
      by (simp add: inserted_def upd_ctl_def upd_subs_def)
  next
    case False
    then show ?thesis by (simp add: Subscribe_rejected)
  qed
  then show ?thesis using cl assms(2) by (simp add: run_task_def submit_def)
qed

section \<open>Unsubscribing\<close>

lemma unsubscription_reaches_registry:
  assumes "service_reachable s" and "IsReady s" and "srvQueue s = []" and "map_of (cc_table c) b = Some (Some l)"
    and "UnSubscribeCommonEvent_client (service_ops E S K cl time now T rm) (Some b) (c, s) = (r, c1, s1)"
  shows "r = ERR_OK \<and> map_of (cc_table c1) b = None \<and>
    registered (ctl_of (run_task E S K pm cmd now2 s1)) = (registered (ctl_of s))(rm l := None)"
proof -
  have inv: "sub_inv (cs_subs (ctl_of s))"
    using reachable_inv [OF service_reachable_ctl [OF assms(1)]] by (simp add: ctl_inv_def core_invD(1))
  have "UnSubscribeCommonEvent_client (service_ops E S K cl time now T rm) (Some b) (c, s) =
      (ERR_OK, erase_and_stop b c, submit (UnsubscribeTask (Some (rm l))) s)"
    using assms(2,4) by (simp add: UnSubscribeCommonEvent_client_def ok_or_def UnsubscribeCommonEvent_srv_def)
  then have call: "r = ERR_OK" "c1 = erase_and_stop b c" "s1 = submit (UnsubscribeTask (Some (rm l))) s"
    using assms(5) by simp_all
  have "map_of (cc_table c1) b = None"
    using assms(4) by (simp add: call erase_and_stop_def Stop_listener_def upd_listener_def delete_conv')
  moreover have "cs_subs (in_ctl (snd (UnsubscribeCommonEvent_inner (Some (rm l)) (sv_inner s)))) =
      snd (RemoveSubscriber (Some (rm l)) (cs_subs (ctl_of s)))"
    by (auto simp: UnsubscribeCommonEvent_inner_def Let_def upd_ctl_def upd_subs_def subs_Finish split: option.split)
  ultimately show ?thesis
    using call assms(3) registry_RemoveSubscriber [OF inv] by (simp add: run_task_def submit_def)
qed

section \<open>Answering\<close>

text \<open>C19: The answer of a receiver reaches the ordered event that waits for it.  A listener runs the
  callback of its subscriber for an ordered event, the callback makes any calls but \<open>GoAsync\<close>, and
  the service, with an empty queue, runs the task this left: its ordered queue is then as if
  \<open>FinishReceiverAction\<close> had been called, for the record that waits for this listener, with the code,
  the data and the abort flag the calls make of the event's; if no record waits for this listener,
  nothing has changed.\<close>

theorem answer_reaches_ordered_record:
  assumes "ln_subscriber (cc_listeners c l) = Some b" and "ln_alive (cc_listeners c l)"
    and "IsReady s" and "srvQueue s = []" and "CallGoAsync \<notin> set ks"
    and "OnReceiveEvent (service_ops E S K cl time now T rm) (app_calls b ks) l d True sticky (c, s) = (c1, s1)"
  shows "ctl_of (run_task E S K pm cmd now2 s1) =
    (case GetMatchingOrderedReceiver (Some (rm l)) (ctl_of s) of
       None \<Rightarrow> ctl_of s
     | Some o' \<Rightarrow>
         (case answer_of ks (cd_code d, cd_data d, False) of (code, str, ab) \<Rightarrow>
            snd (FinishReceiverAction (Some o') code str ab (ctl_of s))))"
proof -
  obtain code str ab where a: "answer_of ks (cd_code d, cd_data d, False) = (code, str, ab)" by (metis prod_cases3)
  have "s1 = snd (FinishReceiver_client (service_ops E S K cl time now T rm) (Some l) code str ab s)"
    using ordered_event_answered [OF assms(1,2), of "service_ops E S K cl time now T rm" ks d sticky s] assms(5,6) a by simp
  then have "s1 = submit (FinishTask (Some (rm l)) code str ab) s"
    using assms(3) by (simp add: FinishReceiver_client_def ok_or_def FinishReceiver_srv_def)
  then show ?thesis
    using assms(4) by (simp add: run_task_def submit_def FinishReceiver_inner_def upd_ctl_def a split: option.split)
qed

definition ex_waiting :: "(string \<times> string) list service_state" where
  "ex_waiting = (service_init (ex_inner ex_ctl2))\<lparr>running := True\<rparr>"

lemma ex_waiting_parts: "IsReady ex_waiting" "srvQueue ex_waiting = []" "ctl_of ex_waiting = ex_ctl2"
  by (simp_all add: ex_waiting_def IsReady_def service_init_def ex_inner_def inner_init_def)

theorem answer_reaches_ordered_record_instance:
  "let X = service_ops ex_env ex_senv ex_kv ex_caller (Some 8) 9 (\<lambda>_. []) (\<lambda>l. l + 7);
       s = snd (OnReceiveEvent X (app_calls 5 [CallSetCode 7, CallAbort]) 0 demo_event True False
                 (demo_delivered, ex_waiting));
       c = ctl_of (run_task ex_env ex_senv ex_kv [] (\<lambda>_. []) 10 s)
   in resultAbort (ordHeap c 0) \<and> orderedTasks c = [False] \<and> cd_code (commonEventData (payload_of c 0)) = 7"
proof -
  let ?X = "service_ops ex_env ex_senv ex_kv ex_caller (Some 8) 9 (\<lambda>_. []) (\<lambda>l. l + 7)"
  obtain c1 s1 where run: "OnReceiveEvent ?X (app_calls 5 [CallSetCode 7, CallAbort]) 0 demo_event True False
      (demo_delivered, ex_waiting) = (c1, s1)" by fastforce
  have m: "GetMatchingOrderedReceiver (Some 7) ex_ctl2 = Some 0"
    using ex_ctl2_parts by (simp add: GetMatchingOrderedReceiver_def)
  have "ctl_of (run_task ex_env ex_senv ex_kv [] (\<lambda>_. []) 10 s1) =
      snd (FinishReceiverAction (Some 0) 7 ''x'' True ex_ctl2)"
    using answer_reaches_ordered_record [where pm = "[]" and cmd = "\<lambda>_. []" and ?now2.0 = 10,
      OF conjunct1 [OF demo_delivered_listener] conjunct2 [OF demo_delivered_listener] ex_waiting_parts(1,2) _ run]
    by (simp add: ex_waiting_parts m demo_event_def)
  moreover have "state (ordHeap ex_ctl2 0) = event_code RECEIVED"
    using core_invD(12) [of ex_ctl2] reachable_inv [OF ex_ctl2_reachable] ex_ctl2_parts
    by (auto simp: ctl_inv_def idle_rec_def waiting_rec_def)
  ultimately show ?thesis
    using run ex_ctl2_parts
    by (simp add: FinishReceiverAction_def FinishReceiver_ctl_def Let_def upd_ord_def)
qed

end
