(* ===== verification/Ability_Connections.thy ===== *)
theory Ability_Connections
  imports Event_Types
begin

text \<open>
  How events reach the extensions that the static subscriber manager starts:
  \<open>AbilityManagerHelper\<close> (\<open>ability_manager_helper.cpp\<close>) keeps one
  \<open>StaticSubscriberConnection\<close> (\<open>static_subscriber_connection.cpp\<close>) per extension and user, which
  caches events until the extension is connected, hands them over in a queue of its own, and is
  closed fifteen seconds after the last event.

  Connections live in a heap; \<open>cn_tasks\<close> are the tasks of a connection's queue, \<open>am_delays\<close> the
  delayed tasks of the helper's queue, which all have the same delay and so run in order.  The
  ability manager is a service of another repository: \<open>ability_env\<close> says, for one step, whether it
  can be reached and what it answers.  Calls to it and to the extension are entries of \<open>am_log\<close>.
\<close>

section \<open>State\<close>

record ability_env =
  ab_samgr :: bool
  ab_remote :: bool
  ab_cast :: bool
  ab_alloc :: bool
  ab_connect :: "Want \<Rightarrow> int32 \<Rightarrow> int32"

datatype ability_effect =
    ExtensionReceived nat CommonEventData
  | Connected nat Want int32
  | Disconnected nat
  | AddRecipient nat
  | RemoveRecipient nat

record connection =
  cn_proxy :: bool
  cn_recipient :: bool
  cn_events :: "CommonEventData list"
  cn_action :: "string list"
  cn_tasks :: "CommonEventData list"
  cn_key :: string
  cn_alive :: bool

record ability_state =
  am_heap :: "nat \<Rightarrow> connection"
  am_next :: nat
  am_table :: "(string, nat) omap" \<comment> \<open>\<open>subscriberConnection_\<close>\<close>
  am_delays :: "(nat \<times> string) list"
  am_log :: "ability_effect list"

definition log_am :: "ability_effect \<Rightarrow> ability_state \<Rightarrow> ability_state" where
  "log_am x a = a\<lparr>am_log := am_log a @ [x]\<rparr>"

definition upd_cn :: "nat \<Rightarrow> (connection \<Rightarrow> connection) \<Rightarrow> ability_state \<Rightarrow> ability_state" where
  "upd_cn p f a = a\<lparr>am_heap := (am_heap a)(p := f (am_heap a p))\<rparr>"

lemmas am_upd_defs = log_am_def upd_cn_def

section \<open>StaticSubscriberConnection\<close>

definition StaticSubscriberConnection_new :: "CommonEventData \<Rightarrow> string \<Rightarrow> connection" where
  "StaticSubscriberConnection_new event key = \<lparr>cn_proxy = False, cn_recipient = False, cn_events = [event],
     cn_action = [], cn_tasks = [], cn_key = key, cn_alive = True\<rparr>"

definition NotifyEvent_connection :: "nat \<Rightarrow> CommonEventData \<Rightarrow> ability_state \<Rightarrow> ability_state" where
  "NotifyEvent_connection p event a =
     (if \<not> cn_proxy (am_heap a p) then upd_cn p (\<lambda>x. x\<lparr>cn_events := cn_events x @ [event]\<rparr>) a
      else upd_cn p (\<lambda>x. x\<lparr>cn_action := cn_action x @ [w_action (cd_want event)],
                          cn_tasks := cn_tasks x @ [event]\<rparr>) a)"

text \<open>\<open>remoteObject\<close>: null, an object that is no static subscriber, or one that is; \<open>alloc\<close>: the
  allocation of the death recipient succeeds.\<close>

datatype remote_object = NullObject | OtherObject | StaticSubscriberObject

definition InitProxy :: "bool \<Rightarrow> nat \<Rightarrow> remote_object \<Rightarrow> ability_state \<Rightarrow> ability_state" where
  "InitProxy alloc p remoteObject a =
     (case remoteObject of
        NullObject \<Rightarrow> a
      | OtherObject \<Rightarrow> upd_cn p (\<lambda>x. x\<lparr>cn_proxy := False\<rparr>) a
      | StaticSubscriberObject \<Rightarrow>
          (let a1 = upd_cn p (\<lambda>x. x\<lparr>cn_proxy := True, cn_recipient := alloc\<rparr>) a
           in if \<not> alloc then a1 else log_am (AddRecipient p) a1))"

text \<open>The loop over \<open>events_\<close> calls \<open>NotifyEvent\<close>, which appends to \<open>events_\<close> when there is no
  proxy: the vector is changed while it is iterated, which is undefined and \<open>None\<close> here.\<close>

definition OnAbilityConnectDone :: "bool \<Rightarrow> nat \<Rightarrow> remote_object \<Rightarrow> ability_state \<Rightarrow> ability_state option" where
  "OnAbilityConnectDone alloc p remoteObject a =
     (let a1 = InitProxy alloc p remoteObject a;
          events = cn_events (am_heap a1 p)
      in if \<not> cn_proxy (am_heap a1 p) \<and> events \<noteq> [] then None
         else Some (upd_cn p (\<lambda>x. x\<lparr>cn_events := []\<rparr>) (fold (NotifyEvent_connection p) events a1)))"

fun erase_first :: "'a \<Rightarrow> 'a list \<Rightarrow> 'a list" where
  "erase_first x [] = []"
| "erase_first x (y # ys) = (if y = x then ys else y # erase_first x ys)"

definition RemoveEvent_connection :: "string \<Rightarrow> connection \<Rightarrow> connection" where
  "RemoveEvent_connection action x = x\<lparr>cn_action := erase_first action (cn_action x)\<rparr>"

definition Clear_connection :: "nat \<Rightarrow> ability_state \<Rightarrow> ability_state" where
  "Clear_connection p a =
     (let a1 = (if cn_proxy (am_heap a p) \<and> cn_recipient (am_heap a p) then log_am (RemoveRecipient p) a else a)
      in upd_cn p (\<lambda>x. x\<lparr>cn_proxy := False\<rparr>) a1)"

section \<open>AbilityManagerHelper\<close>

definition GetAbilityMgrProxy :: "ability_env \<Rightarrow> bool" where
  "GetAbilityMgrProxy V =
     (if \<not> ab_samgr V then False
      else if \<not> ab_remote V then False
      else ab_cast V)"

definition DisconnectServiceAbilityDelay :: "nat \<Rightarrow> string \<Rightarrow> ability_state \<Rightarrow> ability_state" where
  "DisconnectServiceAbilityDelay p action a = a\<lparr>am_delays := am_delays a @ [(p, action)]\<rparr>"

definition connection_key :: "Want \<Rightarrow> int32 \<Rightarrow> string" where
  "connection_key want user = w_bundle want @ ''_'' @ w_ability want @ ''_'' @ to_string user"

definition ConnectAbility_helper ::
  "ability_env \<Rightarrow> Want \<Rightarrow> CommonEventData \<Rightarrow> int32 \<Rightarrow> ability_state \<Rightarrow> int32 \<times> ability_state" where
  "ConnectAbility_helper V want event user a =
     (let key = connection_key want user
      in if \<not> GetAbilityMgrProxy V then (-1, a)
         else case map_of (am_table a) key of
           Some p \<Rightarrow> (0, NotifyEvent_connection p event a)
         | None \<Rightarrow>
             if \<not> ab_alloc V then (-1, a)
             else
               (let p = am_next a;
                    a1 = log_am (Connected p want user)
                           (upd_cn p (\<lambda>_. StaticSubscriberConnection_new event key) (a\<lparr>am_next := p + 1\<rparr>));
                    result = ab_connect V want user
                in if result \<noteq> 0 then (result, a1)
                   else (result, DisconnectServiceAbilityDelay p []
                                   (a1\<lparr>am_table := omap_put key p (am_table a1)\<rparr>))))"

text \<open>\<open>find_if\<close> over the values of the table.\<close>

definition key_of :: "nat \<Rightarrow> ability_state \<Rightarrow> string option" where
  "key_of p a = map_option fst (find (\<lambda>(k, q). q = p) (am_table a))"

definition close_connection :: "ability_env \<Rightarrow> nat \<Rightarrow> string \<Rightarrow> ability_state \<Rightarrow> ability_state" where
  "close_connection V p key a =
     (let a1 = (if GetAbilityMgrProxy V then log_am (Disconnected p) a else a);
          a2 = Clear_connection p a1
      in a2\<lparr>am_table := AList.delete key (am_table a2)\<rparr>)"

definition DisconnectAbility :: "ability_env \<Rightarrow> nat \<Rightarrow> string \<Rightarrow> ability_state \<Rightarrow> ability_state" where
  "DisconnectAbility V p action a =
     (case key_of p a of
        None \<Rightarrow> a
      | Some key \<Rightarrow>
          (let a1 = upd_cn p (RemoveEvent_connection action) a
           in if cn_action (am_heap a1 p) \<noteq> [] then a1 else close_connection V p key a1))"

definition RemoveConnection :: "ability_env \<Rightarrow> nat \<Rightarrow> ability_state \<Rightarrow> ability_state" where
  "RemoveConnection V p a =
     (case key_of p a of
        None \<Rightarrow> a
      | Some key \<Rightarrow> close_connection V p key a)"

section \<open>Tasks\<close>

text \<open>The task at the head of a connection's queue: it holds a weak pointer, finds the proxy gone, or
  passes the event on and asks for a disconnection.\<close>

definition run_notify :: "nat \<Rightarrow> ability_state \<Rightarrow> ability_state" where
  "run_notify p a =
     (case cn_tasks (am_heap a p) of
        [] \<Rightarrow> a
      | event # rest \<Rightarrow>
          (let a1 = upd_cn p (\<lambda>x. x\<lparr>cn_tasks := rest\<rparr>) a
           in if \<not> cn_alive (am_heap a1 p) then a1
              else if \<not> cn_proxy (am_heap a1 p) then a1
              else DisconnectServiceAbilityDelay p (w_action (cd_want event))
                     (log_am (ExtensionReceived p event) a1)))"

definition run_delay :: "ability_env \<Rightarrow> ability_state \<Rightarrow> ability_state" where
  "run_delay V a =
     (case am_delays a of
        [] \<Rightarrow> a
      | (p, action) # rest \<Rightarrow> DisconnectAbility V p action (a\<lparr>am_delays := rest\<rparr>))"

text \<open>The steps of the helper.  \<open>OnAbilityConnectDone\<close> and the death of an extension come from
  outside; the ability manager reports a connection that is not established yet, so the proxy is not
  set.  A connection that nothing holds any more expires.\<close>

inductive ability_step :: "ability_state \<Rightarrow> ability_state \<Rightarrow> bool" where
  connect: "ability_step a (snd (ConnectAbility_helper V want event user a))"
| connected: "p < am_next a \<Longrightarrow> \<not> cn_proxy (am_heap a p) \<Longrightarrow> OnAbilityConnectDone alloc p remoteObject a = Some a' \<Longrightarrow> ability_step a a'"
| died: "ability_step a (RemoveConnection V p a)"
| notify: "p < am_next a \<Longrightarrow> ability_step a (run_notify p a)"
| delay: "ability_step a (run_delay V a)"
| expire: "p \<notin> snd ` set (am_table a) \<Longrightarrow> ability_step a (upd_cn p (\<lambda>x. x\<lparr>cn_alive := False\<rparr>) a)"

definition ability_init :: "(nat \<Rightarrow> connection) \<Rightarrow> ability_state" where
  "ability_init h = \<lparr>am_heap = h, am_next = 0, am_table = [], am_delays = [], am_log = []\<rparr>"

inductive ability_reachable :: "ability_state \<Rightarrow> bool" where
  start: "ability_reachable (ability_init h)"
| step: "ability_reachable a \<Longrightarrow> ability_step a a' \<Longrightarrow> ability_reachable a'"

section \<open>Invariant\<close>

text \<open>Every action of an open connection is owed a task: one that will ask for a disconnection, or a
  delayed disconnection.\<close>

definition owed :: "ability_state \<Rightarrow> nat \<Rightarrow> string \<Rightarrow> nat" where
  "owed a p x = count_list (map (w_action \<circ> cd_want) (cn_tasks (am_heap a p))) x + count_list (am_delays a) (p, x)"

definition conn_ok :: "ability_state \<Rightarrow> nat \<Rightarrow> bool" where
  "conn_ok a p \<longleftrightarrow> p < am_next a \<and> cn_alive (am_heap a p) \<and>
     (\<not> cn_proxy (am_heap a p) \<longrightarrow> cn_tasks (am_heap a p) = []) \<and>
     (\<forall>x. count_list (cn_action (am_heap a p)) x \<le> owed a p x) \<and>
     (cn_tasks (am_heap a p) \<noteq> [] \<or> p \<in> fst ` set (am_delays a))"

definition am_inv :: "ability_state \<Rightarrow> bool" where
  "am_inv a \<longleftrightarrow> omap_ok (am_table a) \<and> distinct (map snd (am_table a)) \<and> (\<forall>p \<in> snd ` set (am_table a). conn_ok a p)"

end
