(* ===== verification/Ability_Props.thy ===== *)
theory Ability_Props
  imports Ability_Connections
begin

text \<open>
  The connections to extensions: each is a first-in first-out buffer between the static subscriber
  manager and its extension, and each is closed when its events have been handed over.
\<close>

section \<open>The invariant\<close>

lemma key_of_Some: "key_of p a = Some key \<Longrightarrow> (key, p) \<in> set (am_table a)"
  by (auto simp: key_of_def find_Some_iff) (metis nth_mem)

lemma key_of_None: "key_of p a = None \<longleftrightarrow> p \<notin> snd ` set (am_table a)"
  by (force simp: key_of_def find_None_iff)

lemma conn_ok_cong:
  "am_heap a' p = am_heap a p \<Longrightarrow> am_next a \<le> am_next a' \<Longrightarrow> (\<And>x. count_list (am_delays a) (p, x) \<le> count_list (am_delays a') (p, x)) \<Longrightarrow>
     p \<in> fst ` set (am_delays a) \<longrightarrow> p \<in> fst ` set (am_delays a') \<Longrightarrow> conn_ok a p \<Longrightarrow> conn_ok a' p"
  unfolding conn_ok_def owed_def by (auto intro: order_trans)

lemma am_invD: "am_inv a \<Longrightarrow> q \<in> snd ` set (am_table a) \<Longrightarrow> conn_ok a q"
  unfolding am_inv_def by blast

lemma am_inv_frame:
  assumes "am_inv a" and "am_table a' = am_table a" and "\<And>p. p \<in> snd ` set (am_table a) \<Longrightarrow> conn_ok a p \<Longrightarrow> conn_ok a' p"
  shows "am_inv a'"
  using assms by (simp add: am_inv_def)

lemma conn_ok_notify:
  assumes "conn_ok a q"
  shows "conn_ok (NotifyEvent_connection p event a) q"
  using assms by (auto simp: NotifyEvent_connection_def conn_ok_def owed_def am_upd_defs)

lemma conn_ok_notifies: "conn_ok a q \<Longrightarrow> conn_ok (fold (NotifyEvent_connection p) es a) q"
  by (induction es arbitrary: a) (simp_all add: conn_ok_notify)

lemma notify_frame [simp]:
  "am_table (NotifyEvent_connection p event a) = am_table a" "am_next (NotifyEvent_connection p event a) = am_next a"
  "am_delays (NotifyEvent_connection p event a) = am_delays a" "am_log (NotifyEvent_connection p event a) = am_log a"
  "cn_proxy (am_heap (NotifyEvent_connection p event a) q) = cn_proxy (am_heap a q)"
  by (simp_all add: NotifyEvent_connection_def am_upd_defs)

lemma notifies_frame [simp]:
  "am_table (fold (NotifyEvent_connection p) es a) = am_table a" "am_next (fold (NotifyEvent_connection p) es a) = am_next a"
  "am_delays (fold (NotifyEvent_connection p) es a) = am_delays a" "am_log (fold (NotifyEvent_connection p) es a) = am_log a"
  "cn_proxy (am_heap (fold (NotifyEvent_connection p) es a) q) = cn_proxy (am_heap a q)"
  by (induction es arbitrary: a) simp_all

lemma init_proxy_ok: "am_inv a \<Longrightarrow> \<not> cn_proxy (am_heap a p) \<Longrightarrow> am_inv (InitProxy alloc p r a)"
  by (rule am_inv_frame, assumption) (auto simp: InitProxy_def am_upd_defs conn_ok_def owed_def Let_def split: remote_object.split)

lemma delete_values:
  assumes "distinct (map snd m)" and "(key, p) \<in> set m"
  shows "snd ` set (AList.delete key m) \<subseteq> snd ` set m - {p}" and "distinct (map snd (AList.delete key m))"
proof -
  have "q \<noteq> p" if "(k, q) \<in> set m" "k \<noteq> key" for k q
    using assms that by (metis distinct_map inj_on_eq_iff prod.inject snd_conv)
  then show "snd ` set (AList.delete key m) \<subseteq> snd ` set m - {p}" by (fastforce simp: AList.delete_eq)
  show "distinct (map snd (AList.delete key m))"
    using assms(1) by (simp add: AList.delete_eq distinct_map_filter)
qed

lemma close_ok:
  assumes inv: "am_inv a" and key: "(key, p) \<in> set (am_table a)"
  shows "am_inv (close_connection V p key a)"
proof -
  let ?a = "close_connection V p key a"
  have t: "am_table ?a = AList.delete key (am_table a)" "am_delays ?a = am_delays a" "am_next ?a = am_next a"
    and h: "\<And>q. q \<noteq> p \<Longrightarrow> am_heap ?a q = am_heap a q"
    by (simp_all add: close_connection_def Clear_connection_def am_upd_defs Let_def)
  have d: "distinct (map snd (am_table a))" using inv by (simp add: am_inv_def)
  have "conn_ok ?a q" if "q \<in> snd ` set (am_table ?a)" for q
  proof -
    have q: "q \<in> snd ` set (am_table a)" "q \<noteq> p" using that delete_values(1) [OF d key] by (auto simp: t)
    then have "conn_ok a q" using am_invD [OF inv] by simp
    then show ?thesis by (rule conn_ok_cong [rotated -1]) (simp_all add: t h q)
  qed
  then show ?thesis
    using inv delete_values(2) [OF d key] by (simp add: am_inv_def t omap_ok_delete)
qed

lemma disconnect_ok:
  assumes inv: "omap_ok (am_table a)" "distinct (map snd (am_table a))"
    and others: "\<And>q. q \<in> snd ` set (am_table a) \<Longrightarrow> q \<noteq> p \<Longrightarrow> conn_ok a q"
    and mine: "p \<in> snd ` set (am_table a) \<Longrightarrow> cn_action (am_heap (upd_cn p (RemoveEvent_connection action) a) p) \<noteq> [] \<Longrightarrow>
      conn_ok (upd_cn p (RemoveEvent_connection action) a) p"
  shows "am_inv (DisconnectAbility V p action a)"
proof (cases "key_of p a")
  case None
  then have "am_inv a" using inv others key_of_None by (auto simp: am_inv_def)
  then show ?thesis by (simp add: DisconnectAbility_def None)
next
  case (Some key)
  let ?a = "upd_cn p (RemoveEvent_connection action) a"
  have key: "(key, p) \<in> set (am_table a)" by (rule key_of_Some [OF Some])
  then have p: "p \<in> snd ` set (am_table a)" by force
  have t: "am_table ?a = am_table a" by (simp add: upd_cn_def)
  have o': "conn_ok ?a q" if "q \<in> snd ` set (am_table a)" "q \<noteq> p" for q
    using others [OF that] by (rule conn_ok_cong [rotated -1]) (simp_all add: upd_cn_def that)
  show ?thesis
  proof (cases "cn_action (am_heap ?a p) = []")
    case False
    have "conn_ok ?a q" if "q \<in> snd ` set (am_table a)" for q
      using o' [OF that] mine [OF p False] by (cases "q = p") simp_all
    then have "am_inv ?a" unfolding am_inv_def t using inv by blast
    moreover have "DisconnectAbility V p action a = ?a" using False by (simp only: DisconnectAbility_def Some Let_def) simp
    ultimately show ?thesis by simp
  next
    case True
    let ?b = "close_connection V p key ?a"
    have b: "am_table ?b = AList.delete key (am_table a)" "am_delays ?b = am_delays ?a" "am_next ?b = am_next ?a"
      and h: "\<And>q. q \<noteq> p \<Longrightarrow> am_heap ?b q = am_heap ?a q"
      by (simp_all add: close_connection_def Clear_connection_def am_upd_defs Let_def)
    have "conn_ok ?b q" if "q \<in> snd ` set (am_table ?b)" for q
    proof -
      have q: "q \<in> snd ` set (am_table a)" "q \<noteq> p" using that delete_values(1) [OF inv(2) key] by (auto simp: b)
      from o' [OF q] show ?thesis by (rule conn_ok_cong [rotated -1]) (simp_all add: b h q)
    qed
    then have "am_inv ?b" unfolding am_inv_def b using omap_ok_delete [OF inv(1)] delete_values(2) [OF inv(2) key] b(1) by metis
    moreover have "DisconnectAbility V p action a = ?b" using True by (simp only: DisconnectAbility_def Some Let_def) simp
    ultimately show ?thesis by simp
  qed
qed

lemma count_erase_first: "count_list (erase_first x xs) y = count_list xs y - (if y = x then 1 else 0)"
  by (induction xs) auto

lemma count_in_set: "xs \<noteq> [] \<Longrightarrow> \<exists>x. count_list xs x > 0"
  by (metis count_list_0_iff gr_zeroI list.set_intros(1) neq_Nil_conv)

lemma run_delay_ok:
  assumes inv: "am_inv a"
  shows "am_inv (run_delay V a)"
proof (cases "am_delays a")
  case Nil
  then show ?thesis using inv by (simp add: run_delay_def)
next
  case (Cons e rest)
  obtain p action where e: "e = (p, action)" by fastforce
  let ?a = "a\<lparr>am_delays := rest\<rparr>"
  have "am_inv (DisconnectAbility V p action ?a)"
  proof (rule disconnect_ok)
    fix q assume q: "q \<in> snd ` set (am_table ?a)" "q \<noteq> p"
    then have "conn_ok a q" using am_invD [OF inv] by simp
    then show "conn_ok ?a q" using q by (auto simp: conn_ok_def owed_def Cons e)
  next
    let ?b = "upd_cn p (RemoveEvent_connection action) ?a"
    assume p: "p \<in> snd ` set (am_table ?a)" and ne: "cn_action (am_heap ?b p) \<noteq> []"
    have ok: "conn_ok a p" using am_invD [OF inv] p by simp
    have owe: "count_list (cn_action (am_heap ?b p)) x \<le> owed ?b p x" for x
    proof -
      have "count_list (cn_action (am_heap a p)) x \<le> owed a p x" using ok by (simp add: conn_ok_def)
      then show ?thesis by (auto simp: upd_cn_def RemoveEvent_connection_def count_erase_first owed_def Cons e)
    qed
    obtain x where "count_list (cn_action (am_heap ?b p)) x > 0" using count_in_set [OF ne] by blast
    then have pos: "owed ?b p x > 0" using owe [of x] by simp
    have "cn_tasks (am_heap ?b p) \<noteq> [] \<or> p \<in> fst ` set (am_delays ?b)"
    proof (cases "count_list (am_delays ?b) (p, x) > 0")
      case True
      then have "(p, x) \<in> set (am_delays ?b)" by (metis count_list_0_iff less_numeral_extra(3))
      then show ?thesis by force
    next
      case False
      then show ?thesis using pos by (auto simp: owed_def)
    qed
    then show "conn_ok ?b p" using ok owe by (simp add: conn_ok_def) (simp add: upd_cn_def RemoveEvent_connection_def)
  qed (use inv in \<open>simp_all add: am_inv_def\<close>)
  then show ?thesis by (simp add: run_delay_def Cons e)
qed

lemma run_notify_ok:
  assumes inv: "am_inv a"
  shows "am_inv (run_notify p a)"
proof (rule am_inv_frame [OF inv])
  show "am_table (run_notify p a) = am_table a"
    by (simp add: run_notify_def am_upd_defs DisconnectServiceAbilityDelay_def Let_def split: list.split)
  fix q assume q: "q \<in> snd ` set (am_table a)" "conn_ok a q"
  show "conn_ok (run_notify p a) q"
  proof (cases "q = p \<and> cn_tasks (am_heap a p) \<noteq> []")
    case True
    then obtain e es where "cn_tasks (am_heap a p) = e # es" by (cases "cn_tasks (am_heap a p)") auto
    moreover have "cn_proxy (am_heap a p)" "cn_alive (am_heap a p)" using True q(2) by (auto simp: conn_ok_def)
    ultimately show ?thesis
      using True q(2) by (auto simp: run_notify_def conn_ok_def owed_def am_upd_defs DisconnectServiceAbilityDelay_def Let_def
        split: if_splits)
  next
    case False
    show ?thesis
    proof (cases "cn_tasks (am_heap a p) = []")
      case True
      then show ?thesis using q(2) by (simp add: run_notify_def)
    next
      case ne: False
      show ?thesis
        using q(2) by (rule conn_ok_cong [rotated -1])
          (use False ne in \<open>auto simp: run_notify_def am_upd_defs DisconnectServiceAbilityDelay_def Let_def split: list.split\<close>)
    qed
  qed
qed

definition with_connection :: "Want \<Rightarrow> int32 \<Rightarrow> CommonEventData \<Rightarrow> ability_state \<Rightarrow> ability_state" where
  "with_connection want user event a = log_am (Connected (am_next a) want user)
     (upd_cn (am_next a) (\<lambda>_. StaticSubscriberConnection_new event (connection_key want user))
       (a\<lparr>am_next := am_next a + 1\<rparr>))"

definition with_entry :: "Want \<Rightarrow> int32 \<Rightarrow> CommonEventData \<Rightarrow> ability_state \<Rightarrow> ability_state" where
  "with_entry want user event a = DisconnectServiceAbilityDelay (am_next a) []
     ((with_connection want user event a)\<lparr>am_table := omap_put (connection_key want user) (am_next a) (am_table a)\<rparr>)"

lemma with_simps [simp]:
  "am_table (with_connection want user event a) = am_table a" "am_next (with_connection want user event a) = am_next a + 1"
  "am_delays (with_connection want user event a) = am_delays a"
  "am_heap (with_connection want user event a) =
    (am_heap a)(am_next a := StaticSubscriberConnection_new event (connection_key want user))"
  "am_table (with_entry want user event a) = omap_put (connection_key want user) (am_next a) (am_table a)"
  "am_next (with_entry want user event a) = am_next a + 1" "am_delays (with_entry want user event a) = am_delays a @ [(am_next a, [])]"
  "am_heap (with_entry want user event a) =
    (am_heap a)(am_next a := StaticSubscriberConnection_new event (connection_key want user))"
  "am_log (with_connection want user event a) = am_log a @ [Connected (am_next a) want user]"
  "am_log (with_entry want user event a) = am_log a @ [Connected (am_next a) want user]"
  by (simp_all add: with_entry_def with_connection_def am_upd_defs DisconnectServiceAbilityDelay_def)

lemma connect_cases:
  obtains (same) "snd (ConnectAbility_helper V want event user a) = a"
  | (old) p where "map_of (am_table a) (connection_key want user) = Some p"
      "snd (ConnectAbility_helper V want event user a) = NotifyEvent_connection p event a"
  | (new) "snd (ConnectAbility_helper V want event user a) = with_connection want user event a"
  | (opened) "map_of (am_table a) (connection_key want user) = None"
      "snd (ConnectAbility_helper V want event user a) = with_entry want user event a"
proof (cases "GetAbilityMgrProxy V")
  case True
  show thesis
  proof (cases "map_of (am_table a) (connection_key want user)")
    case None
    have t: "am_table (with_connection want user event a) = am_table a" by simp
    show thesis
    proof (cases "ab_alloc V \<and> ab_connect V want user = 0")
      case False
      then show thesis
        using True None same new by (cases "ab_alloc V") (simp_all add: ConnectAbility_helper_def Let_def with_connection_def)
    next
      case ok: True
      then have "snd (ConnectAbility_helper V want event user a) = with_entry want user event a"
        using True None t by (simp add: ConnectAbility_helper_def Let_def with_entry_def with_connection_def)
      then show thesis using opened None by blast
    qed
  next
    case (Some p)
    then show thesis using True old [of p] by (simp add: ConnectAbility_helper_def Let_def)
  qed
next
  case False
  then show thesis using same by (simp add: ConnectAbility_helper_def Let_def)
qed

lemma connect_ok:
  assumes inv: "am_inv a"
  shows "am_inv (snd (ConnectAbility_helper V want event user a))"
proof (cases rule: connect_cases [of V want event user a])
  case same
  then show ?thesis using inv by simp
next
  case (old p)
  show ?thesis unfolding old by (rule am_inv_frame [OF inv]) (simp_all add: conn_ok_notify)
next
  case new
  show ?thesis unfolding new by (rule am_inv_frame [OF inv]) (auto simp: conn_ok_def owed_def)
next
  case opened
  let ?k = "connection_key want user" and ?r = "with_entry want user event a"
  have lt: "q < am_next a" if "q \<in> snd ` set (am_table a)" for q
    using am_invD [OF inv that] by (simp add: conn_ok_def)
  have put: "set (omap_put k v m) \<subseteq> insert (k, v) (set m)" for k :: string and v :: nat and m
    by (induction k v m rule: omap_put.induct) auto
  then have puts: "snd ` set (omap_put k v m) \<subseteq> insert v (snd ` set m)" for k :: string and v :: nat and m
    by (metis image_insert image_mono snd_conv)
  have vals: "distinct (map snd (omap_put k v m))" if "distinct (map snd m)" "v \<notin> snd ` set m" for k :: string and v :: nat and m
    using that
  proof (induction k v m rule: omap_put.induct)
    case (2 k v k' v' m)
    then show ?case using puts [of k v m] by auto
  qed simp
  have "conn_ok ?r q" if "q \<in> snd ` set (am_table ?r)" for q
  proof (cases "q = am_next a")
    case True
    then show ?thesis by (simp add: conn_ok_def owed_def StaticSubscriberConnection_new_def)
  next
    case False
    have "q \<in> snd ` set (am_table a)" using that False puts [of ?k "am_next a" "am_table a"] by auto
    from am_invD [OF inv this] show ?thesis using False by (auto simp: conn_ok_def owed_def)
  qed
  moreover have "distinct (map snd (am_table ?r))"
    using vals [of "am_table a" "am_next a" ?k] inv lt by (fastforce simp: am_inv_def)
  moreover have "omap_ok (am_table ?r)" using inv by (simp add: am_inv_def omap_ok_put)
  ultimately show ?thesis unfolding opened by (simp add: am_inv_def)
qed

lemma connected_ok:
  assumes inv: "am_inv a" and np: "\<not> cn_proxy (am_heap a p)" and r: "OnAbilityConnectDone alloc p ro a = Some a'"
  shows "am_inv a'"
proof -
  let ?a1 = "InitProxy alloc p ro a"
  let ?es = "cn_events (am_heap ?a1 p)"
  let ?a2 = "fold (NotifyEvent_connection p) ?es ?a1"
  have a': "a' = upd_cn p (\<lambda>x. x\<lparr>cn_events := []\<rparr>) ?a2"
    using r by (auto simp: OnAbilityConnectDone_def Let_def split: if_splits)
  have "am_inv ?a1" by (rule init_proxy_ok [OF inv np])
  then have "am_inv ?a2" by (rule am_inv_frame) (simp_all add: conn_ok_notifies)
  then show ?thesis unfolding a' by (rule am_inv_frame) (auto simp: upd_cn_def conn_ok_def owed_def)
qed

lemma remove_ok: "am_inv a \<Longrightarrow> am_inv (RemoveConnection V p a)"
  using close_ok key_of_Some by (auto simp: RemoveConnection_def split: option.split)

lemma ability_step_inv: "ability_step a a' \<Longrightarrow> am_inv a \<Longrightarrow> am_inv a'"
proof (induction rule: ability_step.induct)
  case (expire p a)
  show ?case by (rule am_inv_frame [OF expire(2)]) (use expire(1) in \<open>auto simp: upd_cn_def conn_ok_def owed_def\<close>)
qed (simp_all add: connect_ok connected_ok remove_ok run_notify_ok run_delay_ok)

lemma ability_reachable_inv: "ability_reachable a \<Longrightarrow> am_inv a"
proof (induction rule: ability_reachable.induct)
  case (start h)
  show ?case by (simp add: ability_init_def am_inv_def)
qed (rule ability_step_inv)

section \<open>First in, first out\<close>

definition pending :: "ability_state \<Rightarrow> nat \<Rightarrow> CommonEventData list" where
  "pending a p = cn_tasks (am_heap a p) @ cn_events (am_heap a p)"

fun received_of :: "nat \<Rightarrow> ability_effect list \<Rightarrow> CommonEventData list" where
  "received_of p [] = []"
| "received_of p (ExtensionReceived q e # xs) = (if q = p then [e] else []) @ received_of p xs"
| "received_of p (_ # xs) = received_of p xs"

abbreviation received :: "ability_state \<Rightarrow> nat \<Rightarrow> CommonEventData list" where
  "received a p \<equiv> received_of p (am_log a)"

lemma received_append [simp]: "received_of p (xs @ ys) = received_of p xs @ received_of p ys"
  by (induction p xs rule: received_of.induct) auto

text \<open>The specification: a buffer and what has left it.\<close>

inductive fifo_step :: "CommonEventData list \<times> CommonEventData list \<Rightarrow> CommonEventData list \<times> CommonEventData list \<Rightarrow> bool" where
  hand: "fifo_step (q, r) (q @ [e], r)"
| deliver: "fifo_step (e # q, r) (q, r @ [e])"

abbreviation buffer :: "ability_state \<Rightarrow> nat \<Rightarrow> CommonEventData list \<times> CommonEventData list" where
  "buffer a p \<equiv> (pending a p, received a p)"

lemma fold_notify_heap:
  "cn_proxy (am_heap a p) \<Longrightarrow> am_heap (fold (NotifyEvent_connection p) es a) p =
     (am_heap a p)\<lparr>cn_action := cn_action (am_heap a p) @ map (w_action \<circ> cd_want) es, cn_tasks := cn_tasks (am_heap a p) @ es\<rparr>"
  "q \<noteq> p \<Longrightarrow> am_heap (fold (NotifyEvent_connection p) es a) q = am_heap a q"
  by (induction es arbitrary: a) (simp_all add: NotifyEvent_connection_def am_upd_defs)

lemma buffer_connected:
  assumes ok: "conn_ok a p" and np: "\<not> cn_proxy (am_heap a q)" and r: "OnAbilityConnectDone alloc q ro a = Some a'"
  shows "buffer a' p = buffer a p"
proof -
  let ?a1 = "InitProxy alloc q ro a"
  let ?es = "cn_events (am_heap ?a1 q)"
  have a': "a' = upd_cn q (\<lambda>x. x\<lparr>cn_events := []\<rparr>) (fold (NotifyEvent_connection q) ?es ?a1)"
    and ne: "cn_proxy (am_heap ?a1 q) \<or> ?es = []"
    using r by (auto simp: OnAbilityConnectDone_def Let_def split: if_splits)
  have i: "cn_tasks (am_heap ?a1 p) = cn_tasks (am_heap a p)" "cn_events (am_heap ?a1 p) = cn_events (am_heap a p)"
    "received ?a1 p = received a p"
    by (auto simp: InitProxy_def am_upd_defs Let_def split: remote_object.split)
  have rec: "received a' p = received a p" by (simp add: a' upd_cn_def i)
  show ?thesis
  proof (cases "p = q")
    case False
    then show ?thesis using rec by (simp add: pending_def a' upd_cn_def fold_notify_heap(2) i)
  next
    case True
    have "cn_tasks (am_heap a p) = []" using ok np True by (simp add: conn_ok_def)
    then show ?thesis
      using rec ne i [unfolded True] True by (auto simp: pending_def a' upd_cn_def fold_notify_heap(1))
  qed
qed

lemma close_frame:
  "cn_tasks (am_heap (close_connection V q key a) p) = cn_tasks (am_heap a p)"
  "cn_events (am_heap (close_connection V q key a) p) = cn_events (am_heap a p)"
  "received (close_connection V q key a) p = received a p"
  by (simp_all add: close_connection_def Clear_connection_def am_upd_defs Let_def)

lemma buffer_disconnect:
  "buffer (DisconnectAbility V q action a) p = buffer a p" "buffer (RemoveConnection V q a) p = buffer a p"
proof -
  have u: "cn_tasks (am_heap (upd_cn q (RemoveEvent_connection action) a) p) = cn_tasks (am_heap a p)"
    "cn_events (am_heap (upd_cn q (RemoveEvent_connection action) a) p) = cn_events (am_heap a p)"
    "received (upd_cn q (RemoveEvent_connection action) a) p = received a p"
    by (simp_all add: upd_cn_def RemoveEvent_connection_def)
  show "buffer (DisconnectAbility V q action a) p = buffer a p"
    by (simp add: DisconnectAbility_def pending_def Let_def close_frame u split: option.split)
  show "buffer (RemoveConnection V q a) p = buffer a p"
    by (simp add: RemoveConnection_def pending_def close_frame split: option.split)
qed

lemma buffer_run_notify:
  assumes "conn_ok a p"
  shows "fifo_step\<^sup>=\<^sup>= (buffer a p) (buffer (run_notify q a) p)"
proof (cases "q = p \<and> cn_tasks (am_heap a p) \<noteq> []")
  case True
  then obtain e es where t: "cn_tasks (am_heap a p) = e # es" by (cases "cn_tasks (am_heap a p)") auto
  then have "cn_proxy (am_heap a p)" "cn_alive (am_heap a p)" using assms by (auto simp: conn_ok_def)
  then have "buffer (run_notify q a) p = (es @ cn_events (am_heap a p), received a p @ [e])"
    using True t by (simp add: run_notify_def pending_def am_upd_defs DisconnectServiceAbilityDelay_def Let_def)
  moreover have "buffer a p = (e # es @ cn_events (am_heap a p), received a p)" by (simp add: pending_def t)
  ultimately show ?thesis by (simp add: fifo_step.deliver)
next
  case False
  then have "buffer (run_notify q a) p = buffer a p"
    by (auto simp: run_notify_def pending_def am_upd_defs DisconnectServiceAbilityDelay_def Let_def split: list.split)
  then show ?thesis by simp
qed

text \<open>A connection with a proxy caches nothing.\<close>

definition drained :: "ability_state \<Rightarrow> bool" where
  "drained a \<longleftrightarrow> (\<forall>p < am_next a. cn_proxy (am_heap a p) \<longrightarrow> cn_events (am_heap a p) = [])"

lemma drainedI:
  assumes "drained a" and "am_next a' = am_next a"
    and "\<And>p. cn_proxy (am_heap a' p) \<Longrightarrow> cn_proxy (am_heap a p) \<and> cn_events (am_heap a' p) = cn_events (am_heap a p) \<or> cn_events (am_heap a' p) = []"
  shows "drained a'"
  using assms unfolding drained_def by metis

lemma drained_close: "drained a \<Longrightarrow> drained (close_connection V q key a)"
  by (erule drainedI) (auto simp: close_connection_def Clear_connection_def am_upd_defs Let_def split: if_splits)

lemma drained_disconnect: "drained a \<Longrightarrow> drained (DisconnectAbility V q action a)"
proof -
  assume d: "drained a"
  have u: "drained (upd_cn q (RemoveEvent_connection action) a)"
    using d by (rule drainedI) (auto simp: upd_cn_def RemoveEvent_connection_def split: if_splits)
  then show ?thesis using d drained_close [OF u] by (simp add: DisconnectAbility_def Let_def split: option.split)
qed

lemma drained_connect: "drained a \<Longrightarrow> drained (snd (ConnectAbility_helper V want event user a))"
proof (cases rule: connect_cases [of V want event user a])
  case (old p)
  assume "drained a"
  then show ?thesis
    unfolding old by (rule drainedI) (auto simp: NotifyEvent_connection_def am_upd_defs split: if_splits)
qed (auto simp: drained_def StaticSubscriberConnection_new_def less_Suc_eq)

lemma drained_connected:
  assumes d: "drained a" and r: "OnAbilityConnectDone alloc q ro a = Some a'"
  shows "drained a'"
proof -
  let ?a1 = "InitProxy alloc q ro a"
  let ?es = "cn_events (am_heap ?a1 q)"
  have a': "a' = upd_cn q (\<lambda>x. x\<lparr>cn_events := []\<rparr>) (fold (NotifyEvent_connection q) ?es ?a1)"
    using r by (auto simp: OnAbilityConnectDone_def Let_def split: if_splits)
  have n: "am_next ?a1 = am_next a" and h: "p \<noteq> q \<Longrightarrow> am_heap ?a1 p = am_heap a p" for p
    by (auto simp: InitProxy_def am_upd_defs Let_def split: remote_object.split)
  have "cn_events (am_heap a' q) = []" by (simp add: a' upd_cn_def)
  moreover have "am_heap a' p = am_heap a p" if "p \<noteq> q" for p
    using that by (simp add: a' upd_cn_def fold_notify_heap(2) h)
  moreover have "am_next a' = am_next a" by (simp add: a' upd_cn_def n)
  ultimately show ?thesis using d by (metis drainedI)
qed

lemma ability_step_drained: "ability_step a a' \<Longrightarrow> drained a \<Longrightarrow> drained a'"
proof (induction rule: ability_step.induct)
  case (died a V p)
  then show ?case by (simp add: RemoveConnection_def drained_close split: option.split)
next
  case (notify p a)
  show ?case
    by (rule drainedI [OF notify(2)]) (auto simp: run_notify_def am_upd_defs DisconnectServiceAbilityDelay_def Let_def
      split: list.splits if_splits)
next
  case (delay a V)
  have "drained (a\<lparr>am_delays := rest\<rparr>)" for rest using delay by (simp add: drained_def)
  then show ?case using delay by (auto simp: run_delay_def drained_disconnect split: list.split)
next
  case (expire p a)
  show ?case by (rule drainedI [OF expire(2)]) (auto simp: upd_cn_def split: if_splits)
qed (simp_all add: drained_connect drained_connected)

lemma ability_reachable_drained: "ability_reachable a \<Longrightarrow> drained a"
proof (induction rule: ability_reachable.induct)
  case (start h)
  show ?case by (simp add: ability_init_def drained_def)
qed (rule ability_step_drained)

lemma buffer_connect:
  assumes ok: "conn_ok a p" and d: "drained a"
  shows "fifo_step\<^sup>=\<^sup>= (buffer a p) (buffer (snd (ConnectAbility_helper V want event user a)) p)"
proof (cases rule: connect_cases [of V want event user a])
  case (old q)
  show ?thesis
  proof (cases "q = p")
    case True
    have "cn_proxy (am_heap a p) \<Longrightarrow> cn_events (am_heap a p) = []" using ok d by (simp add: conn_ok_def drained_def)
    then have "buffer (NotifyEvent_connection q event a) p = (pending a p @ [event], received a p)"
      using True by (auto simp: pending_def NotifyEvent_connection_def am_upd_defs)
    then show ?thesis unfolding old using fifo_step.hand [of "pending a p" "received a p" event] by simp
  next
    case False
    then show ?thesis unfolding old by (simp add: pending_def NotifyEvent_connection_def am_upd_defs)
  qed
next
  case new
  show ?thesis unfolding new using ok by (simp add: pending_def conn_ok_def)
next
  case opened
  show ?thesis unfolding opened using ok by (simp add: pending_def conn_ok_def)
qed simp


definition demo_ability :: ability_env where
  "demo_ability = \<lparr>ab_samgr = True, ab_remote = True, ab_cast = True, ab_alloc = True, ab_connect = (\<lambda>_ _. 0)\<rparr>"

definition demo_want :: Want where
  "demo_want = \<lparr>w_action = [], w_entities = [], w_scheme = [], w_bundle = ''b'', w_ability = ''a'', w_params = [], w_uri = [], w_flags = 0, w_type = []\<rparr>"

definition demo_ability_event :: "string \<Rightarrow> CommonEventData" where
  "demo_ability_event x = \<lparr>cd_want = demo_want\<lparr>w_action := x\<rparr>, cd_code = 0, cd_data = []\<rparr>"

definition demo_open :: ability_state where
  "demo_open = snd (ConnectAbility_helper demo_ability demo_want (demo_ability_event ''e'') 100
     (ability_init (\<lambda>_. StaticSubscriberConnection_new (demo_ability_event []) [])))"

lemma demo_open_reachable: "ability_reachable demo_open"
  unfolding demo_open_def by (rule ability_reachable.step [OF ability_reachable.start ability_step.connect])

lemma demo_open_parts:
  "snd ` set (am_table demo_open) = {0}" "pending demo_open 0 = [demo_ability_event ''e'']" "am_delays demo_open = [(0, [])]"
  "am_next demo_open = 1" "am_log demo_open = [Connected 0 demo_want 100]" "cn_tasks (am_heap demo_open 0) = []"
  by (simp_all add: demo_open_def ConnectAbility_helper_def GetAbilityMgrProxy_def demo_ability_def ability_init_def Let_def
    DisconnectServiceAbilityDelay_def am_upd_defs StaticSubscriberConnection_new_def pending_def)


section \<open>Closing\<close>

text \<open>The tasks that are there, without new events.\<close>

inductive own_task :: "ability_state \<Rightarrow> ability_state \<Rightarrow> bool" where
  notify: "p < am_next a \<Longrightarrow> cn_tasks (am_heap a p) \<noteq> [] \<Longrightarrow> own_task a (run_notify p a)"
| delay: "am_delays a \<noteq> [] \<Longrightarrow> own_task a (run_delay V a)"

definition work :: "ability_state \<Rightarrow> nat" where
  "work a = length (am_delays a) + (\<Sum>p < am_next a. 2 * length (cn_tasks (am_heap a p)))"

lemma own_task_step: "own_task a a' \<Longrightarrow> ability_step a a'"
  by (auto elim!: own_task.cases intro: ability_step.intros)

lemma own_task_work: "own_task a a' \<Longrightarrow> work a' < work a"
proof (induction rule: own_task.induct)
  case (notify p a)
  let ?a = "run_notify p a"
  let ?f = "\<lambda>a q. 2 * length (cn_tasks (am_heap a q))"
  obtain e es where t: "cn_tasks (am_heap a p) = e # es" using notify(2) by (cases "cn_tasks (am_heap a p)") auto
  have h: "cn_tasks (am_heap ?a p) = es" "\<And>q. q \<noteq> p \<Longrightarrow> cn_tasks (am_heap ?a q) = cn_tasks (am_heap a q)"
    "am_next ?a = am_next a" "length (am_delays ?a) \<le> Suc (length (am_delays a))"
    by (auto simp: run_notify_def t am_upd_defs DisconnectServiceAbilityDelay_def Let_def)
  have "(\<Sum>q < am_next a. ?f a q) = ?f a p + (\<Sum>q \<in> {..< am_next a} - {p}. ?f a q)"
    using notify(1) by (intro sum.remove) simp_all
  moreover have "(\<Sum>q < am_next a. ?f ?a q) = ?f ?a p + (\<Sum>q \<in> {..< am_next a} - {p}. ?f ?a q)"
    using notify(1) by (intro sum.remove) simp_all
  moreover have "(\<Sum>q \<in> {..< am_next a} - {p}. ?f ?a q) = (\<Sum>q \<in> {..< am_next a} - {p}. ?f a q)"
    by (rule sum.cong) (simp_all add: h)
  ultimately show ?case using h t by (simp add: work_def)
next
  case (delay a V)
  obtain p x ds where d: "am_delays a = (p, x) # ds" using delay by (cases "am_delays a") auto
  have u: "cn_tasks (am_heap (upd_cn q (RemoveEvent_connection action) b) r) = cn_tasks (am_heap b r)"
    "am_delays (upd_cn q (RemoveEvent_connection action) b) = am_delays b"
    "am_next (upd_cn q (RemoveEvent_connection action) b) = am_next b" for q action b r
    by (simp_all add: upd_cn_def RemoveEvent_connection_def)
  have c: "am_delays (close_connection V q key b) = am_delays b" "am_next (close_connection V q key b) = am_next b" for q key b
    by (simp_all add: close_connection_def Clear_connection_def am_upd_defs Let_def)
  have "cn_tasks (am_heap (run_delay V a) r) = cn_tasks (am_heap a r)" "am_next (run_delay V a) = am_next a"
    "am_delays (run_delay V a) = ds" for r
    by (simp_all add: run_delay_def d DisconnectAbility_def Let_def close_frame u c split: option.split)
  then show ?case by (simp add: work_def d)
qed

lemma no_own_task:
  assumes inv: "am_inv a" and none: "\<And>a'. \<not> own_task a a'"
  shows "am_table a = []"
proof (rule ccontr)
  assume "am_table a \<noteq> []"
  then obtain k p where "(k, p) \<in> set (am_table a)" by (cases "am_table a") auto
  then have "conn_ok a p" using am_invD [OF inv] by force
  then have "cn_tasks (am_heap a p) \<noteq> [] \<and> p < am_next a \<or> am_delays a \<noteq> []" by (auto simp: conn_ok_def)
  then show False using none own_task.notify own_task.delay by blast
qed


lemma demo_open_work: "work demo_open = 1"
  by (simp add: work_def demo_open_parts)


section \<open>What goes wrong\<close>

text \<open>An extension that needs more than fifteen seconds to connect loses the events: the delayed
  disconnection finds no action, because cached events have none, and closes the connection.\<close>

lemma slow_extension_loses_events:
  assumes "(key, p) \<in> set (am_table a)" and "distinct (map snd (am_table a))" and "omap_ok (am_table a)"
    and "cn_action (am_heap a p) = []"
  shows "p \<notin> snd ` set (am_table (DisconnectAbility V p [] a)) \<and> pending (DisconnectAbility V p [] a) p = pending a p"
proof -
  obtain k where k: "key_of p a = Some k" "(k, p) \<in> set (am_table a)"
    using key_of_None [of p a] key_of_Some assms(1) by (cases "key_of p a") force+
  let ?b = "upd_cn p (RemoveEvent_connection []) a"
  have t: "am_table (close_connection V p k ?b) = AList.delete k (am_table a)"
    by (simp add: close_connection_def Clear_connection_def am_upd_defs Let_def)
  have "DisconnectAbility V p [] a = close_connection V p k ?b"
    using assms(4) by (simp add: DisconnectAbility_def k Let_def upd_cn_def RemoveEvent_connection_def)
  then show ?thesis
    using delete_values(1) [OF assms(2) k(2)] buffer_disconnect(1) [of V p "[]" a p] by (auto simp: t)
qed

text \<open>The key joins bundle, ability and user with underscores, which names may contain: two extensions
  can share a connection.\<close>

lemma keys_collide:
  "connection_key (demo_want\<lparr>w_bundle := ''a_b'', w_ability := ''c''\<rparr>) u =
   connection_key (demo_want\<lparr>w_bundle := ''a'', w_ability := ''b_c''\<rparr>) u"
  by (simp add: connection_key_def demo_want_def)

end
