(* ===== verification/Inner_Config.thy ===== *)
theory Inner_Config
  imports Inner_Manager
begin

text \<open>
  The configuration of the inner manager (\<open>inner_common_event_manager.cpp\<close>): its constructor reads
  the files with the list of processes that may publish an event (\<open>GetJsonByFilePath\<close>,
  \<open>GetConfigJson\<close>, \<open>getCcmPublishControl\<close>), which \<open>IsPublishAllowed\<close> asks later.

  The file system and the search for configuration files are the parameter \<open>config_env\<close>.  An access
  of \<open>nlohmann::json\<close> that throws, which ends the process, or that is undefined is \<open>None\<close>.
\<close>

section \<open>Files\<close>

record config_env =
  cf_realpath :: "string \<Rightarrow> string option"
  cf_good :: "string \<Rightarrow> bool" \<comment> \<open>the file can be opened\<close>
  cf_parse :: "string \<Rightarrow> json" \<comment> \<open>\<open>json::parse\<close> of the file, without exceptions\<close>
  cf_files :: "string \<Rightarrow> string option list option" \<comment> \<open>\<open>GetCfgFiles\<close>\<close>
  cf_policy :: bool \<comment> \<open>\<open>CONFIG_POLICY_ENABLE\<close>\<close>
  cf_float :: "int \<Rightarrow> int32"

definition CONFIG_ALLOWED_PATH_PREFIXES :: "string list" where
  "CONFIG_ALLOWED_PATH_PREFIXES = [''/system/etc/'', ''/vendor/etc/'', ''/chipset/etc/'']"

definition CONFIG_FILE :: "config_env \<Rightarrow> string" where
  "CONFIG_FILE F = (if cf_policy F then ''etc/notification/common_event_config.json''
     else ''system/etc/notification/common_event_config.json'')"

definition IsValidConfigPath :: "string \<Rightarrow> bool" where
  "IsValidConfigPath canonicalPath =
     list_ex (\<lambda>prefix. take (length prefix) canonicalPath = prefix) CONFIG_ALLOWED_PATH_PREFIXES"

definition GetJsonFromFile :: "config_env \<Rightarrow> string option \<Rightarrow> json option" where
  "GetJsonFromFile F path =
     (case path of
        None \<Rightarrow> None
      | Some p \<Rightarrow>
          (case cf_realpath F p of
             None \<Rightarrow> None
           | Some canonicalPath \<Rightarrow>
               if \<not> IsValidConfigPath canonicalPath then None
               else if \<not> cf_good F canonicalPath then None
               else
                 (let root = cf_parse F canonicalPath
                  in if root = JDiscarded \<or> \<not> (is_object root \<or> is_array root) then None
                     else if root = JNull \<or> json_empty root \<or> \<not> is_object root then None
                     else Some root)))"

definition GetJsonByFilePath :: "config_env \<Rightarrow> string \<Rightarrow> bool \<times> json list" where
  "GetJsonByFilePath F filePath =
     (if cf_policy F
      then (case cf_files F filePath of
              None \<Rightarrow> (False, [])
            | Some paths \<Rightarrow>
                (let roots = List.map_filter (\<lambda>p. if p = None \<or> p = Some [] then None else GetJsonFromFile F p) paths
                 in (roots \<noteq> [], roots)))
      else (case GetJsonFromFile F (Some filePath) of
              None \<Rightarrow> (False, [])
            | Some root \<Rightarrow> (True, [root])))"

section \<open>Looking up a key\<close>

definition json_contains :: "json \<Rightarrow> string \<Rightarrow> bool" where
  "json_contains j k \<longleftrightarrow> json_find j k \<noteq> None"

text \<open>\<open>contains\<close> with a JSON pointer: the reference tokens lead through objects and arrays.\<close>

fun split_slash :: "string \<Rightarrow> string list" where
  "split_slash [] = [[]]"
| "split_slash (ch # s) =
     (if ch = CHR ''/'' then [] # split_slash s
      else (case split_slash s of [] \<Rightarrow> [[ch]] | t # ts \<Rightarrow> (ch # t) # ts))"

fun unescape :: "string \<Rightarrow> string" where
  "unescape (a # b # s) =
     (if a = CHR ''~'' \<and> b = CHR ''1'' then CHR ''/'' # unescape s
      else if a = CHR ''~'' \<and> b = CHR ''0'' then CHR ''~'' # unescape s
      else a # unescape (b # s))"
| "unescape s = s"

definition array_index :: "string \<Rightarrow> nat option" where
  "array_index t = (if t \<noteq> [] \<and> list_all is_digit t \<and> (length t = 1 \<or> hd t \<noteq> CHR ''0'') then Some (digits_val t) else None)"

fun pointer_leads :: "string list \<Rightarrow> json \<Rightarrow> bool" where
  "pointer_leads [] j = True"
| "pointer_leads (t # ts) j =
     (case j of
        JObject kvs \<Rightarrow> (case map_of kvs (unescape t) of None \<Rightarrow> False | Some v \<Rightarrow> pointer_leads ts v)
      | JArray xs \<Rightarrow>
          (case array_index t of
             None \<Rightarrow> False
           | Some n \<Rightarrow> if n < length xs then pointer_leads ts (xs ! n) else False)
      | _ \<Rightarrow> False)"

definition pointer_contains :: "json \<Rightarrow> string \<Rightarrow> bool" where
  "pointer_contains j p = pointer_leads (tl (split_slash p)) j"

text \<open>The loop runs from the last file to the first and does not stop at a hit.\<close>

definition GetConfigJson :: "json list \<Rightarrow> string \<Rightarrow> json option" where
  "GetConfigJson eventConfigJson keyCheck =
     (if eventConfigJson = [] then None
      else foldl (\<lambda>configJson j.
             (let c1 = (if CHR ''/'' \<notin> set keyCheck \<and> json_contains j keyCheck then Some j else configJson)
              in if CHR ''/'' \<in> set keyCheck \<and> pointer_contains j keyCheck then Some j else c1))
             None (rev eventConfigJson))"

section \<open>Publish control\<close>

text \<open>The elements a range-based loop over a JSON value visits.\<close>

fun json_iter :: "json \<Rightarrow> json list" where
  "json_iter JNull = []"
| "json_iter (JArray xs) = xs"
| "json_iter (JObject kvs) = map snd kvs"
| "json_iter j = [j]"

fun json_to_int :: "config_env \<Rightarrow> json \<Rightarrow> int32 option" where
  "json_to_int F (JInt i) = Some (get_int32 (JInt i))"
| "json_to_int F (JBool b) = Some (if b then 1 else 0)"
| "json_to_int F (JFloat x) = Some (cf_float F x)"
| "json_to_int F _ = None"

fun all_some :: "'a option list \<Rightarrow> 'a list option" where
  "all_some [] = Some []"
| "all_some (None # xs) = None"
| "all_some (Some x # xs) = map_option ((#) x) (all_some xs)"

definition config_item :: "config_env \<Rightarrow> json \<Rightarrow> (string \<times> int32 list) option" where
  "config_item F item =
     (case json_find item ''eventName'' of
        Some (JString event_name) \<Rightarrow>
          (case json_find item ''uidList'' of
             None \<Rightarrow> None
           | Some uid_list \<Rightarrow> map_option (Pair event_name) (all_some (map (json_to_int F) (json_iter uid_list))))
      | _ \<Rightarrow> None)"

fun control_loop :: "config_env \<Rightarrow> json list \<Rightarrow> (string, int32 list) umap \<Rightarrow> (string, int32 list) umap option" where
  "control_loop F [] m = Some m"
| "control_loop F (item # items) m =
     (case config_item F item of
        None \<Rightarrow> None
      | Some (event_name, uids) \<Rightarrow> control_loop F items (AList.update event_name uids m))"

definition getCcmPublishControl ::
  "config_env \<Rightarrow> json list \<Rightarrow> (string, int32 list) umap \<Rightarrow> (string, int32 list) umap option" where
  "getCcmPublishControl F eventConfigJson m =
     (case GetConfigJson eventConfigJson ''/publishControl'' of
        None \<Rightarrow> Some m
      | Some root \<Rightarrow>
          if \<not> json_contains root ''publishControl'' then Some m
          else
            (let publish_control = json_at root ''publishControl''
             in if publish_control = JNull \<or> json_empty publish_control then Some m
                else control_loop F (json_iter publish_control) m))"

text \<open>The constructor, with the managers it creates.\<close>

definition InnerCommonEventManager_new ::
  "config_env \<Rightarrow> ctl_state \<Rightarrow> 'kv static_state \<Rightarrow> 'kv inner_state option" where
  "InnerCommonEventManager_new F c t =
     map_option (\<lambda>m. inner_init m c t)
       (getCcmPublishControl F (snd (GetJsonByFilePath F (CONFIG_FILE F))) [])"

section \<open>What the configuration means\<close>

lemma pointer_of_key: "pointer_contains (JObject kvs) ''/publishControl'' = json_contains (JObject kvs) ''publishControl''"
  by (simp add: pointer_contains_def json_contains_def split: option.split)

lemma foldl_last_hit:
  "foldl (\<lambda>r j. if P j then Some j else r) r0 (rev xs) = (case find P xs of None \<Rightarrow> r0 | Some j \<Rightarrow> Some j)"
  by (induction xs) auto

lemma GetConfigJson_first:
  "GetConfigJson roots ''/publishControl'' = find (\<lambda>j. pointer_contains j ''/publishControl'') roots"
  using foldl_last_hit [of "\<lambda>j. pointer_contains j ''/publishControl''" None roots]
  by (simp add: GetConfigJson_def Let_def split: option.split)

lemma file_root_object: "GetJsonFromFile F p = Some j \<Longrightarrow> \<exists>kvs. j = JObject kvs"
  by (cases j) (auto simp: GetJsonFromFile_def Let_def split: option.splits if_splits)

lemma control_loop_spec:
  assumes "map (config_item F) items = map Some kvs"
  shows "\<exists>m'. control_loop F items m = Some m' \<and> map_of m' = map_of m ++ map_of (rev kvs)"
  using assms
proof (induction items arbitrary: m kvs)
  case (Cons item items)
  then obtain k v kvs' where kvs: "kvs = (k, v) # kvs'" by (cases kvs) auto
  have "map (config_item F) items = map Some kvs'" using Cons.prems kvs by simp
  from Cons.IH [OF this, of "AList.update k v m"] obtain m' where
    "control_loop F items (AList.update k v m) = Some m'"
    "map_of m' = map_of (AList.update k v m) ++ map_of (rev kvs')" by blast
  moreover have "map_of (AList.update k v m) ++ map_of (rev kvs') = map_of m ++ map_of (rev kvs)"
    by (rule ext) (simp add: kvs map_add_def update_conv' split: option.split)
  ultimately show ?case using Cons.prems kvs by simp
qed simp

lemma GetJsonByFilePath_objects: "j \<in> set (snd (GetJsonByFilePath F p)) \<Longrightarrow> \<exists>kvs. j = JObject kvs"
  by (auto simp: GetJsonByFilePath_def List.map_filter_def Let_def split: option.splits if_splits)
    (blast dest: file_root_object)+

lemma allowed_of_map: "IsPublishAllowed e u (inner_init m c t) = (case map_of m e of None \<Rightarrow> True | Some uids \<Rightarrow> u \<in> set uids)"
  by (simp add: IsPublishAllowed_def inner_init_def split: option.split)


definition demo_config :: config_env where
  "demo_config = \<lparr>cf_realpath = (\<lambda>p. Some (''/system/'' @ p)), cf_good = (\<lambda>_. True),
     cf_parse = (\<lambda>_. JObject [(''publishControl'', JArray [JObject [(''eventName'', JString ''e''), (''uidList'', JArray [JInt 5])]])]),
     cf_files = (\<lambda>p. Some [Some p, None]), cf_policy = True, cf_float = (\<lambda>_. 0)\<rparr>"

lemma demo_config_root:
  "snd (GetJsonByFilePath demo_config (CONFIG_FILE demo_config)) =
     [JObject [(''publishControl'', JArray [JObject [(''eventName'', JString ''e''), (''uidList'', JArray [JInt 5])]])]]"
  by code_simp

lemma demo_config_items:
  "map (config_item demo_config) (json_iter (JArray [JObject [(''eventName'', JString ''e''), (''uidList'', JArray [JInt 5])]])) =
     map Some [(''e'', [5])]"
  by code_simp


text \<open>An item without a list of uids ends the process.\<close>

lemma item_without_list: "config_item F (JObject [(''eventName'', JString e)]) = None"
  by (simp add: config_item_def)

end
