(* ===== verification/Dump_Props.thy ===== *)
theory Dump_Props
  imports Dump_State Service_Props
begin

text \<open>
  The dump of the service: it never reads out of range, and what it says about the subscribers is
  the registry.
\<close>

section \<open>No access out of range\<close>

lemma receivers_dumped:
  "num + length ps \<le> length ds \<Longrightarrow> \<exists>x. dump_receivers_loop T h ds n num str ps = Some x"
  by (induction T h ds n num str ps rule: dump_receivers_loop.induct) auto

lemma record_dumped: "rec_ok s r \<Longrightarrow> \<exists>x. DumpStateBySubscriberRecord T h r = Some x"
  using receivers_dumped [of 0 "receivers r" "deliveryState r"] by (auto simp: DumpStateBySubscriberRecord_def rec_ok_def)

lemma pending_dumped:
  "(\<And>o'. o' \<in> set os \<Longrightarrow> rec_ok (cs_subs c) (ordHeap c o')) \<Longrightarrow> \<exists>xs. dump_pending_loop T c n num os = Some xs \<and> length xs = length os"
proof (induction os arbitrary: num)
  case (Cons o' os)
  obtain x where x: "DumpStateBySubscriberRecord T (subHeap (cs_subs c)) (ordHeap c o') = Some x"
    using record_dumped Cons.prems by (metis list.set_intros(1))
  obtain xs where "dump_pending_loop T c n (num + 1) os = Some xs" "length xs = length os"
    using Cons by (metis list.set_intros(2))
  then show ?case by (simp add: x Let_def)
qed simp

definition pending_records :: "string \<Rightarrow> int32 \<Rightarrow> ctl_state \<Rightarrow> ord_ptr list" where
  "pending_records event user c =
     filter (record_matches c event user) (unorderedEventQueue c @ orderedEventQueue c)"

lemma ctl_dumped:
  assumes "core_inv c"
  shows "\<exists>xs. DumpState_ctl T event user c = Some xs \<and> length xs = max 1 (length (pending_records event user c))"
proof -
  have ok: "rec_ok (cs_subs c) (ordHeap c o')" if "o' \<in> set (pending_records event user c)" for o'
    using assms that by (auto simp: core_inv_def pending_records_def)
  have e: "GetUnorderedEventRecords event user c @ GetOrderedEventRecords event user c = pending_records event user c"
    by (simp add: pending_records_def GetEventRecords_filter)
  show ?thesis
    using pending_dumped [of "pending_records event user c" c T "length (pending_records event user c)" 0] ok
    by (cases "pending_records event user c") (auto simp: DumpState_ctl_def e)
qed

lemma inner_dumped: "core_inv (in_ctl i) \<Longrightarrow> \<exists>xs. DumpState_inner T ty event user i = Some xs"
  using ctl_dumped [of "in_ctl i" T event user] by (auto simp: DumpState_inner_def Let_def)

lemma hi_dumped: "core_inv (in_ctl i) \<Longrightarrow> \<exists>x. HiDump T U args i = Some x"
  using inner_dumped [of i T] by (fastforce simp: HiDump_def Let_def split: option.split)

lemma service_core: "service_reachable s \<Longrightarrow> core_inv (ctl_of s)"
  using reachable_inv [OF service_reachable_ctl, of s] by (simp add: ctl_inv_def)

text \<open>C37: Dumping is safe at any moment.  In every reachable state of the service, whoever asks and
  whatever is asked, both ways to dump the state return, without reading a list of delivery states
  out of range; the IPC call hands over at most a hundred entries, and it hands over any only to the
  shell or a native process and when the service is ready.\<close>

theorem dump_in_bounds:
  assumes "service_reachable s"
  shows "(\<exists>code ok xs. DumpState_srv E T cl ty event user s = Some (code, ok, xs) \<and> length xs \<le> 100 \<and>
      (ok \<longleftrightarrow> code = ERR_OK) \<and> (ok \<longleftrightarrow> IsReady s \<and> (VerifyShellToken E (cl_token cl) \<or> VerifyNativeToken E (cl_token cl))) \<and>
      (\<not> ok \<longrightarrow> xs = [])) \<and>
    (\<exists>code str. Dump_srv E T U dprintf cl args s = Some (code, str))"
proof -
  obtain xs where "DumpState_inner T ty event user (sv_inner s) = Some xs"
    using inner_dumped service_core [OF assms] by blast
  moreover obtain x where "HiDump T U args (sv_inner s) = Some x" using hi_dumped service_core [OF assms] by blast
  ultimately show ?thesis by (auto simp: DumpState_srv_def Dump_srv_def MAX_HISTORY_SIZE_def)
qed

theorem dump_in_bounds_instance: "\<exists>x. DumpState_srv ex_env (\<lambda>_. []) ex_caller 3 [] (-1) ex_start = Some x"
  using dump_in_bounds [OF ex_start_reachable, of ex_env "\<lambda>_. []" ex_caller 3 "[]" "-1"] by blast

section \<open>The dump of the subscribers\<close>

text \<open>Which records a dump is asked for, and how the entry of one reads.\<close>

definition asked_for :: "string \<Rightarrow> int32 \<Rightarrow> EventSubscriberRecord \<Rightarrow> bool" where
  "asked_for event user r \<longleftrightarrow>
     (event = [] \<or> event \<in> set (ms_events (si_matchingSkills (eventSubscribeInfo r)))) \<and>
     (user = ALL_USER \<or>
      (if event = [] then si_userId (eventSubscribeInfo r) = user
       else CheckSubscriberByUserId (si_userId (eventSubscribeInfo r)) True user))"

definition subscriber_entry :: "(int64 \<Rightarrow> string) \<Rightarrow> nat \<Rightarrow> nat \<Rightarrow> EventSubscriberRecord \<Rightarrow> string" where
  "subscriber_entry T n k r = DumpDetailed T
     ((if k = 0 then ''Subscribers:'' @ tab @ ''Total '' @ to_string (int n) @ '' subscribers'' @ nl else []) @
      ''NO '' @ to_string (int k + 1) @ nl) r tab"

lemma subscriber_entries:
  "dump_subscribers_loop T n num rs = map (\<lambda>k. subscriber_entry T n (num + k) (rs ! k)) [0..<length rs]"
proof (induction T n num rs rule: dump_subscribers_loop.induct)
  case (2 T n num r rs)
  have e: "[0..<length (r # rs)] = 0 # map Suc [0..<length rs]" by (simp add: map_Suc_upt upt_conv_Cons del: upt_Suc)
  show ?case unfolding e using 2
    by (auto simp: Let_def subscriber_entry_def numbered_def algebra_simps)
qed simp

lemma by_event_records:
  assumes inv: "sub_inv s"
  shows "set (GetSubscriberRecordsByEvent event user s) = {p \<in> set (subscribers s). asked_for event user (subHeap s p)} \<and>
    distinct (GetSubscriberRecordsByEvent event user s)"
proof (cases "event = []")
  case True
  then show ?thesis using sub_invD(2) [OF inv] by (auto simp: GetSubscriberRecordsByEvent_def asked_for_def)
next
  case False
  have v: "(case map_of (eventSubscribers s) event of None \<Rightarrow> [] | Some vec \<Rightarrow> vec) = at_vec (eventSubscribers s) event"
    by (simp add: at_vec_def)
  have f: "(case map_of (eventSubscribers s) event of None \<Rightarrow> [] | Some vec \<Rightarrow> filter P vec) =
      filter P (at_vec (eventSubscribers s) event)" for P
    by (simp add: at_vec_def split: option.split)
  have "distinct (at_vec (eventSubscribers s) event)" using index_ok_distinct sub_invD(5) [OF inv] by blast
  then show ?thesis
    using False sub_invD(6) [OF inv, of _ event]
    by (auto simp: GetSubscriberRecordsByEvent_def asked_for_def v f)
qed

text \<open>The dump of the subscribers shows the registry.  For every event name and user, in every
  reachable state of a service that is ready, the shell or a native process that asks for the
  subscribers gets exactly the registered records that subscribe to the event (all, if the name is
  empty) and match the user, each once, numbered, under a headline with their number, as far as they
  are among the first hundred; if there is none it is told so.\<close>

theorem subscriber_dump_exact:
  assumes "service_reachable s" and "IsReady s" and "VerifyShellToken E (cl_token cl) \<or> VerifyNativeToken E (cl_token cl)"
  shows "\<exists>rs. distinct (map commonEventListener rs) \<and>
    set rs = {r. \<exists>l. registered (ctl_of s) l = Some r \<and> asked_for event user r} \<and>
    DumpState_srv E T cl 1 event user s = Some (ERR_OK, True,
      if rs = [] then [''Subscribers:'' @ tab @ ''No information'']
      else take 100 (map (\<lambda>k. subscriber_entry T (length rs) k (rs ! k)) [0..<length rs]))"
proof -
  let ?s = "cs_subs (ctl_of s)"
  let ?ps = "GetSubscriberRecordsByEvent event user ?s"
  let ?rs = "map (subHeap ?s) ?ps"
  have inv: "sub_inv ?s" using service_core [OF assms(1)] by (simp add: core_inv_def)
  note ps = by_event_records [OF inv, of event user]
  have "inj_on (listener_at ?s) (set (subscribers ?s))" using sub_invD(3) [OF inv] by (simp add: distinct_map)
  then have "inj_on (listener_at ?s) (set ?ps)" using ps by (auto intro: inj_on_subset)
  then have d: "distinct (map commonEventListener ?rs)" using ps by (simp add: distinct_map comp_def)
  have st: "set ?rs = {r. \<exists>l. registered (ctl_of s) l = Some r \<and> asked_for event user r}"
    using ps registry_iff [OF inv] by (auto simp: image_iff)
  have "DumpState_srv E T cl 1 event user s = Some (ERR_OK, True, let xs = DumpState_sub T event user ?s
      in if length xs > 100 then take 100 xs else xs)"
    using assms(2,3) by (auto simp: DumpState_srv_def DumpState_inner_def MAX_HISTORY_SIZE_def Let_def)
  also have "\<dots> = Some (ERR_OK, True, take 100 (DumpState_sub T event user ?s))" by (simp add: Let_def)
  also have "DumpState_sub T event user ?s = (if ?rs = [] then [''Subscribers:'' @ tab @ ''No information'']
      else map (\<lambda>k. subscriber_entry T (length ?rs) k (?rs ! k)) [0..<length ?rs])"
    by (simp add: DumpState_sub_def subscriber_entries Let_def)
  finally have "DumpState_srv E T cl 1 event user s = Some (ERR_OK, True,
      if ?rs = [] then [''Subscribers:'' @ tab @ ''No information'']
      else take 100 (map (\<lambda>k. subscriber_entry T (length ?rs) k (?rs ! k)) [0..<length ?rs]))" by simp
  with d st show ?thesis by blast
qed

theorem subscriber_dump_exact_instance:
  "DumpState_srv (ex_env\<lparr>kit_token_type := \<lambda>_. TOKEN_SHELL\<rparr>) (\<lambda>_. []) ex_caller 1 [] (-1) (snd (Init_srv ex_start)) =
     Some (ERR_OK, True, [''Subscribers:'' @ tab @ ''No information''])"
proof -
  have r: "service_reachable (snd (Init_srv ex_start))"
    by (rule service_reachable.step [OF ex_start_reachable service_step.init])
  have "registered (ctl_of (snd (Init_srv ex_start))) l = None" for l
    by (simp add: Init_srv_def ex_start_def service_init_def ex_inner_def inner_init_def ctl_init_def sub_init_def registry_def)
  then show ?thesis
    using subscriber_dump_exact [OF r, of "ex_env\<lparr>kit_token_type := \<lambda>_. TOKEN_SHELL\<rparr>" ex_caller "[]" "-1" "\<lambda>_. []"]
    by (auto simp: Init_srv_def IsReady_def VerifyShellToken_def)
qed

text \<open>With an event name the user is matched as for a delivery, so subscriptions of all users show;
  without one it is compared, so they do not.\<close>

lemma user_filter_differs:
  assumes "si_userId (eventSubscribeInfo r) = ALL_USER" and "user \<noteq> ALL_USER"
    and "event \<in> set (ms_events (si_matchingSkills (eventSubscribeInfo r)))" and "event \<noteq> []"
  shows "asked_for event user r \<and> \<not> asked_for [] user r"
  using assms by (simp add: asked_for_def CheckSubscriberByUserId_def)

text \<open>The history a caller can ask for is always empty.\<close>

lemma no_history: "DumpState_inner T 4 event user i = Some []"
  by (simp add: DumpState_inner_def Let_def)

end
