(* ===== verification/Command_Tool.thy ===== *)
theory Command_Tool
  imports Client_Service Dump_Props
begin

text \<open>
  The command line tool \<open>cem\<close>: \<open>ShellCommand\<close> (\<open>shell_command.cpp\<close>) chooses a command by the
  first argument, \<open>CommonEventCommand\<close> (\<open>common_event_command.cpp\<close>) publishes an event described
  by options or dumps the state of the service, through the client library.

  What \<open>getopt_long\<close> returns for the arguments, call after call until it returns \<open>-1\<close>, is the
  argument \<open>opts\<close>: an option with \<open>optarg\<close>, or \<open>?\<close> with \<open>optopt\<close>.  \<open>atoi\<close> of a number
  that is no \<open>int\<close> is undefined: \<open>None\<close>.  The tool runs in a process of its own, whose client
  library has no subscribers.  Logging is left out, and so is \<open>main\<close>, which prints the result.
\<close>

section \<open>Messages\<close>

definition TOOL_NAME :: string where "TOOL_NAME = ''cem''"

definition HELP_MSG :: string where
  "HELP_MSG = ''usage: cem <command> [<options>]'' @ nl @
     ''These are common cem commands list:'' @ nl @
     ''  help                         list available commands'' @ nl @
     ''  publish                      publish a common event with options'' @ nl @
     ''  dump                         dump the info of events'' @ nl"

definition HELP_MSG_PUBLISH :: string where
  "HELP_MSG_PUBLISH = ''usage: cem publish [<options>]'' @ nl @ ''options list:'' @ nl @
     ''  -h, --help                                       list available commands'' @ nl @
     ''  -e, --event <name> [-s, --sticky] [-o, --ordered] [-c, --code <code>] [-d, --data <data>]'' @ nl @
     ''                                                   publish a common event'' @ nl"

definition HELP_MSG_DUMP :: string where
  "HELP_MSG_DUMP = ''usage: cem dump [<options>]'' @ nl @ ''options list:'' @ nl @
     ''  -h, --help                   list available commands'' @ nl @
     ''  -a, --all                    dump the info of all events'' @ nl @
     ''  -e, --event <name>           dump the info filter by the specified event'' @ nl @
     ''  -u, --user-id <userId>       dump the info filter by the specified userId'' @ nl @
     ''  -p, --part <name>            dump the info of part events'' @ nl @
     ''       subscriber              all subscribers'' @ nl @
     ''       sticky                  sticky events'' @ nl @
     ''       pending                 pending events'' @ nl @
     ''       history                 history events'' @ nl"

definition HELP_MSG_NO_OPTION :: string where
  "HELP_MSG_NO_OPTION = ''error: you must specify an option at least.'' @ nl"

text \<open>A text between apostrophes.\<close>

definition quoted :: "string \<Rightarrow> string" where
  "quoted s = [CHR 0x27] @ s @ [CHR 0x27]"

definition HELP_MSG_NO_EVENT_OPTION :: string where
  "HELP_MSG_NO_EVENT_OPTION = ''error: you must specify an event name with '' @ quoted ''-e'' @ '' or '' @
     quoted ''--event'' @ ''.'' @ nl"

definition STRING_PUBLISH_COMMON_EVENT_OK :: string where
  "STRING_PUBLISH_COMMON_EVENT_OK = ''publish the common event successfully.'' @ nl"

definition STRING_PUBLISH_COMMON_EVENT_NG :: string where
  "STRING_PUBLISH_COMMON_EVENT_NG = ''error: failed to publish the common event.'' @ nl"

definition STRING_DUMP_COMMON_EVENT_NG :: string where
  "STRING_DUMP_COMMON_EVENT_NG = ''error: failed to dump the common event(s).'' @ nl"

definition USER_DUMP_COMMON_EVENT_NG :: string where
  "USER_DUMP_COMMON_EVENT_NG = ''error: user version cannot use dump.'' @ nl"

definition requires_value :: "char \<Rightarrow> string" where
  "requires_value c = ''error: option '' @ quoted [c] @ '' requires a value.'' @ nl"

definition unknown_option :: string where
  "unknown_option = ''error: unknown option.'' @ nl"

section \<open>Options\<close>

datatype getopt_result = Opt char string | Bad char

text \<open>White space, an optional sign, digits; what follows is ignored.\<close>

definition is_space :: "char \<Rightarrow> bool" where
  "is_space c \<longleftrightarrow> c = CHR '' '' \<or> (9 \<le> (of_char c :: nat) \<and> (of_char c :: nat) \<le> 13)"

definition decimal :: "char \<Rightarrow> bool" where
  "decimal c \<longleftrightarrow> 48 \<le> (of_char c :: nat) \<and> (of_char c :: nat) \<le> 57"

definition decimal_val :: "string \<Rightarrow> int" where
  "decimal_val s = foldl (\<lambda>n c. 10 * n + (int (of_char c) - 48)) 0 s"

definition atoi :: "string \<Rightarrow> int32 option" where
  "atoi s =
     (let s1 = dropWhile is_space s;
          neg = (s1 \<noteq> [] \<and> hd s1 = CHR ''-'');
          s2 = (if s1 \<noteq> [] \<and> (hd s1 = CHR ''-'' \<or> hd s1 = CHR ''+'') then tl s1 else s1);
          n = decimal_val (takeWhile decimal s2);
          v = (if neg then - n else n)
      in if - (2 ^ 31) \<le> v \<and> v < 2 ^ 31 then Some v else None)"

record PublishCmdInfo =
  pc_isSticky :: bool
  pc_isOrdered :: bool
  pc_code :: int32
  pc_userId :: int32
  pc_action :: string
  pc_data :: string

record DumpCmdInfo =
  dc_action :: string
  dc_userId :: int32
  dc_eventType :: DumpEventType

definition PublishCmdInfo_init :: PublishCmdInfo where
  "PublishCmdInfo_init = \<lparr>pc_isSticky = False, pc_isOrdered = False, pc_code = 0,
     pc_userId = UNDEFINED_USER, pc_action = [], pc_data = []\<rparr>"

definition DumpCmdInfo_init :: DumpCmdInfo where
  "DumpCmdInfo_init = \<lparr>dc_action = [], dc_userId = ALL_USER, dc_eventType = DumpALL\<rparr>"

definition CheckPublishOpt :: "char \<Rightarrow> string \<Rightarrow> string" where
  "CheckPublishOpt optopt receiver =
     (if optopt = CHR ''e'' then receiver @ requires_value CHR ''e''
      else if optopt = CHR ''c'' then receiver @ requires_value CHR ''c''
      else if optopt = CHR ''d'' then receiver @ requires_value CHR ''d''
      else if optopt = CHR ''u'' then receiver @ requires_value CHR ''u''
      else receiver @ unknown_option)"

definition CheckDumpOpt :: "char \<Rightarrow> string \<Rightarrow> string" where
  "CheckDumpOpt optopt receiver =
     (if optopt = CHR ''e'' then receiver @ requires_value CHR ''e''
      else if optopt = CHR ''u'' then receiver @ requires_value CHR ''u''
      else receiver @ unknown_option)"

text \<open>The loop over the options; the result is \<open>cmdInfo\<close>, \<open>result\<close>, \<open>hasOption\<close> and the text.\<close>

fun SetPublishCmdInfo ::
  "getopt_result list \<Rightarrow> PublishCmdInfo \<Rightarrow> err_code \<Rightarrow> bool \<Rightarrow> string \<Rightarrow>
     (PublishCmdInfo \<times> err_code \<times> bool \<times> string) option" where
  "SetPublishCmdInfo [] info result hasOption receiver = Some (info, result, hasOption, receiver)"
| "SetPublishCmdInfo (Bad optopt # opts) info result hasOption receiver =
     Some (info, ERR_INVALID_VALUE, True, CheckPublishOpt optopt receiver)"
| "SetPublishCmdInfo (Opt option optarg # opts) info result hasOption receiver =
     (if option = CHR ''h'' then SetPublishCmdInfo opts info ERR_INVALID_VALUE True receiver
      else if option = CHR ''e'' then SetPublishCmdInfo opts (info\<lparr>pc_action := optarg\<rparr>) result True receiver
      else if option = CHR ''s'' then SetPublishCmdInfo opts (info\<lparr>pc_isSticky := True\<rparr>) result True receiver
      else if option = CHR ''o'' then SetPublishCmdInfo opts (info\<lparr>pc_isOrdered := True\<rparr>) result True receiver
      else if option = CHR ''c''
        then (case atoi optarg of
                None \<Rightarrow> None
              | Some n \<Rightarrow> SetPublishCmdInfo opts (info\<lparr>pc_code := n\<rparr>) result True receiver)
      else if option = CHR ''d'' then SetPublishCmdInfo opts (info\<lparr>pc_data := optarg\<rparr>) result True receiver
      else if option = CHR ''u''
        then (case atoi optarg of
                None \<Rightarrow> None
              | Some n \<Rightarrow> SetPublishCmdInfo opts (info\<lparr>pc_userId := n\<rparr>) result True receiver)
      else SetPublishCmdInfo opts info result True receiver)"

definition CheckDumpEventType ::
  "string \<Rightarrow> DumpCmdInfo \<Rightarrow> err_code \<Rightarrow> string \<Rightarrow> DumpCmdInfo \<times> err_code \<times> string" where
  "CheckDumpEventType optarg info result receiver =
     (if optarg = ''subscriber'' then (info\<lparr>dc_eventType := DumpSUBSCRIBER\<rparr>, result, receiver)
      else if optarg = ''sticky'' then (info\<lparr>dc_eventType := DumpSTICKY\<rparr>, result, receiver)
      else if optarg = ''pending'' then (info\<lparr>dc_eventType := DumpPENDING\<rparr>, result, receiver)
      else if optarg = ''history'' then (info\<lparr>dc_eventType := DumpHISTORY\<rparr>, result, receiver)
      else (info, ERR_INVALID_VALUE, receiver @ requires_value CHR ''p''))"

fun SetDumpCmdInfo ::
  "getopt_result list \<Rightarrow> DumpCmdInfo \<Rightarrow> err_code \<Rightarrow> bool \<Rightarrow> string \<Rightarrow>
     (DumpCmdInfo \<times> err_code \<times> bool \<times> string) option" where
  "SetDumpCmdInfo [] info result hasOption receiver = Some (info, result, hasOption, receiver)"
| "SetDumpCmdInfo (Bad optopt # opts) info result hasOption receiver =
     Some (info, ERR_INVALID_VALUE, True, CheckDumpOpt optopt receiver)"
| "SetDumpCmdInfo (Opt option optarg # opts) info result hasOption receiver =
     (if option = CHR ''h'' then SetDumpCmdInfo opts info ERR_INVALID_VALUE True receiver
      else if option = CHR ''e'' then SetDumpCmdInfo opts (info\<lparr>dc_action := optarg\<rparr>) result True receiver
      else if option = CHR ''u''
        then (case atoi optarg of
                None \<Rightarrow> None
              | Some n \<Rightarrow> SetDumpCmdInfo opts (info\<lparr>dc_userId := n\<rparr>) result True receiver)
      else if option = CHR ''p''
        then (let (info1, result1, receiver1) = CheckDumpEventType optarg info result receiver
              in SetDumpCmdInfo opts info1 result1 True receiver1)
      else SetDumpCmdInfo opts info result True receiver)"

section \<open>Commands\<close>

text \<open>A run ends with the code, the text and the states behind the client library; \<open>W\<close> is the
  \<open>Want\<close> its constructor makes.\<close>

definition RunAsHelpCommand :: "string \<Rightarrow> err_code \<times> string" where
  "RunAsHelpCommand receiver = (ERR_OK, receiver @ HELP_MSG)"

definition RunAsPublishCommand ::
  "'s svc_ops \<Rightarrow> Want \<Rightarrow> getopt_result list \<Rightarrow> string \<Rightarrow> client_state \<times> 's \<Rightarrow>
     (err_code \<times> string \<times> client_state \<times> 's) option" where
  "RunAsPublishCommand X W opts receiver cs =
     (case SetPublishCmdInfo opts PublishCmdInfo_init ERR_OK False receiver of
        None \<Rightarrow> None
      | Some (info, result, hasOption, receiver1) \<Rightarrow>
          if \<not> hasOption
          then Some (ERR_INVALID_VALUE, receiver1 @ HELP_MSG_NO_OPTION @ HELP_MSG_PUBLISH, cs)
          else
            (let noEvent = (result = ERR_OK \<and> receiver1 = [] \<and> pc_action info = []);
                 receiver2 = (if noEvent then receiver1 @ HELP_MSG_NO_EVENT_OPTION else receiver1);
                 result2 = (if noEvent then ERR_INVALID_VALUE else result)
             in if result2 = ERR_OK
                then
                  (let commonEventData = \<lparr>cd_want = W\<lparr>w_action := pc_action info\<rparr>, cd_code = pc_code info, cd_data = pc_data info\<rparr>;
                       pinfo = CommonEventPublishInfo_init\<lparr>pi_sticky := pc_isSticky info, pi_ordered := pc_isOrdered info\<rparr>;
                       (publishResult, cs1) = PublishCommonEventAsUser_client X commonEventData pinfo None (pc_userId info) cs
                   in Some (result2, if publishResult = ERR_OK then STRING_PUBLISH_COMMON_EVENT_OK
                                     else STRING_PUBLISH_COMMON_EVENT_NG, cs1))
                else Some (result2, receiver2 @ HELP_MSG_PUBLISH, cs)))"

text \<open>\<open>dump\<close> is \<open>CEM_SUPPORT_DUMP\<close>.\<close>

definition RunAsDumpCommand ::
  "'s svc_ops \<Rightarrow> bool \<Rightarrow> getopt_result list \<Rightarrow> string \<Rightarrow> client_state \<times> 's \<Rightarrow>
     (err_code \<times> string \<times> client_state \<times> 's) option" where
  "RunAsDumpCommand X dump opts receiver = (\<lambda>(c, s).
     (if \<not> dump then Some (ERR_INVALID_VALUE, receiver @ USER_DUMP_COMMON_EVENT_NG, c, s)
      else
        (case SetDumpCmdInfo opts DumpCmdInfo_init ERR_OK False receiver of
           None \<Rightarrow> None
         | Some (info, result, hasOption, receiver1) \<Rightarrow>
             if \<not> hasOption
             then Some (ERR_INVALID_VALUE, receiver1 @ HELP_MSG_NO_OPTION @ HELP_MSG_DUMP, c, s)
             else if result = ERR_OK
             then
               (let (dumpResult, dumpResults, s1) =
                      DumpState_client X (word_of_int (dump_code (dc_eventType info))) (dc_action info) (dc_userId info) s
                in if dumpResult
                   then Some (result, foldl (\<lambda>r it. r @ it @ nl) receiver1 dumpResults, c, s1)
                   else Some (result, STRING_DUMP_COMMON_EVENT_NG, c, s1))
             else Some (result, receiver1 @ HELP_MSG_DUMP, c, s))))"

section \<open>The shell command\<close>

definition MIN_ARGUMENT_NUMBER :: nat where "MIN_ARGUMENT_NUMBER = 2"

definition ShellCommand_cmd :: "string list \<Rightarrow> string" where
  "ShellCommand_cmd argv = (if length argv < MIN_ARGUMENT_NUMBER then ''help'' else argv ! 1)"

definition GetCommandErrorMsg :: "string \<Rightarrow> string" where
  "GetCommandErrorMsg cmd = TOOL_NAME @ '': '' @ quoted cmd @ '' is not a valid '' @ TOOL_NAME @ '' command. See '' @
     quoted (TOOL_NAME @ '' help'') @ ''.'' @ nl"

text \<open>The entries of \<open>commandMap_\<close>.\<close>

datatype command = HelpCommand | PublishCommand | DumpCommand

definition CreateCommandMap :: "(string, command) omap" where
  "CreateCommandMap = [(''dump'', DumpCommand), (''help'', HelpCommand), (''publish'', PublishCommand)]"

definition respond ::
  "'s svc_ops \<Rightarrow> Want \<Rightarrow> bool \<Rightarrow> getopt_result list \<Rightarrow> command \<Rightarrow> string \<Rightarrow> client_state \<times> 's \<Rightarrow>
     (err_code \<times> string \<times> client_state \<times> 's) option" where
  "respond X W dump opts k receiver cs =
     (case k of
        HelpCommand \<Rightarrow> (let (r, text) = RunAsHelpCommand receiver in Some (r, text, cs))
      | PublishCommand \<Rightarrow> RunAsPublishCommand X W opts receiver cs
      | DumpCommand \<Rightarrow> RunAsDumpCommand X dump opts receiver cs)"

text \<open>The code of the command is dropped: \<open>OnCommand\<close> returns \<open>ERR_OK\<close>.\<close>

definition OnCommand ::
  "'s svc_ops \<Rightarrow> Want \<Rightarrow> bool \<Rightarrow> string list \<Rightarrow> getopt_result list \<Rightarrow> client_state \<times> 's \<Rightarrow>
     (err_code \<times> string \<times> client_state \<times> 's) option" where
  "OnCommand X W dump argv opts cs =
     (let cmd = ShellCommand_cmd argv;
          (k, receiver) = (case map_of CreateCommandMap cmd of
             None \<Rightarrow> (HelpCommand, GetCommandErrorMsg cmd)
           | Some k \<Rightarrow> (k, []))
      in case respond X W dump opts k receiver cs of
           None \<Rightarrow> None
         | Some (_, text, cs1) \<Rightarrow> Some (ERR_OK, text, cs1))"

definition ExecCommand ::
  "'s svc_ops \<Rightarrow> Want \<Rightarrow> bool \<Rightarrow> string list \<Rightarrow> getopt_result list \<Rightarrow> client_state \<times> 's \<Rightarrow>
     (string \<times> client_state \<times> 's) option" where
  "ExecCommand X W dump argv opts cs =
     (case OnCommand X W dump argv opts cs of
        None \<Rightarrow> None
      | Some (result, text, cs1) \<Rightarrow>
          Some (if result \<noteq> ERR_OK then ''error: failed to execute your command.'' @ nl else text, cs1))"

section \<open>Publishing from the command line\<close>

text \<open>What the options say: the last value of each counts.\<close>

definition last_arg :: "char \<Rightarrow> string \<Rightarrow> getopt_result list \<Rightarrow> string" where
  "last_arg ch d opts = foldl (\<lambda>a x. case x of Opt k v \<Rightarrow> if k = ch then v else a | Bad _ \<Rightarrow> a) d opts"

definition last_num :: "char \<Rightarrow> int32 \<Rightarrow> getopt_result list \<Rightarrow> int32" where
  "last_num ch d opts = foldl (\<lambda>a x. case x of Opt k v \<Rightarrow> if k = ch then the (atoi v) else a | Bad _ \<Rightarrow> a) d opts"

definition given :: "char \<Rightarrow> getopt_result list \<Rightarrow> bool" where
  "given ch opts = list_ex (\<lambda>x. case x of Opt k v \<Rightarrow> k = ch | Bad _ \<Rightarrow> False) opts"

definition numbers_ok :: "getopt_result list \<Rightarrow> bool" where
  "numbers_ok opts = list_all (\<lambda>x. case x of Opt k v \<Rightarrow> k = CHR ''c'' \<or> k = CHR ''u'' \<longrightarrow> atoi v \<noteq> None | Bad _ \<Rightarrow> True) opts"

definition no_error :: "getopt_result list \<Rightarrow> bool" where
  "no_error opts = list_all (\<lambda>x. case x of Opt k v \<Rightarrow> k \<noteq> CHR ''h'' | Bad _ \<Rightarrow> False) opts"

definition described_event :: "Want \<Rightarrow> getopt_result list \<Rightarrow> CommonEventData" where
  "described_event W opts = \<lparr>cd_want = W\<lparr>w_action := last_arg CHR ''e'' [] opts\<rparr>,
     cd_code = last_num CHR ''c'' 0 opts, cd_data = last_arg CHR ''d'' [] opts\<rparr>"

definition described_info :: "getopt_result list \<Rightarrow> CommonEventPublishInfo" where
  "described_info opts = CommonEventPublishInfo_init\<lparr>pi_sticky := given CHR ''s'' opts, pi_ordered := given CHR ''o'' opts\<rparr>"

definition described_user :: "getopt_result list \<Rightarrow> int32" where
  "described_user opts = last_num CHR ''u'' UNDEFINED_USER opts"

lemma options_Nil [simp]:
  "last_arg ch d [] = d" "last_num ch n [] = n" "\<not> given ch []" "numbers_ok []" "no_error []"
  by (simp_all add: last_arg_def last_num_def given_def numbers_ok_def no_error_def)

lemma options_Cons [simp]:
  "last_arg ch d (Opt k v # xs) = last_arg ch (if k = ch then v else d) xs"
  "last_num ch n (Opt k v # xs) = last_num ch (if k = ch then the (atoi v) else n) xs"
  "given ch (Opt k v # xs) \<longleftrightarrow> k = ch \<or> given ch xs"
  "numbers_ok (Opt k v # xs) \<longleftrightarrow> (k = CHR ''c'' \<or> k = CHR ''u'' \<longrightarrow> (\<exists>n. atoi v = Some n)) \<and> numbers_ok xs"
  "numbers_ok (Bad k # xs) = numbers_ok xs"
  "no_error (Opt k v # xs) \<longleftrightarrow> k \<noteq> CHR ''h'' \<and> no_error xs" "\<not> no_error (Bad k # xs)"
  by (auto simp: last_arg_def last_num_def given_def numbers_ok_def no_error_def)

lemma options_read:
  assumes "no_error opts" and "numbers_ok opts"
  shows "SetPublishCmdInfo opts info r h t = Some
    (\<lparr>pc_isSticky = pc_isSticky info \<or> given CHR ''s'' opts, pc_isOrdered = pc_isOrdered info \<or> given CHR ''o'' opts,
      pc_code = last_num CHR ''c'' (pc_code info) opts, pc_userId = last_num CHR ''u'' (pc_userId info) opts,
      pc_action = last_arg CHR ''e'' (pc_action info) opts, pc_data = last_arg CHR ''d'' (pc_data info) opts\<rparr>,
     r, h \<or> opts \<noteq> [], t)"
  using assms by (induction opts info r h t rule: SetPublishCmdInfo.induct) (auto split: option.split)

lemma option_step:
  assumes "numbers_ok (Opt k v # opts)"
  shows "\<exists>i'. SetPublishCmdInfo (Opt k v # opts) i r h t =
    SetPublishCmdInfo opts i' (if k = CHR ''h'' then ERR_INVALID_VALUE else r) True t"
proof -
  consider "k = CHR ''c''" | "k = CHR ''u''" | "k \<noteq> CHR ''c''" "k \<noteq> CHR ''u''" by blast
  then show ?thesis
  proof cases
    case 3
    let ?i = "if k = CHR ''e'' then i\<lparr>pc_action := v\<rparr> else if k = CHR ''s'' then i\<lparr>pc_isSticky := True\<rparr>
      else if k = CHR ''o'' then i\<lparr>pc_isOrdered := True\<rparr> else if k = CHR ''d'' then i\<lparr>pc_data := v\<rparr> else i"
    show ?thesis by (rule exI [of _ ?i]) (simp add: 3)
  qed (use assms in auto)
qed

lemma wrong_option_text: "t = [] \<or> hd t = CHR ''e'' \<Longrightarrow> hd (CheckPublishOpt ch t) = CHR ''e''"
  by (auto simp: CheckPublishOpt_def requires_value_def unknown_option_def hd_append)

lemma options_refused:
  "\<not> no_error opts \<or> r \<noteq> ERR_OK \<Longrightarrow> numbers_ok opts \<Longrightarrow> t = [] \<or> hd t = CHR ''e'' \<Longrightarrow>
     \<exists>i' r' h' t'. SetPublishCmdInfo opts i r h t = Some (i', r', h', t') \<and> r' \<noteq> ERR_OK \<and> (t' = [] \<or> hd t' = CHR ''e'')"
proof (induction opts arbitrary: i r h)
  case (Cons x opts)
  show ?case
  proof (cases x)
    case (Opt k v)
    obtain i' where i': "SetPublishCmdInfo (x # opts) i r h t =
        SetPublishCmdInfo opts i' (if k = CHR ''h'' then ERR_INVALID_VALUE else r) True t"
      using option_step [of k v opts] Cons.prems(2) Opt by blast
    show ?thesis
      unfolding i' by (rule Cons.IH) (use Cons.prems Opt in auto)
  next
    case (Bad ch)
    have "SetPublishCmdInfo (x # opts) i r h t = Some (i, ERR_INVALID_VALUE, True, CheckPublishOpt ch t)"
      by (simp add: Bad)
    then show ?thesis using wrong_option_text [OF Cons.prems(3), of ch] by blast
  qed
qed simp

lemma publish_text:
  "hd HELP_MSG_PUBLISH = CHR ''u''" "hd HELP_MSG_NO_OPTION = CHR ''e''" "hd HELP_MSG_NO_EVENT_OPTION = CHR ''e''"
  "hd STRING_PUBLISH_COMMON_EVENT_OK = CHR ''p''" "hd STRING_PUBLISH_COMMON_EVENT_NG = CHR ''e''"
  "HELP_MSG_PUBLISH \<noteq> []" "HELP_MSG_NO_OPTION \<noteq> []" "HELP_MSG_NO_EVENT_OPTION \<noteq> []"
  by (simp_all add: HELP_MSG_PUBLISH_def HELP_MSG_NO_OPTION_def HELP_MSG_NO_EVENT_OPTION_def
    STRING_PUBLISH_COMMON_EVENT_OK_def STRING_PUBLISH_COMMON_EVENT_NG_def)

lemma not_success: "hd text \<noteq> CHR ''p'' \<Longrightarrow> text \<noteq> STRING_PUBLISH_COMMON_EVENT_OK"
  using publish_text(4) by auto

lemma publish_refused:
  assumes "\<not> (no_error opts \<and> last_arg CHR ''e'' [] opts \<noteq> [])" and "numbers_ok opts"
  shows "\<exists>r text. RunAsPublishCommand X W opts [] cs = Some (r, text, cs) \<and> text \<noteq> STRING_PUBLISH_COMMON_EVENT_OK"
proof (cases "no_error opts")
  case True
  then have "last_arg CHR ''e'' [] opts = []" using assms(1) by simp
  then show ?thesis
    using options_read [OF True assms(2)] publish_text
    by (auto simp: RunAsPublishCommand_def PublishCmdInfo_init_def Let_def intro!: not_success)
next
  case False
  then obtain i' r' h' t' where r: "SetPublishCmdInfo opts PublishCmdInfo_init ERR_OK False [] = Some (i', r', h', t')"
    "r' \<noteq> ERR_OK" "t' = [] \<or> hd t' = CHR ''e''" using options_refused [OF _ assms(2)] by blast
  then show ?thesis
    using publish_text by (auto simp: RunAsPublishCommand_def Let_def hd_append split: if_splits intro!: not_success)
qed

lemma publish_described:
  assumes "no_error opts" and "last_arg CHR ''e'' [] opts \<noteq> []" and "numbers_ok opts"
  shows "RunAsPublishCommand X W opts [] cs =
    (let (r, cs1) = PublishCommonEventAsUser_client X (described_event W opts) (described_info opts) None (described_user opts) cs
     in Some (ERR_OK, if r = ERR_OK then STRING_PUBLISH_COMMON_EVENT_OK else STRING_PUBLISH_COMMON_EVENT_NG, cs1))"
proof -
  have "opts \<noteq> []" using assms(2) by auto
  then show ?thesis
    using assms options_read [OF assms(1,3)]
    by (simp add: RunAsPublishCommand_def PublishCmdInfo_init_def described_event_def described_info_def
      described_user_def Let_def)
qed

lemma publish_queues:
  "PublishCommonEvent_srv E cl time now d i l u s = (r, s1) \<Longrightarrow>
     sv_inner s1 = sv_inner s \<and> srvQueue s1 = srvQueue s @
       (if r = ERR_OK then [PublishTask d i l (the time) (cl_pid cl) (cl_uid cl) (cl_token cl) u] else []) \<and>
     (\<not> IsReady s \<longrightarrow> r \<noteq> ERR_OK \<and> s1 = s)"
  by (auto simp: PublishCommonEvent_srv_def PublishCommonEventDetailed_def submit_def err_consts Let_def
    CheckUserIdParams_def split: if_splits option.splits prod.splits)

text \<open>The command line publishes what it says or nothing.  For any list of options whose numbers
  are numbers, \<open>cem publish\<close> comes to an end; it reports success if and only if no option is wrong or
  asks for help, an event name is given and the service accepts the publication, and then exactly one
  task has been queued in the service, for the event with the name, code and data given last, sticky
  and ordered as told, for the user given last, without a final receiver and with the identity of the
  tool's process; otherwise no task is queued.  The managers of the service have not changed.\<close>

theorem cem_publishes:
  assumes "length argv \<ge> 2" and "argv ! 1 = ''publish''" and "numbers_ok opts"
  shows "\<exists>text s'. ExecCommand (service_ops E S K cl time now T rm) W dump argv opts (c, s) = Some (text, c, s') \<and>
    (text = STRING_PUBLISH_COMMON_EVENT_OK \<longleftrightarrow> no_error opts \<and> last_arg CHR ''e'' [] opts \<noteq> [] \<and>
       fst (PublishCommonEvent_srv E cl time now (described_event W opts) (described_info opts) None (described_user opts) s) = ERR_OK) \<and>
    sv_inner s' = sv_inner s \<and>
    srvQueue s' = srvQueue s @ (if text = STRING_PUBLISH_COMMON_EVENT_OK
      then [PublishTask (described_event W opts) (described_info opts) None (the time) (cl_pid cl) (cl_uid cl)
              (cl_token cl) (described_user opts)] else [])"
proof -
  let ?X = "service_ops E S K cl time now T rm" and ?d = "described_event W opts"
  have exec: "ExecCommand ?X W dump argv opts (c, s) =
      (case RunAsPublishCommand ?X W opts [] (c, s) of None \<Rightarrow> None | Some (_, text, cs1) \<Rightarrow> Some (text, cs1))"
    using assms(1,2)
    by (auto simp: ExecCommand_def OnCommand_def respond_def ShellCommand_cmd_def MIN_ARGUMENT_NUMBER_def
      CreateCommandMap_def Let_def split: option.split)
  show ?thesis
  proof (cases "no_error opts \<and> last_arg CHR ''e'' [] opts \<noteq> []")
    case False
    then show ?thesis using publish_refused [OF False assms(3), of ?X W "(c, s)"] by (auto simp: exec)
  next
    case True
    obtain r s1 where p: "PublishCommonEvent_srv E cl time now ?d (described_info opts) None (described_user opts) s = (r, s1)"
      by fastforce
    note q = publish_queues [OF p]
    have w: "w_action (cd_want ?d) \<noteq> []" using True by (simp add: described_event_def)
    have "PublishCommonEventAsUser_client ?X ?d (described_info opts) None (described_user opts) (c, s) =
        (if IsReady s then (r, c, s1) else (ERR_NOTIFICATION_CES_COMMON_PARAM_INVALID, c, s))"
      using w p by (simp add: PublishCommonEventAsUser_client_def PublishParameterCheck_def ok_or_def)
        (simp add: service_ops_def)
    then show ?thesis
      using publish_described [of opts ?X W "(c, s)"] True assms(3) p q not_success publish_text(5)
      by (auto simp: exec err_consts)
  qed
qed

definition demo_options :: "getopt_result list" where
  "demo_options = [Opt CHR ''e'' ''ev.A'', Opt CHR ''s'' [], Opt CHR ''c'' '' -7x'', Opt CHR ''e'' ''ev.B'']"

lemma demo_options_ok: "numbers_ok demo_options" "no_error demo_options" "last_arg CHR ''e'' [] demo_options = ''ev.B''"
  "cd_code (described_event W demo_options) = -7"
  by code_simp (simp_all add: demo_options_def described_event_def atoi_def is_space_def decimal_def decimal_val_def)

theorem cem_publishes_instance:
  "\<exists>s'. ExecCommand (service_ops ex_env ex_senv ex_kv ex_caller (Some 8) 9 (\<lambda>_. []) (\<lambda>l. l)) ex_want True
     [''cem'', ''publish''] demo_options (demo_client, snd (Init_srv ex_start)) =
       Some (STRING_PUBLISH_COMMON_EVENT_OK, demo_client, s') \<and> length (srvQueue s') = 1"
proof -
  let ?s = "snd (Init_srv ex_start)"
  let ?d = "described_event ex_want demo_options" and ?i = "described_info demo_options" and ?u = "described_user demo_options"
  have u: "?u = UNDEFINED_USER" by (simp add: described_user_def demo_options_def)
  have f: "sv_flood ?s = []" by (simp add: Init_srv_def ex_start_def service_init_def)
  have "fst (PublishCommonEvent_srv ex_env ex_caller (Some 8) 9 ?d ?i None ?u ?s) = ERR_OK"
    using ex_ready(2)
    by (simp add: PublishCommonEvent_srv_def PublishCommonEventDetailed_def u f CheckUserIdParams_def IsDlpHap_def
      CheckIsFloodAttack_def ex_env_def FLOOD_ATTACK_NUMBER_MAX_def Let_def)
  then show ?thesis
    using cem_publishes [of "[''cem'', ''publish'']" demo_options ex_env ex_senv ex_kv ex_caller "Some 8" 9 "\<lambda>_. []" "\<lambda>l. l"
      ex_want True demo_client ?s] demo_options_ok ex_ready(3)
    by auto
qed

section \<open>Dumping from the command line\<close>

text \<open>Whatever the options, a dump changes neither the client nor the service, and it prints the entries
  the service hands over, each on lines of its own.\<close>

lemma lines_printed: "foldl (\<lambda>r it. r @ it @ nl) t xs = t @ concat (map (\<lambda>x. x @ nl) xs)"
  by (induction xs arbitrary: t) simp_all

lemma cem_dump_reads:
  assumes "RunAsDumpCommand (service_ops E S K cl time now T rm) dump opts [] (c, s) = Some (r, text, cs1)"
  shows "cs1 = (c, s)"
proof -
  let ?X = "service_ops E S K cl time now T rm"
  have d: "snd (snd (snd (px_dump ?X ty e u s))) = s" for ty e u
    by (simp add: service_ops_def split: option.split prod.split)
  have "snd (snd (DumpState_client ?X ty e u s)) = s" for ty e u
    using d [of ty e u] by (auto simp: DumpState_client_def split: prod.split)
  then show ?thesis
    using assms by (auto simp: RunAsDumpCommand_def Let_def split: if_splits option.splits prod.splits)
      (metis snd_conv)+
qed

text \<open>The code of a command never reaches \<open>ExecCommand\<close>, so a failure is reported as whatever text the
  command left.\<close>

lemma command_code_dropped: "OnCommand X W dump argv opts cs = Some (r, text, cs1) \<Longrightarrow> r = ERR_OK"
  by (auto simp: OnCommand_def Let_def split: option.splits prod.splits)

end
