(* ===== verification/Capi_Parameters.thy ===== *)
theory Capi_Parameters
  imports Event_Types
begin

text \<open>
  The parameters of an event in the C interface (\<open>oh_commonevent.cpp\<close>,
  \<open>oh_commonevent_parameters_parse.h\<close>, \<open>oh_commonevent_parameters_parse.cpp\<close>): typed values and
  arrays under keys, and the memory handed to the caller.

  \<open>WantParams\<close>, the boxes of its values and its arrays are classes of another repository: the
  record \<open>want_lib\<close> holds their operations and \<open>want_lawful\<close> what they promise, with the
  content of an array as a ghost function.  Objects of type \<open>CArrParameters\<close> and blocks from
  \<open>malloc\<close> live in two heaps with one supply of addresses; reading or freeing what is not there
  is undefined and \<open>None\<close>.  A cell of a block that nobody has written is \<open>None\<close>.  A
  \<open>const char*\<close> is the string up to its terminator.
\<close>

section \<open>Codes\<close>

definition COMMONEVENT_ERR_OK :: err_code where "COMMONEVENT_ERR_OK = ERR_OK"
definition COMMONEVENT_ERR_INVALID_PARAMETER :: err_code where "COMMONEVENT_ERR_INVALID_PARAMETER = ERR_CODE 401"
definition COMMONEVENT_ERR_SUBSCRIBER_NUM_EXCEEDED :: err_code where "COMMONEVENT_ERR_SUBSCRIBER_NUM_EXCEEDED = ERR_CODE 1500010"
definition COMMONEVENT_ERR_ALLOC_MEMORY_FAILED :: err_code where "COMMONEVENT_ERR_ALLOC_MEMORY_FAILED = ERR_CODE 1500011"

lemmas capi_err_defs = COMMONEVENT_ERR_OK_def COMMONEVENT_ERR_INVALID_PARAMETER_def
  COMMONEVENT_ERR_SUBSCRIBER_NUM_EXCEEDED_def COMMONEVENT_ERR_ALLOC_MEMORY_FAILED_def

section \<open>Values\<close>

text \<open>A \<open>double\<close> is kept as its bits.\<close>

datatype prim = PrimInt int32 | PrimLong int64 | PrimBool bool | PrimChar char | PrimDouble uint64 | PrimString string

datatype prim_type = IInteger | ILong | IBoolean | IChar | IDouble | IString

fun type_of_prim :: "prim \<Rightarrow> prim_type" where
  "type_of_prim (PrimInt _) = IInteger"
| "type_of_prim (PrimLong _) = ILong"
| "type_of_prim (PrimBool _) = IBoolean"
| "type_of_prim (PrimChar _) = IChar"
| "type_of_prim (PrimDouble _) = IDouble"
| "type_of_prim (PrimString _) = IString"

record ('w, 'o) want_lib =
  wl_empty :: 'w
  wl_has :: "'w \<Rightarrow> string \<Rightarrow> bool"
  wl_get :: "'w \<Rightarrow> string \<Rightarrow> 'o option" \<comment> \<open>null if there is no value\<close>
  wl_set :: "string \<Rightarrow> 'o \<Rightarrow> 'w \<Rightarrow> 'w"
  wl_box :: "prim \<Rightarrow> 'o"
  wl_query :: "prim_type \<Rightarrow> 'o option \<Rightarrow> prim option" \<comment> \<open>\<open>Query\<close> and \<open>Unbox\<close>\<close>
  wl_array :: "nat \<Rightarrow> prim_type \<Rightarrow> 'o option" \<comment> \<open>a new array, or null\<close>
  wl_put :: "nat \<Rightarrow> 'o \<Rightarrow> 'o \<Rightarrow> 'o"
  wl_is_array :: "'o option \<Rightarrow> bool"
  wl_length :: "'o \<Rightarrow> nat option"
  wl_at :: "nat \<Rightarrow> 'o \<Rightarrow> 'o option"
  wl_entries :: "'w \<Rightarrow> (string, want_value) umap"
  wl_params :: "(string, want_value) umap \<Rightarrow> 'w"

definition want_lawful :: "('w, 'o) want_lib \<Rightarrow> ('o \<Rightarrow> (prim_type \<times> 'o option list) option) \<Rightarrow> bool" where
  "want_lawful L g \<longleftrightarrow>
     (\<forall>w k x k'. wl_get L (wl_set L k x w) k' = (if k' = k then Some x else wl_get L w k')) \<and>
     (\<forall>w k x k'. wl_has L (wl_set L k x w) k' \<longleftrightarrow> k' = k \<or> wl_has L w k') \<and>
     (\<forall>t v. wl_query L t (Some (wl_box L v)) = (if type_of_prim v = t then Some v else None)) \<and>
     (\<forall>t. wl_query L t None = None) \<and>
     (\<forall>n t a. wl_array L n t = Some a \<longrightarrow> g a = Some (t, replicate n None)) \<and>
     (\<forall>a t xs i v. g a = Some (t, xs) \<longrightarrow> i < length xs \<longrightarrow> type_of_prim v = t \<longrightarrow>
        g (wl_put L i (wl_box L v) a) = Some (t, xs[i := Some (wl_box L v)])) \<and>
     (\<forall>a t xs. g a = Some (t, xs) \<longrightarrow> wl_is_array L (Some a) \<and> wl_length L a = Some (length xs) \<and>
        (\<forall>i < length xs. wl_at L i a = xs ! i))"

section \<open>Memory\<close>

record 'w CArrParameters =
  wantParams :: 'w
  allocatedPointers :: "nat list"

datatype block = ArrayBlock "prim option list" | StringBlock string

record 'w capi_heap =
  ch_params :: "nat \<Rightarrow> 'w CArrParameters option"
  ch_blocks :: "nat \<Rightarrow> block option"
  ch_next :: nat

definition malloc :: "block \<Rightarrow> 'w capi_heap \<Rightarrow> nat \<times> 'w capi_heap" where
  "malloc b h = (ch_next h, h\<lparr>ch_blocks := (ch_blocks h)(ch_next h := Some b), ch_next := ch_next h + 1\<rparr>)"

definition free_block :: "nat \<Rightarrow> 'w capi_heap \<Rightarrow> 'w capi_heap option" where
  "free_block a h = (if ch_blocks h a = None then None else Some (h\<lparr>ch_blocks := (ch_blocks h)(a := None)\<rparr>))"

definition set_params :: "nat \<Rightarrow> 'w CArrParameters \<Rightarrow> 'w capi_heap \<Rightarrow> 'w capi_heap" where
  "set_params p ps h = h\<lparr>ch_params := (ch_params h)(p := Some ps)\<rparr>"

definition OH_CommonEvent_CreateParameters :: "('w, 'o) want_lib \<Rightarrow> bool \<Rightarrow> 'w capi_heap \<Rightarrow> nat option \<times> 'w capi_heap" where
  "OH_CommonEvent_CreateParameters L ok h =
     (if \<not> ok then (None, h)
      else (Some (ch_next h), set_params (ch_next h) \<lparr>wantParams = wl_empty L, allocatedPointers = []\<rparr>
              (h\<lparr>ch_next := ch_next h + 1\<rparr>)))"

text \<open>The pointers recorded are never null: a failed \<open>malloc\<close> is not recorded.\<close>

fun free_all :: "nat list \<Rightarrow> 'w capi_heap \<Rightarrow> 'w capi_heap option" where
  "free_all [] h = Some h"
| "free_all (a # as) h = (case free_block a h of None \<Rightarrow> None | Some h1 \<Rightarrow> free_all as h1)"

definition OH_CommonEvent_DestroyParameters :: "nat option \<Rightarrow> 'w capi_heap \<Rightarrow> 'w capi_heap option" where
  "OH_CommonEvent_DestroyParameters param h =
     (case param of
        None \<Rightarrow> Some h
      | Some p \<Rightarrow>
          (case ch_params h p of
             None \<Rightarrow> None
           | Some ps \<Rightarrow>
               map_option (\<lambda>h1. h1\<lparr>ch_params := (ch_params h1)(p := None)\<rparr>) (free_all (allocatedPointers ps) h)))"

section \<open>The templates\<close>

definition GetDataFromParams :: "('w, 'o) want_lib \<Rightarrow> prim_type \<Rightarrow> 'w CArrParameters \<Rightarrow> string \<Rightarrow> prim \<Rightarrow> prim" where
  "GetDataFromParams L t ps key defaultVal =
     (case wl_query L t (wl_get L (wantParams ps) key) of None \<Rightarrow> defaultVal | Some v \<Rightarrow> v)"

definition SetDataToParams ::
  "('w, 'o) want_lib \<Rightarrow> 'w CArrParameters \<Rightarrow> string \<Rightarrow> prim \<Rightarrow> err_code \<times> 'w CArrParameters" where
  "SetDataToParams L ps key v = (COMMONEVENT_ERR_OK, ps\<lparr>wantParams := wl_set L key (wl_box L v) (wantParams ps)\<rparr>)"

text \<open>\<open>array\<close> is what the out parameter holds before and after; \<open>ok\<close>: \<open>malloc\<close> succeeds.\<close>

definition array_cells :: "('w, 'o) want_lib \<Rightarrow> prim_type \<Rightarrow> 'o \<Rightarrow> nat \<Rightarrow> prim option list" where
  "array_cells L t a n =
     map (\<lambda>i. case wl_at L i a of None \<Rightarrow> None | Some x \<Rightarrow> wl_query L t (Some x)) [0..<n]"

definition GetDataArrayFromParams ::
  "('w, 'o) want_lib \<Rightarrow> bool \<Rightarrow> prim_type \<Rightarrow> nat \<Rightarrow> 'w CArrParameters \<Rightarrow> string \<Rightarrow> nat option \<Rightarrow> 'w capi_heap \<Rightarrow>
     int32 \<times> nat option \<times> 'w capi_heap" where
  "GetDataArrayFromParams L ok t p ps key array h =
     (case wl_get L (wantParams ps) key of
        None \<Rightarrow> (0, array, h)
      | Some ao \<Rightarrow>
          if \<not> wl_is_array L (Some ao) then (0, array, h)
          else
            (case wl_length L ao of
               None \<Rightarrow> (0, array, h)
             | Some n \<Rightarrow>
                 if \<not> ok then (0, None, h)
                 else
                   (let (a, h1) = malloc (ArrayBlock (array_cells L t ao n)) h
                    in (to_int32 (word_of_int (int n)), Some a,
                        set_params p (ps\<lparr>allocatedPointers := allocatedPointers ps @ [a]\<rparr>) h1))))"

fun put_all :: "('w, 'o) want_lib \<Rightarrow> nat \<Rightarrow> prim list \<Rightarrow> 'o \<Rightarrow> 'o" where
  "put_all L i [] ao = ao"
| "put_all L i (v # vs) ao = put_all L (i + 1) vs (wl_put L i (wl_box L v) ao)"

definition SetDataArrayToParams ::
  "('w, 'o) want_lib \<Rightarrow> prim_type \<Rightarrow> 'w CArrParameters \<Rightarrow> string \<Rightarrow> prim list \<Rightarrow> err_code \<times> 'w CArrParameters" where
  "SetDataArrayToParams L iid ps key array =
     (case wl_array L (length array) iid of
        None \<Rightarrow> (COMMONEVENT_ERR_ALLOC_MEMORY_FAILED, ps)
      | Some ao \<Rightarrow> (COMMONEVENT_ERR_OK, ps\<lparr>wantParams := wl_set L key (put_all L 0 array ao) (wantParams ps)\<rparr>))"

definition GetStringFromParams ::
  "('w, 'o) want_lib \<Rightarrow> bool \<Rightarrow> nat \<Rightarrow> 'w CArrParameters \<Rightarrow> string \<Rightarrow> nat option \<Rightarrow> 'w capi_heap \<Rightarrow>
     int32 \<times> nat option \<times> 'w capi_heap" where
  "GetStringFromParams L ok p ps key str h =
     (case wl_query L IString (wl_get L (wantParams ps) key) of
        Some (PrimString nativeValue) \<Rightarrow>
          (let n = length nativeValue + 1
           in if \<not> ok then (0, None, h)
              else
                (let (a, h1) = malloc (StringBlock nativeValue) h
                 in (to_int32 (word_of_int (int n)), Some a,
                     set_params p (ps\<lparr>allocatedPointers := allocatedPointers ps @ [a]\<rparr>) h1)))
      | _ \<Rightarrow> (0, str, h))"

section \<open>The functions of the interface\<close>

text \<open>The checks every function starts with: a null argument gives \<open>bad\<close>, a pointer to no object is
  undefined.\<close>

definition with_params ::
  "'r \<Rightarrow> nat option \<Rightarrow> string option \<Rightarrow> (nat \<Rightarrow> 'w CArrParameters \<Rightarrow> string \<Rightarrow> 'r) \<Rightarrow> 'w capi_heap \<Rightarrow> 'r option" where
  "with_params bad para key f h =
     (case para of
        None \<Rightarrow> Some bad
      | Some p \<Rightarrow>
          (case key of
             None \<Rightarrow> Some bad
           | Some k \<Rightarrow> (case ch_params h p of None \<Rightarrow> None | Some ps \<Rightarrow> Some (f p ps k))))"

definition set_with ::
  "nat option \<Rightarrow> string option \<Rightarrow> ('w CArrParameters \<Rightarrow> string \<Rightarrow> err_code \<times> 'w CArrParameters) \<Rightarrow> 'w capi_heap \<Rightarrow>
     (err_code \<times> 'w capi_heap) option" where
  "set_with para key f h =
     with_params (COMMONEVENT_ERR_INVALID_PARAMETER, h) para key
       (\<lambda>p ps k. let (r, ps1) = f ps k in (r, set_params p ps1 h)) h"

fun int_of_prim :: "prim \<Rightarrow> int" where
  "int_of_prim (PrimInt i) = i" | "int_of_prim (PrimLong i) = i" | "int_of_prim _ = 0"

fun bool_of_prim :: "prim \<Rightarrow> bool" where "bool_of_prim (PrimBool b) = b" | "bool_of_prim _ = False"
fun char_of_prim :: "prim \<Rightarrow> char" where "char_of_prim (PrimChar c) = c" | "char_of_prim _ = CHR 0x00"
fun double_of_prim :: "prim \<Rightarrow> uint64" where "double_of_prim (PrimDouble d) = d" | "double_of_prim _ = 0"

definition OH_CommonEvent_HasKeyInParameters ::
  "('w, 'o) want_lib \<Rightarrow> nat option \<Rightarrow> string option \<Rightarrow> 'w capi_heap \<Rightarrow> bool option" where
  "OH_CommonEvent_HasKeyInParameters L para key h =
     with_params False para key (\<lambda>p ps k. wl_has L (wantParams ps) k) h"

definition OH_CommonEvent_GetIntFromParameters ::
  "('w, 'o) want_lib \<Rightarrow> nat option \<Rightarrow> string option \<Rightarrow> int32 \<Rightarrow> 'w capi_heap \<Rightarrow> int32 option" where
  "OH_CommonEvent_GetIntFromParameters L para key defaultValue h =
     with_params defaultValue para key (\<lambda>p ps k. int_of_prim (GetDataFromParams L IInteger ps k (PrimInt defaultValue))) h"

definition OH_CommonEvent_GetLongFromParameters ::
  "('w, 'o) want_lib \<Rightarrow> nat option \<Rightarrow> string option \<Rightarrow> int64 \<Rightarrow> 'w capi_heap \<Rightarrow> int64 option" where
  "OH_CommonEvent_GetLongFromParameters L para key defaultValue h =
     with_params defaultValue para key (\<lambda>p ps k. int_of_prim (GetDataFromParams L ILong ps k (PrimLong defaultValue))) h"

definition OH_CommonEvent_GetBoolFromParameters ::
  "('w, 'o) want_lib \<Rightarrow> nat option \<Rightarrow> string option \<Rightarrow> bool \<Rightarrow> 'w capi_heap \<Rightarrow> bool option" where
  "OH_CommonEvent_GetBoolFromParameters L para key defaultValue h =
     with_params defaultValue para key (\<lambda>p ps k. bool_of_prim (GetDataFromParams L IBoolean ps k (PrimBool defaultValue))) h"

definition OH_CommonEvent_GetCharFromParameters ::
  "('w, 'o) want_lib \<Rightarrow> nat option \<Rightarrow> string option \<Rightarrow> char \<Rightarrow> 'w capi_heap \<Rightarrow> char option" where
  "OH_CommonEvent_GetCharFromParameters L para key defaultValue h =
     with_params defaultValue para key (\<lambda>p ps k. char_of_prim (GetDataFromParams L IChar ps k (PrimChar defaultValue))) h"

definition OH_CommonEvent_GetDoubleFromParameters ::
  "('w, 'o) want_lib \<Rightarrow> nat option \<Rightarrow> string option \<Rightarrow> uint64 \<Rightarrow> 'w capi_heap \<Rightarrow> uint64 option" where
  "OH_CommonEvent_GetDoubleFromParameters L para key defaultValue h =
     with_params defaultValue para key (\<lambda>p ps k. double_of_prim (GetDataFromParams L IDouble ps k (PrimDouble defaultValue))) h"

definition OH_CommonEvent_SetIntToParameters ::
  "('w, 'o) want_lib \<Rightarrow> nat option \<Rightarrow> string option \<Rightarrow> int32 \<Rightarrow> 'w capi_heap \<Rightarrow> (err_code \<times> 'w capi_heap) option" where
  "OH_CommonEvent_SetIntToParameters L param key v = set_with param key (\<lambda>ps k. SetDataToParams L ps k (PrimInt v))"

definition OH_CommonEvent_SetLongToParameters ::
  "('w, 'o) want_lib \<Rightarrow> nat option \<Rightarrow> string option \<Rightarrow> int64 \<Rightarrow> 'w capi_heap \<Rightarrow> (err_code \<times> 'w capi_heap) option" where
  "OH_CommonEvent_SetLongToParameters L param key v = set_with param key (\<lambda>ps k. SetDataToParams L ps k (PrimLong v))"

definition OH_CommonEvent_SetBoolToParameters ::
  "('w, 'o) want_lib \<Rightarrow> nat option \<Rightarrow> string option \<Rightarrow> bool \<Rightarrow> 'w capi_heap \<Rightarrow> (err_code \<times> 'w capi_heap) option" where
  "OH_CommonEvent_SetBoolToParameters L param key v = set_with param key (\<lambda>ps k. SetDataToParams L ps k (PrimBool v))"

definition OH_CommonEvent_SetCharToParameters ::
  "('w, 'o) want_lib \<Rightarrow> nat option \<Rightarrow> string option \<Rightarrow> char \<Rightarrow> 'w capi_heap \<Rightarrow> (err_code \<times> 'w capi_heap) option" where
  "OH_CommonEvent_SetCharToParameters L param key v = set_with param key (\<lambda>ps k. SetDataToParams L ps k (PrimChar v))"

definition OH_CommonEvent_SetDoubleToParameters ::
  "('w, 'o) want_lib \<Rightarrow> nat option \<Rightarrow> string option \<Rightarrow> uint64 \<Rightarrow> 'w capi_heap \<Rightarrow> (err_code \<times> 'w capi_heap) option" where
  "OH_CommonEvent_SetDoubleToParameters L param key v = set_with param key (\<lambda>ps k. SetDataToParams L ps k (PrimDouble v))"

text \<open>Arrays.  \<open>array\<close>: null, or a pointer whose content is given and returned.\<close>

definition get_array_with ::
  "('w, 'o) want_lib \<Rightarrow> bool \<Rightarrow> prim_type \<Rightarrow> nat option \<Rightarrow> string option \<Rightarrow> nat option option \<Rightarrow> 'w capi_heap \<Rightarrow>
     (int32 \<times> nat option option \<times> 'w capi_heap) option" where
  "get_array_with L ok t para key array h =
     (case array of
        None \<Rightarrow> Some (0, None, h)
      | Some old \<Rightarrow>
          with_params (0, array, h) para key
            (\<lambda>p ps k. let (n, a, h1) = GetDataArrayFromParams L ok t p ps k old h in (n, Some a, h1)) h)"

definition OH_CommonEvent_GetIntArrayFromParameters ::
  "('w, 'o) want_lib \<Rightarrow> bool \<Rightarrow> nat option \<Rightarrow> string option \<Rightarrow> nat option option \<Rightarrow> 'w capi_heap \<Rightarrow>
     (int32 \<times> nat option option \<times> 'w capi_heap) option" where
  "OH_CommonEvent_GetIntArrayFromParameters L ok = get_array_with L ok IInteger"

definition OH_CommonEvent_GetLongArrayFromParameters ::
  "('w, 'o) want_lib \<Rightarrow> bool \<Rightarrow> nat option \<Rightarrow> string option \<Rightarrow> nat option option \<Rightarrow> 'w capi_heap \<Rightarrow>
     (int32 \<times> nat option option \<times> 'w capi_heap) option" where
  "OH_CommonEvent_GetLongArrayFromParameters L ok = get_array_with L ok ILong"

definition OH_CommonEvent_GetBoolArrayFromParameters ::
  "('w, 'o) want_lib \<Rightarrow> bool \<Rightarrow> nat option \<Rightarrow> string option \<Rightarrow> nat option option \<Rightarrow> 'w capi_heap \<Rightarrow>
     (int32 \<times> nat option option \<times> 'w capi_heap) option" where
  "OH_CommonEvent_GetBoolArrayFromParameters L ok = get_array_with L ok IBoolean"

definition OH_CommonEvent_GetDoubleArrayFromParameters ::
  "('w, 'o) want_lib \<Rightarrow> bool \<Rightarrow> nat option \<Rightarrow> string option \<Rightarrow> nat option option \<Rightarrow> 'w capi_heap \<Rightarrow>
     (int32 \<times> nat option option \<times> 'w capi_heap) option" where
  "OH_CommonEvent_GetDoubleArrayFromParameters L ok = get_array_with L ok IDouble"

definition OH_CommonEvent_GetCharArrayFromParameters ::
  "('w, 'o) want_lib \<Rightarrow> bool \<Rightarrow> nat option \<Rightarrow> string option \<Rightarrow> nat option option \<Rightarrow> 'w capi_heap \<Rightarrow>
     (int32 \<times> nat option option \<times> 'w capi_heap) option" where
  "OH_CommonEvent_GetCharArrayFromParameters L ok para key array h =
     (case array of
        None \<Rightarrow> Some (0, None, h)
      | Some old \<Rightarrow>
          with_params (0, array, h) para key
            (\<lambda>p ps k. let (n, a, h1) = GetStringFromParams L ok p ps k old h in (n, Some a, h1)) h)"

text \<open>\<open>value\<close>: null, or the elements it points to, at least \<open>num\<close> of them.\<close>

definition set_array_with ::
  "('w, 'o) want_lib \<Rightarrow> prim_type \<Rightarrow> ('v \<Rightarrow> prim) \<Rightarrow> nat option \<Rightarrow> string option \<Rightarrow> 'v list option \<Rightarrow> nat \<Rightarrow> 'w capi_heap \<Rightarrow>
     (err_code \<times> 'w capi_heap) option" where
  "set_array_with L iid box param key vals num h =
     (if vals = None \<and> num > 0 then Some (COMMONEVENT_ERR_INVALID_PARAMETER, h)
      else set_with param key
        (\<lambda>ps k. SetDataArrayToParams L iid ps k (case vals of None \<Rightarrow> [] | Some xs \<Rightarrow> map box (take num xs))) h)"

definition OH_CommonEvent_SetIntArrayToParameters ::
  "('w, 'o) want_lib \<Rightarrow> nat option \<Rightarrow> string option \<Rightarrow> int32 list option \<Rightarrow> nat \<Rightarrow> 'w capi_heap \<Rightarrow>
     (err_code \<times> 'w capi_heap) option" where
  "OH_CommonEvent_SetIntArrayToParameters L = set_array_with L IInteger PrimInt"

definition OH_CommonEvent_SetLongArrayToParameters ::
  "('w, 'o) want_lib \<Rightarrow> nat option \<Rightarrow> string option \<Rightarrow> int64 list option \<Rightarrow> nat \<Rightarrow> 'w capi_heap \<Rightarrow>
     (err_code \<times> 'w capi_heap) option" where
  "OH_CommonEvent_SetLongArrayToParameters L = set_array_with L ILong PrimLong"

definition OH_CommonEvent_SetBoolArrayToParameters ::
  "('w, 'o) want_lib \<Rightarrow> nat option \<Rightarrow> string option \<Rightarrow> bool list option \<Rightarrow> nat \<Rightarrow> 'w capi_heap \<Rightarrow>
     (err_code \<times> 'w capi_heap) option" where
  "OH_CommonEvent_SetBoolArrayToParameters L = set_array_with L IBoolean PrimBool"

definition OH_CommonEvent_SetDoubleArrayToParameters ::
  "('w, 'o) want_lib \<Rightarrow> nat option \<Rightarrow> string option \<Rightarrow> uint64 list option \<Rightarrow> nat \<Rightarrow> 'w capi_heap \<Rightarrow>
     (err_code \<times> 'w capi_heap) option" where
  "OH_CommonEvent_SetDoubleArrayToParameters L = set_array_with L IDouble PrimDouble"

definition OH_CommonEvent_SetCharArrayToParameters ::
  "('w, 'o) want_lib \<Rightarrow> nat option \<Rightarrow> string option \<Rightarrow> string option \<Rightarrow> nat \<Rightarrow> 'w capi_heap \<Rightarrow>
     (err_code \<times> 'w capi_heap) option" where
  "OH_CommonEvent_SetCharArrayToParameters L param key v num h =
     (case v of
        None \<Rightarrow> Some (COMMONEVENT_ERR_INVALID_PARAMETER, h)
      | Some s \<Rightarrow> set_with param key (\<lambda>ps k. SetDataToParams L ps k (PrimString (take (min (length s) num) s))) h)"

end
