(* ===== verification/Capi_Subscriber.thy ===== *)
theory Capi_Subscriber
  imports Capi_Parameters Client_Library Parcel_Codecs
begin

text \<open>
  Subscribers and publications in the C interface (\<open>oh_commonevent_wrapper.cpp\<close> and
  \<open>oh_commonevent.cpp\<close>), on top of the client library.

  A \<open>CommonEvent_Subscriber*\<close> is the address of a \<open>shared_ptr\<close> to a \<open>SubscriberObserver\<close>:
  \<open>cp_handles\<close> maps it to the observer, which is a subscriber of the client library.  \<open>cp_callbacks\<close>
  is \<open>callback_\<close> of the observers, \<open>cp_cache\<close> is \<open>resultCache_\<close>.  This state and the service are
  one state behind the client library: \<open>capi_ops\<close> lifts the operations of the service to it.  A
  function of the interface that is given a pointer to nothing is undefined and \<open>None\<close>.  Objects of
  type \<open>CommonEvent_SubscribeInfo\<close> and \<open>CommonEvent_PublishInfo\<close> have one owner and are values; an
  allocation that may fail is an argument.
\<close>

section \<open>State\<close>

record CommonEvent_SubscribeInfo =
  csi_events :: "string list"
  csi_permission :: string
  csi_bundleName :: string

record CommonEvent_PublishInfo =
  cpi_ordered :: bool
  cpi_bundleName :: string
  cpi_subscriberPermissions :: "string list"
  cpi_code :: int32
  cpi_data :: string
  cpi_parameters :: "nat option"

record CommonEvent_RcvData =
  rcv_event :: string
  rcv_bundleName :: string
  rcv_code :: int32
  rcv_data :: string
  rcv_parameters :: "nat option"

record ResultCacheItem =
  ri_result :: "nat option"
  ri_data :: string

record 'w capi_state =
  cp_heap :: "'w capi_heap"
  cp_handles :: "nat \<Rightarrow> nat option"
  cp_callbacks :: "nat \<Rightarrow> nat option"
  cp_cache :: "(nat, ResultCacheItem) omap"
  cp_next :: nat

definition lift2 :: "('s \<Rightarrow> 'a \<times> 's) \<Rightarrow> 's \<times> 'k \<Rightarrow> 'a \<times> 's \<times> 'k" where
  "lift2 f = (\<lambda>(s, k). let (a, s1) = f s in (a, s1, k))"

definition lift3 :: "('s \<Rightarrow> 'a \<times> 'b \<times> 's) \<Rightarrow> 's \<times> 'k \<Rightarrow> 'a \<times> 'b \<times> 's \<times> 'k" where
  "lift3 f = (\<lambda>(s, k). let (a, b, s1) = f s in (a, b, s1, k))"

definition lift4 :: "('s \<Rightarrow> 'a \<times> 'b \<times> 'c \<times> 's) \<Rightarrow> 's \<times> 'k \<Rightarrow> 'a \<times> 'b \<times> 'c \<times> 's \<times> 'k" where
  "lift4 f = (\<lambda>(s, k). let (a, b, c, s1) = f s in (a, b, c, s1, k))"

definition capi_ops :: "'s svc_ops \<Rightarrow> ('s \<times> 'k) svc_ops" where
  "capi_ops X = \<lparr>sa_manager = sa_manager X \<circ> fst, sa_ability = sa_ability X \<circ> fst, sa_proxy = sa_proxy X \<circ> fst,
     sa_subscribe = lift2 (sa_subscribe X), sa_sleep = (\<lambda>t (s, k). (sa_sleep X t s, k)),
     os_main_runner = os_main_runner X \<circ> fst, os_alloc = os_alloc X \<circ> fst,
     px_publish = (\<lambda>d i u. lift3 (px_publish X d i u)),
     px_publish_listener = (\<lambda>d i l u. lift3 (px_publish_listener X d i l u)),
     px_publish_proxy = (\<lambda>d i w t u. lift3 (px_publish_proxy X d i w t u)),
     px_publish_proxy_listener = (\<lambda>d i l w t u. lift3 (px_publish_proxy_listener X d i l w t u)),
     px_subscribe = (\<lambda>i l n. lift3 (px_subscribe X i l n)),
     px_unsubscribe = (\<lambda>l. lift3 (px_unsubscribe X l)),
     px_unsubscribe_sync = (\<lambda>l. lift3 (px_unsubscribe_sync X l)),
     px_sticky = (\<lambda>e d. lift4 (px_sticky X e d)),
     px_finish = (\<lambda>l i t b. lift3 (px_finish X l i t b)),
     px_freeze = (\<lambda>u. lift3 (px_freeze X u)), px_unfreeze = (\<lambda>u. lift3 (px_unfreeze X u)),
     px_unfreeze_all = lift3 (px_unfreeze_all X), px_remove_sticky = (\<lambda>e. lift3 (px_remove_sticky X e)),
     px_static = (\<lambda>b. lift3 (px_static X b)), px_static_events = (\<lambda>es b. lift3 (px_static_events X es b)),
     px_dump = (\<lambda>n e u. lift4 (px_dump X n e u)), px_freeze_status = (\<lambda>ps b. lift3 (px_freeze_status X ps b))\<rparr>"

type_synonym ('s, 'w) capi_world = "client_state \<times> 's \<times> 'w capi_state"

section \<open>Subscribe information\<close>

text \<open>The array has at least \<open>eventsNum\<close> elements; with a negative number no element is read.\<close>

definition OH_CommonEvent_CreateSubscribeInfo ::
  "bool \<Rightarrow> string option list \<Rightarrow> int32 \<Rightarrow> CommonEvent_SubscribeInfo option" where
  "OH_CommonEvent_CreateSubscribeInfo ok events eventsNum =
     (if eventsNum = 0 then None
      else if \<not> ok then None
      else Some \<lparr>csi_events = concat (map (\<lambda>e. case e of None \<Rightarrow> [] | Some x \<Rightarrow> [x]) (take (nat eventsNum) events)),
                 csi_permission = [], csi_bundleName = []\<rparr>)"

definition text_or_empty :: "string option \<Rightarrow> string" where
  "text_or_empty x = (case x of None \<Rightarrow> [] | Some t \<Rightarrow> t)"

definition OH_CommonEvent_SetPublisherPermission ::
  "CommonEvent_SubscribeInfo option \<Rightarrow> string option \<Rightarrow> err_code \<times> CommonEvent_SubscribeInfo option" where
  "OH_CommonEvent_SetPublisherPermission info perm =
     (case info of
        None \<Rightarrow> (COMMONEVENT_ERR_INVALID_PARAMETER, None)
      | Some i \<Rightarrow> (COMMONEVENT_ERR_OK, Some (i\<lparr>csi_permission := text_or_empty perm\<rparr>)))"

definition OH_CommonEvent_SetPublisherBundleName ::
  "CommonEvent_SubscribeInfo option \<Rightarrow> string option \<Rightarrow> err_code \<times> CommonEvent_SubscribeInfo option" where
  "OH_CommonEvent_SetPublisherBundleName info bundle =
     (case info of
        None \<Rightarrow> (COMMONEVENT_ERR_INVALID_PARAMETER, None)
      | Some i \<Rightarrow> (COMMONEVENT_ERR_OK, Some (i\<lparr>csi_bundleName := text_or_empty bundle\<rparr>)))"

definition subscribe_info_of :: "CommonEvent_SubscribeInfo \<Rightarrow> CommonEventSubscribeInfo" where
  "subscribe_info_of i =
     (let matchingSkills = fold AddEvent (filter (\<lambda>e. e \<noteq> []) (csi_events i)) \<lparr>ms_entities = [], ms_events = [], ms_schemes = []\<rparr>;
          info = CommonEventSubscribeInfo_init\<lparr>si_matchingSkills := matchingSkills\<rparr>;
          info1 = (if csi_permission i \<noteq> [] then info\<lparr>si_permission := csi_permission i\<rparr> else info)
      in if csi_bundleName i \<noteq> [] then info1\<lparr>si_publisherBundleName := csi_bundleName i\<rparr> else info1)"

section \<open>SubscriberManager\<close>

definition CreateSubscriber_capi ::
  "bool \<Rightarrow> CommonEvent_SubscribeInfo option \<Rightarrow> nat option \<Rightarrow> ('s, 'w) capi_world \<Rightarrow> nat option \<times> ('s, 'w) capi_world" where
  "CreateSubscriber_capi ok subscribeInfo callback = (\<lambda>(c, s, k).
     (case subscribeInfo of
        None \<Rightarrow> (None, c, s, k)
      | Some i \<Rightarrow>
          (let observer = cp_next k;
               c1 = upd_subscriber observer (\<lambda>_. \<lparr>sr_info = subscribe_info_of i, sr_result = None\<rparr>) c;
               k1 = k\<lparr>cp_callbacks := (cp_callbacks k)(observer := callback), cp_next := observer + 1\<rparr>;
               handle = cp_next k1
           in if \<not> ok then (None, c1, s, k1)
              else (Some handle, c1, s, k1\<lparr>cp_handles := (cp_handles k1)(handle := Some observer), cp_next := handle + 1\<rparr>))))"

text \<open>The observer lives on while \<open>eventListeners_\<close> or \<open>resultCache_\<close> hold it.\<close>

definition DestroySubscriber_capi :: "nat option \<Rightarrow> ('s, 'w) capi_world \<Rightarrow> ('s, 'w) capi_world option" where
  "DestroySubscriber_capi subscriber = (\<lambda>(c, s, k).
     (case subscriber of
        None \<Rightarrow> Some (c, s, k)
      | Some p \<Rightarrow>
          if cp_handles k p = None then None else Some (c, s, k\<lparr>cp_handles := (cp_handles k)(p := None)\<rparr>)))"

definition with_observer ::
  "'r \<Rightarrow> nat option \<Rightarrow> (nat \<Rightarrow> ('s, 'w) capi_world \<Rightarrow> 'r \<times> ('s, 'w) capi_world) \<Rightarrow> ('s, 'w) capi_world \<Rightarrow>
     ('r \<times> ('s, 'w) capi_world) option" where
  "with_observer bad subscriber f = (\<lambda>(c, s, k).
     (case subscriber of
        None \<Rightarrow> Some (bad, c, s, k)
      | Some p \<Rightarrow> (case cp_handles k p of None \<Rightarrow> None | Some b \<Rightarrow> Some (f b (c, s, k)))))"

definition Subscribe_capi ::
  "'s svc_ops \<Rightarrow> nat option \<Rightarrow> ('s, 'w) capi_world \<Rightarrow> (err_code \<times> ('s, 'w) capi_world) option" where
  "Subscribe_capi X subscriber =
     with_observer COMMONEVENT_ERR_INVALID_PARAMETER subscriber
       (\<lambda>observer cs.
          let (ret, c, s, k) = SubscribeCommonEvent_client (capi_ops X) (Some observer) cs
          in if ret = ERR_NOTIFICATION_CES_COMMON_SYSTEMCAP_NOT_SUPPORT
             then (COMMONEVENT_ERR_SUBSCRIBER_NUM_EXCEEDED, c, s, k)
             else if ret \<noteq> ERR_OK then (ret, c, s, k)
             else (ret, c, s,
                   case map_of (cp_cache k) observer of
                     Some _ \<Rightarrow> k
                   | None \<Rightarrow> k\<lparr>cp_cache := omap_put observer \<lparr>ri_result = None, ri_data = []\<rparr> (cp_cache k)\<rparr>))"

definition UnSubscribe_capi ::
  "'s svc_ops \<Rightarrow> nat option \<Rightarrow> ('s, 'w) capi_world \<Rightarrow> (err_code \<times> ('s, 'w) capi_world) option" where
  "UnSubscribe_capi X subscriber =
     with_observer COMMONEVENT_ERR_INVALID_PARAMETER subscriber
       (\<lambda>observer cs.
          let (ret, c, s, k) = UnSubscribeCommonEvent_client (capi_ops X) (Some observer) cs
          in (ret, c, s, k\<lparr>cp_cache := AList.delete observer (cp_cache k)\<rparr>))"

definition SetAsyncResult :: "nat \<Rightarrow> ('s, 'w) capi_world \<Rightarrow> ('s, 'w) capi_world" where
  "SetAsyncResult subscriber = (\<lambda>(c, s, k).
     (case map_of (cp_cache k) subscriber of
        None \<Rightarrow> (c, s, k)
      | Some item \<Rightarrow>
          (let (res, c1) = GoAsyncCommonEvent subscriber c
           in (c1, s, k\<lparr>cp_cache := omap_put subscriber (item\<lparr>ri_result := res\<rparr>) (cp_cache k)\<rparr>))))"

definition GetAsyncResult :: "'w capi_state \<Rightarrow> nat \<Rightarrow> ResultCacheItem option" where
  "GetAsyncResult k subscriber = map_of (cp_cache k) subscriber"

text \<open>\<open>A\<close>: what the function at an address does when it is called with the event; \<open>ok1\<close>, \<open>ok2\<close>: the
  two allocations.  The blocks a callback got out of the parameters are not freed with them.\<close>

definition SubscriberObserver_OnReceiveEvent ::
  "('w, 'o) want_lib \<Rightarrow> (nat \<Rightarrow> CommonEvent_RcvData \<Rightarrow> ('s, 'w) capi_world \<Rightarrow> ('s, 'w) capi_world) \<Rightarrow> bool \<Rightarrow> bool \<Rightarrow>
     nat \<Rightarrow> CommonEventData \<Rightarrow> ('s, 'w) capi_world \<Rightarrow> ('s, 'w) capi_world" where
  "SubscriberObserver_OnReceiveEvent L A ok1 ok2 this d = (\<lambda>(c, s, k).
     (if \<not> ok1 then (c, s, k)
      else
        (let (c1, s1, k1) = (if IsOrderedCommonEvent_subscriber c this then SetAsyncResult this (c, s, k) else (c, s, k));
             p = ch_next (cp_heap k1)
         in if \<not> ok2 then (c1, s1, k1)
            else
              (let h = set_params p \<lparr>wantParams = wl_params L (w_params (cd_want d)), allocatedPointers = []\<rparr>
                     (cp_heap k1\<lparr>ch_next := p + 1\<rparr>);
                   cData = \<lparr>rcv_event = w_action (cd_want d), rcv_bundleName = w_bundle (cd_want d), rcv_code = cd_code d,
                            rcv_data = cd_data d, rcv_parameters = Some p\<rparr>;
                   (c2, s2, k2) = (case cp_callbacks k1 this of
                                     None \<Rightarrow> (c1, s1, k1\<lparr>cp_heap := h\<rparr>)
                                   | Some callback \<Rightarrow> A callback cData (c1, s1, k1\<lparr>cp_heap := h\<rparr>))
               in (c2, s2, k2\<lparr>cp_heap := cp_heap k2\<lparr>ch_params := (ch_params (cp_heap k2))(p := None)\<rparr>\<rparr>)))))"

definition OH_CommonEvent_CreateSubscriber ::
  "bool \<Rightarrow> CommonEvent_SubscribeInfo option \<Rightarrow> nat option \<Rightarrow> ('s, 'w) capi_world \<Rightarrow> nat option \<times> ('s, 'w) capi_world" where
  "OH_CommonEvent_CreateSubscriber = CreateSubscriber_capi"

definition OH_CommonEvent_DestroySubscriber :: "nat option \<Rightarrow> ('s, 'w) capi_world \<Rightarrow> ('s, 'w) capi_world option" where
  "OH_CommonEvent_DestroySubscriber = DestroySubscriber_capi"

definition OH_CommonEvent_Subscribe ::
  "'s svc_ops \<Rightarrow> nat option \<Rightarrow> ('s, 'w) capi_world \<Rightarrow> (err_code \<times> ('s, 'w) capi_world) option" where
  "OH_CommonEvent_Subscribe = Subscribe_capi"

definition OH_CommonEvent_UnSubscribe ::
  "'s svc_ops \<Rightarrow> nat option \<Rightarrow> ('s, 'w) capi_world \<Rightarrow> (err_code \<times> ('s, 'w) capi_world) option" where
  "OH_CommonEvent_UnSubscribe = UnSubscribe_capi"

section \<open>The event a callback gets\<close>

definition OH_CommonEvent_GetEventFromRcvData :: "CommonEvent_RcvData option \<Rightarrow> string option" where
  "OH_CommonEvent_GetEventFromRcvData = map_option rcv_event"

definition OH_CommonEvent_GetCodeFromRcvData :: "CommonEvent_RcvData option \<Rightarrow> int32" where
  "OH_CommonEvent_GetCodeFromRcvData rcvData = (case rcvData of None \<Rightarrow> 0 | Some d \<Rightarrow> rcv_code d)"

definition OH_CommonEvent_GetDataStrFromRcvData :: "CommonEvent_RcvData option \<Rightarrow> string option" where
  "OH_CommonEvent_GetDataStrFromRcvData = map_option rcv_data"

definition OH_CommonEvent_GetBundleNameFromRcvData :: "CommonEvent_RcvData option \<Rightarrow> string option" where
  "OH_CommonEvent_GetBundleNameFromRcvData = map_option rcv_bundleName"

definition OH_CommonEvent_GetParametersFromRcvData :: "CommonEvent_RcvData option \<Rightarrow> nat option" where
  "OH_CommonEvent_GetParametersFromRcvData rcvData = (case rcvData of None \<Rightarrow> None | Some d \<Rightarrow> rcv_parameters d)"

section \<open>Publishing\<close>

definition OH_CommonEvent_CreatePublishInfo :: "bool \<Rightarrow> bool \<Rightarrow> CommonEvent_PublishInfo option" where
  "OH_CommonEvent_CreatePublishInfo ok ord =
     (if \<not> ok then None
      else Some \<lparr>cpi_ordered = ord, cpi_bundleName = [], cpi_subscriberPermissions = [], cpi_code = 0, cpi_data = [],
                 cpi_parameters = None\<rparr>)"

definition set_publish_info ::
  "(CommonEvent_PublishInfo \<Rightarrow> CommonEvent_PublishInfo) \<Rightarrow> CommonEvent_PublishInfo option \<Rightarrow>
     err_code \<times> CommonEvent_PublishInfo option" where
  "set_publish_info f info =
     (case info of None \<Rightarrow> (COMMONEVENT_ERR_INVALID_PARAMETER, None) | Some i \<Rightarrow> (COMMONEVENT_ERR_OK, Some (f i)))"

definition OH_CommonEvent_SetPublishInfoBundleName ::
  "CommonEvent_PublishInfo option \<Rightarrow> string option \<Rightarrow> err_code \<times> CommonEvent_PublishInfo option" where
  "OH_CommonEvent_SetPublishInfoBundleName info bundle =
     set_publish_info (\<lambda>i. i\<lparr>cpi_bundleName := text_or_empty bundle\<rparr>) info"

definition OH_CommonEvent_SetPublishInfoPermissions ::
  "CommonEvent_PublishInfo option \<Rightarrow> string option list \<Rightarrow> int32 \<Rightarrow> err_code \<times> CommonEvent_PublishInfo option" where
  "OH_CommonEvent_SetPublishInfoPermissions info permissions num =
     set_publish_info (\<lambda>i. i\<lparr>cpi_subscriberPermissions :=
       concat (map (\<lambda>e. case e of None \<Rightarrow> [] | Some x \<Rightarrow> [x]) (take (nat num) permissions))\<rparr>) info"

definition OH_CommonEvent_SetPublishInfoCode ::
  "CommonEvent_PublishInfo option \<Rightarrow> int32 \<Rightarrow> err_code \<times> CommonEvent_PublishInfo option" where
  "OH_CommonEvent_SetPublishInfoCode info code = set_publish_info (\<lambda>i. i\<lparr>cpi_code := code\<rparr>) info"

definition OH_CommonEvent_SetPublishInfoData ::
  "CommonEvent_PublishInfo option \<Rightarrow> string option \<Rightarrow> nat \<Rightarrow> err_code \<times> CommonEvent_PublishInfo option" where
  "OH_CommonEvent_SetPublishInfoData info data len =
     set_publish_info (\<lambda>i. i\<lparr>cpi_data := (case data of None \<Rightarrow> [] | Some t \<Rightarrow> take (min (length t) len) t)\<rparr>) info"

definition OH_CommonEvent_SetPublishInfoParameters ::
  "CommonEvent_PublishInfo option \<Rightarrow> nat option \<Rightarrow> err_code \<times> CommonEvent_PublishInfo option" where
  "OH_CommonEvent_SetPublishInfoParameters info param = set_publish_info (\<lambda>i. i\<lparr>cpi_parameters := param\<rparr>) info"

definition want_named :: "string \<Rightarrow> Want" where
  "want_named event = \<lparr>w_action = event, w_entities = [], w_scheme = [], w_bundle = [], w_ability = [], w_params = [],
     w_uri = [], w_flags = 0, w_type = []\<rparr>"

definition OH_CommonEvent_Publish ::
  "'s svc_ops \<Rightarrow> string option \<Rightarrow> ('s, 'w) capi_world \<Rightarrow> err_code \<times> ('s, 'w) capi_world" where
  "OH_CommonEvent_Publish X event cs =
     (case event of
        None \<Rightarrow> (COMMONEVENT_ERR_INVALID_PARAMETER, cs)
      | Some e \<Rightarrow> NewPublishCommonEvent (capi_ops X) \<lparr>cd_want = want_named e, cd_code = 0, cd_data = []\<rparr>
                    CommonEventPublishInfo_init cs)"

definition OH_CommonEvent_PublishWithInfo ::
  "('w, 'o) want_lib \<Rightarrow> 's svc_ops \<Rightarrow> string option \<Rightarrow> CommonEvent_PublishInfo option \<Rightarrow> ('s, 'w) capi_world \<Rightarrow>
     (err_code \<times> ('s, 'w) capi_world) option" where
  "OH_CommonEvent_PublishWithInfo L X event info cs =
     (case event of
        None \<Rightarrow> Some (COMMONEVENT_ERR_INVALID_PARAMETER, cs)
      | Some e \<Rightarrow>
          (case info of
             None \<Rightarrow> Some (COMMONEVENT_ERR_INVALID_PARAMETER, cs)
           | Some i \<Rightarrow>
               map_option
                 (\<lambda>params. NewPublishCommonEvent (capi_ops X)
                    \<lparr>cd_want = (want_named e)\<lparr>w_params := params\<rparr>, cd_code = cpi_code i, cd_data = cpi_data i\<rparr>
                    (CommonEventPublishInfo_init\<lparr>pi_subscriberPermissions := cpi_subscriberPermissions i,
                       pi_ordered := cpi_ordered i, pi_bundleName := cpi_bundleName i\<rparr>) cs)
                 (case cpi_parameters i of
                    None \<Rightarrow> Some []
                  | Some p \<Rightarrow> map_option (\<lambda>ps. wl_entries L (wantParams ps)) (ch_params (cp_heap (snd (snd cs))) p))))"

section \<open>The result of an ordered event\<close>

text \<open>\<open>with_item\<close>: what every function below does with \<open>GetAsyncResult\<close>.\<close>

definition with_item ::
  "'r \<Rightarrow> (nat \<Rightarrow> nat \<Rightarrow> ResultCacheItem \<Rightarrow> ('s, 'w) capi_world \<Rightarrow> 'r \<times> ('s, 'w) capi_world) \<Rightarrow> nat option \<Rightarrow>
     ('s, 'w) capi_world \<Rightarrow> ('r \<times> ('s, 'w) capi_world) option" where
  "with_item dflt f subscriber =
     with_observer dflt subscriber
       (\<lambda>observer (c, s, k).
          case GetAsyncResult k observer of
            None \<Rightarrow> (dflt, c, s, k)
          | Some item \<Rightarrow> (case ri_result item of None \<Rightarrow> (dflt, c, s, k) | Some r \<Rightarrow> f observer r item (c, s, k)))"

definition change_result ::
  "(AsyncCommonEventResult \<Rightarrow> bool \<times> AsyncCommonEventResult) \<Rightarrow> nat option \<Rightarrow> ('s, 'w) capi_world \<Rightarrow>
     (bool \<times> ('s, 'w) capi_world) option" where
  "change_result f =
     with_item False (\<lambda>observer r item (c, s, k). let (ok, a) = f (cc_results c r) in (ok, upd_result r (\<lambda>_. a) c, s, k))"

definition OH_CommonEvent_IsOrderedCommonEvent :: "nat option \<Rightarrow> ('s, 'w) capi_world \<Rightarrow> bool option" where
  "OH_CommonEvent_IsOrderedCommonEvent subscriber cs =
     map_option fst (with_observer False subscriber
       (\<lambda>observer (c, s, k).
          (case GetAsyncResult k observer of
             None \<Rightarrow> IsOrderedCommonEvent_subscriber c observer
           | Some item \<Rightarrow>
               (case ri_result item of
                  None \<Rightarrow> IsOrderedCommonEvent_subscriber c observer
                | Some r \<Rightarrow> ar_ordered (cc_results c r)), c, s, k)) cs)"

definition OH_CommonEvent_FinishCommonEvent ::
  "'s svc_ops \<Rightarrow> nat option \<Rightarrow> ('s, 'w) capi_world \<Rightarrow> (bool \<times> ('s, 'w) capi_world) option" where
  "OH_CommonEvent_FinishCommonEvent X = with_item False (\<lambda>observer r item. FinishCommonEvent (capi_ops X) r)"

definition OH_CommonEvent_GetAbortCommonEvent :: "nat option \<Rightarrow> ('s, 'w) capi_world \<Rightarrow> bool option" where
  "OH_CommonEvent_GetAbortCommonEvent subscriber cs =
     map_option fst (with_item False
       (\<lambda>observer r item (c, s, k). (ar_abort (cc_results c r), c, s, k)) subscriber cs)"

definition OH_CommonEvent_AbortCommonEvent ::
  "nat option \<Rightarrow> ('s, 'w) capi_world \<Rightarrow> (bool \<times> ('s, 'w) capi_world) option" where
  "OH_CommonEvent_AbortCommonEvent = change_result AbortCommonEvent_result"

definition OH_CommonEvent_ClearAbortCommonEvent ::
  "nat option \<Rightarrow> ('s, 'w) capi_world \<Rightarrow> (bool \<times> ('s, 'w) capi_world) option" where
  "OH_CommonEvent_ClearAbortCommonEvent = change_result ClearAbortCommonEvent_result"

definition OH_CommonEvent_GetCodeFromSubscriber :: "nat option \<Rightarrow> ('s, 'w) capi_world \<Rightarrow> int32 option" where
  "OH_CommonEvent_GetCodeFromSubscriber subscriber cs =
     map_option fst (with_item 0 (\<lambda>observer r item (c, s, k). (ar_code (cc_results c r), c, s, k)) subscriber cs)"

definition OH_CommonEvent_SetCodeToSubscriber ::
  "nat option \<Rightarrow> int32 \<Rightarrow> ('s, 'w) capi_world \<Rightarrow> (bool \<times> ('s, 'w) capi_world) option" where
  "OH_CommonEvent_SetCodeToSubscriber subscriber code = change_result (SetCode_result code) subscriber"

definition OH_CommonEvent_GetDataFromSubscriber ::
  "nat option \<Rightarrow> ('s, 'w) capi_world \<Rightarrow> (string option \<times> ('s, 'w) capi_world) option" where
  "OH_CommonEvent_GetDataFromSubscriber =
     with_item None (\<lambda>observer r item (c, s, k).
       let txt' = ar_data (cc_results c r)
       in (Some txt', c, s, k\<lparr>cp_cache := omap_put observer (item\<lparr>ri_data := txt'\<rparr>) (cp_cache k)\<rparr>))"

definition OH_CommonEvent_SetDataToSubscriber ::
  "nat option \<Rightarrow> string option \<Rightarrow> nat \<Rightarrow> ('s, 'w) capi_world \<Rightarrow> (bool \<times> ('s, 'w) capi_world) option" where
  "OH_CommonEvent_SetDataToSubscriber subscriber data len cs =
     (case data of
        None \<Rightarrow> Some (False, cs)
      | Some t \<Rightarrow> change_result (SetData_result (take (min (length t) len) t)) subscriber cs)"

end
