(* ===== verification/Kept_Results.thy ===== *)
theory Kept_Results
  imports Capi_Subscriber Client_Props
begin

text \<open>
  A result of an ordered event that a binding keeps for the application: taken out of the subscriber
  with \<open>GoAsyncCommonEvent\<close> when the event arrives, changed by the application, finished once.  The
  C interface and the JavaScript interface both work this way; the lemmas here are about the client
  library under either.
\<close>

section \<open>The service behind a binding\<close>

lemma capi_ops_proxy [simp]: "GetCommonEventProxy (capi_ops X) (s, k) = GetCommonEventProxy X s"
  by (simp add: GetCommonEventProxy_def capi_ops_def)

lemma capi_ops_px [simp]:
  "px_finish (capi_ops X) l i t ab = lift3 (px_finish X l i t ab)"
  "px_subscribe (capi_ops X) info l n = lift3 (px_subscribe X info l n)"
  "px_unsubscribe (capi_ops X) l = lift3 (px_unsubscribe X l)"
  "px_publish (capi_ops X) d pinfo u = lift3 (px_publish X d pinfo u)"
  by (simp_all add: capi_ops_def)

lemma capi_ops_finish [simp]:
  "FinishReceiver_client (capi_ops X) l i t ab (s, k) =
    (let (ok, s1) = FinishReceiver_client X l i t ab s in (ok, s1, k))"
  by (simp add: FinishReceiver_client_def ok_or_def lift3_def Let_def split: prod.split)

section \<open>A kept result\<close>

definition kept :: "nat \<Rightarrow> nat \<Rightarrow> nat \<Rightarrow> int32 \<times> string \<times> bool \<Rightarrow> client_state \<Rightarrow> bool" where
  "kept b r l a c \<longleftrightarrow> sr_result (cc_subscribers c b) = None \<and> ln_alive (cc_listeners c l) \<and> result_is c r l a"

text \<open>What a call of the application does to the result.\<close>

fun setter :: "subscriber_call \<Rightarrow> AsyncCommonEventResult \<Rightarrow> bool \<times> AsyncCommonEventResult" where
  "setter (CallSetCode i) = SetCode_result i"
| "setter (CallSetData t) = SetData_result t"
| "setter (CallSetCodeAndData i t) = SetCodeAndData_result i t"
| "setter CallAbort = AbortCommonEvent_result"
| "setter CallClearAbort = ClearAbortCommonEvent_result"
| "setter CallGoAsync = Pair False"

lemma kept_setter:
  assumes "kept b r l a c" and "x \<noteq> CallGoAsync" and "setter x (cc_results c r) = (ok, y)"
  shows "ok \<and> kept b r l (answer_of [x] a) (upd_result r (\<lambda>_. y) c)"
proof -
  obtain i t ab where a: "a = (i, t, ab)" by (cases a)
  have "ar_ordered (cc_results c r)" using assms(1) by (simp add: kept_def result_is_def a)
  then show ?thesis
    using assms
    by (cases x) (auto simp: a kept_def result_is_def result_defs CheckSynchronous_result_def upd_result_def)
qed

lemma kept_start:
  assumes "ln_alive (cc_listeners c l)"
  shows "\<exists>c1. GoAsyncCommonEvent b (callback_state l b d True sticky c) = (Some (cc_next c), c1) \<and>
    kept b (cc_next c) l (cd_code d, cd_data d, False) c1"
  using assms
  by (simp add: GoAsyncCommonEvent_def kept_def callback_state_def client_upd_defs SetAsyncCommonEventResult_def
    result_is_def AsyncCommonEventResult_new_def)

lemma callback_state_ordered: "IsOrderedCommonEvent_subscriber (callback_state l b d True sticky c) b"
  by (simp add: IsOrderedCommonEvent_subscriber_def callback_state_def client_upd_defs SetAsyncCommonEventResult_def
    AsyncCommonEventResult_new_def)

text \<open>The library itself does not finish the event when the callback returns.\<close>

lemma kept_not_finished:
  assumes "ln_subscriber (cc_listeners c l) = Some b"
    and "app (callback_state l b d True sticky c, s) = (c1, s1)" and "kept b r l a c1"
  shows "OnReceiveEvent X app l d True sticky (c, s) = (c1, s1)"
  using OnReceiveEvent_runs [OF assms(1), where app = app and ord = True and sticky = sticky and s = s and d = d and X = X] assms(2,3)
  by (simp add: kept_def)

lemma kept_finish:
  fixes k :: 'k
  assumes "kept b r l (code, str, ab) c"
  shows "\<exists>c1. FinishCommonEvent (capi_ops X) r (c, s, k) =
      (let (ok, s1) = FinishReceiver_client X (Some l) code str ab s in (ok, c1, s1, k)) \<and>
    (\<forall>s1 (k1 :: 'k). FinishCommonEvent (capi_ops X) r (c1, s1, k1) = (False, c1, s1, k1))"
  using assms
  by (auto simp: FinishCommonEvent_def kept_def result_is_def CheckSynchronous_result_def promote_def Let_def
    client_upd_defs split: prod.split)

section \<open>Sequences of calls\<close>

lemma answer_of_Cons: "x \<noteq> CallGoAsync \<Longrightarrow> answer_of (x # xs) a = answer_of xs (answer_of [x] a)"
  by (cases x; cases a) simp_all

lemma answer_of_append: "CallGoAsync \<notin> set xs \<Longrightarrow> answer_of ys (answer_of xs a) = answer_of (xs @ ys) a"
proof (induction xs arbitrary: a)
  case (Cons x xs)
  have x: "x \<noteq> CallGoAsync" using Cons.prems by auto
  have "answer_of ys (answer_of (x # xs) a) = answer_of ys (answer_of xs (answer_of [x] a))"
    by (simp only: answer_of_Cons [OF x, of xs])
  also have "\<dots> = answer_of (xs @ ys) (answer_of [x] a)" using Cons by simp
  also have "\<dots> = answer_of ((x # xs) @ ys) a" using answer_of_Cons [OF x, of "xs @ ys" a] by simp
  finally show ?case .
qed simp

end
