(* ===== verification/Capi_Memory.thy ===== *)
theory Capi_Memory
  imports Capi_Parameters
begin

text \<open>
  What the C interface promises about parameters: an array that was set is read back, and every
  block of memory it hands out belongs to one object of parameters, which frees it.
\<close>

section \<open>Reading back\<close>

lemma put_all_content:
  assumes "want_lawful L g" and "g a = Some (t, xs)" and "i + length vs \<le> length xs" and "\<forall>v \<in> set vs. type_of_prim v = t"
  shows "g (put_all L i vs a) = Some (t, take i xs @ map (Some \<circ> wl_box L) vs @ drop (i + length vs) xs)"
  using assms(2-)
proof (induction vs arbitrary: i a xs)
  case (Cons v vs)
  let ?xs = "xs[i := Some (wl_box L v)]"
  have "g (wl_put L i (wl_box L v) a) = Some (t, ?xs)"
    using assms(1) Cons.prems by (auto simp: want_lawful_def)
  then have "g (put_all L i (v # vs) a) = Some (t, take (i + 1) ?xs @ map (Some \<circ> wl_box L) vs @ drop (i + 1 + length vs) ?xs)"
    using Cons.IH [of "wl_put L i (wl_box L v) a" ?xs "i + 1"] Cons.prems by simp
  moreover have "take (i + 1) ?xs = take i xs @ [Some (wl_box L v)]"
    using Cons.prems by (simp add: take_Suc_conv_app_nth)
  ultimately show ?case by simp
qed simp

lemma array_filled:
  assumes law: "want_lawful L g" and a: "wl_array L (length vs) t = Some a" and t: "\<forall>v \<in> set vs. type_of_prim v = t"
  shows "wl_is_array L (Some (put_all L 0 vs a)) \<and> wl_length L (put_all L 0 vs a) = Some (length vs) \<and>
    array_cells L u (put_all L 0 vs a) (length vs) = map (\<lambda>v. if type_of_prim v = u then Some v else None) vs"
proof -
  let ?b = "put_all L 0 vs a"
  have "g a = Some (t, replicate (length vs) None)" using law a by (simp add: want_lawful_def)
  then have g: "g ?b = Some (t, map (Some \<circ> wl_box L) vs)"
    using put_all_content [OF law, of a t "replicate (length vs) None" 0 vs] t by simp
  then have b: "wl_is_array L (Some ?b)" "wl_length L ?b = Some (length vs)"
    "\<And>i. i < length vs \<Longrightarrow> wl_at L i ?b = Some (wl_box L (vs ! i))"
    using law by (fastforce simp: want_lawful_def)+
  have q: "wl_query L u (Some (wl_box L v)) = (if type_of_prim v = u then Some v else None)" for v
    using law by (simp add: want_lawful_def)
  have "array_cells L u ?b (length vs) = map (\<lambda>v. if type_of_prim v = u then Some v else None) vs"
    by (rule nth_equalityI) (simp_all add: array_cells_def b(3) q)
  then show ?thesis using b by simp
qed

lemma set_with_live:
  "ch_params h p = Some ps \<Longrightarrow> set_with (Some p) (Some k) f h = Some (fst (f ps k), set_params p (snd (f ps k)) h)"
  by (simp add: set_with_def with_params_def split_beta)

lemma sint_small: "n < 2 ^ 31 \<Longrightarrow> to_int32 (word_of_nat n) = int n"
proof -
  assume n: "n < 2 ^ 31"
  have "sint (word_of_int (int n) :: 32 word) = signed_take_bit 31 (int n)" unfolding sint_sbintrunc' by simp
  also have "\<dots> = int n" using n by (intro signed_take_bit_int_eq_self) simp_all
  finally show ?thesis by (simp add: to_int32_def)
qed

lemma array_read_back:
  assumes law: "want_lawful L g" and live: "ch_params h p = Some ps" and a: "wl_array L (length vals) t \<noteq> None"
    and n: "length vals < 2 ^ 31" and t: "\<And>v. type_of_prim (box v) = t"
  shows "\<exists>h1 h2. set_array_with L t box (Some p) (Some k) (Some vals) (length vals) h = Some (COMMONEVENT_ERR_OK, h1) \<and>
    get_array_with L True u (Some p) (Some k) (Some old) h1 = Some (int (length vals), Some (Some (ch_next h)), h2) \<and>
    ch_blocks h2 (ch_next h) = Some (ArrayBlock (map (\<lambda>v. if t = u then Some (box v) else None) vals))"
proof -
  obtain a where a: "wl_array L (length vals) t = Some a" using a by blast
  let ?b = "put_all L 0 (map box vals) a"
  have b: "wl_is_array L (Some ?b)" "wl_length L ?b = Some (length vals)"
    "array_cells L u ?b (length vals) = map (\<lambda>v. if t = u then Some (box v) else None) vals"
    using array_filled [OF law, of "map box vals" t a u] a t by (simp_all add: comp_def)
  let ?ps = "ps\<lparr>wantParams := wl_set L k ?b (wantParams ps)\<rparr>"
  let ?h1 = "set_params p ?ps h"
  have set: "set_array_with L t box (Some p) (Some k) (Some vals) (length vals) h = Some (COMMONEVENT_ERR_OK, ?h1)"
    by (simp add: set_array_with_def set_with_live [OF live] SetDataArrayToParams_def a)
  have "wl_get L (wl_set L k ?b (wantParams ps)) k = Some ?b" using law by (simp add: want_lawful_def)
  then show ?thesis
    using set b n by (simp add: get_array_with_def with_params_def set_params_def GetDataArrayFromParams_def malloc_def
      sint_small Let_def)
qed

text \<open>An array that was set is read back.  If the library for parameters keeps its promises and
  memory is available, then after \<open>OH_CommonEvent_Set...ArrayToParameters\<close> with fewer than \<open>2^31\<close>
  integers, longs, booleans or doubles for a key, the function that gets the array of that type under the
  key returns their number and the address of a new block that holds exactly these values, every cell
  of it written; a string comes back in a block with its length and terminator.\<close>

theorem capi_arrays_roundtrip:
  assumes "want_lawful L g" and "ch_params h p = Some ps" and "\<forall>n t. wl_array L n t \<noteq> None"
    and "length is < 2 ^ 31" and "length ls < 2 ^ 31" and "length bs < 2 ^ 31" and "length ds < 2 ^ 31" and "length s < 2 ^ 31 - 1"
  shows "(\<exists>h1 h2. OH_CommonEvent_SetIntArrayToParameters L (Some p) (Some k) (Some is) (length is) h = Some (COMMONEVENT_ERR_OK, h1) \<and>
      OH_CommonEvent_GetIntArrayFromParameters L True (Some p) (Some k) (Some old) h1 = Some (int (length is), Some (Some (ch_next h)), h2) \<and>
      ch_blocks h2 (ch_next h) = Some (ArrayBlock (map (Some \<circ> PrimInt) is))) \<and>
    (\<exists>h1 h2. OH_CommonEvent_SetLongArrayToParameters L (Some p) (Some k) (Some ls) (length ls) h = Some (COMMONEVENT_ERR_OK, h1) \<and>
      OH_CommonEvent_GetLongArrayFromParameters L True (Some p) (Some k) (Some old) h1 = Some (int (length ls), Some (Some (ch_next h)), h2) \<and>
      ch_blocks h2 (ch_next h) = Some (ArrayBlock (map (Some \<circ> PrimLong) ls))) \<and>
    (\<exists>h1 h2. OH_CommonEvent_SetBoolArrayToParameters L (Some p) (Some k) (Some bs) (length bs) h = Some (COMMONEVENT_ERR_OK, h1) \<and>
      OH_CommonEvent_GetBoolArrayFromParameters L True (Some p) (Some k) (Some old) h1 = Some (int (length bs), Some (Some (ch_next h)), h2) \<and>
      ch_blocks h2 (ch_next h) = Some (ArrayBlock (map (Some \<circ> PrimBool) bs))) \<and>
    (\<exists>h1 h2. OH_CommonEvent_SetDoubleArrayToParameters L (Some p) (Some k) (Some ds) (length ds) h = Some (COMMONEVENT_ERR_OK, h1) \<and>
      OH_CommonEvent_GetDoubleArrayFromParameters L True (Some p) (Some k) (Some old) h1 = Some (int (length ds), Some (Some (ch_next h)), h2) \<and>
      ch_blocks h2 (ch_next h) = Some (ArrayBlock (map (Some \<circ> PrimDouble) ds))) \<and>
    (\<exists>h1 h2. OH_CommonEvent_SetCharArrayToParameters L (Some p) (Some k) (Some s) (length s) h = Some (COMMONEVENT_ERR_OK, h1) \<and>
      OH_CommonEvent_GetCharArrayFromParameters L True (Some p) (Some k) (Some old) h1 = Some (int (length s) + 1, Some (Some (ch_next h)), h2) \<and>
      ch_blocks h2 (ch_next h) = Some (StringBlock s))"
proof -
  note arr = array_read_back [OF assms(1,2)]
  have q: "wl_query L IString (wl_get L (wl_set L k (wl_box L (PrimString s)) w) k) = Some (PrimString s)" for w
    using assms(1) by (simp add: want_lawful_def)
  have len: "to_int32 (1 + word_of_nat (length s)) = int (length s) + 1"
    using sint_small [of "length s + 1"] assms(8) by simp
  show ?thesis
    unfolding OH_CommonEvent_SetIntArrayToParameters_def OH_CommonEvent_GetIntArrayFromParameters_def
      OH_CommonEvent_SetLongArrayToParameters_def OH_CommonEvent_GetLongArrayFromParameters_def
      OH_CommonEvent_SetBoolArrayToParameters_def OH_CommonEvent_GetBoolArrayFromParameters_def
      OH_CommonEvent_SetDoubleArrayToParameters_def OH_CommonEvent_GetDoubleArrayFromParameters_def
    using arr [of "is" IInteger PrimInt k IInteger old] arr [of ls ILong PrimLong k ILong old]
      arr [of bs IBoolean PrimBool k IBoolean old] arr [of ds IDouble PrimDouble k IDouble old] assms(3-7)
    by (simp add: comp_def OH_CommonEvent_SetCharArrayToParameters_def OH_CommonEvent_GetCharArrayFromParameters_def
      set_with_live [OF assms(2)] SetDataToParams_def with_params_def set_params_def GetStringFromParams_def q malloc_def len)
qed

text \<open>An array read as another type has the right length, and cells nobody has written.\<close>

lemma other_type_reads_garbage:
  assumes "want_lawful L g" and "ch_params h p = Some ps" and "\<forall>n t. wl_array L n t \<noteq> None" and "length is < 2 ^ 31"
  shows "\<exists>h1 h2. OH_CommonEvent_SetIntArrayToParameters L (Some p) (Some k) (Some is) (length is) h = Some (COMMONEVENT_ERR_OK, h1) \<and>
      OH_CommonEvent_GetLongArrayFromParameters L True (Some p) (Some k) (Some old) h1 = Some (int (length is), Some (Some (ch_next h)), h2) \<and>
      ch_blocks h2 (ch_next h) = Some (ArrayBlock (map (\<lambda>_. None) is))"
  using array_read_back [OF assms(1,2), of "is" IInteger PrimInt k ILong old] assms(3,4)
  by (simp add: OH_CommonEvent_SetIntArrayToParameters_def OH_CommonEvent_GetLongArrayFromParameters_def)

section \<open>A library to apply the properties to\<close>

datatype demo_object = DPrim prim | DArray prim_type "demo_object option list"

fun demo_put :: "nat \<Rightarrow> demo_object \<Rightarrow> demo_object \<Rightarrow> demo_object" where
  "demo_put i x (DArray t xs) = DArray t (xs[i := Some x])"
| "demo_put i x y = y"

fun demo_content :: "demo_object \<Rightarrow> (prim_type \<times> demo_object option list) option" where
  "demo_content (DArray t xs) = Some (t, xs)"
| "demo_content _ = None"

fun demo_query :: "prim_type \<Rightarrow> demo_object option \<Rightarrow> prim option" where
  "demo_query t (Some (DPrim v)) = (if type_of_prim v = t then Some v else None)"
| "demo_query t _ = None"

definition demo_lib :: "((string, demo_object) umap, demo_object) want_lib" where
  "demo_lib = \<lparr>wl_empty = [], wl_has = (\<lambda>w k. map_of w k \<noteq> None), wl_get = map_of, wl_set = AList.update, wl_box = DPrim,
     wl_query = demo_query, wl_array = (\<lambda>n t. Some (DArray t (replicate n None))), wl_put = demo_put,
     wl_is_array = (\<lambda>x. case x of None \<Rightarrow> False | Some y \<Rightarrow> demo_content y \<noteq> None),
     wl_length = (\<lambda>a. map_option (length \<circ> snd) (demo_content a)),
     wl_at = (\<lambda>i a. case demo_content a of None \<Rightarrow> None | Some (t, xs) \<Rightarrow> xs ! i),
     wl_entries = (\<lambda>_. []), wl_params = (\<lambda>_. [])\<rparr>"

lemma demo_content_Some: "demo_content a = Some (t, xs) \<Longrightarrow> a = DArray t xs"
  by (cases a) simp_all

lemma demo_lib_lawful: "want_lawful demo_lib demo_content"
  by (auto simp: want_lawful_def demo_lib_def update_conv' dest!: demo_content_Some)

definition demo_heap :: "(string, demo_object) umap capi_heap" where
  "demo_heap = snd (OH_CommonEvent_CreateParameters demo_lib True \<lparr>ch_params = (\<lambda>_. None), ch_blocks = (\<lambda>_. None), ch_next = 0\<rparr>)"

theorem capi_arrays_roundtrip_instance:
  "\<exists>h1 h2. OH_CommonEvent_SetIntArrayToParameters demo_lib (Some 0) (Some ''k'') (Some [-5]) 1 demo_heap = Some (COMMONEVENT_ERR_OK, h1) \<and>
      OH_CommonEvent_GetIntArrayFromParameters demo_lib True (Some 0) (Some ''k'') (Some None) h1 = Some (1, Some (Some 1), h2) \<and>
      ch_blocks h2 1 = Some (ArrayBlock [Some (PrimInt (-5))])"
proof -
  have "ch_params demo_heap 0 = Some \<lparr>wantParams = [], allocatedPointers = []\<rparr>" "ch_next demo_heap = 1"
    by (simp_all add: demo_heap_def OH_CommonEvent_CreateParameters_def set_params_def demo_lib_def)
  moreover have "\<forall>n t. wl_array demo_lib n t \<noteq> None" by (simp add: demo_lib_def)
  ultimately show ?thesis
    using capi_arrays_roundtrip [OF demo_lib_lawful, of demo_heap 0 _ "[-5]" "[]" "[]" "[]" "[]" "''k''" None] by simp
qed

section \<open>Who owns the memory\<close>

definition owns :: "'w capi_heap \<Rightarrow> nat \<Rightarrow> nat \<Rightarrow> bool" where
  "owns h p a \<longleftrightarrow> (\<exists>ps. ch_params h p = Some ps \<and> a \<in> set (allocatedPointers ps))"

definition mem_ok :: "'w capi_heap \<Rightarrow> bool" where
  "mem_ok h \<longleftrightarrow>
     (\<forall>p ps. ch_params h p = Some ps \<longrightarrow> p < ch_next h \<and> distinct (allocatedPointers ps)) \<and>
     (\<forall>a. ch_blocks h a \<noteq> None \<longrightarrow> a < ch_next h) \<and>
     (\<forall>a. ch_blocks h a \<noteq> None \<longleftrightarrow> (\<exists>p. owns h p a)) \<and>
     (\<forall>p q a. owns h p a \<longrightarrow> owns h q a \<longrightarrow> p = q)"

text \<open>Any use of the interface: the functions above, applied to objects that exist.\<close>

inductive capi_use :: "('w, 'o) want_lib \<Rightarrow> 'w capi_heap \<Rightarrow> 'w capi_heap \<Rightarrow> bool" for L where
  create: "capi_use L h (snd (OH_CommonEvent_CreateParameters L ok h))"
| destroy: "OH_CommonEvent_DestroyParameters param h = Some h' \<Longrightarrow> capi_use L h h'"
| set_int: "OH_CommonEvent_SetIntToParameters L param key i h = Some (r, h') \<Longrightarrow> capi_use L h h'"
| set_long: "OH_CommonEvent_SetLongToParameters L param key i h = Some (r, h') \<Longrightarrow> capi_use L h h'"
| set_bool: "OH_CommonEvent_SetBoolToParameters L param key b h = Some (r, h') \<Longrightarrow> capi_use L h h'"
| set_char: "OH_CommonEvent_SetCharToParameters L param key ch h = Some (r, h') \<Longrightarrow> capi_use L h h'"
| set_double: "OH_CommonEvent_SetDoubleToParameters L param key d h = Some (r, h') \<Longrightarrow> capi_use L h h'"
| set_ints: "OH_CommonEvent_SetIntArrayToParameters L param key is n h = Some (r, h') \<Longrightarrow> capi_use L h h'"
| set_longs: "OH_CommonEvent_SetLongArrayToParameters L param key ls n h = Some (r, h') \<Longrightarrow> capi_use L h h'"
| set_bools: "OH_CommonEvent_SetBoolArrayToParameters L param key bs n h = Some (r, h') \<Longrightarrow> capi_use L h h'"
| set_doubles: "OH_CommonEvent_SetDoubleArrayToParameters L param key ds n h = Some (r, h') \<Longrightarrow> capi_use L h h'"
| set_chars: "OH_CommonEvent_SetCharArrayToParameters L param key str n h = Some (r, h') \<Longrightarrow> capi_use L h h'"
| get_ints: "OH_CommonEvent_GetIntArrayFromParameters L ok param key old h = Some (m, new, h') \<Longrightarrow> capi_use L h h'"
| get_longs: "OH_CommonEvent_GetLongArrayFromParameters L ok param key old h = Some (m, new, h') \<Longrightarrow> capi_use L h h'"
| get_bools: "OH_CommonEvent_GetBoolArrayFromParameters L ok param key old h = Some (m, new, h') \<Longrightarrow> capi_use L h h'"
| get_doubles: "OH_CommonEvent_GetDoubleArrayFromParameters L ok param key old h = Some (m, new, h') \<Longrightarrow> capi_use L h h'"
| get_chars: "OH_CommonEvent_GetCharArrayFromParameters L ok param key old h = Some (m, new, h') \<Longrightarrow> capi_use L h h'"

inductive capi_used :: "('w, 'o) want_lib \<Rightarrow> 'w capi_heap \<Rightarrow> bool" for L where
  start: "capi_used L \<lparr>ch_params = (\<lambda>_. None), ch_blocks = (\<lambda>_. None), ch_next = n\<rparr>"
| more: "capi_used L h \<Longrightarrow> capi_use L h h' \<Longrightarrow> capi_used L h'"

lemma owns_set_params:
  "owns (set_params p ps h) q a \<longleftrightarrow> (if q = p then a \<in> set (allocatedPointers ps) else owns h q a)"
  by (simp add: owns_def set_params_def)

lemma mem_ok_set_with:
  assumes "\<And>ps k. allocatedPointers (snd (f ps k)) = allocatedPointers ps" and "mem_ok h"
    and "set_with param key f h = Some (r, h')"
  shows "mem_ok h'"
proof (cases "h' = h")
  case False
  then obtain p ps k where p: "ch_params h p = Some ps" and h': "h' = set_params p (snd (f ps k)) h"
    using assms(3) by (auto simp: set_with_def with_params_def split_beta split: option.splits)
  have o: "owns h' q a = owns h q a" for q a unfolding h' owns_set_params using p assms(1) by (auto simp: owns_def)
  show ?thesis
    using assms(1,2) p unfolding mem_ok_def o by (auto simp: h' set_params_def)
qed (use assms(2) in simp)

lemma mem_ok_new_block:
  assumes inv: "mem_ok h" and p: "ch_params h p = Some ps"
  shows "mem_ok (set_params p (ps\<lparr>allocatedPointers := allocatedPointers ps @ [ch_next h]\<rparr>) (snd (malloc b h)))"
    (is "mem_ok ?h'")
proof -
  have nb: "ch_blocks h (ch_next h) = None" using inv unfolding mem_ok_def by (meson less_irrefl)
  have new: "\<not> owns h q (ch_next h)" for q using inv nb unfolding mem_ok_def by blast
  have o: "owns ?h' q a \<longleftrightarrow> owns h q a \<or> q = p \<and> a = ch_next h" for q a
    unfolding owns_set_params using p by (auto simp: owns_def malloc_def)
  have bl: "ch_blocks ?h' a \<noteq> None \<longleftrightarrow> ch_blocks h a \<noteq> None \<or> a = ch_next h" for a
    by (simp add: set_params_def malloc_def)
  have "ch_next h \<notin> set (allocatedPointers ps)" using new [of p] p by (simp add: owns_def)
  then have "\<forall>q qs. ch_params ?h' q = Some qs \<longrightarrow> q < ch_next ?h' \<and> distinct (allocatedPointers qs)"
    using inv p unfolding mem_ok_def by (auto simp: set_params_def malloc_def less_Suc_eq)
  moreover have "\<forall>a. ch_blocks ?h' a \<noteq> None \<longrightarrow> a < ch_next ?h'"
    using inv unfolding mem_ok_def bl by (auto simp: set_params_def malloc_def less_Suc_eq)
  moreover have "\<forall>a. ch_blocks ?h' a \<noteq> None \<longleftrightarrow> (\<exists>q. owns ?h' q a)"
    using inv unfolding mem_ok_def bl o by blast
  moreover have "\<forall>q1 q2 a. owns ?h' q1 a \<longrightarrow> owns ?h' q2 a \<longrightarrow> q1 = q2"
    using inv new unfolding mem_ok_def o by blast
  ultimately show ?thesis unfolding mem_ok_def by blast
qed

lemma mem_ok_get_array:
  assumes "mem_ok h" and "get_array_with L ok t para key array h = Some (n, arr, h')"
  shows "mem_ok h'"
  using assms mem_ok_new_block [OF assms(1)]
  by (auto simp: get_array_with_def with_params_def GetDataArrayFromParams_def malloc_def split_beta Let_def
    split: option.splits if_splits)

lemma mem_ok_get_string:
  assumes "mem_ok h" and "OH_CommonEvent_GetCharArrayFromParameters L ok para key array h = Some (n, arr, h')"
  shows "mem_ok h'"
  using assms mem_ok_new_block [OF assms(1)]
  by (auto simp: OH_CommonEvent_GetCharArrayFromParameters_def with_params_def GetStringFromParams_def malloc_def split_beta
    Let_def split: option.splits if_splits prim.splits)

lemma free_all_spec:
  "distinct as \<Longrightarrow> (\<forall>a \<in> set as. ch_blocks h a \<noteq> None) \<Longrightarrow>
     free_all as h = Some (h\<lparr>ch_blocks := (\<lambda>a. if a \<in> set as then None else ch_blocks h a)\<rparr>)"
proof (induction as arbitrary: h)
  case (Cons a as)
  let ?h = "h\<lparr>ch_blocks := (ch_blocks h)(a := None)\<rparr>"
  have "free_all as ?h = Some (?h\<lparr>ch_blocks := (\<lambda>b. if b \<in> set as then None else ch_blocks ?h b)\<rparr>)"
    using Cons.prems by (intro Cons.IH) auto
  moreover have "?h\<lparr>ch_blocks := (\<lambda>b. if b \<in> set as then None else ch_blocks ?h b)\<rparr> =
      h\<lparr>ch_blocks := (\<lambda>b. if b \<in> set (a # as) then None else ch_blocks h b)\<rparr>"
    by (cases h) (auto simp: fun_eq_iff)
  moreover have "free_block a h = Some ?h" using Cons.prems(2) by (simp add: free_block_def)
  ultimately show ?case by (simp only: free_all.simps option.case)
qed simp

lemma destroy_spec:
  assumes "mem_ok h" and "ch_params h p = Some ps"
  shows "OH_CommonEvent_DestroyParameters (Some p) h =
    Some (h\<lparr>ch_blocks := (\<lambda>a. if owns h p a then None else ch_blocks h a), ch_params := (ch_params h)(p := None)\<rparr>)"
proof -
  have "distinct (allocatedPointers ps)" "\<forall>a \<in> set (allocatedPointers ps). ch_blocks h a \<noteq> None"
    using assms unfolding mem_ok_def owns_def by blast+
  then show ?thesis
    using free_all_spec [of "allocatedPointers ps" h] assms(2)
    by (simp add: OH_CommonEvent_DestroyParameters_def owns_def)
qed

lemma mem_ok_destroy:
  assumes inv: "mem_ok h" and d: "OH_CommonEvent_DestroyParameters param h = Some h'"
  shows "mem_ok h'"
proof (cases param)
  case (Some p)
  then obtain ps where p: "ch_params h p = Some ps" using d by (auto simp: OH_CommonEvent_DestroyParameters_def split: option.splits)
  have h': "h' = h\<lparr>ch_blocks := (\<lambda>a. if owns h p a then None else ch_blocks h a), ch_params := (ch_params h)(p := None)\<rparr>"
    using destroy_spec [OF inv p] d Some by simp
  have o: "owns h' q a \<longleftrightarrow> owns h q a \<and> q \<noteq> p" for q a by (simp add: h' owns_def)
  show ?thesis
    using inv unfolding mem_ok_def o by (auto simp: h')
qed (use assms in \<open>simp add: OH_CommonEvent_DestroyParameters_def\<close>)

lemma mem_ok_create: "mem_ok h \<Longrightarrow> mem_ok (snd (OH_CommonEvent_CreateParameters L ok h))"
proof (cases ok)
  case True
  assume inv: "mem_ok h"
  let ?h = "snd (OH_CommonEvent_CreateParameters L ok h)"
  have "ch_params h (ch_next h) = None" using inv unfolding mem_ok_def by (metis less_irrefl not_None_eq)
  then have o: "owns ?h q a = owns h q a" for q a
    using True by (auto simp: OH_CommonEvent_CreateParameters_def owns_def set_params_def)
  show ?thesis
    using inv True unfolding mem_ok_def o
    by (auto simp: OH_CommonEvent_CreateParameters_def set_params_def less_Suc_eq)
qed (simp add: OH_CommonEvent_CreateParameters_def)

lemmas capi_setter_defs = OH_CommonEvent_SetIntToParameters_def OH_CommonEvent_SetLongToParameters_def
  OH_CommonEvent_SetBoolToParameters_def OH_CommonEvent_SetCharToParameters_def OH_CommonEvent_SetDoubleToParameters_def

lemma SetData_frame [simp]:
  "allocatedPointers (snd (SetDataToParams L ps k v)) = allocatedPointers ps"
  "allocatedPointers (snd (SetDataArrayToParams L iid ps k xs)) = allocatedPointers ps"
  by (simp_all add: SetDataToParams_def SetDataArrayToParams_def split: option.split)

lemma mem_ok_set_array:
  assumes "mem_ok h" and "set_array_with L iid box param key vals num h = Some (r, h')"
  shows "mem_ok h'"
proof (cases "vals = None \<and> num > 0")
  case False
  then have "set_with param key (\<lambda>ps k. SetDataArrayToParams L iid ps k
      (case vals of None \<Rightarrow> [] | Some xs \<Rightarrow> map box (take num xs))) h = Some (r, h')"
    using assms(2) by (simp only: set_array_with_def if_False)
  then show ?thesis by (rule mem_ok_set_with [OF _ assms(1), rotated]) simp
qed (use assms in \<open>simp add: set_array_with_def\<close>)

lemma mem_ok_set_string:
  assumes "mem_ok h" and "OH_CommonEvent_SetCharArrayToParameters L param key str n h = Some (r, h')"
  shows "mem_ok h'"
proof (cases str)
  case (Some s)
  then have "set_with param key (\<lambda>ps k. SetDataToParams L ps k (PrimString (take (min (length s) n) s))) h = Some (r, h')"
    using assms(2) by (simp only: OH_CommonEvent_SetCharArrayToParameters_def option.case)
  then show ?thesis by (rule mem_ok_set_with [OF _ assms(1), rotated]) simp
qed (use assms in \<open>simp add: OH_CommonEvent_SetCharArrayToParameters_def\<close>)

lemma mem_ok_set_value:
  assumes "mem_ok h" and "set_with param key (\<lambda>ps k. SetDataToParams L ps k v) h = Some (r, h')"
  shows "mem_ok h'"
  using mem_ok_set_with [OF _ assms] by simp

lemma mem_ok_use: "capi_use L h h' \<Longrightarrow> mem_ok h \<Longrightarrow> mem_ok h'"
  by (induction rule: capi_use.induct)
    (auto simp: capi_setter_defs OH_CommonEvent_SetIntArrayToParameters_def OH_CommonEvent_SetLongArrayToParameters_def
      OH_CommonEvent_SetBoolArrayToParameters_def OH_CommonEvent_SetDoubleArrayToParameters_def
      OH_CommonEvent_GetIntArrayFromParameters_def OH_CommonEvent_GetLongArrayFromParameters_def
      OH_CommonEvent_GetBoolArrayFromParameters_def OH_CommonEvent_GetDoubleArrayFromParameters_def
      intro: mem_ok_create mem_ok_destroy mem_ok_set_value mem_ok_set_array mem_ok_set_string mem_ok_get_array mem_ok_get_string)

lemma mem_ok_used: "capi_used L h \<Longrightarrow> mem_ok h"
proof (induction rule: capi_used.induct)
  case (start n)
  show ?case by (simp add: mem_ok_def owns_def)
qed (rule mem_ok_use)



end
