(* ===== verification/Capi_Answer.thy ===== *)
theory Capi_Answer
  imports Kept_Results Capi_Memory
begin

text \<open>
  Ordered events in the C interface: a callback has no result object, the library keeps it in
  \<open>resultCache_\<close> and the application finishes the event through its subscriber, during the callback
  or later.
\<close>

section \<open>Calls of an application\<close>

datatype capi_call = CapiSetCode int32 | CapiSetData string | CapiAbort | CapiClearAbort

fun as_subscriber_call :: "capi_call \<Rightarrow> subscriber_call" where
  "as_subscriber_call (CapiSetCode i) = CallSetCode i"
| "as_subscriber_call (CapiSetData t) = CallSetData t"
| "as_subscriber_call CapiAbort = CallAbort"
| "as_subscriber_call CapiClearAbort = CallClearAbort"

fun capi_call_result :: "nat \<Rightarrow> capi_call \<Rightarrow> ('s, 'w) capi_world \<Rightarrow> (bool \<times> ('s, 'w) capi_world) option" where
  "capi_call_result p (CapiSetCode i) cs = OH_CommonEvent_SetCodeToSubscriber (Some p) i cs"
| "capi_call_result p (CapiSetData t) cs = OH_CommonEvent_SetDataToSubscriber (Some p) (Some t) (length t) cs"
| "capi_call_result p CapiAbort cs = OH_CommonEvent_AbortCommonEvent (Some p) cs"
| "capi_call_result p CapiClearAbort cs = OH_CommonEvent_ClearAbortCommonEvent (Some p) cs"

text \<open>A call that is undefined is left out.\<close>

definition capi_calls :: "nat \<Rightarrow> capi_call list \<Rightarrow> ('s, 'w) capi_world \<Rightarrow> ('s, 'w) capi_world" where
  "capi_calls p ks cs =
     foldl (\<lambda>cs k. case capi_call_result p k cs of None \<Rightarrow> cs | Some (ok, cs1) \<Rightarrow> cs1) cs ks"

text \<open>An event of subscriber \<open>b\<close> that the application has yet to finish.\<close>

definition unfinished ::
  "nat \<Rightarrow> nat \<Rightarrow> nat \<Rightarrow> nat \<Rightarrow> int32 \<times> string \<times> bool \<Rightarrow> ('s, 'w) capi_world \<Rightarrow> bool" where
  "unfinished p b r l a = (\<lambda>(c, s, k). cp_handles k p = Some b \<and>
     (case map_of (cp_cache k) b of None \<Rightarrow> False | Some item \<Rightarrow> ri_result item = Some r) \<and> kept b r l a c)"

lemma unfinished_item:
  assumes "unfinished p b r l a (c, s, k)"
  shows "\<exists>item. with_item dflt f (Some p) (c', s', k) = Some (f b r item (c', s', k))"
  using assms by (auto simp: unfinished_def with_item_def with_observer_def GetAsyncResult_def split: option.splits)

lemma capi_call_setter:
  "capi_call_result p x = change_result (setter (as_subscriber_call x)) (Some p)"
  by (cases x) (simp_all add: fun_eq_iff OH_CommonEvent_SetCodeToSubscriber_def OH_CommonEvent_SetDataToSubscriber_def
    OH_CommonEvent_AbortCommonEvent_def OH_CommonEvent_ClearAbortCommonEvent_def)

lemma unfinished_call:
  assumes "unfinished p b r l a (c, s, k)"
  shows "\<exists>c1. capi_call_result p x (c, s, k) = Some (True, c1, s, k) \<and>
    unfinished p b r l (answer_of [as_subscriber_call x] a) (c1, s, k)"
proof -
  obtain ok y where y: "setter (as_subscriber_call x) (cc_results c r) = (ok, y)" by fastforce
  have "as_subscriber_call x \<noteq> CallGoAsync" by (cases x) simp_all
  moreover have "kept b r l a c" using assms by (simp add: unfinished_def)
  ultimately have "ok \<and> kept b r l (answer_of [as_subscriber_call x] a) (upd_result r (\<lambda>_. y) c)"
    using kept_setter y by blast
  moreover have "change_result (setter (as_subscriber_call x)) (Some p) (c, s, k) = Some (ok, upd_result r (\<lambda>_. y) c, s, k)"
    using unfinished_item [OF assms, of False "\<lambda>observer r item (c, s, k).
      let (ok, a) = setter (as_subscriber_call x) (cc_results c r) in (ok, upd_result r (\<lambda>_. a) c, s, k)" c s]
    by (auto simp: change_result_def y)
  ultimately show ?thesis
    unfolding capi_call_setter using assms by (auto simp: unfinished_def)
qed

lemma capi_calls_simps:
  "capi_calls p [] cs = cs"
  "capi_call_result p x cs = Some (ok, cs1) \<Longrightarrow> capi_calls p (x # ks) cs = capi_calls p ks cs1"
  by (simp_all add: capi_calls_def)

lemma unfinished_calls:
  assumes "unfinished p b r l a (c, s, k)"
  shows "\<exists>c1. capi_calls p ks (c, s, k) = (c1, s, k) \<and>
    unfinished p b r l (answer_of (map as_subscriber_call ks) a) (c1, s, k)"
  using assms
proof (induction ks arbitrary: c a)
  case (Cons x ks)
  obtain c1 where c1: "capi_call_result p x (c, s, k) = Some (True, c1, s, k)"
    "unfinished p b r l (answer_of [as_subscriber_call x] a) (c1, s, k)"
    using unfinished_call [OF Cons.prems] by blast
  have x: "as_subscriber_call x \<noteq> CallGoAsync" by (cases x) simp_all
  show ?case
    using Cons.IH [OF c1(2)] by (simp only: list.map capi_calls_simps(2) [OF c1(1)] answer_of_Cons [OF x, symmetric])
qed (simp add: capi_calls_simps)

lemma unfinished_heap [simp]:
  "unfinished p b r l a (c, s, k\<lparr>cp_heap := h\<rparr>) = unfinished p b r l a (c, s, k)"
  by (simp add: unfinished_def)

section \<open>Delivery\<close>

lemma capi_async_start:
  assumes "cp_handles k p = Some b" and "map_of (cp_cache k) b = Some item" and "ln_alive (cc_listeners c l)"
  shows "\<exists>c1 k1. SetAsyncResult b (callback_state l b d True sticky c, s, k) = (c1, s, k1) \<and>
    unfinished p b (cc_next c) l (cd_code d, cd_data d, False) (c1, s, k1) \<and> cp_callbacks k1 = cp_callbacks k"
  using kept_start [OF assms(3), of b d sticky] assms(1,2)
  by (auto simp: SetAsyncResult_def unfinished_def map_of_omap_put)

lemma capi_delivery:
  assumes "ln_subscriber (cc_listeners c l) = Some b" and "ln_alive (cc_listeners c l)"
    and "cp_handles k p = Some b" and "map_of (cp_cache k) b = Some item" and "cp_callbacks k b = Some f"
    and "\<And>cd. A f cd = capi_calls p ks"
  shows "\<exists>c1 k1. OnReceiveEvent (capi_ops X) (SubscriberObserver_OnReceiveEvent L A True True b d) l d True sticky (c, s, k) =
      (c1, s, k1) \<and> unfinished p b (cc_next c) l (answer_of (map as_subscriber_call ks) (cd_code d, cd_data d, False)) (c1, s, k1)"
proof -
  let ?c = "callback_state l b d True sticky c"
  obtain c1 k1 where start: "SetAsyncResult b (?c, s, k) = (c1, s, k1)"
    "unfinished p b (cc_next c) l (cd_code d, cd_data d, False) (c1, s, k1)" "cp_callbacks k1 = cp_callbacks k"
    using capi_async_start [OF assms(3,4,2), of d sticky s] by blast
  let ?k2 = "\<lambda>h. k1\<lparr>cp_heap := h\<rparr>"
  obtain h where run: "SubscriberObserver_OnReceiveEvent L A True True b d (?c, s, k) =
      (let (c2, s2, k2) = capi_calls p ks (c1, s, ?k2 h)
       in (c2, s2, k2\<lparr>cp_heap := cp_heap k2\<lparr>ch_params := (ch_params (cp_heap k2))(ch_next (cp_heap k1) := None)\<rparr>\<rparr>))"
    using assms(5,6) start(1,3) callback_state_ordered [of l b d sticky c]
    by (simp add: SubscriberObserver_OnReceiveEvent_def Let_def)
  obtain c2 where c2: "capi_calls p ks (c1, s, ?k2 h) = (c2, s, ?k2 h)"
    "unfinished p b (cc_next c) l (answer_of (map as_subscriber_call ks) (cd_code d, cd_data d, False)) (c2, s, ?k2 h)"
    using unfinished_calls [of p b "cc_next c" l "(cd_code d, cd_data d, False)" c1 s "?k2 h" ks] start(2) by auto
  let ?a = "answer_of (map as_subscriber_call ks) (cd_code d, cd_data d, False)"
  let ?k3 = "(?k2 h)\<lparr>cp_heap := cp_heap (?k2 h)\<lparr>ch_params := (ch_params (cp_heap (?k2 h)))(ch_next (cp_heap k1) := None)\<rparr>\<rparr>"
  have "SubscriberObserver_OnReceiveEvent L A True True b d (?c, s, k) = (c2, s, ?k3)"
    unfolding run c2(1) by simp
  moreover have "kept b (cc_next c) l ?a c2" using c2(2) by (simp add: unfinished_def)
  ultimately have "OnReceiveEvent (capi_ops X) (SubscriberObserver_OnReceiveEvent L A True True b d) l d True sticky (c, s, k) =
      (c2, s, ?k3)"
    by (rule kept_not_finished [OF assms(1)])
  moreover have "unfinished p b (cc_next c) l ?a (c2, s, ?k3)" using c2(2) by (simp only: unfinished_heap)
  ultimately show ?thesis by blast
qed

lemma unfinished_finish:
  assumes "unfinished p b r l (code, str, ab) (c, s, k)"
  shows "\<exists>c1. OH_CommonEvent_FinishCommonEvent X (Some p) (c, s, k) =
      (let (ok, s1) = FinishReceiver_client X (Some l) code str ab s in Some (ok, c1, s1, k)) \<and>
    (\<forall>s1. OH_CommonEvent_FinishCommonEvent X (Some p) (c1, s1, k) = Some (False, c1, s1, k))"
proof -
  have k: "kept b r l (code, str, ab) c" using assms by (simp add: unfinished_def)
  have f: "OH_CommonEvent_FinishCommonEvent X (Some p) (c', s', k) = Some (FinishCommonEvent (capi_ops X) r (c', s', k))" for c' s'
    using unfinished_item [OF assms, of False "\<lambda>observer r item. FinishCommonEvent (capi_ops X) r" c' s']
    by (auto simp: OH_CommonEvent_FinishCommonEvent_def)
  obtain c1 where c1: "FinishCommonEvent (capi_ops X) r (c, s, k) =
      (let (ok, s1) = FinishReceiver_client X (Some l) code str ab s in (ok, c1, s1, k))"
    "\<And>s1. FinishCommonEvent (capi_ops X) r (c1, s1, k) = (False, c1, s1, k)"
    using kept_finish [OF k, of X s k] by blast
  show ?thesis by (rule exI [of _ c1]) (simp add: f c1 split: prod.split)
qed


section \<open>A subscriber to apply the property to\<close>

definition demo_capi_start :: "(demo, (string, demo_object) umap) capi_world" where
  "demo_capi_start = (demo_client, (True, [], []), \<lparr>cp_heap = demo_heap, cp_handles = (\<lambda>_. None), cp_callbacks = (\<lambda>_. None),
     cp_cache = [], cp_next = 5\<rparr>)"

definition demo_capi :: "(demo, (string, demo_object) umap) capi_world" where
  "demo_capi = (case Subscribe_capi demo_service (Some 6) (snd (OH_CommonEvent_CreateSubscriber True
     (OH_CommonEvent_CreateSubscribeInfo True [Some ''e''] 1) (Some 9) demo_capi_start)) of Some (r, cs) \<Rightarrow> cs | None \<Rightarrow> demo_capi_start)"

lemma demo_capi_subscribed:
  "ln_subscriber (cc_listeners (fst demo_capi) 0) = Some 5 \<and> ln_alive (cc_listeners (fst demo_capi) 0) \<and>
   cp_handles (snd (snd demo_capi)) 6 = Some 5 \<and>
   map_of (cp_cache (snd (snd demo_capi))) 5 = Some \<lparr>ri_result = None, ri_data = []\<rparr> \<and>
   cp_callbacks (snd (snd demo_capi)) 5 = Some 9 \<and> fst (snd demo_capi) = (True, [Some 0], [])"
  by code_simp


section \<open>Where the interface loses an answer or a block\<close>

text \<open>If the parameters cannot be allocated, the callback does not run and nobody answers: the library
  has handed the answer over to the application before.\<close>

lemma capi_event_lost:
  assumes "ln_subscriber (cc_listeners c l) = Some b" and "ln_alive (cc_listeners c l)"
    and "cp_handles k p = Some b" and "map_of (cp_cache k) b = Some item"
  shows "\<exists>c1 k1. OnReceiveEvent (capi_ops X) (SubscriberObserver_OnReceiveEvent L A True False b d) l d True sticky (c, s, k) =
      (c1, s, k1) \<and> unfinished p b (cc_next c) l (cd_code d, cd_data d, False) (c1, s, k1)"
proof -
  obtain c1 k1 where start: "SetAsyncResult b (callback_state l b d True sticky c, s, k) = (c1, s, k1)"
    "unfinished p b (cc_next c) l (cd_code d, cd_data d, False) (c1, s, k1)"
    using capi_async_start [OF assms(3,4,2), of d sticky s] by blast
  have "SubscriberObserver_OnReceiveEvent L A True False b d (callback_state l b d True sticky c, s, k) = (c1, s, k1)"
    using start(1) callback_state_ordered [of l b d sticky c] by (simp add: SubscriberObserver_OnReceiveEvent_def Let_def)
  moreover have "kept b (cc_next c) l (cd_code d, cd_data d, False) c1" using start(2) by (simp add: unfinished_def)
  ultimately have "OnReceiveEvent (capi_ops X) (SubscriberObserver_OnReceiveEvent L A True False b d) l d True sticky (c, s, k) =
      (c1, s, k1)"
    by (rule kept_not_finished [OF assms(1)])
  then show ?thesis using start(2) by blast
qed

text \<open>An unsubscription that fails keeps the subscription and forgets that its events are finished by the
  application.\<close>

lemma capi_unsubscribe_forgets:
  assumes "cp_handles k p = Some b" and "map_of (cc_table c) b = Some (Some l)" and "GetCommonEventProxy X s"
    and "px_unsubscribe X (Some l) s = (res, r, s1)" and "res \<noteq> ERR_OK \<or> r \<noteq> ERR_OK"
  shows "UnSubscribe_capi X (Some p) (c, s, k) =
    Some (ERR_NOTIFICATION_SEND_ERROR, c, s1, k\<lparr>cp_cache := AList.delete b (cp_cache k)\<rparr>)"
  using assms
  by (auto simp: UnSubscribe_capi_def with_observer_def UnSubscribeCommonEvent_client_def ok_or_def lift3_def err_consts)

text \<open>A callback that reads a string leaves its block behind: the parameters are deleted, the block has no
  owner.\<close>

definition string_lib :: "((string, demo_object) umap, demo_object) want_lib" where
  "string_lib = demo_lib\<lparr>wl_params := map (\<lambda>(k, v). (k, DPrim (case v of WString t \<Rightarrow> PrimString t | _ \<Rightarrow> PrimBool False)))\<rparr>"

definition reading_callback ::
  "CommonEvent_RcvData \<Rightarrow> (demo, (string, demo_object) umap) capi_world \<Rightarrow> (demo, (string, demo_object) umap) capi_world" where
  "reading_callback cd = (\<lambda>(c, s, k).
     case OH_CommonEvent_GetCharArrayFromParameters string_lib True (OH_CommonEvent_GetParametersFromRcvData (Some cd))
            (Some ''k'') (Some None) (cp_heap k) of
       None \<Rightarrow> (c, s, k) | Some (n, a, h) \<Rightarrow> (c, s, k\<lparr>cp_heap := h\<rparr>))"

definition string_event :: CommonEventData where
  "string_event = demo_event\<lparr>cd_want := (cd_want demo_event)\<lparr>w_params := [(''k'', WString ''v'')]\<rparr>\<rparr>"

lemma capi_callback_leaks:
  "case SubscriberObserver_OnReceiveEvent string_lib (\<lambda>_. reading_callback) True True 5 string_event demo_capi of
     (c, s, k) \<Rightarrow> ch_params (cp_heap k) 1 = None \<and> ch_blocks (cp_heap k) 2 = Some (StringBlock ''v'')"
  by code_simp

end
