(* ===== verification/Napi_Values.thy ===== *)
theory Napi_Values
  imports Publish_Info Matching_Skills Parcel_Codecs
begin

text \<open>
  The values of the JavaScript interface \<open>@ohos.commonEvent\<close> (\<open>kits/napi/common_event\<close>): how the
  arguments of its functions are read (\<open>common_event_parse.cpp\<close>) and how results are built
  (\<open>common_event_set_param.cpp\<close>).

  \<open>js\<close> is a value of the runtime.  A number is kept as the integer it has without its fraction, a
  string as its bytes in UTF-8; \<open>JsInstance\<close> is an object of the class \<open>commonEventSubscriber\<close>.  The
  functions of the runtime (\<open>napi_typeof\<close>, \<open>napi_get_value_string_utf8\<close>) are modelled by what they
  document: a buffer of \<open>n\<close> bytes gets at most \<open>n - 1\<close> bytes and a terminator.  A null \<open>napi_value\<close>,
  with which a function here reports wrong arguments, is \<open>None\<close>; a call sees \<open>undefined\<close> where it got
  no argument.  Conversion between objects and \<open>WantParams\<close> is done by another repository: the record
  \<open>wrap_lib\<close>.
\<close>

section \<open>The runtime\<close>

datatype js = JsUndefined | JsNull | JsBool bool | JsNumber int | JsString string | JsArray "js list"
  | JsObject "(string \<times> js) list" | JsFunction nat | JsInstance nat | JsPromise nat

datatype napi_valuetype = napi_undefined | napi_null | napi_boolean | napi_number | napi_string | napi_object
  | napi_function

fun napi_typeof :: "js \<Rightarrow> napi_valuetype" where
  "napi_typeof JsUndefined = napi_undefined"
| "napi_typeof JsNull = napi_null"
| "napi_typeof (JsBool _) = napi_boolean"
| "napi_typeof (JsNumber _) = napi_number"
| "napi_typeof (JsString _) = napi_string"
| "napi_typeof (JsFunction _) = napi_function"
| "napi_typeof _ = napi_object"

definition napi_has_named_property :: "js \<Rightarrow> string \<Rightarrow> bool option" where
  "napi_has_named_property v k =
     (if napi_typeof v \<notin> {napi_object, napi_function} then None
      else case v of JsObject fs \<Rightarrow> Some (map_of fs k \<noteq> None) | _ \<Rightarrow> Some False)"

definition napi_get_named_property :: "js \<Rightarrow> string \<Rightarrow> js" where
  "napi_get_named_property v k =
     (case v of JsObject fs \<Rightarrow> (case map_of fs k of None \<Rightarrow> JsUndefined | Some x \<Rightarrow> x) | _ \<Rightarrow> JsUndefined)"

definition napi_set_named_property :: "string \<Rightarrow> js \<Rightarrow> js \<Rightarrow> js" where
  "napi_set_named_property k x v = (case v of JsObject fs \<Rightarrow> JsObject (AList.update k x fs) | _ \<Rightarrow> v)"

text \<open>The bytes copied into a buffer of \<open>n\<close> bytes, their number, and the string the buffer then holds.\<close>

definition napi_copied :: "nat \<Rightarrow> string \<Rightarrow> string" where
  "napi_copied n s = take (n - 1) s"

definition c_str :: "string \<Rightarrow> string" where
  "c_str s = takeWhile (\<lambda>c. c \<noteq> CHR 0x00) s"

definition napi_get_value_int32 :: "int \<Rightarrow> int32" where
  "napi_get_value_int32 n = to_int32 (word_of_int n)"

record wrap_lib =
  UnwrapWantParams :: "js \<Rightarrow> (string, want_value) umap option"
  WrapWantParams :: "(string, want_value) umap \<Rightarrow> js option"

definition argv :: "js list \<Rightarrow> nat \<Rightarrow> js" where
  "argv args i = (if i < length args then args ! i else JsUndefined)"

definition STR_MAX_SIZE :: nat where "STR_MAX_SIZE = 256"
definition STR_DATA_MAX_SIZE :: nat where "STR_DATA_MAX_SIZE = 64 * 1024"
definition SUBSCRIBE_EVENT_MAX_NUM_napi :: nat where "SUBSCRIBE_EVENT_MAX_NUM_napi = 512"
definition CREATE_MAX_PARA :: nat where "CREATE_MAX_PARA = 2"
definition SUBSCRIBE_MAX_PARA :: nat where "SUBSCRIBE_MAX_PARA = 2"
definition UNSUBSCRIBE_MAX_PARA :: nat where "UNSUBSCRIBE_MAX_PARA = 2"
definition PUBLISH_MAX_PARA_BY_PUBLISHDATA :: nat where "PUBLISH_MAX_PARA_BY_PUBLISHDATA = 3"
definition PUBLISH_MAX_PARA_BY_USERID :: nat where "PUBLISH_MAX_PARA_BY_USERID = 4"
definition PUBLISH_MAX_PARA :: nat where "PUBLISH_MAX_PARA = 2"
definition PUBLISH_MAX_PARA_AS_USER :: nat where "PUBLISH_MAX_PARA_AS_USER = 3"
definition COMMON_EVENT_PUBLISH_PARAM :: nat where "COMMON_EVENT_PUBLISH_PARAM = 2"
definition GETSUBSCREBEINFO_MAX_PARA :: nat where "GETSUBSCREBEINFO_MAX_PARA = 1"
definition ISORDEREDCOMMONEVENT_MAX_PARA :: nat where "ISORDEREDCOMMONEVENT_MAX_PARA = 1"
definition ISSTICKYCOMMONEVENT_MAX_PARA :: nat where "ISSTICKYCOMMONEVENT_MAX_PARA = 1"
definition GET_CODE_MAX_PARA :: nat where "GET_CODE_MAX_PARA = 1"
definition SET_CODE_MAX_PARA :: nat where "SET_CODE_MAX_PARA = 2"
definition GET_DATA_MAX_PARA :: nat where "GET_DATA_MAX_PARA = 1"
definition SET_DATA_MAX_PARA :: nat where "SET_DATA_MAX_PARA = 2"
definition SET_CODE_AND_DATA_MAX_PARA :: nat where "SET_CODE_AND_DATA_MAX_PARA = 3"
definition ABORT_MAX_PARA :: nat where "ABORT_MAX_PARA = 1"
definition CLEAR_ABORT_MAX_PARA :: nat where "CLEAR_ABORT_MAX_PARA = 1"
definition GET_ABORT_MAX_PARA :: nat where "GET_ABORT_MAX_PARA = 1"
definition FINISH_MAX_PARA :: nat where "FINISH_MAX_PARA = 1"

lemmas napi_sizes = STR_MAX_SIZE_def STR_DATA_MAX_SIZE_def SUBSCRIBE_EVENT_MAX_NUM_napi_def CREATE_MAX_PARA_def
  SUBSCRIBE_MAX_PARA_def UNSUBSCRIBE_MAX_PARA_def PUBLISH_MAX_PARA_BY_PUBLISHDATA_def PUBLISH_MAX_PARA_BY_USERID_def
  PUBLISH_MAX_PARA_def PUBLISH_MAX_PARA_AS_USER_def COMMON_EVENT_PUBLISH_PARAM_def GETSUBSCREBEINFO_MAX_PARA_def
  ISORDEREDCOMMONEVENT_MAX_PARA_def ISSTICKYCOMMONEVENT_MAX_PARA_def GET_CODE_MAX_PARA_def SET_CODE_MAX_PARA_def
  GET_DATA_MAX_PARA_def SET_DATA_MAX_PARA_def SET_CODE_AND_DATA_MAX_PARA_def ABORT_MAX_PARA_def CLEAR_ABORT_MAX_PARA_def
  GET_ABORT_MAX_PARA_def FINISH_MAX_PARA_def

section \<open>Arguments of the methods of a subscriber\<close>

text \<open>\<open>parse_callback n i\<close>: with \<open>n\<close> arguments or more, argument \<open>i\<close> must be a function.\<close>

definition parse_callback :: "nat \<Rightarrow> nat \<Rightarrow> js list \<Rightarrow> nat option option" where
  "parse_callback n i args =
     (if length args \<ge> n then (case argv args i of JsFunction f \<Rightarrow> Some (Some f) | _ \<Rightarrow> None) else Some None)"

definition ParseParametersByGetSubscribeInfo :: "js list \<Rightarrow> nat option option" where
  "ParseParametersByGetSubscribeInfo = parse_callback GETSUBSCREBEINFO_MAX_PARA 0"

definition ParseParametersByIsOrderedCommonEvent :: "js list \<Rightarrow> nat option option" where
  "ParseParametersByIsOrderedCommonEvent = parse_callback ISORDEREDCOMMONEVENT_MAX_PARA 0"

definition ParseParametersByIsStickyCommonEvent :: "js list \<Rightarrow> nat option option" where
  "ParseParametersByIsStickyCommonEvent = parse_callback ISSTICKYCOMMONEVENT_MAX_PARA 0"

definition ParseParametersByGetCode :: "js list \<Rightarrow> nat option option" where
  "ParseParametersByGetCode = parse_callback GET_CODE_MAX_PARA 0"

definition ParseParametersBySetCode :: "js list \<Rightarrow> (int32 \<times> nat option) option" where
  "ParseParametersBySetCode args =
     (case argv args 0 of
        JsNumber n \<Rightarrow>
          (case parse_callback SET_CODE_MAX_PARA 1 args of
             None \<Rightarrow> None
           | Some callback \<Rightarrow> Some (napi_get_value_int32 n, callback))
      | _ \<Rightarrow> None)"

definition ParseParametersByGetData :: "js list \<Rightarrow> nat option option" where
  "ParseParametersByGetData = parse_callback GET_DATA_MAX_PARA 0"

definition ParseParametersBySetData :: "js list \<Rightarrow> (string \<times> nat option) option" where
  "ParseParametersBySetData args =
     (case argv args 0 of
        JsString s \<Rightarrow>
          (let str = napi_copied STR_DATA_MAX_SIZE s; strLen = length str
           in if strLen > STR_DATA_MAX_SIZE - 1 then None
              else case parse_callback SET_CODE_MAX_PARA 1 args of
                     None \<Rightarrow> None
                   | Some callback \<Rightarrow> Some (c_str str, callback))
      | _ \<Rightarrow> None)"

definition ParseParametersBySetCodeAndData :: "js list \<Rightarrow> (int32 \<times> string \<times> nat option) option" where
  "ParseParametersBySetCodeAndData args =
     (case argv args 0 of
        JsNumber n \<Rightarrow>
          (case argv args 1 of
             JsString s \<Rightarrow>
               (let str = napi_copied STR_DATA_MAX_SIZE s; strLen = length str
                in if strLen > STR_DATA_MAX_SIZE - 1 then None
                   else case parse_callback SET_CODE_AND_DATA_MAX_PARA (SET_CODE_AND_DATA_MAX_PARA - 1) args of
                          None \<Rightarrow> None
                        | Some callback \<Rightarrow> Some (napi_get_value_int32 n, c_str str, callback))
           | _ \<Rightarrow> None)
      | _ \<Rightarrow> None)"

definition ParseParametersByClearAbort :: "js list \<Rightarrow> nat option option" where
  "ParseParametersByClearAbort = parse_callback CLEAR_ABORT_MAX_PARA 0"

definition ParseParametersByAbort :: "js list \<Rightarrow> nat option option" where
  "ParseParametersByAbort = parse_callback ABORT_MAX_PARA 0"

definition ParseParametersByGetAbort :: "js list \<Rightarrow> nat option option" where
  "ParseParametersByGetAbort = parse_callback GET_ABORT_MAX_PARA 0"

definition ParseParametersByFinish :: "js list \<Rightarrow> nat option option" where
  "ParseParametersByFinish = parse_callback FINISH_MAX_PARA 0"

definition ParseParametersByCreateSubscriber :: "js list \<Rightarrow> nat option option" where
  "ParseParametersByCreateSubscriber args =
     (if napi_typeof (argv args 0) \<noteq> napi_object then None
      else if length args \<ge> CREATE_MAX_PARA
           then (case argv args 1 of JsFunction f \<Rightarrow> Some (Some f) | _ \<Rightarrow> Some None)
      else Some None)"

section \<open>Arguments of a publication\<close>

record CommonEventPublishDataByjs =
  pj_bundleName :: string
  pj_data :: string
  pj_code :: int32
  pj_subscriberPermissions :: "string list"
  pj_isOrdered :: bool
  pj_isSticky :: bool
  pj_wantParams :: "(string, want_value) umap"

definition CommonEventPublishDataByjs_init :: CommonEventPublishDataByjs where
  "CommonEventPublishDataByjs_init = \<lparr>pj_bundleName = [], pj_data = [], pj_code = 0, pj_subscriberPermissions = [],
     pj_isOrdered = False, pj_isSticky = False, pj_wantParams = []\<rparr>"

text \<open>\<open>optional_property\<close>: the value stays as it is without the property; with it, \<open>read\<close> decides.\<close>

definition optional_property :: "string \<Rightarrow> (js \<Rightarrow> 'v option) \<Rightarrow> js \<Rightarrow> 'v \<Rightarrow> 'v option" where
  "optional_property k read v old =
     (case napi_has_named_property v k of
        None \<Rightarrow> None
      | Some False \<Rightarrow> Some old
      | Some True \<Rightarrow> read (napi_get_named_property v k))"

definition read_string :: "js \<Rightarrow> string option" where
  "read_string v = (case v of JsString s \<Rightarrow> Some (c_str (napi_copied (STR_MAX_SIZE - 1) s)) | _ \<Rightarrow> None)"

definition read_int32 :: "js \<Rightarrow> int32 option" where
  "read_int32 v = (case v of JsNumber n \<Rightarrow> Some (napi_get_value_int32 n) | _ \<Rightarrow> None)"

definition read_bool :: "js \<Rightarrow> bool option" where
  "read_bool v = (case v of JsBool b \<Rightarrow> Some b | _ \<Rightarrow> None)"

fun read_strings :: "js list \<Rightarrow> string list \<Rightarrow> string list option" where
  "read_strings [] acc = Some acc"
| "read_strings (v # vs) acc = (case read_string v of None \<Rightarrow> None | Some s \<Rightarrow> read_strings vs (acc @ [s]))"

definition GetBundlenameByPublish :: "js \<Rightarrow> string \<Rightarrow> string option" where
  "GetBundlenameByPublish = optional_property ''bundleName'' read_string"

definition GetDataByPublish :: "js \<Rightarrow> string \<Rightarrow> string option" where
  "GetDataByPublish = optional_property ''data''
     (\<lambda>v. case v of
            JsString s \<Rightarrow>
              (let str = napi_copied STR_DATA_MAX_SIZE s; strLen = length str
               in if strLen > STR_DATA_MAX_SIZE - 1 then None else Some (c_str str))
          | _ \<Rightarrow> None)"

definition GetCodeByPublish :: "js \<Rightarrow> int32 \<Rightarrow> int32 option" where
  "GetCodeByPublish = optional_property ''code'' read_int32"

definition GetSubscriberPermissionsByPublish :: "js \<Rightarrow> string list \<Rightarrow> string list option" where
  "GetSubscriberPermissionsByPublish v old = optional_property ''subscriberPermissions''
     (\<lambda>x. case x of JsArray vs \<Rightarrow> read_strings vs old | _ \<Rightarrow> Some old) v old"

definition GetIsOrderedByPublish :: "js \<Rightarrow> bool \<Rightarrow> bool option" where
  "GetIsOrderedByPublish = optional_property ''isOrdered'' read_bool"

definition GetIsStickyByPublish :: "js \<Rightarrow> bool \<Rightarrow> bool option" where
  "GetIsStickyByPublish = optional_property ''isSticky'' read_bool"

definition GetParametersByPublish ::
  "wrap_lib \<Rightarrow> js \<Rightarrow> (string, want_value) umap \<Rightarrow> (string, want_value) umap option" where
  "GetParametersByPublish W = optional_property ''parameters''
     (\<lambda>v. if napi_typeof v \<noteq> napi_object then None else UnwrapWantParams W v)"

text \<open>The seven properties of the options, in the order in which they are read.\<close>

definition publish_options :: "wrap_lib \<Rightarrow> js \<Rightarrow> CommonEventPublishDataByjs option" where
  "publish_options W v =
     (let d = CommonEventPublishDataByjs_init
      in case GetBundlenameByPublish v (pj_bundleName d) of None \<Rightarrow> None | Some b \<Rightarrow>
         (case GetDataByPublish v (pj_data d) of None \<Rightarrow> None | Some t \<Rightarrow>
         (case GetCodeByPublish v (pj_code d) of None \<Rightarrow> None | Some c \<Rightarrow>
         (case GetSubscriberPermissionsByPublish v (pj_subscriberPermissions d) of None \<Rightarrow> None | Some ps \<Rightarrow>
         (case GetIsOrderedByPublish v (pj_isOrdered d) of None \<Rightarrow> None | Some ord \<Rightarrow>
         (case GetIsStickyByPublish v (pj_isSticky d) of None \<Rightarrow> None | Some st \<Rightarrow>
         (case GetParametersByPublish W v (pj_wantParams d) of None \<Rightarrow> None | Some w \<Rightarrow>
            Some \<lparr>pj_bundleName = b, pj_data = t, pj_code = c, pj_subscriberPermissions = ps, pj_isOrdered = ord,
                  pj_isSticky = st, pj_wantParams = w\<rparr>)))))))"

definition ParseParametersByPublish ::
  "wrap_lib \<Rightarrow> js list \<Rightarrow> (string \<times> CommonEventPublishDataByjs \<times> nat) option" where
  "ParseParametersByPublish W args =
     (case argv args 0 of
        JsString s \<Rightarrow>
          (let event = c_str (napi_copied (STR_MAX_SIZE - 1) s)
           in if length args = PUBLISH_MAX_PARA_BY_PUBLISHDATA
              then (if napi_typeof (argv args 1) \<noteq> napi_object then None
                    else case publish_options W (argv args 1) of
                           None \<Rightarrow> None
                         | Some d \<Rightarrow> (case argv args PUBLISH_MAX_PARA of JsFunction f \<Rightarrow> Some (event, d, f) | _ \<Rightarrow> None))
              else (case argv args 1 of JsFunction f \<Rightarrow> Some (event, CommonEventPublishDataByjs_init, f) | _ \<Rightarrow> None))
      | _ \<Rightarrow> None)"

definition ParseParametersByPublishAsUser ::
  "wrap_lib \<Rightarrow> js list \<Rightarrow> (string \<times> int32 \<times> CommonEventPublishDataByjs \<times> nat) option" where
  "ParseParametersByPublishAsUser W args =
     (case argv args 0 of
        JsString s \<Rightarrow>
          (let event = c_str (napi_copied (STR_MAX_SIZE - 1) s)
           in case argv args 1 of
                JsNumber n \<Rightarrow>
                  (let user = napi_get_value_int32 n
                   in if length args = PUBLISH_MAX_PARA_BY_USERID
                      then (if napi_typeof (argv args COMMON_EVENT_PUBLISH_PARAM) \<noteq> napi_object then None
                            else case publish_options W (argv args COMMON_EVENT_PUBLISH_PARAM) of
                                   None \<Rightarrow> None
                                 | Some d \<Rightarrow>
                                     (case argv args PUBLISH_MAX_PARA_AS_USER of
                                        JsFunction f \<Rightarrow> Some (event, user, d, f) | _ \<Rightarrow> None))
                      else (case argv args COMMON_EVENT_PUBLISH_PARAM of
                              JsFunction f \<Rightarrow> Some (event, user, CommonEventPublishDataByjs_init, f) | _ \<Rightarrow> None))
              | _ \<Rightarrow> None)
      | _ \<Rightarrow> None)"

definition PaddingCallbackInfoPublish ::
  "CommonEventPublishDataByjs \<Rightarrow> Want \<Rightarrow> CommonEventData \<times> CommonEventPublishInfo \<Rightarrow> Want \<times> CommonEventData \<times> CommonEventPublishInfo" where
  "PaddingCallbackInfoPublish pd want = (\<lambda>(d, i).
     (want\<lparr>w_params := pj_wantParams pd\<rparr>, d\<lparr>cd_code := pj_code pd, cd_data := pj_data pd\<rparr>,
      i\<lparr>pi_subscriberPermissions := pj_subscriberPermissions pd, pi_ordered := pj_isOrdered pd,
        pi_sticky := pj_isSticky pd, pi_bundleName := pj_bundleName pd\<rparr>))"

section \<open>The information of a subscriber\<close>

definition GetEventsByCreateSubscriber :: "js \<Rightarrow> string list option" where
  "GetEventsByCreateSubscriber v =
     (case napi_has_named_property v ''events'' of
        None \<Rightarrow> None
      | Some False \<Rightarrow> None
      | Some True \<Rightarrow>
          (case napi_get_named_property v ''events'' of
             JsArray vs \<Rightarrow> if length vs = 0 \<or> length vs > SUBSCRIBE_EVENT_MAX_NUM_napi then None else read_strings vs []
           | _ \<Rightarrow> None))"

definition GetPublisherPermissionByCreateSubscriber :: "js \<Rightarrow> CommonEventSubscribeInfo \<Rightarrow> CommonEventSubscribeInfo option" where
  "GetPublisherPermissionByCreateSubscriber v info = optional_property ''publisherPermission''
     (\<lambda>x. map_option (\<lambda>s. info\<lparr>si_permission := s\<rparr>) (read_string x)) v info"

definition GetPublisherDeviceIdByCreateSubscriber :: "js \<Rightarrow> CommonEventSubscribeInfo \<Rightarrow> CommonEventSubscribeInfo option" where
  "GetPublisherDeviceIdByCreateSubscriber v info = optional_property ''publisherDeviceId''
     (\<lambda>x. map_option (\<lambda>s. info\<lparr>si_deviceId := s\<rparr>) (read_string x)) v info"

definition GetUserIdByCreateSubscriber :: "js \<Rightarrow> CommonEventSubscribeInfo \<Rightarrow> CommonEventSubscribeInfo option" where
  "GetUserIdByCreateSubscriber v info = optional_property ''userId''
     (\<lambda>x. map_option (\<lambda>n. info\<lparr>si_userId := n\<rparr>) (read_int32 x)) v info"

definition GetPriorityByCreateSubscriber :: "js \<Rightarrow> CommonEventSubscribeInfo \<Rightarrow> CommonEventSubscribeInfo option" where
  "GetPriorityByCreateSubscriber v info = optional_property ''priority''
     (\<lambda>x. map_option (\<lambda>n. info\<lparr>si_priority := n\<rparr>) (read_int32 x)) v info"

definition ParseParametersConstructor :: "js list \<Rightarrow> CommonEventSubscribeInfo option" where
  "ParseParametersConstructor args =
     (if length args < 1 then None
      else case GetEventsByCreateSubscriber (argv args 0) of None \<Rightarrow> None | Some events \<Rightarrow>
        (let matchingSkills = fold AddEvent events \<lparr>ms_entities = [], ms_events = [], ms_schemes = []\<rparr>;
             subscribeInfo = CommonEventSubscribeInfo_init\<lparr>si_matchingSkills := matchingSkills\<rparr>
         in case GetPublisherPermissionByCreateSubscriber (argv args 0) subscribeInfo of None \<Rightarrow> None | Some i1 \<Rightarrow>
            (case GetPublisherDeviceIdByCreateSubscriber (argv args 0) i1 of None \<Rightarrow> None | Some i2 \<Rightarrow>
            (case GetUserIdByCreateSubscriber (argv args 0) i2 of None \<Rightarrow> None | Some i3 \<Rightarrow>
             GetPriorityByCreateSubscriber (argv args 0) i3))))"

section \<open>Results\<close>

definition GetCallbackErrorValue :: "int \<Rightarrow> js" where
  "GetCallbackErrorValue errorCode = napi_set_named_property ''code'' (JsNumber errorCode) (JsObject [])"

definition SetEventsResult :: "string list \<Rightarrow> js \<Rightarrow> js" where
  "SetEventsResult events v =
     (if length events > 0 then napi_set_named_property ''events'' (JsArray (map (\<lambda>e. JsString (c_str e)) events)) v else v)"

definition SetPublisherPermissionResult :: "string \<Rightarrow> js \<Rightarrow> js" where
  "SetPublisherPermissionResult perm = napi_set_named_property ''publisherPermission'' (JsString (c_str perm))"

definition SetPublisherDeviceIdResult :: "string \<Rightarrow> js \<Rightarrow> js" where
  "SetPublisherDeviceIdResult deviceId = napi_set_named_property ''publisherDeviceId'' (JsString (c_str deviceId))"

definition SetPublisherUserIdResult :: "int32 \<Rightarrow> js \<Rightarrow> js" where
  "SetPublisherUserIdResult user = napi_set_named_property ''userId'' (JsNumber user)"

definition SetPublisherPriorityResult :: "int32 \<Rightarrow> js \<Rightarrow> js" where
  "SetPublisherPriorityResult priority = napi_set_named_property ''priority'' (JsNumber priority)"

record AsyncCallbackInfoSubscribeInfo =
  as_events :: "string list"
  as_permission :: string
  as_deviceId :: string
  as_userId :: int32
  as_priority :: int32

definition PaddingNapiCreateAsyncWorkCallbackInfo :: "CommonEventSubscribeInfo \<Rightarrow> AsyncCallbackInfoSubscribeInfo" where
  "PaddingNapiCreateAsyncWorkCallbackInfo info =
     \<lparr>as_events = ms_events (si_matchingSkills info), as_permission = si_permission info, as_deviceId = si_deviceId info,
      as_userId = si_userId info, as_priority = si_priority info\<rparr>"

definition SetNapiResult :: "AsyncCallbackInfoSubscribeInfo \<Rightarrow> js \<Rightarrow> js" where
  "SetNapiResult a v =
     SetPublisherPriorityResult (as_priority a)
       (SetPublisherUserIdResult (as_userId a)
         (SetPublisherDeviceIdResult (as_deviceId a)
           (SetPublisherPermissionResult (as_permission a)
             (SetEventsResult (as_events a) v))))"

definition SetCommonEventData :: "wrap_lib \<Rightarrow> CommonEventData \<Rightarrow> js \<Rightarrow> js" where
  "SetCommonEventData W d v =
     (let v1 = napi_set_named_property ''event'' (JsString (c_str (w_action (cd_want d)))) v;
          v2 = napi_set_named_property ''bundleName'' (JsString (c_str (w_bundle (cd_want d)))) v1;
          v3 = napi_set_named_property ''code'' (JsNumber (cd_code d)) v2;
          v4 = napi_set_named_property ''data'' (JsString (c_str (cd_data d))) v3
      in napi_set_named_property ''parameters''
           (case WrapWantParams W (w_params (cd_want d)) of Some x \<Rightarrow> x | None \<Rightarrow> JsNull) v4)"

end
