(* ===== verification/Napi_Interface.thy ===== *)
theory Napi_Interface
  imports Napi_Values Capi_Subscriber
begin

text \<open>
  The JavaScript interface \<open>@ohos.commonEvent\<close> (\<open>kits/napi/common_event/src/common_event.cpp\<close>) over
  the client library.

  A call from JavaScript checks its arguments, queues a work and returns null or a promise.  The
  work is executed on a thread of its own and then completed on the thread of JavaScript, where its
  result goes to a callback or settles the promise: \<open>run_execute\<close> and \<open>run_complete\<close> are the two steps,
  and works may run in any order.  An event is put into the queue of the subscriber's thread safe
  function by \<open>SubscriberInstance_OnReceiveEvent\<close>, which is the \<open>OnReceiveEvent\<close> of the client
  library, and \<open>ThreadSafeCallback\<close> hands it to JavaScript.  \<open>np_log\<close> is what JavaScript sees.  What
  a function of the application does is a further call.

  \<open>np_refs\<close> is what a \<open>napi_ref\<close> refers to; deleting or following a reference that has been deleted
  is undefined and \<open>None\<close>.  A reference for a callback is made when the arguments are read; a call
  that fails deletes it again, so it is made here when the call has not failed.  As for the C
  interface, the state lies behind the client's proxy with \<open>capi_ops\<close>.
\<close>

section \<open>State\<close>

definition NO_ERROR :: int where "NO_ERROR = 0"
definition ERR_CES_FAILED :: int where "ERR_CES_FAILED = 1"

record CallbackPromiseInfo =
  pr_callback :: "nat option"
  pr_deferred :: "nat option"
  pr_isCallback :: bool
  pr_errorCode :: int

record SubscriberInstance =
  sn_env :: bool \<comment> \<open>\<open>env_\<close> is not null\<close>
  sn_ref :: "nat option"
  sn_tsfn :: bool

record subscriberInstanceInfo =
  sii_asyncCallbackInfo :: "nat option list" \<comment> \<open>the callbacks of the subscriptions\<close>
  sii_commonEventResult :: "nat option"

datatype napi_body =
    BodyGetSubscribeInfo nat | BodyIsOrdered nat | BodyIsSticky nat | BodyGetCode nat | BodySetCode nat int32
  | BodyGetData nat | BodySetData nat string | BodySetCodeAndData nat int32 string | BodyAbort nat
  | BodyClearAbort nat | BodyGetAbort nat | BodyFinish nat
  | BodyCreate nat | BodySubscribe nat | BodyUnsubscribe nat nat
  | BodyPublish CommonEventData CommonEventPublishInfo
  | BodyPublishAsUser CommonEventData CommonEventPublishInfo int32

record napi_work =
  wk_body :: napi_body
  wk_info :: CallbackPromiseInfo
  wk_value :: js
  wk_executed :: bool

datatype js_effect =
    JsCall nat js js \<comment> \<open>a callback with its error and its value\<close>
  | JsResolve nat js
  | JsReject nat js
  | JsEvent nat js js \<comment> \<open>the callback of a subscription\<close>

record napi_state =
  np_refs :: "nat \<Rightarrow> js option"
  np_wrapped :: "nat \<Rightarrow> nat option option" \<comment> \<open>object, wrapper and its subscriber\<close>
  np_subs :: "nat \<Rightarrow> SubscriberInstance"
  np_instances :: "(nat, subscriberInstanceInfo) omap" \<comment> \<open>\<open>subscriberInstances\<close>\<close>
  np_works :: "(nat, napi_work) umap"
  np_events :: "(nat \<times> CommonEventData) list"
  np_log :: "js_effect list"
  np_next :: nat

type_synonym 's napi_world = "client_state \<times> 's \<times> napi_state"

definition log_js :: "js_effect \<Rightarrow> napi_state \<Rightarrow> napi_state" where
  "log_js x k = k\<lparr>np_log := np_log k @ [x]\<rparr>"

definition create_reference :: "js \<Rightarrow> napi_state \<Rightarrow> nat \<times> napi_state" where
  "create_reference v k = (np_next k, k\<lparr>np_refs := (np_refs k)(np_next k := Some v), np_next := np_next k + 1\<rparr>)"

definition callback_reference :: "nat option \<Rightarrow> napi_state \<Rightarrow> nat option \<times> napi_state" where
  "callback_reference callback k =
     (case callback of None \<Rightarrow> (None, k) | Some f \<Rightarrow> (let (r, k1) = create_reference (JsFunction f) k in (Some r, k1)))"

definition delete_reference :: "nat option \<Rightarrow> napi_state \<Rightarrow> napi_state option" where
  "delete_reference ref k =
     (case ref of
        None \<Rightarrow> Some k
      | Some r \<Rightarrow> if np_refs k r = None then None else Some (k\<lparr>np_refs := (np_refs k)(r := None)\<rparr>))"

section \<open>Subscribers\<close>

text \<open>The entry of \<open>subscriberInstances\<close> that \<open>GetSubscriberByWrapper\<close> looks for holds the pointer of the
  wrapper itself, so the search does not change its result.\<close>

definition GetAsyncResult_napi :: "napi_state \<Rightarrow> nat \<Rightarrow> nat option" where
  "GetAsyncResult_napi k b =
     (case map_of (np_instances k) b of None \<Rightarrow> None | Some i \<Rightarrow> sii_commonEventResult i)"

definition GetSubscriberByWrapper :: "nat option \<Rightarrow> nat option" where
  "GetSubscriberByWrapper wrapper = (case wrapper of None \<Rightarrow> None | Some b \<Rightarrow> Some b)"

definition GetSubscriber :: "napi_state \<Rightarrow> js \<Rightarrow> nat option" where
  "GetSubscriber k v =
     (case v of
        JsInstance obj \<Rightarrow> (case np_wrapped k obj of None \<Rightarrow> None | Some wrapper \<Rightarrow> GetSubscriberByWrapper wrapper)
      | _ \<Rightarrow> None)"

definition GetSubscriberByUnsubscribe :: "napi_state \<Rightarrow> js \<Rightarrow> (nat \<times> bool) option" where
  "GetSubscriberByUnsubscribe k v = (case GetSubscriber k v of None \<Rightarrow> None | Some b \<Rightarrow> Some (b, True))"

definition upd_sub :: "nat \<Rightarrow> (SubscriberInstance \<Rightarrow> SubscriberInstance) \<Rightarrow> napi_state \<Rightarrow> napi_state" where
  "upd_sub b f k = k\<lparr>np_subs := (np_subs k)(b := f (np_subs k b))\<rparr>"

definition SetEnv :: "nat \<Rightarrow> napi_state \<Rightarrow> napi_state" where
  "SetEnv b = upd_sub b (\<lambda>x. x\<lparr>sn_env := True\<rparr>)"

definition ClearEnv :: "nat \<Rightarrow> napi_state \<Rightarrow> napi_state" where
  "ClearEnv b = upd_sub b (\<lambda>x. x\<lparr>sn_env := False, sn_tsfn := False\<rparr>)"

definition SetCallbackRef :: "nat \<Rightarrow> nat option \<Rightarrow> napi_state \<Rightarrow> napi_state option" where
  "SetCallbackRef b ref k =
     (case (if ref = None \<and> sn_env (np_subs k b) then delete_reference (sn_ref (np_subs k b)) k else Some k) of
        None \<Rightarrow> None
      | Some k1 \<Rightarrow> Some (upd_sub b (\<lambda>x. x\<lparr>sn_ref := ref\<rparr>) k1))"

definition SetThreadSafeFunction :: "nat \<Rightarrow> napi_state \<Rightarrow> napi_state" where
  "SetThreadSafeFunction b = upd_sub b (\<lambda>x. x\<lparr>sn_tsfn := True\<rparr>)"

definition NapiDeleteSubscribe :: "nat \<Rightarrow> napi_state \<Rightarrow> napi_state option" where
  "NapiDeleteSubscribe b k =
     (case map_of (np_instances k) b of
        None \<Rightarrow> Some k
      | Some i \<Rightarrow> map_option (\<lambda>k1. k1\<lparr>np_instances := AList.delete b (np_instances k1)\<rparr>) (SetCallbackRef b None k))"

section \<open>Delivery\<close>

text \<open>\<open>ok\<close>: the allocation for the event.\<close>

definition SubscriberInstance_OnReceiveEvent ::
  "bool \<Rightarrow> nat \<Rightarrow> CommonEventData \<Rightarrow> 's napi_world \<Rightarrow> 's napi_world" where
  "SubscriberInstance_OnReceiveEvent ok this d = (\<lambda>(c, s, k).
     (let (c1, k1) =
            (if IsOrderedCommonEvent_subscriber c this
             then (case map_of (np_instances k) this of
                     None \<Rightarrow> (c, k)
                   | Some i \<Rightarrow>
                       (let (res, c1) = GoAsyncCommonEvent this c
                        in (c1, k\<lparr>np_instances := omap_put this (i\<lparr>sii_commonEventResult := res\<rparr>) (np_instances k)\<rparr>)))
             else (c, k));
          n = np_subs k1 this
      in if sn_env n \<and> sn_tsfn n \<and> sn_ref n \<noteq> None \<and> ok
         then (c1, s, k1\<lparr>np_events := np_events k1 @ [(this, d)]\<rparr>)
         else (c1, s, k1)))"

text \<open>One event of the queue; \<open>alive\<close>: the weak pointer to the subscriber can still be promoted.\<close>

definition ThreadSafeCallback :: "wrap_lib \<Rightarrow> bool \<Rightarrow> napi_state \<Rightarrow> napi_state option" where
  "ThreadSafeCallback W alive k =
     (case np_events k of
        [] \<Rightarrow> Some k
      | (b, d) # es \<Rightarrow>
          (let k1 = k\<lparr>np_events := es\<rparr>; value' = SetCommonEventData W d (JsObject [])
           in if \<not> alive then Some k1
              else case sn_ref (np_subs k1 b) of
                     None \<Rightarrow> Some k1
                   | Some r \<Rightarrow>
                       (case np_refs k1 r of
                          Some (JsFunction f) \<Rightarrow> Some (log_js (JsEvent f (GetCallbackErrorValue NO_ERROR) value') k1)
                        | _ \<Rightarrow> None)))"

section \<open>Callbacks and promises\<close>

definition SetCallback :: "nat option \<Rightarrow> int \<Rightarrow> js \<Rightarrow> napi_state \<Rightarrow> napi_state option" where
  "SetCallback callbackIn errorCode value' k =
     (case callbackIn of
        None \<Rightarrow> Some k
      | Some r \<Rightarrow>
          (case np_refs k r of
             Some (JsFunction f) \<Rightarrow> Some (log_js (JsCall f (GetCallbackErrorValue errorCode) value') k)
           | _ \<Rightarrow> None))"

definition SetPromise :: "nat option \<Rightarrow> int \<Rightarrow> js \<Rightarrow> napi_state \<Rightarrow> napi_state" where
  "SetPromise deferred errorCode value' k =
     (case deferred of
        None \<Rightarrow> k
      | Some p \<Rightarrow> if errorCode = NO_ERROR then log_js (JsResolve p value') k
                  else log_js (JsReject p (GetCallbackErrorValue errorCode)) k)"

definition ReturnCallbackPromise :: "CallbackPromiseInfo \<Rightarrow> js \<Rightarrow> napi_state \<Rightarrow> napi_state option" where
  "ReturnCallbackPromise info value' k =
     (if pr_isCallback info then SetCallback (pr_callback info) (pr_errorCode info) value' k
      else Some (SetPromise (pr_deferred info) (pr_errorCode info) value' k))"

definition padding_info :: "bool \<Rightarrow> nat option \<Rightarrow> napi_state \<Rightarrow> CallbackPromiseInfo \<times> js \<times> napi_state" where
  "padding_info withCallback callback k =
     (if withCallback
      then (\<lparr>pr_callback = callback, pr_deferred = None, pr_isCallback = True, pr_errorCode = NO_ERROR\<rparr>, JsUndefined, k)
      else (\<lparr>pr_callback = None, pr_deferred = Some (np_next k), pr_isCallback = False, pr_errorCode = NO_ERROR\<rparr>,
            JsPromise (np_next k), k\<lparr>np_next := np_next k + 1\<rparr>))"

definition PaddingAsyncCallbackInfoGetSubscribeInfo where
  "PaddingAsyncCallbackInfoGetSubscribeInfo argc = padding_info (argc \<ge> GETSUBSCREBEINFO_MAX_PARA)"
definition PaddingAsyncCallbackInfoIsOrderedCommonEvent where
  "PaddingAsyncCallbackInfoIsOrderedCommonEvent argc = padding_info (argc \<ge> ISORDEREDCOMMONEVENT_MAX_PARA)"
definition PaddingAsyncCallbackInfoIsStickyCommonEvent where
  "PaddingAsyncCallbackInfoIsStickyCommonEvent argc = padding_info (argc \<ge> ISSTICKYCOMMONEVENT_MAX_PARA)"
definition PaddingAsyncCallbackInfoGetCode where
  "PaddingAsyncCallbackInfoGetCode argc = padding_info (argc \<ge> GET_CODE_MAX_PARA)"
definition PaddingAsyncCallbackInfoSetCode where
  "PaddingAsyncCallbackInfoSetCode argc = padding_info (argc \<ge> SET_CODE_MAX_PARA)"
definition PaddingAsyncCallbackInfoGetData where
  "PaddingAsyncCallbackInfoGetData argc = padding_info (argc \<ge> GET_DATA_MAX_PARA)"
definition PaddingAsyncCallbackInfoSetData where
  "PaddingAsyncCallbackInfoSetData argc = padding_info (argc \<ge> SET_DATA_MAX_PARA)"
definition PaddingAsyncCallbackInfoSetCodeAndData where
  "PaddingAsyncCallbackInfoSetCodeAndData argc = padding_info (argc \<ge> SET_CODE_AND_DATA_MAX_PARA)"
definition PaddingAsyncCallbackInfoAbort where
  "PaddingAsyncCallbackInfoAbort argc = padding_info (argc \<ge> ABORT_MAX_PARA)"
definition PaddingAsyncCallbackInfoClearAbort where
  "PaddingAsyncCallbackInfoClearAbort argc = padding_info (argc \<ge> CLEAR_ABORT_MAX_PARA)"
definition PaddingAsyncCallbackInfoGetAbort where
  "PaddingAsyncCallbackInfoGetAbort argc = padding_info (argc \<ge> GET_ABORT_MAX_PARA)"
definition PaddingAsyncCallbackInfoFinish where
  "PaddingAsyncCallbackInfoFinish argc = padding_info (argc \<ge> FINISH_MAX_PARA)"
definition PaddingAsyncCallbackInfoCreateSubscriber where
  "PaddingAsyncCallbackInfoCreateSubscriber callback = padding_info (callback \<noteq> None) callback"

lemmas padding_defs = PaddingAsyncCallbackInfoGetSubscribeInfo_def PaddingAsyncCallbackInfoIsOrderedCommonEvent_def
  PaddingAsyncCallbackInfoIsStickyCommonEvent_def PaddingAsyncCallbackInfoGetCode_def PaddingAsyncCallbackInfoSetCode_def
  PaddingAsyncCallbackInfoGetData_def PaddingAsyncCallbackInfoSetData_def PaddingAsyncCallbackInfoSetCodeAndData_def
  PaddingAsyncCallbackInfoAbort_def PaddingAsyncCallbackInfoClearAbort_def PaddingAsyncCallbackInfoGetAbort_def
  PaddingAsyncCallbackInfoFinish_def PaddingAsyncCallbackInfoCreateSubscriber_def

definition queue_work :: "napi_body \<Rightarrow> CallbackPromiseInfo \<Rightarrow> napi_state \<Rightarrow> napi_state" where
  "queue_work body info k = k\<lparr>np_works := np_works k @
     [(np_next k, \<lparr>wk_body = body, wk_info = info, wk_value = JsNull, wk_executed = False\<rparr>)], np_next := np_next k + 1\<rparr>"

section \<open>The methods of a subscriber\<close>

text \<open>What they share once the arguments are read; \<open>ok\<close>: the allocation for the work.\<close>

definition start_method ::
  "bool \<Rightarrow> js \<Rightarrow> nat option \<Rightarrow> (nat option \<Rightarrow> napi_state \<Rightarrow> CallbackPromiseInfo \<times> js \<times> napi_state) \<Rightarrow>
     (nat \<Rightarrow> napi_body) \<Rightarrow> napi_state \<Rightarrow> js \<times> napi_state" where
  "start_method ok thisVar callback padding body k =
     (if \<not> ok then (JsNull, k)
      else case GetSubscriber k thisVar of
             None \<Rightarrow> (JsNull, k)
           | Some b \<Rightarrow>
               (let (ref, k1) = callback_reference callback k;
                    (info, promise, k2) = padding ref k1;
                    k3 = queue_work (body b) info k2
                in if pr_isCallback info then (JsNull, k3) else (promise, k3)))"

definition GetSubscribeInfo_napi :: "bool \<Rightarrow> js \<Rightarrow> js list \<Rightarrow> napi_state \<Rightarrow> js \<times> napi_state" where
  "GetSubscribeInfo_napi ok thisVar args k =
     (case ParseParametersByGetSubscribeInfo args of
        None \<Rightarrow> (JsNull, k)
      | Some callback \<Rightarrow> start_method ok thisVar callback (PaddingAsyncCallbackInfoGetSubscribeInfo (length args)) BodyGetSubscribeInfo k)"

definition IsOrderedCommonEvent_napi :: "bool \<Rightarrow> js \<Rightarrow> js list \<Rightarrow> napi_state \<Rightarrow> js \<times> napi_state" where
  "IsOrderedCommonEvent_napi ok thisVar args k =
     (case ParseParametersByIsOrderedCommonEvent args of
        None \<Rightarrow> (JsNull, k)
      | Some callback \<Rightarrow> start_method ok thisVar callback (PaddingAsyncCallbackInfoIsOrderedCommonEvent (length args)) BodyIsOrdered k)"

definition IsStickyCommonEvent_napi :: "bool \<Rightarrow> js \<Rightarrow> js list \<Rightarrow> napi_state \<Rightarrow> js \<times> napi_state" where
  "IsStickyCommonEvent_napi ok thisVar args k =
     (case ParseParametersByIsStickyCommonEvent args of
        None \<Rightarrow> (JsNull, k)
      | Some callback \<Rightarrow> start_method ok thisVar callback (PaddingAsyncCallbackInfoIsStickyCommonEvent (length args)) BodyIsSticky k)"

definition GetCode_napi :: "bool \<Rightarrow> js \<Rightarrow> js list \<Rightarrow> napi_state \<Rightarrow> js \<times> napi_state" where
  "GetCode_napi ok thisVar args k =
     (case ParseParametersByGetCode args of
        None \<Rightarrow> (JsNull, k)
      | Some callback \<Rightarrow> start_method ok thisVar callback (PaddingAsyncCallbackInfoGetCode (length args)) BodyGetCode k)"

definition SetCode_napi :: "bool \<Rightarrow> js \<Rightarrow> js list \<Rightarrow> napi_state \<Rightarrow> js \<times> napi_state" where
  "SetCode_napi ok thisVar args k =
     (case ParseParametersBySetCode args of
        None \<Rightarrow> (JsNull, k)
      | Some (code, callback) \<Rightarrow>
          start_method ok thisVar callback (PaddingAsyncCallbackInfoSetCode (length args)) (\<lambda>b. BodySetCode b code) k)"

definition GetData_napi :: "bool \<Rightarrow> js \<Rightarrow> js list \<Rightarrow> napi_state \<Rightarrow> js \<times> napi_state" where
  "GetData_napi ok thisVar args k =
     (case ParseParametersByGetData args of
        None \<Rightarrow> (JsNull, k)
      | Some callback \<Rightarrow> start_method ok thisVar callback (PaddingAsyncCallbackInfoGetData (length args)) BodyGetData k)"

definition SetData_napi :: "bool \<Rightarrow> js \<Rightarrow> js list \<Rightarrow> napi_state \<Rightarrow> js \<times> napi_state" where
  "SetData_napi ok thisVar args k =
     (case ParseParametersBySetData args of
        None \<Rightarrow> (JsNull, k)
      | Some (data, callback) \<Rightarrow>
          start_method ok thisVar callback (PaddingAsyncCallbackInfoSetData (length args)) (\<lambda>b. BodySetData b data) k)"

definition SetCodeAndData_napi :: "bool \<Rightarrow> js \<Rightarrow> js list \<Rightarrow> napi_state \<Rightarrow> js \<times> napi_state" where
  "SetCodeAndData_napi ok thisVar args k =
     (case ParseParametersBySetCodeAndData args of
        None \<Rightarrow> (JsNull, k)
      | Some (code, data, callback) \<Rightarrow>
          start_method ok thisVar callback (PaddingAsyncCallbackInfoSetCodeAndData (length args))
            (\<lambda>b. BodySetCodeAndData b code data) k)"

definition AbortCommonEvent_napi :: "bool \<Rightarrow> js \<Rightarrow> js list \<Rightarrow> napi_state \<Rightarrow> js \<times> napi_state" where
  "AbortCommonEvent_napi ok thisVar args k =
     (case ParseParametersByAbort args of
        None \<Rightarrow> (JsNull, k)
      | Some callback \<Rightarrow> start_method ok thisVar callback (PaddingAsyncCallbackInfoAbort (length args)) BodyAbort k)"

definition ClearAbortCommonEvent_napi :: "bool \<Rightarrow> js \<Rightarrow> js list \<Rightarrow> napi_state \<Rightarrow> js \<times> napi_state" where
  "ClearAbortCommonEvent_napi ok thisVar args k =
     (case ParseParametersByClearAbort args of
        None \<Rightarrow> (JsNull, k)
      | Some callback \<Rightarrow> start_method ok thisVar callback (PaddingAsyncCallbackInfoClearAbort (length args)) BodyClearAbort k)"

definition GetAbortCommonEvent_napi :: "bool \<Rightarrow> js \<Rightarrow> js list \<Rightarrow> napi_state \<Rightarrow> js \<times> napi_state" where
  "GetAbortCommonEvent_napi ok thisVar args k =
     (case ParseParametersByGetAbort args of
        None \<Rightarrow> (JsNull, k)
      | Some callback \<Rightarrow> start_method ok thisVar callback (PaddingAsyncCallbackInfoGetAbort (length args)) BodyGetAbort k)"

definition FinishCommonEvent_napi :: "bool \<Rightarrow> js \<Rightarrow> js list \<Rightarrow> napi_state \<Rightarrow> js \<times> napi_state" where
  "FinishCommonEvent_napi ok thisVar args k =
     (case ParseParametersByFinish args of
        None \<Rightarrow> (JsNull, k)
      | Some callback \<Rightarrow> start_method ok thisVar callback (PaddingAsyncCallbackInfoFinish (length args)) BodyFinish k)"

section \<open>The functions of the module\<close>

definition CreateSubscriber_napi :: "bool \<Rightarrow> js list \<Rightarrow> napi_state \<Rightarrow> js \<times> napi_state" where
  "CreateSubscriber_napi ok args k =
     (if length args < 1 then (JsNull, k)
      else case ParseParametersByCreateSubscriber args of
             None \<Rightarrow> (JsNull, k)
           | Some callback \<Rightarrow>
               if \<not> ok then (JsNull, k)
               else
                 (let (ref, k1) = callback_reference callback k;
                      (info, promise, k2) = PaddingAsyncCallbackInfoCreateSubscriber ref k1;
                      (subscribeInfo, k3) = create_reference (argv args 0) k2;
                      k4 = queue_work (BodyCreate subscribeInfo) info k3
                  in if pr_isCallback info then (JsNull, k4) else (promise, k4)))"

definition ParseParametersBySubscribe :: "napi_state \<Rightarrow> js list \<Rightarrow> (nat \<times> nat) option" where
  "ParseParametersBySubscribe k args =
     (if napi_typeof (argv args 0) \<noteq> napi_object then None
      else case GetSubscriber k (argv args 0) of
             None \<Rightarrow> None
           | Some b \<Rightarrow> (case argv args 1 of JsFunction f \<Rightarrow> Some (b, f) | _ \<Rightarrow> None))"

definition callback_info :: "nat option \<Rightarrow> CallbackPromiseInfo" where
  "callback_info callback = \<lparr>pr_callback = callback, pr_deferred = None, pr_isCallback = True, pr_errorCode = NO_ERROR\<rparr>"

definition Subscribe_napi :: "bool \<Rightarrow> js list \<Rightarrow> napi_state \<Rightarrow> (js \<times> napi_state) option" where
  "Subscribe_napi ok args k =
     (if length args < SUBSCRIBE_MAX_PARA then Some (JsNull, k)
      else case ParseParametersBySubscribe k args of
             None \<Rightarrow> Some (JsNull, k)
           | Some (b, f) \<Rightarrow>
               if \<not> ok then Some (JsNull, k)
               else
                 (let (ref, k1) = callback_reference (Some f) k
                  in case SetCallbackRef b ref (SetEnv b k1) of
                       None \<Rightarrow> None
                     | Some k2 \<Rightarrow>
                         Some (JsNull, queue_work (BodySubscribe b) (callback_info ref) (SetThreadSafeFunction b k2))))"

definition ParseParametersByUnsubscribe :: "napi_state \<Rightarrow> js list \<Rightarrow> (nat \<times> bool \<times> nat option) option" where
  "ParseParametersByUnsubscribe k args =
     (if napi_typeof (argv args 0) \<noteq> napi_object then None
      else case GetSubscriberByUnsubscribe k (argv args 0) of
             None \<Rightarrow> None
           | Some (b, isFind) \<Rightarrow>
               (case parse_callback UNSUBSCRIBE_MAX_PARA 1 args of
                  None \<Rightarrow> None
                | Some callback \<Rightarrow> Some (b, isFind, callback)))"

definition Unsubscribe_napi :: "bool \<Rightarrow> js list \<Rightarrow> napi_state \<Rightarrow> js \<times> napi_state" where
  "Unsubscribe_napi ok args k =
     (if length args < 1 then (JsNull, k)
      else case ParseParametersByUnsubscribe k args of
             None \<Rightarrow> (JsNull, k)
           | Some (b, isFind, callback) \<Rightarrow>
               if \<not> isFind then (JsNull, k)
               else if \<not> ok then (JsNull, k)
               else
                 (let (ref, k1) = callback_reference callback k
                  in (JsNull, queue_work (BodyUnsubscribe b (length args)) (callback_info ref) k1)))"

definition publish_data :: "string \<Rightarrow> bool \<Rightarrow> CommonEventPublishDataByjs \<Rightarrow> CommonEventData \<times> CommonEventPublishInfo" where
  "publish_data event withOptions pd =
     (let want = want_named event; d = \<lparr>cd_want = want_named [], cd_code = 0, cd_data = []\<rparr>;
          (want1, d1, i1) = (if withOptions then PaddingCallbackInfoPublish pd want (d, CommonEventPublishInfo_init)
                             else (want, d, CommonEventPublishInfo_init))
      in (d1\<lparr>cd_want := want1\<rparr>, i1))"

definition Publish_napi :: "wrap_lib \<Rightarrow> bool \<Rightarrow> js list \<Rightarrow> napi_state \<Rightarrow> js \<times> napi_state" where
  "Publish_napi W ok args k =
     (if length args < PUBLISH_MAX_PARA then (JsNull, k)
      else case ParseParametersByPublish W args of
             None \<Rightarrow> (JsNull, k)
           | Some (event, pd, f) \<Rightarrow>
               if \<not> ok then (JsNull, k)
               else
                 (let (ref, k1) = callback_reference (Some f) k;
                      (d, i) = publish_data event (length args = PUBLISH_MAX_PARA_BY_PUBLISHDATA) pd
                  in (JsNull, queue_work (BodyPublish d i) (callback_info ref) k1)))"

definition PublishAsUser_napi :: "wrap_lib \<Rightarrow> bool \<Rightarrow> js list \<Rightarrow> napi_state \<Rightarrow> js \<times> napi_state" where
  "PublishAsUser_napi W ok args k =
     (if length args < PUBLISH_MAX_PARA_AS_USER then (JsNull, k)
      else case ParseParametersByPublishAsUser W args of
             None \<Rightarrow> (JsNull, k)
           | Some (event, user, pd, f) \<Rightarrow>
               if \<not> ok then (JsNull, k)
               else
                 (let (ref, k1) = callback_reference (Some f) k;
                      (d, i) = publish_data event (length args = PUBLISH_MAX_PARA_BY_USERID) pd
                  in (JsNull, queue_work (BodyPublishAsUser d i user) (callback_info ref) k1)))"

section \<open>Executing a work\<close>

text \<open>The results: the error code and the value for JavaScript.  Without a result of an ordered event
  the error code stays as it is.\<close>

definition change_napi ::
  "(AsyncCommonEventResult \<Rightarrow> bool \<times> AsyncCommonEventResult) \<Rightarrow> nat \<Rightarrow> 's napi_world \<Rightarrow> int \<times> js \<times> 's napi_world" where
  "change_napi f b = (\<lambda>(c, s, k).
     (case GetAsyncResult_napi k b of
        None \<Rightarrow> (NO_ERROR, JsNull, c, s, k)
      | Some r \<Rightarrow>
          (let (ok, a) = f (cc_results c r)
           in (if ok then NO_ERROR else ERR_CES_FAILED, JsNull, upd_result r (\<lambda>_. a) c, s, k))))"

definition SetCode_work :: "nat \<Rightarrow> int32 \<Rightarrow> 's napi_world \<Rightarrow> int \<times> js \<times> 's napi_world" where
  "SetCode_work b code = change_napi (SetCode_result code) b"

definition SetData_work :: "nat \<Rightarrow> string \<Rightarrow> 's napi_world \<Rightarrow> int \<times> js \<times> 's napi_world" where
  "SetData_work b data = change_napi (SetData_result data) b"

definition SetCodeAndData_work :: "nat \<Rightarrow> int32 \<Rightarrow> string \<Rightarrow> 's napi_world \<Rightarrow> int \<times> js \<times> 's napi_world" where
  "SetCodeAndData_work b code data = change_napi (SetCodeAndData_result code data) b"

definition Abort_work :: "nat \<Rightarrow> 's napi_world \<Rightarrow> int \<times> js \<times> 's napi_world" where
  "Abort_work = change_napi AbortCommonEvent_result"

definition ClearAbort_work :: "nat \<Rightarrow> 's napi_world \<Rightarrow> int \<times> js \<times> 's napi_world" where
  "ClearAbort_work = change_napi ClearAbortCommonEvent_result"

definition Finish_work :: "'s svc_ops \<Rightarrow> nat \<Rightarrow> 's napi_world \<Rightarrow> int \<times> js \<times> 's napi_world" where
  "Finish_work X b = (\<lambda>(c, s, k).
     (case GetAsyncResult_napi k b of
        None \<Rightarrow> (NO_ERROR, JsNull, c, s, k)
      | Some r \<Rightarrow>
          (let (ok, cs) = FinishCommonEvent (capi_ops X) r (c, s, k)
           in (if ok then NO_ERROR else ERR_CES_FAILED, JsNull, cs))))"

definition GetSubscribeInfo_work :: "client_state \<Rightarrow> nat \<Rightarrow> js" where
  "GetSubscribeInfo_work c b = SetNapiResult (PaddingNapiCreateAsyncWorkCallbackInfo (info_of c b)) (JsObject [])"

definition IsOrdered_work :: "client_state \<Rightarrow> napi_state \<Rightarrow> nat \<Rightarrow> js" where
  "IsOrdered_work c k b = JsBool
     (case GetAsyncResult_napi k b of
        Some r \<Rightarrow> ar_ordered (cc_results c r) | None \<Rightarrow> IsOrderedCommonEvent_subscriber c b)"

definition IsSticky_work :: "client_state \<Rightarrow> napi_state \<Rightarrow> nat \<Rightarrow> js" where
  "IsSticky_work c k b = JsBool
     (case GetAsyncResult_napi k b of
        Some r \<Rightarrow> ar_sticky (cc_results c r) | None \<Rightarrow> IsStickyCommonEvent_subscriber c b)"

definition GetCode_work :: "client_state \<Rightarrow> napi_state \<Rightarrow> nat \<Rightarrow> js" where
  "GetCode_work c k b = JsNumber (case GetAsyncResult_napi k b of Some r \<Rightarrow> ar_code (cc_results c r) | None \<Rightarrow> 0)"

definition GetData_work :: "client_state \<Rightarrow> napi_state \<Rightarrow> nat \<Rightarrow> js" where
  "GetData_work c k b =
     JsString (c_str (case GetAsyncResult_napi k b of Some r \<Rightarrow> ar_data (cc_results c r) | None \<Rightarrow> []))"

definition GetAbort_work :: "client_state \<Rightarrow> napi_state \<Rightarrow> nat \<Rightarrow> js" where
  "GetAbort_work c k b = JsBool (case GetAsyncResult_napi k b of Some r \<Rightarrow> ar_abort (cc_results c r) | None \<Rightarrow> False)"

definition PublishCommonEvent_info_mgr ::
  "'s svc_ops \<Rightarrow> CommonEventData \<Rightarrow> CommonEventPublishInfo \<Rightarrow> client_state \<times> 's \<Rightarrow> bool \<times> client_state \<times> 's" where
  "PublishCommonEvent_info_mgr X d i cs = (let (r, cs1) = NewPublishCommonEvent X d i cs in (r = ERR_OK, cs1))"

definition code_of :: "bool \<times> 's napi_world \<Rightarrow> int \<times> js \<times> 's napi_world" where
  "code_of = (\<lambda>(ok, cs). (if ok then NO_ERROR else ERR_CES_FAILED, JsNull, cs))"

fun execute_body :: "'s svc_ops \<Rightarrow> napi_body \<Rightarrow> 's napi_world \<Rightarrow> int \<times> js \<times> 's napi_world" where
  "execute_body X (BodyGetSubscribeInfo b) (c, s, k) = (NO_ERROR, GetSubscribeInfo_work c b, c, s, k)"
| "execute_body X (BodyIsOrdered b) (c, s, k) = (NO_ERROR, IsOrdered_work c k b, c, s, k)"
| "execute_body X (BodyIsSticky b) (c, s, k) = (NO_ERROR, IsSticky_work c k b, c, s, k)"
| "execute_body X (BodyGetCode b) (c, s, k) = (NO_ERROR, GetCode_work c k b, c, s, k)"
| "execute_body X (BodySetCode b code) cs = SetCode_work b code cs"
| "execute_body X (BodyGetData b) (c, s, k) = (NO_ERROR, GetData_work c k b, c, s, k)"
| "execute_body X (BodySetData b data) cs = SetData_work b data cs"
| "execute_body X (BodySetCodeAndData b code data) cs = SetCodeAndData_work b code data cs"
| "execute_body X (BodyAbort b) cs = Abort_work b cs"
| "execute_body X (BodyClearAbort b) cs = ClearAbort_work b cs"
| "execute_body X (BodyGetAbort b) (c, s, k) = (NO_ERROR, GetAbort_work c k b, c, s, k)"
| "execute_body X (BodyFinish b) cs = Finish_work X b cs"
| "execute_body X (BodyCreate ref) cs = (NO_ERROR, JsNull, cs)"
| "execute_body X (BodySubscribe b) cs = code_of (SubscribeCommonEvent_mgr (capi_ops X) (Some b) cs)"
| "execute_body X (BodyUnsubscribe b argc) cs = code_of (UnSubscribeCommonEvent_mgr (capi_ops X) (Some b) cs)"
| "execute_body X (BodyPublish d i) cs = code_of (PublishCommonEvent_info_mgr (capi_ops X) d i cs)"
| "execute_body X (BodyPublishAsUser d i user) cs = code_of (PublishCommonEventAsUser_mgr (capi_ops X) d i None user cs)"

definition run_execute :: "'s svc_ops \<Rightarrow> nat \<Rightarrow> 's napi_world \<Rightarrow> 's napi_world" where
  "run_execute X w = (\<lambda>(c, s, k).
     (case map_of (np_works k) w of
        None \<Rightarrow> (c, s, k)
      | Some wk \<Rightarrow>
          if wk_executed wk then (c, s, k)
          else
            (let (errorCode, v, c1, s1, k1) = execute_body X (wk_body wk) (c, s, k)
             in (c1, s1, k1\<lparr>np_works := AList.update w
                   (wk\<lparr>wk_info := (wk_info wk)\<lparr>pr_errorCode := errorCode\<rparr>, wk_value := v, wk_executed := True\<rparr>)
                   (np_works k1)\<rparr>))))"

section \<open>Completing a work\<close>

text \<open>\<open>okw\<close>, \<open>oks\<close>: the allocations of the wrapper and of the subscriber in it.  If a constructor returns
  no object, the result of \<open>new\<close> is the object it was called for, here one without a wrapper.\<close>

definition CommonEventSubscriberConstructor ::
  "bool \<Rightarrow> bool \<Rightarrow> js list \<Rightarrow> client_state \<times> napi_state \<Rightarrow> js \<times> client_state \<times> napi_state" where
  "CommonEventSubscriberConstructor okw oks args = (\<lambda>(c, k).
     (case ParseParametersConstructor args of
        None \<Rightarrow> (JsNull, c, k)
      | Some subscribeInfo \<Rightarrow>
          if \<not> okw then (JsNull, c, k)
          else
            (let thisVar = np_next k; b = thisVar + 1
             in if oks
                then (JsInstance thisVar,
                      upd_subscriber b (\<lambda>_. \<lparr>sr_info = subscribeInfo, sr_result = None\<rparr>) c,
                      k\<lparr>np_wrapped := (np_wrapped k)(thisVar := Some (Some b)),
                        np_subs := (np_subs k)(b := \<lparr>sn_env = False, sn_ref = None, sn_tsfn = False\<rparr>),
                        np_next := b + 1\<rparr>)
                else (JsInstance thisVar, c,
                      k\<lparr>np_wrapped := (np_wrapped k)(thisVar := Some None), np_next := b\<rparr>))))"

definition napi_new_instance ::
  "bool \<Rightarrow> bool \<Rightarrow> js list \<Rightarrow> client_state \<times> napi_state \<Rightarrow> js \<times> client_state \<times> napi_state" where
  "napi_new_instance okw oks args ck =
     (let (v, c, k) = CommonEventSubscriberConstructor okw oks args ck
      in if napi_typeof v = napi_object then (v, c, k)
         else (JsInstance (np_next k), c, k\<lparr>np_wrapped := (np_wrapped k)(np_next k := None), np_next := np_next k + 1\<rparr>))"

definition CreateSubscriber_complete ::
  "bool \<Rightarrow> bool \<Rightarrow> nat \<Rightarrow> CallbackPromiseInfo \<Rightarrow> 's napi_world \<Rightarrow> 's napi_world option" where
  "CreateSubscriber_complete okw oks subscribeInfo info = (\<lambda>(c, s, k).
     (case np_refs k subscribeInfo of
        None \<Rightarrow> None
      | Some v \<Rightarrow>
          (let (res, c1, k1) = napi_new_instance okw oks [v] (c, k)
           in map_option (\<lambda>k4. (c1, s, k4))
                (Option.bind (ReturnCallbackPromise info res k1)
                  (\<lambda>k2. Option.bind (delete_reference (pr_callback info) k2)
                    (delete_reference (Some subscribeInfo)))))))"

definition Subscribe_complete :: "nat \<Rightarrow> CallbackPromiseInfo \<Rightarrow> napi_state \<Rightarrow> napi_state option" where
  "Subscribe_complete b info k =
     (if pr_errorCode info = NO_ERROR
      then (let i = (case map_of (np_instances k) b of
                       Some i \<Rightarrow> i | None \<Rightarrow> \<lparr>sii_asyncCallbackInfo = [], sii_commonEventResult = None\<rparr>)
            in Some (k\<lparr>np_instances := omap_put b
                 (i\<lparr>sii_asyncCallbackInfo := sii_asyncCallbackInfo i @ [pr_callback info]\<rparr>) (np_instances k)\<rparr>))
      else Option.bind (SetCallback (pr_callback info) (pr_errorCode info) JsNull k) (delete_reference (pr_callback info)))"

definition Unsubscribe_complete :: "nat \<Rightarrow> nat \<Rightarrow> CallbackPromiseInfo \<Rightarrow> napi_state \<Rightarrow> napi_state option" where
  "Unsubscribe_complete b argc info k =
     Option.bind (if argc \<ge> UNSUBSCRIBE_MAX_PARA then SetCallback (pr_callback info) (pr_errorCode info) JsNull k else Some k)
       (\<lambda>k1. Option.bind (delete_reference (pr_callback info) k1) (NapiDeleteSubscribe b))"

definition Publish_complete :: "CallbackPromiseInfo \<Rightarrow> napi_state \<Rightarrow> napi_state option" where
  "Publish_complete info k =
     Option.bind (SetCallback (pr_callback info) (pr_errorCode info) JsNull k) (delete_reference (pr_callback info))"

definition method_complete :: "CallbackPromiseInfo \<Rightarrow> js \<Rightarrow> napi_state \<Rightarrow> napi_state option" where
  "method_complete info v k =
     Option.bind (ReturnCallbackPromise info v k) (delete_reference (pr_callback info))"

fun complete_body ::
  "bool \<Rightarrow> bool \<Rightarrow> napi_body \<Rightarrow> CallbackPromiseInfo \<Rightarrow> js \<Rightarrow> 's napi_world \<Rightarrow> 's napi_world option" where
  "complete_body okw oks (BodyCreate ref) info v cs = CreateSubscriber_complete okw oks ref info cs"
| "complete_body okw oks (BodySubscribe b) info v (c, s, k) = map_option (\<lambda>k1. (c, s, k1)) (Subscribe_complete b info k)"
| "complete_body okw oks (BodyUnsubscribe b argc) info v (c, s, k) =
     map_option (\<lambda>k1. (c, s, k1)) (Unsubscribe_complete b argc info k)"
| "complete_body okw oks (BodyPublish d i) info v (c, s, k) = map_option (\<lambda>k1. (c, s, k1)) (Publish_complete info k)"
| "complete_body okw oks (BodyPublishAsUser d i user) info v (c, s, k) =
     map_option (\<lambda>k1. (c, s, k1)) (Publish_complete info k)"
| "complete_body okw oks body info v (c, s, k) = map_option (\<lambda>k1. (c, s, k1)) (method_complete info v k)"

definition run_complete :: "bool \<Rightarrow> bool \<Rightarrow> nat \<Rightarrow> 's napi_world \<Rightarrow> 's napi_world option" where
  "run_complete okw oks w = (\<lambda>(c, s, k).
     (case map_of (np_works k) w of
        None \<Rightarrow> Some (c, s, k)
      | Some wk \<Rightarrow>
          if \<not> wk_executed wk then Some (c, s, k)
          else complete_body okw oks (wk_body wk) (wk_info wk) (wk_value wk)
                 (c, s, k\<lparr>np_works := AList.delete w (np_works k)\<rparr>)))"

text \<open>The runtime collects an object of JavaScript.\<close>

definition finalize_instance :: "'s svc_ops \<Rightarrow> nat \<Rightarrow> 's napi_world \<Rightarrow> 's napi_world option" where
  "finalize_instance X obj = (\<lambda>(c, s, k).
     (case np_wrapped k obj of
        None \<Rightarrow> Some (c, s, k)
      | Some wrapper \<Rightarrow>
          (let k0 = k\<lparr>np_wrapped := (np_wrapped k)(obj := None)\<rparr>
           in case GetSubscriberByWrapper wrapper of
                None \<Rightarrow> Some (c, s, k0)
              | Some b \<Rightarrow>
                  (let (ok, c1, s1, k1) = UnSubscribeCommonEvent_mgr (capi_ops X) (Some b) (c, s, k0)
                   in map_option (\<lambda>k2. (c1, s1, k2)) (NapiDeleteSubscribe b k1)))))"

end
