(* ===== verification/Napi_Props.thy ===== *)
theory Napi_Props
  imports Napi_Interface Kept_Results
begin

text \<open>
  What the JavaScript interface promises: values arrive as they were written, a publication reaches
  the service and its callback learns the outcome, an event reaches the callback of its subscriber,
  and an ordered event is answered with what the application decided.
\<close>

section \<open>States\<close>

text \<open>Numbers from \<open>np_next\<close> on are free.\<close>

definition napi_ok :: "napi_state \<Rightarrow> bool" where
  "napi_ok k \<longleftrightarrow> (\<forall>w \<in> fst ` set (np_works k). w < np_next k) \<and> (\<forall>r \<ge> np_next k. np_refs k r = None)"

lemma napi_okD:
  assumes "napi_ok k" and "np_next k \<le> n"
  shows "map_of (np_works k) n = None" "np_refs k n = None" "AList.delete n (np_works k) = np_works k"
proof -
  have "n \<notin> fst ` set (np_works k)" using assms unfolding napi_ok_def by fastforce
  then show "map_of (np_works k) n = None" "AList.delete n (np_works k) = np_works k"
    by (simp_all add: map_of_eq_None_iff delete_id)
  show "np_refs k n = None" using assms by (simp add: napi_ok_def)
qed

lemma last_entry:
  assumes "map_of xs n = None"
  shows "map_of (xs @ [(n, x)]) n = Some x" "AList.update n y (xs @ [(n, x)]) = xs @ [(n, y)]"
    "AList.delete n (xs @ [(n, x)]) = xs"
proof -
  have n: "n \<notin> fst ` set xs" using assms by (simp add: map_of_eq_None_iff)
  then show "map_of (xs @ [(n, x)]) n = Some x" using assms by (simp add: map_add_def)
  show "AList.update n y (xs @ [(n, x)]) = xs @ [(n, y)]" using n by (induction xs) auto
  show "AList.delete n (xs @ [(n, x)]) = xs" using n by (induction xs) auto
qed

text \<open>A work that was queued last, executed and completed.\<close>

lemma run_queued:
  assumes "napi_ok k" and "np_next k \<le> np_next k1" and "np_works k1 = np_works k"
    and "execute_body X body (c, s, queue_work body info k1) = (errorCode, v, c1, s1, queue_work body info k1)"
  shows "run_complete okw oks (np_next k1) (run_execute X (np_next k1) (c, s, queue_work body info k1)) =
    complete_body okw oks body (info\<lparr>pr_errorCode := errorCode\<rparr>) v (c1, s1, k1\<lparr>np_next := np_next k1 + 1\<rparr>)"
proof -
  let ?w1 = "\<lparr>wk_body = body, wk_info = info\<lparr>pr_errorCode := errorCode\<rparr>, wk_value = v, wk_executed = True\<rparr>"
  have fresh: "map_of (np_works k1) (np_next k1) = None"
    using napi_okD(1) [OF assms(1,2)] assms(3) by simp
  have works: "np_works (queue_work body info k1) = np_works k1 @ [(np_next k1,
      \<lparr>wk_body = body, wk_info = info, wk_value = JsNull, wk_executed = False\<rparr>)]"
    by (simp add: queue_work_def)
  have "run_execute X (np_next k1) (c, s, queue_work body info k1) =
      (c1, s1, k1\<lparr>np_works := np_works k1 @ [(np_next k1, ?w1)], np_next := np_next k1 + 1\<rparr>)"
    using assms(4)
    by (simp add: run_execute_def works last_entry [OF fresh] del: map_of_append) (simp add: queue_work_def last_entry [OF fresh])
  then show ?thesis
    by (simp add: run_complete_def last_entry [OF fresh] del: map_of_append)
qed

section \<open>Values\<close>

lemma c_str_plain: "CHR 0x00 \<notin> set s \<Longrightarrow> c_str s = s"
  unfolding c_str_def takeWhile_eq_all_conv by auto

lemma read_string_plain: "length s \<le> 254 \<Longrightarrow> CHR 0x00 \<notin> set s \<Longrightarrow> read_string (JsString s) = Some s"
  by (simp add: read_string_def napi_copied_def STR_MAX_SIZE_def c_str_plain)

lemma read_strings_plain:
  "\<forall>s \<in> set xs. length s \<le> 254 \<and> CHR 0x00 \<notin> set s \<Longrightarrow> read_strings (map JsString xs) acc = Some (acc @ xs)"
  by (induction xs arbitrary: acc) (simp_all add: read_string_plain)

lemma int32_in_range: "- (2 ^ 31) \<le> n \<Longrightarrow> n < 2 ^ 31 \<Longrightarrow> napi_get_value_int32 n = n"
proof -
  assume n: "- (2 ^ 31) \<le> n" "n < 2 ^ 31"
  have "sint (word_of_int n :: 32 word) = signed_take_bit 31 n" unfolding sint_sbintrunc' by simp
  also have "\<dots> = n" using n by (intro signed_take_bit_int_eq_self) simp_all
  finally show ?thesis by (simp add: napi_get_value_int32_def to_int32_def)
qed

lemma fold_AddEvent:
  "distinct (ds @ es) \<Longrightarrow> fold AddEvent es \<lparr>ms_entities = [], ms_events = ds, ms_schemes = []\<rparr> =
     \<lparr>ms_entities = [], ms_events = ds @ es, ms_schemes = []\<rparr>"
  by (induction es arbitrary: ds) (simp_all add: AddEvent_def add_unique_def)

lemmas property_defs = optional_property_def napi_has_named_property_def napi_get_named_property_def
  napi_set_named_property_def

lemma info_read_back:
  assumes "es \<noteq> []" and "length es \<le> 512" and "distinct es"
    and "\<forall>s \<in> set (p # dev # es). length s \<le> 254 \<and> CHR 0x00 \<notin> set s"
    and "- (2 ^ 31) \<le> u" and "u < 2 ^ 31" and "- (2 ^ 31) \<le> n" and "n < 2 ^ 31"
    and i: "i = CommonEventSubscribeInfo_init\<lparr>si_matchingSkills := \<lparr>ms_entities = [], ms_events = es, ms_schemes = []\<rparr>,
      si_permission := p, si_deviceId := dev, si_userId := u, si_priority := n\<rparr>"
  shows "ParseParametersConstructor [SetNapiResult (PaddingNapiCreateAsyncWorkCallbackInfo i) (JsObject [])] = Some i"
proof -
  let ?v = "JsObject [(''events'', JsArray (map JsString es)), (''publisherPermission'', JsString p),
    (''publisherDeviceId'', JsString dev), (''userId'', JsNumber u), (''priority'', JsNumber n)]"
  have plain: "c_str s = s" if "s \<in> set (p # dev # es)" for s using assms(4) that c_str_plain by blast
  then have "map (\<lambda>e. JsString (c_str e)) es = map JsString es" by simp
  then have v: "SetNapiResult (PaddingNapiCreateAsyncWorkCallbackInfo i) (JsObject []) = ?v"
    using assms(1) plain
    by (simp add: i SetNapiResult_def PaddingNapiCreateAsyncWorkCallbackInfo_def SetEventsResult_def
      SetPublisherPermissionResult_def SetPublisherDeviceIdResult_def SetPublisherUserIdResult_def
      SetPublisherPriorityResult_def napi_set_named_property_def)
  have es: "GetEventsByCreateSubscriber ?v = Some es"
    using assms(1,2,4) read_strings_plain [of es "[]"]
    by (simp add: GetEventsByCreateSubscriber_def property_defs SUBSCRIBE_EVENT_MAX_NUM_napi_def)
  have p: "GetPublisherPermissionByCreateSubscriber ?v j = Some (j\<lparr>si_permission := p\<rparr>)" for j
    using assms(4) by (simp add: GetPublisherPermissionByCreateSubscriber_def property_defs read_string_plain)
  have dev: "GetPublisherDeviceIdByCreateSubscriber ?v j = Some (j\<lparr>si_deviceId := dev\<rparr>)" for j
    using assms(4) by (simp add: GetPublisherDeviceIdByCreateSubscriber_def property_defs read_string_plain)
  have u: "GetUserIdByCreateSubscriber ?v j = Some (j\<lparr>si_userId := u\<rparr>)" for j
    using assms(5,6) by (simp add: GetUserIdByCreateSubscriber_def property_defs read_int32_def int32_in_range)
  have n: "GetPriorityByCreateSubscriber ?v j = Some (j\<lparr>si_priority := n\<rparr>)" for j
    using assms(7,8) by (simp add: GetPriorityByCreateSubscriber_def property_defs read_int32_def int32_in_range)
  show ?thesis
    unfolding v by (simp add: ParseParametersConstructor_def argv_def es p dev u n fold_AddEvent [of "[]"] assms(3) i
      CommonEventSubscribeInfo_init_def)
qed

text \<open>C30: The information of a subscriber survives the way through JavaScript.  Let a subscriber have
  between 1 and 512 different events, all its texts of at most 254 bytes without a zero byte.  When the
  object that \<open>getSubscribeInfo\<close> returns for it is given to \<open>createSubscriber\<close>, the promise of that
  call is resolved with an object whose subscriber has exactly the same information, and nothing but
  this has happened.\<close>

theorem napi_subscriber_roundtrip:
  assumes "napi_ok k" and "es \<noteq> []" and "length es \<le> 512" and "distinct es"
    and "\<forall>s \<in> set (p # dev # es). length s \<le> 254 \<and> CHR 0x00 \<notin> set s"
    and "- (2 ^ 31) \<le> u" and "u < 2 ^ 31" and "- (2 ^ 31) \<le> n" and "n < 2 ^ 31"
    and "info_of c b = CommonEventSubscribeInfo_init\<lparr>si_matchingSkills := \<lparr>ms_entities = [], ms_events = es, ms_schemes = []\<rparr>,
      si_permission := p, si_deviceId := dev, si_userId := u, si_priority := n\<rparr>"
    and "CreateSubscriber_napi True [GetSubscribeInfo_work c b] k = (ret, k1)"
  shows "\<exists>obj b1 c1 k2. ret = JsPromise (np_next k) \<and>
    run_complete True True (np_next k + 2) (run_execute X (np_next k + 2) (c, s, k1)) = Some (c1, s, k2) \<and>
    np_log k2 = np_log k @ [JsResolve (np_next k) (JsInstance obj)] \<and>
    GetSubscriber k2 (JsInstance obj) = Some b1 \<and> info_of c1 b1 = info_of c b \<and>
    np_works k2 = np_works k \<and> np_refs k2 = np_refs k"
proof -
  let ?v = "GetSubscribeInfo_work c b" and ?n = "np_next k"
  let ?info = "\<lparr>pr_callback = None, pr_deferred = Some ?n, pr_isCallback = False, pr_errorCode = NO_ERROR\<rparr>"
  let ?k3 = "k\<lparr>np_refs := (np_refs k)(?n + 1 := Some ?v), np_next := ?n + 2\<rparr>"
  have parse: "ParseParametersConstructor [?v] = Some (info_of c b)"
    unfolding GetSubscribeInfo_work_def using info_read_back [OF assms(2-10)] .
  have "napi_typeof ?v = napi_object"
    by (simp add: GetSubscribeInfo_work_def SetNapiResult_def SetEventsResult_def SetPublisherPermissionResult_def
      SetPublisherDeviceIdResult_def SetPublisherUserIdResult_def SetPublisherPriorityResult_def napi_set_named_property_def)
  then have start: "ret = JsPromise ?n" "k1 = queue_work (BodyCreate (?n + 1)) ?info ?k3"
    using assms(11)
    by (simp_all add: CreateSubscriber_napi_def ParseParametersByCreateSubscriber_def argv_def CREATE_MAX_PARA_def
      callback_reference_def PaddingAsyncCallbackInfoCreateSubscriber_def padding_info_def create_reference_def)
  have run: "run_complete True True (?n + 2) (run_execute X (?n + 2) (c, s, k1)) =
      complete_body True True (BodyCreate (?n + 1)) (?info\<lparr>pr_errorCode := NO_ERROR\<rparr>) JsNull (c, s, ?k3\<lparr>np_next := ?n + 2 + 1\<rparr>)"
    using run_queued [OF assms(1), of ?k3 X "BodyCreate (?n + 1)" c s ?info NO_ERROR JsNull c s True True] start(2) by simp
  have "np_refs k (Suc ?n) = None" using napi_okD(2) [OF assms(1)] by simp
  then have refs: "(np_refs k)(Suc ?n := None) = np_refs k" by auto
  show ?thesis
    unfolding run start(1)
    by (simp add: CreateSubscriber_complete_def napi_new_instance_def CommonEventSubscriberConstructor_def parse
      ReturnCallbackPromise_def SetPromise_def log_js_def delete_reference_def NO_ERROR_def GetSubscriber_def
      GetSubscriberByWrapper_def upd_subscriber_def refs Let_def)
qed

section \<open>Publishing\<close>

lemma publish_options_plain:
  assumes "\<forall>t \<in> set (bundle # ps). length t \<le> 254 \<and> CHR 0x00 \<notin> set t" and "length data < 65536" and "CHR 0x00 \<notin> set data"
    and "napi_typeof params = napi_object" and "UnwrapWantParams W params = Some w"
  shows "publish_options W (JsObject [(''bundleName'', JsString bundle), (''data'', JsString data), (''code'', JsNumber n),
      (''subscriberPermissions'', JsArray (map JsString ps)), (''isOrdered'', JsBool ord), (''isSticky'', JsBool sticky),
      (''parameters'', params)]) =
    Some \<lparr>pj_bundleName = bundle, pj_data = data, pj_code = napi_get_value_int32 n, pj_subscriberPermissions = ps,
      pj_isOrdered = ord, pj_isSticky = sticky, pj_wantParams = w\<rparr>"
proof -
  let ?v = "JsObject [(''bundleName'', JsString bundle), (''data'', JsString data), (''code'', JsNumber n),
      (''subscriberPermissions'', JsArray (map JsString ps)), (''isOrdered'', JsBool ord), (''isSticky'', JsBool sticky),
      (''parameters'', params)]"
  have "GetBundlenameByPublish ?v x = Some bundle" for x
    using assms(1) by (simp add: GetBundlenameByPublish_def property_defs read_string_plain)
  moreover have "GetDataByPublish ?v x = Some data" for x
    using assms(2,3) by (simp add: GetDataByPublish_def property_defs napi_copied_def STR_DATA_MAX_SIZE_def c_str_plain)
  moreover have "GetCodeByPublish ?v x = Some (napi_get_value_int32 n)" for x
    by (simp add: GetCodeByPublish_def property_defs read_int32_def)
  moreover have "GetSubscriberPermissionsByPublish ?v [] = Some ps"
    using assms(1) read_strings_plain [of ps "[]"] by (simp add: GetSubscriberPermissionsByPublish_def property_defs)
  moreover have "GetIsOrderedByPublish ?v x = Some ord" "GetIsStickyByPublish ?v x = Some sticky" for x
    by (simp_all add: GetIsOrderedByPublish_def GetIsStickyByPublish_def property_defs read_bool_def)
  moreover have "GetParametersByPublish W ?v x = Some w" for x
    using assms(4,5) by (simp add: GetParametersByPublish_def property_defs)
  ultimately show ?thesis by (simp add: publish_options_def CommonEventPublishDataByjs_init_def Let_def)
qed

lemma publish_executes:
  assumes "w_action (cd_want d) \<noteq> []" and "GetCommonEventProxy X s" and "px_publish X d pinfo UNDEFINED_USER s = (res, r, s1)"
  shows "execute_body X (BodyPublish d pinfo) (c, s, k) =
    (if res = ERR_OK \<and> r = ERR_OK then NO_ERROR else ERR_CES_FAILED, JsNull, c, s1, k)"
  using assms
  by (simp add: code_of_def PublishCommonEvent_info_mgr_def NewPublishCommonEvent_def NewPublishCommonEventAsUser_def
    PublishCommonEventAsUser_client_def PublishParameterCheck_def ok_or_def lift3_def err_consts Let_def)

text \<open>A publication from JavaScript reaches the service as it was written, and its callback learns the
  outcome.  \<open>publish(event, options, f)\<close> with a name and options within the limits of the interface
  returns null and queues one work; when that work has run, the service has been called once, with
  the name and the parameters in the want, the code (as a 32 bit number) and the data, and the bundle,
  permissions and flags of the options in the publish info; \<open>f\<close> has been called once, with the code 0
  if the service accepted and 1 otherwise; no work and no reference is left.\<close>

theorem napi_publication:
  assumes "napi_ok k" and "e \<noteq> []" and "\<forall>t \<in> set (e # bundle # ps). length t \<le> 254 \<and> CHR 0x00 \<notin> set t"
    and "length data < 65536" and "CHR 0x00 \<notin> set data"
    and "napi_typeof params = napi_object" and "UnwrapWantParams W params = Some w"
    and "Publish_napi W True [JsString e, JsObject [(''bundleName'', JsString bundle), (''data'', JsString data), (''code'', JsNumber n),
      (''subscriberPermissions'', JsArray (map JsString ps)), (''isOrdered'', JsBool ord), (''isSticky'', JsBool sticky),
      (''parameters'', params)], JsFunction f] k = (ret, k1)"
    and "GetCommonEventProxy X s"
    and "px_publish X \<lparr>cd_want = (want_named e)\<lparr>w_params := w\<rparr>, cd_code = napi_get_value_int32 n, cd_data = data\<rparr>
      (CommonEventPublishInfo_init\<lparr>pi_subscriberPermissions := ps, pi_ordered := ord, pi_sticky := sticky, pi_bundleName := bundle\<rparr>)
      UNDEFINED_USER s = (res, r, s1)"
  shows "\<exists>k2. ret = JsNull \<and>
    run_complete okw oks (np_next k + 1) (run_execute X (np_next k + 1) (c, s, k1)) = Some (c, s1, k2) \<and>
    np_log k2 = np_log k @ [JsCall f (JsObject [(''code'', JsNumber (if res = ERR_OK \<and> r = ERR_OK then 0 else 1))]) JsNull] \<and>
    np_works k2 = np_works k \<and> np_refs k2 = np_refs k"
proof -
  let ?d = "\<lparr>cd_want = (want_named e)\<lparr>w_params := w\<rparr>, cd_code = napi_get_value_int32 n, cd_data = data\<rparr>"
  let ?i = "CommonEventPublishInfo_init\<lparr>pi_subscriberPermissions := ps, pi_ordered := ord, pi_sticky := sticky, pi_bundleName := bundle\<rparr>"
  let ?n = "np_next k"
  let ?k1 = "k\<lparr>np_refs := (np_refs k)(?n := Some (JsFunction f)), np_next := ?n + 1\<rparr>"
  have opts: "publish_options W (JsObject [(''bundleName'', JsString bundle), (''data'', JsString data), (''code'', JsNumber n),
      (''subscriberPermissions'', JsArray (map JsString ps)), (''isOrdered'', JsBool ord), (''isSticky'', JsBool sticky),
      (''parameters'', params)]) =
    Some \<lparr>pj_bundleName = bundle, pj_data = data, pj_code = napi_get_value_int32 n, pj_subscriberPermissions = ps,
      pj_isOrdered = ord, pj_isSticky = sticky, pj_wantParams = w\<rparr>"
    using assms(3-7) by (intro publish_options_plain) auto
  have e: "c_str (napi_copied 255 e) = e"
    using assms(3) by (simp add: napi_copied_def c_str_plain)
  have start: "ret = JsNull" "k1 = queue_work (BodyPublish ?d ?i) (callback_info (Some ?n)) ?k1"
    using assms(8) by (simp_all add: Publish_napi_def ParseParametersByPublish_def argv_def napi_sizes opts
      e STR_MAX_SIZE_def callback_reference_def create_reference_def publish_data_def PaddingCallbackInfoPublish_def Let_def)
  let ?code = "if res = ERR_OK \<and> r = ERR_OK then NO_ERROR else ERR_CES_FAILED"
  have "execute_body X (BodyPublish ?d ?i) (c, s, k2) = (?code, JsNull, c, s1, k2)" for k2
    using assms(2,9,10) by (intro publish_executes) (simp_all add: want_named_def)
  from run_queued [OF assms(1) _ _ this, of ?k1 okw oks]
  have run: "run_complete okw oks (?n + 1) (run_execute X (?n + 1) (c, s, k1)) =
      complete_body okw oks (BodyPublish ?d ?i) ((callback_info (Some ?n))\<lparr>pr_errorCode := ?code\<rparr>) JsNull
        (c, s1, ?k1\<lparr>np_next := ?n + 1 + 1\<rparr>)"
    unfolding start(2) by (simp del: complete_body.simps split del: if_split)
  have "(np_refs k)(?n := None) = np_refs k" using napi_okD(2) [OF assms(1)] by auto
  then show ?thesis
    unfolding run start(1)
    by (auto simp: Publish_complete_def SetCallback_def callback_info_def log_js_def delete_reference_def NO_ERROR_def
      ERR_CES_FAILED_def GetCallbackErrorValue_def napi_set_named_property_def)
qed

section \<open>An ordered event\<close>

text \<open>The works of the calls by which an application changes the result.\<close>

fun napi_call_body :: "nat \<Rightarrow> subscriber_call \<Rightarrow> napi_body" where
  "napi_call_body b (CallSetCode i) = BodySetCode b i"
| "napi_call_body b (CallSetData t) = BodySetData b t"
| "napi_call_body b (CallSetCodeAndData i t) = BodySetCodeAndData b i t"
| "napi_call_body b CallAbort = BodyAbort b"
| "napi_call_body b CallClearAbort = BodyClearAbort b"
| "napi_call_body b CallGoAsync = BodyGetCode b"

definition napi_calls :: "'s svc_ops \<Rightarrow> nat \<Rightarrow> subscriber_call list \<Rightarrow> 's napi_world \<Rightarrow> 's napi_world" where
  "napi_calls X b ks cs = foldl (\<lambda>cs x. snd (snd (execute_body X (napi_call_body b x) cs))) cs ks"

lemma napi_call_executes:
  assumes "GetAsyncResult_napi k b = Some r" and "x \<noteq> CallGoAsync" and "setter x (cc_results c r) = (ok, y)"
  shows "execute_body X (napi_call_body b x) (c, s, k) =
    (if ok then NO_ERROR else ERR_CES_FAILED, JsNull, upd_result r (\<lambda>_. y) c, s, k)"
  using assms
  by (cases x) (simp_all add: SetCode_work_def SetData_work_def SetCodeAndData_work_def Abort_work_def ClearAbort_work_def
    change_napi_def)

lemma napi_calls_answer:
  assumes "GetAsyncResult_napi k b = Some r" and "kept b r l a c" and "CallGoAsync \<notin> set ks"
  shows "\<exists>c1. napi_calls X b ks (c, s, k) = (c1, s, k) \<and> kept b r l (answer_of ks a) c1"
  using assms(2,3)
proof (induction ks arbitrary: c a)
  case (Cons x ks)
  obtain ok y where y: "setter x (cc_results c r) = (ok, y)" by fastforce
  have x: "x \<noteq> CallGoAsync" using Cons.prems(2) by auto
  let ?c = "upd_result r (\<lambda>_. y) c"
  have "kept b r l (answer_of [x] a) ?c" using kept_setter [OF Cons.prems(1) x y] by blast
  then obtain c1 where c1: "napi_calls X b ks (?c, s, k) = (c1, s, k)" "kept b r l (answer_of ks (answer_of [x] a)) c1"
    using Cons.IH [of "answer_of [x] a" ?c] Cons.prems(2) by (metis list.set_intros(2))
  have "napi_calls X b (x # ks) (c, s, k) = napi_calls X b ks (?c, s, k)"
    using napi_call_executes [OF assms(1) x y, of X s] by (simp add: napi_calls_def)
  then show ?case using c1 by (simp only: answer_of_Cons [OF x, symmetric] simp_thms) blast
qed (simp add: napi_calls_def)

lemma finish_executes:
  assumes "GetAsyncResult_napi k b = Some r" and "FinishCommonEvent (capi_ops X) r (c, s, k) = (ok, c1, s1, k)"
  shows "execute_body X (BodyFinish b) (c, s, k) = (if ok then 0 else 1, JsNull, c1, s1, k)"
  using assms by (simp add: Finish_work_def NO_ERROR_def ERR_CES_FAILED_def)


section \<open>A module to apply the properties to\<close>

text \<open>Objects of JavaScript become parameters without entries.\<close>

definition demo_wrap :: wrap_lib where
  "demo_wrap = \<lparr>UnwrapWantParams = (\<lambda>_. Some []), WrapWantParams = (\<lambda>_. Some (JsObject []))\<rparr>"

definition demo_napi :: napi_state where
  "demo_napi = \<lparr>np_refs = (\<lambda>_. None), np_wrapped = (\<lambda>_. None),
     np_subs = (\<lambda>_. \<lparr>sn_env = False, sn_ref = None, sn_tsfn = False\<rparr>), np_instances = [], np_works = [], np_events = [],
     np_log = [], np_next = 0\<rparr>"

lemma demo_napi_ok: "napi_ok demo_napi"
  by (simp add: napi_ok_def demo_napi_def)

definition demo_info :: CommonEventSubscribeInfo where
  "demo_info = CommonEventSubscribeInfo_init\<lparr>si_matchingSkills := \<lparr>ms_entities = [], ms_events = [''e'', ''f''], ms_schemes = []\<rparr>,
     si_permission := ''p'', si_deviceId := ''d'', si_userId := - 3, si_priority := 100\<rparr>"

definition demo_informed :: client_state where
  "demo_informed = upd_subscriber 0 (\<lambda>_. \<lparr>sr_info = demo_info, sr_result = None\<rparr>) demo_client"

theorem napi_subscriber_roundtrip_instance:
  "\<exists>obj b1 c1 k2. run_complete True True 2 (run_execute demo_service 2 (demo_informed, (True, [], []),
       snd (CreateSubscriber_napi True [GetSubscribeInfo_work demo_informed 0] demo_napi))) = Some (c1, (True, [], []), k2) \<and>
     np_log k2 = [JsResolve 0 (JsInstance obj)] \<and> GetSubscriber k2 (JsInstance obj) = Some b1 \<and> info_of c1 b1 = demo_info"
proof -
  have k: "np_next demo_napi = 0" "np_log demo_napi = []" by (simp_all add: demo_napi_def)
  have info: "info_of demo_informed 0 = demo_info" by (simp add: demo_informed_def upd_subscriber_def)
  show ?thesis
    using napi_subscriber_roundtrip [OF demo_napi_ok, of "[''e'', ''f'']" "''p''" "''d''" "- 3" 100 demo_informed 0
      "fst (CreateSubscriber_napi True [GetSubscribeInfo_work demo_informed 0] demo_napi)"
      "snd (CreateSubscriber_napi True [GetSubscribeInfo_work demo_informed 0] demo_napi)" demo_service "(True, [], [])",
      unfolded k info] by (auto simp: demo_info_def numeral_2_eq_2)
qed

theorem napi_publication_instance:
  "\<exists>k2. run_complete True True 1 (run_execute demo_service 1 (demo_client, (True, [], []),
       snd (Publish_napi demo_wrap True [JsString ''e'', JsObject [(''bundleName'', JsString ''b''), (''data'', JsString ''x''),
         (''code'', JsNumber 5), (''subscriberPermissions'', JsArray [JsString ''p'']), (''isOrdered'', JsBool True),
         (''isSticky'', JsBool False), (''parameters'', JsObject [])], JsFunction 77] demo_napi))) =
       Some (demo_client, (True, [], []), k2) \<and>
     np_log k2 = [JsCall 77 (JsObject [(''code'', JsNumber 0)]) JsNull]"
proof -
  let ?args = "[JsString ''e'', JsObject [(''bundleName'', JsString ''b''), (''data'', JsString ''x''),
         (''code'', JsNumber 5), (''subscriberPermissions'', JsArray (map JsString [''p''])), (''isOrdered'', JsBool True),
         (''isSticky'', JsBool False), (''parameters'', JsObject [])], JsFunction 77]"
  have k: "np_next demo_napi = 0" "np_log demo_napi = []" by (simp_all add: demo_napi_def)
  have w: "UnwrapWantParams demo_wrap (JsObject []) = Some []" by (simp add: demo_wrap_def)
  have x: "GetCommonEventProxy demo_service (True, [], [])"
    "\<And>d i. px_publish demo_service d i UNDEFINED_USER (True, [], []) = (ERR_OK, ERR_OK, (True, [], []))"
    by (simp_all add: GetCommonEventProxy_def demo_service_def)
  show ?thesis
    using napi_publication [OF demo_napi_ok _ _ _ _ _ w, of "''e''" "''b''" "[''p'']" "''x''" 5 True False 77
      "fst (Publish_napi demo_wrap True ?args demo_napi)" "snd (Publish_napi demo_wrap True ?args demo_napi)"
      demo_service "(True, [], [])", OF _ _ _ _ _ _ x, of True True demo_client, unfolded k] by auto
qed

text \<open>An object 3 with the subscriber 4, which then subscribes with the function 77; its work is 6.\<close>

definition demo_subscribing :: "demo napi_world option" where
  "demo_subscribing = Option.bind
     (run_complete True True 2 (run_execute demo_service 2 (demo_client, (True, [], []),
        snd (CreateSubscriber_napi True [JsObject [(''events'', JsArray [JsString ''e''])]] demo_napi))))
     (\<lambda>(c, s, k). map_option (\<lambda>(_, k1). (c, s, k1)) (Subscribe_napi True [JsInstance 3, JsFunction 77] k))"

definition demo_subscribed :: "demo napi_world" where
  "demo_subscribed = (case Option.bind demo_subscribing (\<lambda>cs. run_complete True True 6 (run_execute demo_service 6 cs)) of
     Some cs \<Rightarrow> cs | None \<Rightarrow> (demo_client, (True, [], []), demo_napi))"

lemma demo_subscribed_state:
  "ln_subscriber (cc_listeners (fst demo_subscribed) 0) = Some 4 \<and> ln_alive (cc_listeners (fst demo_subscribed) 0) \<and>
   map_of (np_instances (snd (snd demo_subscribed))) 4 = Some \<lparr>sii_asyncCallbackInfo = [Some 5], sii_commonEventResult = None\<rparr> \<and>
   np_subs (snd (snd demo_subscribed)) 4 = \<lparr>sn_env = True, sn_ref = Some 5, sn_tsfn = True\<rparr> \<and>
   np_refs (snd (snd demo_subscribed)) 5 = Some (JsFunction 77) \<and> np_events (snd (snd demo_subscribed)) = [] \<and>
   np_log (snd (snd demo_subscribed)) = [JsResolve 0 (JsInstance 3)] \<and> fst (snd demo_subscribed) = (True, [Some 0], [])"
  by code_simp


section \<open>Where the module loses something\<close>

text \<open>Data is read into a buffer of \<open>STR_DATA_MAX_SIZE\<close> bytes and can never be longer than
  \<open>STR_DATA_MAX_SIZE - 1\<close> afterwards: longer data is not refused, it is cut off.\<close>

lemma data_is_cut_off:
  "ParseParametersBySetData [JsString t] = Some (c_str (take 65535 t), None)"
  "ParseParametersBySetCodeAndData [JsNumber n, JsString t] = Some (napi_get_value_int32 n, c_str (take 65535 t), None)"
  "GetDataByPublish (JsObject [(''data'', JsString t)]) old = Some (c_str (take 65535 t))"
  by (simp_all add: ParseParametersBySetData_def ParseParametersBySetCodeAndData_def GetDataByPublish_def argv_def napi_sizes
    napi_copied_def parse_callback_def property_defs Let_def)

text \<open>Without an ordered event the calls that change its result do nothing and report success.\<close>

lemma calls_without_event:
  assumes "GetAsyncResult_napi k b = None"
  shows "x \<noteq> CallGoAsync \<Longrightarrow> execute_body X (napi_call_body b x) (c, s, k) = (NO_ERROR, JsNull, c, s, k)"
    "execute_body X (BodyFinish b) (c, s, k) = (NO_ERROR, JsNull, c, s, k)"
  by (cases x) (simp_all add: assms SetCode_work_def SetData_work_def SetCodeAndData_work_def Abort_work_def ClearAbort_work_def
    Finish_work_def change_napi_def)

text \<open>A subscriber is forgotten whatever the service said about its unsubscription.\<close>

lemma unsubscription_forgets:
  assumes "Unsubscribe_complete b argc info k = Some k1"
  shows "map_of (np_instances k1) b = None"
  using assms
  by (auto simp: Unsubscribe_complete_def NapiDeleteSubscribe_def delete_conv' bind_eq_Some_conv split: option.splits if_splits)

text \<open>\<open>createSubscriber\<close> with information without events resolves its promise with an object that has
  no subscriber.\<close>

lemma subscriber_without_events:
  "case run_complete True True 2 (run_execute demo_service 2 (demo_client, (True, [], []),
      snd (CreateSubscriber_napi True [JsObject []] demo_napi))) of
     Some (c, s, k) \<Rightarrow> np_log k = [JsResolve 0 (JsInstance 3)] \<and> GetSubscriber k (JsInstance 3) = None
   | None \<Rightarrow> False"
  by code_simp

text \<open>An ordered event that arrives before the subscription has been completed is answered by the client
  library at once: the application can no longer answer it.\<close>

lemma early_event_is_answered:
  "case demo_subscribing of
     Some cs \<Rightarrow>
       (case OnReceiveEvent (capi_ops demo_service) (SubscriberInstance_OnReceiveEvent True 4 demo_event) 0 demo_event True False
          (run_execute demo_service 6 cs) of
          (c, s, k) \<Rightarrow> s = (True, [Some 0], [(Some 0, 1, ''x'', False)]) \<and> np_events k = [(4, demo_event)])
   | None \<Rightarrow> False"
  by code_simp

text \<open>A subscriber that has subscribed subscribes again and the service refuses.  The completion deletes
  the reference to the new callback, which the subscriber keeps: its next event and its unsubscription
  use a deleted reference.\<close>

lemma failed_resubscribe_dangles:
  assumes "Subscribe_complete b info k = Some k1" and "pr_errorCode info \<noteq> NO_ERROR" and "pr_callback info = Some r"
    and "sn_ref (np_subs k b) = Some r" and "sn_env (np_subs k b)" and "map_of (np_instances k) b = Some i"
  shows "np_refs k1 r = None" "NapiDeleteSubscribe b k1 = None"
    "np_events k1 = (b, d) # es \<Longrightarrow> ThreadSafeCallback W True k1 = None"
proof -
  have k1: "np_refs k1 r = None" "sn_ref (np_subs k1 b) = Some r" "sn_env (np_subs k1 b)" "map_of (np_instances k1) b = Some i"
    using assms by (auto simp: Subscribe_complete_def SetCallback_def log_js_def delete_reference_def bind_eq_Some_conv
      split: option.splits js.splits if_splits)
  then show "np_refs k1 r = None" by blast
  show "NapiDeleteSubscribe b k1 = None" "np_events k1 = (b, d) # es \<Longrightarrow> ThreadSafeCallback W True k1 = None"
    using k1 by (simp_all add: NapiDeleteSubscribe_def SetCallbackRef_def delete_reference_def ThreadSafeCallback_def)
qed

end
