(* ===== verification/Manager_Values.thy ===== *)
theory Manager_Values
  imports Napi_Values Client_Library
begin

text \<open>
  The values of the newer JavaScript interface \<open>@ohos.commonEventManager\<close>
  (\<open>kits/napi/napi_common_event\<close>): \<open>common_event_parse.cpp\<close> and the results of
  \<open>common_event_set_param.cpp\<close>.

  The runtime is that of \<open>Napi_Values\<close>, and so are the sizes and the numbers of arguments, which this
  module repeats.  Its functions throw: \<open>Inl (Some e)\<close> is a null \<open>napi_value\<close> with the exception \<open>e\<close>
  pending, \<open>Inl None\<close> one without; an exception that is thrown while another one is pending has no
  effect.  Names that \<open>Napi_Values\<close> uses too have the suffix \<open>_em\<close>.
\<close>

section \<open>Errors\<close>

definition ERR_NOTIFICATION_CES_WANT_ACTION_IS_NULL :: err_code where
  "ERR_NOTIFICATION_CES_WANT_ACTION_IS_NULL = ERR_CODE 1500001"
definition ERR_NOTIFICATION_CES_SANDBOX_NOT_SUPPORT :: err_code where
  "ERR_NOTIFICATION_CES_SANDBOX_NOT_SUPPORT = ERR_CODE 1500002"
definition ERR_NOTIFICATION_CES_NO_SUBSCRIBER :: err_code where
  "ERR_NOTIFICATION_CES_NO_SUBSCRIBER = ERR_CODE 1500005"
definition ERR_CES_FAILED_em :: err_code where "ERR_CES_FAILED_em = ERR_CODE 1"
definition REMOVE_STICKY_MAX_PARA :: nat where "REMOVE_STICKY_MAX_PARA = 2"

definition ErrorCodeToMsg :: "(err_code, string) umap" where
  "ErrorCodeToMsg =
     [(ERR_NOTIFICATION_CES_COMMON_PERMISSION_DENIED,
       ''Permission verification failed, usually the result returned by VerifyAccessToken.''),
      (ERR_NOTIFICATION_CES_COMMON_NOT_SYSTEM_APP, ''The application isn't system application.''),
      (ERR_NOTIFICATION_CES_COMMON_PARAM_INVALID, ''Parameter error.''),
      (ERR_NOTIFICATION_CES_COMMON_SYSTEMCAP_NOT_SUPPORT, ''Capability not supported.''),
      (ERR_NOTIFICATION_CES_WANT_ACTION_IS_NULL, ''The action field in the want parameter is null.''),
      (ERR_NOTIFICATION_CES_SANDBOX_NOT_SUPPORT, ''A sandbox application cannot send common events.''),
      (ERR_NOTIFICATION_CES_EVENT_FREQ_TOO_HIGH, ''The common event sending frequency too high.''),
      (ERR_NOTIFICATION_CES_NOT_SA_SYSTEM_APP, ''A third-party application cannot send system common events.''),
      (ERR_NOTIFICATION_CES_NO_SUBSCRIBER, ''The subscriber is not found.''),
      (ERR_NOTIFICATION_CES_USERID_INVALID, ''Invalid userId.''),
      (ERR_NOTIFICATION_SEND_ERROR, ''Failed to send the message.''),
      (ERR_NOTIFICATION_CESM_ERROR, ''Failed to read the data.''),
      (ERR_NOTIFICATION_SYS_ERROR, ''System error.''),
      (ERR_NOTIFICATION_CES_SUBSCRIBE_EXCEED_LIMIT, ''The count of subscriber exceed system specification.'')]"

text \<open>Code outside the repository: \<open>em_wrap\<close> as before, the numbers of the codes of the base library,
  \<open>napi_get_value_int64\<close> and \<open>UnwrapStringFromJS2\<close>.  \<open>RuntimeError\<close>: an exception of the runtime.\<close>

record em_lib =
  em_wrap :: wrap_lib
  em_number :: "err_code \<Rightarrow> int"
  em_int64 :: "int \<Rightarrow> int"
  em_string :: "js \<Rightarrow> string option"

datatype js_error = JsError err_code string | RuntimeError

type_synonym 'a parsed = "js_error option + 'a"

definition error_text :: "err_code \<Rightarrow> string" where
  "error_text errCode = (case map_of ErrorCodeToMsg errCode of Some errMsg \<Rightarrow> errMsg | None \<Rightarrow> [])"

definition error_number :: "em_lib \<Rightarrow> err_code \<Rightarrow> int" where
  "error_number Y errCode =
     (case errCode of ERR_OK \<Rightarrow> 0 | ERR_CODE n \<Rightarrow> int n | ERR_REMOTE i \<Rightarrow> i | _ \<Rightarrow> em_number Y errCode)"

definition NapiThrow :: "err_code \<Rightarrow> js_error" where
  "NapiThrow errCode = JsError errCode (error_text errCode)"

definition NapiThrow_msg :: "err_code \<Rightarrow> string \<Rightarrow> js_error" where
  "NapiThrow_msg errCode msg = JsError errCode (error_text errCode @ '' '' @ msg)"

definition GetCallbackErrorValue_em :: "em_lib \<Rightarrow> err_code \<Rightarrow> js" where
  "GetCallbackErrorValue_em Y errorCode =
     (if errorCode = ERR_OK then JsNull
      else napi_set_named_property ''message'' (JsString (c_str (error_text errorCode)))
             (napi_set_named_property ''code'' (JsNumber (error_number Y errorCode)) (JsObject [])))"

definition refuse :: "string \<Rightarrow> 'a parsed" where
  "refuse msg = Inl (Some (NapiThrow_msg ERR_NOTIFICATION_CES_COMMON_PARAM_INVALID msg))"

definition wrong_type :: "string \<Rightarrow> 'a parsed" where
  "wrong_type t = refuse (''Incorrect parameter types.The type of param must be '' @ t @ ''.'')"

definition over_size :: "'a parsed" where
  "over_size = refuse (''Parameter verification failed. cannot exceed '' @ to_string (int (STR_DATA_MAX_SIZE - 1)) @ '' characters'')"

definition and_then :: "'a parsed \<Rightarrow> ('a \<Rightarrow> 'b parsed) \<Rightarrow> 'b parsed" where
  "and_then p f = (case p of Inl e \<Rightarrow> Inl e | Inr x \<Rightarrow> f x)"

lemma and_then_simps [simp]: "and_then (Inl e) f = Inl e" "and_then (Inr x) f = f x"
  by (simp_all add: and_then_def)

section \<open>Arguments of the methods of a subscriber\<close>

definition parse_callback_em :: "nat \<Rightarrow> nat \<Rightarrow> js list \<Rightarrow> nat option parsed" where
  "parse_callback_em n i args =
     (if length args \<ge> n then (case argv args i of JsFunction f \<Rightarrow> Inr (Some f) | _ \<Rightarrow> wrong_type ''function'')
      else Inr None)"

definition ParseParametersByGetSubscribeInfo_em :: "js list \<Rightarrow> nat option parsed" where
  "ParseParametersByGetSubscribeInfo_em = parse_callback_em GETSUBSCREBEINFO_MAX_PARA 0"

definition ParseParametersByIsOrderedCommonEvent_em :: "js list \<Rightarrow> nat option parsed" where
  "ParseParametersByIsOrderedCommonEvent_em = parse_callback_em ISORDEREDCOMMONEVENT_MAX_PARA 0"

definition ParseParametersByIsStickyCommonEvent_em :: "js list \<Rightarrow> nat option parsed" where
  "ParseParametersByIsStickyCommonEvent_em = parse_callback_em ISSTICKYCOMMONEVENT_MAX_PARA 0"

definition ParseParametersByGetCode_em :: "js list \<Rightarrow> nat option parsed" where
  "ParseParametersByGetCode_em = parse_callback_em GET_CODE_MAX_PARA 0"

definition ParseParametersBySetCode_em :: "js list \<Rightarrow> (int32 \<times> nat option) parsed" where
  "ParseParametersBySetCode_em args =
     (case argv args 0 of
        JsNumber n \<Rightarrow>
          and_then (parse_callback_em SET_CODE_MAX_PARA 1 args) (\<lambda>callback. Inr (napi_get_value_int32 n, callback))
      | _ \<Rightarrow> wrong_type ''number'')"

definition ParseParametersByGetData_em :: "js list \<Rightarrow> nat option parsed" where
  "ParseParametersByGetData_em = parse_callback_em GET_DATA_MAX_PARA 0"

definition ParseParametersBySetData_em :: "js list \<Rightarrow> (string \<times> nat option) parsed" where
  "ParseParametersBySetData_em args =
     (case argv args 0 of
        JsString s \<Rightarrow>
          (let str = napi_copied STR_DATA_MAX_SIZE s; strLen = length str
           in if strLen > STR_DATA_MAX_SIZE - 1 then over_size
              else and_then (parse_callback_em SET_CODE_MAX_PARA 1 args) (\<lambda>callback. Inr (c_str str, callback)))
      | _ \<Rightarrow> wrong_type ''string'')"

definition ParseParametersBySetCodeAndData_em :: "js list \<Rightarrow> (int32 \<times> string \<times> nat option) parsed" where
  "ParseParametersBySetCodeAndData_em args =
     (case argv args 0 of
        JsNumber n \<Rightarrow>
          (case argv args 1 of
             JsString s \<Rightarrow>
               (let str = napi_copied STR_DATA_MAX_SIZE s; strLen = length str
                in if strLen > STR_DATA_MAX_SIZE - 1 then over_size
                   else and_then (parse_callback_em SET_CODE_AND_DATA_MAX_PARA (SET_CODE_AND_DATA_MAX_PARA - 1) args)
                          (\<lambda>callback. Inr (napi_get_value_int32 n, c_str str, callback)))
           | _ \<Rightarrow> wrong_type ''string'')
      | _ \<Rightarrow> wrong_type ''function'')"

definition ParseParametersByClearAbort_em :: "js list \<Rightarrow> nat option parsed" where
  "ParseParametersByClearAbort_em = parse_callback_em CLEAR_ABORT_MAX_PARA 0"

definition ParseParametersByAbort_em :: "js list \<Rightarrow> nat option parsed" where
  "ParseParametersByAbort_em = parse_callback_em ABORT_MAX_PARA 0"

definition ParseParametersByGetAbort_em :: "js list \<Rightarrow> nat option parsed" where
  "ParseParametersByGetAbort_em = parse_callback_em GET_ABORT_MAX_PARA 0"

definition ParseParametersByFinish_em :: "js list \<Rightarrow> nat option parsed" where
  "ParseParametersByFinish_em = parse_callback_em FINISH_MAX_PARA 0"

definition ParseParametersByCreateSubscriber_em :: "js list \<Rightarrow> nat option parsed" where
  "ParseParametersByCreateSubscriber_em args =
     (if napi_typeof (argv args 0) \<noteq> napi_object then wrong_type ''object''
      else if length args \<ge> CREATE_MAX_PARA
           then (case argv args 1 of JsFunction f \<Rightarrow> Inr (Some f) | _ \<Rightarrow> Inr None)
      else Inr None)"

section \<open>Arguments of a publication\<close>

definition optional_property_em :: "string \<Rightarrow> (js \<Rightarrow> 'v parsed) \<Rightarrow> js \<Rightarrow> 'v \<Rightarrow> 'v parsed" where
  "optional_property_em k read v old =
     (case napi_has_named_property v k of
        None \<Rightarrow> Inl (Some RuntimeError)
      | Some False \<Rightarrow> Inr old
      | Some True \<Rightarrow> read (napi_get_named_property v k))"

definition read_string_em :: "js \<Rightarrow> string parsed" where
  "read_string_em v =
     (case v of JsString s \<Rightarrow> Inr (c_str (napi_copied (STR_MAX_SIZE - 1) s)) | _ \<Rightarrow> wrong_type ''string'')"

definition read_int32_em :: "js \<Rightarrow> int32 parsed" where
  "read_int32_em v = (case v of JsNumber n \<Rightarrow> Inr (napi_get_value_int32 n) | _ \<Rightarrow> wrong_type ''number'')"

definition read_bool_em :: "js \<Rightarrow> bool parsed" where
  "read_bool_em v = (case v of JsBool b \<Rightarrow> Inr b | _ \<Rightarrow> wrong_type ''boolean'')"

fun read_strings_em :: "js list \<Rightarrow> string list \<Rightarrow> string list parsed" where
  "read_strings_em [] acc = Inr acc"
| "read_strings_em (v # vs) acc = and_then (read_string_em v) (\<lambda>s. read_strings_em vs (acc @ [s]))"

definition GetBundlenameByPublish_em :: "js \<Rightarrow> string \<Rightarrow> string parsed" where
  "GetBundlenameByPublish_em = optional_property_em ''bundleName'' read_string_em"

definition GetDataByPublish_em :: "js \<Rightarrow> string \<Rightarrow> string parsed" where
  "GetDataByPublish_em = optional_property_em ''data''
     (\<lambda>v. case v of
            JsString s \<Rightarrow>
              (let str = napi_copied STR_DATA_MAX_SIZE s; strLen = length str
               in if strLen > STR_DATA_MAX_SIZE - 1 then over_size else Inr (c_str str))
          | _ \<Rightarrow> wrong_type ''string'')"

definition GetCodeByPublish_em :: "js \<Rightarrow> int32 \<Rightarrow> int32 parsed" where
  "GetCodeByPublish_em = optional_property_em ''code'' read_int32_em"

definition GetSubscriberPermissionsByPublish_em :: "js \<Rightarrow> string list \<Rightarrow> string list parsed" where
  "GetSubscriberPermissionsByPublish_em v old = optional_property_em ''subscriberPermissions''
     (\<lambda>x. case x of JsArray vs \<Rightarrow> read_strings_em vs old | _ \<Rightarrow> Inr old) v old"

definition GetIsOrderedByPublish_em :: "js \<Rightarrow> bool \<Rightarrow> bool parsed" where
  "GetIsOrderedByPublish_em = optional_property_em ''isOrdered'' read_bool_em"

definition GetIsStickyByPublish_em :: "js \<Rightarrow> bool \<Rightarrow> bool parsed" where
  "GetIsStickyByPublish_em = optional_property_em ''isSticky'' read_bool_em"

definition GetParametersByPublish_em ::
  "em_lib \<Rightarrow> js \<Rightarrow> (string, want_value) umap \<Rightarrow> (string, want_value) umap parsed" where
  "GetParametersByPublish_em Y = optional_property_em ''parameters''
     (\<lambda>v. if napi_typeof v \<noteq> napi_object then wrong_type ''object''
          else case UnwrapWantParams (em_wrap Y) v of None \<Rightarrow> refuse ''Parameter verification failed.'' | Some w \<Rightarrow> Inr w)"

definition publish_options_em :: "em_lib \<Rightarrow> js \<Rightarrow> CommonEventPublishDataByjs parsed" where
  "publish_options_em Y v =
     (let d = CommonEventPublishDataByjs_init
      in and_then (GetBundlenameByPublish_em v (pj_bundleName d)) (\<lambda>b.
         and_then (GetDataByPublish_em v (pj_data d)) (\<lambda>t.
         and_then (GetCodeByPublish_em v (pj_code d)) (\<lambda>c.
         and_then (GetSubscriberPermissionsByPublish_em v (pj_subscriberPermissions d)) (\<lambda>ps.
         and_then (GetIsOrderedByPublish_em v (pj_isOrdered d)) (\<lambda>ord.
         and_then (GetIsStickyByPublish_em v (pj_isSticky d)) (\<lambda>st.
         and_then (GetParametersByPublish_em Y v (pj_wantParams d)) (\<lambda>w.
           Inr \<lparr>pj_bundleName = b, pj_data = t, pj_code = c, pj_subscriberPermissions = ps, pj_isOrdered = ord,
                pj_isSticky = st, pj_wantParams = w\<rparr>))))))))"

definition function_argument :: "js list \<Rightarrow> nat \<Rightarrow> nat parsed" where
  "function_argument args i = (case argv args i of JsFunction f \<Rightarrow> Inr f | _ \<Rightarrow> wrong_type ''function'')"

definition ParseParametersByPublish_em ::
  "em_lib \<Rightarrow> js list \<Rightarrow> (string \<times> CommonEventPublishDataByjs \<times> nat) parsed" where
  "ParseParametersByPublish_em Y args =
     (case argv args 0 of
        JsString s \<Rightarrow>
          (let event = c_str (napi_copied (STR_MAX_SIZE - 1) s)
           in if length args = PUBLISH_MAX_PARA_BY_PUBLISHDATA
              then (if napi_typeof (argv args 1) \<noteq> napi_object then wrong_type ''object''
                    else and_then (publish_options_em Y (argv args 1)) (\<lambda>d.
                         and_then (function_argument args PUBLISH_MAX_PARA) (\<lambda>f. Inr (event, d, f))))
              else and_then (function_argument args 1) (\<lambda>f. Inr (event, CommonEventPublishDataByjs_init, f)))
      | _ \<Rightarrow> wrong_type ''string'')"

definition ParseParametersByPublishAsUser_em ::
  "em_lib \<Rightarrow> js list \<Rightarrow> (string \<times> int32 \<times> CommonEventPublishDataByjs \<times> nat) parsed" where
  "ParseParametersByPublishAsUser_em Y args =
     (case argv args 0 of
        JsString s \<Rightarrow>
          (let event = c_str (napi_copied (STR_MAX_SIZE - 1) s)
           in case argv args 1 of
                JsNumber n \<Rightarrow>
                  (let user = napi_get_value_int32 n
                   in if length args = PUBLISH_MAX_PARA_BY_USERID
                      then (if napi_typeof (argv args 2) \<noteq> napi_object then wrong_type ''object''
                            else and_then (publish_options_em Y (argv args 2)) (\<lambda>d.
                                 and_then (function_argument args PUBLISH_MAX_PARA_AS_USER) (\<lambda>f. Inr (event, user, d, f))))
                      else and_then (function_argument args 2) (\<lambda>f. Inr (event, user, CommonEventPublishDataByjs_init, f)))
              | _ \<Rightarrow> wrong_type ''number'')
      | _ \<Rightarrow> wrong_type ''string'')"

definition PaddingCallbackInfoPublish_em ::
  "CommonEventPublishDataByjs \<Rightarrow> Want \<Rightarrow> CommonEventData \<times> CommonEventPublishInfo \<Rightarrow> Want \<times> CommonEventData \<times> CommonEventPublishInfo" where
  "PaddingCallbackInfoPublish_em pd want = (\<lambda>(d, i).
     (want\<lparr>w_params := pj_wantParams pd\<rparr>, d\<lparr>cd_code := pj_code pd, cd_data := pj_data pd\<rparr>,
      i\<lparr>pi_subscriberPermissions := pj_subscriberPermissions pd, pi_ordered := pj_isOrdered pd,
        pi_sticky := pj_isSticky pd, pi_bundleName := pj_bundleName pd\<rparr>))"

text \<open>A number or a truth value is taken as the name of an event too.\<close>

definition ParseParametersByRemoveSticky :: "em_lib \<Rightarrow> js list \<Rightarrow> (string \<times> nat option) parsed" where
  "ParseParametersByRemoveSticky Y args =
     (if length args < REMOVE_STICKY_MAX_PARA - 1 then wrong_type ''number''
      else
        and_then
          (case argv args 0 of
             JsString s \<Rightarrow> Inr (c_str (napi_copied (STR_MAX_SIZE - 1) s))
           | JsNumber n \<Rightarrow> Inr (to_string (em_int64 Y n))
           | JsBool b \<Rightarrow> Inr (to_string (of_bool b))
           | _ \<Rightarrow> wrong_type ''string'')
          (\<lambda>event.
             if length args \<ge> REMOVE_STICKY_MAX_PARA
             then (case argv args 1 of JsFunction f \<Rightarrow> Inr (event, Some f) | _ \<Rightarrow> Inr (event, None))
             else Inr (event, None)))"

section \<open>The information of a subscriber\<close>

definition GetEventsByCreateSubscriber_em :: "js \<Rightarrow> string list parsed" where
  "GetEventsByCreateSubscriber_em v =
     (case napi_has_named_property v ''events'' of
        None \<Rightarrow> Inl (Some RuntimeError)
      | Some False \<Rightarrow> wrong_type ''events''
      | Some True \<Rightarrow>
          (case napi_get_named_property v ''events'' of
             JsArray vs \<Rightarrow>
               if length vs = 0 then refuse ''Parameter verification failed.The array is empty.'' else read_strings_em vs []
           | _ \<Rightarrow> wrong_type ''array''))"

text \<open>\<open>info_property\<close>: a property that changes the information when it is there.\<close>

definition info_property ::
  "string \<Rightarrow> (js \<Rightarrow> 'v parsed) \<Rightarrow> ('v \<Rightarrow> CommonEventSubscribeInfo \<Rightarrow> CommonEventSubscribeInfo) \<Rightarrow> js \<Rightarrow>
     CommonEventSubscribeInfo \<Rightarrow> CommonEventSubscribeInfo parsed" where
  "info_property k read put v info = optional_property_em k (\<lambda>x. and_then (read x) (\<lambda>y. Inr (put y info))) v info"

definition GetPublisherPermissionByCreateSubscriber_em ::
  "js \<Rightarrow> CommonEventSubscribeInfo \<Rightarrow> CommonEventSubscribeInfo parsed" where
  "GetPublisherPermissionByCreateSubscriber_em =
     info_property ''publisherPermission'' read_string_em (\<lambda>s info. info\<lparr>si_permission := s\<rparr>)"

definition GetPublisherDeviceIdByCreateSubscriber_em ::
  "js \<Rightarrow> CommonEventSubscribeInfo \<Rightarrow> CommonEventSubscribeInfo parsed" where
  "GetPublisherDeviceIdByCreateSubscriber_em =
     info_property ''publisherDeviceId'' read_string_em (\<lambda>s info. info\<lparr>si_deviceId := s\<rparr>)"

definition GetUserIdByCreateSubscriber_em :: "js \<Rightarrow> CommonEventSubscribeInfo \<Rightarrow> CommonEventSubscribeInfo parsed" where
  "GetUserIdByCreateSubscriber_em = info_property ''userId'' read_int32_em (\<lambda>n info. info\<lparr>si_userId := n\<rparr>)"

definition GetPriorityByCreateSubscriber_em :: "js \<Rightarrow> CommonEventSubscribeInfo \<Rightarrow> CommonEventSubscribeInfo parsed" where
  "GetPriorityByCreateSubscriber_em = info_property ''priority'' read_int32_em (\<lambda>n info. info\<lparr>si_priority := n\<rparr>)"

definition GetPublisherBundleNameByCreateSubscriber ::
  "js \<Rightarrow> CommonEventSubscribeInfo \<Rightarrow> CommonEventSubscribeInfo parsed" where
  "GetPublisherBundleNameByCreateSubscriber =
     info_property ''publisherBundleName'' read_string_em (\<lambda>s info. info\<lparr>si_publisherBundleName := s\<rparr>)"

definition ParseParametersConstructor_em :: "js list \<Rightarrow> CommonEventSubscribeInfo parsed" where
  "ParseParametersConstructor_em args =
     (if length args < 1 then wrong_type ''number''
      else
        and_then (GetEventsByCreateSubscriber_em (argv args 0)) (\<lambda>events.
          let matchingSkills = fold AddEvent events \<lparr>ms_entities = [], ms_events = [], ms_schemes = []\<rparr>;
              subscribeInfo = CommonEventSubscribeInfo_init\<lparr>si_matchingSkills := matchingSkills\<rparr>
          in and_then (GetPublisherPermissionByCreateSubscriber_em (argv args 0) subscribeInfo) (\<lambda>i1.
             and_then (GetPublisherDeviceIdByCreateSubscriber_em (argv args 0) i1) (\<lambda>i2.
             and_then (GetUserIdByCreateSubscriber_em (argv args 0) i2) (\<lambda>i3.
             and_then (GetPriorityByCreateSubscriber_em (argv args 0) i3) (\<lambda>i4.
               GetPublisherBundleNameByCreateSubscriber (argv args 0) i4))))))"

section \<open>Results\<close>

text \<open>The setters for the events, the permission, the device, the user and the priority are those of
  \<open>Napi_Values\<close>, word for word.\<close>

definition SetPublisherBundleNameResult :: "string \<Rightarrow> js \<Rightarrow> js" where
  "SetPublisherBundleNameResult publisherBundleName =
     napi_set_named_property ''publisherBundleName'' (JsString (c_str publisherBundleName))"

definition SetNapiResult_em :: "CommonEventSubscribeInfo \<Rightarrow> js \<Rightarrow> js" where
  "SetNapiResult_em info v =
     SetPublisherBundleNameResult (si_publisherBundleName info)
       (SetPublisherPriorityResult (si_priority info)
         (SetPublisherUserIdResult (si_userId info)
           (SetPublisherDeviceIdResult (si_deviceId info)
             (SetPublisherPermissionResult (si_permission info)
               (SetEventsResult (ms_events (si_matchingSkills info)) v)))))"

definition SetCommonEventData_em :: "em_lib \<Rightarrow> CommonEventData \<Rightarrow> js \<Rightarrow> js" where
  "SetCommonEventData_em Y d v =
     (let v1 = napi_set_named_property ''event'' (JsString (c_str (w_action (cd_want d)))) v;
          v2 = napi_set_named_property ''bundleName'' (JsString (c_str (w_bundle (cd_want d)))) v1;
          v3 = napi_set_named_property ''code'' (JsNumber (cd_code d)) v2;
          v4 = napi_set_named_property ''data'' (JsString (c_str (cd_data d))) v3
      in napi_set_named_property ''parameters''
           (case WrapWantParams (em_wrap Y) (w_params (cd_want d)) of Some x \<Rightarrow> x | None \<Rightarrow> JsNull) v4)"

section \<open>The static subscriber\<close>

text \<open>The second argument: no events, a callback, or a list of events.\<close>

fun unwrap_strings :: "em_lib \<Rightarrow> js list \<Rightarrow> string list \<Rightarrow> string list parsed" where
  "unwrap_strings Y [] events = Inr events"
| "unwrap_strings Y (v # vs) events =
     (case em_string Y v of
        None \<Rightarrow> wrong_type ''string''
      | Some event \<Rightarrow> unwrap_strings Y vs (events @ [event]))"

definition ParseSetStaticSubscriberStateParam :: "em_lib \<Rightarrow> js list \<Rightarrow> (string list \<times> bool \<times> nat option) parsed" where
  "ParseSetStaticSubscriberStateParam Y args =
     (if length args = 1 then Inr ([], False, None)
      else
        (case argv args 1 of
           JsUndefined \<Rightarrow> Inr ([], False, None)
         | JsNull \<Rightarrow> Inr ([], False, None)
         | JsFunction f \<Rightarrow> Inr ([], False, Some f)
         | JsArray vs \<Rightarrow> and_then (unwrap_strings Y vs []) (\<lambda>events. Inr (events, True, None))
         | _ \<Rightarrow> Inl (Some RuntimeError)))"

end
