(* ===== verification/Manager_Interface.thy ===== *)
theory Manager_Interface
  imports Manager_Values Napi_Interface
begin

text \<open>
  The JavaScript interface \<open>@ohos.commonEventManager\<close>
  (\<open>kits/napi/napi_common_event/src/napi_common_event.cpp\<close>, \<open>common_event_set_param.cpp\<close>) over the
  client library.

  As in \<open>Napi_Interface\<close> a call queues a work, whose two steps are \<open>run_execute_em\<close> and
  \<open>run_complete_em\<close>; many methods have a second form that does its work at once (\<open>...Sync\<close>).  A call
  returns a value or throws: \<open>em_outcome\<close>.  The errors of the service reach the application here.
  \<open>ani_hooks\<close> are the functions that the ArkTS binding has set in a subscriber that was made there; the
  binding itself is not modelled.  There is one runtime (\<open>napi_env\<close>); a \<open>napi_\<close> function that is given a
  null environment does nothing.
\<close>

section \<open>State\<close>

datatype em_outcome = Threw js_error | Gave js

record em_info =
  ei_callback :: "nat option"
  ei_deferred :: "nat option"
  ei_isCallback :: bool
  ei_errorCode :: err_code

record SubscriberInstance_em =
  sm_env :: bool \<comment> \<open>\<open>env_\<close> is not null\<close>
  sm_ref :: "nat option"
  sm_tsfn :: bool
  sm_isNewVersion :: bool

datatype em_body =
    EmGetSubscribeInfo nat | EmIsOrdered nat | EmIsSticky nat | EmGetCode nat | EmSetCode nat int32
  | EmGetData nat | EmSetData nat string | EmSetCodeAndData nat int32 string | EmAbort nat
  | EmClearAbort nat | EmGetAbort nat | EmFinish nat
  | EmCreate nat | EmSubscribe nat | EmSubscribeToEvent nat | EmUnsubscribe nat
  | EmPublish CommonEventData CommonEventPublishInfo
  | EmPublishAsUser CommonEventData CommonEventPublishInfo int32
  | EmRemoveSticky string
  | EmStatic bool "string list" bool "nat option"

record em_work =
  ek_body :: em_body
  ek_info :: em_info
  ek_value :: js
  ek_executed :: bool

datatype em_effect =
    EmCall nat "js list" \<comment> \<open>a function of the application with its arguments\<close>
  | EmResolve nat js
  | EmReject nat js
  | EmTask "nat option" "nat option" "err_code option" \<comment> \<open>a \<open>NapiAsyncTask\<close>: callback, promise and error\<close>

record em_state =
  em_constructor :: bool
  em_refs :: "nat \<Rightarrow> js option"
  em_wrapped :: "nat \<Rightarrow> nat option option"
  em_subs :: "nat \<Rightarrow> SubscriberInstance_em"
  em_instances :: "(nat, subscriberInstanceInfo) omap" \<comment> \<open>\<open>subscriberInstances\<close>\<close>
  em_works :: "(nat, em_work) umap"
  em_events :: "(nat \<times> CommonEventData) list"
  em_log :: "em_effect list"
  em_next :: nat

type_synonym 's em_world = "client_state \<times> 's \<times> em_state"

record 's ani_hooks =
  ah_subscribe :: "nat \<Rightarrow> ('s em_world \<Rightarrow> err_code \<times> 's em_world) option"
  ah_unsubscribe :: "nat \<Rightarrow> ('s em_world \<Rightarrow> err_code \<times> 's em_world) option"
  ah_gc :: "nat \<Rightarrow> ('s em_world \<Rightarrow> 's em_world) option"
  ah_clone :: "nat \<Rightarrow> (nat option \<Rightarrow> 's em_world \<Rightarrow> 's em_world) option"

definition log_em :: "em_effect \<Rightarrow> em_state \<Rightarrow> em_state" where
  "log_em x k = k\<lparr>em_log := em_log k @ [x]\<rparr>"

definition new_reference :: "js \<Rightarrow> em_state \<Rightarrow> nat \<times> em_state" where
  "new_reference v k = (em_next k, k\<lparr>em_refs := (em_refs k)(em_next k := Some v), em_next := em_next k + 1\<rparr>)"

definition new_callback_reference :: "nat option \<Rightarrow> em_state \<Rightarrow> nat option \<times> em_state" where
  "new_callback_reference callback k =
     (case callback of None \<Rightarrow> (None, k) | Some f \<Rightarrow> (let (r, k1) = new_reference (JsFunction f) k in (Some r, k1)))"

definition drop_reference :: "nat option \<Rightarrow> em_state \<Rightarrow> em_state option" where
  "drop_reference ref k =
     (case ref of
        None \<Rightarrow> Some k
      | Some r \<Rightarrow> if em_refs k r = None then None else Some (k\<lparr>em_refs := (em_refs k)(r := None)\<rparr>))"

section \<open>Subscribers\<close>

definition GetAsyncResult_em :: "em_state \<Rightarrow> nat \<Rightarrow> nat option" where
  "GetAsyncResult_em k b =
     (case map_of (em_instances k) b of None \<Rightarrow> None | Some i \<Rightarrow> sii_commonEventResult i)"

definition GetAsyncCommonEventResult :: "em_state \<Rightarrow> nat \<Rightarrow> nat option" where
  "GetAsyncCommonEventResult k subscriber =
     (case map_of (em_instances k) subscriber of None \<Rightarrow> None | Some i \<Rightarrow> sii_commonEventResult i)"

definition SetAsyncCommonEventResult_em :: "nat \<Rightarrow> nat option \<Rightarrow> em_state \<Rightarrow> em_state" where
  "SetAsyncCommonEventResult_em subscriber res k =
     (let i = (case map_of (em_instances k) subscriber of
                 Some i \<Rightarrow> i | None \<Rightarrow> \<lparr>sii_asyncCallbackInfo = [], sii_commonEventResult = None\<rparr>)
      in k\<lparr>em_instances := omap_put subscriber (i\<lparr>sii_commonEventResult := res\<rparr>) (em_instances k)\<rparr>)"

definition GetSubscriberByWrapper_em :: "nat option \<Rightarrow> nat option" where
  "GetSubscriberByWrapper_em wrapper = (case wrapper of None \<Rightarrow> None | Some b \<Rightarrow> Some b)"

definition GetSubscriber_em :: "em_state \<Rightarrow> js \<Rightarrow> nat option" where
  "GetSubscriber_em k v =
     (case v of
        JsInstance obj \<Rightarrow> (case em_wrapped k obj of None \<Rightarrow> None | Some wrapper \<Rightarrow> GetSubscriberByWrapper_em wrapper)
      | _ \<Rightarrow> None)"

definition GetSubscriberByUnsubscribe_em :: "em_state \<Rightarrow> js \<Rightarrow> (nat \<times> bool) option" where
  "GetSubscriberByUnsubscribe_em k v = (case GetSubscriber_em k v of None \<Rightarrow> None | Some b \<Rightarrow> Some (b, True))"

definition upd_sub_em :: "nat \<Rightarrow> (SubscriberInstance_em \<Rightarrow> SubscriberInstance_em) \<Rightarrow> em_state \<Rightarrow> em_state" where
  "upd_sub_em b f k = k\<lparr>em_subs := (em_subs k)(b := f (em_subs k b))\<rparr>"

definition SetEnv_em :: "nat \<Rightarrow> em_state \<Rightarrow> em_state" where
  "SetEnv_em b = upd_sub_em b (\<lambda>x. x\<lparr>sm_env := True\<rparr>)"

definition ClearEnv_em :: "nat \<Rightarrow> em_state \<Rightarrow> em_state" where
  "ClearEnv_em b = upd_sub_em b (\<lambda>x. x\<lparr>sm_env := False, sm_tsfn := False\<rparr>)"

definition SetCallbackRef_em :: "nat \<Rightarrow> nat option \<Rightarrow> em_state \<Rightarrow> em_state option" where
  "SetCallbackRef_em b ref k =
     (case (if ref = None \<and> sm_env (em_subs k b) then drop_reference (sm_ref (em_subs k b)) k else Some k) of
        None \<Rightarrow> None
      | Some k1 \<Rightarrow> Some (upd_sub_em b (\<lambda>x. x\<lparr>sm_ref := ref\<rparr>) k1))"

definition SetThreadSafeFunction_em :: "nat \<Rightarrow> em_state \<Rightarrow> em_state" where
  "SetThreadSafeFunction_em b = upd_sub_em b (\<lambda>x. x\<lparr>sm_tsfn := True\<rparr>)"

definition ReleaseThreadSafeFunction :: "nat \<Rightarrow> em_state \<Rightarrow> em_state" where
  "ReleaseThreadSafeFunction b =
     upd_sub_em b (\<lambda>x. if sm_env x \<and> sm_tsfn x then x\<lparr>sm_tsfn := False\<rparr> else x)"

definition SetIsNewVersion :: "nat \<Rightarrow> bool \<Rightarrow> em_state \<Rightarrow> em_state" where
  "SetIsNewVersion b isNewVersion = upd_sub_em b (\<lambda>x. x\<lparr>sm_isNewVersion := isNewVersion\<rparr>)"

definition NapiDeleteSubscribe_em :: "nat \<Rightarrow> em_state \<Rightarrow> em_state option" where
  "NapiDeleteSubscribe_em b k =
     (case map_of (em_instances k) b of
        None \<Rightarrow> Some k
      | Some i \<Rightarrow>
          map_option (\<lambda>k1. (ReleaseThreadSafeFunction b k1)\<lparr>em_instances := AList.delete b (em_instances k1)\<rparr>)
            (SetCallbackRef_em b None k))"

section \<open>Delivery\<close>

text \<open>\<open>ok\<close>: the allocation for the event.\<close>

definition SubscriberInstance_OnReceiveEvent_em ::
  "'s ani_hooks \<Rightarrow> bool \<Rightarrow> nat \<Rightarrow> CommonEventData \<Rightarrow> 's em_world \<Rightarrow> 's em_world" where
  "SubscriberInstance_OnReceiveEvent_em H ok this d = (\<lambda>(c, s, k).
     (let (c1, s1, k1) =
            (if IsOrderedCommonEvent_subscriber c this
             then (case map_of (em_instances k) this of
                     None \<Rightarrow> (c, s, k)
                   | Some i \<Rightarrow>
                       (let (res, c1) = GoAsyncCommonEvent this c;
                            k1 = k\<lparr>em_instances := omap_put this (i\<lparr>sii_commonEventResult := res\<rparr>) (em_instances k)\<rparr>
                        in case ah_clone H this of None \<Rightarrow> (c1, s, k1) | Some h \<Rightarrow> h res (c1, s, k1)))
             else (c, s, k))
      in if sm_tsfn (em_subs k1 this) \<and> ok
         then (c1, s1, k1\<lparr>em_events := em_events k1 @ [(this, d)]\<rparr>)
         else (c1, s1, k1)))"

definition DealCallbackForSubscribeToEvent :: "nat \<Rightarrow> js \<Rightarrow> em_state \<Rightarrow> em_state" where
  "DealCallbackForSubscribeToEvent callback res = log_em (EmCall callback [res])"

definition DealCallbackForSubscribe :: "em_lib \<Rightarrow> nat \<Rightarrow> js \<Rightarrow> em_state \<Rightarrow> em_state" where
  "DealCallbackForSubscribe Y callback res = log_em (EmCall callback [GetCallbackErrorValue_em Y ERR_OK, res])"

text \<open>One event of the queue; \<open>alive\<close>: the weak pointer to the subscriber can still be promoted.\<close>

definition ThreadSafeCallback_em :: "em_lib \<Rightarrow> bool \<Rightarrow> em_state \<Rightarrow> em_state option" where
  "ThreadSafeCallback_em Y alive k =
     (case em_events k of
        [] \<Rightarrow> Some k
      | (b, d) # es \<Rightarrow>
          (let k1 = k\<lparr>em_events := es\<rparr>; res = SetCommonEventData_em Y d (JsObject [])
           in if \<not> alive then Some k1
              else case sm_ref (em_subs k1 b) of
                     None \<Rightarrow> Some k1
                   | Some r \<Rightarrow>
                       (case em_refs k1 r of
                          Some (JsFunction f) \<Rightarrow>
                            Some (if sm_isNewVersion (em_subs k1 b) then DealCallbackForSubscribeToEvent f res k1
                                  else DealCallbackForSubscribe Y f res k1)
                        | _ \<Rightarrow> None)))"

section \<open>Callbacks and promises\<close>

definition SetCallback_em :: "em_lib \<Rightarrow> nat option \<Rightarrow> err_code \<Rightarrow> js \<Rightarrow> em_state \<Rightarrow> em_state option" where
  "SetCallback_em Y callbackIn errorCode res k =
     (case callbackIn of
        None \<Rightarrow> Some k
      | Some r \<Rightarrow>
          (case em_refs k r of
             Some (JsFunction f) \<Rightarrow> Some (log_em (EmCall f [GetCallbackErrorValue_em Y errorCode, res]) k)
           | _ \<Rightarrow> None))"

definition SetPromise_em :: "em_lib \<Rightarrow> nat option \<Rightarrow> err_code \<Rightarrow> js \<Rightarrow> em_state \<Rightarrow> em_state" where
  "SetPromise_em Y deferred errorCode res k =
     (case deferred of
        None \<Rightarrow> k
      | Some p \<Rightarrow> if errorCode = ERR_OK then log_em (EmResolve p res) k
                  else log_em (EmReject p (GetCallbackErrorValue_em Y errorCode)) k)"

definition ReturnCallbackPromise_em :: "em_lib \<Rightarrow> em_info \<Rightarrow> js \<Rightarrow> em_state \<Rightarrow> em_state option" where
  "ReturnCallbackPromise_em Y info res k =
     (if ei_isCallback info then SetCallback_em Y (ei_callback info) (ei_errorCode info) res k
      else Some (SetPromise_em Y (ei_deferred info) (ei_errorCode info) res k))"

definition padding_em :: "bool \<Rightarrow> nat option \<Rightarrow> em_state \<Rightarrow> em_info \<times> js \<times> em_state" where
  "padding_em withCallback callback k =
     (if withCallback
      then (\<lparr>ei_callback = callback, ei_deferred = None, ei_isCallback = True, ei_errorCode = ERR_OK\<rparr>, JsUndefined, k)
      else (\<lparr>ei_callback = None, ei_deferred = Some (em_next k), ei_isCallback = False, ei_errorCode = ERR_OK\<rparr>,
            JsPromise (em_next k), k\<lparr>em_next := em_next k + 1\<rparr>))"

definition PaddingCallbackPromiseInfo where
  "PaddingCallbackPromiseInfo callback = padding_em (callback \<noteq> None) callback"
definition PaddingAsyncCallbackInfoCreateSubscriber_em where
  "PaddingAsyncCallbackInfoCreateSubscriber_em callback = padding_em (callback \<noteq> None) callback"
definition PaddingAsyncCallbackInfoGetSubscribeInfo_em where
  "PaddingAsyncCallbackInfoGetSubscribeInfo_em argc = padding_em (argc \<ge> GETSUBSCREBEINFO_MAX_PARA)"
definition PaddingAsyncCallbackInfoIsOrderedCommonEvent_em where
  "PaddingAsyncCallbackInfoIsOrderedCommonEvent_em argc = padding_em (argc \<ge> ISORDEREDCOMMONEVENT_MAX_PARA)"
definition PaddingAsyncCallbackInfoIsStickyCommonEvent_em where
  "PaddingAsyncCallbackInfoIsStickyCommonEvent_em argc = padding_em (argc \<ge> ISSTICKYCOMMONEVENT_MAX_PARA)"
definition PaddingAsyncCallbackInfoGetCode_em where
  "PaddingAsyncCallbackInfoGetCode_em argc = padding_em (argc \<ge> GET_CODE_MAX_PARA)"
definition PaddingAsyncCallbackInfoSetCode_em where
  "PaddingAsyncCallbackInfoSetCode_em argc = padding_em (argc \<ge> SET_CODE_MAX_PARA)"
definition PaddingAsyncCallbackInfoGetData_em where
  "PaddingAsyncCallbackInfoGetData_em argc = padding_em (argc \<ge> GET_DATA_MAX_PARA)"
definition PaddingAsyncCallbackInfoSetData_em where
  "PaddingAsyncCallbackInfoSetData_em argc = padding_em (argc \<ge> SET_DATA_MAX_PARA)"
definition PaddingAsyncCallbackInfoSetCodeAndData_em where
  "PaddingAsyncCallbackInfoSetCodeAndData_em argc = padding_em (argc \<ge> SET_CODE_AND_DATA_MAX_PARA)"
definition PaddingAsyncCallbackInfoAbort_em where
  "PaddingAsyncCallbackInfoAbort_em argc = padding_em (argc \<ge> ABORT_MAX_PARA)"
definition PaddingAsyncCallbackInfoClearAbort_em where
  "PaddingAsyncCallbackInfoClearAbort_em argc = padding_em (argc \<ge> CLEAR_ABORT_MAX_PARA)"
definition PaddingAsyncCallbackInfoGetAbort_em where
  "PaddingAsyncCallbackInfoGetAbort_em argc = padding_em (argc \<ge> GET_ABORT_MAX_PARA)"
definition PaddingAsyncCallbackInfoFinish_em where
  "PaddingAsyncCallbackInfoFinish_em argc = padding_em (argc \<ge> FINISH_MAX_PARA)"

lemmas padding_em_defs = PaddingCallbackPromiseInfo_def PaddingAsyncCallbackInfoCreateSubscriber_em_def
  PaddingAsyncCallbackInfoGetSubscribeInfo_em_def PaddingAsyncCallbackInfoIsOrderedCommonEvent_em_def
  PaddingAsyncCallbackInfoIsStickyCommonEvent_em_def PaddingAsyncCallbackInfoGetCode_em_def
  PaddingAsyncCallbackInfoSetCode_em_def PaddingAsyncCallbackInfoGetData_em_def PaddingAsyncCallbackInfoSetData_em_def
  PaddingAsyncCallbackInfoSetCodeAndData_em_def PaddingAsyncCallbackInfoAbort_em_def
  PaddingAsyncCallbackInfoClearAbort_em_def PaddingAsyncCallbackInfoGetAbort_em_def PaddingAsyncCallbackInfoFinish_em_def

definition queue_work_em :: "em_body \<Rightarrow> em_info \<Rightarrow> em_state \<Rightarrow> em_state" where
  "queue_work_em body info k = k\<lparr>em_works := em_works k @
     [(em_next k, \<lparr>ek_body = body, ek_info = info, ek_value = JsNull, ek_executed = False\<rparr>)], em_next := em_next k + 1\<rparr>"

text \<open>What a call does with its parsed arguments: without any it throws, unless an exception is pending.\<close>

definition parsed_or_throw ::
  "'a parsed \<Rightarrow> em_state \<Rightarrow> ('a \<Rightarrow> em_outcome \<times> em_state) \<Rightarrow> em_outcome \<times> em_state" where
  "parsed_or_throw p k f =
     (case p of
        Inr x \<Rightarrow> f x
      | Inl (Some e) \<Rightarrow> (Threw e, k)
      | Inl None \<Rightarrow> (Threw (NapiThrow ERR_NOTIFICATION_CES_COMMON_PARAM_INVALID), k))"

section \<open>The methods of a subscriber\<close>

text \<open>\<open>ok\<close>: the allocation for the work.\<close>

definition start_method_em ::
  "bool \<Rightarrow> js \<Rightarrow> nat option \<Rightarrow> (nat option \<Rightarrow> em_state \<Rightarrow> em_info \<times> js \<times> em_state) \<Rightarrow>
     (nat \<Rightarrow> em_body) \<Rightarrow> em_state \<Rightarrow> em_outcome \<times> em_state" where
  "start_method_em ok thisVar callback padding body k =
     (if \<not> ok then (Gave JsNull, k)
      else case GetSubscriber_em k thisVar of
             None \<Rightarrow> (Gave JsNull, k)
           | Some b \<Rightarrow>
               (let (ref, k1) = new_callback_reference callback k;
                    (info, promise, k2) = padding ref k1;
                    k3 = queue_work_em (body b) info k2
                in if ei_isCallback info then (Gave JsNull, k3) else (Gave promise, k3)))"

definition GetSubscribeInfo_em :: "bool \<Rightarrow> js \<Rightarrow> js list \<Rightarrow> em_state \<Rightarrow> em_outcome \<times> em_state" where
  "GetSubscribeInfo_em ok thisVar args k =
     parsed_or_throw (ParseParametersByGetSubscribeInfo_em args) k (\<lambda>callback.
       start_method_em ok thisVar callback (PaddingAsyncCallbackInfoGetSubscribeInfo_em (length args)) EmGetSubscribeInfo k)"

definition IsOrderedCommonEvent_em :: "bool \<Rightarrow> js \<Rightarrow> js list \<Rightarrow> em_state \<Rightarrow> em_outcome \<times> em_state" where
  "IsOrderedCommonEvent_em ok thisVar args k =
     parsed_or_throw (ParseParametersByIsOrderedCommonEvent_em args) k (\<lambda>callback.
       start_method_em ok thisVar callback (PaddingAsyncCallbackInfoIsOrderedCommonEvent_em (length args)) EmIsOrdered k)"

definition IsStickyCommonEvent_em :: "bool \<Rightarrow> js \<Rightarrow> js list \<Rightarrow> em_state \<Rightarrow> em_outcome \<times> em_state" where
  "IsStickyCommonEvent_em ok thisVar args k =
     parsed_or_throw (ParseParametersByIsStickyCommonEvent_em args) k (\<lambda>callback.
       start_method_em ok thisVar callback (PaddingAsyncCallbackInfoIsStickyCommonEvent_em (length args)) EmIsSticky k)"

definition GetCode_em :: "bool \<Rightarrow> js \<Rightarrow> js list \<Rightarrow> em_state \<Rightarrow> em_outcome \<times> em_state" where
  "GetCode_em ok thisVar args k =
     parsed_or_throw (ParseParametersByGetCode_em args) k (\<lambda>callback.
       start_method_em ok thisVar callback (PaddingAsyncCallbackInfoGetCode_em (length args)) EmGetCode k)"

definition SetCode_em :: "bool \<Rightarrow> js \<Rightarrow> js list \<Rightarrow> em_state \<Rightarrow> em_outcome \<times> em_state" where
  "SetCode_em ok thisVar args k =
     parsed_or_throw (ParseParametersBySetCode_em args) k (\<lambda>(code, callback).
       start_method_em ok thisVar callback (PaddingAsyncCallbackInfoSetCode_em (length args)) (\<lambda>b. EmSetCode b code) k)"

definition GetData_em :: "bool \<Rightarrow> js \<Rightarrow> js list \<Rightarrow> em_state \<Rightarrow> em_outcome \<times> em_state" where
  "GetData_em ok thisVar args k =
     parsed_or_throw (ParseParametersByGetData_em args) k (\<lambda>callback.
       start_method_em ok thisVar callback (PaddingAsyncCallbackInfoGetData_em (length args)) EmGetData k)"

definition SetData_em :: "bool \<Rightarrow> js \<Rightarrow> js list \<Rightarrow> em_state \<Rightarrow> em_outcome \<times> em_state" where
  "SetData_em ok thisVar args k =
     parsed_or_throw (ParseParametersBySetData_em args) k (\<lambda>(data, callback).
       start_method_em ok thisVar callback (PaddingAsyncCallbackInfoSetData_em (length args)) (\<lambda>b. EmSetData b data) k)"

definition SetCodeAndData_em :: "bool \<Rightarrow> js \<Rightarrow> js list \<Rightarrow> em_state \<Rightarrow> em_outcome \<times> em_state" where
  "SetCodeAndData_em ok thisVar args k =
     parsed_or_throw (ParseParametersBySetCodeAndData_em args) k (\<lambda>(code, data, callback).
       start_method_em ok thisVar callback (PaddingAsyncCallbackInfoSetCodeAndData_em (length args))
         (\<lambda>b. EmSetCodeAndData b code data) k)"

definition AbortCommonEvent_em :: "bool \<Rightarrow> js \<Rightarrow> js list \<Rightarrow> em_state \<Rightarrow> em_outcome \<times> em_state" where
  "AbortCommonEvent_em ok thisVar args k =
     parsed_or_throw (ParseParametersByAbort_em args) k (\<lambda>callback.
       start_method_em ok thisVar callback (PaddingAsyncCallbackInfoAbort_em (length args)) EmAbort k)"

definition ClearAbortCommonEvent_em :: "bool \<Rightarrow> js \<Rightarrow> js list \<Rightarrow> em_state \<Rightarrow> em_outcome \<times> em_state" where
  "ClearAbortCommonEvent_em ok thisVar args k =
     parsed_or_throw (ParseParametersByClearAbort_em args) k (\<lambda>callback.
       start_method_em ok thisVar callback (PaddingAsyncCallbackInfoClearAbort_em (length args)) EmClearAbort k)"

definition GetAbortCommonEvent_em :: "bool \<Rightarrow> js \<Rightarrow> js list \<Rightarrow> em_state \<Rightarrow> em_outcome \<times> em_state" where
  "GetAbortCommonEvent_em ok thisVar args k =
     parsed_or_throw (ParseParametersByGetAbort_em args) k (\<lambda>callback.
       start_method_em ok thisVar callback (PaddingAsyncCallbackInfoGetAbort_em (length args)) EmGetAbort k)"

definition FinishCommonEvent_em :: "bool \<Rightarrow> js \<Rightarrow> js list \<Rightarrow> em_state \<Rightarrow> em_outcome \<times> em_state" where
  "FinishCommonEvent_em ok thisVar args k =
     parsed_or_throw (ParseParametersByFinish_em args) k (\<lambda>callback.
       start_method_em ok thisVar callback (PaddingAsyncCallbackInfoFinish_em (length args)) EmFinish k)"

end
