(* ===== verification/Manager_Module.thy ===== *)
theory Manager_Module
  imports Manager_Interface
begin

text \<open>
  The interface \<open>@ohos.commonEventManager\<close>, continued: the methods that do their work at once, the
  functions of the module, and the two steps of a work (\<open>napi_common_event.cpp\<close>,
  \<open>common_event_set_param.cpp\<close>).
\<close>

section \<open>What the methods read and write\<close>

definition IsOrdered_em :: "client_state \<Rightarrow> em_state \<Rightarrow> nat \<Rightarrow> js" where
  "IsOrdered_em c k b = JsBool
     (case GetAsyncResult_em k b of
        Some r \<Rightarrow> ar_ordered (cc_results c r) | None \<Rightarrow> IsOrderedCommonEvent_subscriber c b)"

definition IsSticky_em :: "client_state \<Rightarrow> em_state \<Rightarrow> nat \<Rightarrow> js" where
  "IsSticky_em c k b = JsBool
     (case GetAsyncResult_em k b of
        Some r \<Rightarrow> ar_sticky (cc_results c r) | None \<Rightarrow> IsStickyCommonEvent_subscriber c b)"

definition Code_em :: "client_state \<Rightarrow> em_state \<Rightarrow> nat \<Rightarrow> js" where
  "Code_em c k b = JsNumber (case GetAsyncResult_em k b of Some r \<Rightarrow> ar_code (cc_results c r) | None \<Rightarrow> 0)"

definition Data_em :: "client_state \<Rightarrow> em_state \<Rightarrow> nat \<Rightarrow> js" where
  "Data_em c k b =
     JsString (c_str (case GetAsyncResult_em k b of Some r \<Rightarrow> ar_data (cc_results c r) | None \<Rightarrow> []))"

definition Abort_em :: "client_state \<Rightarrow> em_state \<Rightarrow> nat \<Rightarrow> js" where
  "Abort_em c k b = JsBool (case GetAsyncResult_em k b of Some r \<Rightarrow> ar_abort (cc_results c r) | None \<Rightarrow> False)"

definition change_em ::
  "(AsyncCommonEventResult \<Rightarrow> bool \<times> AsyncCommonEventResult) \<Rightarrow> em_state \<Rightarrow> nat \<Rightarrow> client_state \<Rightarrow> err_code \<times> client_state" where
  "change_em f k b c =
     (case GetAsyncResult_em k b of
        None \<Rightarrow> (ERR_OK, c)
      | Some r \<Rightarrow>
          (let (ok, a) = f (cc_results c r) in (if ok then ERR_OK else ERR_CES_FAILED_em, upd_result r (\<lambda>_. a) c)))"

section \<open>The methods that do their work at once\<close>

definition sync_method ::
  "em_state \<Rightarrow> js \<Rightarrow> client_state \<Rightarrow> (nat \<Rightarrow> em_outcome \<times> client_state) \<Rightarrow> em_outcome \<times> client_state" where
  "sync_method k thisVar c f = (case GetSubscriber_em k thisVar of None \<Rightarrow> (Gave JsNull, c) | Some b \<Rightarrow> f b)"

definition GetSubscribeInfoSync :: "em_state \<Rightarrow> js \<Rightarrow> client_state \<Rightarrow> em_outcome \<times> client_state" where
  "GetSubscribeInfoSync k thisVar c = sync_method k thisVar c (\<lambda>b. (Gave (SetNapiResult_em (info_of c b) (JsObject [])), c))"

definition IsOrderedCommonEventSync :: "em_state \<Rightarrow> js \<Rightarrow> client_state \<Rightarrow> em_outcome \<times> client_state" where
  "IsOrderedCommonEventSync k thisVar c = sync_method k thisVar c (\<lambda>b. (Gave (IsOrdered_em c k b), c))"

definition IsStickyCommonEventSync :: "em_state \<Rightarrow> js \<Rightarrow> client_state \<Rightarrow> em_outcome \<times> client_state" where
  "IsStickyCommonEventSync k thisVar c = sync_method k thisVar c (\<lambda>b. (Gave (IsSticky_em c k b), c))"

definition GetCodeSync :: "em_state \<Rightarrow> js \<Rightarrow> client_state \<Rightarrow> em_outcome \<times> client_state" where
  "GetCodeSync k thisVar c = sync_method k thisVar c (\<lambda>b. (Gave (Code_em c k b), c))"

definition SetCodeSync :: "em_state \<Rightarrow> js \<Rightarrow> js list \<Rightarrow> client_state \<Rightarrow> em_outcome \<times> client_state" where
  "SetCodeSync k thisVar args c =
     (case argv args 0 of
        JsNumber n \<Rightarrow>
          sync_method k thisVar c (\<lambda>b. (Gave JsNull, snd (change_em (SetCode_result (napi_get_value_int32 n)) k b c)))
      | _ \<Rightarrow> (Threw RuntimeError, c))"

definition GetDataSync :: "em_state \<Rightarrow> js \<Rightarrow> client_state \<Rightarrow> em_outcome \<times> client_state" where
  "GetDataSync k thisVar c = sync_method k thisVar c (\<lambda>b. (Gave (Data_em c k b), c))"

definition SetDataSync :: "em_state \<Rightarrow> js \<Rightarrow> js list \<Rightarrow> client_state \<Rightarrow> em_outcome \<times> client_state" where
  "SetDataSync k thisVar args c =
     (case argv args 0 of
        JsString s \<Rightarrow>
          (let str = napi_copied STR_DATA_MAX_SIZE s; strLen = length str
           in if strLen > STR_DATA_MAX_SIZE - 1 then (Gave JsNull, c)
              else case GetSubscriber_em k thisVar of
                     None \<Rightarrow> (Threw (NapiThrow ERR_NOTIFICATION_CES_COMMON_PARAM_INVALID), c)
                   | Some b \<Rightarrow> (Gave JsNull, snd (change_em (SetData_result (c_str str)) k b c)))
      | _ \<Rightarrow> (Threw RuntimeError, c))"

definition SetCodeAndDataSync :: "em_state \<Rightarrow> js \<Rightarrow> js list \<Rightarrow> client_state \<Rightarrow> em_outcome \<times> client_state" where
  "SetCodeAndDataSync k thisVar args c =
     (case argv args 0 of
        JsNumber n \<Rightarrow>
          (case argv args 1 of
             JsString s \<Rightarrow>
               (let str = napi_copied STR_DATA_MAX_SIZE s; strLen = length str
                in if strLen > STR_DATA_MAX_SIZE - 1
                   then (Threw (NapiThrow_msg ERR_NOTIFICATION_CES_COMMON_PARAM_INVALID
                     (''Parameter verification failed. cannot exceed '' @ to_string (int (STR_DATA_MAX_SIZE - 1)) @ '' characters'')), c)
                   else sync_method k thisVar c
                     (\<lambda>b. (Gave JsNull, snd (change_em (SetCodeAndData_result (napi_get_value_int32 n) (c_str str)) k b c))))
           | _ \<Rightarrow> (Threw RuntimeError, c))
      | _ \<Rightarrow> (Threw RuntimeError, c))"

definition AbortCommonEventSync :: "em_state \<Rightarrow> js \<Rightarrow> client_state \<Rightarrow> em_outcome \<times> client_state" where
  "AbortCommonEventSync k thisVar c =
     sync_method k thisVar c (\<lambda>b. (Gave JsNull, snd (change_em AbortCommonEvent_result k b c)))"

definition ClearAbortCommonEventSync :: "em_state \<Rightarrow> js \<Rightarrow> client_state \<Rightarrow> em_outcome \<times> client_state" where
  "ClearAbortCommonEventSync k thisVar c =
     sync_method k thisVar c (\<lambda>b. (Gave JsNull, snd (change_em ClearAbortCommonEvent_result k b c)))"

definition GetAbortCommonEventSync :: "em_state \<Rightarrow> js \<Rightarrow> client_state \<Rightarrow> em_outcome \<times> client_state" where
  "GetAbortCommonEventSync k thisVar c = sync_method k thisVar c (\<lambda>b. (Gave (Abort_em c k b), c))"

section \<open>Making a subscriber\<close>

text \<open>\<open>okw\<close>, \<open>oks\<close>: the allocations of the wrapper and of the subscriber in it.\<close>

definition CommonEventSubscriberConstructor_em ::
  "bool \<Rightarrow> bool \<Rightarrow> js list \<Rightarrow> client_state \<times> em_state \<Rightarrow> em_outcome \<times> client_state \<times> em_state" where
  "CommonEventSubscriberConstructor_em okw oks args = (\<lambda>(c, k).
     (case ParseParametersConstructor_em args of
        Inl (Some e) \<Rightarrow> (Threw e, c, k)
      | Inl None \<Rightarrow> (Threw (NapiThrow ERR_NOTIFICATION_CES_COMMON_PARAM_INVALID), c, k)
      | Inr info \<Rightarrow>
          if \<not> okw then (Gave JsNull, c, k)
          else
            (let subscribeInfo = info\<lparr>si_threadMode := HANDLER\<rparr>; thisVar = em_next k; b = thisVar + 1
             in if oks
                then (Gave (JsInstance thisVar),
                      upd_subscriber b (\<lambda>_. \<lparr>sr_info = subscribeInfo, sr_result = None\<rparr>) c,
                      k\<lparr>em_wrapped := (em_wrapped k)(thisVar := Some (Some b)),
                        em_subs := (em_subs k)(b := \<lparr>sm_env = False, sm_ref = None, sm_tsfn = False, sm_isNewVersion = False\<rparr>),
                        em_next := b + 1\<rparr>)
                else (Gave (JsInstance thisVar), c,
                      k\<lparr>em_wrapped := (em_wrapped k)(thisVar := Some None), em_next := b\<rparr>))))"

text \<open>\<open>napi_new_instance\<close>: the pending exception and the object.  A constructor that returns no object
  gives the object it was called for.\<close>

definition new_instance_em ::
  "bool \<Rightarrow> bool \<Rightarrow> js list \<Rightarrow> client_state \<times> em_state \<Rightarrow> (js_error option \<times> js option) \<times> client_state \<times> em_state" where
  "new_instance_em okw oks args = (\<lambda>(c, k).
     (if \<not> em_constructor k then ((None, None), c, k)
      else case CommonEventSubscriberConstructor_em okw oks args (c, k) of
             (Threw e, c1, k1) \<Rightarrow> ((Some e, None), c1, k1)
           | (Gave v, c1, k1) \<Rightarrow>
               if napi_typeof v = napi_object then ((None, Some v), c1, k1)
               else ((None, Some (JsInstance (em_next k1))), c1,
                     k1\<lparr>em_wrapped := (em_wrapped k1)(em_next k1 := None), em_next := em_next k1 + 1\<rparr>)))"

definition CommonEventSubscriberInit :: "em_state \<Rightarrow> em_state" where
  "CommonEventSubscriberInit k = k\<lparr>em_constructor := True\<rparr>"

definition SubscriberConstructorCleanupCallback :: "em_state \<Rightarrow> em_state" where
  "SubscriberConstructorCleanupCallback k = k\<lparr>em_constructor := False\<rparr>"

definition TransferedCommonEventSubscriberConstructor ::
  "bool \<Rightarrow> bool \<Rightarrow> CommonEventSubscribeInfo \<Rightarrow> client_state \<times> em_state \<Rightarrow> js option \<times> client_state \<times> em_state" where
  "TransferedCommonEventSubscriberConstructor okw oks info ck =
     (let ((e, thisVar), c, k) = new_instance_em okw oks [SetNapiResult_em info (JsObject [])] ck in (thisVar, c, k))"

definition CreateSubscriber_em :: "bool \<Rightarrow> js list \<Rightarrow> em_state \<Rightarrow> em_outcome \<times> em_state" where
  "CreateSubscriber_em ok args k =
     (if length args < 1 then (Gave JsNull, k)
      else parsed_or_throw (ParseParametersByCreateSubscriber_em args) k (\<lambda>callback.
        if \<not> ok then (Gave JsNull, k)
        else
          (let (ref, k1) = new_callback_reference callback k;
               (info, promise, k2) = PaddingAsyncCallbackInfoCreateSubscriber_em ref k1;
               (subscribeInfo, k3) = new_reference (argv args 0) k2;
               k4 = queue_work_em (EmCreate subscribeInfo) info k3
           in if ei_isCallback info then (Gave JsNull, k4) else (Gave promise, k4))))"

text \<open>The reference that the source makes for the information is gone when it returns.\<close>

definition CreateSubscriberSync ::
  "bool \<Rightarrow> bool \<Rightarrow> js list \<Rightarrow> client_state \<times> em_state \<Rightarrow> em_outcome \<times> client_state \<times> em_state" where
  "CreateSubscriberSync okw oks args = (\<lambda>(c, k).
     (if length args < 1 then (Gave JsNull, c, k)
      else if napi_typeof (argv args 0) \<noteq> napi_object
           then (Threw (NapiThrow_msg ERR_NOTIFICATION_CES_COMMON_PARAM_INVALID
                  ''Incorrect parameter types.The type of param must be object.''), c, k)
      else case new_instance_em okw oks [argv args 0] (c, k) of
             ((e, Some v), c1, k1) \<Rightarrow> (Gave v, c1, k1)
           | ((Some e, None), c1, k1) \<Rightarrow> (Threw e, c1, k1)
           | ((None, None), c1, k1) \<Rightarrow> (Threw (NapiThrow ERR_NOTIFICATION_CES_COMMON_PARAM_INVALID), c1, k1)))"

section \<open>The functions of the module\<close>

definition ParseParametersBySubscribe_em :: "em_state \<Rightarrow> js list \<Rightarrow> (nat \<times> nat) parsed" where
  "ParseParametersBySubscribe_em k args =
     (if napi_typeof (argv args 0) \<noteq> napi_object then wrong_type ''object''
      else case GetSubscriber_em k (argv args 0) of
             None \<Rightarrow> refuse ''Mandatory parameters are left unspecified.''
           | Some b \<Rightarrow> and_then (function_argument args 1) (\<lambda>f. Inr (b, f)))"

definition callback_info_em :: "nat option \<Rightarrow> em_info" where
  "callback_info_em callback = \<lparr>ei_callback = callback, ei_deferred = None, ei_isCallback = True, ei_errorCode = ERR_OK\<rparr>"

definition Subscribe_em :: "bool \<Rightarrow> js list \<Rightarrow> em_state \<Rightarrow> em_outcome \<times> em_state" where
  "Subscribe_em ok args k =
     (if length args < SUBSCRIBE_MAX_PARA then (Gave JsNull, k)
      else parsed_or_throw (ParseParametersBySubscribe_em k args) k (\<lambda>(b, f).
        if \<not> ok then (Gave JsNull, k)
        else
          (let (r, k1) = new_reference (JsFunction f) k;
               k2 = (case SetCallbackRef_em b (Some r) (SetEnv_em b k1) of Some k2 \<Rightarrow> k2 | None \<Rightarrow> k1)
           in (Gave JsNull, queue_work_em (EmSubscribe b) (callback_info_em (Some r)) (SetThreadSafeFunction_em b k2)))))"

definition SubscribeToEvent :: "bool \<Rightarrow> js list \<Rightarrow> em_state \<Rightarrow> em_outcome \<times> em_state" where
  "SubscribeToEvent ok args k =
     parsed_or_throw (ParseParametersBySubscribe_em k args) k (\<lambda>(b, f).
       if \<not> ok then (Gave JsNull, k)
       else
         (let (r, k1) = new_reference (JsFunction f) k;
              k2 = (case SetCallbackRef_em b (Some r) k1 of Some k2 \<Rightarrow> k2 | None \<Rightarrow> k1);
              k3 = SetIsNewVersion b True (SetThreadSafeFunction_em b k2);
              (info, promise, k4) = padding_em False None k3
          in (Gave promise, queue_work_em (EmSubscribeToEvent b) info k4)))"

definition ParseParametersByUnsubscribe_em :: "em_state \<Rightarrow> js list \<Rightarrow> (nat \<times> bool \<times> nat option) parsed" where
  "ParseParametersByUnsubscribe_em k args =
     (if napi_typeof (argv args 0) \<noteq> napi_object then wrong_type ''subscribe''
      else case GetSubscriberByUnsubscribe_em k (argv args 0) of
             None \<Rightarrow> Inl None
           | Some (b, isFind) \<Rightarrow>
               if length args \<ge> UNSUBSCRIBE_MAX_PARA
               then (case argv args 1 of
                       JsUndefined \<Rightarrow> Inr (b, isFind, None)
                     | JsNull \<Rightarrow> Inr (b, isFind, None)
                     | JsFunction f \<Rightarrow> Inr (b, isFind, Some f)
                     | _ \<Rightarrow> wrong_type ''function'')
               else Inr (b, isFind, None))"

definition Unsubscribe_em :: "bool \<Rightarrow> js list \<Rightarrow> em_state \<Rightarrow> em_outcome \<times> em_state" where
  "Unsubscribe_em ok args k =
     (if length args < 1 then (Gave JsNull, k)
      else parsed_or_throw (ParseParametersByUnsubscribe_em k args) k (\<lambda>(b, isFind, callback).
        if \<not> isFind then (Gave JsNull, k)
        else if \<not> ok then (Gave JsNull, k)
        else
          (let (ref, k1) = new_callback_reference callback k
           in (Gave JsNull, queue_work_em (EmUnsubscribe b) (callback_info_em ref) k1))))"

definition publish_data_em :: "string \<Rightarrow> bool \<Rightarrow> CommonEventPublishDataByjs \<Rightarrow> CommonEventData \<times> CommonEventPublishInfo" where
  "publish_data_em event withOptions pd =
     (let want = want_named event; d = \<lparr>cd_want = want_named [], cd_code = 0, cd_data = []\<rparr>;
          (want1, d1, i1) = (if withOptions then PaddingCallbackInfoPublish_em pd want (d, CommonEventPublishInfo_init)
                             else (want, d, CommonEventPublishInfo_init))
      in (d1\<lparr>cd_want := want1\<rparr>, i1))"

definition Publish_em :: "em_lib \<Rightarrow> bool \<Rightarrow> js list \<Rightarrow> em_state \<Rightarrow> em_outcome \<times> em_state" where
  "Publish_em Y ok args k =
     (if length args < PUBLISH_MAX_PARA then (Gave JsNull, k)
      else parsed_or_throw (ParseParametersByPublish_em Y args) k (\<lambda>(event, pd, f).
        if \<not> ok then (Gave JsNull, k)
        else
          (let (ref, k1) = new_callback_reference (Some f) k;
               (d, i) = publish_data_em event (length args = PUBLISH_MAX_PARA_BY_PUBLISHDATA) pd
           in (Gave JsNull, queue_work_em (EmPublish d i) (callback_info_em ref) k1))))"

definition PublishAsUser_em :: "em_lib \<Rightarrow> bool \<Rightarrow> js list \<Rightarrow> em_state \<Rightarrow> em_outcome \<times> em_state" where
  "PublishAsUser_em Y ok args k =
     (if length args < PUBLISH_MAX_PARA_AS_USER then (Gave JsNull, k)
      else parsed_or_throw (ParseParametersByPublishAsUser_em Y args) k (\<lambda>(event, user, pd, f).
        if \<not> ok then (Gave JsNull, k)
        else
          (let (ref, k1) = new_callback_reference (Some f) k;
               (d, i) = publish_data_em event (length args = PUBLISH_MAX_PARA_BY_USERID) pd
           in (Gave JsNull, queue_work_em (EmPublishAsUser d i user) (callback_info_em ref) k1))))"

text \<open>\<open>queued\<close>: the runtime takes the work.\<close>

definition RemoveStickyCommonEvent_em :: "em_lib \<Rightarrow> bool \<Rightarrow> bool \<Rightarrow> js list \<Rightarrow> em_state \<Rightarrow> em_outcome \<times> em_state" where
  "RemoveStickyCommonEvent_em Y ok queued args k =
     parsed_or_throw (ParseParametersByRemoveSticky Y args) k (\<lambda>(event, callback).
       if \<not> ok then (Gave JsNull, k)
       else
         (let (ref, k1) = new_callback_reference callback k;
              (info, promise, k2) = PaddingCallbackPromiseInfo ref k1
          in if \<not> queued then (Gave JsNull, k2)
             else
               (let k3 = queue_work_em (EmRemoveSticky event) info k2
                in if ei_isCallback info then (Gave JsNull, k3) else (Gave promise, k3))))"

text \<open>A \<open>NapiAsyncTask\<close> calls back its last argument, or settles a promise when there is none.\<close>

definition OnSetStaticSubscriberState :: "em_lib \<Rightarrow> js list \<Rightarrow> em_state \<Rightarrow> em_outcome \<times> em_state" where
  "OnSetStaticSubscriberState Y args k =
     (if length args < 1
      then (Threw (NapiThrow_msg ERR_NOTIFICATION_CES_COMMON_PARAM_INVALID ''Mandatory parameters are left unspecified.''), k)
      else case argv args 0 of
             JsBool enable \<Rightarrow>
               parsed_or_throw (ParseSetStaticSubscriberStateParam Y args) k (\<lambda>(events, fromBundle, lastParam).
                 (let (info, promise, k1) = padding_em (lastParam \<noteq> None) None k;
                      k2 = queue_work_em (EmStatic fromBundle events enable lastParam) info k1
                  in (Gave (if lastParam = None then promise else JsUndefined), k2)))
           | _ \<Rightarrow> (Threw (NapiThrow_msg ERR_NOTIFICATION_CES_COMMON_PARAM_INVALID
                    ''Incorrect parameter types.The type of param must be boolean.''), k))"

definition SetStaticSubscriberState_em :: "em_lib \<Rightarrow> bool \<Rightarrow> js list \<Rightarrow> em_state \<Rightarrow> em_outcome option \<times> em_state" where
  "SetStaticSubscriberState_em Y me args k =
     (if me then (let (r, k1) = OnSetStaticSubscriberState Y args k in (Some r, k1)) else (None, k))"

section \<open>Executing a work\<close>

definition NewSubscribeCommonEvent ::
  "'s svc_ops \<Rightarrow> nat option \<Rightarrow> client_state \<times> 's \<Rightarrow> err_code \<times> client_state \<times> 's" where
  "NewSubscribeCommonEvent = SubscribeCommonEvent_client"

definition NewUnSubscribeCommonEvent ::
  "'s svc_ops \<Rightarrow> nat option \<Rightarrow> client_state \<times> 's \<Rightarrow> err_code \<times> client_state \<times> 's" where
  "NewUnSubscribeCommonEvent = UnSubscribeCommonEvent_client"

definition AsyncExecuteCallbackSubscribe :: "'s ani_hooks \<Rightarrow> 's svc_ops \<Rightarrow> nat \<Rightarrow> 's em_world \<Rightarrow> err_code \<times> 's em_world" where
  "AsyncExecuteCallbackSubscribe H X b =
     (case ah_subscribe H b of Some h \<Rightarrow> h | None \<Rightarrow> NewSubscribeCommonEvent (capi_ops X) (Some b))"

definition Finish_em :: "'s svc_ops \<Rightarrow> nat \<Rightarrow> 's em_world \<Rightarrow> err_code \<times> 's em_world" where
  "Finish_em X b = (\<lambda>(c, s, k).
     (case GetAsyncResult_em k b of
        None \<Rightarrow> (ERR_OK, c, s, k)
      | Some r \<Rightarrow>
          (let (ok, cs) = FinishCommonEvent (capi_ops X) r (c, s, k)
           in (if ok then ERR_OK else ERR_CES_FAILED_em, cs))))"

definition UnsubscribeAndRemoveInstance :: "'s svc_ops \<Rightarrow> nat \<Rightarrow> 's em_world \<Rightarrow> (err_code \<times> 's em_world) option" where
  "UnsubscribeAndRemoveInstance X b cs =
     (let (res, c1, s1, k1) = NewUnSubscribeCommonEvent (capi_ops X) (Some b) cs
      in if res \<noteq> ERR_OK then Some (res, c1, s1, k1)
         else map_option (\<lambda>k2. (res, c1, s1, k2)) (NapiDeleteSubscribe_em b k1))"

definition without_value :: "err_code \<times> 's em_world \<Rightarrow> err_code \<times> js \<times> 's em_world" where
  "without_value = (\<lambda>(errorCode, cs). (errorCode, JsNull, cs))"

definition changed_em :: "'s \<Rightarrow> em_state \<Rightarrow> err_code \<times> client_state \<Rightarrow> err_code \<times> js \<times> 's em_world" where
  "changed_em s k = (\<lambda>(errorCode, c). (errorCode, JsNull, c, s, k))"

fun execute_body_em :: "'s ani_hooks \<Rightarrow> 's svc_ops \<Rightarrow> em_body \<Rightarrow> 's em_world \<Rightarrow> err_code \<times> js \<times> 's em_world" where
  "execute_body_em H X (EmGetSubscribeInfo b) (c, s, k) = (ERR_OK, SetNapiResult_em (info_of c b) (JsObject []), c, s, k)"
| "execute_body_em H X (EmIsOrdered b) (c, s, k) = (ERR_OK, IsOrdered_em c k b, c, s, k)"
| "execute_body_em H X (EmIsSticky b) (c, s, k) = (ERR_OK, IsSticky_em c k b, c, s, k)"
| "execute_body_em H X (EmGetCode b) (c, s, k) = (ERR_OK, Code_em c k b, c, s, k)"
| "execute_body_em H X (EmSetCode b code) (c, s, k) = changed_em s k (change_em (SetCode_result code) k b c)"
| "execute_body_em H X (EmGetData b) (c, s, k) = (ERR_OK, Data_em c k b, c, s, k)"
| "execute_body_em H X (EmSetData b data) (c, s, k) = changed_em s k (change_em (SetData_result data) k b c)"
| "execute_body_em H X (EmSetCodeAndData b code data) (c, s, k) =
     changed_em s k (change_em (SetCodeAndData_result code data) k b c)"
| "execute_body_em H X (EmAbort b) (c, s, k) = changed_em s k (change_em AbortCommonEvent_result k b c)"
| "execute_body_em H X (EmClearAbort b) (c, s, k) = changed_em s k (change_em ClearAbortCommonEvent_result k b c)"
| "execute_body_em H X (EmGetAbort b) (c, s, k) = (ERR_OK, Abort_em c k b, c, s, k)"
| "execute_body_em H X (EmFinish b) cs = without_value (Finish_em X b cs)"
| "execute_body_em H X (EmCreate ref) cs = (ERR_OK, JsNull, cs)"
| "execute_body_em H X (EmSubscribe b) cs = without_value (AsyncExecuteCallbackSubscribe H X b cs)"
| "execute_body_em H X (EmSubscribeToEvent b) cs = without_value (AsyncExecuteCallbackSubscribe H X b cs)"
| "execute_body_em H X (EmUnsubscribe b) cs =
     without_value (case ah_unsubscribe H b of
                      Some h \<Rightarrow> h cs | None \<Rightarrow> NewUnSubscribeCommonEvent (capi_ops X) (Some b) cs)"
| "execute_body_em H X (EmPublish d i) cs = without_value (NewPublishCommonEvent (capi_ops X) d i cs)"
| "execute_body_em H X (EmPublishAsUser d i user) cs =
     without_value (NewPublishCommonEventAsUser (capi_ops X) d i None user cs)"
| "execute_body_em H X (EmRemoveSticky event) (c, s, k) =
     (let (r, s1) = RemoveStickyCommonEvent_client X event s in (r, JsNull, c, s1, k))"
| "execute_body_em H X (EmStatic fromBundle events enable lastParam) cs = (ERR_OK, JsNull, cs)"

definition run_execute_em :: "'s ani_hooks \<Rightarrow> 's svc_ops \<Rightarrow> nat \<Rightarrow> 's em_world \<Rightarrow> 's em_world" where
  "run_execute_em H X w = (\<lambda>(c, s, k).
     (case map_of (em_works k) w of
        None \<Rightarrow> (c, s, k)
      | Some wk \<Rightarrow>
          if ek_executed wk then (c, s, k)
          else
            (let (errorCode, v, c1, s1, k1) = execute_body_em H X (ek_body wk) (c, s, k)
             in (c1, s1, k1\<lparr>em_works := AList.update w
                   (wk\<lparr>ek_info := (ek_info wk)\<lparr>ei_errorCode := errorCode\<rparr>, ek_value := v, ek_executed := True\<rparr>)
                   (em_works k1)\<rparr>))))"

section \<open>Completing a work\<close>

definition CreateSubscriberInstance ::
  "bool \<Rightarrow> bool \<Rightarrow> js \<Rightarrow> client_state \<times> em_state \<Rightarrow> err_code \<times> js \<times> client_state \<times> em_state" where
  "CreateSubscriberInstance okw oks v ck =
     (case new_instance_em okw oks [v] ck of
        ((Some e, _), c, k) \<Rightarrow> (case e of JsError errCode _ \<Rightarrow> errCode | RuntimeError \<Rightarrow> ERR_CES_FAILED_em, JsNull, c, k)
      | ((None, None), c, k) \<Rightarrow> (ERR_CES_FAILED_em, JsUndefined, c, k)
      | ((None, Some res), c, k) \<Rightarrow> (ERR_OK, res, c, k))"

definition CreateSubscriber_complete_em ::
  "em_lib \<Rightarrow> bool \<Rightarrow> bool \<Rightarrow> nat \<Rightarrow> em_info \<Rightarrow> 's em_world \<Rightarrow> 's em_world option" where
  "CreateSubscriber_complete_em Y okw oks subscribeInfo info = (\<lambda>(c, s, k).
     (case em_refs k subscribeInfo of
        None \<Rightarrow> None
      | Some v \<Rightarrow>
          (let (errorCode, res, c1, k1) = CreateSubscriberInstance okw oks v (c, k)
           in map_option (\<lambda>k4. (c1, s, k4))
                (Option.bind (ReturnCallbackPromise_em Y (info\<lparr>ei_errorCode := errorCode\<rparr>) res k1)
                  (\<lambda>k2. Option.bind (drop_reference (ei_callback info) k2) (drop_reference (Some subscribeInfo)))))))"

definition add_instance :: "nat \<Rightarrow> em_info \<Rightarrow> em_state \<Rightarrow> em_state" where
  "add_instance b info k =
     (let i = (case map_of (em_instances k) b of
                 Some i \<Rightarrow> i | None \<Rightarrow> \<lparr>sii_asyncCallbackInfo = [], sii_commonEventResult = None\<rparr>)
      in k\<lparr>em_instances := omap_put b
           (i\<lparr>sii_asyncCallbackInfo := sii_asyncCallbackInfo i @ [ei_callback info]\<rparr>) (em_instances k)\<rparr>)"

definition AsyncCompleteCallbackSubscribe :: "em_lib \<Rightarrow> nat \<Rightarrow> em_info \<Rightarrow> em_state \<Rightarrow> em_state option" where
  "AsyncCompleteCallbackSubscribe Y b info k =
     (if ei_errorCode info = ERR_OK then Some (add_instance b info k)
      else Option.bind (SetCallback_em Y (ei_callback info) (ei_errorCode info) JsNull k) (drop_reference (ei_callback info)))"

definition AsyncCompleteCallbackSubscribeToEvent :: "em_lib \<Rightarrow> nat \<Rightarrow> em_info \<Rightarrow> em_state \<Rightarrow> em_state option" where
  "AsyncCompleteCallbackSubscribeToEvent Y b info k =
     (if ei_errorCode info = ERR_OK
      then Some (SetPromise_em Y (ei_deferred info) (ei_errorCode info) JsNull (add_instance b info k))
      else map_option (SetPromise_em Y (ei_deferred info) (ei_errorCode info) JsNull) (SetCallbackRef_em b None k))"

definition Unsubscribe_complete_em :: "em_lib \<Rightarrow> nat \<Rightarrow> em_info \<Rightarrow> em_state \<Rightarrow> em_state option" where
  "Unsubscribe_complete_em Y b info k =
     Option.bind (SetCallback_em Y (ei_callback info) (ei_errorCode info) JsNull k)
       (\<lambda>k1. Option.bind (drop_reference (ei_callback info) k1) (NapiDeleteSubscribe_em b))"

definition Publish_complete_em :: "em_lib \<Rightarrow> em_info \<Rightarrow> em_state \<Rightarrow> em_state option" where
  "Publish_complete_em Y info k =
     Option.bind (SetCallback_em Y (ei_callback info) (ei_errorCode info) JsNull k) (drop_reference (ei_callback info))"

definition AsyncCompleteCallbackRemoveStickyCommonEvent :: "em_lib \<Rightarrow> em_info \<Rightarrow> em_state \<Rightarrow> em_state option" where
  "AsyncCompleteCallbackRemoveStickyCommonEvent Y info k =
     Option.bind (ReturnCallbackPromise_em Y info JsNull k) (drop_reference (ei_callback info))"

definition static_complete ::
  "'s svc_ops \<Rightarrow> bool \<Rightarrow> string list \<Rightarrow> bool \<Rightarrow> nat option \<Rightarrow> em_info \<Rightarrow> 's em_world \<Rightarrow> 's em_world" where
  "static_complete X fromBundle events enable lastParam info = (\<lambda>(c, s, k).
     (let (ret, s1) = (if fromBundle then SetStaticSubscriberState_events_client X events enable s
                       else SetStaticSubscriberState_client X enable s);
          target = ei_deferred info
      in if ret = ERR_OK then (c, s1, log_em (EmTask lastParam target None) k)
         else (c, s1, log_em (EmTask lastParam target (Some
           (if ret \<noteq> ERR_NOTIFICATION_CES_COMMON_NOT_SYSTEM_APP \<and> ret \<noteq> ERR_NOTIFICATION_SEND_ERROR
            then ERR_NOTIFICATION_CESM_ERROR else ret))) k)))"

definition method_complete_em :: "em_lib \<Rightarrow> em_info \<Rightarrow> js \<Rightarrow> em_state \<Rightarrow> em_state option" where
  "method_complete_em Y info v k =
     Option.bind (ReturnCallbackPromise_em Y info v k) (drop_reference (ei_callback info))"

fun complete_body_em ::
  "em_lib \<Rightarrow> 's svc_ops \<Rightarrow> bool \<Rightarrow> bool \<Rightarrow> em_body \<Rightarrow> em_info \<Rightarrow> js \<Rightarrow> 's em_world \<Rightarrow> 's em_world option" where
  "complete_body_em Y X okw oks (EmCreate ref) info v cs = CreateSubscriber_complete_em Y okw oks ref info cs"
| "complete_body_em Y X okw oks (EmSubscribe b) info v (c, s, k) =
     map_option (\<lambda>k1. (c, s, k1)) (AsyncCompleteCallbackSubscribe Y b info k)"
| "complete_body_em Y X okw oks (EmSubscribeToEvent b) info v (c, s, k) =
     map_option (\<lambda>k1. (c, s, k1)) (AsyncCompleteCallbackSubscribeToEvent Y b info k)"
| "complete_body_em Y X okw oks (EmUnsubscribe b) info v (c, s, k) =
     map_option (\<lambda>k1. (c, s, k1)) (Unsubscribe_complete_em Y b info k)"
| "complete_body_em Y X okw oks (EmPublish d i) info v (c, s, k) = map_option (\<lambda>k1. (c, s, k1)) (Publish_complete_em Y info k)"
| "complete_body_em Y X okw oks (EmPublishAsUser d i user) info v (c, s, k) =
     map_option (\<lambda>k1. (c, s, k1)) (Publish_complete_em Y info k)"
| "complete_body_em Y X okw oks (EmRemoveSticky event) info v (c, s, k) =
     map_option (\<lambda>k1. (c, s, k1)) (AsyncCompleteCallbackRemoveStickyCommonEvent Y info k)"
| "complete_body_em Y X okw oks (EmStatic fromBundle events enable lastParam) info v cs =
     Some (static_complete X fromBundle events enable lastParam info cs)"
| "complete_body_em Y X okw oks body info v (c, s, k) = map_option (\<lambda>k1. (c, s, k1)) (method_complete_em Y info v k)"

definition run_complete_em :: "em_lib \<Rightarrow> 's svc_ops \<Rightarrow> bool \<Rightarrow> bool \<Rightarrow> nat \<Rightarrow> 's em_world \<Rightarrow> 's em_world option" where
  "run_complete_em Y X okw oks w = (\<lambda>(c, s, k).
     (case map_of (em_works k) w of
        None \<Rightarrow> Some (c, s, k)
      | Some wk \<Rightarrow>
          if \<not> ek_executed wk then Some (c, s, k)
          else complete_body_em Y X okw oks (ek_body wk) (ek_info wk) (ek_value wk)
                 (c, s, k\<lparr>em_works := AList.delete w (em_works k)\<rparr>)))"

text \<open>The runtime collects an object of JavaScript.\<close>

definition finalize_instance_em :: "'s ani_hooks \<Rightarrow> 's svc_ops \<Rightarrow> nat \<Rightarrow> 's em_world \<Rightarrow> 's em_world option" where
  "finalize_instance_em H X obj = (\<lambda>(c, s, k).
     (case em_wrapped k obj of
        None \<Rightarrow> Some (c, s, k)
      | Some wrapper \<Rightarrow>
          (let k0 = k\<lparr>em_wrapped := (em_wrapped k)(obj := None)\<rparr>
           in case GetSubscriberByWrapper_em wrapper of
                None \<Rightarrow> Some (c, s, k0)
              | Some b \<Rightarrow>
                  (let (c1, s1, k1) =
                         (case ah_gc H b of
                            Some h \<Rightarrow> h (c, s, k0)
                          | None \<Rightarrow> snd (UnSubscribeCommonEvent_mgr (capi_ops X) (Some b) (c, s, k0)))
                   in map_option (\<lambda>k2. (c1, s1, k2)) (NapiDeleteSubscribe_em b k1)))))"

end
