(* ===== verification/Manager_Props.thy ===== *)
theory Manager_Props
  imports Manager_Module Napi_Props
begin

text \<open>
  What the interface \<open>@ohos.commonEventManager\<close> promises: it reads arguments as the older module does,
  a call throws and changes nothing or queues one work, and an ordered event is answered with what
  the application decided.
\<close>

section \<open>The two modules read alike\<close>

definition accepted :: "'a parsed \<Rightarrow> 'a option" where
  "accepted p = (case p of Inr x \<Rightarrow> Some x | Inl _ \<Rightarrow> None)"

lemma accepted_simps [simp]:
  "accepted (Inr x) = Some x" "accepted (Inl e) = None" "accepted (refuse m) = None" "accepted (wrong_type t) = None"
  "accepted over_size = None"
  by (simp_all add: accepted_def refuse_def wrong_type_def over_size_def)

lemma accepted_and_then:
  "accepted (and_then p f) = (case accepted p of None \<Rightarrow> None | Some x \<Rightarrow> accepted (f x))"
  by (cases p) simp_all

lemma read_alike:
  "accepted (read_string_em v) = read_string v" "accepted (read_int32_em v) = read_int32 v"
  "accepted (read_bool_em v) = read_bool v"
  by (simp_all add: read_string_em_def read_string_def read_int32_em_def read_int32_def read_bool_em_def read_bool_def
    split: js.split)

lemma strings_alike: "accepted (read_strings_em vs acc) = read_strings vs acc"
  by (induction vs arbitrary: acc) (simp_all add: accepted_and_then read_alike split: option.split)

lemma property_alike:
  assumes "\<And>x. accepted (r x) = r' x"
  shows "accepted (optional_property_em n r v old) = optional_property n r' v old"
  by (simp add: optional_property_em_def optional_property_def assms split: option.split bool.split)

lemma options_alike: "accepted (publish_options_em Y v) = publish_options (em_wrap Y) v"
proof -
  have "accepted (GetBundlenameByPublish_em v x) = GetBundlenameByPublish v x" for x
    unfolding GetBundlenameByPublish_em_def GetBundlenameByPublish_def by (rule property_alike) (rule read_alike)
  moreover have "accepted (GetDataByPublish_em v x) = GetDataByPublish v x" for x
    unfolding GetDataByPublish_em_def GetDataByPublish_def by (rule property_alike) (simp add: Let_def split: js.split)
  moreover have "accepted (GetCodeByPublish_em v x) = GetCodeByPublish v x" for x
    unfolding GetCodeByPublish_em_def GetCodeByPublish_def by (rule property_alike) (rule read_alike)
  moreover have "accepted (GetSubscriberPermissionsByPublish_em v x) = GetSubscriberPermissionsByPublish v x" for x
    unfolding GetSubscriberPermissionsByPublish_em_def GetSubscriberPermissionsByPublish_def
    by (rule property_alike) (simp add: strings_alike split: js.split)
  moreover have "accepted (GetIsOrderedByPublish_em v x) = GetIsOrderedByPublish v x" for x
    unfolding GetIsOrderedByPublish_em_def GetIsOrderedByPublish_def by (rule property_alike) (rule read_alike)
  moreover have "accepted (GetIsStickyByPublish_em v x) = GetIsStickyByPublish v x" for x
    unfolding GetIsStickyByPublish_em_def GetIsStickyByPublish_def by (rule property_alike) (rule read_alike)
  moreover have "accepted (GetParametersByPublish_em Y v x) = GetParametersByPublish (em_wrap Y) v x" for x
    unfolding GetParametersByPublish_em_def GetParametersByPublish_def by (rule property_alike) (simp split: option.split)
  ultimately show ?thesis
    by (simp add: publish_options_em_def publish_options_def accepted_and_then Let_def split: option.split)
qed

lemma function_alike: "accepted (function_argument args i) = (case argv args i of JsFunction f \<Rightarrow> Some f | _ \<Rightarrow> None)"
  by (simp add: function_argument_def split: js.split)

lemma callback_alike: "accepted (parse_callback_em n i args) = parse_callback n i args"
  by (simp add: parse_callback_em_def parse_callback_def split: js.split)


section \<open>A call throws or queues one work\<close>

datatype em_method = MethodGetSubscribeInfo | MethodIsOrdered | MethodIsSticky | MethodGetCode | MethodSetCode
  | MethodGetData | MethodSetData | MethodSetCodeAndData | MethodAbort | MethodClearAbort | MethodGetAbort | MethodFinish

datatype em_call = CallMethod em_method js | CallCreate | CallSubscribe | CallSubscribeToEvent | CallUnsubscribe
  | CallPublish | CallPublishAsUser | CallRemoveSticky | CallSetStatic

fun method_exec :: "bool \<Rightarrow> em_method \<Rightarrow> js \<Rightarrow> js list \<Rightarrow> em_state \<Rightarrow> em_outcome \<times> em_state" where
  "method_exec ok MethodGetSubscribeInfo = GetSubscribeInfo_em ok"
| "method_exec ok MethodIsOrdered = IsOrderedCommonEvent_em ok"
| "method_exec ok MethodIsSticky = IsStickyCommonEvent_em ok"
| "method_exec ok MethodGetCode = GetCode_em ok"
| "method_exec ok MethodSetCode = SetCode_em ok"
| "method_exec ok MethodGetData = GetData_em ok"
| "method_exec ok MethodSetData = SetData_em ok"
| "method_exec ok MethodSetCodeAndData = SetCodeAndData_em ok"
| "method_exec ok MethodAbort = AbortCommonEvent_em ok"
| "method_exec ok MethodClearAbort = ClearAbortCommonEvent_em ok"
| "method_exec ok MethodGetAbort = GetAbortCommonEvent_em ok"
| "method_exec ok MethodFinish = FinishCommonEvent_em ok"

fun em_exec :: "em_lib \<Rightarrow> bool \<Rightarrow> em_call \<Rightarrow> js list \<Rightarrow> em_state \<Rightarrow> em_outcome \<times> em_state" where
  "em_exec Y ok (CallMethod m thisVar) args = method_exec ok m thisVar args"
| "em_exec Y ok CallCreate args = CreateSubscriber_em ok args"
| "em_exec Y ok CallSubscribe args = Subscribe_em ok args"
| "em_exec Y ok CallSubscribeToEvent args = SubscribeToEvent ok args"
| "em_exec Y ok CallUnsubscribe args = Unsubscribe_em ok args"
| "em_exec Y ok CallPublish args = Publish_em Y ok args"
| "em_exec Y ok CallPublishAsUser args = PublishAsUser_em Y ok args"
| "em_exec Y ok CallRemoveSticky args = RemoveStickyCommonEvent_em Y ok True args"
| "em_exec Y ok CallSetStatic args = OnSetStaticSubscriberState Y args"

text \<open>A refusal of arguments: nothing, an exception of the runtime, or the code 401.\<close>

definition param_error :: "js_error \<Rightarrow> bool" where
  "param_error e \<longleftrightarrow> e = RuntimeError \<or> (\<exists>msg. e = JsError ERR_NOTIFICATION_CES_COMMON_PARAM_INVALID (''Parameter error.'' @ msg))"

definition refusal :: "js_error option \<Rightarrow> bool" where
  "refusal x \<longleftrightarrow> (\<forall>e. x = Some e \<longrightarrow> param_error e)"

definition well_refused :: "'a parsed \<Rightarrow> bool" where
  "well_refused p \<longleftrightarrow> (\<forall>x. p = Inl x \<longrightarrow> refusal x)"

lemma param_error_text [simp]: "error_text ERR_NOTIFICATION_CES_COMMON_PARAM_INVALID = ''Parameter error.''"
  by (simp add: error_text_def ErrorCodeToMsg_def err_consts)

lemma param_error_thrown [simp]:
  "param_error (NapiThrow_msg ERR_NOTIFICATION_CES_COMMON_PARAM_INVALID msg)"
  "param_error (NapiThrow ERR_NOTIFICATION_CES_COMMON_PARAM_INVALID)" "param_error RuntimeError"
  by (simp_all add: param_error_def NapiThrow_msg_def NapiThrow_def)

lemma well_refused_simps [simp]:
  "well_refused (Inr x)" "well_refused (refuse m)" "well_refused (wrong_type t)" "well_refused over_size"
  "well_refused (Inl None)" "well_refused (Inl (Some RuntimeError))"
  by (simp_all add: well_refused_def refusal_def refuse_def wrong_type_def over_size_def)

lemma well_refused_and_then [intro!]:
  "well_refused p \<Longrightarrow> (\<And>x. well_refused (f x)) \<Longrightarrow> well_refused (and_then p f)"
  by (cases p) (auto simp: well_refused_def)

lemma well_refused_property:
  "(\<And>x. well_refused (r x)) \<Longrightarrow> well_refused (optional_property_em n r v old)"
  by (simp add: optional_property_em_def split: option.split bool.split)

lemma well_refused_reads [simp]:
  "well_refused (read_string_em v)" "well_refused (read_int32_em v)" "well_refused (read_bool_em v)"
  "well_refused (function_argument args i)" "well_refused (parse_callback_em n i args)"
  by (simp_all add: read_string_em_def read_int32_em_def read_bool_em_def function_argument_def parse_callback_em_def
    split: js.split)

lemma well_refused_strings [simp]: "well_refused (read_strings_em vs acc)"
  by (induction vs arbitrary: acc) auto

lemma well_refused_unwrap [simp]: "well_refused (unwrap_strings Y vs acc)"
  by (induction vs arbitrary: acc) (auto split: option.split)

lemma well_refused_options [simp]: "well_refused (publish_options_em Y v)"
  unfolding publish_options_em_def Let_def GetBundlenameByPublish_em_def GetDataByPublish_em_def GetCodeByPublish_em_def
    GetSubscriberPermissionsByPublish_em_def GetIsOrderedByPublish_em_def GetIsStickyByPublish_em_def GetParametersByPublish_em_def
  by (intro well_refused_and_then well_refused_property) (auto split: js.split option.split)

text \<open>What a queued work looks like when the call returns.\<close>

definition queued_one :: "em_state \<Rightarrow> js \<Rightarrow> em_state \<Rightarrow> bool" where
  "queued_one k v k1 \<longleftrightarrow>
     (\<exists>w body info. em_works k1 = em_works k @ [(w, \<lparr>ek_body = body, ek_info = info, ek_value = JsNull, ek_executed = False\<rparr>)] \<and>
        em_next k \<le> w \<and> em_next k1 = w + 1 \<and> ei_errorCode info = ERR_OK \<and>
        em_log k1 = em_log k \<and> em_instances k1 = em_instances k \<and> em_wrapped k1 = em_wrapped k \<and> em_events k1 = em_events k \<and>
        (if ei_isCallback info
         then v \<in> {JsNull, JsUndefined} \<and> (\<forall>r. ei_callback info = Some r \<longrightarrow> (\<exists>f. em_refs k1 r = Some (JsFunction f)))
         else \<exists>p. ei_deferred info = Some p \<and> v = JsPromise p))"

definition throws_or_queues :: "em_state \<Rightarrow> em_outcome \<times> em_state \<Rightarrow> bool" where
  "throws_or_queues k r \<longleftrightarrow>
     (case r of (Threw e, k1) \<Rightarrow> k1 = k \<and> param_error e
      | (Gave v, k1) \<Rightarrow> (v = JsNull \<and> k1 = k) \<or> queued_one k v k1)"

lemma throws_or_queues_simps [simp]: "throws_or_queues k (Gave JsNull, k)" "throws_or_queues k (Threw e, k) = param_error e"
  by (simp_all add: throws_or_queues_def)

lemma parsed_throws_or_queues:
  assumes "well_refused p" and "\<And>x. throws_or_queues k (f x)"
  shows "throws_or_queues k (parsed_or_throw p k f)"
  using assms
  by (cases p) (auto simp: parsed_or_throw_def well_refused_def refusal_def split: option.split)

lemma throws_or_queues_queued: "queued_one k v k1 \<Longrightarrow> throws_or_queues k (Gave v, k1)"
  by (simp add: throws_or_queues_def)

lemmas queue_defs = queued_one_def queue_work_em_def new_callback_reference_def new_reference_def
  padding_em_def callback_info_em_def Let_def

lemma start_queues:
  "throws_or_queues k (start_method_em ok thisVar callback (padding_em flag) body k)"
  unfolding start_method_em_def by (auto simp: queue_defs intro!: throws_or_queues_queued split: option.split)

lemma well_refused_parsers [simp]:
  "well_refused (ParseParametersBySetCode_em args)" "well_refused (ParseParametersBySetData_em args)"
  "well_refused (ParseParametersBySetCodeAndData_em args)" "well_refused (ParseParametersByCreateSubscriber_em args)"
  "well_refused (ParseParametersBySubscribe_em k args)" "well_refused (ParseParametersByUnsubscribe_em k args)"
  "well_refused (ParseParametersByPublish_em Y args)" "well_refused (ParseParametersByPublishAsUser_em Y args)"
  "well_refused (ParseParametersByRemoveSticky Y args)" "well_refused (ParseSetStaticSubscriberStateParam Y args)"
  by (auto simp: ParseParametersBySetCode_em_def ParseParametersBySetData_em_def ParseParametersBySetCodeAndData_em_def
    ParseParametersByCreateSubscriber_em_def ParseParametersBySubscribe_em_def ParseParametersByUnsubscribe_em_def
    ParseParametersByPublish_em_def ParseParametersByPublishAsUser_em_def ParseParametersByRemoveSticky_def
    ParseSetStaticSubscriberStateParam_def Let_def split: js.split option.split)


section \<open>An ordered event\<close>

text \<open>No work has a number from \<open>em_next\<close> on.\<close>

definition em_ok :: "em_state \<Rightarrow> bool" where
  "em_ok k \<longleftrightarrow> (\<forall>w \<in> fst ` set (em_works k). w < em_next k)"

lemma em_ok_fresh: "em_ok k \<Longrightarrow> em_next k \<le> n \<Longrightarrow> map_of (em_works k) n = None"
  unfolding em_ok_def map_of_eq_None_iff by fastforce

lemma run_queued_em:
  assumes "em_ok k" and "em_next k \<le> em_next k1" and "em_works k1 = em_works k"
    and "execute_body_em H X body (c, s, queue_work_em body info k1) = (errorCode, v, c1, s1, queue_work_em body info k1)"
  shows "run_complete_em Y X okw oks (em_next k1) (run_execute_em H X (em_next k1) (c, s, queue_work_em body info k1)) =
    complete_body_em Y X okw oks body (info\<lparr>ei_errorCode := errorCode\<rparr>) v (c1, s1, k1\<lparr>em_next := em_next k1 + 1\<rparr>)"
proof -
  let ?w1 = "\<lparr>ek_body = body, ek_info = info\<lparr>ei_errorCode := errorCode\<rparr>, ek_value = v, ek_executed = True\<rparr>"
  have fresh: "map_of (em_works k1) (em_next k1) = None"
    using em_ok_fresh [OF assms(1,2)] assms(3) by simp
  have works: "em_works (queue_work_em body info k1) = em_works k1 @ [(em_next k1,
      \<lparr>ek_body = body, ek_info = info, ek_value = JsNull, ek_executed = False\<rparr>)]"
    by (simp add: queue_work_em_def)
  have "run_execute_em H X (em_next k1) (c, s, queue_work_em body info k1) =
      (c1, s1, k1\<lparr>em_works := em_works k1 @ [(em_next k1, ?w1)], em_next := em_next k1 + 1\<rparr>)"
    using assms(4)
    by (simp add: run_execute_em_def works last_entry [OF fresh] del: map_of_append)
      (simp add: queue_work_em_def last_entry [OF fresh])
  then show ?thesis
    by (simp add: run_complete_em_def last_entry [OF fresh] del: map_of_append)
qed

text \<open>The calls of an application that change the result, on the object of the subscriber, at once.\<close>

fun sync_call :: "em_state \<Rightarrow> js \<Rightarrow> subscriber_call \<Rightarrow> client_state \<Rightarrow> em_outcome \<times> client_state" where
  "sync_call k v (CallSetCode i) = SetCodeSync k v [JsNumber i]"
| "sync_call k v (CallSetData t) = SetDataSync k v [JsString t]"
| "sync_call k v (CallSetCodeAndData i t) = SetCodeAndDataSync k v [JsNumber i, JsString t]"
| "sync_call k v CallAbort = AbortCommonEventSync k v"
| "sync_call k v CallClearAbort = ClearAbortCommonEventSync k v"
| "sync_call k v CallGoAsync = GetCodeSync k v"

definition sync_calls :: "em_state \<Rightarrow> js \<Rightarrow> subscriber_call list \<Rightarrow> client_state \<Rightarrow> client_state" where
  "sync_calls k v xs c = foldl (\<lambda>c x. snd (sync_call k v x c)) c xs"

text \<open>Values that reach the service unchanged.\<close>

fun plain_call :: "subscriber_call \<Rightarrow> bool" where
  "plain_call (CallSetCode i) \<longleftrightarrow> - (2 ^ 31) \<le> i \<and> i < 2 ^ 31"
| "plain_call (CallSetData t) \<longleftrightarrow> length t < 65536 \<and> CHR 0x00 \<notin> set t"
| "plain_call (CallSetCodeAndData i t) \<longleftrightarrow> - (2 ^ 31) \<le> i \<and> i < 2 ^ 31 \<and> length t < 65536 \<and> CHR 0x00 \<notin> set t"
| "plain_call CallGoAsync \<longleftrightarrow> False"
| "plain_call _ \<longleftrightarrow> True"

lemma change_em_kept: "GetAsyncResult_em k b = Some r \<Longrightarrow> snd (change_em f k b c) = upd_result r (\<lambda>_. snd (f (cc_results c r))) c"
  by (simp add: change_em_def split: prod.split)

lemma sync_call_setter:
  assumes "GetSubscriber_em k v = Some b" and "GetAsyncResult_em k b = Some r" and "plain_call x"
  shows "sync_call k v x c = (Gave JsNull, upd_result r (\<lambda>_. snd (setter x (cc_results c r))) c)"
  using assms
  by (cases x) (simp_all add: SetCodeSync_def SetDataSync_def SetCodeAndDataSync_def AbortCommonEventSync_def
    ClearAbortCommonEventSync_def sync_method_def argv_def change_em_kept int32_in_range napi_copied_def STR_DATA_MAX_SIZE_def
    c_str_plain Let_def)

lemma sync_calls_kept:
  assumes "GetSubscriber_em k v = Some b" and "GetAsyncResult_em k b = Some r" and "kept b r l a c" and "list_all plain_call xs"
  shows "kept b r l (answer_of xs a) (sync_calls k v xs c)"
  using assms(3,4)
proof (induction xs arbitrary: c a)
  case (Cons x xs)
  obtain ok y where y: "setter x (cc_results c r) = (ok, y)" by fastforce
  have x: "x \<noteq> CallGoAsync" using Cons.prems(2) by auto
  have "kept b r l (answer_of [x] a) (upd_result r (\<lambda>_. y) c)" using kept_setter [OF Cons.prems(1) x y] by blast
  then have "kept b r l (answer_of xs (answer_of [x] a)) (sync_calls k v xs (upd_result r (\<lambda>_. y) c))"
    using Cons.IH [of "answer_of [x] a" "upd_result r (\<lambda>_. y) c"] Cons.prems(2) by (metis list.pred_inject(2))
  moreover have "sync_calls k v (x # xs) c = sync_calls k v xs (upd_result r (\<lambda>_. y) c)"
    using sync_call_setter [OF assms(1,2), of x c] Cons.prems(2) y by (simp add: sync_calls_def)
  ultimately show ?case using answer_of_Cons [OF x, of xs a] by metis
qed (simp add: sync_calls_def)

lemma finish_executes_em:
  assumes "GetAsyncResult_em k b = Some r" and "FinishCommonEvent (capi_ops X) r (c, s, k) = (ok, c1, s1, k)"
  shows "execute_body_em H X (EmFinish b) (c, s, k) = (if ok then ERR_OK else ERR_CES_FAILED_em, JsNull, c1, s1, k)"
  using assms by (simp add: Finish_em_def without_value_def)

text \<open>The function of a subscription gets the event alone if it subscribed with \<open>subscribeToEvent\<close>,
  otherwise after a null error.\<close>

definition event_arguments :: "bool \<Rightarrow> js \<Rightarrow> js list" where
  "event_arguments new e = (if new then [e] else [JsNull, e])"

text \<open>C27: An ordered event reaches an application that uses \<open>commonEventManager\<close>, and the promise of
  \<open>finishCommonEvent\<close> tells what became of its answer.  Let a subscriber, made in JavaScript, have
  subscribed with the function \<open>f\<close>.  When its listener delivers an ordered event, nothing is sent, and
  the next turn of the thread of JavaScript calls \<open>f\<close> once with the event.  Any sequence of the methods
  that change the result at once, with values within the limits of the interface, sends nothing.
  Then \<open>finishCommonEvent\<close> returns a promise; when its work has run, the one answer of this listener
  has been sent, with the code, data and abort flag that the calls make of the event's, and the promise
  is resolved if the service took it and rejected with the code 1 if not.\<close>

theorem manager_ordered_event:
  assumes "ln_subscriber (cc_listeners c l) = Some b" and "ln_alive (cc_listeners c l)"
    and "map_of (em_instances k) b = Some i" and "ah_clone H b = None" and "sm_tsfn (em_subs k b)" and "sm_ref (em_subs k b) = Some p"
    and "em_refs k p = Some (JsFunction f)" and "em_events k = []" and "em_ok k" and "GetSubscriber_em k v = Some b"
    and "list_all plain_call xs" and "answer_of xs (cd_code d, cd_data d, False) = (code, str, ab)"
    and "FinishReceiver_client X (Some l) code str ab s = (sent, s1)"
  shows "\<exists>c1 k1 k2 c2 k3. OnReceiveEvent (capi_ops X) (SubscriberInstance_OnReceiveEvent_em H True b d) l d True sticky (c, s, k) = (c1, s, k1) \<and>
    ThreadSafeCallback_em Y True k1 = Some k2 \<and>
    em_log k2 = em_log k @ [EmCall f (event_arguments (sm_isNewVersion (em_subs k b)) (SetCommonEventData_em Y d (JsObject [])))] \<and>
    em_next k2 = em_next k \<and>
    FinishCommonEvent_em True v [] k2 = (Gave (JsPromise (em_next k)), k3) \<and>
    (\<exists>k4. run_complete_em Y X True True (em_next k + 1)
        (run_execute_em H X (em_next k + 1) (sync_calls k2 v xs c1, s, k3)) = Some (c2, s1, k4) \<and>
      em_log k4 = em_log k2 @ [if sent then EmResolve (em_next k) JsNull
        else EmReject (em_next k) (GetCallbackErrorValue_em Y ERR_CES_FAILED_em)])"
proof -
  let ?c = "callback_state l b d True sticky c" and ?r = "cc_next c" and ?n = "em_next k"
  obtain c1 where c1: "GoAsyncCommonEvent b ?c = (Some ?r, c1)" "kept b ?r l (cd_code d, cd_data d, False) c1"
    using kept_start [OF assms(2), of b d sticky] by blast
  let ?e = "event_arguments (sm_isNewVersion (em_subs k b)) (SetCommonEventData_em Y d (JsObject []))"
  let ?k1 = "k\<lparr>em_instances := omap_put b (i\<lparr>sii_commonEventResult := Some ?r\<rparr>) (em_instances k), em_events := [(b, d)]\<rparr>"
  let ?k2 = "?k1\<lparr>em_events := [], em_log := em_log k @ [EmCall f ?e]\<rparr>"
  let ?info = "\<lparr>ei_callback = None, ei_deferred = Some ?n, ei_isCallback = False, ei_errorCode = ERR_OK\<rparr>"
  let ?k2' = "?k2\<lparr>em_next := ?n + 1\<rparr>"
  let ?k3 = "queue_work_em (EmFinish b) ?info ?k2'"
  have "SubscriberInstance_OnReceiveEvent_em H True b d (?c, s, k) = (c1, s, ?k1)"
    using assms(3-5,8) c1(1) callback_state_ordered [of l b d sticky c]
    by (simp add: SubscriberInstance_OnReceiveEvent_em_def Let_def)
  then have deliver: "OnReceiveEvent (capi_ops X) (SubscriberInstance_OnReceiveEvent_em H True b d) l d True sticky (c, s, k) = (c1, s, ?k1)"
    by (rule kept_not_finished [OF assms(1) _ c1(2)])
  have js: "ThreadSafeCallback_em Y True ?k1 = Some ?k2"
    using assms(6,7) by (simp add: ThreadSafeCallback_em_def log_em_def DealCallbackForSubscribe_def DealCallbackForSubscribeToEvent_def
      GetCallbackErrorValue_em_def event_arguments_def)
  have res: "GetAsyncResult_em ?k2 b = Some ?r" "GetAsyncResult_em ?k3 b = Some ?r"
    by (simp_all add: GetAsyncResult_em_def map_of_omap_put queue_work_em_def)
  have sub: "GetSubscriber_em ?k2 v = Some b" using assms(10) by (simp add: GetSubscriber_em_def split: js.splits option.splits)
  have fin: "FinishCommonEvent_em True v [] ?k2 = (Gave (JsPromise ?n), ?k3)"
    using sub by (simp add: FinishCommonEvent_em_def ParseParametersByFinish_em_def parse_callback_em_def FINISH_MAX_PARA_def
      parsed_or_throw_def start_method_em_def new_callback_reference_def padding_em_defs padding_em_def Let_def)
  have "kept b ?r l (code, str, ab) (sync_calls ?k2 v xs c1)"
    using sync_calls_kept [OF sub res(1) c1(2) assms(11)] assms(12) by simp
  from kept_finish [OF this, of X s ?k3] obtain c2
    where "FinishCommonEvent (capi_ops X) ?r (sync_calls ?k2 v xs c1, s, ?k3) = (sent, c2, s1, ?k3)"
    using assms(13) by auto
  from finish_executes_em [OF res(2) this]
  have "execute_body_em H X (EmFinish b) (sync_calls ?k2 v xs c1, s, ?k3) = (if sent then ERR_OK else ERR_CES_FAILED_em, JsNull, c2, s1, ?k3)" .
  from run_queued_em [OF _ _ _ this, of ?k2 Y True True]
  have run: "run_complete_em Y X True True (?n + 1) (run_execute_em H X (?n + 1) (sync_calls ?k2 v xs c1, s, ?k3)) =
      complete_body_em Y X True True (EmFinish b) (?info\<lparr>ei_errorCode := if sent then ERR_OK else ERR_CES_FAILED_em\<rparr>) JsNull
        (c2, s1, ?k2'\<lparr>em_next := ?n + 1 + 1\<rparr>)"
    using assms(9) by (simp add: em_ok_def del: complete_body_em.simps split del: if_split)
  have "\<exists>k4. run_complete_em Y X True True (?n + 1) (run_execute_em H X (?n + 1) (sync_calls ?k2 v xs c1, s, ?k3)) = Some (c2, s1, k4) \<and>
      em_log k4 = em_log ?k2 @ [if sent then EmResolve ?n JsNull else EmReject ?n (GetCallbackErrorValue_em Y ERR_CES_FAILED_em)]"
    unfolding run by (simp add: method_complete_em_def ReturnCallbackPromise_em_def SetPromise_em_def log_em_def
      drop_reference_def ERR_CES_FAILED_em_def)
  moreover have "em_log ?k2 = em_log k @ [EmCall f ?e]" "em_next ?k2 = ?n" by simp_all
  ultimately show ?thesis using deliver js fin by blast
qed

section \<open>A module to apply the properties to\<close>

definition demo_hooks :: "demo ani_hooks" where
  "demo_hooks = \<lparr>ah_subscribe = (\<lambda>_. None), ah_unsubscribe = (\<lambda>_. None), ah_gc = (\<lambda>_. None), ah_clone = (\<lambda>_. None)\<rparr>"

definition demo_lib :: em_lib where
  "demo_lib = \<lparr>em_wrap = demo_wrap, em_number = (\<lambda>_. 0), em_int64 = (\<lambda>n. n),
     em_string = (\<lambda>v. case v of JsString s \<Rightarrow> Some s | _ \<Rightarrow> None)\<rparr>"

definition demo_em :: em_state where
  "demo_em = CommonEventSubscriberInit \<lparr>em_constructor = False, em_refs = (\<lambda>_. None), em_wrapped = (\<lambda>_. None),
     em_subs = (\<lambda>_. \<lparr>sm_env = False, sm_ref = None, sm_tsfn = False, sm_isNewVersion = False\<rparr>), em_instances = [],
     em_works = [], em_events = [], em_log = [], em_next = 0\<rparr>"

text \<open>The object 0 with the subscriber 1, which subscribes with \<open>subscribeToEvent\<close> and the function 77; the
  promise is 3, its work 4.\<close>

definition demo_em_subscribed :: "demo em_world" where
  "demo_em_subscribed =
     (case CreateSubscriberSync True True [JsObject [(''events'', JsArray [JsString ''e''])]] (demo_client, demo_em) of
        (v, c, k) \<Rightarrow>
          (case run_complete_em demo_lib demo_service True True 4 (run_execute_em demo_hooks demo_service 4
                  (c, (True, [], []), snd (SubscribeToEvent True [JsInstance 0, JsFunction 77] k))) of
             Some cs \<Rightarrow> cs | None \<Rightarrow> (c, (True, [], []), k)))"

lemma demo_em_state:
  "ln_subscriber (cc_listeners (fst demo_em_subscribed) 0) = Some 1 \<and> ln_alive (cc_listeners (fst demo_em_subscribed) 0) \<and>
   map_of (em_instances (snd (snd demo_em_subscribed))) 1 = Some \<lparr>sii_asyncCallbackInfo = [None], sii_commonEventResult = None\<rparr> \<and>
   em_subs (snd (snd demo_em_subscribed)) 1 = \<lparr>sm_env = False, sm_ref = Some 2, sm_tsfn = True, sm_isNewVersion = True\<rparr> \<and>
   em_refs (snd (snd demo_em_subscribed)) 2 = Some (JsFunction 77) \<and> em_events (snd (snd demo_em_subscribed)) = [] \<and>
   em_works (snd (snd demo_em_subscribed)) = [] \<and> em_next (snd (snd demo_em_subscribed)) = 5 \<and>
   GetSubscriber_em (snd (snd demo_em_subscribed)) (JsInstance 0) = Some 1 \<and>
   em_log (snd (snd demo_em_subscribed)) = [EmResolve 3 JsNull] \<and> fst (snd demo_em_subscribed) = (True, [Some 0], [])"
  by code_simp

theorem manager_ordered_event_instance:
  "\<exists>c1 k1 k2 c2 k3 k4. OnReceiveEvent (capi_ops demo_service) (SubscriberInstance_OnReceiveEvent_em demo_hooks True 1 demo_event)
       0 demo_event True False demo_em_subscribed = (c1, (True, [Some 0], []), k1) \<and>
     ThreadSafeCallback_em demo_lib True k1 = Some k2 \<and>
     em_log k2 = [EmResolve 3 JsNull, EmCall 77 [SetCommonEventData_em demo_lib demo_event (JsObject [])]] \<and>
     FinishCommonEvent_em True (JsInstance 0) [] k2 = (Gave (JsPromise 5), k3) \<and>
     run_complete_em demo_lib demo_service True True 6 (run_execute_em demo_hooks demo_service 6
       (sync_calls k2 (JsInstance 0) [CallSetCode 7, CallAbort] c1, (True, [Some 0], []), k3)) =
       Some (c2, (True, [Some 0], [(Some 0, 7, ''x'', True)]), k4) \<and>
     em_log k4 = em_log k2 @ [EmResolve 5 JsNull]"
proof -
  obtain c s k where d: "demo_em_subscribed = (c, s, k)" by (cases demo_em_subscribed)
  note sub = demo_em_state [unfolded d fst_conv snd_conv]
  have s: "s = (True, [Some 0], [])" using sub by blast
  have f: "FinishReceiver_client demo_service (Some 0) 7 ''x'' True s = (True, (True, [Some 0], [(Some 0, 7, ''x'', True)]))"
    by (simp add: s FinishReceiver_client_def GetCommonEventProxy_def ok_or_def demo_service_def)
  have a: "answer_of [CallSetCode 7, CallAbort] (cd_code demo_event, cd_data demo_event, False) = (7, ''x'', True)"
    by (simp add: demo_event_def)
  have k: "em_ok k" "em_next k = 5" "sm_isNewVersion (em_subs k 1)" "em_log k = [EmResolve 3 JsNull]" "ah_clone demo_hooks 1 = None"
    using sub by (simp_all add: em_ok_def demo_hooks_def)
  have "\<exists>c1 k1 k2 c2 k3. OnReceiveEvent (capi_ops demo_service) (SubscriberInstance_OnReceiveEvent_em demo_hooks True 1 demo_event)
      0 demo_event True False (c, s, k) = (c1, s, k1) \<and>
    ThreadSafeCallback_em demo_lib True k1 = Some k2 \<and>
    em_log k2 = em_log k @ [EmCall 77 (event_arguments (sm_isNewVersion (em_subs k 1)) (SetCommonEventData_em demo_lib demo_event (JsObject [])))] \<and>
    em_next k2 = em_next k \<and>
    FinishCommonEvent_em True (JsInstance 0) [] k2 = (Gave (JsPromise (em_next k)), k3) \<and>
    (\<exists>k4. run_complete_em demo_lib demo_service True True (em_next k + 1)
        (run_execute_em demo_hooks demo_service (em_next k + 1) (sync_calls k2 (JsInstance 0) [CallSetCode 7, CallAbort] c1, s, k3)) =
          Some (c2, (True, [Some 0], [(Some 0, 7, ''x'', True)]), k4) \<and>
      em_log k4 = em_log k2 @ [if True then EmResolve (em_next k) JsNull
        else EmReject (em_next k) (GetCallbackErrorValue_em demo_lib ERR_CES_FAILED_em)])"
    using sub k(5) by (intro manager_ordered_event [OF _ _ _ _ _ _ _ _ k(1) _ _ a f, where i = "\<lparr>sii_asyncCallbackInfo = [None], sii_commonEventResult = None\<rparr>" and p = 2]) simp_all
  then show ?thesis unfolding d by (simp add: k k(3) [unfolded One_nat_def] event_arguments_def s) blast
qed

section \<open>Where the module loses something\<close>

text \<open>Data is still read into a buffer that it can never overflow: it is cut off, and the checks of its
  length never fail.\<close>

lemma data_is_cut_off_em:
  "ParseParametersBySetData_em [JsString t] = Inr (c_str (take 65535 t), None)"
  "ParseParametersBySetCodeAndData_em [JsNumber n, JsString t] = Inr (napi_get_value_int32 n, c_str (take 65535 t), None)"
  "GetSubscriber_em k v = Some b \<Longrightarrow>
     SetDataSync k v [JsString t] c = (Gave JsNull, snd (change_em (SetData_result (c_str (take 65535 t))) k b c))"
  by (simp_all add: ParseParametersBySetData_em_def ParseParametersBySetCodeAndData_em_def SetDataSync_def argv_def napi_sizes
    napi_copied_def parse_callback_em_def Let_def)

text \<open>A truth value is the name of a sticky event.\<close>

lemma sticky_event_of_a_truth_value:
  "ParseParametersByRemoveSticky Y [JsBool True] = Inr (''1'', None)"
  "ParseParametersByRemoveSticky Y [JsBool False] = Inr (''0'', None)"
  by (simp_all add: ParseParametersByRemoveSticky_def REMOVE_STICKY_MAX_PARA_def argv_def) code_simp+

text \<open>A code that is not a number is refused with a text that asks for a function.\<close>

lemma code_asks_for_a_function:
  "ParseParametersBySetCodeAndData_em [JsString ''x'', JsString ''y''] = wrong_type ''function''"
  by (simp add: ParseParametersBySetCodeAndData_em_def argv_def)

text \<open>The reference to the callback of \<open>removeStickyCommonEvent\<close> stays when the runtime does not take the
  work.\<close>

lemma refused_work_leaks:
  "RemoveStickyCommonEvent_em Y True False [JsString ''e'', JsFunction f] k =
     (Gave JsNull, k\<lparr>em_refs := (em_refs k)(em_next k := Some (JsFunction f)), em_next := em_next k + 1\<rparr>)"
  by (simp add: RemoveStickyCommonEvent_em_def ParseParametersByRemoveSticky_def REMOVE_STICKY_MAX_PARA_def argv_def
    parsed_or_throw_def new_callback_reference_def new_reference_def PaddingCallbackPromiseInfo_def padding_em_def Let_def)

text \<open>A subscriber that has once subscribed with \<open>subscribeToEvent\<close> calls the function of a later
  \<open>subscribe\<close> in the same way, with the event in the place of the error.\<close>

lemma calling_convention_stays:
  "sm_isNewVersion (em_subs k b) \<Longrightarrow> sm_isNewVersion (em_subs (snd (Subscribe_em ok args k)) b)"
  by (auto simp: Subscribe_em_def parsed_or_throw_def SetCallbackRef_em_def SetEnv_em_def SetThreadSafeFunction_em_def
    upd_sub_em_def queue_work_em_def new_reference_def Let_def split: sum.split option.split)

text \<open>\<open>subscribeToEvent\<close> does not set the runtime of its subscriber.  So neither a refusal nor the
  unsubscription deletes the reference to its function, and the unsubscription does not release the
  thread-safe function.\<close>

lemma subscription_to_event_leaks:
  assumes "\<not> sm_env (em_subs k b)"
  shows "\<not> sm_env (em_subs (snd (SubscribeToEvent ok args k)) b)"
    "AsyncCompleteCallbackSubscribeToEvent Y b info k = Some k1 \<Longrightarrow> em_refs k1 = em_refs k"
    "NapiDeleteSubscribe_em b k = Some k1 \<Longrightarrow> em_refs k1 = em_refs k \<and> sm_tsfn (em_subs k1 b) = sm_tsfn (em_subs k b)"
  using assms
  by (auto simp: SubscribeToEvent_def AsyncCompleteCallbackSubscribeToEvent_def NapiDeleteSubscribe_em_def
    ReleaseThreadSafeFunction_def SetPromise_em_def log_em_def add_instance_def parsed_or_throw_def SetCallbackRef_em_def
    SetIsNewVersion_def SetThreadSafeFunction_em_def upd_sub_em_def queue_work_em_def padding_em_def new_reference_def Let_def
    split: sum.split option.splits if_splits)

text \<open>A refused second subscription leaves the subscriber with a deleted reference, as in the older
  module.\<close>

lemma failed_resubscribe_dangles_em:
  assumes "AsyncCompleteCallbackSubscribe Y b info k = Some k1" and "ei_errorCode info \<noteq> ERR_OK"
    and "ei_callback info = Some r" and "sm_ref (em_subs k b) = Some r" and "sm_env (em_subs k b)"
    and "map_of (em_instances k) b = Some i"
  shows "em_refs k1 r = None" "NapiDeleteSubscribe_em b k1 = None"
    "em_events k1 = (b, d) # es \<Longrightarrow> ThreadSafeCallback_em Y True k1 = None"
proof -
  have k1: "em_refs k1 r = None" "sm_ref (em_subs k1 b) = Some r" "sm_env (em_subs k1 b)" "map_of (em_instances k1) b = Some i"
    using assms by (auto simp: AsyncCompleteCallbackSubscribe_def SetCallback_em_def log_em_def drop_reference_def bind_eq_Some_conv
      split: option.splits js.splits if_splits)
  then show "em_refs k1 r = None" by blast
  show "NapiDeleteSubscribe_em b k1 = None" "em_events k1 = (b, d) # es \<Longrightarrow> ThreadSafeCallback_em Y True k1 = None"
    using k1 by (simp_all add: NapiDeleteSubscribe_em_def SetCallbackRef_em_def drop_reference_def ThreadSafeCallback_em_def)
qed

text \<open>A subscriber is forgotten whatever the service said about its unsubscription;
  \<open>UnsubscribeAndRemoveInstance\<close>, which the ArkTS binding calls, keeps it when the service refuses.\<close>

lemma unsubscription_forgets_em:
  assumes "Unsubscribe_complete_em Y b info k = Some k1"
  shows "map_of (em_instances k1) b = None"
  using assms
  by (auto simp: Unsubscribe_complete_em_def NapiDeleteSubscribe_em_def delete_conv' bind_eq_Some_conv split: option.splits if_splits)

end
