(* ===== verification/Spec2Isabelle.thy ===== *)
theory Spec2Isabelle
  imports Subscriber_Props Delivery_Props Unordered_Props Policy_Props Static_Props Publish_Manager
    Service_Props Codec_Props Client_Service Ability_Props Inner_Config
    Dump_Props Command_Tool Capi_Answer Napi_Props Manager_Props
begin

text \<open>
  The common event service of OpenHarmony (\<open>services/\<close>, \<open>frameworks/\<close>): applications
  subscribe to named events and publish them, and a system service decides who receives what, in
  which order and when.  This development models the service and the library through which an
  application talks to it, and proves what they promise; the command line tool, the C interface
  (\<open>interfaces/kits/ndk\<close>) and the JavaScript modules \<open>commonEvent\<close> and \<open>commonEventManager\<close> are
  modelled too.

  \<^bold>\<open>The program.\<close>  A subscriber registers a \<open>CommonEventSubscribeInfo\<close> together with a
  remote object (its listener) in \<open>CommonEventSubscriberManager\<close>; a publisher hands over event
  data and a \<open>CommonEventPublishInfo\<close>.  \<open>CommonEventControlManager\<close> looks up the matching
  subscriber records, asks the checks of the subscriber manager (user, permissions, restrictions of
  either side) which of them may receive the event, and delivers it: unordered events by one task,
  ordered events one receiver after the other, by priority, with a timeout.  Events for a frozen
  process are kept and delivered when it is unfrozen.  In the application, \<open>CommonEvent\<close> keeps a
  table of subscribers with one listener each; a listener runs the application's callback and sends
  the answer to an ordered event.

  \<^bold>\<open>Theories, in the order of the code.\<close>
  \<^item> \<open>CES_Prelude\<close>: integer types, \<open>std::map\<close> and \<open>std::unordered_map\<close> (locale \<open>dict\<close>,
    interpreted for both), \<open>std::set_difference\<close>, \<open>std::to_string\<close>.
  \<^item> \<open>Event_Types\<close>: constants, return codes and the records of \<open>common_event_record.h\<close>,
    \<open>ordered_event_record.h\<close>, \<open>common_event_subscriber_manager.h\<close> and of the inner API classes.
  \<^item> \<open>Matching_Skills\<close> (\<open>matching_skills.cpp\<close>) and \<open>Publish_Info\<close>
    (\<open>common_event_publish_info.cpp\<close>): what a subscription matches, what a publication restricts.
    The restrictions are a 16-bit mask; the locale \<open>subscriber_filter\<close> states what the AND and
    the OR rule over that mask mean.
  \<^item> \<open>Event_Support\<close> (\<open>common_event_support.cpp\<close>): the system events and their registration
    list, in the parts \<open>Init_part1\<close> to \<open>Init_part11\<close> because of its length.
  \<^item> \<open>Environment\<close>: the services outside the repository (access tokens, bundle manager, account
    manager, system parameters, IPC proxies) as the fields of the record \<open>env\<close>, and the helper
    classes over them (\<open>access_token_helper.cpp\<close>, \<open>bundle_manager_helper.cpp\<close>,
    \<open>os_account_manager_helper.cpp\<close>).
  \<^item> \<open>Permission_Manager\<close> (\<open>common_event_permission_manager.cpp\<close>): the permission table.  Its
    iteration order is that of an \<open>unordered_map\<close>, hence a parameter of the initialisation.
  \<^item> \<open>Subscriber_Match\<close>: the \<open>Check\<close> functions of the subscriber manager, composed to
    \<open>accepts\<close>; interpretation of \<open>subscriber_filter\<close>.
  \<^item> \<open>Subscriber_Manager\<close> (\<open>common_event_subscriber_manager.cpp\<close>): the record \<open>sub_state\<close> and all
    operations.  \<open>Subscriber_Invariant\<close>: the index by event and the counts by process stay
    consistent with the list of subscribers.  \<open>Subscriber_Registry\<close>: the abstract registry, a
    map from listeners to records, and how every operation acts on it (refinement); the step
    relation \<open>sub_step\<close>.  \<open>Frozen_Store\<close>: the store of kept events, a locale interpreted for
    the store by uid and the store by pid.
  \<^item> \<open>Control_Manager\<close> (\<open>common_event_control_manager.cpp\<close>): the record \<open>ctl_state\<close> and all
    operations.  \<open>Control_Invariant\<close>, \<open>Control_Steps\<close>, \<open>Unordered_Delivery\<close>: the invariant of
    the queues, the timer and the tasks, and closed forms of what one task does.
    \<open>Control_Protocol\<close>: the step relation \<open>ctl_step\<close> with its reachable states, and the
    termination measure of the manager's own steps.
  \<^item> \<open>Publish_Manager\<close> (\<open>publish_manager.cpp\<close>): the flood limit, equivalent to a reference over
    the history of calls.
  \<^item> \<open>Sticky_Manager\<close> (\<open>common_event_sticky_manager.cpp\<close>): the last sticky event of every name.
  \<^item> \<open>Json_Values\<close>: JSON values as \<open>nlohmann::json\<close> delivers them, \<open>std::from_chars\<close>;
    \<open>Static_Data\<close> (\<open>static_subscriber_data_manager.cpp\<close>): disabled events in a key value store,
    which is the parameter \<open>kv_ops\<close>; \<open>Static_Subscriber\<close> (\<open>static_subscriber_manager.cpp\<close>):
    extensions that are started for an event.  \<open>Static_Invariant\<close>: the invariant of its lists and a
    closed form of one delivery, a second interpretation of \<open>subscriber_filter\<close>;
    \<open>Static_Store\<close>: what querying and updating do to the store.
  \<^item> \<open>Ability_Connections\<close> (\<open>ability_manager_helper.cpp\<close>, \<open>static_subscriber_connection.cpp\<close>):
    how an extension that the static subscriber manager starts gets its events; the arguments of
    its log entries are those of \<open>ConnectAbility_helper\<close>.  \<open>Ability_Props\<close>: the invariant of the
    connections, each a first-in first-out buffer (refinement) that is closed in the end.
  \<^item> \<open>Inner_Manager\<close> (\<open>inner_common_event_manager.cpp\<close>): publication, subscription and the other
    operations composed of the managers; \<open>Manager_Service\<close>
    (\<open>common_event_manager_service.cpp\<close>): the IPC handlers, the service queue and its tasks.
    \<open>Registry_Frame\<close>: the managers' own steps keep the registry and the payloads;
    \<open>Service_Refinement\<close>: the labelled steps \<open>service_step\<close> of the service and the proof that
    each is a sequence of \<open>ctl_step\<close>; \<open>Service_Frame\<close>: who can freeze; \<open>Sticky_Flow\<close>: the
    invariant of the sticky store and what publication and subscription do to it.
    \<open>Inner_Config\<close>: the configuration of allowed publishers, from the files to
    \<open>publishControlMap_\<close>; the file system is the parameter \<open>config_env\<close>.
  \<^item> \<open>Parcel_Codecs\<close> (\<open>matching_skills.cpp\<close>, \<open>common_event_subscribe_info.cpp\<close>,
    \<open>common_event_publish_info.cpp\<close>, \<open>common_event_data.cpp\<close>): how the value classes travel.  The
    parcel is the parameter \<open>parcel_ops\<close> with the law \<open>parcel_lawful\<close>; \<open>writes\<close> and \<open>reads\<close>
    compose along the fields.  \<open>Codec_Props\<close>: what is sent arrives.
  \<^item> \<open>Client_Results\<close> (\<open>async_common_event_result.cpp\<close>, \<open>common_event_subscriber.cpp\<close>,
    \<open>common_event_listener.cpp\<close>): results, subscribers and listeners of an application, with the
    record \<open>svc_ops\<close> of what a client calls; \<open>Client_Library\<close> (\<open>common_event.cpp\<close>,
    \<open>common_event_death_recipient.cpp\<close>, \<open>common_event_manager.cpp\<close>): the client library.
    \<open>Client_Steps\<close>: the runs of an application process, its invariant \<open>client_ok\<close> and the
    preorder \<open>evolves\<close>; \<open>Client_Invariant\<close>: every step is a \<open>good_step\<close>.  \<open>Client_Props\<close>,
    \<open>Client_Recovery\<close>: the table, answers, silence after unsubscribing, the restart of the
    service.  \<open>Client_Service\<close>: \<open>service_ops\<close> puts the modelled service behind the client's proxy,
    and calls are followed through both.
  \<^item> \<open>Dump_State\<close>: what the managers and the service tell about their state (\<open>DumpState\<close>,
    \<open>DumpDetailed\<close>, \<open>HiDump\<close>); \<open>Dump_Props\<close>: it never reads out of range and it shows the
    registry.  \<open>Command_Tool\<close> (\<open>tools/cem\<close>): the command line tool over the client library and the
    service, with the results of \<open>getopt_long\<close> as a parameter, and what \<open>cem publish\<close> does.
  \<^item> \<open>Capi_Parameters\<close> (\<open>oh_commonevent.cpp\<close>, \<open>oh_commonevent_parameters_parse.h\<close>): the typed
    parameters of an event in the C interface and the memory they hand out; the classes behind them
    are the parameter \<open>want_lib\<close> with the law \<open>want_lawful\<close>.  \<open>Capi_Memory\<close>: what is set is read
    back, and every block has one owner.  \<open>Capi_Subscriber\<close> (\<open>oh_commonevent_wrapper.cpp\<close>,
    \<open>oh_commonevent.cpp\<close>): subscribers, publications and the results of ordered events, over the client
    library; its state lies behind the client's proxy with \<open>capi_ops\<close>.  \<open>Kept_Results\<close>: the result
    of an ordered event that an interface keeps for its application; \<open>Capi_Answer\<close>: who answers an
    ordered event, and where the interface loses an answer or a block.
  \<^item> \<open>Napi_Values\<close> (\<open>kits/napi/common_event\<close>: \<open>common_event_parse.cpp\<close>,
    \<open>common_event_set_param.cpp\<close>): values of JavaScript, how arguments are read and results built;
    \<open>Napi_Interface\<close> (\<open>common_event.cpp\<close>): the functions of the module \<open>commonEvent\<close>.  Each function
    of the source holds two lambdas: executing and completing the work that it queues.  They are
    \<open>execute_body\<close> and \<open>complete_body\<close> of the \<open>napi_body\<close> of that work.  \<open>Napi_Props\<close>: what
    a publication, an ordered event and the information of a subscriber become on the way, and where
    the module loses something.
  \<^item> \<open>Manager_Values\<close>, \<open>Manager_Interface\<close>, \<open>Manager_Module\<close> (\<open>kits/napi/napi_common_event\<close>): the newer
    module \<open>commonEventManager\<close>, whose functions throw, hand the errors of the service on, and exist in
    a second form that works at once (\<open>...Sync\<close>).  Conversions are the parameter \<open>em_lib\<close>, the functions
    that the ArkTS binding sets in a subscriber the parameter \<open>ani_hooks\<close>.  \<open>Manager_Props\<close>: both modules
    accept and read the same arguments, a call throws or queues one work, how an ordered event is
    answered, and where the module loses something.
  \<^item> \<open>Sample_Instances\<close>: concrete values; \<open>Subscriber_Props\<close>, \<open>Control_Props\<close>,
    \<open>Delivery_Props\<close>, \<open>Unordered_Props\<close>, \<open>Policy_Props\<close>, \<open>Static_Props\<close> and
    \<open>Service_Props\<close>: the properties, each with an instance at a concrete input where it has a
    hypothesis.

  \<^bold>\<open>Conventions.\<close>  A \<open>shared_ptr\<close> to a record is a number into a heap that is a total
  function; operations allocate at the next number.  Arguments that may be null are \<open>option\<close>
  values, elements of containers are never null in the code and plain here.  The event data and
  publish info an event record points to are one cell of \<open>cs_payloads\<close>, shared by every copy of
  the record as in the code.  Time is an argument: one reading per step.  What leaves the process
  (IPC notifications, death recipients, system event reports, kills) is appended to a log in the
  state.  A task of a serial \<open>ffrt\<close> queue and an IPC call are atomic steps; the queues are fields
  of the state, so every interleaving of tasks and calls is a sequence of steps.  The iteration
  order of an \<open>unordered_map\<close> and the order of equal elements after an unstable sort are the
  list order here; no property depends on it.  The names are those of the source, with a suffix
  where a name is used twice.

  \<^bold>\<open>Bounds and termination.\<close>  No definition uses fuel.  \<open>Reconnect\<close> looks thirty times and
  \<open>CheckKvStore\<close> five times, by structural recursion on the tries that are left.  The loop of
  \<open>ProcessOrderedEventQueueLocked\<close> ends because it removes the head of the queue in every
  round.  \<open>own_measure\<close> shows that the manager finishes every ordered event without any answer of
  a receiver.  The overdue test of \<open>CheckTimeoutForceReceive\<close> is on 64-bit words, as written.

  \<^bold>\<open>Not modelled.\<close>  Logging, XCollie watchdogs, tracing, the generated IPC
  stubs (a parcel and the transport are parameters), the ArkTS and Cangjie bindings, and the code selected by
  \<open>WATCH_CUSTOMIZED_SCREEN_EVENT_TO_OTHER_APP\<close> (an optional library).
\<close>

end
